(* ===== verification/Pendant_Prelude.thy ===== *)
theory Pendant_Prelude
  imports Main "HOL-Library.Word"
begin

unbundle bit_operations_syntax

text \<open>
  Shared vocabulary of the development: the machine integers of the ARMv7 target
  (\<open>char\<close> is unsigned there, \<open>int\<close> and \<open>unsigned long\<close> are 32 bits wide), the flat
  32-bit address space as a function from addresses to bytes, the C library's
  \<open>memset\<close>, \<open>memcpy\<close> and \<open>memcmp\<close> on it, little-endian 32-bit accesses, and the lemmas
  on regions of that address space which every component that touches memory uses.
  Address arithmetic is arithmetic on \<open>32 word\<close>, so it wraps around as the
  hardware's does; an address \<open>a\<close> lies in the region of \<open>n\<close> bytes at \<open>p\<close> exactly when
  \<open>a - p < n\<close>.
\<close>

section \<open>Machine integers\<close>

type_synonym u8 = "8 word"
type_synonym u16 = "16 word"
type_synonym u32 = "32 word"
type_synonym u64 = "64 word"

named_theorems mem_simps \<open>rewrite rules for reading back what was stored in memory\<close>

text \<open>The truth value of a C expression used as a condition.\<close>

definition c_true :: "'a::zero \<Rightarrow> bool" where
  "c_true x \<longleftrightarrow> x \<noteq> 0"

lemma c_true_bit_mask:
  "c_true (x AND push_bit n 1) \<longleftrightarrow> bit x n" if "n < LENGTH('a)" for x :: "'a::len word"
proof -
  have "x AND push_bit n 1 = (if bit x n then push_bit n 1 else 0)"
    using that by (intro bit_word_eqI) (auto simp: bit_simps)
  moreover have "push_bit n 1 \<noteq> (0::'a word)"
    using that by (simp flip: exp_eq_0_imp_not_bit add: push_bit_eq_mult)
  ultimately show ?thesis
    by (simp add: c_true_def)
qed

section \<open>Words and natural numbers\<close>

lemma word_of_nat_div:
  assumes "a < 2 ^ LENGTH('a)" and "b < 2 ^ LENGTH('a)"
  shows "(of_nat a div of_nat b :: 'a::len word) = of_nat (a div b)"
proof -
  have "a div b < 2 ^ LENGTH('a)"
    using assms(1) by (meson div_le_dividend le_less_trans)
  with assms show ?thesis
    by (simp add: word_unat_eq_iff unat_div unsigned_of_nat take_bit_nat_eq_self)
qed

lemma word_of_nat_less_iff:
  assumes "a < 2 ^ LENGTH('a)" and "b < 2 ^ LENGTH('a)"
  shows "(of_nat a < (of_nat b :: 'a::len word)) \<longleftrightarrow> a < b"
  using assms by (simp add: word_less_nat_alt unsigned_of_nat take_bit_nat_eq_self)

lemma ucast_of_nat_small:
  assumes "a < 2 ^ LENGTH('a)"
  shows "ucast (of_nat a :: 'a::len word) = (of_nat a :: 'b::len word)"
  using assms by (simp add: unsigned_of_nat take_bit_nat_eq_self)

section \<open>Memory\<close>

type_synonym memory = "u32 \<Rightarrow> u8"

definition in_region :: "u32 \<Rightarrow> u32 \<Rightarrow> u32 \<Rightarrow> bool" where
  "in_region p n a \<longleftrightarrow> a - p < n"

definition memset :: "u32 \<Rightarrow> u8 \<Rightarrow> u32 \<Rightarrow> memory \<Rightarrow> memory" where
  "memset p v n m = (\<lambda>a. if in_region p n a then v else m a)"

definition memcpy :: "u32 \<Rightarrow> u32 \<Rightarrow> u32 \<Rightarrow> memory \<Rightarrow> memory" where
  "memcpy dst src n m = (\<lambda>a. if in_region dst n a then m (src + (a - dst)) else m a)"

text \<open>Reading a run of bytes and storing a run of bytes (a local array copied to or from memory).\<close>

definition get_bytes :: "memory \<Rightarrow> u32 \<Rightarrow> nat \<Rightarrow> u8 list" where
  "get_bytes m p n = map (\<lambda>i. m (p + of_nat i)) [0..<n]"

definition put_bytes :: "u32 \<Rightarrow> u8 list \<Rightarrow> memory \<Rightarrow> memory" where
  "put_bytes p bs m = (\<lambda>a. if unat (a - p) < length bs then bs ! unat (a - p) else m a)"

text \<open>Little-endian 32-bit words, as the core loads and stores them.\<close>

definition bytes_of_u32 :: "u32 \<Rightarrow> u8 list" where
  "bytes_of_u32 w = [ucast w, ucast (drop_bit 8 w), ucast (drop_bit 16 w), ucast (drop_bit 24 w)]"

definition u32_of_bytes :: "u8 \<Rightarrow> u8 \<Rightarrow> u8 \<Rightarrow> u8 \<Rightarrow> u32" where
  "u32_of_bytes b0 b1 b2 b3 =
     ucast b0 OR push_bit 8 (ucast b1) OR push_bit 16 (ucast b2) OR push_bit 24 (ucast b3)"

definition read_le32 :: "memory \<Rightarrow> u32 \<Rightarrow> u32" where
  "read_le32 m p = u32_of_bytes (m p) (m (p + 1)) (m (p + 2)) (m (p + 3))"

definition write_le32 :: "u32 \<Rightarrow> u32 \<Rightarrow> memory \<Rightarrow> memory" where
  "write_le32 p w = put_bytes p (bytes_of_u32 w)"

section \<open>Laws of memory\<close>

lemma length_get_bytes [simp]: "length (get_bytes m p n) = n"
  by (simp add: get_bytes_def)

lemma nth_get_bytes [simp]: "i < n \<Longrightarrow> get_bytes m p n ! i = m (p + of_nat i)"
  by (simp add: get_bytes_def)

lemma length_bytes_of_u32 [simp]: "length (bytes_of_u32 w) = 4"
  by (simp add: bytes_of_u32_def)

lemma u32_of_bytes_of_u32 [simp]:
  "u32_of_bytes (ucast w) (ucast (drop_bit 8 w)) (ucast (drop_bit 16 w)) (ucast (drop_bit 24 w)) = w"
proof (rule bit_word_eqI)
  fix n
  assume "n < LENGTH(32)"
  then show "bit (u32_of_bytes (ucast w) (ucast (drop_bit 8 w)) (ucast (drop_bit 16 w))
      (ucast (drop_bit 24 w))) n = bit w n"
    by (cases "n < 8"; cases "n < 16"; cases "n < 24") (auto simp: u32_of_bytes_def bit_simps)
qed

lemma get_bytes_Suc: "get_bytes m p (Suc n) = m p # get_bytes m (p + 1) n"
  by (simp add: get_bytes_def upt_rec[of 0 "Suc n"] map_Suc_upt[symmetric] comp_def
      algebra_simps del: upt_Suc)

lemma get_bytes_0 [simp]: "get_bytes m p 0 = []"
  by (simp add: get_bytes_def)

lemma put_bytes_same:
  "i < length bs \<Longrightarrow> length bs \<le> 2 ^ 32 \<Longrightarrow> put_bytes p bs m (p + of_nat i) = bs ! i"
  by (simp add: put_bytes_def unsigned_of_nat take_bit_nat_eq_self)

lemma put_bytes_other:
  "length bs \<le> unat (a - p) \<Longrightarrow> put_bytes p bs m a = m a"
  by (simp add: put_bytes_def)

lemma get_put_bytes [mem_simps]:
  "length bs \<le> 2 ^ 32 \<Longrightarrow> n = length bs \<Longrightarrow> get_bytes (put_bytes p bs m) p n = bs"
  by (rule nth_equalityI) (simp_all add: put_bytes_same)

text \<open>
  The address of the byte at offset \<open>i\<close> of the object at \<open>p\<close>.  It is kept folded, so that
  rewriting compares offsets as natural numbers.
\<close>

definition field_at :: "u32 \<Rightarrow> nat \<Rightarrow> u32" where
  "field_at p i = p + of_nat i"

lemma field_at_field_at: "field_at p i + of_nat k = field_at p (i + k)"
  by (simp add: field_at_def)

lemma unat_field_at_diff:
  assumes "j < 2 ^ 32" and "i < 2 ^ 32"
  shows "unat (field_at p j - field_at p i) = (if i \<le> j then j - i else j + 2 ^ 32 - i)"
proof -
  have "unat (of_nat j - of_nat i :: u32) = (if i \<le> j then j - i else j + 2 ^ 32 - i)"
    using assms by (simp add: unat_sub_if' unsigned_of_nat take_bit_nat_eq_self)
  then show ?thesis
    by (simp add: field_at_def)
qed

text \<open>
  Two runs of bytes at offsets \<open>i\<close> and \<open>j\<close> of one object do not interfere when their
  intervals of offsets do not overlap.
\<close>

lemma put_bytes_byte_disjoint [mem_simps]:
  assumes "i + length bs \<le> j \<or> j < i" and "i + length bs \<le> 2 ^ 32" and "j < 2 ^ 32"
  shows "put_bytes (field_at p i) bs m (field_at p j) = m (field_at p j)"
proof (cases "bs = []")
  case True
  then show ?thesis by (simp add: put_bytes_def)
next
  case False
  then have "i < 2 ^ 32"
    using assms(2) by (cases bs) simp_all
  from unat_field_at_diff [OF assms(3) this, of p] assms
  have "length bs \<le> unat (field_at p j - field_at p i)"
    by auto
  then show ?thesis
    by (rule put_bytes_other)
qed

lemma get_put_disjoint [mem_simps]:
  assumes "j + n \<le> i \<or> i + length bs \<le> j" and "i + length bs \<le> 2 ^ 32" and "j + n \<le> 2 ^ 32"
  shows "get_bytes (put_bytes (field_at p i) bs m) (field_at p j) n = get_bytes m (field_at p j) n"
  using assms by (intro nth_equalityI) (auto simp: field_at_field_at put_bytes_byte_disjoint)

lemma read_le32_get_bytes:
  "read_le32 m p = (case get_bytes m p 4 of [b0, b1, b2, b3] \<Rightarrow> u32_of_bytes b0 b1 b2 b3)"
  by (simp add: read_le32_def get_bytes_def upt_rec)

lemma read_le32_cong: "get_bytes m p 4 = get_bytes m' p 4 \<Longrightarrow> read_le32 m p = read_le32 m' p"
  by (simp add: read_le32_get_bytes)

lemma read_write_le32 [mem_simps]: "read_le32 (write_le32 p w m) p = w"
  by (simp add: read_le32_get_bytes write_le32_def get_put_bytes) (simp add: bytes_of_u32_def)

lemma read_le32_put_disjoint [mem_simps]:
  assumes "j + 4 \<le> i \<or> i + length bs \<le> j" and "i + length bs \<le> 2 ^ 32" and "j + 4 \<le> 2 ^ 32"
  shows "read_le32 (put_bytes (field_at p i) bs m) (field_at p j) = read_le32 m (field_at p j)"
  using assms by (intro read_le32_cong get_put_disjoint) auto

lemma write_le32_disjoint [mem_simps]:
  assumes "i + 4 \<le> 2 ^ 32"
  shows "j + 4 \<le> i \<or> i + 4 \<le> j \<Longrightarrow> j + 4 \<le> 2 ^ 32 \<Longrightarrow>
      read_le32 (write_le32 (field_at p i) w m) (field_at p j) = read_le32 m (field_at p j)"
    and "j + n \<le> i \<or> i + 4 \<le> j \<Longrightarrow> j + n \<le> 2 ^ 32 \<Longrightarrow>
      get_bytes (write_le32 (field_at p i) w m) (field_at p j) n = get_bytes m (field_at p j) n"
    and "i + 4 \<le> j \<or> j < i \<Longrightarrow> j < 2 ^ 32 \<Longrightarrow>
      write_le32 (field_at p i) w m (field_at p j) = m (field_at p j)"
  using assms by (simp_all add: write_le32_def mem_simps)

lemma get_bytes_put_single [mem_simps]:
  assumes "k < n" and "j + n \<le> 2 ^ 32"
  shows "get_bytes (put_bytes (field_at p (j + k)) [v] m) (field_at p j) n
    = (get_bytes m (field_at p j) n)[k := v]"
proof (rule nth_equalityI; simp add: field_at_field_at)
  fix i
  assume i: "i < n"
  show "put_bytes (field_at p (j + k)) [v] m (field_at p (j + i))
      = (get_bytes m (field_at p j) n)[k := v] ! i"
  proof (cases "i = k")
    case True
    with i put_bytes_same [of 0 "[v]" "field_at p (j + k)" m] show ?thesis
      by simp
  next
    case False
    then have "put_bytes (field_at p (j + k)) [v] m (field_at p (j + i)) = m (field_at p (j + i))"
      using i assms by (intro put_bytes_byte_disjoint) auto
    with i False show ?thesis
      by (simp add: field_at_field_at)
  qed
qed

section \<open>Splitting runs of bytes\<close>

lemma get_bytes_add: "get_bytes m p (i + j) = get_bytes m p i @ get_bytes m (p + of_nat i) j"
  by (induction i arbitrary: p) (simp_all add: get_bytes_Suc add.assoc)

lemma get_bytes_eq_append:
  "get_bytes m p (length xs + length ys) = xs @ ys \<longleftrightarrow>
   get_bytes m p (length xs) = xs \<and> get_bytes m (p + of_nat (length xs)) (length ys) = ys"
  by (auto simp: get_bytes_add)

lemma memcpy_put_bytes: "memcpy dst src n m = put_bytes dst (get_bytes m src (unat n)) m"
  by (rule ext) (simp add: memcpy_def put_bytes_def in_region_def word_less_nat_alt)

lemma put_bytes_append:
  assumes "length xs + length ys \<le> 2 ^ 32"
  shows "put_bytes (p + of_nat (length xs)) ys (put_bytes p xs m) = put_bytes p (xs @ ys) m"
proof
  fix a
  have lx: "unat (of_nat (length xs) :: u32) = length xs" if "length xs < 2 ^ 32"
    using that by (simp add: unsigned_of_nat take_bit_nat_eq_self)
  have d: "unat (a - (p + of_nat (length xs)))
      = (if length xs \<le> unat (a - p) then unat (a - p) - length xs
         else unat (a - p) + 2 ^ 32 - length xs)" if "length xs < 2 ^ 32"
    using lx [OF that] unat_sub_if' [of "a - p" "of_nat (length xs)"]
    by (simp add: diff_diff_eq)
  show "put_bytes (p + of_nat (length xs)) ys (put_bytes p xs m) a = put_bytes p (xs @ ys) m a"
  proof (cases "ys = []")
    case True
    then show ?thesis
      by (simp add: put_bytes_def)
  next
    case False
    then have "length xs < 2 ^ 32"
      using assms by (cases ys) simp_all
    note d = d [OF this]
    show ?thesis
      using assms by (auto simp: put_bytes_def d nth_append)
  qed
qed

text \<open>Writes that end at or below \<open>S\<close> do not touch what lies from \<open>S\<close> on.\<close>

lemma above_write:
  assumes "unat p + n \<le> unat S" and "S \<le> (a :: u32)"
  shows "n \<le> unat (a - p)"
proof -
  have "p \<le> a"
    using assms by (simp add: word_le_nat_alt)
  then have "unat (a - p) = unat a - unat p"
    by (simp add: unat_sub)
  then show ?thesis
    using assms by (simp add: word_le_nat_alt)
qed

lemma put_bytes_above:
  "unat p + length bs \<le> unat S \<Longrightarrow> S \<le> a \<Longrightarrow> put_bytes p bs m a = m a"
  using above_write [of p "length bs" S a] by (simp add: put_bytes_def)

lemma memset_above:
  "unat p + unat n \<le> unat S \<Longrightarrow> S \<le> a \<Longrightarrow> memset p v n m a = m a"
  using above_write [of p "unat n" S a] by (simp add: memset_def in_region_def word_less_nat_alt)

lemma get_bytes_above:
  assumes "\<And>a. S \<le> a \<Longrightarrow> m a = m' a" and "S \<le> p" and "unat p + n \<le> 2 ^ 32"
  shows "get_bytes m p n = get_bytes m' p n"
proof (rule nth_equalityI; simp)
  fix i
  assume "i < n"
  then have "unat (p + of_nat i) = unat p + i"
    using assms(3) by (simp add: unat_plus_if' unsigned_of_nat take_bit_nat_eq_self)
  then show "m (p + of_nat i) = m' (p + of_nat i)"
    using assms(1,2) by (simp add: word_le_nat_alt)
qed

lemma unat_add_small: "unat x + unat y < 2 ^ 32 \<Longrightarrow> unat (x + y) = unat x + unat y" for x y :: u32
  using unat_add_lem [of x y] by simp

lemma read_le32_of_bytes: "get_bytes m p 4 = bytes_of_u32 w \<Longrightarrow> read_le32 m p = w"
  by (simp add: read_le32_get_bytes bytes_of_u32_def)

lemma get_bytes_split:
  "get_bytes m p (length (xs @ ys)) = xs @ ys \<Longrightarrow> get_bytes m p (length xs) = xs"
  "get_bytes m p (length (xs @ ys)) = xs @ ys \<Longrightarrow>
   get_bytes m (p + of_nat (length xs)) (length ys) = ys"
  by (simp_all add: get_bytes_eq_append)

text \<open>An address inside a run of bytes that does not wrap.\<close>

lemma region_bounds:
  fixes a p :: u32
  assumes "unat (a - p) < n" and "unat p + n \<le> 2 ^ 32"
  shows "unat p \<le> unat a" and "unat a < unat p + n"
proof -
  have "unat (p + (a - p)) = unat p + unat (a - p)"
    using assms by (intro unat_add_small) linarith
  then show "unat p \<le> unat a" "unat a < unat p + n"
    using assms(1) by simp_all
qed

end
