(* ===== verification/Pendant_Layout.thy ===== *)
theory Pendant_Layout
  imports Pendant_Prelude
begin

text \<open>
  The constants of \<open>include/configs/pendant.h\<close> and \<open>include/configs/mx6sabresd.h\<close>: the
  build configuration, the bootloader's error codes and boot modes, the partition of the NOR
  flash, the RAM areas used by the OS boot flow and the structure \<open>BSP_BOOT_INFO\<close> that the
  bootloader leaves in the shared argument area for EBOOT and Windows CE.

  \<open>BSP_BOOT_INFO\<close> is kept where the code keeps it, in memory: a field is written and read
  through its offset.  \<open>boot_info_of\<close> reads the whole structure as a record; the lemmas at
  the end show that each field store is a record update of that abstraction and that a store
  outside the argument area leaves it alone.
\<close>

named_theorems layout_defs \<open>the numeric definitions of the memory map\<close>

section \<open>Build configuration\<close>

text \<open>The preprocessor switches that select code in the board file.\<close>

record bsp_config =
  BSP_SUPPORT_AUTOSELECT :: bool
  BSP_SELECT_FIX_TOYOTA :: bool
  BSP_SUPPORT_TOYOTA :: bool
  BSP_SUPPORT_HIRATA :: bool
  BSP_SUPPORT_VERCHK :: bool
  BSP_SUPPORT_SUMERR :: bool

text \<open>The switches as \<open>mx6sabresd.h\<close> sets them.\<close>

definition mx6sabresd_config :: bsp_config where
  "mx6sabresd_config =
     \<lparr>BSP_SUPPORT_AUTOSELECT = False, BSP_SELECT_FIX_TOYOTA = False, BSP_SUPPORT_TOYOTA = False,
      BSP_SUPPORT_HIRATA = True, BSP_SUPPORT_VERCHK = False, BSP_SUPPORT_SUMERR = True\<rparr>"

section \<open>Error codes, boot modes, devices\<close>

definition ERROR_PP_BL_NO_ERROR :: u32 where "ERROR_PP_BL_NO_ERROR = 0"
definition ERROR_PP_BL_NO_USB_SD :: u32 where "ERROR_PP_BL_NO_USB_SD = 1"
definition ERROR_PP_BL_USB_INVALID_FS :: u32 where "ERROR_PP_BL_USB_INVALID_FS = 2"
definition ERROR_PP_BL_SD_INVALID_FS :: u32 where "ERROR_PP_BL_SD_INVALID_FS = 3"
definition ERROR_PP_BL_USB_NO_REFTEXT :: u32 where "ERROR_PP_BL_USB_NO_REFTEXT = 4"
definition ERROR_PP_BL_SD_NO_REFTEXT :: u32 where "ERROR_PP_BL_SD_NO_REFTEXT = 5"
definition ERROR_PP_BL_USB_NO_OSIMG :: u32 where "ERROR_PP_BL_USB_NO_OSIMG = 6"
definition ERROR_PP_BL_SD_NO_OSIMG :: u32 where "ERROR_PP_BL_SD_NO_OSIMG = 7"
definition ERROR_PP_BL_FLASH_NO_OSIMG :: u32 where "ERROR_PP_BL_FLASH_NO_OSIMG = 8"
definition ERROR_PP_BL_FLASH_ERROR :: u32 where "ERROR_PP_BL_FLASH_ERROR = 9"
definition ERROR_PP_BL_NK_SUM_ERROR :: u32 where "ERROR_PP_BL_NK_SUM_ERROR = 10"

lemmas error_code_defs =
  ERROR_PP_BL_NO_ERROR_def ERROR_PP_BL_NO_USB_SD_def ERROR_PP_BL_USB_INVALID_FS_def
  ERROR_PP_BL_SD_INVALID_FS_def ERROR_PP_BL_USB_NO_REFTEXT_def ERROR_PP_BL_SD_NO_REFTEXT_def
  ERROR_PP_BL_USB_NO_OSIMG_def ERROR_PP_BL_SD_NO_OSIMG_def ERROR_PP_BL_FLASH_NO_OSIMG_def
  ERROR_PP_BL_FLASH_ERROR_def ERROR_PP_BL_NK_SUM_ERROR_def

definition BOOT_CFG_BOOTMODE_0 :: u32 where "BOOT_CFG_BOOTMODE_0 = 0"
definition BOOT_CFG_BOOTMODE_1 :: u32 where "BOOT_CFG_BOOTMODE_1 = 1"
definition BOOT_CFG_BOOTMODE_2 :: u32 where "BOOT_CFG_BOOTMODE_2 = 2"
definition BOOT_CFG_BOOTMODE_3 :: u32 where "BOOT_CFG_BOOTMODE_3 = 3"
definition BOOT_CFG_BOOTMODE_4 :: u32 where "BOOT_CFG_BOOTMODE_4 = 4"
definition BOOT_CFG_BOOTMODE_5 :: u32 where "BOOT_CFG_BOOTMODE_5 = 5"
definition BOOT_CFG_BOOTMODE_6 :: u32 where "BOOT_CFG_BOOTMODE_6 = 6"
definition BOOT_CFG_BOOTMODE_7 :: u32 where "BOOT_CFG_BOOTMODE_7 = 7"
definition BOOT_CFG_BOOTMODE_8 :: u32 where "BOOT_CFG_BOOTMODE_8 = 8"

lemmas boot_mode_defs =
  BOOT_CFG_BOOTMODE_0_def BOOT_CFG_BOOTMODE_1_def BOOT_CFG_BOOTMODE_2_def
  BOOT_CFG_BOOTMODE_3_def BOOT_CFG_BOOTMODE_4_def BOOT_CFG_BOOTMODE_5_def
  BOOT_CFG_BOOTMODE_6_def BOOT_CFG_BOOTMODE_7_def BOOT_CFG_BOOTMODE_8_def

definition BOOT_DEVICE_SD :: u32 where "BOOT_DEVICE_SD = 0"
definition BOOT_DEVICE_NOR :: u32 where "BOOT_DEVICE_NOR = 5"
definition BOOT_STORAGE_USB :: u32 where "BOOT_STORAGE_USB = 1"
definition BOOT_STORAGE_SD :: u32 where "BOOT_STORAGE_SD = 2"

lemmas boot_device_defs =
  BOOT_DEVICE_SD_def BOOT_DEVICE_NOR_def BOOT_STORAGE_USB_def BOOT_STORAGE_SD_def

section \<open>The NOR flash\<close>

definition CSP_BASE_MEM_PA_EIM_CS0 :: u32 where [layout_defs]:
  "CSP_BASE_MEM_PA_EIM_CS0 = 0x08000000"

definition IMAGE_BOOT_NORDEV_NOR_PA_START :: u32 where [layout_defs]:
  "IMAGE_BOOT_NORDEV_NOR_PA_START = CSP_BASE_MEM_PA_EIM_CS0"
definition IMAGE_BOOT_NORDEV_NOR_SIZE :: u32 where [layout_defs]:
  "IMAGE_BOOT_NORDEV_NOR_SIZE = 128 * 1024 * 1024"
definition IMAGE_BOOT_NORDEV_NOR_PA_END :: u32 where [layout_defs]:
  "IMAGE_BOOT_NORDEV_NOR_PA_END = IMAGE_BOOT_NORDEV_NOR_PA_START + IMAGE_BOOT_NORDEV_NOR_SIZE - 1"

definition IMAGE_BOOT_UBOOTIMAGE_NOR_OFFSET :: u32 where [layout_defs]:
  "IMAGE_BOOT_UBOOTIMAGE_NOR_OFFSET = 0"
definition IMAGE_BOOT_UBOOTIMAGE_NOR_SIZE :: u32 where [layout_defs]:
  "IMAGE_BOOT_UBOOTIMAGE_NOR_SIZE = 512 * 1024"

definition IMAGE_BOOT_EBOOTIMAGE_NOR_OFFSET :: u32 where [layout_defs]:
  "IMAGE_BOOT_EBOOTIMAGE_NOR_OFFSET =
     IMAGE_BOOT_UBOOTIMAGE_NOR_OFFSET + IMAGE_BOOT_UBOOTIMAGE_NOR_SIZE"
definition IMAGE_BOOT_EBOOTIMAGE_NOR_PA_START :: u32 where [layout_defs]:
  "IMAGE_BOOT_EBOOTIMAGE_NOR_PA_START =
     IMAGE_BOOT_NORDEV_NOR_PA_START + IMAGE_BOOT_EBOOTIMAGE_NOR_OFFSET"
definition IMAGE_BOOT_EBOOTIMAGE_NOR_SIZE :: u32 where [layout_defs]:
  "IMAGE_BOOT_EBOOTIMAGE_NOR_SIZE = 512 * 1024"

definition IMAGE_BOOT_BMPIMAGE_NOR_OFFSET :: u32 where [layout_defs]:
  "IMAGE_BOOT_BMPIMAGE_NOR_OFFSET =
     IMAGE_BOOT_EBOOTIMAGE_NOR_OFFSET + IMAGE_BOOT_EBOOTIMAGE_NOR_SIZE"
definition IMAGE_BOOT_BMPIMAGE_NOR_PA_START :: u32 where [layout_defs]:
  "IMAGE_BOOT_BMPIMAGE_NOR_PA_START =
     IMAGE_BOOT_NORDEV_NOR_PA_START + IMAGE_BOOT_BMPIMAGE_NOR_OFFSET"
definition IMAGE_BOOT_BMPIMAGE_NOR_SIZE :: u32 where [layout_defs]:
  "IMAGE_BOOT_BMPIMAGE_NOR_SIZE = 1 * 1024 * 1024"

definition IMAGE_WINCE_REGISTRY_NOR_OFFSET :: u32 where [layout_defs]:
  "IMAGE_WINCE_REGISTRY_NOR_OFFSET =
     IMAGE_BOOT_BMPIMAGE_NOR_OFFSET + IMAGE_BOOT_BMPIMAGE_NOR_SIZE"
definition IMAGE_WINCE_REGISTRY_NOR_SIZE :: u32 where [layout_defs]:
  "IMAGE_WINCE_REGISTRY_NOR_SIZE = 1 * 1024 * 1024"

definition IMAGE_BOOT_BOOTCFG_NOR_OFFSET :: u32 where [layout_defs]:
  "IMAGE_BOOT_BOOTCFG_NOR_OFFSET =
     IMAGE_WINCE_REGISTRY_NOR_OFFSET + IMAGE_WINCE_REGISTRY_NOR_SIZE"
definition IMAGE_BOOT_BOOTCFG_NOR_SIZE :: u32 where [layout_defs]:
  "IMAGE_BOOT_BOOTCFG_NOR_SIZE = 128 * 1024"

definition IMAGE_SHARE_RESERVED_NOR_OFFSET :: u32 where [layout_defs]:
  "IMAGE_SHARE_RESERVED_NOR_OFFSET =
     IMAGE_BOOT_BOOTCFG_NOR_OFFSET + IMAGE_BOOT_BOOTCFG_NOR_SIZE"
definition IMAGE_SHARE_RESERVED_NOR_SIZE :: u32 where [layout_defs]:
  "IMAGE_SHARE_RESERVED_NOR_SIZE = 896 * 1024"

definition IMAGE_OS_LENGTH_NOR_OFFSET :: u32 where [layout_defs]:
  "IMAGE_OS_LENGTH_NOR_OFFSET = IMAGE_BOOT_BOOTCFG_NOR_OFFSET + IMAGE_BOOT_BOOTCFG_NOR_SIZE"
definition IMAGE_OS_LENGTH_NOR_SIZE :: u32 where [layout_defs]:
  "IMAGE_OS_LENGTH_NOR_SIZE = 128 * 1024"

definition IMAGE_MAC_ADDR_NOR_OFFSET :: u32 where [layout_defs]:
  "IMAGE_MAC_ADDR_NOR_OFFSET = IMAGE_OS_LENGTH_NOR_OFFSET + IMAGE_OS_LENGTH_NOR_SIZE"
definition IMAGE_MAC_ADDR_NOR_SIZE :: u32 where [layout_defs]:
  "IMAGE_MAC_ADDR_NOR_SIZE = 128 * 1024"

definition IMAGE_BOOT_NKIMAGE_NOR_OFFSET :: u32 where [layout_defs]:
  "IMAGE_BOOT_NKIMAGE_NOR_OFFSET =
     IMAGE_SHARE_RESERVED_NOR_OFFSET + IMAGE_SHARE_RESERVED_NOR_SIZE"
definition IMAGE_BOOT_NKIMAGE_NOR_SIZE :: u32 where [layout_defs]:
  "IMAGE_BOOT_NKIMAGE_NOR_SIZE = 120 * 1024 * 1024"

section \<open>RAM areas of the OS boot flow (\<open>mx6sabresd.c\<close>)\<close>

definition IMAGE_EBOOT_RAM_BASE_ADDR :: u32 where [layout_defs]:
  "IMAGE_EBOOT_RAM_BASE_ADDR = 0x10041000"
definition IMAGE_EBOOT_JUMP_ADDR :: u32 where [layout_defs]:
  "IMAGE_EBOOT_JUMP_ADDR = 0x10042000"
definition IMAGE_SHARE_ARGS_RA_CA_START :: u32 where [layout_defs]:
  "IMAGE_SHARE_ARGS_RA_CA_START = 0x10001000"
definition IMAGE_SHARE_ARGS_RAM_SIZE :: u32 where [layout_defs]:
  "IMAGE_SHARE_ARGS_RAM_SIZE = 0x00001000"
definition IMAGE_BOOT_NKIMAGE_RAM_PA_START :: u32 where [layout_defs]:
  "IMAGE_BOOT_NKIMAGE_RAM_PA_START = 0x10600000"
definition IMAGE_BOOT_NKIMAGE_RAM_PA_STORE_START :: u32 where [layout_defs]:
  "IMAGE_BOOT_NKIMAGE_RAM_PA_STORE_START = 0x18000000"
definition READ_FILE_MAX_SIZE :: u32 where [layout_defs]:
  "READ_FILE_MAX_SIZE = 256 * 1024 * 1024"
definition READ_FILE_MAX_SIZE_120 :: u32 where [layout_defs]:
  "READ_FILE_MAX_SIZE_120 = 120 * 1024 * 1024"
definition PHYS_SDRAM :: u32 where [layout_defs]: "PHYS_SDRAM = 0x10000000"
definition PHYS_SDRAM_SIZE :: u32 where [layout_defs]:
  "PHYS_SDRAM_SIZE = 1 * 256 * 1024 * 1024"

section \<open>The structure \<open>BSP_BOOT_INFO\<close>\<close>

text \<open>The fields of the structure as a record; \<open>AllowBootVersion\<close> exists only with
  \<open>BSP_SUPPORT_VERCHK\<close> and is empty otherwise.\<close>

record boot_info =
  bi_bootMode :: u32
  bi_errorCode :: u32
  bi_bootDevice :: u32
  bi_strage :: u32
  bi_osImageSize :: u32
  bi_KeyInfo :: "u8 list"
  bi_UbootVer :: "u8 list"
  bi_EbootVer :: "u8 list"
  bi_AllowBootVersion :: "u8 list"
  bi_boardVersion :: u8

text \<open>Field offsets under the ARM procedure call standard: five words, three arrays of 16
  bytes, the optional array of 8 bytes, one byte, padding up to a multiple of 4.\<close>

definition allow_len :: "bsp_config \<Rightarrow> nat" where
  "allow_len cfg = (if BSP_SUPPORT_VERCHK cfg then 8 else 0)"

definition boardVersion_off :: "bsp_config \<Rightarrow> nat" where
  "boardVersion_off cfg = 68 + allow_len cfg"

definition sizeof_BSP_BOOT_INFO :: "bsp_config \<Rightarrow> nat" where
  "sizeof_BSP_BOOT_INFO cfg = (boardVersion_off cfg + 1 + 3) div 4 * 4"

definition pBoootInfo :: "bsp_config \<Rightarrow> u32" where
  "pBoootInfo cfg =
     IMAGE_SHARE_ARGS_RA_CA_START + IMAGE_SHARE_ARGS_RAM_SIZE - of_nat (sizeof_BSP_BOOT_INFO cfg)"

definition boot_info_of :: "bsp_config \<Rightarrow> memory \<Rightarrow> boot_info" where
  "boot_info_of cfg m =
     (let p = pBoootInfo cfg in
      \<lparr>bi_bootMode = read_le32 m (field_at p 0),
       bi_errorCode = read_le32 m (field_at p 4),
       bi_bootDevice = read_le32 m (field_at p 8),
       bi_strage = read_le32 m (field_at p 12),
       bi_osImageSize = read_le32 m (field_at p 16),
       bi_KeyInfo = get_bytes m (field_at p 20) 16,
       bi_UbootVer = get_bytes m (field_at p 36) 16,
       bi_EbootVer = get_bytes m (field_at p 52) 16,
       bi_AllowBootVersion = get_bytes m (field_at p 68) (allow_len cfg),
       bi_boardVersion = m (field_at p (boardVersion_off cfg))\<rparr>)"

text \<open>The assignments \<open>pBoootInfo->field = v\<close>.\<close>

definition put_bootMode :: "bsp_config \<Rightarrow> u32 \<Rightarrow> memory \<Rightarrow> memory" where
  "put_bootMode cfg v = write_le32 (field_at (pBoootInfo cfg) 0) v"
definition put_errorCode :: "bsp_config \<Rightarrow> u32 \<Rightarrow> memory \<Rightarrow> memory" where
  "put_errorCode cfg v = write_le32 (field_at (pBoootInfo cfg) 4) v"
definition put_bootDevice :: "bsp_config \<Rightarrow> u32 \<Rightarrow> memory \<Rightarrow> memory" where
  "put_bootDevice cfg v = write_le32 (field_at (pBoootInfo cfg) 8) v"
definition put_strage :: "bsp_config \<Rightarrow> u32 \<Rightarrow> memory \<Rightarrow> memory" where
  "put_strage cfg v = write_le32 (field_at (pBoootInfo cfg) 12) v"
definition put_osImageSize :: "bsp_config \<Rightarrow> u32 \<Rightarrow> memory \<Rightarrow> memory" where
  "put_osImageSize cfg v = write_le32 (field_at (pBoootInfo cfg) 16) v"
definition put_KeyInfo :: "bsp_config \<Rightarrow> nat \<Rightarrow> u8 \<Rightarrow> memory \<Rightarrow> memory" where
  "put_KeyInfo cfg i v = put_bytes (field_at (pBoootInfo cfg) (20 + i)) [v]"
definition put_UbootVer :: "bsp_config \<Rightarrow> u8 list \<Rightarrow> memory \<Rightarrow> memory" where
  "put_UbootVer cfg bs = put_bytes (field_at (pBoootInfo cfg) 36) bs"
definition put_AllowBootVersion :: "bsp_config \<Rightarrow> u8 list \<Rightarrow> memory \<Rightarrow> memory" where
  "put_AllowBootVersion cfg bs = put_bytes (field_at (pBoootInfo cfg) 68) bs"
definition put_boardVersion :: "bsp_config \<Rightarrow> u8 \<Rightarrow> memory \<Rightarrow> memory" where
  "put_boardVersion cfg v = put_bytes (field_at (pBoootInfo cfg) (boardVersion_off cfg)) [v]"

lemmas put_defs =
  put_bootMode_def put_errorCode_def put_bootDevice_def put_strage_def put_osImageSize_def
  put_KeyInfo_def put_UbootVer_def put_AllowBootVersion_def put_boardVersion_def

section \<open>Lemmas on the structure\<close>

lemma allow_len_cases: "allow_len cfg = 0 \<or> allow_len cfg = 8"
  by (simp add: allow_len_def)

lemmas boot_info_unfold = boot_info_of_def put_defs Let_def boardVersion_off_def mem_simps

text \<open>Each store through the pointer is a record update of the structure.\<close>

lemma boot_info_put_word:
  "boot_info_of cfg (put_bootMode cfg v m) = (boot_info_of cfg m)\<lparr>bi_bootMode := v\<rparr>"
  "boot_info_of cfg (put_errorCode cfg v m) = (boot_info_of cfg m)\<lparr>bi_errorCode := v\<rparr>"
  "boot_info_of cfg (put_bootDevice cfg v m) = (boot_info_of cfg m)\<lparr>bi_bootDevice := v\<rparr>"
  "boot_info_of cfg (put_strage cfg v m) = (boot_info_of cfg m)\<lparr>bi_strage := v\<rparr>"
  "boot_info_of cfg (put_osImageSize cfg v m) = (boot_info_of cfg m)\<lparr>bi_osImageSize := v\<rparr>"
  using allow_len_cases [of cfg] by (auto simp: boot_info_unfold)

lemma boot_info_put_KeyInfo:
  assumes "i < 16"
  shows "boot_info_of cfg (put_KeyInfo cfg i v m)
    = (boot_info_of cfg m)\<lparr>bi_KeyInfo := (bi_KeyInfo (boot_info_of cfg m))[i := v]\<rparr>"
  using allow_len_cases [of cfg] assms by (auto simp: boot_info_unfold)

lemma boot_info_put_UbootVer:
  assumes "length bs = 16"
  shows "boot_info_of cfg (put_UbootVer cfg bs m) = (boot_info_of cfg m)\<lparr>bi_UbootVer := bs\<rparr>"
  using allow_len_cases [of cfg] assms by (auto simp: boot_info_unfold)

lemma boot_info_put_AllowBootVersion:
  assumes "length bs = allow_len cfg"
  shows "boot_info_of cfg (put_AllowBootVersion cfg bs m)
    = (boot_info_of cfg m)\<lparr>bi_AllowBootVersion := bs\<rparr>"
  using allow_len_cases [of cfg] assms by (auto simp: boot_info_unfold)

lemma boot_info_put_boardVersion:
  "boot_info_of cfg (put_boardVersion cfg v m) = (boot_info_of cfg m)\<lparr>bi_boardVersion := v\<rparr>"
  using allow_len_cases [of cfg]
    put_bytes_same [of 0 "[v]" "field_at (pBoootInfo cfg) (boardVersion_off cfg)" m]
  by (auto simp: boot_info_unfold)

lemmas boot_info_put =
  boot_info_put_word boot_info_put_KeyInfo boot_info_put_UbootVer
  boot_info_put_AllowBootVersion boot_info_put_boardVersion

text \<open>The structure only depends on the bytes of its own area.\<close>

lemma sizeof_BSP_BOOT_INFO_cases:
  "sizeof_BSP_BOOT_INFO cfg = (if BSP_SUPPORT_VERCHK cfg then 80 else 72)"
  by (simp add: sizeof_BSP_BOOT_INFO_def boardVersion_off_def allow_len_def)

lemma boot_info_of_cong:
  assumes "\<And>i. i < sizeof_BSP_BOOT_INFO cfg \<Longrightarrow>
      m (field_at (pBoootInfo cfg) i) = m' (field_at (pBoootInfo cfg) i)"
  shows "boot_info_of cfg m = boot_info_of cfg m'"
proof -
  have bytes: "get_bytes m (field_at (pBoootInfo cfg) j) n = get_bytes m' (field_at (pBoootInfo cfg) j) n"
    if "j + n \<le> sizeof_BSP_BOOT_INFO cfg" for j n
    using that by (intro nth_equalityI) (simp_all add: field_at_field_at assms)
  have words: "read_le32 m (field_at (pBoootInfo cfg) j) = read_le32 m' (field_at (pBoootInfo cfg) j)"
    if "j + 4 \<le> sizeof_BSP_BOOT_INFO cfg" for j
    using bytes [OF that] by (rule read_le32_cong)
  have byte: "m (field_at (pBoootInfo cfg) (boardVersion_off cfg))
      = m' (field_at (pBoootInfo cfg) (boardVersion_off cfg))"
    by (rule assms) (simp add: sizeof_BSP_BOOT_INFO_cases boardVersion_off_def allow_len_def)
  show ?thesis
    by (simp add: boot_info_of_def Let_def bytes words byte sizeof_BSP_BOOT_INFO_cases allow_len_def)
qed

end
