(* ===== verification/Mxc_Gpio.thy ===== *)
theory Mxc_Gpio
  imports Pendant_Layout
begin

text \<open>
  The machine the board code runs on, and the GPIO driver \<open>drivers/gpio/mxc_gpio.c\<close> with
  which it drives its pins.

  \<open>sys\<close> is the state: the data and direction registers of the seven GPIO banks, the other
  memory-mapped registers, memory, a logical clock, and the static variables of
  \<open>mx6sabresd.c\<close>, \<open>usb_storage.c\<close> and \<open>fat.c\<close>.  \<open>env\<close> is the world outside: what the pad status register of
  a bank reads as in a given state, and what the millisecond timer reads.  The logical clock
  advances with every pad status read and every delay, so that two reads may differ.

  A client drives pins by sequences of calls.  The locale \<open>gpio_lines\<close> states what such
  calls promise about the direction and the data bit of each pin and proves once what a
  sequence of calls leaves behind; the driver's register-level code is its interpretation
  \<open>mxc\<close>.
\<close>

section \<open>The machine\<close>

record gpio_regs =
  gpio_dr :: u32
  gpio_dir :: u32

datatype boot_device =
    WEIM_NOR_BOOT | ONE_NAND_BOOT | PATA_BOOT | SATA_BOOT | I2C_BOOT | SPI_NOR_BOOT
  | SD_BOOT | MMC_BOOT | NAND_BOOT | UNKNOWN_BOOT

text \<open>Block devices and partitions: the fields of \<open>block_dev_desc_t\<close> and
  \<open>disk_partition_t\<close> the storage code uses.\<close>

datatype if_type = IF_TYPE_USB | IF_TYPE_MMC

datatype part_type = PART_TYPE_UNKNOWN | PART_TYPE_DOS

text \<open>What the USB storage driver notes about a device when it probes it (\<open>struct us_data\<close>): the device,
  its slot in \<open>usb_stor\<close>, interface and endpoints.  The transport is chosen by \<open>us_protocol\<close>; the one part that
  changes later, \<open>flags\<close>, is the field \<open>us_flags\<close> of the machine.\<close>

record us_data =
  us_slot :: nat
  pusb_dev :: nat
  us_ifnum :: u8
  ep_in :: u8
  ep_out :: u8
  ep_int :: u8
  us_subclass :: u8
  us_protocol :: u8
  irqinterval :: u8

text \<open>\<open>bd_priv\<close> is \<open>priv\<close> followed to its \<open>privptr\<close>; cards have none.\<close>

record block_dev_desc =
  bd_if_type :: if_type
  bd_dev :: nat
  bd_part_type :: part_type
  bd_target :: u8
  bd_lun :: u8
  bd_type :: u8
  bd_removable :: bool
  bd_lba :: u32
  bd_blksz :: u32
  bd_priv :: "us_data option"

record disk_partition =
  part_start :: u32
  part_size :: u32
  part_blksz :: u32

text \<open>A host controller's configuration and a card slot: \<open>struct mmc_config\<close> and \<open>struct mmc\<close> of
  \<open>include/mmc.h\<close>.  \<open>mmc_esdhc_base\<close> is what the board reads through \<open>priv\<close>; the flags and
  the tests stored as \<open>int\<close> are \<open>bool\<close>.\<close>

record mmc_config =
  host_caps :: u32
  voltages :: u32
  f_min :: u32
  f_max :: u32
  b_max :: u32

record mmc =
  mmc_cfg :: mmc_config
  mmc_esdhc_base :: u32
  mmc_version :: u32
  mmc_has_init :: bool
  mmc_high_capacity :: bool
  mmc_bus_width :: u32
  mmc_clock :: u32
  mmc_card_caps :: u32
  mmc_ocr :: u32
  mmc_dsr :: u32
  mmc_dsr_imp :: u32
  mmc_scr :: "u32 list"
  mmc_csd :: "u32 list"
  mmc_cid :: "u32 list"
  mmc_rca :: u16
  mmc_part_support :: u8
  mmc_part_attr :: u8
  mmc_wr_rel_set :: u8
  mmc_part_config :: u8
  mmc_part_num :: u8
  mmc_tran_speed :: u32
  mmc_read_bl_len :: u32
  mmc_write_bl_len :: u32
  mmc_erase_grp_size :: u32
  mmc_hc_wp_grp_size :: u32
  mmc_capacity :: u64
  mmc_capacity_user :: u64
  mmc_capacity_boot :: u64
  mmc_capacity_rpmb :: u64
  mmc_capacity_gp :: "u64 list"
  mmc_enh_user_start :: u64
  mmc_enh_user_size :: u64
  mmc_block_dev :: block_dev_desc
  mmc_op_cond_pending :: bool
  mmc_init_in_progress :: bool
  mmc_ddr_mode :: bool

text \<open>The state of the card in the slot, as the SD specification names it; an idle card answers
  that it is busy for a number of further requests.\<close>

datatype sd_state = Sd_idle nat | Sd_ready | Sd_ident | Sd_stby | Sd_tran | Sd_data

text \<open>The registers of the SD host controller (\<open>struct fsl_esdhc\<close> of \<open>drivers/mmc/fsl_esdhc.c\<close>, those the
  driver uses), and the controller's state: what the registers hold, for how many more reads it is busy, what it reports
  after that, the memory as its DMA engine leaves it, and the memory as the processor reads it through its cache.\<close>

datatype esdhc_reg =
    Dsaddr | Blkattr | Cmdarg | Xfertyp | Cmdrsp0 | Cmdrsp1 | Cmdrsp2 | Cmdrsp3 | Prsstat | Proctl | Sysctl | Irqstat
  | Irqstaten | Irqsigen | Hostcapblt | Wml | Mixctrl | Vendorspec

record usdhc =
  esdhc_port :: "esdhc_reg \<Rightarrow> u32"
  line_wait :: nat
  cmd_wait :: nat
  data_wait :: nat
  reset_wait :: nat
  cmd_status :: u32
  data_status :: u32
  dma_mem :: memory
  cpu_mem :: memory

record sys =
  gpio_bank :: "nat \<Rightarrow> gpio_regs"
  mmio :: "u32 \<Rightarrow> u32"
  mem :: memory
  now :: nat
  boot_dev :: boot_device
  Board_Version :: u8
  g_AutoSel :: u8
  bootMode :: u32
  Allow_Boot_Version :: "u8 list"
  timePast :: u32
  timeInterval :: u32
  ledCount :: int
  ledEnable :: int
  usb_dev_desc :: "block_dev_desc list"
  cur_dev :: "block_dev_desc option"
  cur_part_info :: disk_partition
  do_fat_read_at_block :: "u8 list"
  CBWTag :: u32
  us_flags :: "nat \<Rightarrow> u32"
  sense_buf :: "u8 list"
  usb_status :: "nat \<Rightarrow> u32"
  usb_line :: "u8 list"
  mmc_devices :: "mmc list"
  sd_line :: sd_state
  sd_app :: bool
  usdhc1 :: usdhc

record env =
  gpio_psr :: "sys \<Rightarrow> nat \<Rightarrow> u32"
  timer_ms :: "sys \<Rightarrow> u32"

text \<open>\<open>udelay\<close>: only time passes.\<close>

definition udelay :: "nat \<Rightarrow> sys \<Rightarrow> sys" where
  "udelay usec s = s\<lparr>now := now s + usec\<rparr>"

text \<open>Memory-mapped registers other than GPIO.\<close>

definition readl :: "u32 \<Rightarrow> sys \<Rightarrow> u32" where
  "readl a s = mmio s a"

definition writel :: "u32 \<Rightarrow> u32 \<Rightarrow> sys \<Rightarrow> sys" where
  "writel v a s = s\<lparr>mmio := (mmio s)(a := v)\<rparr>"

section \<open>The driver\<close>

text \<open>\<open>IMX_GPIO_NR(port, index)\<close>\<close>

definition IMX_GPIO_NR :: "nat \<Rightarrow> nat \<Rightarrow> nat" where
  "IMX_GPIO_NR port index = (port - 1) * 32 + index mod 32"

definition GPIO_TO_PORT :: "nat \<Rightarrow> nat" where
  "GPIO_TO_PORT n = n div 32"

text \<open>The length of \<open>gpio_ports[]\<close> on this SoC.\<close>

definition n_gpio_ports :: nat where
  "n_gpio_ports = 7"

datatype mxc_gpio_direction = MXC_GPIO_DIRECTION_IN | MXC_GPIO_DIRECTION_OUT

definition set_bank :: "nat \<Rightarrow> gpio_regs \<Rightarrow> sys \<Rightarrow> sys" where
  "set_bank port r s = s\<lparr>gpio_bank := (gpio_bank s)(port := r)\<rparr>"

definition mxc_gpio_direction :: "nat \<Rightarrow> mxc_gpio_direction \<Rightarrow> sys \<Rightarrow> int \<times> sys" where
  "mxc_gpio_direction gpio direction s =
     (let port = GPIO_TO_PORT gpio in
      if port \<ge> n_gpio_ports then (- 1, s)
      else
        let gpio = gpio mod 32;
            regs = gpio_bank s port;
            l = gpio_dir regs;
            l = (case direction of
                   MXC_GPIO_DIRECTION_OUT \<Rightarrow> l OR push_bit gpio 1
                 | MXC_GPIO_DIRECTION_IN \<Rightarrow> l AND NOT (push_bit gpio 1))
        in (0, set_bank port (regs\<lparr>gpio_dir := l\<rparr>) s))"

definition gpio_set_value :: "nat \<Rightarrow> int \<Rightarrow> sys \<Rightarrow> int \<times> sys" where
  "gpio_set_value gpio value s =
     (let port = GPIO_TO_PORT gpio in
      if port \<ge> n_gpio_ports then (- 1, s)
      else
        let gpio = gpio mod 32;
            regs = gpio_bank s port;
            l = gpio_dr regs;
            l = (if c_true value then l OR push_bit gpio 1 else l AND NOT (push_bit gpio 1))
        in (0, set_bank port (regs\<lparr>gpio_dr := l\<rparr>) s))"

definition gpio_get_value :: "env \<Rightarrow> nat \<Rightarrow> sys \<Rightarrow> int \<times> sys" where
  "gpio_get_value e gpio s =
     (let port = GPIO_TO_PORT gpio in
      if port \<ge> n_gpio_ports then (- 1, s)
      else
        let gpio = gpio mod 32;
            val = drop_bit gpio (gpio_psr e s port) AND 1
        in (uint val, s\<lparr>now := Suc (now s)\<rparr>))"

definition gpio_direction_input :: "nat \<Rightarrow> sys \<Rightarrow> int \<times> sys" where
  "gpio_direction_input gpio s = mxc_gpio_direction gpio MXC_GPIO_DIRECTION_IN s"

definition gpio_direction_output :: "nat \<Rightarrow> int \<Rightarrow> sys \<Rightarrow> int \<times> sys" where
  "gpio_direction_output gpio value s =
     (let (ret, s) = gpio_set_value gpio value s in
      if ret < 0 then (ret, s)
      else mxc_gpio_direction gpio MXC_GPIO_DIRECTION_OUT s)"

section \<open>Sequences of calls\<close>

text \<open>The calls by which the board code drives its pins; their return values are not used.\<close>

datatype gpio_call =
    Direction_input nat
  | Direction_output nat int
  | Set_value nat int

primrec gpio_do :: "gpio_call \<Rightarrow> sys \<Rightarrow> sys" where
  "gpio_do (Direction_input g) s = snd (gpio_direction_input g s)"
| "gpio_do (Direction_output g v) s = snd (gpio_direction_output g v s)"
| "gpio_do (Set_value g v) s = snd (gpio_set_value g v s)"

definition gpio_run :: "gpio_call list \<Rightarrow> sys \<Rightarrow> sys" where
  "gpio_run cs s = fold gpio_do cs s"

text \<open>The direction and the data bit of a pin.\<close>

definition is_output :: "sys \<Rightarrow> nat \<Rightarrow> bool" where
  "is_output s g \<longleftrightarrow> bit (gpio_dir (gpio_bank s (GPIO_TO_PORT g))) (g mod 32)"

definition data_bit :: "sys \<Rightarrow> nat \<Rightarrow> bool" where
  "data_bit s g \<longleftrightarrow> bit (gpio_dr (gpio_bank s (GPIO_TO_PORT g))) (g mod 32)"

definition valid_gpio :: "nat \<Rightarrow> bool" where
  "valid_gpio g \<longleftrightarrow> GPIO_TO_PORT g < n_gpio_ports"

text \<open>What one call means for pin \<open>h\<close>, given its (direction, data bit) before the call.\<close>

fun pin_effect :: "nat \<Rightarrow> gpio_call \<Rightarrow> bool \<times> bool \<Rightarrow> bool \<times> bool" where
  "pin_effect h (Direction_input g) (d, v) = (if h = g then (False, v) else (d, v))"
| "pin_effect h (Direction_output g x) (d, v) = (if h = g then (True, c_true x) else (d, v))"
| "pin_effect h (Set_value g x) (d, v) = (if h = g then (d, c_true x) else (d, v))"

primrec call_pin :: "gpio_call \<Rightarrow> nat" where
  "call_pin (Direction_input g) = g"
| "call_pin (Direction_output g v) = g"
| "call_pin (Set_value g v) = g"

section \<open>The contract of the driver\<close>

locale gpio_lines =
  fixes call :: "gpio_call \<Rightarrow> 's \<Rightarrow> 's"
    and pin :: "'s \<Rightarrow> nat \<Rightarrow> bool \<times> bool"
    and valid :: "nat \<Rightarrow> bool"
  assumes call_effect: "valid h \<Longrightarrow> valid (call_pin c) \<Longrightarrow> pin (call c s) h = pin_effect h c (pin s h)"
begin

lemma run_effect:
  "valid h \<Longrightarrow> list_all (\<lambda>c. valid (call_pin c)) cs \<Longrightarrow>
   pin (fold call cs s) h = fold (pin_effect h) cs (pin s h)"
  by (induction cs arbitrary: s) (simp_all add: call_effect)

lemma run_untouched:
  assumes "valid h" and "list_all (\<lambda>c. valid (call_pin c)) cs" and "h \<notin> call_pin ` set cs"
  shows "pin (fold call cs s) h = pin s h"
proof -
  have "fold (pin_effect h) cs q = q" if "h \<notin> call_pin ` set cs" for q
    using that
  proof (induction cs arbitrary: q)
    case (Cons c cs)
    then show ?case
      by (cases q; cases c) auto
  qed simp
  with assms show ?thesis
    by (simp add: run_effect)
qed

text \<open>In a sequence that names every pin at most once, each pin ends as its call says.\<close>

lemma run_distinct:
  assumes "c \<in> set cs" and "distinct (map call_pin cs)" and "list_all (\<lambda>c. valid (call_pin c)) cs"
  shows "pin (fold call cs s) (call_pin c) = pin_effect (call_pin c) c (pin s (call_pin c))"
proof -
  obtain xs ys where cs: "cs = xs @ c # ys"
    using assms(1) by (auto dest: split_list)
  have "pin (fold call ys (call c (fold call xs s))) (call_pin c) = pin (call c (fold call xs s)) (call_pin c)"
    using assms(2,3) by (intro run_untouched) (auto simp: cs)
  moreover have "pin (fold call xs s) (call_pin c) = pin s (call_pin c)"
    using assms(2,3) by (intro run_untouched) (auto simp: cs)
  ultimately show ?thesis
    using assms(3) by (simp add: cs call_effect)
qed

text \<open>The last call on a pin decides.\<close>

lemma run_last_output:
  assumes "valid h" and "list_all (\<lambda>c. valid (call_pin c)) (cs @ Direction_output h v # ds)"
    and "h \<notin> call_pin ` set ds"
  shows "pin (fold call (cs @ Direction_output h v # ds) s) h = (True, c_true v)"
proof -
  have "pin (fold call ds (fold call (cs @ [Direction_output h v]) s)) h
      = pin (fold call (cs @ [Direction_output h v]) s) h"
    using assms by (intro run_untouched) auto
  also have "\<dots> = (True, c_true v)"
    using assms by (cases "pin (fold call cs s) h") (simp add: call_effect)
  finally show ?thesis
    by simp
qed

end

section \<open>The driver meets its contract\<close>

lemma bank_pin_eq_iff: "GPIO_TO_PORT h = GPIO_TO_PORT g \<and> h mod 32 = g mod 32 \<longleftrightarrow> h = g"
  unfolding GPIO_TO_PORT_def by (metis div_mult_mod_eq)

lemma gpio_bank_self: "\<exists>b. s = s\<lparr>gpio_bank := b\<rparr>" for s :: sys
  by (rule exI [of _ "gpio_bank s"]) simp

lemma gpio_do_frame:
  "\<exists>b. gpio_do c s = s\<lparr>gpio_bank := b\<rparr>"
proof -
  have dir: "\<exists>b. snd (mxc_gpio_direction g d s) = s\<lparr>gpio_bank := b\<rparr>" for g d s
    by (auto simp: mxc_gpio_direction_def Let_def set_bank_def intro: gpio_bank_self)
  have set: "\<exists>b. snd (gpio_set_value g v s) = s\<lparr>gpio_bank := b\<rparr>" for g v s
    by (auto simp: gpio_set_value_def Let_def set_bank_def intro: gpio_bank_self)
  show ?thesis
  proof (cases c)
    case (Direction_input g)
    then show ?thesis by (simp add: gpio_direction_input_def dir)
  next
    case (Direction_output g v)
    obtain b where b: "snd (gpio_set_value g v s) = s\<lparr>gpio_bank := b\<rparr>"
      using set by blast
    obtain b' where "snd (mxc_gpio_direction g MXC_GPIO_DIRECTION_OUT (s\<lparr>gpio_bank := b\<rparr>))
        = s\<lparr>gpio_bank := b\<rparr>\<lparr>gpio_bank := b'\<rparr>"
      using dir by blast
    then show ?thesis
      using b Direction_output by (auto simp: gpio_direction_output_def split_beta Let_def)
  next
    case (Set_value g v)
    then show ?thesis by (simp add: set)
  qed
qed

text \<open>GPIO calls change nothing but the GPIO banks.\<close>

lemma gpio_run_frame:
  "\<exists>b. gpio_run cs s = s\<lparr>gpio_bank := b\<rparr>"
proof (induction cs arbitrary: s)
  case Nil
  show ?case
    by (simp add: gpio_run_def gpio_bank_self)
next
  case (Cons c cs)
  obtain b where "gpio_do c s = s\<lparr>gpio_bank := b\<rparr>"
    using gpio_do_frame by blast
  with Cons [of "gpio_do c s"] show ?case
    by (auto simp: gpio_run_def)
qed

lemma gpio_run_fields [simp]:
  "mem (gpio_run cs s) = mem s" "mmio (gpio_run cs s) = mmio s" "now (gpio_run cs s) = now s"
  "boot_dev (gpio_run cs s) = boot_dev s" "Board_Version (gpio_run cs s) = Board_Version s"
  "g_AutoSel (gpio_run cs s) = g_AutoSel s" "bootMode (gpio_run cs s) = bootMode s"
  "Allow_Boot_Version (gpio_run cs s) = Allow_Boot_Version s"
  "timePast (gpio_run cs s) = timePast s" "timeInterval (gpio_run cs s) = timeInterval s"
  "ledCount (gpio_run cs s) = ledCount s" "ledEnable (gpio_run cs s) = ledEnable s"
  "cur_dev (gpio_run cs s) = cur_dev s" "cur_part_info (gpio_run cs s) = cur_part_info s"
  "usb_dev_desc (gpio_run cs s) = usb_dev_desc s"
  "do_fat_read_at_block (gpio_run cs s) = do_fat_read_at_block s"
  "mmc_devices (gpio_run cs s) = mmc_devices s" "sd_line (gpio_run cs s) = sd_line s" "sd_app (gpio_run cs s) = sd_app s"
  using gpio_run_frame [of cs s] by auto

definition pin_state :: "sys \<Rightarrow> nat \<Rightarrow> bool \<times> bool" where
  "pin_state s g = (is_output s g, data_bit s g)"

lemma pin_state_set_value:
  assumes "valid_gpio h" and "valid_gpio g"
  shows "pin_state (snd (gpio_set_value g v s)) h
    = (is_output s h, if h = g then c_true v else data_bit s h)"
  using assms bank_pin_eq_iff [of h g]
  by (auto simp: gpio_set_value_def Let_def set_bank_def pin_state_def is_output_def data_bit_def
      valid_gpio_def bit_simps)

lemma pin_state_direction:
  assumes "valid_gpio h" and "valid_gpio g"
  shows "pin_state (snd (mxc_gpio_direction g d s)) h
    = (if h = g then d = MXC_GPIO_DIRECTION_OUT else is_output s h, data_bit s h)"
  using assms bank_pin_eq_iff [of h g]
  by (cases d) (auto simp: mxc_gpio_direction_def Let_def set_bank_def pin_state_def is_output_def
      data_bit_def valid_gpio_def bit_simps)

lemma gpio_set_value_ret: "valid_gpio g \<Longrightarrow> fst (gpio_set_value g v s) = 0"
  by (simp add: gpio_set_value_def valid_gpio_def Let_def)

interpretation mxc: gpio_lines gpio_do pin_state valid_gpio
proof
  fix h c s
  assume h: "valid_gpio h" and g: "valid_gpio (call_pin c)"
  show "pin_state (gpio_do c s) h = pin_effect h c (pin_state s h)"
  proof (cases c)
    case (Direction_input g')
    with h g show ?thesis
      by (simp add: gpio_direction_input_def pin_state_direction) (simp add: pin_state_def)
  next
    case (Direction_output g' v)
    let ?s = "snd (gpio_set_value g' v s)"
    have "gpio_do c s = snd (mxc_gpio_direction g' MXC_GPIO_DIRECTION_OUT ?s)"
      using g Direction_output gpio_set_value_ret [of g' v s]
      by (simp add: gpio_direction_output_def split_beta Let_def)
    moreover have "(is_output ?s h, data_bit ?s h)
        = (is_output s h, if h = g' then c_true v else data_bit s h)"
      using pin_state_set_value [of h g' v s] h g Direction_output by (simp add: pin_state_def)
    ultimately show ?thesis
      using h g Direction_output by (simp add: pin_state_direction) (simp add: pin_state_def)
  next
    case (Set_value g' v)
    with h g show ?thesis
      by (simp add: pin_state_set_value) (simp add: pin_state_def)
  qed
qed

lemma gpio_run_Nil [simp]: "gpio_run [] s = s"
  by (simp add: gpio_run_def)

lemma gpio_run_append: "gpio_run (cs @ ds) s = gpio_run ds (gpio_run cs s)"
  by (simp add: gpio_run_def)

lemma gpio_run_pin:
  "valid_gpio h \<Longrightarrow> list_all (\<lambda>c. valid_gpio (call_pin c)) cs \<Longrightarrow>
   pin_state (gpio_run cs s) h = fold (pin_effect h) cs (pin_state s h)"
  by (simp add: gpio_run_def mxc.run_effect)

lemma gpio_run_untouched:
  "valid_gpio h \<Longrightarrow> list_all (\<lambda>c. valid_gpio (call_pin c)) cs \<Longrightarrow> h \<notin> call_pin ` set cs \<Longrightarrow>
   pin_state (gpio_run cs s) h = pin_state s h"
  by (simp add: gpio_run_def mxc.run_untouched)

lemma gpio_run_distinct:
  assumes "distinct (map call_pin cs)" and "list_all (\<lambda>c. valid_gpio (call_pin c)) cs"
  shows "Direction_input g \<in> set cs \<Longrightarrow> \<not> is_output (gpio_run cs s) g"
    and "Direction_output g v \<in> set cs \<Longrightarrow> pin_state (gpio_run cs s) g = (True, c_true v)"
  using mxc.run_distinct [OF _ assms, of "Direction_input g" s]
    mxc.run_distinct [OF _ assms, of "Direction_output g v" s]
  by (simp_all add: gpio_run_def pin_state_def)

lemma valid_IMX_GPIO_NR [simp]: "valid_gpio (IMX_GPIO_NR port index) \<longleftrightarrow> port \<le> 7"
  by (cases port) (auto simp: valid_gpio_def IMX_GPIO_NR_def GPIO_TO_PORT_def n_gpio_ports_def
      div_add1_eq)

text \<open>What a call does to the banks depends on the banks only.\<close>

lemma gpio_do_bank_cong:
  assumes "gpio_bank s = gpio_bank t"
  shows "gpio_bank (gpio_do c s) = gpio_bank (gpio_do c t)"
proof -
  have dir: "gpio_bank (snd (mxc_gpio_direction g d s)) = gpio_bank (snd (mxc_gpio_direction g d t))"
    if "gpio_bank s = gpio_bank t" for g d s t
    using that by (simp add: mxc_gpio_direction_def Let_def set_bank_def)
  have set: "fst (gpio_set_value g v s) = fst (gpio_set_value g v t)"
      "gpio_bank (snd (gpio_set_value g v s)) = gpio_bank (snd (gpio_set_value g v t))" for g v
    using assms by (simp_all add: gpio_set_value_def Let_def set_bank_def)
  show ?thesis
  proof (cases c)
    case (Direction_input g)
    then show ?thesis
      using dir [OF assms] by (simp add: gpio_direction_input_def)
  next
    case (Direction_output g v)
    then show ?thesis
      using dir [OF set(2)] set by (simp add: gpio_direction_output_def split_beta)
  next
    case (Set_value g v)
    then show ?thesis
      using set(2) by simp
  qed
qed

lemma gpio_run_bank_cong:
  assumes "gpio_bank s = gpio_bank t"
  shows "gpio_bank (gpio_run cs s) = gpio_bank (gpio_run cs t)"
  using assms
proof (induction cs arbitrary: s t)
  case (Cons c cs)
  from Cons.IH [OF gpio_do_bank_cong [OF Cons.prems]] show ?case
    by (simp add: gpio_run_def)
qed simp

lemma pin_state_bank: "gpio_bank s = gpio_bank t \<Longrightarrow> pin_state s = pin_state t"
  by (rule ext) (simp add: pin_state_def is_output_def data_bit_def)

lemma valid_gpio_less: "valid_gpio g \<longleftrightarrow> g < 224"
  by (auto simp: valid_gpio_def GPIO_TO_PORT_def n_gpio_ports_def)

text \<open>With these rules the effect of a concrete sequence of calls on a concrete pin computes.\<close>

lemma gpio_run_pin_pair:
  "valid_gpio h \<Longrightarrow> list_all (\<lambda>c. valid_gpio (call_pin c)) cs \<Longrightarrow>
   pin_state (gpio_run cs s) h = fold (pin_effect h) cs (is_output s h, data_bit s h)"
  by (simp add: gpio_run_pin) (simp add: pin_state_def)

lemmas pin_compute = gpio_run_pin_pair valid_gpio_less IMX_GPIO_NR_def c_true_def

lemma gpio_get_value_state:
  "valid_gpio g \<Longrightarrow> snd (gpio_get_value e g s) = s\<lparr>now := Suc (now s)\<rparr>"
  by (simp add: gpio_get_value_def valid_gpio_def Let_def)

lemma gpio_get_value_bit:
  assumes "valid_gpio g"
  shows "fst (gpio_get_value e g s) = of_bool (bit (gpio_psr e s (GPIO_TO_PORT g)) (g mod 32))"
proof -
  have "drop_bit (g mod 32) (gpio_psr e s (GPIO_TO_PORT g)) AND 1
      = of_bool (bit (gpio_psr e s (GPIO_TO_PORT g)) (g mod 32))"
    by (simp add: and_one_eq mod_2_eq_odd bit_iff_odd_drop_bit)
  then show ?thesis
    using assms by (simp add: gpio_get_value_def valid_gpio_def Let_def)
qed

end
