(* ===== verification/Iomux_V3.thy ===== *)
theory Iomux_V3
  imports Mxc_Gpio
begin

text \<open>
  The pin multiplexer: \<open>arch/arm/imx-common/iomux-v3.c\<close> and the packing of a pad
  configuration into 64 bits by the macros of \<open>asm/imx-common/iomux-v3.h\<close>, in the variant
  compiled for the i.MX6Solo (no shared configuration register, no LVE bit, one table entry per
  pad).

  The main lemma is that the driver unpacks exactly what \<open>IOMUX_PAD\<close> and \<open>MUX_PAD_CTRL\<close>
  packed: the three optional register writes carry the fields of the declaration.  A table of
  pads is then a list of register writes, and the value a register ends with is that of the last
  write to it.
\<close>

section \<open>Packing\<close>

type_synonym iomux_v3_cfg_t = u64

definition MUX_CTRL_OFS_SHIFT :: nat where "MUX_CTRL_OFS_SHIFT = 0"
definition MUX_CTRL_OFS_MASK :: iomux_v3_cfg_t where
  "MUX_CTRL_OFS_MASK = push_bit MUX_CTRL_OFS_SHIFT 0xfff"
definition MUX_PAD_CTRL_OFS_SHIFT :: nat where "MUX_PAD_CTRL_OFS_SHIFT = 12"
definition MUX_PAD_CTRL_OFS_MASK :: iomux_v3_cfg_t where
  "MUX_PAD_CTRL_OFS_MASK = push_bit MUX_PAD_CTRL_OFS_SHIFT 0xfff"
definition MUX_SEL_INPUT_OFS_SHIFT :: nat where "MUX_SEL_INPUT_OFS_SHIFT = 24"
definition MUX_SEL_INPUT_OFS_MASK :: iomux_v3_cfg_t where
  "MUX_SEL_INPUT_OFS_MASK = push_bit MUX_SEL_INPUT_OFS_SHIFT 0xfff"
definition MUX_MODE_SHIFT :: nat where "MUX_MODE_SHIFT = 36"
definition MUX_MODE_MASK :: iomux_v3_cfg_t where
  "MUX_MODE_MASK = push_bit MUX_MODE_SHIFT 0x1f"
definition MUX_PAD_CTRL_SHIFT :: nat where "MUX_PAD_CTRL_SHIFT = 41"
definition MUX_PAD_CTRL_MASK :: iomux_v3_cfg_t where
  "MUX_PAD_CTRL_MASK = push_bit MUX_PAD_CTRL_SHIFT 0x3ffff"
definition MUX_SEL_INPUT_SHIFT :: nat where "MUX_SEL_INPUT_SHIFT = 59"
definition MUX_SEL_INPUT_MASK :: iomux_v3_cfg_t where
  "MUX_SEL_INPUT_MASK = push_bit MUX_SEL_INPUT_SHIFT 0xf"

lemmas mux_field_defs =
  MUX_CTRL_OFS_SHIFT_def MUX_CTRL_OFS_MASK_def MUX_PAD_CTRL_OFS_SHIFT_def
  MUX_PAD_CTRL_OFS_MASK_def MUX_SEL_INPUT_OFS_SHIFT_def MUX_SEL_INPUT_OFS_MASK_def
  MUX_MODE_SHIFT_def MUX_MODE_MASK_def MUX_PAD_CTRL_SHIFT_def MUX_PAD_CTRL_MASK_def
  MUX_SEL_INPUT_SHIFT_def MUX_SEL_INPUT_MASK_def

definition MUX_PAD_CTRL :: "u32 \<Rightarrow> iomux_v3_cfg_t" where
  "MUX_PAD_CTRL x = push_bit MUX_PAD_CTRL_SHIFT (ucast x)"

definition IOMUX_PAD :: "u32 \<Rightarrow> u32 \<Rightarrow> u32 \<Rightarrow> u32 \<Rightarrow> u32 \<Rightarrow> u32 \<Rightarrow> iomux_v3_cfg_t" where
  "IOMUX_PAD pad_ctrl_ofs mux_ctrl_ofs mux_mode sel_input_ofs sel_input pad_ctrl =
     push_bit MUX_CTRL_OFS_SHIFT (ucast mux_ctrl_ofs) OR
     push_bit MUX_MODE_SHIFT (ucast mux_mode) OR
     push_bit MUX_PAD_CTRL_OFS_SHIFT (ucast pad_ctrl_ofs) OR
     push_bit MUX_PAD_CTRL_SHIFT (ucast pad_ctrl) OR
     push_bit MUX_SEL_INPUT_OFS_SHIFT (ucast sel_input_ofs) OR
     push_bit MUX_SEL_INPUT_SHIFT (ucast sel_input)"

section \<open>Pad control values\<close>

definition NO_PAD_CTRL :: u32 where "NO_PAD_CTRL = push_bit 17 1"
definition PAD_CTL_HYS :: u32 where "PAD_CTL_HYS = push_bit 16 1"
definition PAD_CTL_PKE :: u32 where "PAD_CTL_PKE = push_bit 12 1"
definition PAD_CTL_PUE :: u32 where "PAD_CTL_PUE = push_bit 13 1 OR PAD_CTL_PKE"
definition PAD_CTL_PUS_100K_DOWN :: u32 where "PAD_CTL_PUS_100K_DOWN = push_bit 14 0 OR PAD_CTL_PUE"
definition PAD_CTL_PUS_47K_UP :: u32 where "PAD_CTL_PUS_47K_UP = push_bit 14 1 OR PAD_CTL_PUE"
definition PAD_CTL_PUS_100K_UP :: u32 where "PAD_CTL_PUS_100K_UP = push_bit 14 2 OR PAD_CTL_PUE"
definition PAD_CTL_ODE :: u32 where "PAD_CTL_ODE = push_bit 11 1"
definition PAD_CTL_SPEED_LOW :: u32 where "PAD_CTL_SPEED_LOW = push_bit 6 1"
definition PAD_CTL_SPEED_MED :: u32 where "PAD_CTL_SPEED_MED = push_bit 6 2"
definition PAD_CTL_DSE_120ohm :: u32 where "PAD_CTL_DSE_120ohm = push_bit 3 2"
definition PAD_CTL_DSE_80ohm :: u32 where "PAD_CTL_DSE_80ohm = push_bit 3 3"
definition PAD_CTL_DSE_40ohm :: u32 where "PAD_CTL_DSE_40ohm = push_bit 3 6"
definition PAD_CTL_SRE_SLOW :: u32 where "PAD_CTL_SRE_SLOW = push_bit 0 0"
definition PAD_CTL_SRE_FAST :: u32 where "PAD_CTL_SRE_FAST = push_bit 0 1"

lemmas pad_ctl_defs =
  NO_PAD_CTRL_def PAD_CTL_HYS_def PAD_CTL_PKE_def PAD_CTL_PUE_def PAD_CTL_PUS_100K_DOWN_def
  PAD_CTL_PUS_47K_UP_def PAD_CTL_PUS_100K_UP_def PAD_CTL_ODE_def PAD_CTL_SPEED_LOW_def
  PAD_CTL_SPEED_MED_def PAD_CTL_DSE_120ohm_def PAD_CTL_DSE_80ohm_def PAD_CTL_DSE_40ohm_def PAD_CTL_SRE_SLOW_def
  PAD_CTL_SRE_FAST_def

section \<open>The driver\<close>

definition IOMUXC_BASE_ADDR :: u32 where "IOMUXC_BASE_ADDR = 0x02000000 + 0x80000 + 0x60000"

definition imx_iomux_v3_setup_pad :: "iomux_v3_cfg_t \<Rightarrow> sys \<Rightarrow> sys" where
  "imx_iomux_v3_setup_pad pad s =
     (let mux_ctrl_ofs = ucast (drop_bit MUX_CTRL_OFS_SHIFT (pad AND MUX_CTRL_OFS_MASK));
          mux_mode = ucast (drop_bit MUX_MODE_SHIFT (pad AND MUX_MODE_MASK));
          sel_input_ofs = ucast (drop_bit MUX_SEL_INPUT_OFS_SHIFT (pad AND MUX_SEL_INPUT_OFS_MASK));
          sel_input = ucast (drop_bit MUX_SEL_INPUT_SHIFT (pad AND MUX_SEL_INPUT_MASK));
          pad_ctrl_ofs = ucast (drop_bit MUX_PAD_CTRL_OFS_SHIFT (pad AND MUX_PAD_CTRL_OFS_MASK));
          pad_ctrl = ucast (drop_bit MUX_PAD_CTRL_SHIFT (pad AND MUX_PAD_CTRL_MASK));
          s = (if c_true mux_ctrl_ofs then writel mux_mode (IOMUXC_BASE_ADDR + mux_ctrl_ofs) s else s);
          s = (if c_true sel_input_ofs then writel sel_input (IOMUXC_BASE_ADDR + sel_input_ofs) s else s)
      in if \<not> c_true (pad_ctrl AND NO_PAD_CTRL) \<and> c_true pad_ctrl_ofs
         then writel pad_ctrl (IOMUXC_BASE_ADDR + pad_ctrl_ofs) s else s)"

text \<open>The stride is 1 on this SoC: the loop visits every entry of the table.\<close>

primrec imx_iomux_v3_setup_multiple_pads :: "iomux_v3_cfg_t list \<Rightarrow> sys \<Rightarrow> sys" where
  "imx_iomux_v3_setup_multiple_pads [] s = s"
| "imx_iomux_v3_setup_multiple_pads (p # pad_list) s =
     imx_iomux_v3_setup_multiple_pads pad_list (imx_iomux_v3_setup_pad p s)"

text \<open>The loop of \<open>imx_iomux_set_gpr_register\<close> that clears \<open>num_bits\<close> bits from \<open>start_bit + i\<close> on.\<close>

fun gpr_clear_bits :: "nat \<Rightarrow> nat \<Rightarrow> nat \<Rightarrow> u32 \<Rightarrow> u32" where
  "gpr_clear_bits start_bit i 0 reg = reg"
| "gpr_clear_bits start_bit i (Suc num_bits) reg =
     gpr_clear_bits start_bit (Suc i) num_bits (reg AND NOT (push_bit (start_bit + i) 1))"

definition imx_iomux_set_gpr_register :: "u32 \<Rightarrow> nat \<Rightarrow> nat \<Rightarrow> u32 \<Rightarrow> sys \<Rightarrow> sys" where
  "imx_iomux_set_gpr_register grp start_bit num_bits value s =
     (let reg = readl (IOMUXC_BASE_ADDR + grp * 4) s;
          reg = gpr_clear_bits start_bit 0 num_bits reg;
          reg = reg OR push_bit start_bit value
      in writel reg (IOMUXC_BASE_ADDR + grp * 4) s)"

section \<open>What a packed pad does\<close>

lemma bit_imp_less_of_less_exp:
  fixes x :: "'a::len word"
  assumes "bit x i" and "x < 2 ^ n"
  shows "i < n"
proof (rule ccontr)
  assume "\<not> i < n"
  have "odd (unat x div 2 ^ i)"
    using assms(1) by (simp flip: bit_iff_odd add: bit_unsigned_iff)
  then have "2 ^ i \<le> unat x"
    by (cases "unat x < 2 ^ i") simp_all
  moreover have "(2::nat) ^ n \<le> 2 ^ i"
    using \<open>\<not> i < n\<close> by simp
  moreover have "unat x < unat (2 ^ n :: 'a word)"
    using assms(2) by (simp add: word_less_nat_alt)
  moreover have "unat (2 ^ n :: 'a word) \<le> 2 ^ n"
    using unsigned_of_nat [of "2 ^ n", where 'b = 'a and 'a = nat] by simp
  ultimately show False
    by linarith
qed

definition iomux_write :: "u32 \<Rightarrow> u32 \<Rightarrow> sys \<Rightarrow> sys" where
  "iomux_write ofs v s = (if c_true ofs then writel v (IOMUXC_BASE_ADDR + ofs) s else s)"

text \<open>
  A pad declared by \<open>IOMUX_PAD\<close> with no pad control of its own and completed with
  \<open>MUX_PAD_CTRL(ctl)\<close> leads to the writes its declaration names: the multiplexer mode, the
  input selection, and the pad control unless \<open>ctl\<close> carries \<open>NO_PAD_CTRL\<close>.
\<close>

lemma iomux_fields:
  fixes pco mco mm sio si ctl :: u32
  assumes "pco < 2 ^ 12" "mco < 2 ^ 12" "mm < 2 ^ 5" "sio < 2 ^ 12" "si < 2 ^ 4" "ctl < 2 ^ 18"
  defines "pad \<equiv> IOMUX_PAD pco mco mm sio si 0 OR MUX_PAD_CTRL ctl"
  shows "ucast (drop_bit MUX_CTRL_OFS_SHIFT (pad AND MUX_CTRL_OFS_MASK)) = mco"
    and "ucast (drop_bit MUX_MODE_SHIFT (pad AND MUX_MODE_MASK)) = mm"
    and "ucast (drop_bit MUX_SEL_INPUT_OFS_SHIFT (pad AND MUX_SEL_INPUT_OFS_MASK)) = sio"
    and "ucast (drop_bit MUX_SEL_INPUT_SHIFT (pad AND MUX_SEL_INPUT_MASK)) = si"
    and "ucast (drop_bit MUX_PAD_CTRL_OFS_SHIFT (pad AND MUX_PAD_CTRL_OFS_MASK)) = pco"
    and "ucast (drop_bit MUX_PAD_CTRL_SHIFT (pad AND MUX_PAD_CTRL_MASK)) = ctl"
proof -
  have masks: "0xfff = (mask 12 :: u64)" "0x1f = (mask 5 :: u64)" "0x3ffff = (mask 18 :: u64)"
      "0xf = (mask 4 :: u64)"
    by (simp_all add: mask_eq_exp_minus_1)
  note lim = bit_imp_less_of_less_exp [OF _ assms(1)] bit_imp_less_of_less_exp [OF _ assms(2)]
    bit_imp_less_of_less_exp [OF _ assms(3)] bit_imp_less_of_less_exp [OF _ assms(4)]
    bit_imp_less_of_less_exp [OF _ assms(5)] bit_imp_less_of_less_exp [OF _ assms(6)]
  note unfold = pad_def IOMUX_PAD_def MUX_PAD_CTRL_def mux_field_defs masks
  show "ucast (drop_bit MUX_CTRL_OFS_SHIFT (pad AND MUX_CTRL_OFS_MASK)) = mco"
    by (rule bit_word_eqI) (auto simp: unfold bit_simps dest: lim)
  show "ucast (drop_bit MUX_MODE_SHIFT (pad AND MUX_MODE_MASK)) = mm"
    by (rule bit_word_eqI) (auto simp: unfold bit_simps dest: lim)
  show "ucast (drop_bit MUX_SEL_INPUT_OFS_SHIFT (pad AND MUX_SEL_INPUT_OFS_MASK)) = sio"
    by (rule bit_word_eqI) (auto simp: unfold bit_simps dest: lim)
  show "ucast (drop_bit MUX_SEL_INPUT_SHIFT (pad AND MUX_SEL_INPUT_MASK)) = si"
    by (rule bit_word_eqI) (auto simp: unfold bit_simps dest: lim)
  show "ucast (drop_bit MUX_PAD_CTRL_OFS_SHIFT (pad AND MUX_PAD_CTRL_OFS_MASK)) = pco"
    by (rule bit_word_eqI) (auto simp: unfold bit_simps dest: lim)
  show "ucast (drop_bit MUX_PAD_CTRL_SHIFT (pad AND MUX_PAD_CTRL_MASK)) = ctl"
    by (rule bit_word_eqI) (auto simp: unfold bit_simps dest: lim)
qed

lemma setup_pad_writes:
  assumes "pco < 2 ^ 12" "mco < 2 ^ 12" "mm < 2 ^ 5" "sio < 2 ^ 12" "si < 2 ^ 4" "ctl < 2 ^ 18"
  shows "imx_iomux_v3_setup_pad (IOMUX_PAD pco mco mm sio si 0 OR MUX_PAD_CTRL ctl) s
    = (let s = iomux_write mco mm s;
           s = iomux_write sio si s
       in if c_true (ctl AND NO_PAD_CTRL) then s else iomux_write pco ctl s)"
  unfolding imx_iomux_v3_setup_pad_def iomux_fields [OF assms]
  by (simp add: iomux_write_def Let_def)

end
