(* ===== verification/Mx6dl_Pins.thy ===== *)
theory Mx6dl_Pins
  imports Iomux_V3
begin

text \<open>
  The pad declarations of \<open>asm/arch-mx6/mx6dl_pins.h\<close> that the tables of the board file use.
  Each is the enumeration constant \<open>MX6_PAD_DECLARE\<close> makes of one \<open>MX6_PAD_DECL\<close> line:
  pad control register offset, multiplexer register offset, multiplexer mode, input select
  register offset, input select value, pad control.
\<close>

named_theorems pin_defs \<open>the pad declarations\<close>

definition MX6_PAD_CSI0_DAT10__UART1_TX_DATA :: iomux_v3_cfg_t where [pin_defs]:
  "MX6_PAD_CSI0_DAT10__UART1_TX_DATA = IOMUX_PAD 0x0360 0x004C 3 0x0000 0 0"
definition MX6_PAD_CSI0_DAT11__UART1_RX_DATA :: iomux_v3_cfg_t where [pin_defs]:
  "MX6_PAD_CSI0_DAT11__UART1_RX_DATA = IOMUX_PAD 0x0364 0x0050 3 0x08FC 1 0"
definition MX6_PAD_CSI0_DAT12__EIM_DATA08 :: iomux_v3_cfg_t where [pin_defs]:
  "MX6_PAD_CSI0_DAT12__EIM_DATA08 = IOMUX_PAD 0x0368 0x0054 1 0x0000 0 0"
definition MX6_PAD_CSI0_DAT13__EIM_DATA09 :: iomux_v3_cfg_t where [pin_defs]:
  "MX6_PAD_CSI0_DAT13__EIM_DATA09 = IOMUX_PAD 0x036C 0x0058 1 0x0000 0 0"
definition MX6_PAD_CSI0_DAT14__EIM_DATA10 :: iomux_v3_cfg_t where [pin_defs]:
  "MX6_PAD_CSI0_DAT14__EIM_DATA10 = IOMUX_PAD 0x0370 0x005C 1 0x0000 0 0"
definition MX6_PAD_CSI0_DAT15__EIM_DATA11 :: iomux_v3_cfg_t where [pin_defs]:
  "MX6_PAD_CSI0_DAT15__EIM_DATA11 = IOMUX_PAD 0x0374 0x0060 1 0x0000 0 0"
definition MX6_PAD_CSI0_DAT16__EIM_DATA12 :: iomux_v3_cfg_t where [pin_defs]:
  "MX6_PAD_CSI0_DAT16__EIM_DATA12 = IOMUX_PAD 0x0378 0x0064 1 0x0000 0 0"
definition MX6_PAD_CSI0_DAT17__EIM_DATA13 :: iomux_v3_cfg_t where [pin_defs]:
  "MX6_PAD_CSI0_DAT17__EIM_DATA13 = IOMUX_PAD 0x037C 0x0068 1 0x0000 0 0"
definition MX6_PAD_CSI0_DAT18__EIM_DATA14 :: iomux_v3_cfg_t where [pin_defs]:
  "MX6_PAD_CSI0_DAT18__EIM_DATA14 = IOMUX_PAD 0x0380 0x006C 1 0x0000 0 0"
definition MX6_PAD_CSI0_DAT19__EIM_DATA15 :: iomux_v3_cfg_t where [pin_defs]:
  "MX6_PAD_CSI0_DAT19__EIM_DATA15 = IOMUX_PAD 0x0384 0x0070 1 0x0000 0 0"
definition MX6_PAD_CSI0_DAT4__EIM_DATA02 :: iomux_v3_cfg_t where [pin_defs]:
  "MX6_PAD_CSI0_DAT4__EIM_DATA02 = IOMUX_PAD 0x0388 0x0074 1 0x0000 0 0"
definition MX6_PAD_CSI0_DAT5__EIM_DATA03 :: iomux_v3_cfg_t where [pin_defs]:
  "MX6_PAD_CSI0_DAT5__EIM_DATA03 = IOMUX_PAD 0x038C 0x0078 1 0x0000 0 0"
definition MX6_PAD_CSI0_DAT6__EIM_DATA04 :: iomux_v3_cfg_t where [pin_defs]:
  "MX6_PAD_CSI0_DAT6__EIM_DATA04 = IOMUX_PAD 0x0390 0x007C 1 0x0000 0 0"
definition MX6_PAD_CSI0_DAT7__EIM_DATA05 :: iomux_v3_cfg_t where [pin_defs]:
  "MX6_PAD_CSI0_DAT7__EIM_DATA05 = IOMUX_PAD 0x0394 0x0080 1 0x0000 0 0"
definition MX6_PAD_CSI0_DAT8__EIM_DATA06 :: iomux_v3_cfg_t where [pin_defs]:
  "MX6_PAD_CSI0_DAT8__EIM_DATA06 = IOMUX_PAD 0x0398 0x0084 1 0x0000 0 0"
definition MX6_PAD_CSI0_DAT9__EIM_DATA07 :: iomux_v3_cfg_t where [pin_defs]:
  "MX6_PAD_CSI0_DAT9__EIM_DATA07 = IOMUX_PAD 0x039C 0x0088 1 0x0000 0 0"
definition MX6_PAD_CSI0_DATA_EN__EIM_DATA00 :: iomux_v3_cfg_t where [pin_defs]:
  "MX6_PAD_CSI0_DATA_EN__EIM_DATA00 = IOMUX_PAD 0x03A0 0x008C 1 0x0000 0 0"
definition MX6_PAD_CSI0_MCLK__GPIO5_IO19 :: iomux_v3_cfg_t where [pin_defs]:
  "MX6_PAD_CSI0_MCLK__GPIO5_IO19 = IOMUX_PAD 0x03A4 0x0090 5 0x0000 0 0"
definition MX6_PAD_CSI0_PIXCLK__GPIO5_IO18 :: iomux_v3_cfg_t where [pin_defs]:
  "MX6_PAD_CSI0_PIXCLK__GPIO5_IO18 = IOMUX_PAD 0x03A8 0x0094 5 0x0000 0 0"
definition MX6_PAD_CSI0_VSYNC__EIM_DATA01 :: iomux_v3_cfg_t where [pin_defs]:
  "MX6_PAD_CSI0_VSYNC__EIM_DATA01 = IOMUX_PAD 0x03AC 0x0098 1 0x0000 0 0"
definition MX6_PAD_DI0_DISP_CLK__IPU1_DI0_DISP_CLK :: iomux_v3_cfg_t where [pin_defs]:
  "MX6_PAD_DI0_DISP_CLK__IPU1_DI0_DISP_CLK = IOMUX_PAD 0x03B0 0x009C 0 0x0000 0 PAD_CTL_DSE_120ohm"
definition MX6_PAD_DI0_PIN15__IPU1_DI0_PIN15 :: iomux_v3_cfg_t where [pin_defs]:
  "MX6_PAD_DI0_PIN15__IPU1_DI0_PIN15 = IOMUX_PAD 0x03B4 0x00A0 0 0x0000 0 PAD_CTL_DSE_120ohm"
definition MX6_PAD_DI0_PIN2__IPU1_DI0_PIN02 :: iomux_v3_cfg_t where [pin_defs]:
  "MX6_PAD_DI0_PIN2__IPU1_DI0_PIN02 = IOMUX_PAD 0x03B8 0x00A4 0 0x0000 0 PAD_CTL_DSE_120ohm"
definition MX6_PAD_DI0_PIN3__IPU1_DI0_PIN03 :: iomux_v3_cfg_t where [pin_defs]:
  "MX6_PAD_DI0_PIN3__IPU1_DI0_PIN03 = IOMUX_PAD 0x03BC 0x00A8 0 0x0000 0 PAD_CTL_DSE_120ohm"
definition MX6_PAD_DISP0_DAT0__IPU1_DISP0_DATA00 :: iomux_v3_cfg_t where [pin_defs]:
  "MX6_PAD_DISP0_DAT0__IPU1_DISP0_DATA00 = IOMUX_PAD 0x03C4 0x00B0 0 0x0000 0 PAD_CTL_DSE_120ohm"
definition MX6_PAD_DISP0_DAT10__IPU1_DISP0_DATA10 :: iomux_v3_cfg_t where [pin_defs]:
  "MX6_PAD_DISP0_DAT10__IPU1_DISP0_DATA10 = IOMUX_PAD 0x03CC 0x00B8 0 0x0000 0 PAD_CTL_DSE_120ohm"
definition MX6_PAD_DISP0_DAT11__IPU1_DISP0_DATA11 :: iomux_v3_cfg_t where [pin_defs]:
  "MX6_PAD_DISP0_DAT11__IPU1_DISP0_DATA11 = IOMUX_PAD 0x03D0 0x00BC 0 0x0000 0 PAD_CTL_DSE_120ohm"
definition MX6_PAD_DISP0_DAT12__IPU1_DISP0_DATA12 :: iomux_v3_cfg_t where [pin_defs]:
  "MX6_PAD_DISP0_DAT12__IPU1_DISP0_DATA12 = IOMUX_PAD 0x03D4 0x00C0 0 0x0000 0 PAD_CTL_DSE_120ohm"
definition MX6_PAD_DISP0_DAT13__IPU1_DISP0_DATA13 :: iomux_v3_cfg_t where [pin_defs]:
  "MX6_PAD_DISP0_DAT13__IPU1_DISP0_DATA13 = IOMUX_PAD 0x03D8 0x00C4 0 0x0000 0 PAD_CTL_DSE_120ohm"
definition MX6_PAD_DISP0_DAT14__IPU1_DISP0_DATA14 :: iomux_v3_cfg_t where [pin_defs]:
  "MX6_PAD_DISP0_DAT14__IPU1_DISP0_DATA14 = IOMUX_PAD 0x03DC 0x00C8 0 0x0000 0 PAD_CTL_DSE_120ohm"
definition MX6_PAD_DISP0_DAT15__IPU1_DISP0_DATA15 :: iomux_v3_cfg_t where [pin_defs]:
  "MX6_PAD_DISP0_DAT15__IPU1_DISP0_DATA15 = IOMUX_PAD 0x03E0 0x00CC 0 0x0000 0 PAD_CTL_DSE_120ohm"
definition MX6_PAD_DISP0_DAT16__IPU1_DISP0_DATA16 :: iomux_v3_cfg_t where [pin_defs]:
  "MX6_PAD_DISP0_DAT16__IPU1_DISP0_DATA16 = IOMUX_PAD 0x03E4 0x00D0 0 0x0000 0 PAD_CTL_DSE_120ohm"
definition MX6_PAD_DISP0_DAT17__IPU1_DISP0_DATA17 :: iomux_v3_cfg_t where [pin_defs]:
  "MX6_PAD_DISP0_DAT17__IPU1_DISP0_DATA17 = IOMUX_PAD 0x03E8 0x00D4 0 0x0000 0 PAD_CTL_DSE_120ohm"
definition MX6_PAD_DISP0_DAT1__IPU1_DISP0_DATA01 :: iomux_v3_cfg_t where [pin_defs]:
  "MX6_PAD_DISP0_DAT1__IPU1_DISP0_DATA01 = IOMUX_PAD 0x03C8 0x00B4 0 0x0000 0 PAD_CTL_DSE_120ohm"
definition MX6_PAD_DISP0_DAT20__GPIO5_IO14 :: iomux_v3_cfg_t where [pin_defs]:
  "MX6_PAD_DISP0_DAT20__GPIO5_IO14 = IOMUX_PAD 0x03F8 0x00E4 5 0x0000 0 0"
definition MX6_PAD_DISP0_DAT21__GPIO5_IO15 :: iomux_v3_cfg_t where [pin_defs]:
  "MX6_PAD_DISP0_DAT21__GPIO5_IO15 = IOMUX_PAD 0x03FC 0x00E8 5 0x0000 0 0"
definition MX6_PAD_DISP0_DAT22__GPIO5_IO16 :: iomux_v3_cfg_t where [pin_defs]:
  "MX6_PAD_DISP0_DAT22__GPIO5_IO16 = IOMUX_PAD 0x0400 0x00EC 5 0x0000 0 0"
definition MX6_PAD_DISP0_DAT23__GPIO5_IO17 :: iomux_v3_cfg_t where [pin_defs]:
  "MX6_PAD_DISP0_DAT23__GPIO5_IO17 = IOMUX_PAD 0x0404 0x00F0 5 0x0000 0 0"
definition MX6_PAD_DISP0_DAT2__IPU1_DISP0_DATA02 :: iomux_v3_cfg_t where [pin_defs]:
  "MX6_PAD_DISP0_DAT2__IPU1_DISP0_DATA02 = IOMUX_PAD 0x03F4 0x00E0 0 0x0000 0 PAD_CTL_DSE_120ohm"
definition MX6_PAD_DISP0_DAT3__IPU1_DISP0_DATA03 :: iomux_v3_cfg_t where [pin_defs]:
  "MX6_PAD_DISP0_DAT3__IPU1_DISP0_DATA03 = IOMUX_PAD 0x0408 0x00F4 0 0x0000 0 PAD_CTL_DSE_120ohm"
definition MX6_PAD_DISP0_DAT4__IPU1_DISP0_DATA04 :: iomux_v3_cfg_t where [pin_defs]:
  "MX6_PAD_DISP0_DAT4__IPU1_DISP0_DATA04 = IOMUX_PAD 0x040C 0x00F8 0 0x0000 0 PAD_CTL_DSE_120ohm"
definition MX6_PAD_DISP0_DAT5__IPU1_DISP0_DATA05 :: iomux_v3_cfg_t where [pin_defs]:
  "MX6_PAD_DISP0_DAT5__IPU1_DISP0_DATA05 = IOMUX_PAD 0x0410 0x00FC 0 0x0000 0 PAD_CTL_DSE_120ohm"
definition MX6_PAD_DISP0_DAT6__IPU1_DISP0_DATA06 :: iomux_v3_cfg_t where [pin_defs]:
  "MX6_PAD_DISP0_DAT6__IPU1_DISP0_DATA06 = IOMUX_PAD 0x0414 0x0100 0 0x0000 0 PAD_CTL_DSE_120ohm"
definition MX6_PAD_DISP0_DAT7__IPU1_DISP0_DATA07 :: iomux_v3_cfg_t where [pin_defs]:
  "MX6_PAD_DISP0_DAT7__IPU1_DISP0_DATA07 = IOMUX_PAD 0x0418 0x0104 0 0x0000 0 PAD_CTL_DSE_120ohm"
definition MX6_PAD_DISP0_DAT8__IPU1_DISP0_DATA08 :: iomux_v3_cfg_t where [pin_defs]:
  "MX6_PAD_DISP0_DAT8__IPU1_DISP0_DATA08 = IOMUX_PAD 0x041C 0x0108 0 0x0000 0 PAD_CTL_DSE_120ohm"
definition MX6_PAD_DISP0_DAT9__IPU1_DISP0_DATA09 :: iomux_v3_cfg_t where [pin_defs]:
  "MX6_PAD_DISP0_DAT9__IPU1_DISP0_DATA09 = IOMUX_PAD 0x0420 0x010C 0 0x0000 0 PAD_CTL_DSE_120ohm"
definition MX6_PAD_EIM_A16__EIM_ADDR16 :: iomux_v3_cfg_t where [pin_defs]:
  "MX6_PAD_EIM_A16__EIM_ADDR16 = IOMUX_PAD 0x04E0 0x0110 0 0x0000 0 0"
definition MX6_PAD_EIM_A17__EIM_ADDR17 :: iomux_v3_cfg_t where [pin_defs]:
  "MX6_PAD_EIM_A17__EIM_ADDR17 = IOMUX_PAD 0x04E4 0x0114 0 0x0000 0 0"
definition MX6_PAD_EIM_A18__EIM_ADDR18 :: iomux_v3_cfg_t where [pin_defs]:
  "MX6_PAD_EIM_A18__EIM_ADDR18 = IOMUX_PAD 0x04E8 0x0118 0 0x0000 0 0"
definition MX6_PAD_EIM_A19__EIM_ADDR19 :: iomux_v3_cfg_t where [pin_defs]:
  "MX6_PAD_EIM_A19__EIM_ADDR19 = IOMUX_PAD 0x04EC 0x011C 0 0x0000 0 0"
definition MX6_PAD_EIM_A20__EIM_ADDR20 :: iomux_v3_cfg_t where [pin_defs]:
  "MX6_PAD_EIM_A20__EIM_ADDR20 = IOMUX_PAD 0x04F0 0x0120 0 0x0000 0 0"
definition MX6_PAD_EIM_A21__EIM_ADDR21 :: iomux_v3_cfg_t where [pin_defs]:
  "MX6_PAD_EIM_A21__EIM_ADDR21 = IOMUX_PAD 0x04F4 0x0124 0 0x0000 0 0"
definition MX6_PAD_EIM_A22__EIM_ADDR22 :: iomux_v3_cfg_t where [pin_defs]:
  "MX6_PAD_EIM_A22__EIM_ADDR22 = IOMUX_PAD 0x04F8 0x0128 0 0x0000 0 0"
definition MX6_PAD_EIM_A23__EIM_ADDR23 :: iomux_v3_cfg_t where [pin_defs]:
  "MX6_PAD_EIM_A23__EIM_ADDR23 = IOMUX_PAD 0x04FC 0x012C 0 0x0000 0 0"
definition MX6_PAD_EIM_A24__EIM_ADDR24 :: iomux_v3_cfg_t where [pin_defs]:
  "MX6_PAD_EIM_A24__EIM_ADDR24 = IOMUX_PAD 0x0500 0x0130 0 0x0000 0 0"
definition MX6_PAD_EIM_A25__EIM_ADDR25 :: iomux_v3_cfg_t where [pin_defs]:
  "MX6_PAD_EIM_A25__EIM_ADDR25 = IOMUX_PAD 0x0504 0x0134 0 0x0000 0 0"
definition MX6_PAD_EIM_CS0__EIM_CS0_B :: iomux_v3_cfg_t where [pin_defs]:
  "MX6_PAD_EIM_CS0__EIM_CS0_B = IOMUX_PAD 0x050C 0x013C 0 0x0000 0 0"
definition MX6_PAD_EIM_D16__GPIO3_IO16 :: iomux_v3_cfg_t where [pin_defs]:
  "MX6_PAD_EIM_D16__GPIO3_IO16 = IOMUX_PAD 0x0514 0x0144 5 0x0000 0 0"
definition MX6_PAD_EIM_D17__GPIO3_IO17 :: iomux_v3_cfg_t where [pin_defs]:
  "MX6_PAD_EIM_D17__GPIO3_IO17 = IOMUX_PAD 0x0518 0x0148 5 0x0000 0 0"
definition MX6_PAD_EIM_D18__GPIO3_IO18 :: iomux_v3_cfg_t where [pin_defs]:
  "MX6_PAD_EIM_D18__GPIO3_IO18 = IOMUX_PAD 0x051C 0x014C 5 0x0000 0 0"
definition MX6_PAD_EIM_D19__GPIO3_IO19 :: iomux_v3_cfg_t where [pin_defs]:
  "MX6_PAD_EIM_D19__GPIO3_IO19 = IOMUX_PAD 0x0520 0x0150 5 0x0000 0 0"
definition MX6_PAD_EIM_D20__GPIO3_IO20 :: iomux_v3_cfg_t where [pin_defs]:
  "MX6_PAD_EIM_D20__GPIO3_IO20 = IOMUX_PAD 0x0524 0x0154 5 0x0000 0 0"
definition MX6_PAD_EIM_D22__GPIO3_IO22 :: iomux_v3_cfg_t where [pin_defs]:
  "MX6_PAD_EIM_D22__GPIO3_IO22 = IOMUX_PAD 0x052C 0x015C 5 0x0000 0 0"
definition MX6_PAD_EIM_D22__USB_OTG_PWR :: iomux_v3_cfg_t where [pin_defs]:
  "MX6_PAD_EIM_D22__USB_OTG_PWR = IOMUX_PAD 0x052C 0x015C 4 0x0000 0 0"
definition MX6_PAD_EIM_D23__GPIO3_IO23 :: iomux_v3_cfg_t where [pin_defs]:
  "MX6_PAD_EIM_D23__GPIO3_IO23 = IOMUX_PAD 0x0530 0x0160 5 0x0000 0 0"
definition MX6_PAD_EIM_D26__GPIO3_IO26 :: iomux_v3_cfg_t where [pin_defs]:
  "MX6_PAD_EIM_D26__GPIO3_IO26 = IOMUX_PAD 0x053C 0x016C 5 0x0000 0 0"
definition MX6_PAD_EIM_D27__GPIO3_IO27 :: iomux_v3_cfg_t where [pin_defs]:
  "MX6_PAD_EIM_D27__GPIO3_IO27 = IOMUX_PAD 0x0540 0x0170 5 0x0000 0 0"
definition MX6_PAD_EIM_D29__GPIO3_IO29 :: iomux_v3_cfg_t where [pin_defs]:
  "MX6_PAD_EIM_D29__GPIO3_IO29 = IOMUX_PAD 0x0548 0x0178 5 0x0000 0 0"
definition MX6_PAD_EIM_D30__GPIO3_IO30 :: iomux_v3_cfg_t where [pin_defs]:
  "MX6_PAD_EIM_D30__GPIO3_IO30 = IOMUX_PAD 0x054C 0x017C 5 0x0000 0 0"
definition MX6_PAD_EIM_D31__GPIO3_IO31 :: iomux_v3_cfg_t where [pin_defs]:
  "MX6_PAD_EIM_D31__GPIO3_IO31 = IOMUX_PAD 0x0550 0x0180 5 0x0000 0 0"
definition MX6_PAD_EIM_DA0__EIM_AD00 :: iomux_v3_cfg_t where [pin_defs]:
  "MX6_PAD_EIM_DA0__EIM_AD00 = IOMUX_PAD 0x0554 0x0184 0 0x0000 0 0"
definition MX6_PAD_EIM_DA10__EIM_AD10 :: iomux_v3_cfg_t where [pin_defs]:
  "MX6_PAD_EIM_DA10__EIM_AD10 = IOMUX_PAD 0x055C 0x018C 0 0x0000 0 0"
definition MX6_PAD_EIM_DA11__EIM_AD11 :: iomux_v3_cfg_t where [pin_defs]:
  "MX6_PAD_EIM_DA11__EIM_AD11 = IOMUX_PAD 0x0560 0x0190 0 0x0000 0 0"
definition MX6_PAD_EIM_DA12__EIM_AD12 :: iomux_v3_cfg_t where [pin_defs]:
  "MX6_PAD_EIM_DA12__EIM_AD12 = IOMUX_PAD 0x0564 0x0194 0 0x0000 0 0"
definition MX6_PAD_EIM_DA13__EIM_AD13 :: iomux_v3_cfg_t where [pin_defs]:
  "MX6_PAD_EIM_DA13__EIM_AD13 = IOMUX_PAD 0x0568 0x0198 0 0x0000 0 0"
definition MX6_PAD_EIM_DA14__EIM_AD14 :: iomux_v3_cfg_t where [pin_defs]:
  "MX6_PAD_EIM_DA14__EIM_AD14 = IOMUX_PAD 0x056C 0x019C 0 0x0000 0 0"
definition MX6_PAD_EIM_DA15__EIM_AD15 :: iomux_v3_cfg_t where [pin_defs]:
  "MX6_PAD_EIM_DA15__EIM_AD15 = IOMUX_PAD 0x0570 0x01A0 0 0x0000 0 0"
definition MX6_PAD_EIM_DA1__EIM_AD01 :: iomux_v3_cfg_t where [pin_defs]:
  "MX6_PAD_EIM_DA1__EIM_AD01 = IOMUX_PAD 0x0558 0x0188 0 0x0000 0 0"
definition MX6_PAD_EIM_DA2__EIM_AD02 :: iomux_v3_cfg_t where [pin_defs]:
  "MX6_PAD_EIM_DA2__EIM_AD02 = IOMUX_PAD 0x0574 0x01A4 0 0x0000 0 0"
definition MX6_PAD_EIM_DA3__EIM_AD03 :: iomux_v3_cfg_t where [pin_defs]:
  "MX6_PAD_EIM_DA3__EIM_AD03 = IOMUX_PAD 0x0578 0x01A8 0 0x0000 0 0"
definition MX6_PAD_EIM_DA4__EIM_AD04 :: iomux_v3_cfg_t where [pin_defs]:
  "MX6_PAD_EIM_DA4__EIM_AD04 = IOMUX_PAD 0x057C 0x01AC 0 0x0000 0 0"
definition MX6_PAD_EIM_DA5__EIM_AD05 :: iomux_v3_cfg_t where [pin_defs]:
  "MX6_PAD_EIM_DA5__EIM_AD05 = IOMUX_PAD 0x0580 0x01B0 0 0x0000 0 0"
definition MX6_PAD_EIM_DA6__EIM_AD06 :: iomux_v3_cfg_t where [pin_defs]:
  "MX6_PAD_EIM_DA6__EIM_AD06 = IOMUX_PAD 0x0584 0x01B4 0 0x0000 0 0"
definition MX6_PAD_EIM_DA7__EIM_AD07 :: iomux_v3_cfg_t where [pin_defs]:
  "MX6_PAD_EIM_DA7__EIM_AD07 = IOMUX_PAD 0x0588 0x01B8 0 0x0000 0 0"
definition MX6_PAD_EIM_DA8__EIM_AD08 :: iomux_v3_cfg_t where [pin_defs]:
  "MX6_PAD_EIM_DA8__EIM_AD08 = IOMUX_PAD 0x058C 0x01BC 0 0x0000 0 0"
definition MX6_PAD_EIM_DA9__EIM_AD09 :: iomux_v3_cfg_t where [pin_defs]:
  "MX6_PAD_EIM_DA9__EIM_AD09 = IOMUX_PAD 0x0590 0x01C0 0 0x0000 0 0"
definition MX6_PAD_EIM_OE__EIM_OE_B :: iomux_v3_cfg_t where [pin_defs]:
  "MX6_PAD_EIM_OE__EIM_OE_B = IOMUX_PAD 0x05A8 0x01D8 0 0x0000 0 0"
definition MX6_PAD_EIM_RW__EIM_RW :: iomux_v3_cfg_t where [pin_defs]:
  "MX6_PAD_EIM_RW__EIM_RW = IOMUX_PAD 0x05AC 0x01DC 0 0x0000 0 0"
definition MX6_PAD_ENET_CRS_DV__ENET_RX_EN :: iomux_v3_cfg_t where [pin_defs]:
  "MX6_PAD_ENET_CRS_DV__ENET_RX_EN = IOMUX_PAD 0x05B4 0x01E4 1 0x0828 0 0"
definition MX6_PAD_ENET_CRS_DV__GPIO1_IO25 :: iomux_v3_cfg_t where [pin_defs]:
  "MX6_PAD_ENET_CRS_DV__GPIO1_IO25 = IOMUX_PAD 0x05B4 0x01E4 5 0x0000 0 0"
definition MX6_PAD_ENET_MDC__ENET_MDC :: iomux_v3_cfg_t where [pin_defs]:
  "MX6_PAD_ENET_MDC__ENET_MDC = IOMUX_PAD 0x05B8 0x01E8 1 0x0000 0 0"
definition MX6_PAD_ENET_MDIO__ENET_MDIO :: iomux_v3_cfg_t where [pin_defs]:
  "MX6_PAD_ENET_MDIO__ENET_MDIO = IOMUX_PAD 0x05BC 0x01EC 1 0x0810 0 0"
definition MX6_PAD_ENET_REF_CLK__ENET_TX_CLK :: iomux_v3_cfg_t where [pin_defs]:
  "MX6_PAD_ENET_REF_CLK__ENET_TX_CLK = IOMUX_PAD 0x05C0 0x01F0 (1 OR 0x10) 0x0000 0 0"
definition MX6_PAD_ENET_REF_CLK__GPIO1_IO23 :: iomux_v3_cfg_t where [pin_defs]:
  "MX6_PAD_ENET_REF_CLK__GPIO1_IO23 = IOMUX_PAD 0x05C0 0x01F0 5 0x0000 0 0"
definition MX6_PAD_ENET_RXD0__ENET_RX_DATA0 :: iomux_v3_cfg_t where [pin_defs]:
  "MX6_PAD_ENET_RXD0__ENET_RX_DATA0 = IOMUX_PAD 0x05C8 0x01F8 1 0x0818 0 0"
definition MX6_PAD_ENET_RXD0__GPIO1_IO27 :: iomux_v3_cfg_t where [pin_defs]:
  "MX6_PAD_ENET_RXD0__GPIO1_IO27 = IOMUX_PAD 0x05C8 0x01F8 5 0x0000 0 0"
definition MX6_PAD_ENET_RXD1__ENET_RX_DATA1 :: iomux_v3_cfg_t where [pin_defs]:
  "MX6_PAD_ENET_RXD1__ENET_RX_DATA1 = IOMUX_PAD 0x05CC 0x01FC 1 0x081C 0 0"
definition MX6_PAD_ENET_RXD1__GPIO1_IO26 :: iomux_v3_cfg_t where [pin_defs]:
  "MX6_PAD_ENET_RXD1__GPIO1_IO26 = IOMUX_PAD 0x05CC 0x01FC 5 0x0000 0 0"
definition MX6_PAD_ENET_RX_ER__ENET_RX_ER :: iomux_v3_cfg_t where [pin_defs]:
  "MX6_PAD_ENET_RX_ER__ENET_RX_ER = IOMUX_PAD 0x05C4 0x01F4 1 0x0000 0 0"
definition MX6_PAD_ENET_RX_ER__GPIO1_IO24 :: iomux_v3_cfg_t where [pin_defs]:
  "MX6_PAD_ENET_RX_ER__GPIO1_IO24 = IOMUX_PAD 0x05C4 0x01F4 5 0x0000 0 0"
definition MX6_PAD_ENET_RX_ER__USB_OTG_ID :: iomux_v3_cfg_t where [pin_defs]:
  "MX6_PAD_ENET_RX_ER__USB_OTG_ID = IOMUX_PAD 0x05C4 0x01F4 0 0x0790 0 0"
definition MX6_PAD_ENET_TXD0__ENET_TX_DATA0 :: iomux_v3_cfg_t where [pin_defs]:
  "MX6_PAD_ENET_TXD0__ENET_TX_DATA0 = IOMUX_PAD 0x05D4 0x0204 1 0x0000 0 0"
definition MX6_PAD_ENET_TXD0__GPIO1_IO30 :: iomux_v3_cfg_t where [pin_defs]:
  "MX6_PAD_ENET_TXD0__GPIO1_IO30 = IOMUX_PAD 0x05D4 0x0204 5 0x0000 0 0"
definition MX6_PAD_ENET_TXD1__ENET_TX_DATA1 :: iomux_v3_cfg_t where [pin_defs]:
  "MX6_PAD_ENET_TXD1__ENET_TX_DATA1 = IOMUX_PAD 0x05D8 0x0208 1 0x0000 0 0"
definition MX6_PAD_ENET_TXD1__GPIO1_IO29 :: iomux_v3_cfg_t where [pin_defs]:
  "MX6_PAD_ENET_TXD1__GPIO1_IO29 = IOMUX_PAD 0x05D8 0x0208 5 0x0000 0 0"
definition MX6_PAD_ENET_TX_EN__ENET_TX_EN :: iomux_v3_cfg_t where [pin_defs]:
  "MX6_PAD_ENET_TX_EN__ENET_TX_EN = IOMUX_PAD 0x05D0 0x0200 1 0x0000 0 0"
definition MX6_PAD_ENET_TX_EN__GPIO1_IO28 :: iomux_v3_cfg_t where [pin_defs]:
  "MX6_PAD_ENET_TX_EN__GPIO1_IO28 = IOMUX_PAD 0x05D0 0x0200 5 0x0000 0 0"
definition MX6_PAD_GPIO_0__GPIO1_IO00 :: iomux_v3_cfg_t where [pin_defs]:
  "MX6_PAD_GPIO_0__GPIO1_IO00 = IOMUX_PAD 0x05DC 0x020C 5 0x0000 0 0"
definition MX6_PAD_GPIO_16__GPIO7_IO11 :: iomux_v3_cfg_t where [pin_defs]:
  "MX6_PAD_GPIO_16__GPIO7_IO11 = IOMUX_PAD 0x05E4 0x0214 5 0x0000 0 0"
definition MX6_PAD_GPIO_17__GPIO7_IO12 :: iomux_v3_cfg_t where [pin_defs]:
  "MX6_PAD_GPIO_17__GPIO7_IO12 = IOMUX_PAD 0x05E8 0x0218 5 0x0000 0 0"
definition MX6_PAD_GPIO_18__GPIO7_IO13 :: iomux_v3_cfg_t where [pin_defs]:
  "MX6_PAD_GPIO_18__GPIO7_IO13 = IOMUX_PAD 0x05EC 0x021C 5 0x0000 0 0"
definition MX6_PAD_GPIO_19__GPIO4_IO05 :: iomux_v3_cfg_t where [pin_defs]:
  "MX6_PAD_GPIO_19__GPIO4_IO05 = IOMUX_PAD 0x05F0 0x0220 5 0x0000 0 0"
definition MX6_PAD_GPIO_1__GPIO1_IO01 :: iomux_v3_cfg_t where [pin_defs]:
  "MX6_PAD_GPIO_1__GPIO1_IO01 = IOMUX_PAD 0x05E0 0x0210 5 0x0000 0 0"
definition MX6_PAD_GPIO_2__GPIO1_IO02 :: iomux_v3_cfg_t where [pin_defs]:
  "MX6_PAD_GPIO_2__GPIO1_IO02 = IOMUX_PAD 0x05F4 0x0224 5 0x0000 0 0"
definition MX6_PAD_GPIO_3__USB_H1_OC :: iomux_v3_cfg_t where [pin_defs]:
  "MX6_PAD_GPIO_3__USB_H1_OC = IOMUX_PAD 0x05F8 0x0228 6 0x0924 1 0"
definition MX6_PAD_GPIO_4__GPIO1_IO04 :: iomux_v3_cfg_t where [pin_defs]:
  "MX6_PAD_GPIO_4__GPIO1_IO04 = IOMUX_PAD 0x05FC 0x022C 5 0x0000 0 0"
definition MX6_PAD_GPIO_5__GPIO1_IO05 :: iomux_v3_cfg_t where [pin_defs]:
  "MX6_PAD_GPIO_5__GPIO1_IO05 = IOMUX_PAD 0x0600 0x0230 5 0x0000 0 0"
definition MX6_PAD_GPIO_6__GPIO1_IO06 :: iomux_v3_cfg_t where [pin_defs]:
  "MX6_PAD_GPIO_6__GPIO1_IO06 = IOMUX_PAD 0x0604 0x0234 5 0x0000 0 0"
definition MX6_PAD_GPIO_9__PWM1_OUT :: iomux_v3_cfg_t where [pin_defs]:
  "MX6_PAD_GPIO_9__PWM1_OUT = IOMUX_PAD 0x0610 0x0240 4 0x0000 0 0"
definition MX6_PAD_KEY_COL0__ECSPI1_SCLK :: iomux_v3_cfg_t where [pin_defs]:
  "MX6_PAD_KEY_COL0__ECSPI1_SCLK = IOMUX_PAD 0x062C 0x0244 0 0x07D8 3 0"
definition MX6_PAD_KEY_COL0__GPIO4_IO06 :: iomux_v3_cfg_t where [pin_defs]:
  "MX6_PAD_KEY_COL0__GPIO4_IO06 = IOMUX_PAD 0x062C 0x0244 5 0x0000 0 0"
definition MX6_PAD_KEY_COL1__ECSPI1_MISO :: iomux_v3_cfg_t where [pin_defs]:
  "MX6_PAD_KEY_COL1__ECSPI1_MISO = IOMUX_PAD 0x0630 0x0248 0 0x07DC 3 0"
definition MX6_PAD_KEY_COL1__GPIO4_IO08 :: iomux_v3_cfg_t where [pin_defs]:
  "MX6_PAD_KEY_COL1__GPIO4_IO08 = IOMUX_PAD 0x0630 0x0248 5 0x0000 0 0"
definition MX6_PAD_KEY_COL2__GPIO4_IO10 :: iomux_v3_cfg_t where [pin_defs]:
  "MX6_PAD_KEY_COL2__GPIO4_IO10 = IOMUX_PAD 0x0634 0x024C 5 0x0000 0 0"
definition MX6_PAD_KEY_COL3__GPIO4_IO12 :: iomux_v3_cfg_t where [pin_defs]:
  "MX6_PAD_KEY_COL3__GPIO4_IO12 = IOMUX_PAD 0x0638 0x0250 5 0x0000 0 0"
definition MX6_PAD_KEY_COL4__GPIO4_IO14 :: iomux_v3_cfg_t where [pin_defs]:
  "MX6_PAD_KEY_COL4__GPIO4_IO14 = IOMUX_PAD 0x063C 0x0254 5 0x0000 0 0"
definition MX6_PAD_KEY_ROW0__ECSPI1_MOSI :: iomux_v3_cfg_t where [pin_defs]:
  "MX6_PAD_KEY_ROW0__ECSPI1_MOSI = IOMUX_PAD 0x0640 0x0258 0 0x07E0 3 0"
definition MX6_PAD_KEY_ROW0__GPIO4_IO07 :: iomux_v3_cfg_t where [pin_defs]:
  "MX6_PAD_KEY_ROW0__GPIO4_IO07 = IOMUX_PAD 0x0640 0x0258 5 0x0000 0 0"
definition MX6_PAD_KEY_ROW1__GPIO4_IO09 :: iomux_v3_cfg_t where [pin_defs]:
  "MX6_PAD_KEY_ROW1__GPIO4_IO09 = IOMUX_PAD 0x0644 0x025C 5 0x0000 0 0"
definition MX6_PAD_KEY_ROW2__GPIO4_IO11 :: iomux_v3_cfg_t where [pin_defs]:
  "MX6_PAD_KEY_ROW2__GPIO4_IO11 = IOMUX_PAD 0x0648 0x0260 5 0x0000 0 0"
definition MX6_PAD_KEY_ROW3__GPIO4_IO13 :: iomux_v3_cfg_t where [pin_defs]:
  "MX6_PAD_KEY_ROW3__GPIO4_IO13 = IOMUX_PAD 0x064C 0x0264 5 0x0000 0 0"
definition MX6_PAD_KEY_ROW4__GPIO4_IO15 :: iomux_v3_cfg_t where [pin_defs]:
  "MX6_PAD_KEY_ROW4__GPIO4_IO15 = IOMUX_PAD 0x0650 0x0268 5 0x0000 0 0"
definition MX6_PAD_NANDF_CS1__GPIO6_IO14 :: iomux_v3_cfg_t where [pin_defs]:
  "MX6_PAD_NANDF_CS1__GPIO6_IO14 = IOMUX_PAD 0x0660 0x0278 5 0x0000 0 0"
definition MX6_PAD_NANDF_CS2__GPIO6_IO15 :: iomux_v3_cfg_t where [pin_defs]:
  "MX6_PAD_NANDF_CS2__GPIO6_IO15 = IOMUX_PAD 0x0664 0x027C 5 0x0000 0 0"
definition MX6_PAD_NANDF_CS3__GPIO6_IO16 :: iomux_v3_cfg_t where [pin_defs]:
  "MX6_PAD_NANDF_CS3__GPIO6_IO16 = IOMUX_PAD 0x0668 0x0280 5 0x0000 0 0"
definition MX6_PAD_RGMII_RD0__RGMII_RD0 :: iomux_v3_cfg_t where [pin_defs]:
  "MX6_PAD_RGMII_RD0__RGMII_RD0 = IOMUX_PAD 0x0694 0x02AC 1 0x0818 1 0"
definition MX6_PAD_RGMII_RD1__RGMII_RD1 :: iomux_v3_cfg_t where [pin_defs]:
  "MX6_PAD_RGMII_RD1__RGMII_RD1 = IOMUX_PAD 0x0698 0x02B0 1 0x081C 1 0"
definition MX6_PAD_RGMII_RD2__RGMII_RD2 :: iomux_v3_cfg_t where [pin_defs]:
  "MX6_PAD_RGMII_RD2__RGMII_RD2 = IOMUX_PAD 0x069C 0x02B4 1 0x0820 1 0"
definition MX6_PAD_RGMII_RD3__RGMII_RD3 :: iomux_v3_cfg_t where [pin_defs]:
  "MX6_PAD_RGMII_RD3__RGMII_RD3 = IOMUX_PAD 0x06A0 0x02B8 1 0x0824 1 0"
definition MX6_PAD_RGMII_RXC__RGMII_RXC :: iomux_v3_cfg_t where [pin_defs]:
  "MX6_PAD_RGMII_RXC__RGMII_RXC = IOMUX_PAD 0x06A8 0x02C0 1 0x0814 1 0"
definition MX6_PAD_RGMII_RX_CTL__RGMII_RX_CTL :: iomux_v3_cfg_t where [pin_defs]:
  "MX6_PAD_RGMII_RX_CTL__RGMII_RX_CTL = IOMUX_PAD 0x06A4 0x02BC 1 0x0828 1 0"
definition MX6_PAD_RGMII_TD0__RGMII_TD0 :: iomux_v3_cfg_t where [pin_defs]:
  "MX6_PAD_RGMII_TD0__RGMII_TD0 = IOMUX_PAD 0x06AC 0x02C4 1 0x0000 0 0"
definition MX6_PAD_RGMII_TD1__RGMII_TD1 :: iomux_v3_cfg_t where [pin_defs]:
  "MX6_PAD_RGMII_TD1__RGMII_TD1 = IOMUX_PAD 0x06B0 0x02C8 1 0x0000 0 0"
definition MX6_PAD_RGMII_TD2__RGMII_TD2 :: iomux_v3_cfg_t where [pin_defs]:
  "MX6_PAD_RGMII_TD2__RGMII_TD2 = IOMUX_PAD 0x06B4 0x02CC 1 0x0000 0 0"
definition MX6_PAD_RGMII_TD3__RGMII_TD3 :: iomux_v3_cfg_t where [pin_defs]:
  "MX6_PAD_RGMII_TD3__RGMII_TD3 = IOMUX_PAD 0x06B8 0x02D0 1 0x0000 0 0"
definition MX6_PAD_RGMII_TXC__GPIO6_IO19 :: iomux_v3_cfg_t where [pin_defs]:
  "MX6_PAD_RGMII_TXC__GPIO6_IO19 = IOMUX_PAD 0x06C0 0x02D8 5 0x0000 0 0"
definition MX6_PAD_RGMII_TXC__RGMII_TXC :: iomux_v3_cfg_t where [pin_defs]:
  "MX6_PAD_RGMII_TXC__RGMII_TXC = IOMUX_PAD 0x06C0 0x02D8 1 0x0000 0 0"
definition MX6_PAD_RGMII_TX_CTL__RGMII_TX_CTL :: iomux_v3_cfg_t where [pin_defs]:
  "MX6_PAD_RGMII_TX_CTL__RGMII_TX_CTL = IOMUX_PAD 0x06BC 0x02D4 1 0x0000 0 0"
definition MX6_PAD_SD1_CLK__SD1_CLK :: iomux_v3_cfg_t where [pin_defs]:
  "MX6_PAD_SD1_CLK__SD1_CLK = IOMUX_PAD 0x06C4 0x02DC 0 0x0928 1 0"
definition MX6_PAD_SD1_CMD__SD1_CMD :: iomux_v3_cfg_t where [pin_defs]:
  "MX6_PAD_SD1_CMD__SD1_CMD = IOMUX_PAD 0x06C8 0x02E0 (0 OR 0x10) 0x0000 0 0"
definition MX6_PAD_SD1_DAT0__SD1_DATA0 :: iomux_v3_cfg_t where [pin_defs]:
  "MX6_PAD_SD1_DAT0__SD1_DATA0 = IOMUX_PAD 0x06CC 0x02E4 0 0x0000 0 0"
definition MX6_PAD_SD1_DAT1__SD1_DATA1 :: iomux_v3_cfg_t where [pin_defs]:
  "MX6_PAD_SD1_DAT1__SD1_DATA1 = IOMUX_PAD 0x06D0 0x02E8 0 0x0000 0 0"
definition MX6_PAD_SD1_DAT2__SD1_DATA2 :: iomux_v3_cfg_t where [pin_defs]:
  "MX6_PAD_SD1_DAT2__SD1_DATA2 = IOMUX_PAD 0x06D4 0x02EC 0 0x0000 0 0"
definition MX6_PAD_SD1_DAT3__SD1_DATA3 :: iomux_v3_cfg_t where [pin_defs]:
  "MX6_PAD_SD1_DAT3__SD1_DATA3 = IOMUX_PAD 0x06D8 0x02F0 0 0x0000 0 0"
definition MX6_PAD_SD2_CLK__GPIO1_IO10 :: iomux_v3_cfg_t where [pin_defs]:
  "MX6_PAD_SD2_CLK__GPIO1_IO10 = IOMUX_PAD 0x06DC 0x02F4 5 0x0000 0 0"
definition MX6_PAD_SD2_CMD__GPIO1_IO11 :: iomux_v3_cfg_t where [pin_defs]:
  "MX6_PAD_SD2_CMD__GPIO1_IO11 = IOMUX_PAD 0x06E0 0x02F8 5 0x0000 0 0"
definition MX6_PAD_SD2_DAT0__GPIO1_IO15 :: iomux_v3_cfg_t where [pin_defs]:
  "MX6_PAD_SD2_DAT0__GPIO1_IO15 = IOMUX_PAD 0x06E4 0x02FC 5 0x0000 0 0"
definition MX6_PAD_SD2_DAT1__GPIO1_IO14 :: iomux_v3_cfg_t where [pin_defs]:
  "MX6_PAD_SD2_DAT1__GPIO1_IO14 = IOMUX_PAD 0x06E8 0x0300 5 0x0000 0 0"
definition MX6_PAD_SD2_DAT2__GPIO1_IO13 :: iomux_v3_cfg_t where [pin_defs]:
  "MX6_PAD_SD2_DAT2__GPIO1_IO13 = IOMUX_PAD 0x06EC 0x0304 5 0x0000 0 0"
definition MX6_PAD_SD2_DAT3__GPIO1_IO12 :: iomux_v3_cfg_t where [pin_defs]:
  "MX6_PAD_SD2_DAT3__GPIO1_IO12 = IOMUX_PAD 0x06F0 0x0308 5 0x0000 0 0"
definition MX6_PAD_SD3_DAT5__GPIO7_IO00 :: iomux_v3_cfg_t where [pin_defs]:
  "MX6_PAD_SD3_DAT5__GPIO7_IO00 = IOMUX_PAD 0x0710 0x0328 5 0x0000 0 0"
definition MX6_PAD_SD3_DAT6__GPIO6_IO18 :: iomux_v3_cfg_t where [pin_defs]:
  "MX6_PAD_SD3_DAT6__GPIO6_IO18 = IOMUX_PAD 0x0714 0x032C 5 0x0000 0 0"
definition MX6_PAD_SD3_DAT7__GPIO6_IO17 :: iomux_v3_cfg_t where [pin_defs]:
  "MX6_PAD_SD3_DAT7__GPIO6_IO17 = IOMUX_PAD 0x0718 0x0330 5 0x0000 0 0"
definition MX6_PAD_SD4_DAT0__GPIO2_IO08 :: iomux_v3_cfg_t where [pin_defs]:
  "MX6_PAD_SD4_DAT0__GPIO2_IO08 = IOMUX_PAD 0x0728 0x0340 5 0x0000 0 0"
definition MX6_PAD_SD4_DAT1__PWM3_OUT :: iomux_v3_cfg_t where [pin_defs]:
  "MX6_PAD_SD4_DAT1__PWM3_OUT = IOMUX_PAD 0x072C 0x0344 2 0x0000 0 0"
definition MX6_PAD_SD4_DAT2__GPIO2_IO10 :: iomux_v3_cfg_t where [pin_defs]:
  "MX6_PAD_SD4_DAT2__GPIO2_IO10 = IOMUX_PAD 0x0730 0x0348 5 0x0000 0 0"
definition MX6_PAD_SD4_DAT2__SD4_DATA2 :: iomux_v3_cfg_t where [pin_defs]:
  "MX6_PAD_SD4_DAT2__SD4_DATA2 = IOMUX_PAD 0x0730 0x0348 1 0x0000 0 0"
definition MX6_PAD_SD4_DAT3__GPIO2_IO11 :: iomux_v3_cfg_t where [pin_defs]:
  "MX6_PAD_SD4_DAT3__GPIO2_IO11 = IOMUX_PAD 0x0734 0x034C 5 0x0000 0 0"
definition MX6_PAD_SD4_DAT4__GPIO2_IO12 :: iomux_v3_cfg_t where [pin_defs]:
  "MX6_PAD_SD4_DAT4__GPIO2_IO12 = IOMUX_PAD 0x0738 0x0350 5 0x0000 0 0"
definition MX6_PAD_SD4_DAT5__GPIO2_IO13 :: iomux_v3_cfg_t where [pin_defs]:
  "MX6_PAD_SD4_DAT5__GPIO2_IO13 = IOMUX_PAD 0x073C 0x0354 5 0x0000 0 0"
definition MX6_PAD_SD4_DAT6__GPIO2_IO14 :: iomux_v3_cfg_t where [pin_defs]:
  "MX6_PAD_SD4_DAT6__GPIO2_IO14 = IOMUX_PAD 0x0740 0x0358 5 0x0000 0 0"
definition MX6_PAD_SD4_DAT7__GPIO2_IO15 :: iomux_v3_cfg_t where [pin_defs]:
  "MX6_PAD_SD4_DAT7__GPIO2_IO15 = IOMUX_PAD 0x0744 0x035C 5 0x0000 0 0"

end
