(* ===== verification/Board_Pads.thy ===== *)
theory Board_Pads
  imports Mx6dl_Pins
begin

text \<open>
  The pad tables of \<open>mx6sabresd.c\<close> and the functions that load them into the pin
  multiplexer, with the EIM chip select registers of the NOR flash.  The tables are those of the
  compiled variant (\<open>BSP_BOARD_3RD\<close>, \<open>KEYINFO_EXIST\<close>, \<open>IMX6SOLO_PP\<close>); the two LED
  tables depend on \<open>BSP_SUPPORT_HIRATA\<close>.

  Loading a table is a list of register writes.  The lemmas compute that list from the tables
  and read off the final setting of the pads a person's safety depends on: the emergency stop and
  dead-man switches.
\<close>

named_theorems pad_tables \<open>the pad tables of the board file\<close>

section \<open>Pad control settings\<close>

definition UART_PAD_CTRL :: u32 where
  "UART_PAD_CTRL = PAD_CTL_PUS_100K_UP OR PAD_CTL_SPEED_MED OR PAD_CTL_DSE_40ohm OR
     PAD_CTL_SRE_FAST OR PAD_CTL_HYS"

definition USDHC_PAD_CTRL :: u32 where
  "USDHC_PAD_CTRL = PAD_CTL_PUS_47K_UP OR PAD_CTL_SPEED_LOW OR PAD_CTL_DSE_80ohm OR
     PAD_CTL_SRE_FAST OR PAD_CTL_HYS"

definition USDHC_100PU_PAD_CTRL :: u32 where
  "USDHC_100PU_PAD_CTRL = PAD_CTL_PUS_100K_UP OR PAD_CTL_SPEED_LOW OR PAD_CTL_DSE_80ohm OR
     PAD_CTL_SRE_FAST OR PAD_CTL_HYS"

definition ENET_PAD_CTRL :: u32 where
  "ENET_PAD_CTRL = PAD_CTL_PUS_100K_UP OR PAD_CTL_SPEED_MED OR PAD_CTL_DSE_40ohm OR PAD_CTL_HYS"

definition SPI_PAD_CTRL :: u32 where
  "SPI_PAD_CTRL = PAD_CTL_HYS OR PAD_CTL_SPEED_MED OR PAD_CTL_DSE_40ohm OR PAD_CTL_SRE_FAST"

definition GPIO_PD_PAD_CTRL :: u32 where
  "GPIO_PD_PAD_CTRL = PAD_CTL_SRE_SLOW OR PAD_CTL_DSE_40ohm OR PAD_CTL_SPEED_MED OR
     PAD_CTL_PUS_100K_DOWN OR PAD_CTL_HYS"

definition GPIO_PU_PAD_CTRL :: u32 where
  "GPIO_PU_PAD_CTRL = PAD_CTL_SRE_SLOW OR PAD_CTL_DSE_40ohm OR PAD_CTL_SPEED_MED OR
     PAD_CTL_PUS_100K_UP OR PAD_CTL_HYS"

definition GPIO_47PU_PAD_CTRL :: u32 where
  "GPIO_47PU_PAD_CTRL = PAD_CTL_SRE_SLOW OR PAD_CTL_DSE_40ohm OR PAD_CTL_SPEED_MED OR
     PAD_CTL_PUS_47K_UP OR PAD_CTL_HYS"

definition WEIM_NOR_PAD_CTRL :: u32 where
  "WEIM_NOR_PAD_CTRL = PAD_CTL_PKE OR PAD_CTL_PUE OR PAD_CTL_PUS_100K_UP OR PAD_CTL_SPEED_MED OR
     PAD_CTL_DSE_40ohm OR PAD_CTL_SRE_FAST"

lemmas board_pad_ctrl_defs =
  UART_PAD_CTRL_def USDHC_PAD_CTRL_def USDHC_100PU_PAD_CTRL_def ENET_PAD_CTRL_def
  SPI_PAD_CTRL_def GPIO_PD_PAD_CTRL_def GPIO_PU_PAD_CTRL_def GPIO_47PU_PAD_CTRL_def
  WEIM_NOR_PAD_CTRL_def

section \<open>The tables\<close>

definition uart1_pads :: "iomux_v3_cfg_t list" where [pad_tables]:
  "uart1_pads =
     [MX6_PAD_CSI0_DAT10__UART1_TX_DATA OR MUX_PAD_CTRL UART_PAD_CTRL,
      MX6_PAD_CSI0_DAT11__UART1_RX_DATA OR MUX_PAD_CTRL UART_PAD_CTRL]"

definition enet_pads :: "iomux_v3_cfg_t list" where [pad_tables]:
  "enet_pads =
     [MX6_PAD_ENET_MDIO__ENET_MDIO OR MUX_PAD_CTRL ENET_PAD_CTRL,
      MX6_PAD_ENET_MDC__ENET_MDC OR MUX_PAD_CTRL ENET_PAD_CTRL,
      MX6_PAD_RGMII_TXC__RGMII_TXC OR MUX_PAD_CTRL ENET_PAD_CTRL,
      MX6_PAD_RGMII_TD0__RGMII_TD0 OR MUX_PAD_CTRL ENET_PAD_CTRL,
      MX6_PAD_RGMII_TD1__RGMII_TD1 OR MUX_PAD_CTRL ENET_PAD_CTRL,
      MX6_PAD_RGMII_TD2__RGMII_TD2 OR MUX_PAD_CTRL ENET_PAD_CTRL,
      MX6_PAD_RGMII_TD3__RGMII_TD3 OR MUX_PAD_CTRL ENET_PAD_CTRL,
      MX6_PAD_RGMII_TX_CTL__RGMII_TX_CTL OR MUX_PAD_CTRL ENET_PAD_CTRL,
      MX6_PAD_ENET_REF_CLK__ENET_TX_CLK OR MUX_PAD_CTRL ENET_PAD_CTRL,
      MX6_PAD_RGMII_RXC__RGMII_RXC OR MUX_PAD_CTRL ENET_PAD_CTRL,
      MX6_PAD_RGMII_RD0__RGMII_RD0 OR MUX_PAD_CTRL ENET_PAD_CTRL,
      MX6_PAD_RGMII_RD1__RGMII_RD1 OR MUX_PAD_CTRL ENET_PAD_CTRL,
      MX6_PAD_RGMII_RD2__RGMII_RD2 OR MUX_PAD_CTRL ENET_PAD_CTRL,
      MX6_PAD_RGMII_RD3__RGMII_RD3 OR MUX_PAD_CTRL ENET_PAD_CTRL,
      MX6_PAD_RGMII_RX_CTL__RGMII_RX_CTL OR MUX_PAD_CTRL ENET_PAD_CTRL,
      MX6_PAD_SD4_DAT3__GPIO2_IO11 OR MUX_PAD_CTRL GPIO_PD_PAD_CTRL]"

definition enet_pads_3rd :: "iomux_v3_cfg_t list" where [pad_tables]:
  "enet_pads_3rd =
     [MX6_PAD_ENET_MDIO__ENET_MDIO OR MUX_PAD_CTRL ENET_PAD_CTRL,
      MX6_PAD_ENET_RX_ER__ENET_RX_ER OR MUX_PAD_CTRL ENET_PAD_CTRL,
      MX6_PAD_ENET_CRS_DV__ENET_RX_EN OR MUX_PAD_CTRL ENET_PAD_CTRL,
      MX6_PAD_ENET_RXD1__ENET_RX_DATA1 OR MUX_PAD_CTRL ENET_PAD_CTRL,
      MX6_PAD_ENET_RXD0__ENET_RX_DATA0 OR MUX_PAD_CTRL ENET_PAD_CTRL,
      MX6_PAD_ENET_TX_EN__ENET_TX_EN OR MUX_PAD_CTRL ENET_PAD_CTRL,
      MX6_PAD_ENET_TXD1__ENET_TX_DATA1 OR MUX_PAD_CTRL ENET_PAD_CTRL,
      MX6_PAD_ENET_TXD0__ENET_TX_DATA0 OR MUX_PAD_CTRL ENET_PAD_CTRL,
      MX6_PAD_ENET_MDC__ENET_MDC OR MUX_PAD_CTRL ENET_PAD_CTRL,
      MX6_PAD_SD4_DAT3__GPIO2_IO11 OR MUX_PAD_CTRL GPIO_PD_PAD_CTRL]"

definition gpio_pads_fast :: "iomux_v3_cfg_t list" where [pad_tables]:
  "gpio_pads_fast =
     [MX6_PAD_SD4_DAT2__GPIO2_IO10 OR MUX_PAD_CTRL NO_PAD_CTRL,
      MX6_PAD_GPIO_19__GPIO4_IO05 OR MUX_PAD_CTRL NO_PAD_CTRL]"

definition gpio_pads_3rd :: "iomux_v3_cfg_t list" where [pad_tables]:
  "gpio_pads_3rd =
     [MX6_PAD_GPIO_0__GPIO1_IO00 OR MUX_PAD_CTRL GPIO_PU_PAD_CTRL,
      MX6_PAD_GPIO_2__GPIO1_IO02 OR MUX_PAD_CTRL GPIO_PD_PAD_CTRL,
      MX6_PAD_GPIO_4__GPIO1_IO04 OR MUX_PAD_CTRL GPIO_PU_PAD_CTRL,
      MX6_PAD_GPIO_6__GPIO1_IO06 OR MUX_PAD_CTRL GPIO_PD_PAD_CTRL,
      MX6_PAD_SD2_CLK__GPIO1_IO10 OR MUX_PAD_CTRL GPIO_PD_PAD_CTRL,
      MX6_PAD_SD2_DAT3__GPIO1_IO12 OR MUX_PAD_CTRL GPIO_PU_PAD_CTRL,
      MX6_PAD_SD2_DAT1__GPIO1_IO14 OR MUX_PAD_CTRL GPIO_PD_PAD_CTRL,
      MX6_PAD_SD2_DAT0__GPIO1_IO15 OR MUX_PAD_CTRL GPIO_47PU_PAD_CTRL,
      MX6_PAD_ENET_REF_CLK__GPIO1_IO23 OR MUX_PAD_CTRL NO_PAD_CTRL,
      MX6_PAD_SD4_DAT3__GPIO2_IO11 OR MUX_PAD_CTRL GPIO_PD_PAD_CTRL,
      MX6_PAD_SD4_DAT4__GPIO2_IO12 OR MUX_PAD_CTRL NO_PAD_CTRL,
      MX6_PAD_SD4_DAT6__GPIO2_IO14 OR MUX_PAD_CTRL NO_PAD_CTRL,
      MX6_PAD_SD4_DAT7__GPIO2_IO15 OR MUX_PAD_CTRL NO_PAD_CTRL,
      MX6_PAD_EIM_D16__GPIO3_IO16 OR MUX_PAD_CTRL NO_PAD_CTRL,
      MX6_PAD_EIM_D17__GPIO3_IO17 OR MUX_PAD_CTRL NO_PAD_CTRL,
      MX6_PAD_EIM_D18__GPIO3_IO18 OR MUX_PAD_CTRL NO_PAD_CTRL,
      MX6_PAD_EIM_D19__GPIO3_IO19 OR MUX_PAD_CTRL NO_PAD_CTRL,
      MX6_PAD_EIM_D20__GPIO3_IO20 OR MUX_PAD_CTRL NO_PAD_CTRL,
      MX6_PAD_EIM_D22__GPIO3_IO22 OR MUX_PAD_CTRL NO_PAD_CTRL,
      MX6_PAD_EIM_D23__GPIO3_IO23 OR MUX_PAD_CTRL NO_PAD_CTRL,
      MX6_PAD_EIM_D26__GPIO3_IO26 OR MUX_PAD_CTRL NO_PAD_CTRL,
      MX6_PAD_EIM_D27__GPIO3_IO27 OR MUX_PAD_CTRL NO_PAD_CTRL,
      MX6_PAD_EIM_D29__GPIO3_IO29 OR MUX_PAD_CTRL NO_PAD_CTRL,
      MX6_PAD_EIM_D30__GPIO3_IO30 OR MUX_PAD_CTRL NO_PAD_CTRL,
      MX6_PAD_EIM_D31__GPIO3_IO31 OR MUX_PAD_CTRL NO_PAD_CTRL,
      MX6_PAD_KEY_COL0__GPIO4_IO06 OR MUX_PAD_CTRL GPIO_PU_PAD_CTRL,
      MX6_PAD_KEY_COL1__GPIO4_IO08 OR MUX_PAD_CTRL GPIO_PU_PAD_CTRL,
      MX6_PAD_KEY_COL2__GPIO4_IO10 OR MUX_PAD_CTRL GPIO_PU_PAD_CTRL,
      MX6_PAD_KEY_COL3__GPIO4_IO12 OR MUX_PAD_CTRL GPIO_PU_PAD_CTRL,
      MX6_PAD_KEY_COL4__GPIO4_IO14 OR MUX_PAD_CTRL GPIO_PU_PAD_CTRL,
      MX6_PAD_DISP0_DAT20__GPIO5_IO14 OR MUX_PAD_CTRL NO_PAD_CTRL,
      MX6_PAD_DISP0_DAT21__GPIO5_IO15 OR MUX_PAD_CTRL NO_PAD_CTRL,
      MX6_PAD_DISP0_DAT22__GPIO5_IO16 OR MUX_PAD_CTRL NO_PAD_CTRL,
      MX6_PAD_DISP0_DAT23__GPIO5_IO17 OR MUX_PAD_CTRL NO_PAD_CTRL,
      MX6_PAD_CSI0_PIXCLK__GPIO5_IO18 OR MUX_PAD_CTRL NO_PAD_CTRL,
      MX6_PAD_CSI0_MCLK__GPIO5_IO19 OR MUX_PAD_CTRL GPIO_PD_PAD_CTRL,
      MX6_PAD_NANDF_CS1__GPIO6_IO14 OR MUX_PAD_CTRL GPIO_PD_PAD_CTRL,
      MX6_PAD_NANDF_CS2__GPIO6_IO15 OR MUX_PAD_CTRL NO_PAD_CTRL,
      MX6_PAD_NANDF_CS3__GPIO6_IO16 OR MUX_PAD_CTRL NO_PAD_CTRL,
      MX6_PAD_SD3_DAT7__GPIO6_IO17 OR MUX_PAD_CTRL GPIO_PU_PAD_CTRL,
      MX6_PAD_SD3_DAT6__GPIO6_IO18 OR MUX_PAD_CTRL GPIO_PU_PAD_CTRL,
      MX6_PAD_RGMII_TXC__GPIO6_IO19 OR MUX_PAD_CTRL NO_PAD_CTRL,
      MX6_PAD_SD3_DAT5__GPIO7_IO00 OR MUX_PAD_CTRL NO_PAD_CTRL,
      MX6_PAD_GPIO_16__GPIO7_IO11 OR MUX_PAD_CTRL NO_PAD_CTRL,
      MX6_PAD_GPIO_17__GPIO7_IO12 OR MUX_PAD_CTRL NO_PAD_CTRL,
      MX6_PAD_GPIO_18__GPIO7_IO13 OR MUX_PAD_CTRL NO_PAD_CTRL]"

definition gpio_pads :: "iomux_v3_cfg_t list" where [pad_tables]:
  "gpio_pads =
     [MX6_PAD_GPIO_0__GPIO1_IO00 OR MUX_PAD_CTRL GPIO_PU_PAD_CTRL,
      MX6_PAD_GPIO_2__GPIO1_IO02 OR MUX_PAD_CTRL GPIO_PD_PAD_CTRL,
      MX6_PAD_GPIO_4__GPIO1_IO04 OR MUX_PAD_CTRL GPIO_PU_PAD_CTRL,
      MX6_PAD_GPIO_6__GPIO1_IO06 OR MUX_PAD_CTRL GPIO_PD_PAD_CTRL,
      MX6_PAD_SD2_CLK__GPIO1_IO10 OR MUX_PAD_CTRL GPIO_PD_PAD_CTRL,
      MX6_PAD_SD2_DAT3__GPIO1_IO12 OR MUX_PAD_CTRL GPIO_PU_PAD_CTRL,
      MX6_PAD_SD2_DAT1__GPIO1_IO14 OR MUX_PAD_CTRL GPIO_PD_PAD_CTRL,
      MX6_PAD_SD2_DAT0__GPIO1_IO15 OR MUX_PAD_CTRL GPIO_47PU_PAD_CTRL,
      MX6_PAD_ENET_RX_ER__GPIO1_IO24 OR MUX_PAD_CTRL GPIO_PD_PAD_CTRL,
      MX6_PAD_ENET_CRS_DV__GPIO1_IO25 OR MUX_PAD_CTRL GPIO_PD_PAD_CTRL,
      MX6_PAD_ENET_RXD1__GPIO1_IO26 OR MUX_PAD_CTRL NO_PAD_CTRL,
      MX6_PAD_ENET_RXD0__GPIO1_IO27 OR MUX_PAD_CTRL NO_PAD_CTRL,
      MX6_PAD_ENET_TX_EN__GPIO1_IO28 OR MUX_PAD_CTRL GPIO_PU_PAD_CTRL,
      MX6_PAD_ENET_TXD1__GPIO1_IO29 OR MUX_PAD_CTRL GPIO_PU_PAD_CTRL,
      MX6_PAD_ENET_TXD0__GPIO1_IO30 OR MUX_PAD_CTRL NO_PAD_CTRL,
      MX6_PAD_SD4_DAT3__GPIO2_IO11 OR MUX_PAD_CTRL GPIO_PD_PAD_CTRL,
      MX6_PAD_SD4_DAT4__GPIO2_IO12 OR MUX_PAD_CTRL NO_PAD_CTRL,
      MX6_PAD_SD4_DAT6__GPIO2_IO14 OR MUX_PAD_CTRL NO_PAD_CTRL,
      MX6_PAD_SD4_DAT7__GPIO2_IO15 OR MUX_PAD_CTRL NO_PAD_CTRL,
      MX6_PAD_EIM_D16__GPIO3_IO16 OR MUX_PAD_CTRL NO_PAD_CTRL,
      MX6_PAD_EIM_D17__GPIO3_IO17 OR MUX_PAD_CTRL NO_PAD_CTRL,
      MX6_PAD_EIM_D18__GPIO3_IO18 OR MUX_PAD_CTRL NO_PAD_CTRL,
      MX6_PAD_EIM_D19__GPIO3_IO19 OR MUX_PAD_CTRL NO_PAD_CTRL,
      MX6_PAD_EIM_D20__GPIO3_IO20 OR MUX_PAD_CTRL NO_PAD_CTRL,
      MX6_PAD_EIM_D22__GPIO3_IO22 OR MUX_PAD_CTRL NO_PAD_CTRL,
      MX6_PAD_EIM_D23__GPIO3_IO23 OR MUX_PAD_CTRL NO_PAD_CTRL,
      MX6_PAD_EIM_D26__GPIO3_IO26 OR MUX_PAD_CTRL NO_PAD_CTRL,
      MX6_PAD_EIM_D27__GPIO3_IO27 OR MUX_PAD_CTRL NO_PAD_CTRL,
      MX6_PAD_EIM_D29__GPIO3_IO29 OR MUX_PAD_CTRL NO_PAD_CTRL,
      MX6_PAD_EIM_D30__GPIO3_IO30 OR MUX_PAD_CTRL NO_PAD_CTRL,
      MX6_PAD_EIM_D31__GPIO3_IO31 OR MUX_PAD_CTRL NO_PAD_CTRL,
      MX6_PAD_GPIO_19__GPIO4_IO05 OR MUX_PAD_CTRL NO_PAD_CTRL,
      MX6_PAD_KEY_COL0__GPIO4_IO06 OR MUX_PAD_CTRL GPIO_PU_PAD_CTRL,
      MX6_PAD_KEY_COL1__GPIO4_IO08 OR MUX_PAD_CTRL GPIO_PU_PAD_CTRL,
      MX6_PAD_KEY_COL2__GPIO4_IO10 OR MUX_PAD_CTRL GPIO_PU_PAD_CTRL,
      MX6_PAD_KEY_COL3__GPIO4_IO12 OR MUX_PAD_CTRL GPIO_PU_PAD_CTRL,
      MX6_PAD_KEY_COL4__GPIO4_IO14 OR MUX_PAD_CTRL GPIO_PU_PAD_CTRL,
      MX6_PAD_DISP0_DAT20__GPIO5_IO14 OR MUX_PAD_CTRL NO_PAD_CTRL,
      MX6_PAD_DISP0_DAT21__GPIO5_IO15 OR MUX_PAD_CTRL NO_PAD_CTRL,
      MX6_PAD_DISP0_DAT22__GPIO5_IO16 OR MUX_PAD_CTRL NO_PAD_CTRL,
      MX6_PAD_DISP0_DAT23__GPIO5_IO17 OR MUX_PAD_CTRL NO_PAD_CTRL,
      MX6_PAD_CSI0_PIXCLK__GPIO5_IO18 OR MUX_PAD_CTRL NO_PAD_CTRL,
      MX6_PAD_CSI0_MCLK__GPIO5_IO19 OR MUX_PAD_CTRL NO_PAD_CTRL,
      MX6_PAD_NANDF_CS1__GPIO6_IO14 OR MUX_PAD_CTRL NO_PAD_CTRL,
      MX6_PAD_NANDF_CS2__GPIO6_IO15 OR MUX_PAD_CTRL NO_PAD_CTRL,
      MX6_PAD_NANDF_CS3__GPIO6_IO16 OR MUX_PAD_CTRL NO_PAD_CTRL,
      MX6_PAD_GPIO_16__GPIO7_IO11 OR MUX_PAD_CTRL NO_PAD_CTRL,
      MX6_PAD_GPIO_17__GPIO7_IO12 OR MUX_PAD_CTRL NO_PAD_CTRL,
      MX6_PAD_GPIO_18__GPIO7_IO13 OR MUX_PAD_CTRL NO_PAD_CTRL]"

definition eimnor_pads :: "iomux_v3_cfg_t list" where [pad_tables]:
  "eimnor_pads =
     [MX6_PAD_EIM_A16__EIM_ADDR16 OR MUX_PAD_CTRL WEIM_NOR_PAD_CTRL,
      MX6_PAD_EIM_A17__EIM_ADDR17 OR MUX_PAD_CTRL WEIM_NOR_PAD_CTRL,
      MX6_PAD_EIM_A18__EIM_ADDR18 OR MUX_PAD_CTRL WEIM_NOR_PAD_CTRL,
      MX6_PAD_EIM_A19__EIM_ADDR19 OR MUX_PAD_CTRL WEIM_NOR_PAD_CTRL,
      MX6_PAD_EIM_A20__EIM_ADDR20 OR MUX_PAD_CTRL WEIM_NOR_PAD_CTRL,
      MX6_PAD_EIM_A21__EIM_ADDR21 OR MUX_PAD_CTRL WEIM_NOR_PAD_CTRL,
      MX6_PAD_EIM_A22__EIM_ADDR22 OR MUX_PAD_CTRL WEIM_NOR_PAD_CTRL,
      MX6_PAD_EIM_A23__EIM_ADDR23 OR MUX_PAD_CTRL WEIM_NOR_PAD_CTRL,
      MX6_PAD_EIM_A24__EIM_ADDR24 OR MUX_PAD_CTRL WEIM_NOR_PAD_CTRL,
      MX6_PAD_EIM_A25__EIM_ADDR25 OR MUX_PAD_CTRL WEIM_NOR_PAD_CTRL,
      MX6_PAD_EIM_OE__EIM_OE_B OR MUX_PAD_CTRL WEIM_NOR_PAD_CTRL,
      MX6_PAD_EIM_RW__EIM_RW OR MUX_PAD_CTRL WEIM_NOR_PAD_CTRL,
      MX6_PAD_EIM_CS0__EIM_CS0_B OR MUX_PAD_CTRL WEIM_NOR_PAD_CTRL,
      MX6_PAD_EIM_DA0__EIM_AD00 OR MUX_PAD_CTRL WEIM_NOR_PAD_CTRL,
      MX6_PAD_EIM_DA1__EIM_AD01 OR MUX_PAD_CTRL WEIM_NOR_PAD_CTRL,
      MX6_PAD_EIM_DA2__EIM_AD02 OR MUX_PAD_CTRL WEIM_NOR_PAD_CTRL,
      MX6_PAD_EIM_DA3__EIM_AD03 OR MUX_PAD_CTRL WEIM_NOR_PAD_CTRL,
      MX6_PAD_EIM_DA4__EIM_AD04 OR MUX_PAD_CTRL WEIM_NOR_PAD_CTRL,
      MX6_PAD_EIM_DA5__EIM_AD05 OR MUX_PAD_CTRL WEIM_NOR_PAD_CTRL,
      MX6_PAD_EIM_DA6__EIM_AD06 OR MUX_PAD_CTRL WEIM_NOR_PAD_CTRL,
      MX6_PAD_EIM_DA7__EIM_AD07 OR MUX_PAD_CTRL WEIM_NOR_PAD_CTRL,
      MX6_PAD_EIM_DA8__EIM_AD08 OR MUX_PAD_CTRL WEIM_NOR_PAD_CTRL,
      MX6_PAD_EIM_DA9__EIM_AD09 OR MUX_PAD_CTRL WEIM_NOR_PAD_CTRL,
      MX6_PAD_EIM_DA10__EIM_AD10 OR MUX_PAD_CTRL WEIM_NOR_PAD_CTRL,
      MX6_PAD_EIM_DA11__EIM_AD11 OR MUX_PAD_CTRL WEIM_NOR_PAD_CTRL,
      MX6_PAD_EIM_DA12__EIM_AD12 OR MUX_PAD_CTRL WEIM_NOR_PAD_CTRL,
      MX6_PAD_EIM_DA13__EIM_AD13 OR MUX_PAD_CTRL WEIM_NOR_PAD_CTRL,
      MX6_PAD_EIM_DA14__EIM_AD14 OR MUX_PAD_CTRL WEIM_NOR_PAD_CTRL,
      MX6_PAD_EIM_DA15__EIM_AD15 OR MUX_PAD_CTRL WEIM_NOR_PAD_CTRL,
      MX6_PAD_CSI0_DATA_EN__EIM_DATA00 OR MUX_PAD_CTRL WEIM_NOR_PAD_CTRL,
      MX6_PAD_CSI0_VSYNC__EIM_DATA01 OR MUX_PAD_CTRL WEIM_NOR_PAD_CTRL,
      MX6_PAD_CSI0_DAT4__EIM_DATA02 OR MUX_PAD_CTRL WEIM_NOR_PAD_CTRL,
      MX6_PAD_CSI0_DAT5__EIM_DATA03 OR MUX_PAD_CTRL WEIM_NOR_PAD_CTRL,
      MX6_PAD_CSI0_DAT6__EIM_DATA04 OR MUX_PAD_CTRL WEIM_NOR_PAD_CTRL,
      MX6_PAD_CSI0_DAT7__EIM_DATA05 OR MUX_PAD_CTRL WEIM_NOR_PAD_CTRL,
      MX6_PAD_CSI0_DAT8__EIM_DATA06 OR MUX_PAD_CTRL WEIM_NOR_PAD_CTRL,
      MX6_PAD_CSI0_DAT9__EIM_DATA07 OR MUX_PAD_CTRL WEIM_NOR_PAD_CTRL,
      MX6_PAD_CSI0_DAT12__EIM_DATA08 OR MUX_PAD_CTRL WEIM_NOR_PAD_CTRL,
      MX6_PAD_CSI0_DAT13__EIM_DATA09 OR MUX_PAD_CTRL WEIM_NOR_PAD_CTRL,
      MX6_PAD_CSI0_DAT14__EIM_DATA10 OR MUX_PAD_CTRL WEIM_NOR_PAD_CTRL,
      MX6_PAD_CSI0_DAT15__EIM_DATA11 OR MUX_PAD_CTRL WEIM_NOR_PAD_CTRL,
      MX6_PAD_CSI0_DAT16__EIM_DATA12 OR MUX_PAD_CTRL WEIM_NOR_PAD_CTRL,
      MX6_PAD_CSI0_DAT17__EIM_DATA13 OR MUX_PAD_CTRL WEIM_NOR_PAD_CTRL,
      MX6_PAD_CSI0_DAT18__EIM_DATA14 OR MUX_PAD_CTRL WEIM_NOR_PAD_CTRL,
      MX6_PAD_CSI0_DAT19__EIM_DATA15 OR MUX_PAD_CTRL WEIM_NOR_PAD_CTRL]"

definition sdpower_pads :: "iomux_v3_cfg_t list" where [pad_tables]:
  "sdpower_pads =
     [MX6_PAD_SD4_DAT0__GPIO2_IO08 OR MUX_PAD_CTRL NO_PAD_CTRL]"

definition pwm1_pads :: "iomux_v3_cfg_t list" where [pad_tables]:
  "pwm1_pads =
     [MX6_PAD_GPIO_9__PWM1_OUT OR MUX_PAD_CTRL NO_PAD_CTRL]"

definition usdhc1_pads :: "iomux_v3_cfg_t list" where [pad_tables]:
  "usdhc1_pads =
     [MX6_PAD_SD1_CLK__SD1_CLK OR MUX_PAD_CTRL USDHC_PAD_CTRL,
      MX6_PAD_SD1_CMD__SD1_CMD OR MUX_PAD_CTRL USDHC_PAD_CTRL,
      MX6_PAD_SD1_DAT0__SD1_DATA0 OR MUX_PAD_CTRL USDHC_PAD_CTRL,
      MX6_PAD_SD1_DAT1__SD1_DATA1 OR MUX_PAD_CTRL USDHC_PAD_CTRL,
      MX6_PAD_SD1_DAT2__SD1_DATA2 OR MUX_PAD_CTRL USDHC_PAD_CTRL,
      MX6_PAD_SD1_DAT3__SD1_DATA3 OR MUX_PAD_CTRL USDHC_PAD_CTRL,
      MX6_PAD_GPIO_1__GPIO1_IO01 OR MUX_PAD_CTRL USDHC_100PU_PAD_CTRL]"

definition ecspi1_pads :: "iomux_v3_cfg_t list" where [pad_tables]:
  "ecspi1_pads =
     [MX6_PAD_KEY_COL0__ECSPI1_SCLK OR MUX_PAD_CTRL SPI_PAD_CTRL,
      MX6_PAD_KEY_COL1__ECSPI1_MISO OR MUX_PAD_CTRL SPI_PAD_CTRL,
      MX6_PAD_KEY_ROW0__ECSPI1_MOSI OR MUX_PAD_CTRL SPI_PAD_CTRL,
      MX6_PAD_KEY_ROW1__GPIO4_IO09 OR MUX_PAD_CTRL NO_PAD_CTRL]"

definition rgb_pads :: "iomux_v3_cfg_t list" where [pad_tables]:
  "rgb_pads =
     [MX6_PAD_DI0_DISP_CLK__IPU1_DI0_DISP_CLK OR MUX_PAD_CTRL NO_PAD_CTRL,
      MX6_PAD_DI0_PIN15__IPU1_DI0_PIN15 OR MUX_PAD_CTRL NO_PAD_CTRL,
      MX6_PAD_DI0_PIN2__IPU1_DI0_PIN02 OR MUX_PAD_CTRL NO_PAD_CTRL,
      MX6_PAD_DI0_PIN3__IPU1_DI0_PIN03 OR MUX_PAD_CTRL NO_PAD_CTRL,
      MX6_PAD_DISP0_DAT0__IPU1_DISP0_DATA00 OR MUX_PAD_CTRL NO_PAD_CTRL,
      MX6_PAD_DISP0_DAT1__IPU1_DISP0_DATA01 OR MUX_PAD_CTRL NO_PAD_CTRL,
      MX6_PAD_DISP0_DAT2__IPU1_DISP0_DATA02 OR MUX_PAD_CTRL NO_PAD_CTRL,
      MX6_PAD_DISP0_DAT3__IPU1_DISP0_DATA03 OR MUX_PAD_CTRL NO_PAD_CTRL,
      MX6_PAD_DISP0_DAT4__IPU1_DISP0_DATA04 OR MUX_PAD_CTRL NO_PAD_CTRL,
      MX6_PAD_DISP0_DAT5__IPU1_DISP0_DATA05 OR MUX_PAD_CTRL NO_PAD_CTRL,
      MX6_PAD_DISP0_DAT6__IPU1_DISP0_DATA06 OR MUX_PAD_CTRL NO_PAD_CTRL,
      MX6_PAD_DISP0_DAT7__IPU1_DISP0_DATA07 OR MUX_PAD_CTRL NO_PAD_CTRL,
      MX6_PAD_DISP0_DAT8__IPU1_DISP0_DATA08 OR MUX_PAD_CTRL NO_PAD_CTRL,
      MX6_PAD_DISP0_DAT9__IPU1_DISP0_DATA09 OR MUX_PAD_CTRL NO_PAD_CTRL,
      MX6_PAD_DISP0_DAT10__IPU1_DISP0_DATA10 OR MUX_PAD_CTRL NO_PAD_CTRL,
      MX6_PAD_DISP0_DAT11__IPU1_DISP0_DATA11 OR MUX_PAD_CTRL NO_PAD_CTRL,
      MX6_PAD_DISP0_DAT12__IPU1_DISP0_DATA12 OR MUX_PAD_CTRL NO_PAD_CTRL,
      MX6_PAD_DISP0_DAT13__IPU1_DISP0_DATA13 OR MUX_PAD_CTRL NO_PAD_CTRL,
      MX6_PAD_DISP0_DAT14__IPU1_DISP0_DATA14 OR MUX_PAD_CTRL NO_PAD_CTRL,
      MX6_PAD_DISP0_DAT15__IPU1_DISP0_DATA15 OR MUX_PAD_CTRL NO_PAD_CTRL,
      MX6_PAD_DISP0_DAT16__IPU1_DISP0_DATA16 OR MUX_PAD_CTRL NO_PAD_CTRL,
      MX6_PAD_DISP0_DAT17__IPU1_DISP0_DATA17 OR MUX_PAD_CTRL NO_PAD_CTRL,
      MX6_PAD_SD4_DAT5__GPIO2_IO13 OR MUX_PAD_CTRL NO_PAD_CTRL,
      MX6_PAD_SD4_DAT6__GPIO2_IO14 OR MUX_PAD_CTRL NO_PAD_CTRL]"

definition di0_pads :: "iomux_v3_cfg_t list" where [pad_tables]:
  "di0_pads =
     [MX6_PAD_DI0_DISP_CLK__IPU1_DI0_DISP_CLK,
      MX6_PAD_DI0_PIN2__IPU1_DI0_PIN02,
      MX6_PAD_DI0_PIN3__IPU1_DI0_PIN03]"

definition usb_otg_pads :: "iomux_v3_cfg_t list" where [pad_tables]:
  "usb_otg_pads =
     [MX6_PAD_EIM_D22__USB_OTG_PWR OR MUX_PAD_CTRL NO_PAD_CTRL,
      MX6_PAD_ENET_RX_ER__USB_OTG_ID OR MUX_PAD_CTRL NO_PAD_CTRL,
      MX6_PAD_GPIO_3__USB_H1_OC OR MUX_PAD_CTRL GPIO_PU_PAD_CTRL]"

definition usb_hc1_pads :: "iomux_v3_cfg_t list" where [pad_tables]:
  "usb_hc1_pads =
     [MX6_PAD_SD4_DAT2__SD4_DATA2 OR MUX_PAD_CTRL USDHC_PAD_CTRL]"

definition key_pads :: "iomux_v3_cfg_t list" where [pad_tables]:
  "key_pads =
     [MX6_PAD_KEY_COL0__GPIO4_IO06 OR MUX_PAD_CTRL NO_PAD_CTRL,
      MX6_PAD_KEY_COL1__GPIO4_IO08 OR MUX_PAD_CTRL NO_PAD_CTRL,
      MX6_PAD_KEY_COL2__GPIO4_IO10 OR MUX_PAD_CTRL NO_PAD_CTRL,
      MX6_PAD_KEY_COL3__GPIO4_IO12 OR MUX_PAD_CTRL NO_PAD_CTRL,
      MX6_PAD_KEY_COL4__GPIO4_IO14 OR MUX_PAD_CTRL NO_PAD_CTRL,
      MX6_PAD_GPIO_0__GPIO1_IO00 OR MUX_PAD_CTRL NO_PAD_CTRL,
      MX6_PAD_SD2_DAT3__GPIO1_IO12 OR MUX_PAD_CTRL NO_PAD_CTRL,
      MX6_PAD_GPIO_4__GPIO1_IO04 OR MUX_PAD_CTRL NO_PAD_CTRL,
      MX6_PAD_KEY_ROW0__GPIO4_IO07 OR MUX_PAD_CTRL NO_PAD_CTRL,
      MX6_PAD_KEY_ROW1__GPIO4_IO09 OR MUX_PAD_CTRL NO_PAD_CTRL,
      MX6_PAD_KEY_ROW2__GPIO4_IO11 OR MUX_PAD_CTRL NO_PAD_CTRL,
      MX6_PAD_KEY_ROW3__GPIO4_IO13 OR MUX_PAD_CTRL NO_PAD_CTRL,
      MX6_PAD_KEY_ROW4__GPIO4_IO15 OR MUX_PAD_CTRL NO_PAD_CTRL,
      MX6_PAD_SD2_CMD__GPIO1_IO11 OR MUX_PAD_CTRL NO_PAD_CTRL,
      MX6_PAD_SD2_DAT2__GPIO1_IO13 OR MUX_PAD_CTRL NO_PAD_CTRL,
      MX6_PAD_GPIO_5__GPIO1_IO05 OR MUX_PAD_CTRL NO_PAD_CTRL,
      MX6_PAD_DISP0_DAT20__GPIO5_IO14 OR MUX_PAD_CTRL NO_PAD_CTRL,
      MX6_PAD_DISP0_DAT21__GPIO5_IO15 OR MUX_PAD_CTRL NO_PAD_CTRL,
      MX6_PAD_DISP0_DAT22__GPIO5_IO16 OR MUX_PAD_CTRL NO_PAD_CTRL,
      MX6_PAD_DISP0_DAT23__GPIO5_IO17 OR MUX_PAD_CTRL NO_PAD_CTRL]"

definition pwm3_pads :: "iomux_v3_cfg_t list" where [pad_tables]:
  "pwm3_pads =
     [MX6_PAD_SD4_DAT1__PWM3_OUT OR MUX_PAD_CTRL NO_PAD_CTRL]"

definition les_pads :: "bsp_config \<Rightarrow> iomux_v3_cfg_t list" where [pad_tables]:
  "les_pads cfg =
     (if BSP_SUPPORT_HIRATA cfg then
       [MX6_PAD_EIM_D16__GPIO3_IO16 OR MUX_PAD_CTRL NO_PAD_CTRL,
        MX6_PAD_EIM_D17__GPIO3_IO17 OR MUX_PAD_CTRL NO_PAD_CTRL,
        MX6_PAD_EIM_D18__GPIO3_IO18 OR MUX_PAD_CTRL NO_PAD_CTRL,
        MX6_PAD_EIM_D22__GPIO3_IO22 OR MUX_PAD_CTRL NO_PAD_CTRL,
        MX6_PAD_EIM_D23__GPIO3_IO23 OR MUX_PAD_CTRL NO_PAD_CTRL,
        MX6_PAD_EIM_D26__GPIO3_IO26 OR MUX_PAD_CTRL NO_PAD_CTRL,
        MX6_PAD_EIM_D27__GPIO3_IO27 OR MUX_PAD_CTRL NO_PAD_CTRL,
        MX6_PAD_EIM_D29__GPIO3_IO29 OR MUX_PAD_CTRL NO_PAD_CTRL,
        MX6_PAD_EIM_D30__GPIO3_IO30 OR MUX_PAD_CTRL NO_PAD_CTRL,
        MX6_PAD_EIM_D31__GPIO3_IO31 OR MUX_PAD_CTRL NO_PAD_CTRL]
      else
       [MX6_PAD_EIM_D16__GPIO3_IO16 OR MUX_PAD_CTRL NO_PAD_CTRL,
        MX6_PAD_EIM_D17__GPIO3_IO17 OR MUX_PAD_CTRL NO_PAD_CTRL,
        MX6_PAD_EIM_D18__GPIO3_IO18 OR MUX_PAD_CTRL NO_PAD_CTRL,
        MX6_PAD_EIM_D19__GPIO3_IO19 OR MUX_PAD_CTRL NO_PAD_CTRL,
        MX6_PAD_EIM_D20__GPIO3_IO20 OR MUX_PAD_CTRL NO_PAD_CTRL,
        MX6_PAD_EIM_D22__GPIO3_IO22 OR MUX_PAD_CTRL NO_PAD_CTRL,
        MX6_PAD_EIM_D23__GPIO3_IO23 OR MUX_PAD_CTRL NO_PAD_CTRL,
        MX6_PAD_EIM_D26__GPIO3_IO26 OR MUX_PAD_CTRL NO_PAD_CTRL,
        MX6_PAD_EIM_D27__GPIO3_IO27 OR MUX_PAD_CTRL NO_PAD_CTRL,
        MX6_PAD_EIM_D31__GPIO3_IO31 OR MUX_PAD_CTRL NO_PAD_CTRL])"

definition sw_les_pads :: "bsp_config \<Rightarrow> iomux_v3_cfg_t list" where [pad_tables]:
  "sw_les_pads cfg =
     (if BSP_SUPPORT_HIRATA cfg then
       [MX6_PAD_EIM_D19__GPIO3_IO19 OR MUX_PAD_CTRL NO_PAD_CTRL,
        MX6_PAD_EIM_D20__GPIO3_IO20 OR MUX_PAD_CTRL NO_PAD_CTRL]
      else
       [MX6_PAD_EIM_D29__GPIO3_IO29 OR MUX_PAD_CTRL NO_PAD_CTRL,
        MX6_PAD_EIM_D30__GPIO3_IO30 OR MUX_PAD_CTRL NO_PAD_CTRL])"

section \<open>Loading the tables\<close>

definition WEIM_BASE_ADDR :: u32 where "WEIM_BASE_ADDR = 0x02100000 + 0x80000 + 0x38000"

definition setup_iomux_eimnor :: "sys \<Rightarrow> sys" where
  "setup_iomux_eimnor = imx_iomux_v3_setup_multiple_pads eimnor_pads"

text \<open>The case \<open>CS0_128\<close> of \<open>set_chipselect_size\<close>, the only one the board file uses; the general
  purpose register 1 is the second word of the multiplexer block.\<close>

definition set_chipselect_size_CS0_128 :: "sys \<Rightarrow> sys" where
  "set_chipselect_size_CS0_128 s =
     (let reg = readl (IOMUXC_BASE_ADDR + 4) s;
          reg = reg AND NOT 0x7;
          reg = reg OR 0x5
      in writel reg (IOMUXC_BASE_ADDR + 4) s)"

definition setup_eimnor_regs :: "sys \<Rightarrow> sys" where
  "setup_eimnor_regs s =
     (let s = writel 0x10010281 (WEIM_BASE_ADDR + 0) s;
          s = writel 0x00000001 (WEIM_BASE_ADDR + 4) s;
          s = writel 0x0c030000 (WEIM_BASE_ADDR + 8) s;
          s = writel 0x00009000 (WEIM_BASE_ADDR + 12) s;
          s = writel 0x0704a240 (WEIM_BASE_ADDR + 16) s;
          s = writel 0x00000000 (WEIM_BASE_ADDR + 20) s;
          s = writel 0x00000000 (WEIM_BASE_ADDR + 144) s
      in set_chipselect_size_CS0_128 s)"

definition setup_eimnor :: "sys \<Rightarrow> sys" where
  "setup_eimnor s = setup_eimnor_regs (setup_iomux_eimnor s)"

definition setup_iomux_gpio_fast :: "sys \<Rightarrow> sys" where
  "setup_iomux_gpio_fast = imx_iomux_v3_setup_multiple_pads gpio_pads_fast"

definition setup_iomux_gpio :: "sys \<Rightarrow> sys" where
  "setup_iomux_gpio s =
     (if Board_Version s = 3 then imx_iomux_v3_setup_multiple_pads gpio_pads_3rd s
      else imx_iomux_v3_setup_multiple_pads gpio_pads s)"

definition setup_iomux_enet :: "sys \<Rightarrow> sys" where
  "setup_iomux_enet s =
     (let s = (if Board_Version s = 3 then imx_iomux_v3_setup_multiple_pads enet_pads_3rd s
               else imx_iomux_v3_setup_multiple_pads enet_pads s);
          s = gpio_run [Direction_output (IMX_GPIO_NR 2 11) 0] s;
          s = udelay (10 * 1000) s
      in gpio_run [Set_value (IMX_GPIO_NR 2 11) 1] s)"

definition setup_spi :: "sys \<Rightarrow> sys" where
  "setup_spi = imx_iomux_v3_setup_multiple_pads ecspi1_pads"

definition setup_iomux_uart :: "sys \<Rightarrow> sys" where
  "setup_iomux_uart = imx_iomux_v3_setup_multiple_pads uart1_pads"

definition enable_rgb :: "sys \<Rightarrow> sys" where
  "enable_rgb = imx_iomux_v3_setup_multiple_pads rgb_pads"

definition setup_usb :: "sys \<Rightarrow> sys" where
  "setup_usb s =
     (let s = imx_iomux_v3_setup_multiple_pads usb_otg_pads s;
          s = imx_iomux_set_gpr_register 1 13 1 0 s
      in imx_iomux_v3_setup_multiple_pads usb_hc1_pads s)"

section \<open>A table as a list of register writes\<close>

definition write_ofs :: "u32 \<Rightarrow> u32 \<Rightarrow> (u32 \<times> u32) list" where
  "write_ofs ofs v = (if c_true ofs then [(ofs, v)] else [])"

text \<open>The writes (offset, value) one packed pad causes.\<close>

definition pad_writes :: "iomux_v3_cfg_t \<Rightarrow> (u32 \<times> u32) list" where
  "pad_writes pad =
     (let pad_ctrl = ucast (drop_bit MUX_PAD_CTRL_SHIFT (pad AND MUX_PAD_CTRL_MASK)) in
      write_ofs (ucast (drop_bit MUX_CTRL_OFS_SHIFT (pad AND MUX_CTRL_OFS_MASK)))
        (ucast (drop_bit MUX_MODE_SHIFT (pad AND MUX_MODE_MASK))) @
      write_ofs (ucast (drop_bit MUX_SEL_INPUT_OFS_SHIFT (pad AND MUX_SEL_INPUT_OFS_MASK)))
        (ucast (drop_bit MUX_SEL_INPUT_SHIFT (pad AND MUX_SEL_INPUT_MASK))) @
      (if c_true (pad_ctrl AND NO_PAD_CTRL) then []
       else write_ofs (ucast (drop_bit MUX_PAD_CTRL_OFS_SHIFT (pad AND MUX_PAD_CTRL_OFS_MASK)))
         pad_ctrl))"

definition table_writes :: "iomux_v3_cfg_t list \<Rightarrow> (u32 \<times> u32) list" where
  "table_writes ps = concat (map pad_writes ps)"

definition apply_writes :: "(u32 \<times> u32) list \<Rightarrow> sys \<Rightarrow> sys" where
  "apply_writes ws s = fold (\<lambda>(ofs, v). writel v (IOMUXC_BASE_ADDR + ofs)) ws s"

lemma apply_writes_append [simp]: "apply_writes (xs @ ys) s = apply_writes ys (apply_writes xs s)"
  by (simp add: apply_writes_def)

lemma apply_write_ofs [simp]:
  "apply_writes (write_ofs ofs v) s = (if c_true ofs then writel v (IOMUXC_BASE_ADDR + ofs) s else s)"
  by (simp add: apply_writes_def write_ofs_def)

lemma apply_writes_Nil [simp]: "apply_writes [] s = s"
  by (simp add: apply_writes_def)

lemma setup_pad_apply_writes: "imx_iomux_v3_setup_pad pad s = apply_writes (pad_writes pad) s"
  by (simp add: imx_iomux_v3_setup_pad_def pad_writes_def Let_def)

lemma setup_multiple_pads_apply_writes:
  "imx_iomux_v3_setup_multiple_pads ps s = apply_writes (table_writes ps) s"
  by (induction ps arbitrary: s) (simp_all add: setup_pad_apply_writes table_writes_def)

text \<open>The last write to a register decides its value.\<close>

lemma apply_writes_frame: "\<exists>r. apply_writes ws s = s\<lparr>mmio := r\<rparr>"
proof (induction ws arbitrary: s)
  case Nil
  show ?case
    by (rule exI [of _ "mmio s"]) simp
next
  case (Cons w ws)
  obtain ofs v where "w = (ofs, v)" by (cases w)
  with Cons [of "writel v (IOMUXC_BASE_ADDR + ofs) s"] show ?case
    by (auto simp: apply_writes_def writel_def)
qed

lemma mmio_apply_writes:
  "mmio (apply_writes ws s) (IOMUXC_BASE_ADDR + ofs)
    = (case map_of (rev ws) ofs of None \<Rightarrow> mmio s (IOMUXC_BASE_ADDR + ofs) | Some v \<Rightarrow> v)"
proof (induction ws rule: rev_induct)
  case Nil
  then show ?case by simp
next
  case (snoc w ws)
  then show ?case
    by (cases w) (simp add: apply_writes_def writel_def)
qed

lemma setup_multiple_pads_fields [simp]:
  "mem (imx_iomux_v3_setup_multiple_pads ps s) = mem s"
  "gpio_bank (imx_iomux_v3_setup_multiple_pads ps s) = gpio_bank s"
  "now (imx_iomux_v3_setup_multiple_pads ps s) = now s"
  "Board_Version (imx_iomux_v3_setup_multiple_pads ps s) = Board_Version s"
  "g_AutoSel (imx_iomux_v3_setup_multiple_pads ps s) = g_AutoSel s"
  "bootMode (imx_iomux_v3_setup_multiple_pads ps s) = bootMode s"
  "boot_dev (imx_iomux_v3_setup_multiple_pads ps s) = boot_dev s"
  "ledEnable (imx_iomux_v3_setup_multiple_pads ps s) = ledEnable s"
  "ledCount (imx_iomux_v3_setup_multiple_pads ps s) = ledCount s"
  "timePast (imx_iomux_v3_setup_multiple_pads ps s) = timePast s"
  "timeInterval (imx_iomux_v3_setup_multiple_pads ps s) = timeInterval s"
  "cur_dev (imx_iomux_v3_setup_multiple_pads ps s) = cur_dev s"
  "cur_part_info (imx_iomux_v3_setup_multiple_pads ps s) = cur_part_info s"
  "usb_dev_desc (imx_iomux_v3_setup_multiple_pads ps s) = usb_dev_desc s"
  "do_fat_read_at_block (imx_iomux_v3_setup_multiple_pads ps s) = do_fat_read_at_block s"
  "mmc_devices (imx_iomux_v3_setup_multiple_pads ps s) = mmc_devices s" "sd_line (imx_iomux_v3_setup_multiple_pads ps s) = sd_line s" "sd_app (imx_iomux_v3_setup_multiple_pads ps s) = sd_app s"
  "Allow_Boot_Version (imx_iomux_v3_setup_multiple_pads ps s) = Allow_Boot_Version s"
  using apply_writes_frame [of "table_writes ps" s]
  by (auto simp: setup_multiple_pads_apply_writes)

lemma pad_writes_packed:
  assumes "pco < 2 ^ 12" "mco < 2 ^ 12" "mm < 2 ^ 5" "sio < 2 ^ 12" "si < 2 ^ 4" "ctl < 2 ^ 18"
  shows "pad_writes (IOMUX_PAD pco mco mm sio si 0 OR MUX_PAD_CTRL ctl)
    = write_ofs mco mm @ write_ofs sio si @
      (if c_true (ctl AND NO_PAD_CTRL) then [] else write_ofs pco ctl)"
  unfolding pad_writes_def iomux_fields [OF assms] by (simp add: Let_def)

end
