(* ===== verification/Board_Gpio.thy ===== *)
theory Board_Gpio
  imports Board_Pads
begin

text \<open>
  The board's pins (\<open>mx6sabresd.c\<close>): the boot device decoded from the fuses, the version of
  the printed circuit board read from two of its pins, the directions and first values of all
  pins the firmware owns, USB and SD power, card detection, and the display's clock and
  multiplexer registers.

  The lemmas show that the version detection always ends with one of the three versions, that it
  ends with the right one when the version pins are stable, and that whatever was read the USB
  power pin is left driving its OFF level; and what each pin is left as by \<open>setup_gpio\<close>.
\<close>

named_theorems gpio_sections \<open>the sequences of pin calls of the board file\<close>

section \<open>Boot device\<close>

definition SRC_BASE_ADDR :: u32 where "SRC_BASE_ADDR = 0x02000000 + 0x80000 + 0x58000"

definition setup_boot_device :: "sys \<Rightarrow> sys" where
  "setup_boot_device s =
     (let soc_sbmr = readl (SRC_BASE_ADDR + 0x4) s;
          bt_mem_ctl = drop_bit 4 (soc_sbmr AND 0x000000FF);
          bt_mem_type = drop_bit 3 (soc_sbmr AND 0x00000008)
      in s\<lparr>boot_dev :=
        (if bt_mem_ctl = 0x0 then (if c_true bt_mem_type then ONE_NAND_BOOT else WEIM_NOR_BOOT)
         else if bt_mem_ctl = 0x2 then SATA_BOOT
         else if bt_mem_ctl = 0x3 then (if c_true bt_mem_type then I2C_BOOT else SPI_NOR_BOOT)
         else if bt_mem_ctl = 0x4 \<or> bt_mem_ctl = 0x5 then SD_BOOT
         else if bt_mem_ctl = 0x6 \<or> bt_mem_ctl = 0x7 then MMC_BOOT
         else if 0x8 \<le> bt_mem_ctl \<and> bt_mem_ctl \<le> 0xf then NAND_BOOT
         else UNKNOWN_BOOT)\<rparr>)"

definition get_boot_device :: "sys \<Rightarrow> boot_device" where
  "get_boot_device s = boot_dev s"

section \<open>Version of the board\<close>

definition retries_left :: "u8 \<Rightarrow> nat" where
  "retries_left cnt = (if cnt = 255 then 200 else 101 - unat cnt)"

lemma retries_left_less: "\<not> 100 < cnt + 1 \<Longrightarrow> retries_left (cnt + 1) < retries_left cnt"
proof -
  assume le: "\<not> 100 < cnt + 1"
  have "unat cnt < 256"
    using unsigned_less [of cnt, where 'a = nat] by simp
  moreover have "unat (cnt + 1) \<le> 100"
    using le by (simp add: word_less_nat_alt)
  moreover have "unat (cnt + 1) = Suc (unat cnt)" if "cnt \<noteq> 255"
    using that \<open>unat cnt < 256\<close> word_unat_eq_iff [of cnt 255] by (simp add: unat_plus_if')
  ultimately show ?thesis
    by (auto simp: retries_left_def)
qed

text \<open>
  One of the two polling loops of \<open>setup_gpio_io_fast\<close>: read a pin twice 10 microseconds
  apart until both readings agree; more than 100 disagreements end the loop with a fixed answer.
  The answers for a low pin, for a high pin and for giving up are parameters; the loop returns
  the answer, the counter, and the state.
\<close>

function version_loop :: "env \<Rightarrow> nat \<Rightarrow> u8 \<Rightarrow> u8 \<Rightarrow> u8 \<Rightarrow> u8 \<Rightarrow> sys \<Rightarrow> u8 \<times> u8 \<times> sys" where
  "version_loop e gpio low high give_up cnt s =
     (let (v, s) = gpio_get_value e gpio s;
          tmp1 = (of_int v :: u8);
          s = udelay 10 s;
          (v2, s) = gpio_get_value e gpio s
      in if tmp1 = of_int v2 then (if tmp1 AND 0x01 = 0 then (low, cnt, s) else (high, cnt, s))
         else
           let cnt = cnt + 1 in
           if cnt > 100 then (give_up, cnt, s)
           else version_loop e gpio low high give_up cnt s)"
  by pat_completeness auto
termination
  by (relation "measure (\<lambda>(e, g, l, h, u, cnt, s). retries_left cnt)")
     (simp_all add: retries_left_less)

declare version_loop.simps [simp del]

definition setup_gpio_io_fast :: "env \<Rightarrow> sys \<Rightarrow> sys" where
  "setup_gpio_io_fast e s =
     (let s = gpio_run [Direction_input (IMX_GPIO_NR 2 10)] s;
          (v, cnt, s) = version_loop e (IMX_GPIO_NR 2 10) 1 2 2 0 s;
          s = s\<lparr>Board_Version := v\<rparr>;
          s = (if Board_Version s = 1 then gpio_run [Direction_output (IMX_GPIO_NR 2 10) 0] s
               else gpio_run [Direction_output (IMX_GPIO_NR 2 10) 1] s);
          s = gpio_run [Direction_input (IMX_GPIO_NR 4 5)] s
      in if Board_Version s = 2 then
           let (v, cnt, s) = version_loop e (IMX_GPIO_NR 4 5) 3 2 3 cnt s
           in s\<lparr>Board_Version := v\<rparr>
         else s)"

section \<open>Directions and first values\<close>

definition setup_gpio_io_3rd_GPIO1 :: "gpio_call list" where [gpio_sections]:
  "setup_gpio_io_3rd_GPIO1 =
     [Direction_input (IMX_GPIO_NR 1 2),
      Direction_input (IMX_GPIO_NR 1 6),
      Direction_input (IMX_GPIO_NR 1 10),
      Direction_input (IMX_GPIO_NR 1 14),
      Direction_input (IMX_GPIO_NR 1 15),
      Direction_input (IMX_GPIO_NR 1 23)]"

definition setup_gpio_io_3rd_GPIO2 :: "gpio_call list" where [gpio_sections]:
  "setup_gpio_io_3rd_GPIO2 =
     [Direction_output (IMX_GPIO_NR 2 8) 0,
      Direction_output (IMX_GPIO_NR 2 11) 0,
      Direction_output (IMX_GPIO_NR 2 12) 1,
      Direction_output (IMX_GPIO_NR 2 13) 1,
      Direction_output (IMX_GPIO_NR 2 14) 1,
      Direction_output (IMX_GPIO_NR 2 15) 0]"

definition setup_gpio_io_3rd_GPIO3 :: "gpio_call list" where [gpio_sections]:
  "setup_gpio_io_3rd_GPIO3 =
     [Direction_output (IMX_GPIO_NR 3 16) 0,
      Direction_output (IMX_GPIO_NR 3 17) 0,
      Direction_output (IMX_GPIO_NR 3 18) 0,
      Direction_output (IMX_GPIO_NR 3 19) 0,
      Direction_output (IMX_GPIO_NR 3 20) 0,
      Direction_output (IMX_GPIO_NR 3 22) 0,
      Direction_output (IMX_GPIO_NR 3 23) 0,
      Direction_output (IMX_GPIO_NR 3 26) 0,
      Direction_output (IMX_GPIO_NR 3 27) 0,
      Direction_output (IMX_GPIO_NR 3 29) 0,
      Direction_output (IMX_GPIO_NR 3 30) 0,
      Direction_output (IMX_GPIO_NR 3 31) 0]"

definition setup_gpio_io_3rd_GPIO5 :: "gpio_call list" where [gpio_sections]:
  "setup_gpio_io_3rd_GPIO5 =
     [Direction_input (IMX_GPIO_NR 5 14),
      Direction_input (IMX_GPIO_NR 5 15),
      Direction_input (IMX_GPIO_NR 5 16),
      Direction_input (IMX_GPIO_NR 5 17),
      Direction_input (IMX_GPIO_NR 5 18),
      Direction_input (IMX_GPIO_NR 5 19)]"

definition setup_gpio_io_3rd_GPIO6 :: "gpio_call list" where [gpio_sections]:
  "setup_gpio_io_3rd_GPIO6 =
     [Direction_input (IMX_GPIO_NR 6 14),
      Direction_input (IMX_GPIO_NR 6 15),
      Direction_input (IMX_GPIO_NR 6 16),
      Direction_input (IMX_GPIO_NR 6 17),
      Direction_input (IMX_GPIO_NR 6 18),
      Direction_input (IMX_GPIO_NR 6 19)]"

definition setup_gpio_io_3rd_GPIO7 :: "gpio_call list" where [gpio_sections]:
  "setup_gpio_io_3rd_GPIO7 =
     [Direction_input (IMX_GPIO_NR 7 0),
      Direction_input (IMX_GPIO_NR 7 11),
      Direction_input (IMX_GPIO_NR 7 12),
      Direction_input (IMX_GPIO_NR 7 13)]"

definition setup_gpio_io_3rd :: "gpio_call list" where [gpio_sections]:
  "setup_gpio_io_3rd =
     setup_gpio_io_3rd_GPIO1 @
     setup_gpio_io_3rd_GPIO2 @
     setup_gpio_io_3rd_GPIO3 @
     setup_gpio_io_3rd_GPIO5 @
     setup_gpio_io_3rd_GPIO6 @
     setup_gpio_io_3rd_GPIO7"

definition setup_gpio_io_legacy_GPIO1 :: "gpio_call list" where [gpio_sections]:
  "setup_gpio_io_legacy_GPIO1 =
     [Direction_input (IMX_GPIO_NR 1 2),
      Direction_input (IMX_GPIO_NR 1 6),
      Direction_input (IMX_GPIO_NR 1 10),
      Direction_input (IMX_GPIO_NR 1 14),
      Direction_input (IMX_GPIO_NR 1 15),
      Direction_input (IMX_GPIO_NR 1 24),
      Direction_input (IMX_GPIO_NR 1 25),
      Direction_input (IMX_GPIO_NR 1 26),
      Direction_input (IMX_GPIO_NR 1 27),
      Direction_input (IMX_GPIO_NR 1 28),
      Direction_input (IMX_GPIO_NR 1 29),
      Direction_input (IMX_GPIO_NR 1 30)]"

definition setup_gpio_io_legacy_GPIO2 :: "gpio_call list" where [gpio_sections]:
  "setup_gpio_io_legacy_GPIO2 =
     [Direction_output (IMX_GPIO_NR 2 8) 0,
      Direction_output (IMX_GPIO_NR 2 11) 0,
      Direction_output (IMX_GPIO_NR 2 12) 1,
      Direction_output (IMX_GPIO_NR 2 13) 1,
      Direction_output (IMX_GPIO_NR 2 14) 1,
      Direction_output (IMX_GPIO_NR 2 15) 0]"

definition setup_gpio_io_legacy_GPIO3 :: "gpio_call list" where [gpio_sections]:
  "setup_gpio_io_legacy_GPIO3 =
     [Direction_output (IMX_GPIO_NR 3 16) 0,
      Direction_output (IMX_GPIO_NR 3 17) 0,
      Direction_output (IMX_GPIO_NR 3 18) 0,
      Direction_output (IMX_GPIO_NR 3 19) 0,
      Direction_output (IMX_GPIO_NR 3 20) 0,
      Direction_output (IMX_GPIO_NR 3 22) 0,
      Direction_output (IMX_GPIO_NR 3 23) 0,
      Direction_output (IMX_GPIO_NR 3 26) 0,
      Direction_output (IMX_GPIO_NR 3 27) 0,
      Direction_output (IMX_GPIO_NR 3 29) 0,
      Direction_output (IMX_GPIO_NR 3 30) 0,
      Direction_output (IMX_GPIO_NR 3 31) 0]"

definition setup_gpio_io_legacy_GPIO5 :: "gpio_call list" where [gpio_sections]:
  "setup_gpio_io_legacy_GPIO5 =
     [Direction_input (IMX_GPIO_NR 5 14),
      Direction_input (IMX_GPIO_NR 5 15),
      Direction_input (IMX_GPIO_NR 5 16),
      Direction_input (IMX_GPIO_NR 5 17),
      Direction_input (IMX_GPIO_NR 5 18),
      Direction_input (IMX_GPIO_NR 5 19)]"

definition setup_gpio_io_legacy_GPIO6 :: "gpio_call list" where [gpio_sections]:
  "setup_gpio_io_legacy_GPIO6 =
     [Direction_input (IMX_GPIO_NR 6 14),
      Direction_input (IMX_GPIO_NR 6 15),
      Direction_input (IMX_GPIO_NR 6 16)]"

definition setup_gpio_io_legacy_GPIO7 :: "gpio_call list" where [gpio_sections]:
  "setup_gpio_io_legacy_GPIO7 =
     [Direction_input (IMX_GPIO_NR 7 11),
      Direction_input (IMX_GPIO_NR 7 12),
      Direction_input (IMX_GPIO_NR 7 13)]"

definition setup_gpio_io_legacy :: "gpio_call list" where [gpio_sections]:
  "setup_gpio_io_legacy =
     setup_gpio_io_legacy_GPIO1 @
     setup_gpio_io_legacy_GPIO2 @
     setup_gpio_io_legacy_GPIO3 @
     setup_gpio_io_legacy_GPIO5 @
     setup_gpio_io_legacy_GPIO6 @
     setup_gpio_io_legacy_GPIO7"
definition setup_gpio_io :: "sys \<Rightarrow> sys" where
  "setup_gpio_io s =
     (if Board_Version s = 3 then gpio_run setup_gpio_io_3rd s else gpio_run setup_gpio_io_legacy s)"

definition setup_gpio :: "env \<Rightarrow> sys \<Rightarrow> sys" where
  "setup_gpio e s =
     (let s = setup_iomux_gpio_fast s;
          s = setup_gpio_io_fast e s;
          s = setup_iomux_gpio s;
          s = setup_gpio_io s;
          s = udelay (80 * 1000) s;
          s = gpio_run [Direction_output (IMX_GPIO_NR 2 8) 1] s
      in udelay (10 * 1000) s)"

section \<open>Clocks and display registers\<close>

definition CCM_BASE_ADDR :: u32 where "CCM_BASE_ADDR = 0x02000000 + 0x80000 + 0x44000"

definition ccm_init :: "sys \<Rightarrow> sys" where
  "ccm_init = writel 0x00000FFC (CCM_BASE_ADDR + 0x80)"

definition enable_ipu_clock :: "sys \<Rightarrow> sys" where
  "enable_ipu_clock s =
     writel (readl (CCM_BASE_ADDR + 0x74) s OR push_bit 0 3) (CCM_BASE_ADDR + 0x74) s"

text \<open>Offsets: \<open>CCGR3\<close> 0x74, \<open>cs2cdr\<close> 0x2c, \<open>cscmr2\<close> 0x20, \<open>chsccdr\<close> 0x34 of the clock
  controller; \<open>gpr[2]\<close> 8 and \<open>gpr[3]\<close> 12 of the multiplexer.\<close>

definition setup_display :: "sys \<Rightarrow> sys" where
  "setup_display s =
     (let s = imx_iomux_v3_setup_multiple_pads di0_pads s;
          s = enable_ipu_clock s;
          reg = readl (CCM_BASE_ADDR + 0x74) s;
          reg = reg OR (push_bit 12 3 OR push_bit 14 3);
          s = writel reg (CCM_BASE_ADDR + 0x74) s;
          reg = readl (CCM_BASE_ADDR + 0x2c) s;
          reg = reg AND NOT (push_bit 9 0x7 OR push_bit 12 0x7);
          reg = reg OR (push_bit 9 3 OR push_bit 12 3);
          s = writel reg (CCM_BASE_ADDR + 0x2c) s;
          reg = readl (CCM_BASE_ADDR + 0x20) s;
          reg = reg OR (push_bit 10 1 OR push_bit 11 1);
          s = writel reg (CCM_BASE_ADDR + 0x20) s;
          reg = readl (CCM_BASE_ADDR + 0x34) s;
          reg = reg AND NOT (push_bit 6 0x7 OR push_bit 3 0x7 OR 0x7);
          reg = reg OR (push_bit 0 3 OR push_bit 3 2 OR push_bit 6 5);
          s = writel reg (CCM_BASE_ADDR + 0x34) s;
          reg = push_bit 15 0 OR push_bit 10 1 OR push_bit 9 1 OR push_bit 8 0 OR push_bit 7 0 OR
                push_bit 6 0 OR push_bit 5 0 OR push_bit 0 0 OR push_bit 2 0;
          s = writel reg (IOMUXC_BASE_ADDR + 8) s;
          reg = readl (IOMUXC_BASE_ADDR + 12) s;
          reg = (reg AND NOT (push_bit 8 3 OR push_bit 2 3)) OR push_bit 4 0
      in writel reg (IOMUXC_BASE_ADDR + 12) s)"

definition disable_lvds :: "sys \<Rightarrow> sys" where
  "disable_lvds s =
     (let reg = readl (IOMUXC_BASE_ADDR + 8) s;
          reg = reg AND NOT (push_bit 0 3 OR push_bit 2 3)
      in writel reg (IOMUXC_BASE_ADDR + 8) s)"

definition enable_lvds :: "sys \<Rightarrow> sys" where
  "enable_lvds s =
     (let reg = readl (IOMUXC_BASE_ADDR + 8) s;
          reg = reg OR (push_bit 5 0 OR push_bit 7 0)
      in writel reg (IOMUXC_BASE_ADDR + 8) s)"

text \<open>The splash image is copied from NOR to the address the environment variable names;
  \<open>getenv\<close> and the parse of the number are the argument \<open>splashimage\<close>.\<close>

definition ENOENT :: int where "ENOENT = 2"
definition EINVAL :: int where "EINVAL = 22"

definition splash_screen_prepare :: "u32 option \<Rightarrow> sys \<Rightarrow> int \<times> sys" where
  "splash_screen_prepare splashimage s =
     (case splashimage of
        None \<Rightarrow> (- ENOENT, s)
      | Some pBuffer \<Rightarrow>
          (0, s\<lparr>mem := memcpy pBuffer IMAGE_BOOT_BMPIMAGE_NOR_PA_START
                  IMAGE_BOOT_BMPIMAGE_NOR_SIZE (mem s)\<rparr>))"

section \<open>Storage and USB hooks\<close>

definition USDHC1_BASE_ADDR :: u32 where "USDHC1_BASE_ADDR = 0x02100000 + 0x80000 + 0x10000"
definition USDHC1_CD_GPIO :: nat where "USDHC1_CD_GPIO = IMX_GPIO_NR 1 1"

text \<open>The controller's register base is the one field of \<open>struct mmc\<close> the hook reads.\<close>

definition board_mmc_getcd :: "env \<Rightarrow> u32 \<Rightarrow> sys \<Rightarrow> int \<times> sys" where
  "board_mmc_getcd e esdhc_base s =
     (if esdhc_base = USDHC1_BASE_ADDR then
        let (v, s) = gpio_get_value e USDHC1_CD_GPIO s in ((if c_true v then 0 else 1), s)
      else (0, s))"

record fsl_esdhc_cfg =
  esdhc_base :: u32
  sdhc_clk :: u32
  max_bus_width :: u8

text \<open>The configured controller array and \<open>CONFIG_SYS_FSL_USDHC_NUM\<close> are arguments, as are the
  clock reading and the initialisation of the controller driver.\<close>

function board_mmc_init_from ::
  "nat \<Rightarrow> nat \<Rightarrow> u32 \<Rightarrow> (fsl_esdhc_cfg \<Rightarrow> sys \<Rightarrow> int \<times> sys) \<Rightarrow> fsl_esdhc_cfg list \<Rightarrow> sys
   \<Rightarrow> int \<times> fsl_esdhc_cfg list \<times> sys" where
  "board_mmc_init_from i num clk fsl_esdhc_initialize usdhc_cfg s =
     (if i < num then
        if i = 0 then
          let s = imx_iomux_v3_setup_multiple_pads usdhc1_pads s;
              s = gpio_run [Direction_input USDHC1_CD_GPIO] s;
              usdhc_cfg = usdhc_cfg[0 := (usdhc_cfg ! 0)\<lparr>sdhc_clk := clk, max_bus_width := 4\<rparr>];
              (ret, s) = fsl_esdhc_initialize (usdhc_cfg ! i) s
          in if c_true ret then (ret, usdhc_cfg, s)
             else board_mmc_init_from (Suc i) num clk fsl_esdhc_initialize usdhc_cfg s
        else (- EINVAL, usdhc_cfg, s)
      else (0, usdhc_cfg, s))"
  by pat_completeness auto
termination
  by (relation "measure (\<lambda>(i, num, _). num - i)") simp_all

definition board_mmc_init where
  "board_mmc_init = board_mmc_init_from 0"

definition board_phy_config :: "sys \<Rightarrow> int \<times> sys" where
  "board_phy_config s = (0, s)"

definition board_eth_init :: "(sys \<Rightarrow> int \<times> sys) \<Rightarrow> sys \<Rightarrow> int \<times> sys" where
  "board_eth_init cpu_eth_init s = cpu_eth_init (setup_iomux_enet s)"

definition USB_BASE_ADDR :: u32 where "USB_BASE_ADDR = 0x02100000 + 0x80000 + 0x4000"
definition USB_OTHERREGS_OFFSET :: u32 where "USB_OTHERREGS_OFFSET = 0x800"
definition UCTRL_PWR_POL :: u32 where "UCTRL_PWR_POL = push_bit 9 1"

definition board_ehci_hcd_init :: "int \<Rightarrow> sys \<Rightarrow> int \<times> sys" where
  "board_ehci_hcd_init port s =
     (if port > 1 then (- EINVAL, s)
      else
        let usbnc_usb_ctrl = USB_BASE_ADDR + USB_OTHERREGS_OFFSET + of_int port * 4
        in (0, writel (readl usbnc_usb_ctrl s OR UCTRL_PWR_POL) usbnc_usb_ctrl s))"

definition board_ehci_power :: "int \<Rightarrow> int \<Rightarrow> sys \<Rightarrow> int \<times> sys" where
  "board_ehci_power port on s =
     (if port = 0 then (0, s)
      else if port = 1 then
        (0, gpio_run [Direction_output (IMX_GPIO_NR 2 10)
               (if c_true on then (if Board_Version s = 1 then 1 else 0)
                else (if Board_Version s = 1 then 0 else 1))] s)
      else (- EINVAL, s))"

definition board_early_init_f :: "sys \<Rightarrow> int \<times> sys" where
  "board_early_init_f s = (0, setup_iomux_uart s)"

definition power_init_board :: "sys \<Rightarrow> int \<times> sys" where
  "power_init_board s = (0, s)"

definition board_spi_cs_gpio :: "nat \<Rightarrow> nat \<Rightarrow> int" where
  "board_spi_cs_gpio bus cs = (if bus = 0 \<and> cs = 0 then int (IMX_GPIO_NR 4 9) else - 1)"

definition checkboard :: "sys \<Rightarrow> int \<times> sys" where
  "checkboard s =
     (let s = imx_iomux_v3_setup_multiple_pads sdpower_pads s
      in (0, gpio_run [Direction_output (IMX_GPIO_NR 2 8) 0] s))"

section \<open>The version detection\<close>

text \<open>One round of the loop: both readings, and the state after them.\<close>

definition first_reading :: "env \<Rightarrow> nat \<Rightarrow> sys \<Rightarrow> bool" where
  "first_reading e g s = bit (gpio_psr e s (GPIO_TO_PORT g)) (g mod 32)"

definition after_round :: "sys \<Rightarrow> sys" where
  "after_round s = s\<lparr>now := now s + 12\<rparr>"

definition second_reading :: "env \<Rightarrow> nat \<Rightarrow> sys \<Rightarrow> bool" where
  "second_reading e g s = bit (gpio_psr e (s\<lparr>now := now s + 11\<rparr>) (GPIO_TO_PORT g)) (g mod 32)"

lemma version_loop_round:
  assumes "valid_gpio g"
  shows "version_loop e g low high give_up cnt s =
    (if first_reading e g s = second_reading e g s
     then (if first_reading e g s then high else low, cnt, after_round s)
     else if cnt + 1 > 100 then (give_up, cnt + 1, after_round s)
     else version_loop e g low high give_up (cnt + 1) (after_round s))"
proof -
  have u8: "(of_int (of_bool b) :: u8) = of_int (of_bool c) \<longleftrightarrow> b = c" for b c
    by (cases b; cases c) simp_all
  have low: "(of_int (of_bool b) :: u8) AND 1 = 0 \<longleftrightarrow> \<not> b" for b
    by (cases b) simp_all
  show ?thesis
    using assms
    by (subst version_loop.simps)
       (simp add: Let_def split_beta gpio_get_value_state gpio_get_value_bit udelay_def u8 low
          first_reading_def second_reading_def after_round_def add.commute del: of_int_of_bool)
qed

lemma version_loop_cases [consumes 1, case_names agree give_up retry]:
  assumes "valid_gpio g"
    and agree: "\<And>cnt s. first_reading e g s = second_reading e g s \<Longrightarrow>
      P cnt s (if first_reading e g s then high else low, cnt, after_round s)"
    and give_up: "\<And>cnt s. first_reading e g s \<noteq> second_reading e g s \<Longrightarrow> cnt + 1 > 100 \<Longrightarrow>
      P cnt s (give_up, cnt + 1, after_round s)"
    and retry: "\<And>cnt s r. first_reading e g s \<noteq> second_reading e g s \<Longrightarrow> \<not> cnt + 1 > 100 \<Longrightarrow>
      P (cnt + 1) (after_round s) r \<Longrightarrow> P cnt s r"
  shows "P cnt s (version_loop e g low high give_up cnt s)"
proof (induction "retries_left cnt" arbitrary: cnt s rule: less_induct)
  case less
  show ?case
  proof (cases "first_reading e g s = second_reading e g s \<or> cnt + 1 > 100")
    case True
    then show ?thesis
      using agree give_up by (subst version_loop_round [OF assms(1)]) auto
  next
    case False
    then show ?thesis
      using retry less retries_left_less by (subst version_loop_round [OF assms(1)]) auto
  qed
qed

lemma version_loop_frame:
  assumes "valid_gpio g"
  shows "\<exists>n. snd (snd (version_loop e g low high give_up cnt s)) = s\<lparr>now := n\<rparr>"
  using assms
  by (rule version_loop_cases [where P = "\<lambda>cnt s r. \<exists>n. snd (snd r) = s\<lparr>now := n\<rparr>"])
     (auto simp: after_round_def)

lemma version_loop_answer:
  assumes "valid_gpio g"
  shows "fst (version_loop e g low high give_up cnt s) \<in> {low, high, give_up}"
  using assms
  by (rule version_loop_cases [where P = "\<lambda>cnt s r. fst r \<in> {low, high, give_up}"]) auto

text \<open>The counter, and with it the time the loop takes, is bounded.\<close>

lemma version_loop_time:
  assumes "valid_gpio g" and "cnt \<le> 100"
  shows "now (snd (snd (version_loop e g low high give_up cnt s))) \<le> now s + 12 * (101 - unat cnt)"
proof -
  have *: "(\<lambda>cnt s r. cnt \<le> 100 \<longrightarrow> now (snd (snd r)) \<le> now s + 12 * (101 - unat cnt)) cnt s
      (version_loop e g low high give_up cnt s)"
    using assms(1)
  proof (rule version_loop_cases)
    fix cnt :: u8 and s and r :: "u8 \<times> u8 \<times> sys"
    assume le: "\<not> cnt + 1 > 100" and
      IH: "cnt + 1 \<le> 100 \<longrightarrow> now (snd (snd r)) \<le> now (after_round s) + 12 * (101 - unat (cnt + 1))"
    show "cnt \<le> 100 \<longrightarrow> now (snd (snd r)) \<le> now s + 12 * (101 - unat cnt)"
    proof
      assume "cnt \<le> 100"
      then have "unat (cnt + 1) = Suc (unat cnt)"
        by (simp add: word_le_nat_alt unat_plus_if')
      then show "now (snd (snd r)) \<le> now s + 12 * (101 - unat cnt)"
        using IH le by (simp add: after_round_def word_less_nat_alt word_le_nat_alt)
    qed
  qed (auto simp: after_round_def word_le_nat_alt)
  with assms(2) show ?thesis
    by simp
qed

lemma version_loop_stable:
  assumes "valid_gpio g" and "\<And>s. bit (gpio_psr e s (GPIO_TO_PORT g)) (g mod 32) = b"
  shows "version_loop e g low high give_up cnt s = (if b then high else low, cnt, after_round s)"
  using assms by (subst version_loop_round) (simp_all add: first_reading_def second_reading_def)

lemma pin_state_updates [simp]:
  "pin_state (s\<lparr>now := n\<rparr>) = pin_state s"
  "pin_state (s\<lparr>Board_Version := v\<rparr>) = pin_state s"
  "pin_state (s\<lparr>mmio := r\<rparr>) = pin_state s"
  "pin_state (s\<lparr>mem := m\<rparr>) = pin_state s"
  "pin_state (imx_iomux_v3_setup_multiple_pads ps s) = pin_state s"
  "pin_state (udelay d s) = pin_state s"
  by (rule pin_state_bank, simp add: udelay_def)+

section \<open>What \<open>setup_gpio_io_fast\<close> leaves\<close>

text \<open>
  The function in two stages: the first loop and the setting of the USB power pin, then, only
  when the first answer was 2, the second loop.
\<close>

definition after_first_loop :: "env \<Rightarrow> sys \<Rightarrow> u8 \<times> sys" where
  "after_first_loop e s =
     (let (v, cnt, s) = version_loop e (IMX_GPIO_NR 2 10) 1 2 2 0
                          (gpio_run [Direction_input (IMX_GPIO_NR 2 10)] s)
      in (cnt, gpio_run [Direction_output (IMX_GPIO_NR 2 10) (if v = 1 then 0 else 1),
                         Direction_input (IMX_GPIO_NR 4 5)] (s\<lparr>Board_Version := v\<rparr>)))"

lemma setup_gpio_io_fast_stages:
  "setup_gpio_io_fast e s =
     (let (cnt, s) = after_first_loop e s in
      if Board_Version s = 2 then
        let (v, cnt, s) = version_loop e (IMX_GPIO_NR 4 5) 3 2 3 cnt s in s\<lparr>Board_Version := v\<rparr>
      else s)"
  by (auto simp: setup_gpio_io_fast_def after_first_loop_def Let_def split_beta
      simp flip: gpio_run_append)

lemma after_first_loop_pins:
  fixes e s
  defines "t \<equiv> snd (after_first_loop e s)"
  shows "Board_Version t \<in> {1, 2}"
    and "pin_state t (IMX_GPIO_NR 2 10) = (True, Board_Version t \<noteq> 1)"
    and "\<not> is_output t (IMX_GPIO_NR 4 5)"
    and "mem t = mem s" and "mmio t = mmio s" and "bootMode t = bootMode s"
proof -
  define s0 where "s0 = gpio_run [Direction_input (IMX_GPIO_NR 2 10)] s"
  obtain v c t' where r: "version_loop e (IMX_GPIO_NR 2 10) 1 2 2 0 s0 = (v, c, t')"
    by (cases "version_loop e (IMX_GPIO_NR 2 10) 1 2 2 0 s0") auto
  obtain n where t': "t' = s0\<lparr>now := n\<rparr>"
    using version_loop_frame [of "IMX_GPIO_NR 2 10" e 1 2 2 0 s0] by (auto simp: r)
  have v: "v \<in> {1, 2}"
    using version_loop_answer [of "IMX_GPIO_NR 2 10" e 1 2 2 0 s0] by (auto simp: r)
  have t: "t = gpio_run [Direction_output (IMX_GPIO_NR 2 10) (if v = 1 then 0 else 1),
      Direction_input (IMX_GPIO_NR 4 5)] (t'\<lparr>Board_Version := v\<rparr>)"
    using r by (simp add: t_def after_first_loop_def s0_def)
  show "Board_Version t \<in> {1, 2}" "mem t = mem s" "mmio t = mmio s" "bootMode t = bootMode s"
    using v by (auto simp: t t' s0_def)
  show "pin_state t (IMX_GPIO_NR 2 10) = (True, Board_Version t \<noteq> 1)"
    by (simp add: t pin_compute)
  have "fst (pin_state t (IMX_GPIO_NR 4 5)) = False"
    by (simp add: t pin_compute)
  then show "\<not> is_output t (IMX_GPIO_NR 4 5)"
    by (simp add: pin_state_def)
qed

lemma setup_gpio_io_fast_pins:
  fixes e s
  defines "t \<equiv> setup_gpio_io_fast e s"
  shows "Board_Version t \<in> {1, 2, 3}"
    and "pin_state t (IMX_GPIO_NR 2 10) = (True, Board_Version t \<noteq> 1)"
    and "\<not> is_output t (IMX_GPIO_NR 4 5)"
    and "mem t = mem s" and "mmio t = mmio s" and "bootMode t = bootMode s"
proof -
  obtain cnt u where a: "after_first_loop e s = (cnt, u)"
    by (cases "after_first_loop e s")
  obtain v c t' where r: "version_loop e (IMX_GPIO_NR 4 5) 3 2 3 cnt u = (v, c, t')"
    by (cases "version_loop e (IMX_GPIO_NR 4 5) 3 2 3 cnt u") auto
  obtain n where t': "t' = u\<lparr>now := n\<rparr>"
    using version_loop_frame [of "IMX_GPIO_NR 4 5" e 3 2 3 cnt u] by (auto simp: r)
  have v: "v \<in> {2, 3}"
    using version_loop_answer [of "IMX_GPIO_NR 4 5" e 3 2 3 cnt u] by (auto simp: r)
  have t: "t = (if Board_Version u = 2 then u\<lparr>now := n, Board_Version := v\<rparr> else u)"
    by (simp add: t_def setup_gpio_io_fast_stages a r t')
  note u = after_first_loop_pins [of e s, unfolded a, simplified]
  show "Board_Version t \<in> {1, 2, 3}" "mem t = mem s" "mmio t = mmio s" "bootMode t = bootMode s"
    using u v by (auto simp: t)
  show "pin_state t (IMX_GPIO_NR 2 10) = (True, Board_Version t \<noteq> 1)"
    using u v by (auto simp: t)
  show "\<not> is_output t (IMX_GPIO_NR 4 5)"
    using u by (simp add: t is_output_def)
qed

lemma setup_gpio_io_fast_stable:
  assumes "\<And>s. bit (gpio_psr e s 1) 10 = b2" and "\<And>s. bit (gpio_psr e s 3) 5 = b3"
  shows "Board_Version (setup_gpio_io_fast e s) = (if \<not> b2 then 1 else if b3 then 2 else 3)"
proof -
  have first: "version_loop e (IMX_GPIO_NR 2 10) 1 2 2 cnt s = (if b2 then 2 else 1, cnt, after_round s)"
    for cnt s
    by (rule version_loop_stable) (simp_all add: assms [simplified] IMX_GPIO_NR_def GPIO_TO_PORT_def valid_gpio_less)
  have second: "version_loop e (IMX_GPIO_NR 4 5) 3 2 3 cnt s = (if b3 then 2 else 3, cnt, after_round s)"
    for cnt s
    by (rule version_loop_stable) (simp_all add: assms [simplified] IMX_GPIO_NR_def GPIO_TO_PORT_def valid_gpio_less)
  show ?thesis
    by (simp add: setup_gpio_io_fast_def first second Let_def)
qed

section \<open>What \<open>setup_gpio\<close> leaves\<close>

text \<open>The pins as the comments of \<open>setup_gpio_io\<close> describe them, for each version of the board.\<close>

definition board_inputs :: "u8 \<Rightarrow> nat list" where
  "board_inputs version =
     map (IMX_GPIO_NR 1) ([2, 6, 10, 14, 15] @ (if version = 3 then [23] else [24, 25, 26, 27, 28, 29, 30])) @
     map (IMX_GPIO_NR 5) [14, 15, 16, 17, 18, 19] @
     map (IMX_GPIO_NR 6) ([14, 15, 16] @ (if version = 3 then [17, 18, 19] else [])) @
     map (IMX_GPIO_NR 7) ((if version = 3 then [0] else []) @ [11, 12, 13])"

definition board_outputs :: "u8 \<Rightarrow> (nat \<times> bool) list" where
  "board_outputs version =
     map (\<lambda>(i, b). (IMX_GPIO_NR 2 i, b))
       [(8, True), (10, version \<noteq> 1), (11, False), (12, True), (13, True), (14, True), (15, False)] @
     map (\<lambda>i. (IMX_GPIO_NR 3 i, False)) [16, 17, 18, 19, 20, 22, 23, 26, 27, 29, 30, 31]"

lemma is_output_pin_state: "is_output s g = fst (pin_state s g)"
  by (simp add: pin_state_def)

lemma setup_gpio_final:
  fixes e s
  defines "u \<equiv> setup_iomux_gpio (setup_gpio_io_fast e (setup_iomux_gpio_fast s))"
  shows "pin_state (setup_gpio e s)
     = pin_state (gpio_run ((if Board_Version u = 3 then setup_gpio_io_3rd else setup_gpio_io_legacy)
         @ [Direction_output (IMX_GPIO_NR 2 8) 1]) u)"
    and "Board_Version (setup_gpio e s) = Board_Version u"
    and "mmio (setup_gpio e s) = mmio u"
    and "mem (setup_gpio e s) = mem u" and "bootMode (setup_gpio e s) = bootMode u"
    and "now (setup_gpio e s) = now u + 90000"
proof -
  show "pin_state (setup_gpio e s)
     = pin_state (gpio_run ((if Board_Version u = 3 then setup_gpio_io_3rd else setup_gpio_io_legacy)
         @ [Direction_output (IMX_GPIO_NR 2 8) 1]) u)"
    by (rule pin_state_bank)
       (simp add: setup_gpio_def setup_gpio_io_def u_def [symmetric] Let_def udelay_def
          gpio_run_append gpio_run_bank_cong [of "_\<lparr>now := _\<rparr>" "gpio_run _ u"])
qed (simp_all add: setup_gpio_def setup_gpio_io_def u_def Let_def udelay_def)

lemma setup_gpio_before:
  fixes e s
  defines "u \<equiv> setup_iomux_gpio (setup_gpio_io_fast e (setup_iomux_gpio_fast s))"
  shows "Board_Version u \<in> {1, 2, 3}"
    and "pin_state u (IMX_GPIO_NR 2 10) = (True, Board_Version u \<noteq> 1)"
    and "mem u = mem s" and "bootMode u = bootMode s"
  using setup_gpio_io_fast_pins [of e "setup_iomux_gpio_fast s"]
  by (auto simp: u_def setup_iomux_gpio_def setup_iomux_gpio_fast_def)

lemma sections_ok:
  assumes "cs \<in> {setup_gpio_io_3rd, setup_gpio_io_legacy}"
  shows "distinct (map call_pin cs)" and "list_all (\<lambda>c. valid_gpio (call_pin c)) cs"
    and "IMX_GPIO_NR 2 10 \<notin> call_pin ` set cs"
  using assms by (auto simp: gpio_sections valid_gpio_less IMX_GPIO_NR_def)

lemma board_inputs_calls:
  "list_all (\<lambda>g. Direction_input g \<in> set setup_gpio_io_3rd) (board_inputs 3)"
  "v \<noteq> 3 \<Longrightarrow> list_all (\<lambda>g. Direction_input g \<in> set setup_gpio_io_legacy) (board_inputs v)"
  by (simp_all add: board_inputs_def gpio_sections)

definition driven_by :: "gpio_call list \<Rightarrow> nat \<times> bool \<Rightarrow> bool" where
  "driven_by cs gb \<longleftrightarrow> Direction_output (fst gb) (of_bool (snd gb)) \<in> set cs"

lemma board_outputs_calls:
  assumes "cs \<in> {setup_gpio_io_3rd, setup_gpio_io_legacy}"
  shows "list_all (\<lambda>gb. fst gb \<in> {IMX_GPIO_NR 2 8, IMX_GPIO_NR 2 10} \<or> driven_by cs gb) (board_outputs v)"
  using assms by (auto simp: board_outputs_def gpio_sections driven_by_def)

lemma board_pins_not_SD:
  "list_all (\<lambda>g. g \<noteq> IMX_GPIO_NR 2 8 \<and> valid_gpio g) (board_inputs v)"
  "list_all (\<lambda>gb. valid_gpio (fst gb) \<and> (fst gb = IMX_GPIO_NR 2 8 \<longrightarrow> snd gb)
     \<and> (fst gb = IMX_GPIO_NR 2 10 \<longrightarrow> snd gb = (v \<noteq> 1))) (board_outputs v)"
  by (simp_all add: board_inputs_def board_outputs_def IMX_GPIO_NR_def valid_gpio_less)

lemma setup_gpio_pins:
  fixes e s
  defines "t \<equiv> setup_gpio e s"
  shows "list_all (\<lambda>g. \<not> is_output t g) (board_inputs (Board_Version t))"
    and "list_all (\<lambda>(g, b). pin_state t g = (True, b)) (board_outputs (Board_Version t))"
proof -
  define u where "u = setup_iomux_gpio (setup_gpio_io_fast e (setup_iomux_gpio_fast s))"
  define cs where "cs = (if Board_Version u = 3 then setup_gpio_io_3rd else setup_gpio_io_legacy)"
  have cs: "cs \<in> {setup_gpio_io_3rd, setup_gpio_io_legacy}"
    by (simp add: cs_def)
  note final = setup_gpio_final [of e s, folded u_def t_def, folded cs_def]
  have pin: "pin_state t g = (if g = IMX_GPIO_NR 2 8 then (True, True) else pin_state (gpio_run cs u) g)"
    if "valid_gpio g" for g
    using that by (simp add: final gpio_run_append gpio_run_pin_pair c_true_def)
      (simp add: pin_state_def)
  show "list_all (\<lambda>g. \<not> is_output t g) (board_inputs (Board_Version t))"
    using board_inputs_calls board_pins_not_SD(1) [of "Board_Version u"]
      gpio_run_distinct(1) [OF sections_ok(1,2) [OF cs]]
    by (auto simp: list_all_iff is_output_pin_state pin final(2) cs_def)
  have usb: "pin_state (gpio_run cs u) (IMX_GPIO_NR 2 10) = (True, Board_Version u \<noteq> 1)"
    using setup_gpio_before [of e s] sections_ok [OF cs] by (simp add: gpio_run_untouched u_def)
  have out: "pin_state (gpio_run cs u) g = (True, b)" if "driven_by cs (g, b)" for g b
    using gpio_run_distinct(2) [OF sections_ok(1,2) [OF cs]] that
    by (cases b) (auto simp: driven_by_def c_true_def)
  show "list_all (\<lambda>(g, b). pin_state t g = (True, b)) (board_outputs (Board_Version t))"
    using board_outputs_calls [OF cs, of "Board_Version u"] board_pins_not_SD(2) [of "Board_Version u"] out usb
    by (fastforce simp: list_all_iff pin final(2))
qed

section \<open>Safety switches\<close>

definition safety_switches :: "u8 \<Rightarrow> (nat \<times> iomux_v3_cfg_t) list" where
  "safety_switches version =
     [(IMX_GPIO_NR 1 2, MX6_PAD_GPIO_2__GPIO1_IO02),
      (IMX_GPIO_NR 1 6, MX6_PAD_GPIO_6__GPIO1_IO06),
      (IMX_GPIO_NR 1 10, MX6_PAD_SD2_CLK__GPIO1_IO10),
      (IMX_GPIO_NR 1 14, MX6_PAD_SD2_DAT1__GPIO1_IO14)] @
     (if version = 3 then
        [(IMX_GPIO_NR 5 19, MX6_PAD_CSI0_MCLK__GPIO5_IO19),
         (IMX_GPIO_NR 6 14, MX6_PAD_NANDF_CS1__GPIO6_IO14)]
      else
        [(IMX_GPIO_NR 1 24, MX6_PAD_ENET_RX_ER__GPIO1_IO24),
         (IMX_GPIO_NR 1 25, MX6_PAD_ENET_CRS_DV__GPIO1_IO25)])"

text \<open>All registers of a pad hold what \<open>pad\<close> with pad control \<open>ctl\<close> asks for.\<close>

definition pad_is_set :: "sys \<Rightarrow> u32 \<Rightarrow> iomux_v3_cfg_t \<Rightarrow> bool" where
  "pad_is_set s ctl pad \<longleftrightarrow>
     list_all (\<lambda>(ofs, v). readl (IOMUXC_BASE_ADDR + ofs) s = v) (pad_writes (pad OR MUX_PAD_CTRL ctl))"

lemma board_pad_ctrl_values:
  "GPIO_PD_PAD_CTRL = 0x130B0" "GPIO_PU_PAD_CTRL = 0x1B0B0" "GPIO_47PU_PAD_CTRL = 0x170B0"
  "NO_PAD_CTRL = 0x20000"
  by (simp_all add: board_pad_ctrl_defs pad_ctl_defs)

lemmas table_compute =
  table_writes_def pad_writes_packed write_ofs_def board_pad_ctrl_values pin_defs c_true_def

lemma safety_switch_writes:
  "list_all (\<lambda>(g, pad). list_all (\<lambda>(ofs, v). map_of (rev (table_writes gpio_pads_3rd)) ofs = Some v)
      (pad_writes (pad OR MUX_PAD_CTRL GPIO_PD_PAD_CTRL))) (safety_switches 3)"
  "list_all (\<lambda>(g, pad). list_all (\<lambda>(ofs, v). map_of (rev (table_writes gpio_pads)) ofs = Some v)
      (pad_writes (pad OR MUX_PAD_CTRL GPIO_PD_PAD_CTRL))) (safety_switches 1)"
  by (simp_all add: safety_switches_def table_compute gpio_pads_3rd_def gpio_pads_def)

text \<open>After \<open>setup_gpio\<close> every safety switch is a GPIO input pulled down.\<close>

lemma setup_gpio_safety:
  fixes e s
  defines "t \<equiv> setup_gpio e s"
  shows "list_all (\<lambda>(g, pad). pad_is_set t GPIO_PD_PAD_CTRL pad \<and> g \<in> set (board_inputs (Board_Version t)))
    (safety_switches (Board_Version t))"
proof -
  define w where "w = setup_gpio_io_fast e (setup_iomux_gpio_fast s)"
  define tab where "tab = (if Board_Version w = 3 then gpio_pads_3rd else gpio_pads)"
  have t: "mmio t = mmio (imx_iomux_v3_setup_multiple_pads tab w)" "Board_Version t = Board_Version w"
    by (simp_all add: t_def setup_gpio_final w_def tab_def setup_iomux_gpio_def)
  have same: "safety_switches v = safety_switches 1" if "v \<noteq> 3" for v
    using that by (simp add: safety_switches_def)
  have "list_all (\<lambda>(g, pad). list_all (\<lambda>(ofs, v). map_of (rev (table_writes tab)) ofs = Some v)
      (pad_writes (pad OR MUX_PAD_CTRL GPIO_PD_PAD_CTRL))) (safety_switches (Board_Version t))"
    using safety_switch_writes same [of "Board_Version w"]
    by (cases "Board_Version w = 3") (simp_all add: tab_def t(2))
  moreover have "readl (IOMUXC_BASE_ADDR + ofs) t = v" if "map_of (rev (table_writes tab)) ofs = Some v" for ofs v
    using that by (simp add: readl_def t(1) setup_multiple_pads_apply_writes mmio_apply_writes)
  moreover have "list_all (\<lambda>(g, pad). g \<in> set (board_inputs v)) (safety_switches v)" for v
    by (simp add: safety_switches_def board_inputs_def)
  ultimately show ?thesis
    unfolding pad_is_set_def by (fastforce simp: list_all_iff)
qed

end
