(* ===== verification/Leds_Buzzer.thy ===== *)
theory Leds_Buzzer
  imports Board_Gpio
begin

text \<open>
  What the operator sees and hears: the PWM driver (\<open>drivers/pwm/pwm-imx.c\<close> and
  \<open>pwm-imx-util.c\<close>) with the buzzer and the backlight on it, the LEDs, and the timed blinking
  that the SD card driver triggers while it reads (\<open>osBoot_LED_Blink\<close>).

  The lemmas show that the buzzer is always left silent, that the parameters the PWM driver
  computes fit its 16-bit registers with a duty that never exceeds the period, that the running
  LED number stays within 0 to 3, and what each step of the running light shows.
\<close>

section \<open>The PWM driver\<close>

definition PWM1_BASE_ADDR :: u32 where "PWM1_BASE_ADDR = 0x02000000 + 0x80000 + 0x0000"
definition PWM2_BASE_ADDR :: u32 where "PWM2_BASE_ADDR = 0x02000000 + 0x80000 + 0x4000"
definition PWM3_BASE_ADDR :: u32 where "PWM3_BASE_ADDR = 0x02000000 + 0x80000 + 0x8000"
definition PWM4_BASE_ADDR :: u32 where "PWM4_BASE_ADDR = 0x02000000 + 0x80000 + 0xC000"

lemmas pwm_base_defs =
  PWM1_BASE_ADDR_def PWM2_BASE_ADDR_def PWM3_BASE_ADDR_def PWM4_BASE_ADDR_def

text \<open>\<open>NULL\<close> is the address 0.  Register offsets of \<open>struct pwm_regs\<close>: cr 0, sr 4, ir 8,
  sar 12, pr 16, cnr 20.\<close>

definition pwm_id_to_reg :: "int \<Rightarrow> u32" where
  "pwm_id_to_reg pwm_id =
     (if pwm_id = 0 then PWM1_BASE_ADDR else if pwm_id = 1 then PWM2_BASE_ADDR
      else if pwm_id = 2 then PWM3_BASE_ADDR else if pwm_id = 3 then PWM4_BASE_ADDR else 0)"

definition PWMCR_PRESCALER :: "u32 \<Rightarrow> u32" where
  "PWMCR_PRESCALER x = push_bit 4 ((x - 1) AND 0xFFF)"
definition PWMCR_EN :: u32 where "PWMCR_EN = push_bit 0 1"

definition pwm_init :: "int \<Rightarrow> int \<Rightarrow> int \<Rightarrow> sys \<Rightarrow> int \<times> sys" where
  "pwm_init pwm_id divi invert s =
     (let pwm = pwm_id_to_reg pwm_id in
      if pwm = 0 then (- 1, s) else (0, writel 0 (pwm + 8) s))"

text \<open>
  \<open>pwm_imx_get_parms\<close> with the clock \<open>CONFIG_IMX6_PWM_PER_CLK\<close> of 66 MHz; it returns
  (period, duty, prescale).  \<open>c\<close> is an unsigned 64-bit product (a negative \<open>period_ns\<close> or
  \<open>duty_ns\<close> is sign-extended), the results are 32-bit.  \<open>do_div\<close> divides a 64-bit value
  by the low 32 bits of its second argument.
\<close>

definition do_div :: "u64 \<Rightarrow> u32 \<Rightarrow> u64" where
  "do_div n base = n div ucast base"

definition pwm_imx_get_parms :: "int \<Rightarrow> int \<Rightarrow> u32 \<times> u32 \<times> u32" where
  "pwm_imx_get_parms period_ns duty_ns =
     (let c = (66000000 :: u64);
          c = c * of_int period_ns;
          c = do_div c 1000000000;
          period_c = (ucast c :: u32);
          prescale = period_c div 0x10000 + 1;
          period_c = period_c div prescale;
          c = ucast period_c * of_int duty_ns;
          c = do_div c (of_int period_ns);
          duty_c = (ucast c :: u32);
          period_c = (if period_c > 2 then period_c - 2 else 0)
      in (period_c, duty_c, prescale))"

definition pwm_config :: "int \<Rightarrow> int \<Rightarrow> int \<Rightarrow> sys \<Rightarrow> int \<times> sys" where
  "pwm_config pwm_id duty_ns period_ns s =
     (let pwm = pwm_id_to_reg pwm_id in
      if pwm = 0 then (- 1, s)
      else
        let (period_cycles, duty_cycles, prescale) = pwm_imx_get_parms period_ns duty_ns;
            cr = PWMCR_PRESCALER prescale OR push_bit 24 1 OR push_bit 23 1 OR push_bit 22 1 OR
                 push_bit 16 2;
            s = writel cr (pwm + 0) s;
            s = writel duty_cycles (pwm + 12) s
        in (0, writel period_cycles (pwm + 16) s))"

definition pwm_config_direct :: "int \<Rightarrow> u32 \<Rightarrow> u32 \<Rightarrow> sys \<Rightarrow> int \<times> sys" where
  "pwm_config_direct pwm_id sample period s =
     (let pwm = pwm_id_to_reg pwm_id in
      if pwm = 0 then (- 1, s)
      else
        let s = writel sample (pwm + 12) s;
            s = writel period (pwm + 16) s;
            cr = PWMCR_PRESCALER 3 OR push_bit 25 1 OR push_bit 24 1 OR push_bit 23 1 OR
                 push_bit 22 1;
            cr = cr OR push_bit 16 2
        in (0, writel cr (pwm + 0) s))"

definition pwm_enable :: "int \<Rightarrow> sys \<Rightarrow> int \<times> sys" where
  "pwm_enable pwm_id s =
     (let pwm = pwm_id_to_reg pwm_id in
      if pwm = 0 then (- 1, s) else (0, writel (readl (pwm + 0) s OR PWMCR_EN) (pwm + 0) s))"

definition pwm_disable :: "int \<Rightarrow> sys \<Rightarrow> sys" where
  "pwm_disable pwm_id s =
     (let pwm = pwm_id_to_reg pwm_id in
      if pwm = 0 then s else writel (readl (pwm + 0) s AND NOT PWMCR_EN) (pwm + 0) s)"

section \<open>Buzzer and backlight\<close>

definition PWM1_ID :: int where "PWM1_ID = 0"
definition PWM3_ID :: int where "PWM3_ID = 2"
definition BKL_PWM_PERIOD :: u32 where "BKL_PWM_PERIOD = 32000 div 200 - 2"
definition BKL_PWM_SAMPLE :: u32 where "BKL_PWM_SAMPLE = 61"
definition BUZZER_PWM_LEVEL :: u32 where "BUZZER_PWM_LEVEL = 0x0000012C * 0x00000004"
definition BUZZER_PWM_PERIOD :: u32 where "BUZZER_PWM_PERIOD = 0x00000260 * 0x00000004"
definition BUZZER_BEEP_DURATION :: u32 where "BUZZER_BEEP_DURATION = 50 * 1000"

definition LCD_backlight_init :: "sys \<Rightarrow> sys" where
  "LCD_backlight_init s =
     (let s = imx_iomux_v3_setup_multiple_pads pwm1_pads s;
          s = snd (pwm_init PWM1_ID 0 0 s);
          s = snd (pwm_config_direct PWM1_ID BKL_PWM_SAMPLE BKL_PWM_PERIOD s)
      in snd (pwm_enable PWM1_ID s))"

definition DISP0_LCD_POWER :: nat where "DISP0_LCD_POWER = IMX_GPIO_NR 2 13"
definition DISP0_LCD_RESET :: nat where "DISP0_LCD_RESET = IMX_GPIO_NR 2 14"

definition enable_lcd :: "sys \<Rightarrow> sys" where
  "enable_lcd s =
     (let s = gpio_run [Direction_output DISP0_LCD_RESET 0, Direction_output DISP0_LCD_POWER 1] s;
          s = udelay 5 s;
          s = gpio_run [Direction_output DISP0_LCD_RESET 1] s
      in LCD_backlight_init s)"

text \<open>\<open>add_board_boot_modes\<close> only fills the table of the \<open>bmode\<close> command.\<close>

definition board_late_init :: "sys \<Rightarrow> int \<times> sys" where
  "board_late_init s = (0, enable_lcd s)"

definition BuzzerInit :: "sys \<Rightarrow> sys" where
  "BuzzerInit s =
     (let s = imx_iomux_v3_setup_multiple_pads pwm3_pads s;
          s = snd (pwm_init PWM3_ID 0 0 s)
      in snd (pwm_config_direct PWM3_ID BUZZER_PWM_LEVEL BUZZER_PWM_PERIOD s))"

definition BuzzerBeep :: "bsp_config \<Rightarrow> u32 \<Rightarrow> sys \<Rightarrow> sys" where
  "BuzzerBeep cfg beepTime s =
     (if BSP_SUPPORT_HIRATA cfg then
        let s = snd (pwm_enable PWM3_ID s);
            s = udelay (unat (beepTime div 2)) s;
            s = pwm_disable PWM3_ID s;
            s = udelay (unat beepTime) s;
            s = snd (pwm_enable PWM3_ID s);
            s = udelay (unat (beepTime div 2)) s
        in pwm_disable PWM3_ID s
      else
        let s = snd (pwm_enable PWM3_ID s);
            s = udelay (unat beepTime) s
        in pwm_disable PWM3_ID s)"

section \<open>LEDs\<close>

definition LED_GPIO3 :: "nat \<Rightarrow> nat" where
  "LED_GPIO3 i = IMX_GPIO_NR 3 i"

text \<open>The pins of \<open>les_pads\<close> and of \<open>sw_les_pads\<close>, in the order \<open>setup_led\<close> and
  \<open>setup_sw_led\<close> drive them.\<close>

definition led_pins :: "bsp_config \<Rightarrow> nat list" where
  "led_pins cfg =
     map LED_GPIO3 (if BSP_SUPPORT_HIRATA cfg then [16, 17, 18, 22, 23, 26, 27, 29, 30, 31]
                    else [16, 17, 18, 19, 20, 22, 23, 26, 27, 31])"

definition sw_led_pins :: "bsp_config \<Rightarrow> nat list" where
  "sw_led_pins cfg = map LED_GPIO3 (if BSP_SUPPORT_HIRATA cfg then [19, 20] else [29, 30])"

definition setup_led :: "bsp_config \<Rightarrow> sys \<Rightarrow> sys" where
  "setup_led cfg s =
     gpio_run (map (\<lambda>g. Direction_output g 0) (led_pins cfg))
       (imx_iomux_v3_setup_multiple_pads (les_pads cfg) s)"

definition setup_sw_led :: "bsp_config \<Rightarrow> sys \<Rightarrow> sys" where
  "setup_sw_led cfg s =
     gpio_run (map (\<lambda>g. Direction_output g 0) (sw_led_pins cfg))
       (imx_iomux_v3_setup_multiple_pads (sw_les_pads cfg) s)"

definition BlinkFourLEDs_toyota :: "int \<Rightarrow> gpio_call list" where
  "BlinkFourLEDs_toyota led =
     (if led = 0 \<or> led = 2 then [Set_value (LED_GPIO3 31) 1]
      else if led = 1 \<or> led = 3 then [Set_value (LED_GPIO3 31) 0]
      else [])"

definition BlinkFourLEDs_hirata :: "int \<Rightarrow> gpio_call list" where
  "BlinkFourLEDs_hirata led =
     (if led = 0 \<or> led = 2 then [Set_value (LED_GPIO3 16) 1, Set_value (LED_GPIO3 17) 0]
      else if led = 1 \<or> led = 3 then [Set_value (LED_GPIO3 16) 0, Set_value (LED_GPIO3 17) 1]
      else [])"

definition BlinkFourLEDs_standard :: "int \<Rightarrow> gpio_call list" where
  "BlinkFourLEDs_standard led =
     (if led = 0 then
        [Set_value (LED_GPIO3 18) 1, Set_value (LED_GPIO3 19) 0,
         Set_value (LED_GPIO3 22) 0, Set_value (LED_GPIO3 20) 0]
      else if led = 1 then
        [Set_value (LED_GPIO3 18) 0, Set_value (LED_GPIO3 19) 1,
         Set_value (LED_GPIO3 22) 0, Set_value (LED_GPIO3 20) 0]
      else if led = 2 then
        [Set_value (LED_GPIO3 18) 0, Set_value (LED_GPIO3 19) 0,
         Set_value (LED_GPIO3 22) 1, Set_value (LED_GPIO3 20) 0]
      else if led = 3 then
        [Set_value (LED_GPIO3 18) 0, Set_value (LED_GPIO3 19) 0,
         Set_value (LED_GPIO3 22) 0, Set_value (LED_GPIO3 20) 1]
      else [])"

definition BlinkFourLEDs :: "bsp_config \<Rightarrow> int \<Rightarrow> sys \<Rightarrow> sys" where
  "BlinkFourLEDs cfg led s =
     gpio_run
       (if BSP_SUPPORT_AUTOSELECT cfg then
          (if g_AutoSel s \<noteq> 0 then BlinkFourLEDs_toyota led else BlinkFourLEDs_standard led)
        else if BSP_SUPPORT_TOYOTA cfg then BlinkFourLEDs_toyota led
        else if BSP_SUPPORT_HIRATA cfg then BlinkFourLEDs_hirata led
        else BlinkFourLEDs_standard led) s"

definition BlinkAllLEDs :: "bsp_config \<Rightarrow> int \<Rightarrow> sys \<Rightarrow> sys" where
  "BlinkAllLEDs cfg on s =
     gpio_run
       (if BSP_SUPPORT_HIRATA cfg then
          map (\<lambda>i. Set_value (LED_GPIO3 i) on) [16, 17, 18, 22] @
          map (\<lambda>i. Set_value (LED_GPIO3 i) 0) [23, 26, 27, 29, 30, 31]
        else map (\<lambda>i. Set_value (LED_GPIO3 i) on) [16, 17, 18, 19, 20, 22, 23, 26, 27, 31])
       (setup_led cfg s)"

definition SW_LED :: "bsp_config \<Rightarrow> int \<Rightarrow> sys \<Rightarrow> sys" where
  "SW_LED cfg on s =
     gpio_run (map (\<lambda>i. Set_value (LED_GPIO3 i) on)
         (if BSP_SUPPORT_HIRATA cfg then [19, 20] else [29, 30]))
       (setup_sw_led cfg s)"

section \<open>Timed blinking\<close>

text \<open>\<open>get_timer\<close> counts milliseconds from a base, modulo \<open>2 ^ 32\<close>.\<close>

definition get_timer :: "env \<Rightarrow> u32 \<Rightarrow> sys \<Rightarrow> u32" where
  "get_timer e base s = timer_ms e s - base"

definition TimerInit :: "env \<Rightarrow> u32 \<Rightarrow> sys \<Rightarrow> sys" where
  "TimerInit e interval s = s\<lparr>timePast := get_timer e 0 s, timeInterval := interval\<rparr>"

definition osBoot_LED_Blink :: "bsp_config \<Rightarrow> env \<Rightarrow> sys \<Rightarrow> sys" where
  "osBoot_LED_Blink cfg e s =
     (if ledEnable s \<noteq> 0 then
        let timeNow = get_timer e (timePast s) s in
        if timeNow > timeInterval s then
          let s = s\<lparr>timePast := get_timer e 0 s\<rparr>;
              s = BlinkFourLEDs cfg (ledCount s) s;
              s = s\<lparr>ledCount := ledCount s + 1\<rparr>
          in if ledCount s > 3 then s\<lparr>ledCount := 0\<rparr> else s
        else s
      else s)"

section \<open>The buzzer is left silent\<close>

lemma pwm_disable_off:
  assumes "pwm_id_to_reg pwm_id \<noteq> 0"
  shows "\<not> bit (readl (pwm_id_to_reg pwm_id) (pwm_disable pwm_id s)) 0"
  using assms by (simp add: pwm_disable_def readl_def writel_def PWMCR_EN_def bit_simps Let_def)

lemma pwm_enable_on:
  assumes "pwm_id_to_reg pwm_id \<noteq> 0"
  shows "bit (readl (pwm_id_to_reg pwm_id) (snd (pwm_enable pwm_id s))) 0"
  using assms by (simp add: pwm_enable_def readl_def writel_def PWMCR_EN_def bit_simps Let_def)

lemma BuzzerBeep_silent: "\<not> bit (readl PWM3_BASE_ADDR (BuzzerBeep cfg beepTime s)) 0"
proof -
  have "pwm_id_to_reg PWM3_ID = PWM3_BASE_ADDR" "PWM3_BASE_ADDR \<noteq> 0"
    by (simp_all add: pwm_id_to_reg_def PWM3_ID_def pwm_base_defs)
  then show ?thesis
    using pwm_disable_off [of PWM3_ID] by (simp add: BuzzerBeep_def Let_def)
qed

lemma BuzzerBeep_time:
  "now (BuzzerBeep cfg beepTime s)
    = now s + (if BSP_SUPPORT_HIRATA cfg then 2 * (unat beepTime div 2) + unat beepTime else unat beepTime)"
  by (simp add: BuzzerBeep_def Let_def pwm_enable_def pwm_disable_def udelay_def writel_def unat_div)

section \<open>The parameters of the PWM\<close>

text \<open>The 64- and 32-bit computation is exact: nothing wraps for a period that fits an \<open>int\<close>.\<close>

lemma pwm_parms_exact:
  assumes p: "0 < p" "p < 2 ^ 31" and d: "d \<le> p"
  defines "cyc \<equiv> 66000000 * p div 1000000000"
  defines "pre \<equiv> cyc div 0x10000 + 1"
  shows "pwm_imx_get_parms (int p) (int d)
    = (of_nat (cyc div pre - 2), of_nat (cyc div pre * d div p), of_nat pre)"
    and "cyc div pre < 0x10000" and "pre \<le> 0x1000" and "cyc div pre * d div p \<le> cyc div pre"
proof -
  have cyc: "cyc < 2 ^ 28"
    using p by (simp add: cyc_def)
  then have pre: "0 < pre" "pre \<le> 0x1000"
    by (simp_all add: pre_def)
  have per: "cyc div pre < 0x10000"
  proof -
    have "cyc < 0x10000 * pre"
      using dividend_less_times_div [of "0x10000" cyc] by (simp add: pre_def)
    then show ?thesis
      using pre by (simp add: less_mult_imp_div_less)
  qed
  have "cyc div pre * d div p \<le> cyc div pre * p div p"
    using d by (intro div_le_mono) simp
  then have duty: "cyc div pre * d div p \<le> cyc div pre"
    using p by simp
  show "cyc div pre < 0x10000" "pre \<le> 0x1000" "cyc div pre * d div p \<le> cyc div pre"
    by fact+
  have c1: "do_div (66000000 * of_int (int p)) 1000000000 = of_nat cyc"
  proof -
    have "(66000000 * of_int (int p) :: u64) = of_nat (66000000 * p)"
      by simp
    then show ?thesis
      using p word_of_nat_div [of "66000000 * p" "1000000000", where 'a = 64]
      by (simp add: do_div_def cyc_def)
  qed
  have c2: "(ucast (of_nat cyc :: u64) :: u32) = of_nat cyc"
    using cyc by (simp add: ucast_of_nat_small)
  have c3: "(of_nat cyc :: u32) div 0x10000 + 1 = of_nat pre"
    using cyc word_of_nat_div [of cyc "0x10000", where 'a = 32] by (simp add: pre_def)
  have c4: "(of_nat cyc :: u32) div of_nat pre = of_nat (cyc div pre)"
    using cyc pre by (simp add: word_of_nat_div)
  have c5: "do_div (ucast (of_nat (cyc div pre) :: u32) * of_int (int d)) (of_int (int p))
      = of_nat (cyc div pre * d div p)"
  proof -
    have "cyc div pre * d \<le> 0x10000 * 2 ^ 31"
      using per p d by (intro mult_le_mono) simp_all
    then have "(of_nat (cyc div pre * d) :: u64) div of_nat p = of_nat (cyc div pre * d div p)"
      using p by (intro word_of_nat_div) simp_all
    moreover have "(ucast (of_nat p :: u32) :: u64) = of_nat p"
      "(ucast (of_nat (cyc div pre) :: u32) :: u64) = of_nat (cyc div pre)"
      using p per by (simp_all add: ucast_of_nat_small)
    ultimately show ?thesis
      by (simp add: do_div_def)
  qed
  have c6: "(ucast (of_nat (cyc div pre * d div p) :: u64) :: u32) = of_nat (cyc div pre * d div p)"
    using duty per by (simp add: ucast_of_nat_small)
  have c7: "(if (of_nat (cyc div pre) :: u32) > 2 then of_nat (cyc div pre) - 2 else 0)
      = (of_nat (cyc div pre - 2) :: u32)"
    using per word_of_nat_less_iff [of 2 "cyc div pre", where 'a = 32]
    by (auto simp: of_nat_diff not_less)
  show "pwm_imx_get_parms (int p) (int d)
    = (of_nat (cyc div pre - 2), of_nat (cyc div pre * d div p), of_nat pre)"
    unfolding pwm_imx_get_parms_def Let_def c1 c2 c3 c4 c5 c6 c7 ..
qed

section \<open>LEDs\<close>

lemma osBoot_LED_Blink_count:
  assumes "0 \<le> ledCount s" and "ledCount s \<le> 3"
  shows "0 \<le> ledCount (osBoot_LED_Blink cfg e s) \<and> ledCount (osBoot_LED_Blink cfg e s) \<le> 3"
  using assms by (simp add: osBoot_LED_Blink_def Let_def BlinkFourLEDs_def)

text \<open>Blinking changes the LED pins' data bits and the blink variables only.\<close>

lemma osBoot_LED_Blink_fields [simp]:
  "mem (osBoot_LED_Blink cfg e s) = mem s" "mmio (osBoot_LED_Blink cfg e s) = mmio s"
  "now (osBoot_LED_Blink cfg e s) = now s" "bootMode (osBoot_LED_Blink cfg e s) = bootMode s"
  "Board_Version (osBoot_LED_Blink cfg e s) = Board_Version s"
  "g_AutoSel (osBoot_LED_Blink cfg e s) = g_AutoSel s"
  "cur_dev (osBoot_LED_Blink cfg e s) = cur_dev s"
  "cur_part_info (osBoot_LED_Blink cfg e s) = cur_part_info s"
  "usb_dev_desc (osBoot_LED_Blink cfg e s) = usb_dev_desc s"
  "do_fat_read_at_block (osBoot_LED_Blink cfg e s) = do_fat_read_at_block s"
  "mmc_devices (osBoot_LED_Blink cfg e s) = mmc_devices s" "sd_line (osBoot_LED_Blink cfg e s) = sd_line s" "sd_app (osBoot_LED_Blink cfg e s) = sd_app s"
  "boot_dev (osBoot_LED_Blink cfg e s) = boot_dev s"
  "Allow_Boot_Version (osBoot_LED_Blink cfg e s) = Allow_Boot_Version s"
  "ledEnable (osBoot_LED_Blink cfg e s) = ledEnable s"
  by (simp_all add: osBoot_LED_Blink_def Let_def BlinkFourLEDs_def)

lemma BlinkFourLEDs_one_lit:
  assumes "\<not> BSP_SUPPORT_AUTOSELECT cfg \<or> g_AutoSel s = 0" and "\<not> BSP_SUPPORT_TOYOTA cfg"
    and "\<not> BSP_SUPPORT_HIRATA cfg" and "0 \<le> led" "led \<le> 3"
  shows "map (data_bit (BlinkFourLEDs cfg led s)) (map LED_GPIO3 [18, 19, 22, 20])
    = map (\<lambda>i. int i = led) [0, 1, 2, 3]"
proof -
  have db: "data_bit t g = snd (pin_state t g)" for t g
    by (simp add: pin_state_def)
  have "led = 0 \<or> led = 1 \<or> led = 2 \<or> led = 3"
    using assms by linarith
  then show ?thesis
    using assms by (auto simp: BlinkFourLEDs_def BlinkFourLEDs_standard_def db pin_compute LED_GPIO3_def)
qed

end
