(* ===== verification/Keypad.thy ===== *)
theory Keypad
  imports Leds_Buzzer
begin

text \<open>
  The membrane keypad and the choice of the boot mode (\<open>mx6sabresd.c\<close>: \<open>key_init\<close>,
  \<open>KeyScan\<close>, \<open>AutoSelect\<close>, \<open>DetectBootKey\<close>, \<open>SetupBootMode\<close>).

  The keypad is a matrix of 8 driven columns (KS) and 8 read rows (KR): a row reads low when a
  pressed key connects it to a column driven low.  The code drives one column low at a time,
  stores the eight row bytes in \<open>BSP_BOOT_INFO.KeyInfo\<close>, and decodes them into a scan code whose
  combinations select the mode.

  The lemmas connect the two ends: in a world in which the matrix behaves as described, the stored
  byte of every column is exactly the set of pressed keys, and the mode chosen is the one a
  specification on the set of pressed keys gives, for the standard and for the TOYOTA layout.
\<close>

section \<open>Pins and scan codes\<close>

definition KeyKrGPIOPort :: "nat list" where "KeyKrGPIOPort = [4, 4, 4, 4, 4, 1, 1, 1]"
definition KeyKsGPIOPort :: "nat list" where "KeyKsGPIOPort = [4, 4, 4, 4, 4, 1, 1, 1]"
definition KeyKrGPIOPin :: "nat list" where "KeyKrGPIOPin = [6, 8, 10, 12, 14, 0, 12, 4]"
definition KeyKsGPIOPin :: "nat list" where "KeyKsGPIOPin = [7, 9, 11, 13, 15, 11, 13, 5]"

definition KEY_KR :: "nat \<Rightarrow> nat" where
  "KEY_KR i = [IMX_GPIO_NR 4 6, IMX_GPIO_NR 4 8, IMX_GPIO_NR 4 10, IMX_GPIO_NR 4 12,
     IMX_GPIO_NR 4 14, IMX_GPIO_NR 1 0, IMX_GPIO_NR 1 12, IMX_GPIO_NR 1 4] ! i"
definition KEY_KS :: "nat \<Rightarrow> nat" where
  "KEY_KS i = [IMX_GPIO_NR 4 7, IMX_GPIO_NR 4 9, IMX_GPIO_NR 4 11, IMX_GPIO_NR 4 13,
     IMX_GPIO_NR 4 15, IMX_GPIO_NR 1 11, IMX_GPIO_NR 1 13, IMX_GPIO_NR 1 5] ! i"

definition SW_START :: nat where "SW_START = IMX_GPIO_NR 5 14"
definition SW_HOLD :: nat where "SW_HOLD = IMX_GPIO_NR 5 15"
definition SW_MODE0 :: nat where "SW_MODE0 = IMX_GPIO_NR 5 16"
definition SW_MODE1 :: nat where "SW_MODE1 = IMX_GPIO_NR 5 17"

definition KEY_MASK_KR :: "nat \<Rightarrow> u8" where
  "KEY_MASK_KR i = [0x01, 0x02, 0x04, 0x08, 0x10, 0x20, 0x40, 0x80] ! i"

definition KEY_MASK_HYPHEN :: u32 where "KEY_MASK_HYPHEN = 0x01"
definition KEY_MASK_PERIOD :: u32 where "KEY_MASK_PERIOD = 0x02"
definition KEY_MASK_NUM2 :: u32 where "KEY_MASK_NUM2 = 0x04"
definition KEY_MASK_NUM5 :: u32 where "KEY_MASK_NUM5 = 0x08"
definition KEY_MASK_NUM8 :: u32 where "KEY_MASK_NUM8 = 0x10"
definition KEY_MASK_LOW :: u32 where "KEY_MASK_LOW = 0x20"
definition KEY_MASK_HIGHSPPED :: u32 where "KEY_MASK_HIGHSPPED = 0x40"
definition KEY_MASK_ANYKEY :: u32 where "KEY_MASK_ANYKEY = 0x80"
definition KEY_MASK_RSHIFT :: u32 where "KEY_MASK_RSHIFT = 0x0100"
definition KEY_MASK_ENT :: u32 where "KEY_MASK_ENT = 0x0200"

lemmas key_mask_defs =
  KEY_MASK_HYPHEN_def KEY_MASK_PERIOD_def KEY_MASK_NUM2_def KEY_MASK_NUM5_def KEY_MASK_NUM8_def
  KEY_MASK_LOW_def KEY_MASK_HIGHSPPED_def KEY_MASK_ANYKEY_def KEY_MASK_RSHIFT_def KEY_MASK_ENT_def

definition KEY_SCAN_POLLING :: nat where "KEY_SCAN_POLLING = 10 * 1000"

section \<open>Scanning\<close>

definition key_init :: "sys \<Rightarrow> sys" where
  "key_init s =
     (let s = imx_iomux_v3_setup_multiple_pads key_pads s;
          s = gpio_run (map (\<lambda>i. Direction_input (KEY_KR i)) [0, 1, 2, 3, 4, 5, 6, 7] @
                map (\<lambda>i. Direction_output (KEY_KS i) 1) [0, 1, 2, 3, 4, 5, 6, 7] @
                [Direction_input SW_START, Direction_input SW_HOLD, Direction_input SW_MODE0,
                 Direction_input SW_MODE1]) s;
          s = udelay 100 s
      in gpio_run [Set_value (IMX_GPIO_NR (KeyKsGPIOPort ! 0) (KeyKsGPIOPin ! 0)) 0] s)"

text \<open>The loop of \<open>KeyScan\<close> from \<open>index\<close> down to 0.\<close>

fun KeyScan_loop :: "env \<Rightarrow> nat \<Rightarrow> u8 \<Rightarrow> sys \<Rightarrow> u8 \<times> sys" where
  "KeyScan_loop e index mtrxScan s =
     (let (v, s) = gpio_get_value e (IMX_GPIO_NR (KeyKrGPIOPort ! index) (KeyKrGPIOPin ! index)) s;
          dwPinValue = (of_int v :: u32);
          mtrxScan = mtrxScan OR ucast (dwPinValue AND 0x00000001)
      in case index of
           0 \<Rightarrow> (mtrxScan, s)
         | Suc index' \<Rightarrow> KeyScan_loop e index' (push_bit 1 mtrxScan) s)"

definition KeyScan :: "env \<Rightarrow> sys \<Rightarrow> u8 \<times> sys" where
  "KeyScan e s = (let (mtrxScan, s) = KeyScan_loop e 7 0 s in (NOT mtrxScan, s))"

definition AutoSelect :: "bsp_config \<Rightarrow> env \<Rightarrow> sys \<Rightarrow> int \<times> sys" where
  "AutoSelect cfg e s =
     (let s = gpio_run [Direction_output (KEY_KR 0) 1] s;
          s = udelay 100 s;
          s = gpio_run [Set_value (KEY_KR 0) 1] s;
          s = udelay 100 s;
          (v, s) = gpio_get_value e (KEY_KR 1) s;
          dwPinValue = (of_int v :: u32);
          s = (if c_true (dwPinValue AND 0x00000001) then
                 let s = gpio_run [Set_value (KEY_KR 0) 0] s;
                     s = udelay 100 s;
                     (v, s) = gpio_get_value e (KEY_KR 1) s;
                     dwPinValue = (of_int v :: u32)
                 in if c_true (dwPinValue AND 0x00000001) then s\<lparr>g_AutoSel := 0\<rparr>
                    else s\<lparr>g_AutoSel := 1\<rparr>
               else s\<lparr>g_AutoSel := 0\<rparr>);
          s = gpio_run [Direction_input (KEY_KR 0)] s;
          s = udelay 100 s;
          s = (if BSP_SELECT_FIX_TOYOTA cfg then s\<lparr>g_AutoSel := 1\<rparr> else s)
      in (0, s))"

section \<open>Decoding\<close>

text \<open>\<open>if (test) scancode |= key;\<close>\<close>

definition press :: "u8 \<Rightarrow> u32 \<Rightarrow> u32 \<Rightarrow> u32" where
  "press test key scancode = (if c_true test then scancode OR key else scancode)"

definition toyota_column :: "nat \<Rightarrow> u8 \<Rightarrow> u32 \<Rightarrow> u32" where
  "toyota_column index mtrxScan scancode =
     (if index = 0 then press (mtrxScan AND 0xFC) KEY_MASK_ANYKEY scancode
      else if index = 6 then press mtrxScan KEY_MASK_ANYKEY scancode
      else if index = 7 then press (mtrxScan AND 0x03) KEY_MASK_ANYKEY scancode
      else if index = 1 then
        let scancode = press (mtrxScan AND KEY_MASK_KR 7) KEY_MASK_HIGHSPPED scancode
        in press (mtrxScan AND NOT (KEY_MASK_KR 7)) KEY_MASK_ANYKEY scancode
      else if index = 2 then
        let scancode = press (mtrxScan AND KEY_MASK_KR 4) KEY_MASK_LOW scancode
        in press (mtrxScan AND NOT (KEY_MASK_KR 4)) KEY_MASK_ANYKEY scancode
      else if index = 3 then
        let scancode = press (mtrxScan AND KEY_MASK_KR 7) KEY_MASK_NUM5 scancode;
            scancode = press (mtrxScan AND KEY_MASK_KR 1) KEY_MASK_NUM8 scancode
        in press (mtrxScan AND (NOT (KEY_MASK_KR 7) AND NOT (KEY_MASK_KR 1) AND 0x9F))
             KEY_MASK_ANYKEY scancode
      else if index = 4 then
        let scancode = press (mtrxScan AND KEY_MASK_KR 7) KEY_MASK_PERIOD scancode;
            scancode = press (mtrxScan AND KEY_MASK_KR 3) KEY_MASK_NUM2 scancode
        in press (mtrxScan AND (NOT (KEY_MASK_KR 7) AND NOT (KEY_MASK_KR 3))) KEY_MASK_ANYKEY scancode
      else if index = 5 then
        let scancode = press (mtrxScan AND KEY_MASK_KR 0) KEY_MASK_HYPHEN scancode
        in press (mtrxScan AND NOT (KEY_MASK_KR 0)) KEY_MASK_ANYKEY scancode
      else scancode)"

definition standard_column :: "nat \<Rightarrow> u8 \<Rightarrow> u32 \<Rightarrow> u32" where
  "standard_column index mtrxScan scancode =
     (if index = 0 \<or> index = 1 \<or> index = 3 then press mtrxScan KEY_MASK_ANYKEY scancode
      else if index = 2 then
        let scancode = press (mtrxScan AND KEY_MASK_KR 5) KEY_MASK_HIGHSPPED scancode;
            scancode = press (mtrxScan AND KEY_MASK_KR 7) KEY_MASK_LOW scancode
        in press (mtrxScan AND (NOT (KEY_MASK_KR 5) AND NOT (KEY_MASK_KR 7))) KEY_MASK_ANYKEY scancode
      else if index = 4 then
        let scancode = press (mtrxScan AND KEY_MASK_KR 3) KEY_MASK_NUM8 scancode;
            scancode = press (mtrxScan AND KEY_MASK_KR 6) KEY_MASK_RSHIFT scancode
        in press (mtrxScan AND (NOT (KEY_MASK_KR 3) AND NOT (KEY_MASK_KR 6))) KEY_MASK_ANYKEY scancode
      else if index = 5 then
        let scancode = press (mtrxScan AND KEY_MASK_KR 2) KEY_MASK_NUM5 scancode
        in press (mtrxScan AND NOT (KEY_MASK_KR 2)) KEY_MASK_ANYKEY scancode
      else if index = 6 then
        let scancode = press (mtrxScan AND KEY_MASK_KR 1) KEY_MASK_NUM2 scancode
        in press (mtrxScan AND NOT (KEY_MASK_KR 1)) KEY_MASK_ANYKEY scancode
      else if index = 7 then
        let scancode = press (mtrxScan AND KEY_MASK_KR 0) KEY_MASK_PERIOD scancode;
            scancode = press (mtrxScan AND KEY_MASK_KR 1) KEY_MASK_HYPHEN scancode;
            scancode = press (mtrxScan AND KEY_MASK_KR 3) KEY_MASK_ENT scancode
        in press (mtrxScan AND
             (NOT (KEY_MASK_KR 0) AND NOT (KEY_MASK_KR 1) AND NOT (KEY_MASK_KR 3) AND 0x1F))
             KEY_MASK_ANYKEY scancode
      else scancode)"

definition is_toyota :: "bsp_config \<Rightarrow> sys \<Rightarrow> bool" where
  "is_toyota cfg s =
     (if BSP_SUPPORT_AUTOSELECT cfg then g_AutoSel s \<noteq> 0 else BSP_SUPPORT_TOYOTA cfg)"

definition decode_column :: "bsp_config \<Rightarrow> sys \<Rightarrow> nat \<Rightarrow> u32 \<Rightarrow> u32" where
  "decode_column cfg s index scancode =
     (let mtrxScan = mem s (field_at (pBoootInfo cfg) (20 + index)) in
      if is_toyota cfg s then toyota_column index mtrxScan scancode
      else standard_column index mtrxScan scancode)"

section \<open>Version strings\<close>

definition c_string :: "string \<Rightarrow> u8 list" where
  "c_string str = map of_char str @ [0]"

definition UBOOT_VERT :: "u8 list" where "UBOOT_VERT = c_string ''1.01T          ''"

definition UBOOT_VER :: "bsp_config \<Rightarrow> u8 list" where
  "UBOOT_VER cfg = c_string
     (if BSP_SUPPORT_AUTOSELECT cfg then ''1.02           ''
      else if BSP_SUPPORT_TOYOTA cfg then ''0.40T          ''
      else if BSP_SUPPORT_HIRATA cfg then ''1.00H          ''
      else ''1.00           '')"

section \<open>Detection of the boot keys\<close>

definition scan_column :: "bsp_config \<Rightarrow> env \<Rightarrow> nat \<Rightarrow> sys \<Rightarrow> sys" where
  "scan_column cfg e index s =
     (let ks = IMX_GPIO_NR (KeyKsGPIOPort ! index) (KeyKsGPIOPin ! index);
          s = gpio_run [Set_value ks 0] s;
          s = udelay KEY_SCAN_POLLING s;
          (mtrxScan, s) = KeyScan e s;
          s = s\<lparr>mem := put_KeyInfo cfg index mtrxScan (mem s)\<rparr>;
          s = gpio_run [Set_value ks 1] s
      in udelay (KEY_SCAN_POLLING div 100) s)"

text \<open>Reading the four switches into \<open>KeyInfo[8]\<close>.\<close>

definition read_switches :: "bsp_config \<Rightarrow> env \<Rightarrow> sys \<Rightarrow> sys" where
  "read_switches cfg e s =
     (let mtrxScan = (0 :: u8);
          (v, s) = gpio_get_value e SW_MODE1 s;
          mtrxScan = mtrxScan OR (push_bit 3 (of_int v) AND 0x08);
          (v, s) = gpio_get_value e SW_MODE0 s;
          mtrxScan = mtrxScan OR (push_bit 2 (of_int v) AND 0x04);
          (v, s) = gpio_get_value e SW_HOLD s;
          mtrxScan = mtrxScan OR (push_bit 1 (of_int v) AND 0x02);
          (v, s) = gpio_get_value e SW_START s;
          mtrxScan = mtrxScan OR (of_int v AND 0x01);
          mtrxScan = mtrxScan AND 0x0F
      in s\<lparr>mem := put_KeyInfo cfg 8 mtrxScan (mem s)\<rparr>)"

definition DetectBootKey :: "bsp_config \<Rightarrow> env \<Rightarrow> sys \<Rightarrow> u32 \<times> sys" where
  "DetectBootKey cfg e s =
     (let s = fold (scan_column cfg e) [0, 1, 2, 3, 4, 5, 6, 7] s;
          s = read_switches cfg e s;
          scancode = fold (decode_column cfg s) [0, 1, 2, 3, 4, 5, 6, 7] 0;
          s = s\<lparr>mem := put_UbootVer cfg (replicate 16 0) (mem s)\<rparr>;
          s = s\<lparr>mem := put_UbootVer cfg
                (if BSP_SUPPORT_AUTOSELECT cfg \<and> g_AutoSel s \<noteq> 0 then UBOOT_VERT else UBOOT_VER cfg)
                (mem s)\<rparr>;
          s = (if BSP_SUPPORT_VERCHK cfg then s\<lparr>Allow_Boot_Version := replicate 8 0\<rparr> else s)
      in (scancode, s))"

section \<open>The boot mode\<close>

definition mode_of_keycode :: "u32 \<Rightarrow> u32" where
  "mode_of_keycode keycode =
     (if c_true (keycode AND KEY_MASK_ANYKEY) then BOOT_CFG_BOOTMODE_0
      else if c_true (keycode AND KEY_MASK_NUM5) \<and> c_true (keycode AND KEY_MASK_LOW)
          \<and> c_true (keycode AND KEY_MASK_HIGHSPPED) then BOOT_CFG_BOOTMODE_4
      else if c_true (keycode AND KEY_MASK_NUM2) \<and> c_true (keycode AND KEY_MASK_NUM8)
          \<and> c_true (keycode AND KEY_MASK_HIGHSPPED) then BOOT_CFG_BOOTMODE_5
      else if c_true (keycode AND KEY_MASK_NUM5) \<and> c_true (keycode AND KEY_MASK_LOW)
        then BOOT_CFG_BOOTMODE_1
      else if c_true (keycode AND KEY_MASK_NUM2) \<and> c_true (keycode AND KEY_MASK_NUM8)
        then BOOT_CFG_BOOTMODE_2
      else if c_true (keycode AND KEY_MASK_HIGHSPPED) \<and> c_true (keycode AND KEY_MASK_LOW)
        then BOOT_CFG_BOOTMODE_3
      else if c_true (keycode AND KEY_MASK_PERIOD) \<and> c_true (keycode AND KEY_MASK_HYPHEN)
        then BOOT_CFG_BOOTMODE_6
      else if c_true (keycode AND KEY_MASK_PERIOD) \<and> c_true (keycode AND KEY_MASK_HIGHSPPED)
        then BOOT_CFG_BOOTMODE_7
      else if c_true (keycode AND KEY_MASK_RSHIFT) \<and> c_true (keycode AND KEY_MASK_ENT)
        then BOOT_CFG_BOOTMODE_8
      else BOOT_CFG_BOOTMODE_0)"

definition SetupBootMode :: "bsp_config \<Rightarrow> env \<Rightarrow> sys \<Rightarrow> sys" where
  "SetupBootMode cfg e s =
     (let s = key_init s;
          s = (if BSP_SUPPORT_AUTOSELECT cfg then snd (AutoSelect cfg e s) else s);
          (keycode, s) = DetectBootKey cfg e s;
          s = (if c_true keycode then BuzzerBeep cfg BUZZER_BEEP_DURATION (BuzzerInit s) else s)
      in s\<lparr>bootMode := mode_of_keycode keycode\<rparr>)"

definition osBoot_KEYIn_Mode :: "sys \<Rightarrow> u32" where
  "osBoot_KEYIn_Mode s = bootMode s"

section \<open>Scanning reads the matrix\<close>

declare KeyScan_loop.simps [simp del]

lemma less_8_cases: "i < 8 \<Longrightarrow> i = 0 \<or> i = 1 \<or> i = 2 \<or> i = 3 \<or> i = 4 \<or> i = 5 \<or> i = 6 \<or> i = (7::nat)"
  by linarith

text \<open>The arrays of ports and pins name the same lines as the constants.\<close>

lemma key_lines:
  assumes "i < 8"
  shows "IMX_GPIO_NR (KeyKrGPIOPort ! i) (KeyKrGPIOPin ! i) = KEY_KR i"
    and "IMX_GPIO_NR (KeyKsGPIOPort ! i) (KeyKsGPIOPin ! i) = KEY_KS i"
    and "valid_gpio (KEY_KR i)" and "valid_gpio (KEY_KS i)"
  using less_8_cases [OF assms]
  by (auto simp: KeyKrGPIOPort_def KeyKrGPIOPin_def KeyKsGPIOPort_def KeyKsGPIOPin_def KEY_KR_def
      KEY_KS_def)

lemma KEY_KS_inj: "i < 8 \<Longrightarrow> j < 8 \<Longrightarrow> KEY_KS i = KEY_KS j \<longleftrightarrow> i = j"
  using less_8_cases [of i] less_8_cases [of j] by (auto simp: KEY_KS_def IMX_GPIO_NR_def)

definition row_bit :: "env \<Rightarrow> sys \<Rightarrow> nat \<Rightarrow> bool" where
  "row_bit e s r = bit (gpio_psr e s (GPIO_TO_PORT (KEY_KR r))) (KEY_KR r mod 32)"

lemma KeyScan_loop_step:
  assumes "i < 8"
  shows "KeyScan_loop e i m s =
    (let m = m OR of_bool (row_bit e s i); s = s\<lparr>now := Suc (now s)\<rparr>
     in case i of 0 \<Rightarrow> (m, s) | Suc i' \<Rightarrow> KeyScan_loop e i' (push_bit 1 m) s)"
proof -
  have "(ucast ((of_int (of_bool b) :: u32) AND 1) :: u8) = of_bool b" for b
    by (cases b) simp_all
  moreover have "gpio_get_value e (KEY_KR i) s = (of_bool (row_bit e s i), s\<lparr>now := Suc (now s)\<rparr>)"
    using assms gpio_get_value_state [of "KEY_KR i" e s] gpio_get_value_bit [of "KEY_KR i" e s]
    by (simp add: key_lines row_bit_def prod_eq_iff)
  ultimately show ?thesis
    by (subst KeyScan_loop.simps) (simp only: key_lines [OF assms] Let_def prod.case)
qed

lemma KeyScan_loop_bits:
  assumes "i < 8" and "\<And>n r. r < 8 \<Longrightarrow> row_bit e (s\<lparr>now := n\<rparr>) r = p r" and "\<not> bit m 0"
  shows "\<exists>w. KeyScan_loop e i m s = (w, s\<lparr>now := now s + Suc i\<rparr>)
    \<and> (\<forall>r < 8. bit w r = (if r \<le> i then p r else bit m (r - i)))"
  using assms
proof (induction i arbitrary: m s)
  case 0
  have "row_bit e s 0 = p 0"
    using "0.prems"(2) [of 0 "now s"] by simp
  with "0.prems"(3) show ?case
    by (subst KeyScan_loop_step) (auto simp: Let_def bit_simps)
next
  case (Suc i)
  define m' where "m' = push_bit 1 (m OR of_bool (p (Suc i)))"
  have m': "bit m' k = (0 < k \<and> k < 8 \<and> (bit m (k - 1) \<or> k = 1 \<and> p (Suc i)))" for k
    by (auto simp: m'_def bit_push_bit_iff bit_or_iff bit_1_iff simp del: push_bit_Suc
        dest: bit_imp_le_length)
  have row: "row_bit e s (Suc i) = p (Suc i)"
    using Suc.prems(2) [of "Suc i" "now s"] Suc.prems(1) by simp
  obtain w where w: "KeyScan_loop e i m' (s\<lparr>now := Suc (now s)\<rparr>) = (w, s\<lparr>now := now s + Suc (Suc i)\<rparr>)"
    and bits: "\<forall>r < 8. bit w r = (if r \<le> i then p r else bit m' (r - i))"
    using Suc.IH [of "s\<lparr>now := Suc (now s)\<rparr>" m'] Suc.prems m' [of 0] by auto
  have "bit w r = (if r \<le> Suc i then p r else bit m (r - Suc i))" if "r < 8" for r
    using bits that Suc.prems(3) by (cases "r = Suc i") (auto simp: m')
  moreover have "KeyScan_loop e (Suc i) m s = (w, s\<lparr>now := now s + Suc (Suc i)\<rparr>)"
    using w by (subst KeyScan_loop_step [OF Suc.prems(1)]) (simp only: row m'_def Let_def nat.case)
  ultimately show ?case
    by blast
qed

lemma KeyScan_bits:
  assumes "\<And>n r. r < 8 \<Longrightarrow> row_bit e (s\<lparr>now := n\<rparr>) r = (\<not> p r)"
  shows "\<exists>w. KeyScan e s = (w, s\<lparr>now := now s + 8\<rparr>) \<and> (\<forall>r < 8. bit w r = p r)"
proof -
  obtain w where "KeyScan_loop e 7 0 s = (w, s\<lparr>now := now s + 8\<rparr>)" "\<forall>r < 8. bit w r = (\<not> p r)"
    using KeyScan_loop_bits [of 7 e s "\<lambda>r. \<not> p r" 0] assms by auto
  then show ?thesis
    by (auto simp: KeyScan_def bit_simps)
qed

text \<open>
  A world in which the keypad is a matrix: a row reads low exactly when some column that is driven
  low is connected to it by a pressed key.
\<close>

definition key_matrix :: "env \<Rightarrow> (nat \<Rightarrow> nat \<Rightarrow> bool) \<Rightarrow> bool" where
  "key_matrix e pressed \<longleftrightarrow>
     (\<forall>s. \<forall>r < 8. row_bit e s r = (\<not> (\<exists>c < 8. pin_state s (KEY_KS c) = (True, False) \<and> pressed c r)))"

definition column_selected :: "nat \<Rightarrow> sys \<Rightarrow> bool" where
  "column_selected i s \<longleftrightarrow> (\<forall>c < 8. pin_state s (KEY_KS c) = (True, c \<noteq> i))"

lemma KeyScan_matrix:
  assumes "key_matrix e pressed" and "column_selected i s" and "i < 8"
  shows "\<exists>w. KeyScan e s = (w, s\<lparr>now := now s + 8\<rparr>) \<and> (\<forall>r < 8. bit w r = pressed i r)"
proof (rule KeyScan_bits)
  fix n r :: nat
  assume "r < 8"
  moreover have "pin_state (s\<lparr>now := n\<rparr>) (KEY_KS c) = (True, c \<noteq> i)" if "c < 8" for c
    using assms(2) that by (simp add: column_selected_def)
  ultimately show "row_bit e (s\<lparr>now := n\<rparr>) r = (\<not> pressed i r)"
    using assms(1,3) unfolding key_matrix_def by auto
qed

text \<open>The byte whose bit \<open>r\<close> says whether row \<open>r\<close> is pressed.\<close>

definition row_byte :: "(nat \<Rightarrow> bool) \<Rightarrow> u8" where
  "row_byte p = horner_sum of_bool 2 (map p [0..<8])"

lemma bit_row_byte: "bit (row_byte p) r \<longleftrightarrow> r < 8 \<and> p r"
  by (auto simp: row_byte_def bit_horner_sum_bit_word_iff simp del: upt_Suc)

lemma row_byte_unique: "\<forall>r < 8. bit w r = p r \<Longrightarrow> w = row_byte p"
  by (rule bit_word_eqI) (simp add: bit_row_byte)

definition columns_ready :: "nat \<Rightarrow> sys \<Rightarrow> bool" where
  "columns_ready i s \<longleftrightarrow> (\<forall>c < 8. is_output s (KEY_KS c) \<and> (c \<noteq> i \<longrightarrow> data_bit s (KEY_KS c)))"

lemma pin_state_set_KS:
  assumes "c < 8" and "i < 8"
  shows "pin_state (gpio_run [Set_value (KEY_KS i) v] s) (KEY_KS c)
    = (is_output s (KEY_KS c), if c = i then c_true v else data_bit s (KEY_KS c))"
  using assms by (simp add: gpio_run_pin_pair key_lines KEY_KS_inj)

lemma is_output_data_bit: "is_output s g = fst (pin_state s g)" "data_bit s g = snd (pin_state s g)"
  by (simp_all add: pin_state_def)

lemma scan_column_matrix:
  assumes "key_matrix e pressed" and "i < 8" and "columns_ready i s"
  shows "columns_ready j (scan_column cfg e i s)"
    and "mem (scan_column cfg e i s) = put_KeyInfo cfg i (row_byte (pressed i)) (mem s)"
    and "g_AutoSel (scan_column cfg e i s) = g_AutoSel s"
    and "mmio (scan_column cfg e i s) = mmio s"
    and "Board_Version (scan_column cfg e i s) = Board_Version s"
proof -
  define s1 where "s1 = udelay KEY_SCAN_POLLING (gpio_run [Set_value (KEY_KS i) 0] s)"
  have "column_selected i s1"
    using assms(2,3) by (auto simp: column_selected_def columns_ready_def s1_def pin_state_set_KS c_true_def)
  then obtain w where "KeyScan e s1 = (w, s1\<lparr>now := now s1 + 8\<rparr>)" and w: "\<forall>r < 8. bit w r = pressed i r"
    using KeyScan_matrix assms(1,2) by blast
  then have scan: "scan_column cfg e i s = udelay (KEY_SCAN_POLLING div 100)
      (gpio_run [Set_value (KEY_KS i) 1]
        (s1\<lparr>now := now s1 + 8, mem := put_KeyInfo cfg i (row_byte (pressed i)) (mem s1)\<rparr>))"
    by (simp add: scan_column_def key_lines assms(2) Let_def s1_def row_byte_unique [OF w])
  show "mem (scan_column cfg e i s) = put_KeyInfo cfg i (row_byte (pressed i)) (mem s)"
    "g_AutoSel (scan_column cfg e i s) = g_AutoSel s"
    "mmio (scan_column cfg e i s) = mmio s"
    "Board_Version (scan_column cfg e i s) = Board_Version s"
    by (simp_all add: scan s1_def udelay_def)
  show "columns_ready j (scan_column cfg e i s)"
    using assms(2,3) \<open>column_selected i s1\<close>
    by (auto simp: columns_ready_def column_selected_def scan is_output_data_bit pin_state_set_KS c_true_def)
qed

lemma scan_columns_matrix:
  assumes "key_matrix e pressed" and "columns_ready i s" and "\<forall>c \<in> set cs. c < 8" and "cs \<noteq> [] \<Longrightarrow> hd cs = i"
  shows "mem (fold (scan_column cfg e) cs s)
      = fold (\<lambda>c. put_KeyInfo cfg c (row_byte (pressed c))) cs (mem s)
    \<and> g_AutoSel (fold (scan_column cfg e) cs s) = g_AutoSel s"
  using assms(2-4)
proof (induction cs arbitrary: i s)
  case (Cons c cs)
  let ?t = "scan_column cfg e c s"
  have c: "c < 8" "columns_ready c s"
    using Cons.prems by auto
  note scan = scan_column_matrix [OF assms(1) c]
  have "mem (fold (scan_column cfg e) cs ?t) = fold (\<lambda>c. put_KeyInfo cfg c (row_byte (pressed c))) cs (mem ?t)
      \<and> g_AutoSel (fold (scan_column cfg e) cs ?t) = g_AutoSel ?t"
    using Cons.IH [of "hd cs" ?t] scan(1) Cons.prems by simp
  then show ?case
    by (simp add: scan)
qed simp

lemma key_init_ready:
  "columns_ready 0 (key_init s)" "mem (key_init s) = mem s" "g_AutoSel (key_init s) = g_AutoSel s"
proof -
  define cs where "cs = map (\<lambda>i. Direction_input (KEY_KR i)) [0, 1, 2, 3, 4, 5, 6, 7] @
     map (\<lambda>i. Direction_output (KEY_KS i) 1) [0, 1, 2, 3, 4, 5, 6, 7] @
     [Direction_input SW_START, Direction_input SW_HOLD, Direction_input SW_MODE0,
      Direction_input SW_MODE1]"
  have ok: "distinct (map call_pin cs)" "list_all (\<lambda>c. valid_gpio (call_pin c)) cs"
    by (simp_all add: cs_def KEY_KR_def KEY_KS_def SW_START_def SW_HOLD_def SW_MODE0_def SW_MODE1_def
        IMX_GPIO_NR_def valid_gpio_less)
  have "Direction_output (KEY_KS c) 1 \<in> set cs" if "c < 8" for c
    using less_8_cases [OF that] by (auto simp: cs_def)
  then have high: "pin_state (gpio_run cs t) (KEY_KS c) = (True, True)" if "c < 8" for c t
    using gpio_run_distinct(2) [OF ok, of "KEY_KS c" 1] that by (simp add: c_true_def)
  show "columns_ready 0 (key_init s)"
    unfolding key_init_def Let_def cs_def [symmetric] key_lines [of 0, simplified] columns_ready_def
    using high by (auto simp: is_output_data_bit pin_state_set_KS)
qed (simp_all add: key_init_def Let_def udelay_def)

lemma AutoSelect_frame:
  "mem (snd (AutoSelect cfg e s)) = mem s"
  "columns_ready i s \<Longrightarrow> columns_ready i (snd (AutoSelect cfg e s))"
proof -
  show "mem (snd (AutoSelect cfg e s)) = mem s"
    by (simp add: AutoSelect_def Let_def split_beta gpio_get_value_state key_lines udelay_def)
  have "KEY_KS c \<noteq> KEY_KR 0" if "c < 8" for c
    using less_8_cases [OF that] by (auto simp: KEY_KS_def KEY_KR_def IMX_GPIO_NR_def)
  then have kr0: "pin_state (gpio_run [call] t) (KEY_KS c) = pin_state t (KEY_KS c)"
    if "c < 8" "call_pin call = KEY_KR 0" for call c t
    using that by (intro gpio_run_untouched) (simp_all add: key_lines)
  have auto: "pin_state (t\<lparr>g_AutoSel := v\<rparr>) = pin_state t" for t v
    by (rule pin_state_bank) simp
  have "pin_state (snd (AutoSelect cfg e s)) (KEY_KS c) = pin_state s (KEY_KS c)" if "c < 8" for c
    using that by (simp add: AutoSelect_def Let_def split_beta gpio_get_value_state key_lines kr0 auto)
  then show "columns_ready i s \<Longrightarrow> columns_ready i (snd (AutoSelect cfg e s))"
    by (simp add: columns_ready_def is_output_data_bit)
qed

section \<open>The specification of the boot mode\<close>

text \<open>The keys that select a mode, and where they sit (column, row) on each layout.\<close>

datatype boot_key = K_HYPHEN | K_PERIOD | K_NUM2 | K_NUM5 | K_NUM8 | K_LOW | K_HIGHSPEED | K_RSHIFT | K_ENT

fun key_position :: "bool \<Rightarrow> boot_key \<Rightarrow> (nat \<times> nat) option" where
  "key_position False K_HIGHSPEED = Some (2, 5)"
| "key_position False K_LOW = Some (2, 7)"
| "key_position False K_NUM8 = Some (4, 3)"
| "key_position False K_RSHIFT = Some (4, 6)"
| "key_position False K_NUM5 = Some (5, 2)"
| "key_position False K_NUM2 = Some (6, 1)"
| "key_position False K_PERIOD = Some (7, 0)"
| "key_position False K_HYPHEN = Some (7, 1)"
| "key_position False K_ENT = Some (7, 3)"
| "key_position True K_HIGHSPEED = Some (1, 7)"
| "key_position True K_LOW = Some (2, 4)"
| "key_position True K_NUM5 = Some (3, 7)"
| "key_position True K_NUM8 = Some (3, 1)"
| "key_position True K_PERIOD = Some (4, 7)"
| "key_position True K_NUM2 = Some (4, 3)"
| "key_position True K_HYPHEN = Some (5, 0)"
| "key_position True K_RSHIFT = None"
| "key_position True K_ENT = None"

text \<open>The rows of each column that carry a boot key or have no key at all.\<close>

definition ignored_rows :: "bool \<Rightarrow> nat \<Rightarrow> nat list" where
  "ignored_rows toyota c =
     (if toyota then [[0, 1], [7], [4], [7, 1, 5, 6], [7, 3], [0], [], [2, 3, 4, 5, 6, 7]] ! c
      else [[], [], [5, 7], [], [3, 6], [2], [1], [0, 1, 3, 5, 6, 7]] ! c)"

definition held :: "bool \<Rightarrow> (nat \<Rightarrow> nat \<Rightarrow> bool) \<Rightarrow> boot_key \<Rightarrow> bool" where
  "held toyota pressed k = (case key_position toyota k of None \<Rightarrow> False | Some (c, r) \<Rightarrow> pressed c r)"

definition foreign_in_column :: "bool \<Rightarrow> nat \<Rightarrow> (nat \<Rightarrow> bool) \<Rightarrow> bool" where
  "foreign_in_column toyota c p \<longleftrightarrow> (\<exists>r < 8. r \<notin> set (ignored_rows toyota c) \<and> p r)"

definition foreign_key :: "bool \<Rightarrow> (nat \<Rightarrow> nat \<Rightarrow> bool) \<Rightarrow> bool" where
  "foreign_key toyota pressed \<longleftrightarrow> (\<exists>c < 8. foreign_in_column toyota c (pressed c))"

definition boot_mode_spec :: "bool \<Rightarrow> (nat \<Rightarrow> nat \<Rightarrow> bool) \<Rightarrow> u32" where
  "boot_mode_spec toyota pressed =
     (let h = held toyota pressed in
      if foreign_key toyota pressed then 0
      else if h K_NUM5 \<and> h K_LOW \<and> h K_HIGHSPEED then 4
      else if h K_NUM2 \<and> h K_NUM8 \<and> h K_HIGHSPEED then 5
      else if h K_NUM5 \<and> h K_LOW then 1
      else if h K_NUM2 \<and> h K_NUM8 then 2
      else if h K_HIGHSPEED \<and> h K_LOW then 3
      else if h K_PERIOD \<and> h K_HYPHEN then 6
      else if h K_PERIOD \<and> h K_HIGHSPEED then 7
      else if h K_RSHIFT \<and> h K_ENT then 8
      else 0)"

section \<open>Decoding meets the specification\<close>

lemma c_true_u8: "c_true x \<longleftrightarrow> (\<exists>r < 8. bit x r)" for x :: u8
proof
  assume "c_true x"
  then obtain r where "bit x r"
    unfolding c_true_def by (metis bit_0_eq bit_word_eqI bot_fun_def bot_bool_def)
  then show "\<exists>r < 8. bit x r"
    using bit_imp_le_length [of x r] by auto
qed (auto simp: c_true_def)

lemma bit_press: "bit (press t k sc) n \<longleftrightarrow> bit sc n \<or> c_true t \<and> bit k n"
  by (auto simp: press_def bit_simps)

lemma ex_less_8: "(\<exists>r < 8. P r) \<longleftrightarrow> P 0 \<or> P 1 \<or> P 2 \<or> P 3 \<or> P 4 \<or> P 5 \<or> P 6 \<or> P (7::nat)"
  by (simp add: numeral_eq_Suc Ex_less_Suc) blast

text \<open>The scan code bits of the boot keys.\<close>

fun key_bit :: "boot_key \<Rightarrow> nat" where
  "key_bit K_HYPHEN = 0" | "key_bit K_PERIOD = 1" | "key_bit K_NUM2 = 2" | "key_bit K_NUM5 = 3"
| "key_bit K_NUM8 = 4" | "key_bit K_LOW = 5" | "key_bit K_HIGHSPEED = 6" | "key_bit K_RSHIFT = 8"
| "key_bit K_ENT = 9"

definition column_fun :: "bool \<Rightarrow> nat \<Rightarrow> u8 \<Rightarrow> u32 \<Rightarrow> u32" where
  "column_fun toyota = (if toyota then toyota_column else standard_column)"

lemma column_any_bit:
  assumes "c < 8"
  shows "bit (column_fun toyota c (row_byte p) sc) 7 \<longleftrightarrow> bit sc 7 \<or> foreign_in_column toyota c p"
  using less_8_cases [OF assms]
  by (cases toyota)
     (auto simp: column_fun_def toyota_column_def standard_column_def Let_def bit_press key_mask_defs
       foreign_in_column_def ignored_rows_def c_true_u8 ex_less_8 bit_simps bit_row_byte KEY_MASK_KR_def)

lemma column_key_bit:
  assumes "c < 8"
  shows "bit (column_fun toyota c (row_byte p) sc) (key_bit k) \<longleftrightarrow>
    bit sc (key_bit k) \<or> (\<exists>r. key_position toyota k = Some (c, r) \<and> p r)"
  using less_8_cases [OF assms]
  by (cases toyota; cases k)
     (auto simp: column_fun_def toyota_column_def standard_column_def Let_def bit_press key_mask_defs
       c_true_u8 ex_less_8 bit_simps bit_row_byte KEY_MASK_KR_def)

definition keycode_of :: "bool \<Rightarrow> (nat \<Rightarrow> nat \<Rightarrow> bool) \<Rightarrow> u32" where
  "keycode_of toyota pressed =
     fold (\<lambda>c. column_fun toyota c (row_byte (pressed c))) [0, 1, 2, 3, 4, 5, 6, 7] 0"

lemma keycode_any_bit: "bit (keycode_of toyota pressed) 7 \<longleftrightarrow> foreign_key toyota pressed"
  by (simp add: keycode_of_def column_any_bit foreign_key_def ex_less_8)

lemma keycode_key_bit: "bit (keycode_of toyota pressed) (key_bit k) \<longleftrightarrow> held toyota pressed k"
proof -
  have "c < 8" if "key_position toyota k = Some (c, r)" for c r
    using that by (cases toyota; cases k) auto
  moreover have "bit (keycode_of toyota pressed) (key_bit k) \<longleftrightarrow>
      (\<exists>c < 8. \<exists>r. key_position toyota k = Some (c, r) \<and> pressed c r)"
    by (simp only: keycode_of_def column_key_bit ex_less_8 fold_simps comp_def) (simp add: column_key_bit)
  ultimately show ?thesis
    by (auto simp: held_def split: option.splits)
qed

lemma c_true_mask: "c_true (x AND k) \<longleftrightarrow> bit x n" if "k = push_bit n 1" "n < 32" for x k :: u32
  using c_true_bit_mask [of n x] that by simp

lemma mode_of_keycode_spec: "mode_of_keycode (keycode_of toyota pressed) = boot_mode_spec toyota pressed"
proof -
  let ?k = "keycode_of toyota pressed"
  have any: "c_true (?k AND KEY_MASK_ANYKEY) \<longleftrightarrow> foreign_key toyota pressed"
    using keycode_any_bit [of toyota pressed] c_true_mask [of KEY_MASK_ANYKEY 7 ?k]
    by (simp add: key_mask_defs)
  have key: "c_true (?k AND KEY_MASK_HYPHEN) \<longleftrightarrow> held toyota pressed K_HYPHEN"
    "c_true (?k AND KEY_MASK_PERIOD) \<longleftrightarrow> held toyota pressed K_PERIOD"
    "c_true (?k AND KEY_MASK_NUM2) \<longleftrightarrow> held toyota pressed K_NUM2"
    "c_true (?k AND KEY_MASK_NUM5) \<longleftrightarrow> held toyota pressed K_NUM5"
    "c_true (?k AND KEY_MASK_NUM8) \<longleftrightarrow> held toyota pressed K_NUM8"
    "c_true (?k AND KEY_MASK_LOW) \<longleftrightarrow> held toyota pressed K_LOW"
    "c_true (?k AND KEY_MASK_HIGHSPPED) \<longleftrightarrow> held toyota pressed K_HIGHSPEED"
    "c_true (?k AND KEY_MASK_RSHIFT) \<longleftrightarrow> held toyota pressed K_RSHIFT"
    "c_true (?k AND KEY_MASK_ENT) \<longleftrightarrow> held toyota pressed K_ENT"
    unfolding keycode_key_bit [symmetric]
    by (rule c_true_mask; simp add: key_mask_defs)+
  show ?thesis
    by (simp add: mode_of_keycode_def any key boot_mode_spec_def boot_mode_defs Let_def)
qed

section \<open>The whole of \<open>SetupBootMode\<close>\<close>

text \<open>Fields of the keypad record in memory after the columns were scanned.\<close>

lemma put_KeyInfo_byte:
  assumes "i < 16" and "j < 16"
  shows "put_KeyInfo cfg i v m (field_at (pBoootInfo cfg) (20 + j))
    = (if i = j then v else m (field_at (pBoootInfo cfg) (20 + j)))"
proof (cases "i = j")
  case True
  then show ?thesis
    using put_bytes_same [of 0 "[v]" "field_at (pBoootInfo cfg) (20 + j)" m]
    by (simp add: put_KeyInfo_def)
next
  case False
  then have "put_KeyInfo cfg i v m (field_at (pBoootInfo cfg) (20 + j)) = m (field_at (pBoootInfo cfg) (20 + j))"
    unfolding put_KeyInfo_def using assms by (intro put_bytes_byte_disjoint) auto
  with False show ?thesis
    by simp
qed

lemma fold_put_KeyInfo:
  assumes "c < 8"
  shows "fold (\<lambda>c. put_KeyInfo cfg c (f c)) [0, 1, 2, 3, 4, 5, 6, 7] m
     (field_at (pBoootInfo cfg) (20 + c)) = f c"
  using assms less_8_cases [OF assms]
  by (simp only: fold_simps comp_def put_KeyInfo_byte) (auto simp: put_KeyInfo_byte)

lemma read_switches_frame:
  "\<exists>w. read_switches cfg e s = s\<lparr>now := now s + 4, mem := put_KeyInfo cfg 8 w (mem s)\<rparr>"
  by (simp add: read_switches_def Let_def split_beta gpio_get_value_state SW_START_def SW_HOLD_def
      SW_MODE0_def SW_MODE1_def eval_nat_numeral) blast

lemma length_c_string [simp]: "length (c_string str) = length str + 1"
  by (simp add: c_string_def)

lemma length_UBOOT_VER [simp]: "length (UBOOT_VER cfg) = 16" "length UBOOT_VERT = 16"
  by (simp_all add: UBOOT_VER_def UBOOT_VERT_def)

lemma DetectBootKey_matrix:
  assumes "key_matrix e pressed" and "columns_ready 0 s"
  shows "fst (DetectBootKey cfg e s) = keycode_of (is_toyota cfg s) pressed"
    and "c < 8 \<Longrightarrow> bi_KeyInfo (boot_info_of cfg (mem (snd (DetectBootKey cfg e s)))) ! c
      = row_byte (pressed c)"
    and "bi_UbootVer (boot_info_of cfg (mem (snd (DetectBootKey cfg e s))))
      = (if BSP_SUPPORT_AUTOSELECT cfg \<and> g_AutoSel s \<noteq> 0 then UBOOT_VERT else UBOOT_VER cfg)"
    and "g_AutoSel (snd (DetectBootKey cfg e s)) = g_AutoSel s"
proof -
  define s1 where "s1 = fold (scan_column cfg e) [0, 1, 2, 3, 4, 5, 6, 7] s"
  define s2 where "s2 = read_switches cfg e s1"
  obtain w where s2: "s2 = s1\<lparr>now := now s1 + 4, mem := put_KeyInfo cfg 8 w (mem s1)\<rparr>"
    using read_switches_frame s2_def by blast
  have s1: "mem s1 = fold (\<lambda>c. put_KeyInfo cfg c (row_byte (pressed c))) [0, 1, 2, 3, 4, 5, 6, 7] (mem s)"
    "g_AutoSel s1 = g_AutoSel s"
    using scan_columns_matrix [OF assms, of "[0, 1, 2, 3, 4, 5, 6, 7]" cfg] unfolding s1_def by simp_all
  have byte: "mem s2 (field_at (pBoootInfo cfg) (20 + c)) = row_byte (pressed c)" if "c < 8" for c
  proof -
    have "mem s2 (field_at (pBoootInfo cfg) (20 + c)) = mem s1 (field_at (pBoootInfo cfg) (20 + c))"
      using that by (simp add: s2 put_KeyInfo_byte)
    then show ?thesis
      using fold_put_KeyInfo [OF that] by (simp only: s1)
  qed
  have toy: "is_toyota cfg s2 = is_toyota cfg s"
    by (simp add: is_toyota_def s2 s1)
  have dec: "decode_column cfg s2 c = column_fun (is_toyota cfg s) c (row_byte (pressed c))" if "c < 8" for c
    using byte [OF that] by (simp add: decode_column_def fun_eq_iff toy column_fun_def)
  show "fst (DetectBootKey cfg e s) = keycode_of (is_toyota cfg s) pressed"
    unfolding DetectBootKey_def Let_def s1_def [symmetric] s2_def [symmetric]
    by (simp add: keycode_of_def dec)
  show "bi_KeyInfo (boot_info_of cfg (mem (snd (DetectBootKey cfg e s)))) ! c = row_byte (pressed c)"
    if "c < 8"
    using byte [OF that] that
    unfolding DetectBootKey_def Let_def s1_def [symmetric] s2_def [symmetric]
    by (simp add: boot_info_put) (simp add: boot_info_of_def Let_def field_at_field_at)
  show "bi_UbootVer (boot_info_of cfg (mem (snd (DetectBootKey cfg e s))))
      = (if BSP_SUPPORT_AUTOSELECT cfg \<and> g_AutoSel s \<noteq> 0 then UBOOT_VERT else UBOOT_VER cfg)"
    "g_AutoSel (snd (DetectBootKey cfg e s)) = g_AutoSel s"
    unfolding DetectBootKey_def Let_def s1_def [symmetric] s2_def [symmetric]
    by (simp_all add: boot_info_put s2 s1)
qed

lemma pwm_fields [simp]:
  "mem (writel v a s) = mem s" "g_AutoSel (writel v a s) = g_AutoSel s"
  "mem (udelay d s) = mem s" "g_AutoSel (udelay d s) = g_AutoSel s"
  by (simp_all add: writel_def udelay_def)

lemma buzzer_fields [simp]:
  "mem (BuzzerBeep cfg d s) = mem s" "g_AutoSel (BuzzerBeep cfg d s) = g_AutoSel s"
  "mem (BuzzerInit s) = mem s" "g_AutoSel (BuzzerInit s) = g_AutoSel s"
  by (simp_all add: BuzzerBeep_def BuzzerInit_def pwm_init_def pwm_config_direct_def pwm_enable_def
      pwm_disable_def Let_def)

lemma SetupBootMode_matrix:
  assumes "key_matrix e pressed"
  defines "t \<equiv> \<lambda>cfg s. SetupBootMode cfg e s"
  shows "bootMode (t cfg s) = boot_mode_spec (is_toyota cfg (t cfg s)) pressed"
    and "c < 8 \<Longrightarrow> bi_KeyInfo (boot_info_of cfg (mem (t cfg s))) ! c = row_byte (pressed c)"
proof -
  define s1 where "s1 = (if BSP_SUPPORT_AUTOSELECT cfg then snd (AutoSelect cfg e (key_init s)) else key_init s)"
  have ready: "columns_ready 0 s1"
    using key_init_ready AutoSelect_frame by (simp add: s1_def)
  obtain k s2 where k: "DetectBootKey cfg e s1 = (k, s2)"
    by (cases "DetectBootKey cfg e s1")
  note d = DetectBootKey_matrix [OF assms(1) ready, where cfg = cfg, unfolded k, simplified]
  have t: "t cfg s = (if c_true k then BuzzerBeep cfg BUZZER_BEEP_DURATION (BuzzerInit s2) else s2)
      \<lparr>bootMode := mode_of_keycode k\<rparr>"
    unfolding t_def SetupBootMode_def Let_def s1_def [symmetric] by (simp add: k)
  have "is_toyota cfg (t cfg s) = is_toyota cfg s1"
    using d by (simp add: is_toyota_def t)
  then show "bootMode (t cfg s) = boot_mode_spec (is_toyota cfg (t cfg s)) pressed"
    using d by (simp add: t mode_of_keycode_spec)
  show "bi_KeyInfo (boot_info_of cfg (mem (t cfg s))) ! c = row_byte (pressed c)" if "c < 8"
    using d that by (simp add: t)
qed

lemma mode_of_keycode_range: "mode_of_keycode k \<in> {0, 1, 2, 3, 4, 5, 6, 7, 8}"
  by (simp add: mode_of_keycode_def boot_mode_defs)

text \<open>A world with a given set of pressed keys exists.\<close>

definition matrix_env :: "(nat \<Rightarrow> nat \<Rightarrow> bool) \<Rightarrow> env" where
  "matrix_env pressed =
     \<lparr>gpio_psr = (\<lambda>s port. horner_sum of_bool 2 (map (\<lambda>i. \<not> (\<exists>r < 8. KEY_KR r = port * 32 + i \<and>
         (\<exists>c < 8. pin_state s (KEY_KS c) = (True, False) \<and> pressed c r))) [0..<32])),
      timer_ms = (\<lambda>s. of_nat (now s))\<rparr>"

lemma key_matrix_matrix_env: "key_matrix (matrix_env pressed) pressed"
proof -
  have inj: "KEY_KR r = KEY_KR r' \<longleftrightarrow> r = r'" if "r < 8" "r' < 8" for r r'
    using less_8_cases [OF that(1)] less_8_cases [OF that(2)] by (auto simp: KEY_KR_def IMX_GPIO_NR_def)
  have split: "GPIO_TO_PORT g * 32 + g mod 32 = g" for g
    by (simp add: GPIO_TO_PORT_def)
  show ?thesis
    unfolding key_matrix_def row_bit_def matrix_env_def
    by (auto simp: bit_horner_sum_bit_word_iff split inj simp del: upt_Suc)
qed

end
