(* ===== verification/Nk_Image.thy ===== *)
theory Nk_Image
  imports Keypad
begin

text \<open>
  The Windows CE image \<open>NK.BIN\<close> in its staging area: the second half of
  \<open>osBoot_fat_fsload_bin\<close> (\<open>mx6sabresd.c\<close>), which checks the header of the file that was
  read to \<open>IMAGE_BOOT_NKIMAGE_RAM_PA_STORE_START\<close> and copies every record to the address it names,
  verifying its checksum.

  The loop over the records ends when it meets a record with address and checksum 0; nothing
  else bounds it, so it is a partial function and \<open>None\<close> stands for not returning.  The
  lemmas give, for a file made of any list of records that keep clear of the staging area,
  the exact result and the exact memory: the loader returns, with 0 when all checksums hold and
  with the checksum error at the first record whose checksum is wrong.
\<close>

section \<open>File names\<close>

definition strncmp_eq :: "string \<Rightarrow> string \<Rightarrow> nat \<Rightarrow> bool" where
  "strncmp_eq a b n \<longleftrightarrow> take n (a @ [CHR 0x00]) = take n (b @ [CHR 0x00])"

definition is_valid_name_nk :: "string \<Rightarrow> int" where
  "is_valid_name_nk filename =
     (if strncmp_eq filename ''NK.'' 3 \<or> strncmp_eq filename ''nk.'' 3 then
        let fname = drop 3 filename in
        if strncmp_eq fname ''BIN'' 3 \<or> strncmp_eq fname ''bin'' 3 then 1 else 0
      else 0)"

section \<open>Headers and checksum\<close>

record NkHdr =
  nk_dwAddress :: u32
  nk_dwSize :: u32

record MdHdr =
  md_dwAddress :: u32
  md_dwSize :: u32
  md_dwSum :: u32

definition read_NkHdr :: "memory \<Rightarrow> u32 \<Rightarrow> NkHdr" where
  "read_NkHdr m p = \<lparr>nk_dwAddress = read_le32 m p, nk_dwSize = read_le32 m (p + 4)\<rparr>"

definition read_MdHdr :: "memory \<Rightarrow> u32 \<Rightarrow> MdHdr" where
  "read_MdHdr m p =
     \<lparr>md_dwAddress = read_le32 m p, md_dwSize = read_le32 m (p + 4), md_dwSum = read_le32 m (p + 8)\<rparr>"

fun ataMakeSum_loop :: "memory \<Rightarrow> u32 \<Rightarrow> nat \<Rightarrow> u32 \<Rightarrow> u32" where
  "ataMakeSum_loop m p 0 acc = acc"
| "ataMakeSum_loop m p (Suc dwSize) acc = ataMakeSum_loop m (p + 1) dwSize (acc + ucast (m p))"

definition ataMakeSum :: "memory \<Rightarrow> u32 \<Rightarrow> u32 \<Rightarrow> u32" where
  "ataMakeSum m pStart dwSize = ataMakeSum_loop m pStart (unat dwSize) 0"

section \<open>Loading\<close>

text \<open>
  The copy loop in pieces of at most 256 KiB; it returns the memory, \<open>pCurrentAddr\<close> and
  \<open>dwReadSize\<close>.
\<close>

function copy_module :: "u32 \<Rightarrow> u32 \<Rightarrow> u32 \<Rightarrow> u32 \<Rightarrow> memory \<Rightarrow> memory \<times> u32 \<times> u32" where
  "copy_module dwSize pBuffer pCurrentAddr dwReadSize m =
     (if dwSize = 0 then (m, pCurrentAddr, dwReadSize)
      else
        let dwReadReqSize = (if dwSize \<ge> 0x40000 then 0x40000 else dwSize);
            m = memcpy pBuffer pCurrentAddr dwReadReqSize m
        in copy_module (dwSize - dwReadReqSize) (pBuffer + dwReadReqSize)
             (pCurrentAddr + dwReadReqSize) (dwReadSize + dwReadReqSize) m)"
  by pat_completeness auto

lemma chunk_less: "dwSize \<noteq> 0 \<Longrightarrow> unat (dwSize - (if dwSize \<ge> 0x40000 then 0x40000 else dwSize)) < unat dwSize"
  for dwSize :: u32
  by (auto simp: unat_sub unat_gt_0 word_le_nat_alt)

termination copy_module
  by (relation "measure (\<lambda>(dwSize, _). unat dwSize)") (simp_all add: chunk_less)

declare copy_module.simps [simp del]

definition blink_module :: "bsp_config \<Rightarrow> sys \<Rightarrow> sys" where
  "blink_module cfg s =
     (let s = BlinkFourLEDs cfg (ledCount s) s;
          s = s\<lparr>ledCount := ledCount s + 1\<rparr>
      in if ledCount s > 3 then s\<lparr>ledCount := 0\<rparr> else s)"

partial_function (option) nk_load_modules ::
  "bsp_config \<Rightarrow> bool \<Rightarrow> u32 \<Rightarrow> sys \<Rightarrow> (int \<times> sys) option" where [code]:
  "nk_load_modules cfg ram_init pCurrentAddr s =
     (let ModuleHeader = read_MdHdr (mem s) pCurrentAddr;
          pCurrentAddr = pCurrentAddr + 12;
          s = blink_module cfg s
      in if md_dwAddress ModuleHeader = 0 \<and> md_dwSum ModuleHeader = 0 then Some (0, s)
         else
           let pBuffer = md_dwAddress ModuleHeader - 0x70000000;
               m = (if \<not> ram_init then memset pBuffer 0xff IMAGE_BOOT_NKIMAGE_NOR_SIZE (mem s) else mem s);
               (m, pCurrentAddr, dwReadSize) = copy_module (md_dwSize ModuleHeader) pBuffer pCurrentAddr 0 m;
               s = s\<lparr>mem := m\<rparr>
           in if dwReadSize \<noteq> md_dwSize ModuleHeader then Some (- 1, s)
              else if md_dwSum ModuleHeader \<noteq> ataMakeSum m pBuffer (md_dwSize ModuleHeader) then
                Some (if BSP_SUPPORT_SUMERR cfg then - 3 else - 1, s)
              else nk_load_modules cfg True pCurrentAddr s)"

definition NK_SIGNATURE :: "u8 list" where
  "NK_SIGNATURE = map of_char ''B000FF'' @ [10]"

text \<open>
  The analysis of the staged file: (return value, state, \<open>NkHeader.dwSize\<close>).  With
  \<open>BSP_SUPPORT_VERCHK\<close> the seven header bytes are kept as the allowed boot version and not
  compared.
\<close>

definition nk_load :: "bsp_config \<Rightarrow> sys \<Rightarrow> (int \<times> u32 \<times> sys) option" where
  "nk_load cfg s =
     (let pCurrentAddr = IMAGE_BOOT_NKIMAGE_RAM_PA_STORE_START;
          Header = get_bytes (mem s) pCurrentAddr 7;
          pCurrentAddr = pCurrentAddr + 7;
          s = (if BSP_SUPPORT_VERCHK cfg
               then s\<lparr>Allow_Boot_Version := Header @ drop 7 (Allow_Boot_Version s)\<rparr> else s)
      in if \<not> BSP_SUPPORT_VERCHK cfg \<and> Header \<noteq> NK_SIGNATURE then Some (- 1, 0, s)
         else
           let NkHeader = read_NkHdr (mem s) pCurrentAddr in
           if nk_dwSize NkHeader > IMAGE_BOOT_NKIMAGE_NOR_SIZE then Some (- 1, nk_dwSize NkHeader, s)
           else
             let pCurrentAddr = pCurrentAddr + 8;
                 s = s\<lparr>ledCount := 0\<rparr>
             in case nk_load_modules cfg False pCurrentAddr s of
                  None \<Rightarrow> None
                | Some (ret, s) \<Rightarrow> Some (ret, nk_dwSize NkHeader, s))"

section \<open>Images\<close>

text \<open>A record: address, data and the checksum it claims.\<close>

type_synonym nk_record = "u32 \<times> u8 list \<times> u32"

definition byte_sum :: "u8 list \<Rightarrow> u32" where
  "byte_sum bs = sum_list (map ucast bs)"

fun encode_record :: "nk_record \<Rightarrow> u8 list" where
  "encode_record (addr, bs, ck) =
     bytes_of_u32 addr @ bytes_of_u32 (of_nat (length bs)) @ bytes_of_u32 ck @ bs"

definition encode_end :: "u32 \<Rightarrow> u8 list" where
  "encode_end launch = bytes_of_u32 0 @ bytes_of_u32 launch @ bytes_of_u32 0"

definition encode_nk :: "u32 \<Rightarrow> u32 \<Rightarrow> nk_record list \<Rightarrow> u32 \<Rightarrow> u8 list" where
  "encode_nk start len rs launch =
     NK_SIGNATURE @ bytes_of_u32 start @ bytes_of_u32 len @ concat (map encode_record rs) @ encode_end launch"

text \<open>What loading the records means: the area is filled with 0xff from the first record on, each
  record is stored where it belongs, and the first wrong checksum ends it.\<close>

fun load_spec :: "bsp_config \<Rightarrow> bool \<Rightarrow> nk_record list \<Rightarrow> memory \<Rightarrow> int \<times> memory" where
  "load_spec cfg ram_init [] m = (0, m)"
| "load_spec cfg ram_init ((addr, bs, ck) # rs) m =
     (let dst = addr - 0x70000000;
          m = (if ram_init then m else memset dst 0xff IMAGE_BOOT_NKIMAGE_NOR_SIZE m);
          m = put_bytes dst bs m
      in if ck \<noteq> byte_sum bs then (if BSP_SUPPORT_SUMERR cfg then - 3 else - 1, m)
         else load_spec cfg True rs m)"

text \<open>Records that keep below the staging area, the fill of the first one included.\<close>

definition record_ok :: "bool \<Rightarrow> nk_record \<Rightarrow> bool" where
  "record_ok ram_init r =
     (case r of (addr, bs, ck) \<Rightarrow>
        addr \<noteq> 0 \<and>
        unat (addr - 0x70000000) + length bs \<le> unat IMAGE_BOOT_NKIMAGE_RAM_PA_STORE_START \<and>
        (\<not> ram_init \<longrightarrow> unat (addr - 0x70000000) + unat IMAGE_BOOT_NKIMAGE_NOR_SIZE
           \<le> unat IMAGE_BOOT_NKIMAGE_RAM_PA_STORE_START))"

fun records_ok :: "bool \<Rightarrow> nk_record list \<Rightarrow> bool" where
  "records_ok ram_init [] = True"
| "records_ok ram_init (r # rs) = (record_ok ram_init r \<and> records_ok True rs)"

section \<open>The checksum and the copy\<close>

lemma ataMakeSum_loop_byte_sum: "ataMakeSum_loop m p n acc = acc + byte_sum (get_bytes m p n)"
  by (induction n arbitrary: p acc) (simp_all add: byte_sum_def get_bytes_Suc add.assoc)

lemma ataMakeSum_byte_sum: "ataMakeSum m p n = byte_sum (get_bytes m p (unat n))"
  by (simp add: ataMakeSum_def ataMakeSum_loop_byte_sum)

lemma copy_module_put_bytes:
  assumes "unat dst + unat n \<le> unat S" and "S \<le> src" and "unat src + unat n < 2 ^ 32"
  shows "copy_module n dst src rd m = (put_bytes dst (get_bytes m src (unat n)) m, src + n, rd + n)"
  using assms
proof (induction n dst src rd m rule: copy_module.induct)
  case (1 n dst src rd m)
  show ?case
  proof (cases "n = 0")
    case True
    then show ?thesis
      by (subst copy_module.simps) (simp add: put_bytes_def)
  next
    case False
    define k :: u32 where "k = (if n \<ge> 0x40000 then 0x40000 else n)"
    have k: "k \<le> n"
      by (auto simp: k_def)
    have sub: "unat (n - k) = unat n - unat k" and le: "unat k \<le> unat n"
      using k by (simp_all add: unat_sub word_le_nat_alt)
    define m' where "m' = memcpy dst src k m"
    have m': "m' = put_bytes dst (get_bytes m src (unat k)) m"
      by (simp add: m'_def memcpy_put_bytes)
    have "unat S < 2 ^ 32"
      using unsigned_less [of S, where 'a = nat] by simp
    then have dst': "unat (dst + k) = unat dst + unat k"
      using "1.prems" le by (intro unat_add_small) linarith
    have src': "unat (src + k) = unat src + unat k"
      using "1.prems" le by (intro unat_add_small) linarith
    have same: "get_bytes m' (src + k) (unat (n - k)) = get_bytes m (src + k) (unat (n - k))"
    proof (rule get_bytes_above)
      show "m' a = m a" if "S \<le> a" for a
        unfolding m' using "1.prems"(1) le that by (intro put_bytes_above) simp_all
      show "S \<le> src + k" "unat (src + k) + unat (n - k) \<le> 2 ^ 32"
        using "1.prems" src' sub le by (simp_all add: word_le_nat_alt)
    qed
    have IH: "copy_module (n - k) (dst + k) (src + k) (rd + k) m'
        = (put_bytes (dst + k) (get_bytes m' (src + k) (unat (n - k))) m', src + k + (n - k), rd + k + (n - k))"
      using "1.IH" [of k m'] False "1.prems" dst' src' sub le k_def m'_def
      by (simp add: word_le_nat_alt)
    have "put_bytes (dst + k) (get_bytes m (src + k) (unat (n - k))) m'
        = put_bytes dst (get_bytes m src (unat k) @ get_bytes m (src + k) (unat (n - k))) m"
      using put_bytes_append [of "get_bytes m src (unat k)" "get_bytes m (src + k) (unat (n - k))" dst m]
        "1.prems" sub le by (simp add: m')
    also have "get_bytes m src (unat k) @ get_bytes m (src + k) (unat (n - k)) = get_bytes m src (unat n)"
      using get_bytes_add [of m src "unat k" "unat n - unat k"] le sub by simp
    finally show ?thesis
      using IH False unfolding same
      by (subst copy_module.simps) (simp add: k_def [symmetric] m'_def [symmetric] Let_def)
  qed
qed

section \<open>Reading records\<close>

lemma staged_header:
  assumes "get_bytes m p n = bytes_of_u32 a @ bytes_of_u32 b @ bytes_of_u32 c @ rest"
    and "n = 12 + length rest"
  shows "read_MdHdr m p = \<lparr>md_dwAddress = a, md_dwSize = b, md_dwSum = c\<rparr>"
    and "get_bytes m (p + 12) (length rest) = rest"
proof -
  have "get_bytes m p n = get_bytes m p 4 @ get_bytes m (p + 4) 4 @ get_bytes m (p + 8) 4 @
      get_bytes m (p + 12) (length rest)"
    using get_bytes_add [of m p 4 "8 + length rest"] get_bytes_add [of m "p + 4" 4 "4 + length rest"]
      get_bytes_add [of m "p + 8" 4 "length rest"] assms(2) by (simp add: add.assoc)
  then have "get_bytes m p 4 = bytes_of_u32 a" "get_bytes m (p + 4) 4 = bytes_of_u32 b"
    "get_bytes m (p + 8) 4 = bytes_of_u32 c" "get_bytes m (p + 12) (length rest) = rest"
    using assms(1) by simp_all
  then show "read_MdHdr m p = \<lparr>md_dwAddress = a, md_dwSize = b, md_dwSum = c\<rparr>"
    and "get_bytes m (p + 12) (length rest) = rest"
    by (simp_all add: read_MdHdr_def read_le32_of_bytes)
qed

lemma blink_module_mem [simp]: "mem (blink_module cfg s) = mem s"
  by (simp add: blink_module_def BlinkFourLEDs_def Let_def)

lemma length_encode_record: "length (encode_record (addr, bs, ck)) = 12 + length bs"
  by simp

lemma length_encode_end: "length (encode_end launch) = 12"
  by (simp add: encode_end_def)

lemma encode_record_append:
  "encode_record (addr, bs, ck) @ rest
    = bytes_of_u32 addr @ bytes_of_u32 (of_nat (length bs)) @ bytes_of_u32 ck @ (bs @ rest)"
  by simp

section \<open>The loader computes the specification\<close>

lemma nk_load_modules_spec:
  assumes "get_bytes (mem s) p n = concat (map encode_record rs) @ encode_end launch"
    and "n = length (concat (map encode_record rs)) + 12"
    and "records_ok init rs" and "STORE \<le> p" and "unat p + n < 2 ^ 32"
    and STORE: "STORE = IMAGE_BOOT_NKIMAGE_RAM_PA_STORE_START"
  shows "\<exists>t. nk_load_modules cfg init p s = Some (fst (load_spec cfg init rs (mem s)), t)
    \<and> mem t = snd (load_spec cfg init rs (mem s))"
  using assms(1-5)
proof (induction rs arbitrary: p n s init)
  case Nil
  have "read_MdHdr (mem s) p = \<lparr>md_dwAddress = 0, md_dwSize = launch, md_dwSum = 0\<rparr>"
    using Nil.prems by (intro staged_header(1) [where rest = "[]" and n = n]) (simp_all add: encode_end_def)
  then show ?case
    by (subst nk_load_modules.simps) (simp add: Let_def)
next
  case (Cons r rs)
  obtain addr bs ck where r: "r = (addr, bs, ck)"
    by (cases r)
  let ?rest = "concat (map encode_record rs) @ encode_end launch"
  let ?L = "of_nat (length bs) :: u32"
  have n: "n = 12 + length (bs @ ?rest)"
    using Cons.prems(2) by (simp add: r length_encode_end)
  have staged: "get_bytes (mem s) p n
      = bytes_of_u32 addr @ bytes_of_u32 ?L @ bytes_of_u32 ck @ (bs @ ?rest)"
    using Cons.prems(1) by (simp add: r)
  note hdr = staged_header [OF staged n]
  have unat_p12: "unat (p + 12) = unat p + 12"
    using Cons.prems(5) n unat_add_small [of p 12] by simp
  have L: "unat ?L = length bs"
    using Cons.prems(5) n by (simp add: unsigned_of_nat take_bit_nat_eq_self)
  define dst where "dst = addr - 0x70000000"
  define m1 where "m1 = (if init then mem s else memset dst 0xff IMAGE_BOOT_NKIMAGE_NOR_SIZE (mem s))"
  have ok: "addr \<noteq> 0" "unat dst + length bs \<le> unat STORE"
    "\<not> init \<Longrightarrow> unat dst + unat IMAGE_BOOT_NKIMAGE_NOR_SIZE \<le> unat STORE" "records_ok True rs"
    using Cons.prems(3) by (auto simp: r record_ok_def STORE dst_def)
  have p12: "STORE \<le> p + 12"
    using Cons.prems(4) unat_p12 by (simp add: word_le_nat_alt)
  have m1: "m1 a = mem s a" if "STORE \<le> a" for a
    using ok(3) that memset_above [of dst IMAGE_BOOT_NKIMAGE_NOR_SIZE STORE a] by (simp add: m1_def)
  have same: "get_bytes m1 q k = get_bytes (mem s) q k" if "STORE \<le> q" "unat q + k \<le> 2 ^ 32" for q k
    using m1 that by (intro get_bytes_above) auto
  have data: "get_bytes m1 (p + 12) (length bs) = bs"
    using get_bytes_split(1) [OF hdr(2)] p12 Cons.prems(5) n unat_p12 same [of "p + 12" "length bs"]
    by simp
  define m2 where "m2 = put_bytes dst bs m1"
  have copy: "copy_module ?L dst (p + 12) 0 m1 = (m2, p + 12 + ?L, ?L)"
    using copy_module_put_bytes [of dst ?L STORE "p + 12" 0 m1] ok(2) p12 Cons.prems(5) n unat_p12 L data
    by (simp add: m2_def)
  have sum: "ataMakeSum m2 dst ?L = byte_sum bs"
    using Cons.prems(5) n by (simp add: ataMakeSum_byte_sum L m2_def get_put_bytes)
  let ?s = "(blink_module cfg s)\<lparr>mem := m2\<rparr>"
  have step: "nk_load_modules cfg init p s =
      (if ck \<noteq> byte_sum bs then Some (if BSP_SUPPORT_SUMERR cfg then - 3 else - 1, ?s)
       else nk_load_modules cfg True (p + 12 + ?L) ?s)"
    using ok(1) copy sum
    by (subst nk_load_modules.simps; cases init)
       (simp_all add: hdr(1) Let_def dst_def [symmetric] m1_def)
  have m2: "m2 a = mem s a" if "STORE \<le> a" for a
    using ok(2) m1 that put_bytes_above [of dst bs STORE a] by (simp add: m2_def)
  have unat_next: "unat (p + 12 + ?L) = unat p + 12 + length bs"
    using Cons.prems(5) n unat_p12 L unat_add_small [of "p + 12" ?L] by simp
  have "get_bytes (mem s) (p + 12 + ?L) (length ?rest) = ?rest"
    by (rule get_bytes_split(2) [OF hdr(2)])
  then have rest: "get_bytes (mem ?s) (p + 12 + ?L) (length ?rest) = ?rest"
    using m2 Cons.prems(4,5) n unat_next get_bytes_above [of STORE m2 "mem s" "p + 12 + ?L" "length ?rest"]
    by (simp add: word_le_nat_alt)
  have "\<exists>t. nk_load_modules cfg True (p + 12 + ?L) ?s = Some (fst (load_spec cfg True rs (mem ?s)), t)
      \<and> mem t = snd (load_spec cfg True rs (mem ?s))"
    using rest ok(4) Cons.prems(4,5) n unat_next
    by (intro Cons.IH [where n = "length ?rest"]) (simp_all add: length_encode_end word_le_nat_alt)
  then show ?case
    by (simp add: step r Let_def dst_def [symmetric] m1_def [symmetric] m2_def [symmetric])
qed

lemma length_NK_SIGNATURE [simp]: "length NK_SIGNATURE = 7"
  by (simp add: NK_SIGNATURE_def)

lemma staged_nk:
  assumes "get_bytes m STORE (length (encode_nk start len rs launch)) = encode_nk start len rs launch"
  shows "get_bytes m STORE 7 = NK_SIGNATURE"
    and "read_NkHdr m (STORE + 7) = \<lparr>nk_dwAddress = start, nk_dwSize = len\<rparr>"
    and "get_bytes m (STORE + 15) (length (concat (map encode_record rs)) + 12)
      = concat (map encode_record rs) @ encode_end launch"
proof -
  define body where "body = concat (map encode_record rs) @ encode_end launch"
  have len: "length (encode_nk start len rs launch) = 15 + length body"
    by (simp add: encode_nk_def body_def)
  have "get_bytes m STORE (15 + length body) = get_bytes m STORE 7 @ get_bytes m (STORE + 7) 4 @
      get_bytes m (STORE + 11) 4 @ get_bytes m (STORE + 15) (length body)"
    using get_bytes_add [of m STORE 7 "8 + length body"] get_bytes_add [of m "STORE + 7" 4 "4 + length body"]
      get_bytes_add [of m "STORE + 11" 4 "length body"] by (simp add: add.assoc)
  moreover have "encode_nk start len rs launch = NK_SIGNATURE @ bytes_of_u32 start @ bytes_of_u32 len @ body"
    by (simp add: encode_nk_def body_def)
  ultimately have "get_bytes m STORE 7 = NK_SIGNATURE" "get_bytes m (STORE + 7) 4 = bytes_of_u32 start"
    "get_bytes m (STORE + 11) 4 = bytes_of_u32 len" "get_bytes m (STORE + 15) (length body) = body"
    using assms by (simp_all add: len)
  then show "get_bytes m STORE 7 = NK_SIGNATURE"
    "read_NkHdr m (STORE + 7) = \<lparr>nk_dwAddress = start, nk_dwSize = len\<rparr>"
    "get_bytes m (STORE + 15) (length (concat (map encode_record rs)) + 12)
      = concat (map encode_record rs) @ encode_end launch"
    by (simp_all add: read_NkHdr_def read_le32_of_bytes body_def length_encode_end add.assoc)
qed

lemma nk_load_spec:
  assumes "get_bytes (mem s) IMAGE_BOOT_NKIMAGE_RAM_PA_STORE_START (length (encode_nk start len rs launch))
      = encode_nk start len rs launch"
    and "length (encode_nk start len rs launch) \<le> unat READ_FILE_MAX_SIZE_120"
    and "len \<le> IMAGE_BOOT_NKIMAGE_NOR_SIZE" and "records_ok False rs"
  shows "\<exists>t. nk_load cfg s = Some (fst (load_spec cfg False rs (mem s)), len, t)
    \<and> mem t = snd (load_spec cfg False rs (mem s))"
proof -
  let ?S = IMAGE_BOOT_NKIMAGE_RAM_PA_STORE_START
  let ?n = "length (concat (map encode_record rs)) + 12"
  note staged = staged_nk [OF assms(1)]
  define s1 where "s1 = (if BSP_SUPPORT_VERCHK cfg
      then s\<lparr>Allow_Boot_Version := NK_SIGNATURE @ drop 7 (Allow_Boot_Version s)\<rparr> else s)\<lparr>ledCount := 0\<rparr>"
  have [simp]: "mem s1 = mem s"
    by (simp add: s1_def)
  have "length (encode_nk start len rs launch) = 15 + ?n"
    by (simp add: encode_nk_def length_encode_end)
  then have "\<exists>t. nk_load_modules cfg False (?S + 15) s1 = Some (fst (load_spec cfg False rs (mem s1)), t)
      \<and> mem t = snd (load_spec cfg False rs (mem s1))"
    using staged(3) assms(2,4)
    by (intro nk_load_modules_spec [where n = ?n and STORE = ?S and launch = launch])
       (simp_all add: layout_defs)
  moreover have "nk_load cfg s = (case nk_load_modules cfg False (?S + 15) s1 of
      None \<Rightarrow> None | Some (ret, t) \<Rightarrow> Some (ret, len, t))"
    using staged(1,2) assms(3)
    by (simp add: nk_load_def Let_def s1_def add.assoc not_less split: option.splits)
       (auto simp: not_less split: option.splits)
  ultimately show ?thesis
    by auto
qed

lemma nk_load_header_error:
  "\<not> BSP_SUPPORT_VERCHK cfg \<Longrightarrow>
   get_bytes (mem s) IMAGE_BOOT_NKIMAGE_RAM_PA_STORE_START 7 \<noteq> NK_SIGNATURE \<Longrightarrow>
   nk_load cfg s = Some (- 1, 0, s)"
  by (simp add: nk_load_def Let_def)

section \<open>What a loaded image looks like\<close>

definition record_region :: "nk_record \<Rightarrow> u32 set" where
  "record_region r = (case r of (addr, bs, ck) \<Rightarrow> {a. unat (a - (addr - 0x70000000)) < length bs})"

fun disjoint_records :: "nk_record list \<Rightarrow> bool" where
  "disjoint_records [] = True"
| "disjoint_records (r # rs) \<longleftrightarrow> (\<forall>r' \<in> set rs. record_region r \<inter> record_region r' = {}) \<and> disjoint_records rs"

definition sums_ok :: "nk_record list \<Rightarrow> bool" where
  "sums_ok rs = list_all (\<lambda>(addr, bs, ck). ck = byte_sum bs) rs"

lemma load_spec_ok: "fst (load_spec cfg init rs m) = 0 \<longleftrightarrow> sums_ok rs"
  by (induction cfg init rs m rule: load_spec.induct) (auto simp: Let_def sums_ok_def)

lemma load_spec_sumerr:
  "\<not> sums_ok rs \<Longrightarrow> fst (load_spec cfg init rs m) = (if BSP_SUPPORT_SUMERR cfg then - 3 else - 1)"
  by (induction cfg init rs m rule: load_spec.induct) (auto simp: Let_def sums_ok_def)

lemma load_spec_untouched:
  assumes "sums_ok rs" and "\<forall>r \<in> set rs. a \<notin> record_region r"
  shows "snd (load_spec cfg True rs m) a = m a"
  using assms
  by (induction rs arbitrary: m) (auto simp: Let_def sums_ok_def record_region_def put_bytes_def split: if_splits)

lemma load_spec_records:
  assumes "sums_ok rs" and "disjoint_records rs" and "(addr, bs, ck) \<in> set rs" and "length bs \<le> 2 ^ 32"
  shows "get_bytes (snd (load_spec cfg init rs m)) (addr - 0x70000000) (length bs) = bs"
  using assms(1-3)
proof (induction rs arbitrary: init m)
  case (Cons r rs)
  obtain addr' bs' ck' where r: "r = (addr', bs', ck')"
    by (cases r)
  show ?case
  proof (cases "(addr, bs, ck) = r")
    case True
    let ?m = "put_bytes (addr - 0x70000000) bs
      (if init then m else memset (addr - 0x70000000) 0xff IMAGE_BOOT_NKIMAGE_NOR_SIZE m)"
    have "snd (load_spec cfg init (r # rs) m) (addr - 0x70000000 + of_nat i) = bs ! i" if "i < length bs" for i
    proof -
      have "addr - 0x70000000 + of_nat i \<in> record_region r"
        using that assms(4) by (simp add: record_region_def True [symmetric] unsigned_of_nat take_bit_nat_eq_self)
      then have "\<forall>r' \<in> set rs. addr - 0x70000000 + of_nat i \<notin> record_region r'"
        using Cons.prems(2) by auto
      then have "snd (load_spec cfg True rs ?m) (addr - 0x70000000 + of_nat i) = ?m (addr - 0x70000000 + of_nat i)"
        using Cons.prems(1) by (intro load_spec_untouched) (simp_all add: sums_ok_def)
      moreover have "snd (load_spec cfg init (r # rs) m) = snd (load_spec cfg True rs ?m)"
        using Cons.prems(1) by (auto simp: True [symmetric] sums_ok_def Let_def)
      moreover have "?m (addr - 0x70000000 + of_nat i) = bs ! i"
        using that assms(4) by (rule put_bytes_same)
      ultimately show ?thesis
        by simp
    qed
    then show ?thesis
      by (intro nth_equalityI) simp_all
  next
    case False
    then have "get_bytes (snd (load_spec cfg True rs m')) (addr - 0x70000000) (length bs) = bs" for m'
      using Cons by (auto simp: sums_ok_def)
    then show ?thesis
      using Cons.prems(1) by (simp add: r Let_def sums_ok_def)
  qed
qed simp

lemma load_spec_fill:
  assumes "sums_ok rs" and "rs = (addr, bs, ck) # rs'" and "\<forall>r \<in> set rs. a \<notin> record_region r"
  shows "snd (load_spec cfg False rs m) a
    = (if in_region (addr - 0x70000000) IMAGE_BOOT_NKIMAGE_NOR_SIZE a then 0xff else m a)"
  using assms load_spec_untouched [of rs' a cfg]
  by (auto simp: Let_def sums_ok_def record_region_def put_bytes_def memset_def)

lemma records_ok_length:
  "records_ok init rs \<Longrightarrow> (addr, bs, ck) \<in> set rs \<Longrightarrow> length bs \<le> unat IMAGE_BOOT_NKIMAGE_RAM_PA_STORE_START"
  by (induction rs arbitrary: init) (auto simp: record_ok_def)

end
