(* ===== verification/Sd_Protocol.thy ===== *)
theory Sd_Protocol
  imports Nk_Image
begin

text \<open>
  The interface between the MMC driver and the card: the commands and responses of
  \<open>include/mmc.h\<close>, and the card's side of the SD protocol.

  \<open>sd_answer\<close> is a specification, not code of the repository: it says which commands a card that
  keeps to the SD specification (version 2 or later) answers in which state, with what, and the state it goes to.
  \<open>sd_reply\<close> is such a card behind a host controller.
\<close>

section \<open>Commands\<close>

record mmc_cmd =
  cmdidx :: nat
  resp_type :: nat
  cmdarg :: u32

definition MMC_CMD_GO_IDLE_STATE :: nat where "MMC_CMD_GO_IDLE_STATE = 0"
definition MMC_CMD_SEND_OP_COND :: nat where "MMC_CMD_SEND_OP_COND = 1"
definition MMC_CMD_ALL_SEND_CID :: nat where "MMC_CMD_ALL_SEND_CID = 2"
definition MMC_CMD_SET_DSR :: nat where "MMC_CMD_SET_DSR = 4"
definition MMC_CMD_SWITCH :: nat where "MMC_CMD_SWITCH = 6"
definition MMC_CMD_SELECT_CARD :: nat where "MMC_CMD_SELECT_CARD = 7"
definition MMC_CMD_SEND_EXT_CSD :: nat where "MMC_CMD_SEND_EXT_CSD = 8"
definition MMC_CMD_SEND_CSD :: nat where "MMC_CMD_SEND_CSD = 9"
definition MMC_CMD_STOP_TRANSMISSION :: nat where "MMC_CMD_STOP_TRANSMISSION = 12"
definition MMC_CMD_SEND_STATUS :: nat where "MMC_CMD_SEND_STATUS = 13"
definition MMC_CMD_SET_BLOCKLEN :: nat where "MMC_CMD_SET_BLOCKLEN = 16"
definition MMC_CMD_READ_SINGLE_BLOCK :: nat where "MMC_CMD_READ_SINGLE_BLOCK = 17"
definition MMC_CMD_READ_MULTIPLE_BLOCK :: nat where "MMC_CMD_READ_MULTIPLE_BLOCK = 18"
definition MMC_CMD_APP_CMD :: nat where "MMC_CMD_APP_CMD = 55"
definition SD_CMD_SEND_RELATIVE_ADDR :: nat where "SD_CMD_SEND_RELATIVE_ADDR = 3"
definition SD_CMD_SWITCH_FUNC :: nat where "SD_CMD_SWITCH_FUNC = 6"
definition SD_CMD_SEND_IF_COND :: nat where "SD_CMD_SEND_IF_COND = 8"
definition SD_CMD_APP_SET_BUS_WIDTH :: nat where "SD_CMD_APP_SET_BUS_WIDTH = 6"
definition SD_CMD_APP_SEND_OP_COND :: nat where "SD_CMD_APP_SEND_OP_COND = 41"
definition SD_CMD_APP_SEND_SCR :: nat where "SD_CMD_APP_SEND_SCR = 51"

definition MMC_RSP_NONE :: nat where "MMC_RSP_NONE = 0"
definition MMC_RSP_R1 :: nat where "MMC_RSP_R1 = 21"
definition MMC_RSP_R1b :: nat where "MMC_RSP_R1b = 29"
definition MMC_RSP_R2 :: nat where "MMC_RSP_R2 = 7"
definition MMC_RSP_R3 :: nat where "MMC_RSP_R3 = 1"
definition MMC_RSP_R6 :: nat where "MMC_RSP_R6 = 21"
definition MMC_RSP_R7 :: nat where "MMC_RSP_R7 = 21"

definition OCR_BUSY :: u32 where "OCR_BUSY = 0x80000000"
definition OCR_HCS :: u32 where "OCR_HCS = 0x40000000"
definition TIMEOUT :: int where "TIMEOUT = - 19"

lemmas mmc_cmd_defs =
  MMC_CMD_GO_IDLE_STATE_def MMC_CMD_SEND_OP_COND_def MMC_CMD_ALL_SEND_CID_def MMC_CMD_SET_DSR_def MMC_CMD_SWITCH_def
  MMC_CMD_SELECT_CARD_def MMC_CMD_SEND_EXT_CSD_def MMC_CMD_SEND_CSD_def MMC_CMD_STOP_TRANSMISSION_def
  MMC_CMD_SEND_STATUS_def MMC_CMD_SET_BLOCKLEN_def MMC_CMD_READ_SINGLE_BLOCK_def MMC_CMD_READ_MULTIPLE_BLOCK_def
  MMC_CMD_APP_CMD_def SD_CMD_SEND_RELATIVE_ADDR_def SD_CMD_SWITCH_FUNC_def SD_CMD_SEND_IF_COND_def
  SD_CMD_APP_SET_BUS_WIDTH_def SD_CMD_APP_SEND_OP_COND_def SD_CMD_APP_SEND_SCR_def

section \<open>Disks\<close>

text \<open>A disk image gives the bytes of every block; this is a run of \<open>n\<close> blocks.\<close>

definition sectors :: "(u32 \<Rightarrow> u8 list) \<Rightarrow> u32 \<Rightarrow> nat \<Rightarrow> u8 list" where
  "sectors disk b n = concat (map (\<lambda>i. disk (b + of_nat i)) [0..<n])"

lemma sectors_0 [simp]: "sectors disk b 0 = []"
  by (simp add: sectors_def)

lemma sectors_add: "sectors disk b (m + n) = sectors disk b m @ sectors disk (b + of_nat m) n"
proof -
  have "[0..<m + n] = [0..<m] @ map (\<lambda>i. i + m) [0..<n]"
    using upt_add_eq_append [of 0 m n] map_add_upt [of m n] by (simp add: add.commute)
  then show ?thesis
    by (simp add: sectors_def comp_def algebra_simps)
qed

lemma sectors_1: "sectors disk b (Suc 0) = disk b"
  by (simp add: sectors_def)

lemma length_sectors:
  assumes "\<And>b. length (disk b) = bsz"
  shows "length (sectors disk b n) = n * bsz"
  by (simp add: sectors_def length_concat assms comp_def sum_list_triv)

section \<open>A card\<close>

text \<open>Its registers, how often it answers that it is busy after a reset, and its blocks.\<close>

record sd_device =
  card_ocr :: u32
  card_hc :: bool
  card_busy :: nat
  card_cid :: "128 word"
  card_rca :: u16
  card_csd :: "128 word"
  card_scr :: "u8 list"
  card_switch :: "u32 \<Rightarrow> u8 list"
  card_bl :: u32
  card_blocks :: nat
  card_disk :: "u32 \<Rightarrow> u8 list"

text \<open>The CSD and CID registers are 128 bits long; they are delivered in four words, the highest first, without the checksum
  in the lowest byte.  A field of it is given by
  its lowest bit and its length, as in the specification: \<open>C_SIZE\<close> starts at bit 48 in the second version of the
  register, which high capacity cards have, and at bit 62 in the first, \<open>C_SIZE_MULT\<close> at 47 and \<open>READ_BL_LEN\<close> at 80.\<close>

definition csd_words :: "128 word \<Rightarrow> u32 list" where
  "csd_words csd = map (\<lambda>i. ucast (drop_bit (96 - 32 * i) (csd AND NOT (mask 8)))) [0, 1, 2, 3]"

definition csd_field :: "128 word \<Rightarrow> nat \<Rightarrow> nat \<Rightarrow> nat" where
  "csd_field csd lo n = unat (take_bit n (drop_bit lo csd))"

definition csd_bytes :: "bool \<Rightarrow> 128 word \<Rightarrow> nat" where
  "csd_bytes hc csd =
     (if hc then (csd_field csd 48 22 + 1) * 2 ^ 10 * 2 ^ csd_field csd 80 4
      else (csd_field csd 62 12 + 1) * 2 ^ (csd_field csd 47 3 + 2) * 2 ^ csd_field csd 80 4)"

text \<open>The status word: ready for data, and the current state.\<close>

definition card_status :: "sd_state \<Rightarrow> u32" where
  "card_status st =
     (case st of Sd_idle _ \<Rightarrow> 0x100 | Sd_ready \<Rightarrow> 0x300 | Sd_ident \<Rightarrow> 0x500 | Sd_stby \<Rightarrow> 0x700 | Sd_tran \<Rightarrow> 0x900 | Sd_data \<Rightarrow> 0xb00)"

text \<open>The argument of a read command: a block number on high capacity cards, a byte address on the others.\<close>

definition card_block :: "sd_device \<Rightarrow> u32 \<Rightarrow> u32 \<Rightarrow> bool" where
  "card_block c b arg \<longleftrightarrow> arg = (if card_hc c then b else b * card_bl c)"

definition block_of_arg :: "sd_device \<Rightarrow> u32 \<Rightarrow> u32" where
  "block_of_arg c arg = (if card_hc c then arg else arg div card_bl c)"

text \<open>The answer to an application command (after \<open>APP_CMD\<close>), and to the others.\<close>

definition sd_app_answer ::
  "sd_device \<Rightarrow> sd_state \<Rightarrow> mmc_cmd \<Rightarrow> (u32 \<times> u32) option \<Rightarrow> (sd_state \<times> u32 list \<times> u8 list) option" where
  "sd_app_answer c st cmd data =
     (if cmdidx cmd = SD_CMD_APP_SEND_OP_COND \<and> data = None then
        (case st of
           Sd_idle n \<Rightarrow>
             if cmdarg cmd AND card_ocr c AND 0xff8000 = 0 \<or> card_hc c \<and> cmdarg cmd AND OCR_HCS = 0 then None
             else (case n of
                 Suc m \<Rightarrow> Some (Sd_idle m, [card_ocr c AND 0xffffff], [])
               | 0 \<Rightarrow> Some (Sd_ready, [OCR_BUSY OR (if card_hc c then OCR_HCS else 0) OR (card_ocr c AND 0xffffff)], []))
         | _ \<Rightarrow> None)
      else if cmdidx cmd = SD_CMD_APP_SEND_SCR \<and> st = Sd_tran \<and> data = Some (1, 8) then
        Some (Sd_tran, [card_status st], card_scr c)
      else if cmdidx cmd = SD_CMD_APP_SET_BUS_WIDTH \<and> st = Sd_tran \<and> data = None \<and> cmdarg cmd = 2 then
        Some (Sd_tran, [card_status st], [])
      else None)"

definition sd_plain_answer ::
  "sd_device \<Rightarrow> sd_state \<Rightarrow> mmc_cmd \<Rightarrow> (u32 \<times> u32) option \<Rightarrow> (sd_state \<times> u32 list \<times> u8 list) option" where
  "sd_plain_answer c st cmd data =
     (let idx = cmdidx cmd; addressed = (cmdarg cmd = push_bit 16 (ucast (card_rca c)));
          b = block_of_arg c (cmdarg cmd)
      in case data of
        None \<Rightarrow>
          if idx = SD_CMD_SEND_IF_COND \<and> (case st of Sd_idle _ \<Rightarrow> True | _ \<Rightarrow> False) then
            Some (st, [cmdarg cmd AND 0xfff], [])
          else if idx = MMC_CMD_ALL_SEND_CID \<and> st = Sd_ready then Some (Sd_ident, csd_words (card_cid c), [])
          else if idx = SD_CMD_SEND_RELATIVE_ADDR \<and> st = Sd_ident then
            Some (Sd_stby, [push_bit 16 (ucast (card_rca c)) OR card_status st], [])
          else if idx = MMC_CMD_SEND_CSD \<and> st = Sd_stby \<and> addressed then Some (Sd_stby, csd_words (card_csd c), [])
          else if idx = MMC_CMD_SEND_STATUS \<and> (st = Sd_stby \<or> st = Sd_tran) \<and> addressed then
            Some (st, [card_status st], [])
          else if idx = MMC_CMD_SELECT_CARD \<and> st = Sd_stby \<and> addressed then Some (Sd_tran, [card_status st], [])
          else if idx = MMC_CMD_SET_BLOCKLEN \<and> st = Sd_tran \<and> cmdarg cmd = card_bl c then Some (Sd_tran, [card_status st], [])
          else if idx = MMC_CMD_STOP_TRANSMISSION \<and> st = Sd_data then Some (Sd_tran, [card_status st], [])
          else None
      | Some (n, bl) \<Rightarrow>
          if idx = SD_CMD_SWITCH_FUNC \<and> st = Sd_tran \<and> n = 1 \<and> bl = 64 then
            Some (Sd_tran, [card_status st], card_switch c (cmdarg cmd))
          else if idx = (if n > 1 then MMC_CMD_READ_MULTIPLE_BLOCK else MMC_CMD_READ_SINGLE_BLOCK) \<and> st = Sd_tran \<and>
            n \<noteq> 0 \<and> bl = card_bl c \<and> card_block c b (cmdarg cmd) \<and> unat b + unat n \<le> card_blocks c
          then Some (if n > 1 then Sd_data else Sd_tran, [card_status st], sectors (card_disk c) b (unat n))
          else None)"

text \<open>\<open>GO_IDLE_STATE\<close> resets the card in any state.  \<open>APP_CMD\<close> is answered by an idle card and by a selected one that is addressed; the next command is an application command.\<close>

definition sd_answer ::
  "sd_device \<Rightarrow> sd_state \<Rightarrow> bool \<Rightarrow> mmc_cmd \<Rightarrow> (u32 \<times> u32) option \<Rightarrow> (sd_state \<times> bool \<times> u32 list \<times> u8 list) option" where
  "sd_answer c st app cmd data =
     (if cmdidx cmd = MMC_CMD_APP_CMD then
        (if data = None \<and> ((case st of Sd_idle _ \<Rightarrow> True | _ \<Rightarrow> False) \<or>
              st = Sd_tran \<and> cmdarg cmd = push_bit 16 (ucast (card_rca c)))
         then Some (st, True, [card_status st], []) else None)
      else if cmdidx cmd = MMC_CMD_GO_IDLE_STATE then (if data = None then Some (Sd_idle (card_busy c), False, [], []) else None)
      else map_option (\<lambda>(st, resp, bytes). (st, False, resp, bytes))
        (if app then sd_app_answer c st cmd data else sd_plain_answer c st cmd data))"

text \<open>What a host controller can carry out: at least one block, 16 bits of block count and 12 of block length; a response is one word or, for the
  long type, four.\<close>

definition transferable :: "(u32 \<times> u32) option \<Rightarrow> bool" where
  "transferable data \<longleftrightarrow> (case data of None \<Rightarrow> True | Some (n, bl) \<Rightarrow> n \<noteq> 0 \<and> n < 0x10000 \<and> bl < 0x1000)"

lemma transferable_simps [simp]: "transferable None" "transferable (Some (n, bl)) \<longleftrightarrow> n \<noteq> 0 \<and> n < 0x10000 \<and> bl < 0x1000"
  by (simp_all add: transferable_def)

definition resp_words :: "nat \<Rightarrow> nat" where
  "resp_words rsp = (if bit rsp 1 then 4 else 1)"

lemma resp_words_pos [simp]: "0 < resp_words rsp"
  by (simp add: resp_words_def)

text \<open>The card behind a controller: a command that is not answered times out.\<close>

definition sd_reply ::
  "sd_device \<Rightarrow> mmc \<Rightarrow> mmc_cmd \<Rightarrow> (u32 \<times> u32) option \<Rightarrow> sys \<Rightarrow> int \<times> (nat \<Rightarrow> u32) \<times> u8 list \<times> sys" where
  "sd_reply c mmc cmd data s =
     (case sd_answer c (sd_line s) (sd_app s) cmd data of
        Some (st, app, resp, bytes) \<Rightarrow>
          (0, \<lambda>i. if i < length resp then resp ! i else 0, bytes, s\<lparr>sd_line := st, sd_app := app\<rparr>)
      | None \<Rightarrow> (TIMEOUT, \<lambda>_. 0, [], s))"

end
