(* ===== verification/Block_Dev.thy ===== *)
theory Block_Dev
  imports Sd_Protocol "HOL-Library.Monad_Syntax"
begin

text \<open>
  Block devices: reading blocks from the SD card (\<open>mmc_bread\<close> of \<open>drivers/mmc/mmc.c\<close>) and
  from USB storage (\<open>usb_stor_read\<close> of \<open>common/usb_storage.c\<close>), both with the LED hook the
  board adds, and the DOS partition table (\<open>disk/part_dos.c\<close>).

  \<open>media\<close> holds what lies below this code: the operations of the MMC host controller, the USB
  transport and scan, and the allocator.  A function returns an option:
  \<open>None\<close> means that the C code does not return or leaves the bounds of a buffer.  A block read
  yields the driver's return value and the bytes it stored from the start of the buffer on.

  Two interfaces are stated as locales.  \<open>quiet_media\<close>: the hardware side changes none of the
  program's data; the lemmas carry this through the drivers.  \<open>readable_disk\<close>: reads inside the
  medium succeed and return what is on it; it is interpreted by \<open>mmc_bread\<close> on an SD card and by
  \<open>usb_stor_read\<close> on a USB stick that answer their commands.
\<close>

section \<open>What lies below\<close>

text \<open>A big-endian word of a device's answer (\<open>be32_to_cpu\<close>).\<close>

definition be32_at :: "u8 list \<Rightarrow> nat \<Rightarrow> u32" where
  "be32_at buf i = u32_of_bytes (buf ! (i + 3)) (buf ! (i + 2)) (buf ! (i + 1)) (buf ! i)"

text \<open>The alignment of the buffers of a DMA transfer.\<close>

definition ARCH_DMA_MINALIGN :: u32 where "ARCH_DMA_MINALIGN = 32"

record media =
  mmc_send_cmd :: "mmc \<Rightarrow> mmc_cmd \<Rightarrow> (u32 \<times> u32) option \<Rightarrow> sys \<Rightarrow> int \<times> (nat \<Rightarrow> u32) \<times> u8 list \<times> sys"
  ops_set_ios :: "mmc \<Rightarrow> sys \<Rightarrow> sys"
  ops_init :: "mmc \<Rightarrow> sys \<Rightarrow> int \<times> mmc \<times> sys"
  usb_init :: "sys \<Rightarrow> int \<times> sys"
  usb_stor_scan :: "sys \<Rightarrow> sys option"
  usb_read_10 :: "nat \<Rightarrow> u32 \<Rightarrow> u16 \<Rightarrow> sys \<Rightarrow> int \<times> u8 list \<times> sys"
  usb_request_sense :: "nat \<Rightarrow> sys \<Rightarrow> sys"
  memalign :: "nat \<Rightarrow> sys \<Rightarrow> u8 list option"

section \<open>The SD card\<close>

text \<open>\<open>mmc_send_cmd\<close> is \<open>cfg->ops->send_cmd\<close>: the command, for a transfer the number and the size of the
  blocks; it returns the error code, \<open>cmd->response\<close> and the bytes stored.  The list of slots is \<open>mmc_devices\<close>.\<close>

definition find_mmc_device :: "nat \<Rightarrow> sys \<Rightarrow> mmc option" where
  "find_mmc_device dev_num s = find (\<lambda>m. bd_dev (mmc_block_dev m) = dev_num) (mmc_devices s)"

definition mmc_set_blocklen :: "media \<Rightarrow> mmc \<Rightarrow> u32 \<Rightarrow> sys \<Rightarrow> int \<times> sys" where
  "mmc_set_blocklen md mmc len s =
     (if mmc_ddr_mode mmc then (0, s)
      else
        let (r, _, _, s) = mmc_send_cmd md mmc
              \<lparr>cmdidx = MMC_CMD_SET_BLOCKLEN, resp_type = MMC_RSP_R1, cmdarg = len\<rparr> None s
        in (r, s))"

text \<open>The number of blocks read (0 on failure) and the bytes stored.\<close>

definition mmc_read_blocks :: "media \<Rightarrow> mmc \<Rightarrow> u32 \<Rightarrow> u32 \<Rightarrow> sys \<Rightarrow> u32 \<times> u8 list \<times> sys" where
  "mmc_read_blocks md mmc start blkcnt s =
     (let cmd = \<lparr>cmdidx = (if blkcnt > 1 then MMC_CMD_READ_MULTIPLE_BLOCK else MMC_CMD_READ_SINGLE_BLOCK),
                 resp_type = MMC_RSP_R1,
                 cmdarg = (if mmc_high_capacity mmc then start else start * mmc_read_bl_len mmc)\<rparr>;
          (r, _, bytes, s) = mmc_send_cmd md mmc cmd (Some (blkcnt, mmc_read_bl_len mmc)) s
      in if r \<noteq> 0 then (0, bytes, s)
         else if blkcnt > 1 then
           let (r, _, _, s) = mmc_send_cmd md mmc
                 \<lparr>cmdidx = MMC_CMD_STOP_TRANSMISSION, resp_type = MMC_RSP_R1b, cmdarg = 0\<rparr> None s
           in (if r \<noteq> 0 then 0 else blkcnt, bytes, s)
         else (blkcnt, bytes, s))"

partial_function (option) mmc_bread_loop ::
  "bsp_config \<Rightarrow> env \<Rightarrow> media \<Rightarrow> mmc \<Rightarrow> u32 \<Rightarrow> u32 \<Rightarrow> u8 list \<Rightarrow> sys \<Rightarrow> (bool \<times> u8 list \<times> sys) option" where [code]:
  "mmc_bread_loop cfg e md mmc start blocks_todo dst s =
     (let s = osBoot_LED_Blink cfg e s;
          cur = (if blocks_todo > b_max (mmc_cfg mmc) then b_max (mmc_cfg mmc) else blocks_todo);
          (n, bytes, s) = mmc_read_blocks md mmc start cur s
      in if n \<noteq> cur then Some (False, dst @ bytes, s)
         else
           let blocks_todo = blocks_todo - cur;
               s = osBoot_LED_Blink cfg e s
           in if blocks_todo > 0
              then mmc_bread_loop cfg e md mmc (start + cur) blocks_todo (dst @ bytes) s
              else Some (True, dst @ bytes, s))"

definition mmc_bread ::
  "bsp_config \<Rightarrow> env \<Rightarrow> media \<Rightarrow> nat \<Rightarrow> u32 \<Rightarrow> u32 \<Rightarrow> sys \<Rightarrow> (u32 \<times> u8 list \<times> sys) option" where
  "mmc_bread cfg e md dev_num start blkcnt s =
     (if blkcnt = 0 then Some (0, [], s)
      else case find_mmc_device dev_num s of
        None \<Rightarrow> Some (0, [], s)
      | Some mmc \<Rightarrow>
          if start + blkcnt > bd_lba (mmc_block_dev mmc) then Some (0, [], s)
          else
            let (r, s) = mmc_set_blocklen md mmc (mmc_read_bl_len mmc) s in
            if r \<noteq> 0 then Some (0, [], s)
            else do {
              (done, bytes, s) \<leftarrow> mmc_bread_loop cfg e md mmc start blkcnt [] s;
              Some (if done then blkcnt else 0, bytes, s)
            })"

section \<open>USB storage\<close>

definition USB_MAX_XFER_BLK :: u32 where "USB_MAX_XFER_BLK = 256"

text \<open>One transfer with its retries: success, the bytes stored by the last attempt, state.\<close>

fun usb_read_retry ::
  "media \<Rightarrow> nat \<Rightarrow> u32 \<Rightarrow> u16 \<Rightarrow> nat \<Rightarrow> sys \<Rightarrow> bool \<times> u8 list \<times> sys" where
  "usb_read_retry md device start smallblks retry s =
     (let (r, bytes, s) = usb_read_10 md device start smallblks s in
      if r \<noteq> 0 then
        let s = usb_request_sense md device s in
        (case retry of
           0 \<Rightarrow> (False, bytes, s)
         | Suc retry \<Rightarrow> usb_read_retry md device start smallblks retry s)
      else (True, bytes, s))"

declare usb_read_retry.simps [simp del]

text \<open>The number of blocks not read, the bytes stored, state.\<close>

function usb_read_loop ::
  "media \<Rightarrow> nat \<Rightarrow> u32 \<Rightarrow> u32 \<Rightarrow> u8 list \<Rightarrow> sys \<Rightarrow> u32 \<times> u8 list \<times> sys" where
  "usb_read_loop md device start blks buffer s =
     (if blks = 0 then (0, buffer, s)
      else
        let smallblks = (if blks > USB_MAX_XFER_BLK then USB_MAX_XFER_BLK else blks);
            (ok, bytes, s) = usb_read_retry md device start (ucast smallblks) 2 s
        in if \<not> ok then (blks, buffer @ bytes, s)
           else usb_read_loop md device (start + smallblks) (blks - smallblks) (buffer @ bytes) s)"
  by pat_completeness auto

lemma usb_chunk_less:
  "blks \<noteq> 0 \<Longrightarrow> unat (blks - (if blks > USB_MAX_XFER_BLK then USB_MAX_XFER_BLK else blks)) < unat blks"
  by (auto simp: USB_MAX_XFER_BLK_def unat_sub unat_gt_0 word_le_nat_alt word_less_nat_alt)

termination usb_read_loop
  by (relation "measure (\<lambda>(md, device, start, blks, buffer, s). unat blks)") (simp_all add: usb_chunk_less)

declare usb_read_loop.simps [simp del]

text \<open>The driver's data of a device: \<open>usb_dev_desc[device].priv\<close> is set for the devices the scan has found.\<close>

definition USB_READY :: u32 where "USB_READY = 1"

definition us_of :: "nat \<Rightarrow> sys \<Rightarrow> us_data option" where
  "us_of device s = (if device < length (usb_dev_desc s) then bd_priv (usb_dev_desc s ! device) else None)"

definition set_us_flags :: "us_data \<Rightarrow> u32 \<Rightarrow> sys \<Rightarrow> sys" where
  "set_us_flags us v s = s\<lparr>us_flags := (us_flags s)(us_slot us := v)\<rparr>"

definition usb_stor_read ::
  "bsp_config \<Rightarrow> env \<Rightarrow> media \<Rightarrow> nat \<Rightarrow> u32 \<Rightarrow> u32 \<Rightarrow> sys \<Rightarrow> u32 \<times> u8 list \<times> sys" where
  "usb_stor_read cfg e md device blknr blkcnt s =
     (if blkcnt = 0 then (0, [], s)
      else
        let device = device mod 256 in
        case us_of device s of
          None \<Rightarrow> (0, [], s)
        | Some ss \<Rightarrow>
          let s = osBoot_LED_Blink cfg e s;
              (blks, bytes, s) = usb_read_loop md device blknr blkcnt [] s;
              s = set_us_flags ss (us_flags s (us_slot ss) AND NOT USB_READY) s;
              s = osBoot_LED_Blink cfg e s
          in (blkcnt - blks, bytes, s))"

definition usb_stor_get_dev :: "nat \<Rightarrow> sys \<Rightarrow> block_dev_desc option" where
  "usb_stor_get_dev index s = (if index < length (usb_dev_desc s) then Some (usb_dev_desc s ! index) else None)"

definition go_usb_start :: "media \<Rightarrow> sys \<Rightarrow> sys option" where
  "go_usb_start md s =
     (let (r, s) = usb_init md s in
      if r < 0 then Some s else usb_stor_scan md s)"

section \<open>Devices\<close>

definition block_read ::
  "bsp_config \<Rightarrow> env \<Rightarrow> media \<Rightarrow> block_dev_desc \<Rightarrow> u32 \<Rightarrow> u32 \<Rightarrow> sys \<Rightarrow> (u32 \<times> u8 list \<times> sys) option" where
  "block_read cfg e md dev_desc start blkcnt s =
     (case bd_if_type dev_desc of
        IF_TYPE_USB \<Rightarrow> Some (usb_stor_read cfg e md (bd_dev dev_desc) start blkcnt s)
      | IF_TYPE_MMC \<Rightarrow> mmc_bread cfg e md (bd_dev dev_desc) start blkcnt s)"

text \<open>\<open>simple_strtoul\<close>: the value and the rest of the string.\<close>

definition digit_value :: "char \<Rightarrow> u32 option" where
  "digit_value c =
     (let n = of_char c :: nat in
      if 48 \<le> n \<and> n \<le> 57 then Some (of_nat (n - 48))
      else if 65 \<le> n \<and> n \<le> 70 then Some (of_nat (n - 65 + 10))
      else if 97 \<le> n \<and> n \<le> 102 then Some (of_nat (n - 97 + 10))
      else None)"

fun strtoul_loop :: "u32 \<Rightarrow> u32 \<Rightarrow> string \<Rightarrow> u32 \<times> string" where
  "strtoul_loop base result [] = (result, [])"
| "strtoul_loop base result (c # cp) =
     (case digit_value c of
        Some v \<Rightarrow> if v < base then strtoul_loop base (result * base + v) cp else (result, c # cp)
      | None \<Rightarrow> (result, c # cp))"

definition simple_strtoul :: "string \<Rightarrow> u32 \<Rightarrow> u32 \<times> string" where
  "simple_strtoul cp base =
     (let (cp, base) =
        (case cp of
           CHR ''0'' # cp \<Rightarrow>
             (let (cp, base) =
                (case cp of
                   CHR ''x'' # d # ds \<Rightarrow> if digit_value d \<noteq> None then (d # ds, 16) else (cp, base)
                 | _ \<Rightarrow> (cp, base))
              in (cp, if base = 0 then 8 else base))
         | _ \<Rightarrow> (cp, base));
          base = (if base = 0 then 10 else base)
      in strtoul_loop base 0 cp)"

section \<open>DOS partitions\<close>

definition DOS_PART_TBL_OFFSET :: nat where "DOS_PART_TBL_OFFSET = 0x1be"
definition DOS_PART_MAGIC_OFFSET :: nat where "DOS_PART_MAGIC_OFFSET = 0x1fe"
definition DOS_PBR_FSTYPE_OFFSET :: nat where "DOS_PBR_FSTYPE_OFFSET = 0x36"
definition DOS_PBR32_FSTYPE_OFFSET :: nat where "DOS_PBR32_FSTYPE_OFFSET = 0x52"
definition DOS_PART_DEFAULT_SECTOR :: u32 where "DOS_PART_DEFAULT_SECTOR = 512"

datatype dos_block = DOS_MBR | DOS_PBR | DOS_NONE

definition le32_to_int :: "u8 list \<Rightarrow> u32" where
  "le32_to_int le32 = u32_of_bytes (le32 ! 0) (le32 ! 1) (le32 ! 2) (le32 ! 3)"

definition is_extended :: "u8 \<Rightarrow> bool" where
  "is_extended part_type \<longleftrightarrow> part_type = 0x5 \<or> part_type = 0xf \<or> part_type = 0x85"

definition sub_bytes :: "'a list \<Rightarrow> nat \<Rightarrow> nat \<Rightarrow> 'a list" where
  "sub_bytes bs off n = take n (drop off bs)"

text \<open>The pointer into the table does not advance, so all three rounds test the first entry.\<close>

definition test_block_type :: "u8 list \<Rightarrow> dos_block" where
  "test_block_type buffer =
     (if buffer ! DOS_PART_MAGIC_OFFSET \<noteq> 0x55 \<or> buffer ! (DOS_PART_MAGIC_OFFSET + 1) \<noteq> 0xaa then DOS_NONE
      else
        let boot_ind = buffer ! DOS_PART_TBL_OFFSET in
        if boot_ind \<noteq> 0 \<and> boot_ind \<noteq> 0x80 then
          (if sub_bytes buffer DOS_PBR_FSTYPE_OFFSET 3 = map of_char ''FAT'' \<or>
              sub_bytes buffer DOS_PBR32_FSTYPE_OFFSET 5 = map of_char ''FAT32''
           then DOS_PBR else DOS_NONE)
        else DOS_MBR)"

text \<open>One block into a local buffer of \<open>blksz\<close> bytes: \<open>Some None\<close> when the read failed.\<close>

definition read_block ::
  "bsp_config \<Rightarrow> env \<Rightarrow> media \<Rightarrow> block_dev_desc \<Rightarrow> u32 \<Rightarrow> sys \<Rightarrow> (u8 list option \<times> sys) option" where
  "read_block cfg e md dev_desc start s = do {
     (n, bytes, s) \<leftarrow> block_read cfg e md dev_desc start 1 s;
     if n \<noteq> 1 then Some (None, s)
     else if length bytes \<noteq> unat (bd_blksz dev_desc) \<or> length bytes < 512 then None
     else Some (Some bytes, s)
   }"

definition test_part_dos ::
  "bsp_config \<Rightarrow> env \<Rightarrow> media \<Rightarrow> block_dev_desc \<Rightarrow> sys \<Rightarrow> (int \<times> sys) option" where
  "test_part_dos cfg e md dev_desc s = do {
     (block, s) \<leftarrow> read_block cfg e md dev_desc 0 s;
     Some (case block of
         None \<Rightarrow> (- 1, s)
       | Some buffer \<Rightarrow> (if test_block_type buffer \<noteq> DOS_MBR then - 1 else 0, s))
   }"

definition init_part ::
  "bsp_config \<Rightarrow> env \<Rightarrow> media \<Rightarrow> block_dev_desc \<Rightarrow> sys \<Rightarrow> (block_dev_desc \<times> sys) option" where
  "init_part cfg e md dev_desc s = do {
     (r, s) \<leftarrow> test_part_dos cfg e md dev_desc s;
     Some (dev_desc\<lparr>bd_part_type := (if r = 0 then PART_TYPE_DOS else PART_TYPE_UNKNOWN)\<rparr>, s)
   }"

text \<open>The four entries of a table, 16 bytes each.\<close>

definition table_entries :: "u8 list \<Rightarrow> u8 list list" where
  "table_entries buffer = map (\<lambda>i. sub_bytes buffer (DOS_PART_TBL_OFFSET + 16 * i) 16) [0..<4]"

abbreviation pt_boot_ind :: "u8 list \<Rightarrow> u8" where "pt_boot_ind pt \<equiv> pt ! 0"
abbreviation pt_sys_ind :: "u8 list \<Rightarrow> u8" where "pt_sys_ind pt \<equiv> pt ! 4"

definition pt_start4 :: "u8 list \<Rightarrow> u32" where "pt_start4 pt = le32_to_int (drop 8 pt)"
definition pt_size4 :: "u8 list \<Rightarrow> u32" where "pt_size4 pt = le32_to_int (drop 12 pt)"

text \<open>The search through the entries: the partition, or the next partition number.\<close>

fun dos_entries :: "u32 \<Rightarrow> int \<Rightarrow> int \<Rightarrow> u8 list list \<Rightarrow> disk_partition + int" where
  "dos_entries ext_part_sector part_num which_part [] = Inr part_num"
| "dos_entries ext_part_sector part_num which_part (pt # pts) =
     (if pt_boot_ind pt AND NOT 0x80 = 0 \<and> pt_sys_ind pt \<noteq> 0 \<and> part_num = which_part \<and>
         \<not> is_extended (pt_sys_ind pt)
      then Inl \<lparr>part_start = ext_part_sector + pt_start4 pt, part_size = pt_size4 pt,
                part_blksz = DOS_PART_DEFAULT_SECTOR\<rparr>
      else
        dos_entries ext_part_sector
          (if ext_part_sector = 0 \<or> pt_sys_ind pt \<noteq> 0 \<and> \<not> is_extended (pt_sys_ind pt)
           then part_num + 1 else part_num) which_part pts)"

partial_function (option) get_partition_info_extended ::
  "bsp_config \<Rightarrow> env \<Rightarrow> media \<Rightarrow> block_dev_desc \<Rightarrow> u32 \<Rightarrow> u32 \<Rightarrow> int \<Rightarrow> int \<Rightarrow> sys
    \<Rightarrow> (disk_partition option \<times> sys) option" where [code]:
  "get_partition_info_extended cfg e md dev_desc ext_part_sector relative part_num which_part s = do {
     (block, s) \<leftarrow> read_block cfg e md dev_desc ext_part_sector s;
     (case block of
        None \<Rightarrow> Some (None, s)
      | Some buffer \<Rightarrow>
          if buffer ! DOS_PART_MAGIC_OFFSET \<noteq> 0x55 \<or> buffer ! (DOS_PART_MAGIC_OFFSET + 1) \<noteq> 0xaa
          then Some (None, s)
          else case dos_entries ext_part_sector part_num which_part (table_entries buffer) of
            Inl info \<Rightarrow> Some (Some info, s)
          | Inr part_num \<Rightarrow>
              (case find (\<lambda>pt. is_extended (pt_sys_ind pt)) (table_entries buffer) of
                 Some pt \<Rightarrow>
                   let lba_start = pt_start4 pt + relative in
                   get_partition_info_extended cfg e md dev_desc lba_start
                     (if ext_part_sector = 0 then lba_start else relative) part_num which_part s
               | None \<Rightarrow>
                   Some (if test_block_type buffer = DOS_PBR
                         then Some \<lparr>part_start = 0, part_size = bd_lba dev_desc,
                                    part_blksz = DOS_PART_DEFAULT_SECTOR\<rparr>
                         else None, s)))
   }"

text \<open>\<open>get_partition_info\<close> with DOS partitions as the only kind compiled in; \<open>None\<close> as
  the partition stands for -1.\<close>

definition get_partition_info ::
  "bsp_config \<Rightarrow> env \<Rightarrow> media \<Rightarrow> block_dev_desc \<Rightarrow> int \<Rightarrow> sys \<Rightarrow> (disk_partition option \<times> sys) option" where
  "get_partition_info cfg e md dev_desc part s =
     (case bd_part_type dev_desc of
        PART_TYPE_DOS \<Rightarrow> get_partition_info_extended cfg e md dev_desc 0 0 1 part s
      | PART_TYPE_UNKNOWN \<Rightarrow> Some (None, s))"

section \<open>What the drivers leave alone\<close>

definition boot_data :: "sys \<Rightarrow> memory \<times> boot_device \<times> u8 \<times> u8 \<times> u32 \<times> u8 list" where
  "boot_data s = (mem s, boot_dev s, Board_Version s, g_AutoSel s, bootMode s, Allow_Boot_Version s)"

definition fat_data ::
  "sys \<Rightarrow> block_dev_desc list \<times> mmc list \<times> block_dev_desc option \<times> disk_partition \<times> u8 list" where
  "fat_data s = (usb_dev_desc s, mmc_devices s, cur_dev s, cur_part_info s, do_fat_read_at_block s)"

text \<open>The program's data: everything but clocks, LEDs, registers and the state of the devices.\<close>

definition calm where
  "calm s = (boot_data s, fat_data s)"

text \<open>The program's data, with the card in the state it was in.\<close>

definition kept where
  "kept s = (calm s, sd_line s, sd_app s)"

text \<open>The scan of the bus fills the list of devices and leaves the rest alone.\<close>

definition scan_kept where
  "scan_kept s = (boot_data s, mmc_devices s, cur_dev s, cur_part_info s, do_fat_read_at_block s)"

lemmas kept_defs = kept_def calm_def boot_data_def fat_data_def

lemma kept_calm: "kept t = kept s \<Longrightarrow> calm t = calm s"
  by (simp add: kept_def)

lemma calm_scan_kept: "calm t = calm s \<Longrightarrow> scan_kept t = scan_kept s"
  by (simp add: calm_def fat_data_def scan_kept_def)

lemma calm_boot_data: "calm t = calm s \<Longrightarrow> boot_data t = boot_data s"
  by (simp add: calm_def)

lemmas kept_scan_kept = kept_calm [THEN calm_scan_kept]
lemmas kept_boot_data = kept_calm [THEN calm_boot_data]

lemma kept_us_flags [simp]: "kept (set_us_flags us v s) = kept s"
  by (simp add: kept_defs set_us_flags_def)

lemma calm_us_flags [simp]: "calm (set_us_flags us v s) = calm s"
  by (rule kept_calm) simp

lemma kept_led_blink [simp]: "kept (osBoot_LED_Blink cfg e s) = kept s"
  by (simp add: kept_defs)

lemma calm_led_blink [simp]: "calm (osBoot_LED_Blink cfg e s) = calm s"
  by (rule kept_calm) simp

text \<open>The hardware side changes neither the boot data nor the file system's variables; the scan
  replaces the table of USB devices only through its result.\<close>

locale quiet_media =
  fixes md :: media
  assumes mmc_send_cmd_quiet: "mmc_send_cmd md mmc cmd data s = (r, resp, bytes, t) \<Longrightarrow> calm t = calm s"
    and ops_set_ios_quiet: "calm (ops_set_ios md mmc s) = calm s"
    and ops_init_quiet: "ops_init md mmc s = (r, mmc', t) \<Longrightarrow> calm t = calm s"
    and usb_init_quiet: "usb_init md s = (r, t) \<Longrightarrow> calm t = calm s"
    and usb_stor_scan_quiet: "usb_stor_scan md s = Some t \<Longrightarrow> scan_kept t = scan_kept s"
    and usb_read_10_quiet: "usb_read_10 md device start n s = (r, bytes, t) \<Longrightarrow> calm t = calm s"
    and usb_request_sense_quiet: "calm (usb_request_sense md device s) = calm s"
begin

lemma mmc_set_blocklen_quiet: "mmc_set_blocklen md mmc len s = (r, t) \<Longrightarrow> calm t = calm s"
  by (auto simp: mmc_set_blocklen_def dest: mmc_send_cmd_quiet split: if_splits prod.splits)

lemma mmc_read_blocks_quiet: "mmc_read_blocks md mmc start n s = (r, bytes, t) \<Longrightarrow> calm t = calm s"
  by (auto simp: mmc_read_blocks_def Let_def split: if_splits prod.splits dest!: mmc_send_cmd_quiet)

lemma mmc_bread_loop_quiet:
  assumes "mmc_bread_loop cfg e md mmc start n dst s = Some y"
  shows "calm (snd (snd y)) = calm s"
proof -
  have "md' = md \<longrightarrow> calm (snd (snd y)) = calm s"
    if "mmc_bread_loop cfg e md' mmc start n dst s = Some y" for md' y
    using that
  proof (rule mmc_bread_loop.raw_induct [rotated], goal_cases)
    case 1
    from 1(2) show ?case
      by (auto simp: Let_def split: if_splits prod.splits dest!: mmc_read_blocks_quiet 1(1))
  qed
  with assms show ?thesis
    by blast
qed

lemma mmc_bread_quiet: "mmc_bread cfg e md dev start n s = Some (r, bytes, t) \<Longrightarrow> calm t = calm s"
  by (auto simp: mmc_bread_def Let_def split: if_splits prod.splits option.splits Option.bind_splits
      dest!: mmc_bread_loop_quiet mmc_set_blocklen_quiet)

lemma usb_read_retry_quiet:
  "usb_read_retry md device start n retry s = (ok, bytes, t) \<Longrightarrow> calm t = calm s"
proof (induction retry arbitrary: s)
  case 0
  then show ?case
    by (subst (asm) usb_read_retry.simps)
       (auto simp: Let_def usb_request_sense_quiet split: if_splits prod.splits dest!: usb_read_10_quiet)
next
  case (Suc retry)
  from Suc.prems show ?case
    by (subst (asm) usb_read_retry.simps)
       (auto simp: Let_def usb_request_sense_quiet split: if_splits prod.splits
         dest!: usb_read_10_quiet Suc.IH)
qed

lemma usb_read_loop_quiet: "usb_read_loop md device start n buf s = (k, bytes, t) \<Longrightarrow> calm t = calm s"
proof (induction "unat n" arbitrary: n start buf s rule: less_induct)
  case less
  let ?small = "if n > USB_MAX_XFER_BLK then USB_MAX_XFER_BLK else n"
  obtain ok bs u where rd: "usb_read_retry md device start (ucast ?small) 2 s = (ok, bs, u)"
    by (cases "usb_read_retry md device start (ucast ?small) 2 s") auto
  from less.prems less.hyps [of "n - ?small"] usb_chunk_less [of n] show ?case
    using usb_read_retry_quiet [OF rd]
    by (subst (asm) usb_read_loop.simps) (auto simp: Let_def rd split: if_splits)
qed

lemma usb_stor_read_quiet: "usb_stor_read cfg e md device start n s = (r, bytes, t) \<Longrightarrow> calm t = calm s"
  by (auto simp: usb_stor_read_def Let_def split: if_splits option.splits prod.splits dest!: usb_read_loop_quiet)

lemma block_read_quiet: "block_read cfg e md dev start n s = Some (r, bytes, t) \<Longrightarrow> calm t = calm s"
  by (auto simp: block_read_def split: if_type.splits dest: mmc_bread_quiet usb_stor_read_quiet)

lemma go_usb_start_scan_kept: "go_usb_start md s = Some t \<Longrightarrow> scan_kept t = scan_kept s"
  by (auto simp: go_usb_start_def Let_def split: prod.splits if_splits
      dest!: usb_init_quiet [THEN calm_scan_kept] usb_stor_scan_quiet)

lemma go_usb_start_quiet: "go_usb_start md s = Some t \<Longrightarrow> boot_data t = boot_data s"
  using go_usb_start_scan_kept [of s t] by (simp add: scan_kept_def)

lemma read_block_quiet: "read_block cfg e md dev start s = Some (r, t) \<Longrightarrow> calm t = calm s"
  by (auto simp: read_block_def split: if_splits Option.bind_splits dest!: block_read_quiet)

lemma init_part_quiet: "init_part cfg e md desc s = Some (desc', t) \<Longrightarrow> calm t = calm s"
  by (auto simp: init_part_def test_part_dos_def split: Option.bind_splits option.splits dest!: read_block_quiet)

lemma get_partition_info_extended_quiet:
  assumes "get_partition_info_extended cfg e md dev ext rel pn which s = Some y"
  shows "calm (snd y) = calm s"
proof -
  have "md' = md \<longrightarrow> calm (snd y) = calm s"
    if "get_partition_info_extended cfg e md' dev ext rel pn which s = Some y" for md' y
    using that
  proof (rule get_partition_info_extended.raw_induct [rotated], goal_cases)
    case 1
    from 1(2) show ?case
      by (auto simp: Let_def split: if_splits option.splits sum.splits Option.bind_splits
          dest!: read_block_quiet 1(1))
  qed
  with assms show ?thesis
    by blast
qed

lemma get_partition_info_quiet:
  "get_partition_info cfg e md dev part s = Some (r, t) \<Longrightarrow> calm t = calm s"
  by (auto simp: get_partition_info_def split: part_type.splits dest!: get_partition_info_extended_quiet)

end

section \<open>Disks\<close>

text \<open>What the file system needs of a device: reads inside the medium return what is on it.\<close>

locale readable_disk =
  fixes cfg :: bsp_config and e :: env and md :: media and dev :: block_dev_desc
    and disk :: "u32 \<Rightarrow> u8 list" and lba :: nat and bsz :: nat and ready :: "sys \<Rightarrow> bool"
  assumes read_ok: "ready s \<Longrightarrow> unat b + unat n \<le> lba \<Longrightarrow>
      \<exists>t. block_read cfg e md dev b n s = Some (n, sectors disk b (unat n), t) \<and> kept t = kept s"
    and sector_length: "length (disk b) = bsz"
    and ready_kept: "kept t = kept s \<Longrightarrow> ready s \<Longrightarrow> ready t"
    and lba_bound: "lba < 2 ^ 32"

section \<open>The SD card as a disk\<close>

text \<open>
  A card that answers in the transfer state: it accepts \<open>SET_BLOCKLEN\<close>, and a read command
  yields the blocks from its argument on (a block number on high capacity cards, a byte address on
  the others); \<open>STOP_TRANSMISSION\<close> ends a transfer of several blocks.
\<close>

definition selected :: "sys \<Rightarrow> bool" where
  "selected s \<longleftrightarrow> sd_line s = Sd_tran \<and> \<not> sd_app s"

definition card_answers :: "media \<Rightarrow> mmc \<Rightarrow> (u32 \<Rightarrow> u8 list) \<Rightarrow> bool" where
  "card_answers md mmc disk \<longleftrightarrow>
     b_max (mmc_cfg mmc) \<noteq> 0 \<and>
     (\<forall>cmd s. cmdidx cmd = MMC_CMD_SET_BLOCKLEN \<longrightarrow> cmdarg cmd = mmc_read_bl_len mmc \<longrightarrow> selected s \<longrightarrow>
        (\<exists>r bytes t. mmc_send_cmd md mmc cmd None s = (0, r, bytes, t) \<and> kept t = kept s)) \<and>
     (\<forall>cmd s. cmdidx cmd = MMC_CMD_STOP_TRANSMISSION \<longrightarrow> sd_line s = Sd_data \<longrightarrow> \<not> sd_app s \<longrightarrow>
        (\<exists>r bytes t. mmc_send_cmd md mmc cmd None s = (0, r, bytes, t) \<and> calm t = calm s \<and> selected t)) \<and>
     (\<forall>cmd b n s. cmdidx cmd = (if n > 1 then MMC_CMD_READ_MULTIPLE_BLOCK else MMC_CMD_READ_SINGLE_BLOCK) \<longrightarrow>
        cmdarg cmd = (if mmc_high_capacity mmc then b else b * mmc_read_bl_len mmc) \<longrightarrow> n \<noteq> 0 \<longrightarrow> n \<le> b_max (mmc_cfg mmc) \<longrightarrow>
        unat b + unat n \<le> unat (bd_lba (mmc_block_dev mmc)) \<longrightarrow> selected s \<longrightarrow>
        (\<exists>r t. mmc_send_cmd md mmc cmd (Some (n, mmc_read_bl_len mmc)) s = (0, r, sectors disk b (unat n), t) \<and>
           calm t = calm s \<and> sd_line t = (if n > 1 then Sd_data else Sd_tran) \<and> \<not> sd_app t))"

lemma selected_kept: "kept t = kept s \<Longrightarrow> selected t = selected s"
  by (simp add: kept_def selected_def)

lemma kept_selected: "calm t = calm s \<Longrightarrow> selected s \<Longrightarrow> selected t \<Longrightarrow> kept t = kept s"
  by (simp add: kept_def selected_def)

lemma mmc_set_blocklen_ok:
  assumes "card_answers md mmc disk" and "selected s"
  shows "\<exists>t. mmc_set_blocklen md mmc (mmc_read_bl_len mmc) s = (0, t) \<and> kept t = kept s"
proof -
  let ?cmd = "\<lparr>cmdidx = MMC_CMD_SET_BLOCKLEN, resp_type = MMC_RSP_R1, cmdarg = mmc_read_bl_len mmc\<rparr>"
  have "\<exists>r bytes t. mmc_send_cmd md mmc ?cmd None s = (0, r, bytes, t) \<and> kept t = kept s"
    using assms unfolding card_answers_def by simp
  then show ?thesis
    by (auto simp: mmc_set_blocklen_def)
qed

lemma mmc_read_blocks_ok:
  assumes card: "card_answers md mmc disk" and "unat b + unat n \<le> unat (bd_lba (mmc_block_dev mmc))"
    and "n \<noteq> 0" and "selected s" and "n \<le> b_max (mmc_cfg mmc)"
  shows "\<exists>t. mmc_read_blocks md mmc b n s = (n, sectors disk b (unat n), t) \<and> kept t = kept s"
proof -
  let ?cmd = "\<lparr>cmdidx = (if n > 1 then MMC_CMD_READ_MULTIPLE_BLOCK else MMC_CMD_READ_SINGLE_BLOCK),
     resp_type = MMC_RSP_R1, cmdarg = (if mmc_high_capacity mmc then b else b * mmc_read_bl_len mmc)\<rparr>"
  let ?stop = "\<lparr>cmdidx = MMC_CMD_STOP_TRANSMISSION, resp_type = MMC_RSP_R1b, cmdarg = 0 :: u32\<rparr>"
  obtain r t where t: "mmc_send_cmd md mmc ?cmd (Some (n, mmc_read_bl_len mmc)) s = (0, r, sectors disk b (unat n), t)"
    "calm t = calm s" "sd_line t = (if n > 1 then Sd_data else Sd_tran)" "\<not> sd_app t"
    using card [unfolded card_answers_def, THEN conjunct2, THEN conjunct2, THEN conjunct2, rule_format, of ?cmd n b s] assms(2-5)
    by auto
  show ?thesis
  proof (cases "n > 1")
    case True
    then obtain r' bs u where "mmc_send_cmd md mmc ?stop None t = (0, r', bs, u)" "calm u = calm t" "selected u"
      using card [unfolded card_answers_def, THEN conjunct2, THEN conjunct2, THEN conjunct1, rule_format, of ?stop t] t(3,4)
      by auto
    then show ?thesis
      using t True kept_selected [of u s] assms(4) by (simp add: mmc_read_blocks_def Let_def)
  next
    case False
    then show ?thesis
      using t kept_selected [of t s] assms(4) by (simp add: mmc_read_blocks_def Let_def selected_def)
  qed
qed

lemma mmc_bread_loop_ok:
  assumes card: "card_answers md mmc disk"
    and "n \<noteq> 0" and "unat b + unat n \<le> unat (bd_lba (mmc_block_dev mmc))" and "selected s"
  shows "\<exists>t. mmc_bread_loop cfg e md mmc b n out s = Some (True, out @ sectors disk b (unat n), t)
    \<and> kept t = kept s"
  using assms(2-4)
proof (induction "unat n" arbitrary: n b out s rule: less_induct)
  case less
  define cur where "cur = (if n > b_max (mmc_cfg mmc) then b_max (mmc_cfg mmc) else n)"
  have b_max: "b_max (mmc_cfg mmc) \<noteq> 0"
    using card by (simp add: card_answers_def)
  then have cur: "cur \<noteq> 0" "cur \<le> n" "cur \<le> b_max (mmc_cfg mmc)"
    using less.prems(1) by (auto simp: cur_def)
  have sub: "unat (n - cur) = unat n - unat cur" "unat cur \<le> unat n" "0 < unat cur"
    using cur by (simp_all add: unat_sub word_le_nat_alt unat_gt_0)
  have sel: "selected (osBoot_LED_Blink cfg e s)"
    using less.prems(3) selected_kept [OF kept_led_blink] by blast
  obtain t where t: "mmc_read_blocks md mmc b cur (osBoot_LED_Blink cfg e s) = (cur, sectors disk b (unat cur), t)"
    "kept t = kept s"
    using mmc_read_blocks_ok [OF card _ cur(1) sel cur(3), of b] less.prems(2) sub by auto
  show ?case
  proof (cases "n - cur = 0")
    case True
    then have "cur = n"
      by simp
    then show ?thesis
      using t by (subst mmc_bread_loop.simps) (simp add: cur_def [symmetric] Let_def)
  next
    case False
    have "unat (bd_lba (mmc_block_dev mmc)) < 2 ^ 32"
      using unsigned_less [of "bd_lba (mmc_block_dev mmc)", where 'a = nat] by simp
    then have b': "unat (b + cur) = unat b + unat cur"
      using less.prems(2) sub by (intro unat_add_small) linarith
    have "selected (osBoot_LED_Blink cfg e t)"
      using less.prems(3) selected_kept [of "osBoot_LED_Blink cfg e t" s] t(2) by simp
    then obtain u where "mmc_bread_loop cfg e md mmc (b + cur) (n - cur) (out @ sectors disk b (unat cur))
        (osBoot_LED_Blink cfg e t) = Some (True, (out @ sectors disk b (unat cur)) @
          sectors disk (b + cur) (unat (n - cur)), u)" "kept u = kept (osBoot_LED_Blink cfg e t)"
      using less.hyps [of "n - cur" "b + cur"] False less.prems(2) sub b' by fastforce
    moreover have "sectors disk b (unat cur) @ sectors disk (b + cur) (unat (n - cur)) = sectors disk b (unat n)"
      using sectors_add [of disk b "unat cur" "unat n - unat cur"] sub by simp
    ultimately show ?thesis
      using t False by (subst mmc_bread_loop.simps) (simp add: cur_def [symmetric] Let_def word_gt_0)
  qed
qed

text \<open>The slot's entry in the list of devices, with a card that answers.\<close>

definition card_there :: "media \<Rightarrow> block_dev_desc \<Rightarrow> (u32 \<Rightarrow> u8 list) \<Rightarrow> sys \<Rightarrow> bool" where
  "card_there md desc disk s \<longleftrightarrow>
     selected s \<and>
     (case find_mmc_device (bd_dev desc) s of
        None \<Rightarrow> False
      | Some mmc \<Rightarrow> mmc_block_dev mmc = desc \<and> card_answers md mmc disk)"

lemma card_there_kept: "kept t = kept s \<Longrightarrow> card_there md desc disk t = card_there md desc disk s"
  by (simp add: card_there_def find_mmc_device_def selected_def kept_def calm_def fat_data_def)

lemma mmc_bread_ok:
  assumes "card_there md desc disk s" and "unat b + unat n \<le> unat (bd_lba desc)"
  shows "\<exists>t. mmc_bread cfg e md (bd_dev desc) b n s = Some (n, sectors disk b (unat n), t) \<and> kept t = kept s"
proof (cases "n = 0")
  case True
  then show ?thesis
    by (simp add: mmc_bread_def)
next
  case False
  obtain mmc where mmc: "find_mmc_device (bd_dev desc) s = Some mmc" "mmc_block_dev mmc = desc" "card_answers md mmc disk"
    and sel: "selected s"
    using assms(1) by (auto simp: card_there_def split: option.splits)
  obtain t where t: "mmc_set_blocklen md mmc (mmc_read_bl_len mmc) s = (0, t)" "kept t = kept s"
    using mmc_set_blocklen_ok [OF mmc(3) sel] by blast
  obtain u where "mmc_bread_loop cfg e md mmc b n [] t = Some (True, [] @ sectors disk b (unat n), u)" "kept u = kept t"
    using mmc_bread_loop_ok [OF mmc(3) False, of b t cfg e "[]"] assms(2) mmc(2) sel selected_kept [OF t(2)] by auto
  moreover have "\<not> b + n > bd_lba desc"
  proof -
    have "unat (bd_lba desc) < 2 ^ 32"
      using unsigned_less [of "bd_lba desc", where 'a = nat] by simp
    then have "unat (b + n) = unat b + unat n"
      using assms(2) by (intro unat_add_small) linarith
    then show ?thesis
      using assms(2) by (simp add: not_less word_le_nat_alt)
  qed
  ultimately show ?thesis
    using t False mmc by (simp add: mmc_bread_def)
qed

section \<open>A USB stick as a disk\<close>

text \<open>The stick is in the list of devices; a stick that answers every \<open>READ(10)\<close> inside the medium of
  as many blocks as the driver asks for at once.\<close>

definition stick_there :: "block_dev_desc \<Rightarrow> sys \<Rightarrow> bool" where
  "stick_there desc s \<longleftrightarrow> bd_dev desc < length (usb_dev_desc s) \<and> usb_dev_desc s ! bd_dev desc = desc"

lemma stick_there_kept: "kept t = kept s \<Longrightarrow> stick_there desc t = stick_there desc s"
  by (simp add: stick_there_def kept_def calm_def fat_data_def)

definition stick_answers :: "media \<Rightarrow> block_dev_desc \<Rightarrow> (u32 \<Rightarrow> u8 list) \<Rightarrow> nat \<Rightarrow> bool" where
  "stick_answers md desc disk lba \<longleftrightarrow>
     (\<forall>b n s. stick_there desc s \<longrightarrow> unat b + unat n \<le> lba \<longrightarrow> unat n \<le> unat USB_MAX_XFER_BLK \<longrightarrow>
        (\<exists>t. usb_read_10 md (bd_dev desc) b n s = (0, sectors disk b (unat n), t) \<and> kept t = kept s))"

lemma usb_read_loop_ok:
  assumes stick: "stick_answers md desc disk lba" and "lba < 2 ^ 32"
    and "unat b + unat n \<le> lba" and "stick_there desc s"
  shows "\<exists>t. usb_read_loop md (bd_dev desc) b n out s = (0, out @ sectors disk b (unat n), t) \<and> kept t = kept s"
  using assms(3,4)
proof (induction "unat n" arbitrary: n b out s rule: less_induct)
  case less
  show ?case
  proof (cases "n = 0")
    case True
    then show ?thesis
      by (subst usb_read_loop.simps) simp
  next
    case False
    define small where "small = (if n > USB_MAX_XFER_BLK then USB_MAX_XFER_BLK else n)"
    have small: "small \<le> n" "unat small \<le> 256"
      using word_less_nat_alt [of USB_MAX_XFER_BLK n]
      by (auto simp: small_def USB_MAX_XFER_BLK_def)
    then have u16: "unat (ucast small :: u16) = unat small"
      by (simp add: unsigned_ucast_eq take_bit_nat_eq_self)
    have sub: "unat (n - small) = unat n - unat small" "unat small \<le> unat n"
      using small by (simp_all add: unat_sub word_le_nat_alt)
    have "unat b + unat (ucast small :: u16) \<le> lba"
      using less.prems(1) sub u16 by simp
    then obtain t where t: "usb_read_10 md (bd_dev desc) b (ucast small) s = (0, sectors disk b (unat small), t)" "kept t = kept s"
      using stick [unfolded stick_answers_def, rule_format, of s b "ucast small"] u16 small(2) less.prems(2)
      by (auto simp: USB_MAX_XFER_BLK_def)
    have retry: "usb_read_retry md (bd_dev desc) b (ucast small) 2 s = (True, sectors disk b (unat small), t)"
      using t by (subst usb_read_retry.simps) simp
    have b': "unat (b + small) = unat b + unat small"
      using less.prems(1) sub assms(2) by (intro unat_add_small) linarith
    have lt: "unat (n - small) < unat n"
      using usb_chunk_less [OF False] by (simp add: small_def)
    obtain u where u: "usb_read_loop md (bd_dev desc) (b + small) (n - small) (out @ sectors disk b (unat small)) t
        = (0, (out @ sectors disk b (unat small)) @ sectors disk (b + small) (unat (n - small)), u)" "kept u = kept t"
      using less.hyps [OF lt, of "b + small" t] less.prems sub b' stick_there_kept [OF t(2)] by fastforce
    have "sectors disk b (unat small) @ sectors disk (b + small) (unat (n - small)) = sectors disk b (unat n)"
      using sectors_add [of disk b "unat small" "unat n - unat small"] sub by simp
    then show ?thesis
      using u t retry False by (subst usb_read_loop.simps) (simp add: small_def [symmetric] Let_def)
  qed
qed

lemma usb_stor_read_ok:
  assumes "stick_answers md desc disk lba" and "lba < 2 ^ 32" and "unat b + unat n \<le> lba"
    and "stick_there desc s" and "bd_dev desc < 256" and "bd_priv desc \<noteq> None"
  shows "\<exists>t. usb_stor_read cfg e md (bd_dev desc) b n s = (n, sectors disk b (unat n), t) \<and> kept t = kept s"
proof (cases "n = 0")
  case False
  obtain t where "usb_read_loop md (bd_dev desc) b n [] (osBoot_LED_Blink cfg e s) = (0, [] @ sectors disk b (unat n), t)"
    "kept t = kept s"
    using usb_read_loop_ok [OF assms(1-3), of "osBoot_LED_Blink cfg e s" "[]"] assms(4) stick_there_kept [OF kept_led_blink] by auto
  then show ?thesis
    using assms(4-6) False by (auto simp: usb_stor_read_def stick_there_def us_of_def Let_def)
qed (simp add: usb_stor_read_def)

section \<open>Instances\<close>

text \<open>A high capacity card and a stick with the given image, with blocks of \<open>bl\<close> bytes.\<close>

definition image_block :: "nat \<Rightarrow> (u32 \<Rightarrow> u8 list) \<Rightarrow> u32 \<Rightarrow> u8 list" where
  "image_block bl img b = take bl (img b @ replicate bl 0)"

lemma length_image_block [simp]: "length (image_block bl img b) = bl"
  by (simp add: image_block_def)

definition sd_desc :: "nat \<Rightarrow> u32 \<Rightarrow> block_dev_desc" where
  "sd_desc bl blocks =
     \<lparr>bd_if_type = IF_TYPE_MMC, bd_dev = 0, bd_part_type = PART_TYPE_DOS, bd_target = 0, bd_lun = 0, bd_type = 0,
      bd_removable = True, bd_lba = blocks, bd_blksz = of_nat bl, bd_priv = None\<rparr>"

definition usb_desc :: "nat \<Rightarrow> u32 \<Rightarrow> block_dev_desc" where
  "usb_desc bl blocks =
     (sd_desc bl blocks)
       \<lparr>bd_if_type := IF_TYPE_USB,
        bd_priv := Some \<lparr>us_slot = 0, pusb_dev = 1, us_ifnum = 0, ep_in = 1, ep_out = 2, ep_int = 0, us_subclass = 6,
          us_protocol = 0x50, irqinterval = 0\<rparr>\<rparr>"

text \<open>A slot as \<open>calloc\<close> leaves it, and a slot whose card has been identified.\<close>

definition mmc_zero :: mmc where
  "mmc_zero =
     \<lparr>mmc_cfg = \<lparr>host_caps = 0, voltages = 0, f_min = 0, f_max = 0, b_max = 0\<rparr>, mmc_esdhc_base = 0, mmc_version = 0,
      mmc_has_init = False, mmc_high_capacity = False, mmc_bus_width = 0, mmc_clock = 0, mmc_card_caps = 0, mmc_ocr = 0,
      mmc_dsr = 0, mmc_dsr_imp = 0, mmc_scr = [0, 0], mmc_csd = [0, 0, 0, 0], mmc_cid = [0, 0, 0, 0], mmc_rca = 0,
      mmc_part_support = 0, mmc_part_attr = 0, mmc_wr_rel_set = 0, mmc_part_config = 0, mmc_part_num = 0,
      mmc_tran_speed = 0, mmc_read_bl_len = 0, mmc_write_bl_len = 0, mmc_erase_grp_size = 0, mmc_hc_wp_grp_size = 0,
      mmc_capacity = 0, mmc_capacity_user = 0, mmc_capacity_boot = 0, mmc_capacity_rpmb = 0,
      mmc_capacity_gp = [0, 0, 0, 0], mmc_enh_user_start = 0, mmc_enh_user_size = 0,
      mmc_block_dev = \<lparr>bd_if_type = IF_TYPE_MMC, bd_dev = 0, bd_part_type = PART_TYPE_UNKNOWN, bd_target = 0, bd_lun = 0,
        bd_type = 0, bd_removable = False, bd_lba = 0, bd_blksz = 0, bd_priv = None\<rparr>,
      mmc_op_cond_pending = False, mmc_init_in_progress = False, mmc_ddr_mode = False\<rparr>"

definition sd_card :: "nat \<Rightarrow> u32 \<Rightarrow> mmc" where
  "sd_card bl blocks =
     mmc_zero\<lparr>mmc_cfg := \<lparr>host_caps = 0x04, voltages = 0x300000, f_min = 400000, f_max = 52000000, b_max = 65535\<rparr>,
       mmc_has_init := True, mmc_high_capacity := True, mmc_read_bl_len := of_nat bl, mmc_block_dev := sd_desc bl blocks\<rparr>"

text \<open>The card itself, for the specification: its registers tell a high capacity card of \<open>blocks div 1024\<close> units.\<close>

definition image_card :: "nat \<Rightarrow> (u32 \<Rightarrow> u8 list) \<Rightarrow> u32 \<Rightarrow> sd_device" where
  "image_card bl img blocks =
     \<lparr>card_ocr = 0xff8000, card_hc = True, card_busy = 2, card_cid = 0, card_rca = 0x1234,
      card_csd = push_bit 48 (ucast (blocks div 1024 - 1)) OR 0x400e00325b59000000007f800a400000,
      card_scr = [2, 0x35, 0, 0, 0, 0, 0, 0], card_switch = (\<lambda>_. replicate 64 0), card_bl = of_nat bl,
      card_blocks = unat blocks, card_disk = image_block bl img\<rparr>"

definition image_media :: "nat \<Rightarrow> (u32 \<Rightarrow> u8 list) \<Rightarrow> u32 \<Rightarrow> (u32 \<Rightarrow> u8 list) \<Rightarrow> u32 \<Rightarrow> media" where
  "image_media bl sd sd_blocks usb usb_blocks =
     \<lparr>mmc_send_cmd = sd_reply (image_card bl sd sd_blocks),
      ops_set_ios = (\<lambda>mmc s. s), ops_init = (\<lambda>mmc s. (0, mmc, s)),
      usb_init = (\<lambda>s. (0, s)), usb_stor_scan = (\<lambda>s. Some (s\<lparr>usb_dev_desc := [usb_desc bl usb_blocks]\<rparr>)),
      usb_read_10 = (\<lambda>device b n s. (0, sectors (image_block bl usb) b (unat n), s)),
      usb_request_sense = (\<lambda>device s. s),
      memalign = (\<lambda>n s. Some (replicate n 0))\<rparr>"

lemma sd_reply_calm: "sd_reply c mmc cmd data s = (r, resp, bytes, t) \<Longrightarrow> calm t = calm s"
  by (auto simp: sd_reply_def calm_def boot_data_def fat_data_def split: option.splits)

interpretation image: quiet_media "image_media bl sd sd_blocks usb usb_blocks"
  for bl sd sd_blocks usb usb_blocks
  by unfold_locales (auto simp: image_media_def scan_kept_def boot_data_def dest: sd_reply_calm)

lemma image_card_answers:
  "card_answers (image_media bl sd sd_blocks usb usb_blocks) (sd_card bl sd_blocks) (image_block bl sd)"
  unfolding card_answers_def
  by (auto simp: image_media_def sd_card_def sd_desc_def sd_reply_def sd_answer_def sd_plain_answer_def selected_def image_card_def
      Let_def card_block_def block_of_arg_def mmc_cmd_defs kept_def calm_def boot_data_def fat_data_def)

definition card_in :: "nat \<Rightarrow> u32 \<Rightarrow> sys \<Rightarrow> sys" where
  "card_in bl blocks s = s\<lparr>mmc_devices := [sd_card bl blocks], sd_line := Sd_tran, sd_app := False\<rparr>"

lemma image_card_there:
  "card_there (image_media bl sd sd_blocks usb usb_blocks) (sd_desc bl sd_blocks) (image_block bl sd) (card_in bl sd_blocks s)"
  using image_card_answers by (simp add: card_there_def card_in_def selected_def find_mmc_device_def sd_card_def sd_desc_def)

lemma image_stick_answers:
  "stick_answers (image_media bl sd sd_blocks usb usb_blocks) (usb_desc bl usb_blocks) (image_block bl usb) (unat usb_blocks)"
  by (auto simp: stick_answers_def image_media_def)

text \<open>
  A medium that answers, whichever of the two it is: the contract of \<open>readable_disk\<close> for any host
  controller or USB transport below the drivers.  For the card, answering is a matter of the slot's state too.
\<close>

definition dev_ready :: "media \<Rightarrow> block_dev_desc \<Rightarrow> (u32 \<Rightarrow> u8 list) \<Rightarrow> sys \<Rightarrow> bool" where
  "dev_ready md desc disk s \<longleftrightarrow>
     (case bd_if_type desc of IF_TYPE_MMC \<Rightarrow> card_there md desc disk s | IF_TYPE_USB \<Rightarrow> stick_there desc s)"

lemma dev_ready_kept: "kept t = kept s \<Longrightarrow> dev_ready md desc disk t = dev_ready md desc disk s"
  using card_there_kept [of t s] stick_there_kept [of t s] by (cases "bd_if_type desc") (simp_all add: dev_ready_def)

definition medium_answers :: "media \<Rightarrow> block_dev_desc \<Rightarrow> (u32 \<Rightarrow> u8 list) \<Rightarrow> nat \<Rightarrow> bool" where
  "medium_answers md desc disk bsz \<longleftrightarrow>
     (\<forall>b. length (disk b) = bsz) \<and>
     (bd_if_type desc = IF_TYPE_USB \<longrightarrow>
        bd_dev desc < 256 \<and> bd_priv desc \<noteq> None \<and> stick_answers md desc disk (unat (bd_lba desc)))"

lemma medium_readable:
  assumes "medium_answers md desc disk bsz"
  shows "readable_disk cfg e md desc disk (unat (bd_lba desc)) bsz (dev_ready md desc disk)"
proof unfold_locales
  have lba: "unat (bd_lba desc) < 2 ^ 32"
    using unsigned_less [of "bd_lba desc", where 'a = nat] by simp
  show "\<exists>t. block_read cfg e md desc b n s = Some (n, sectors disk b (unat n), t) \<and> kept t = kept s"
    if "dev_ready md desc disk s" "unat b + unat n \<le> unat (bd_lba desc)" for s b n
    using that assms usb_stor_read_ok [OF _ lba that(2), of md desc disk s cfg e] mmc_bread_ok [OF _ that(2), of md disk s cfg e]
    by (cases "bd_if_type desc") (simp_all add: medium_answers_def dev_ready_def block_read_def)
  show "unat (bd_lba desc) < 2 ^ 32"
    by (rule lba)
  show "dev_ready md desc disk t" if "kept t = kept s" "dev_ready md desc disk s" for s t
    using that dev_ready_kept by blast
qed (use assms in \<open>simp add: medium_answers_def\<close>)

lemma image_media_answers:
  "medium_answers (image_media bl sd sd_blocks usb usb_blocks) (sd_desc bl sd_blocks) (image_block bl sd) bl"
  "medium_answers (image_media bl sd sd_blocks usb usb_blocks) (usb_desc bl usb_blocks) (image_block bl usb) bl"
  using image_stick_answers [of bl sd sd_blocks usb usb_blocks]
  by (auto simp: medium_answers_def usb_desc_def sd_desc_def)

interpretation sd: readable_disk cfg e "image_media bl sd sd_blocks usb usb_blocks" "sd_desc bl sd_blocks"
    "image_block bl sd" "unat (bd_lba (sd_desc bl sd_blocks))" bl
    "dev_ready (image_media bl sd sd_blocks usb usb_blocks) (sd_desc bl sd_blocks) (image_block bl sd)"
  for cfg e bl sd sd_blocks usb usb_blocks
  by (rule medium_readable [OF image_media_answers(1)])

interpretation usb: readable_disk cfg e "image_media bl sd sd_blocks usb usb_blocks" "usb_desc bl usb_blocks"
    "image_block bl usb" "unat (bd_lba (usb_desc bl usb_blocks))" bl
    "dev_ready (image_media bl sd sd_blocks usb usb_blocks) (usb_desc bl usb_blocks) (image_block bl usb)"
  for cfg e bl sd sd_blocks usb usb_blocks
  by (rule medium_readable [OF image_media_answers(2)])

end
