(* ===== verification/Fat_Fs.thy ===== *)
theory Fat_Fs
  imports Block_Dev
begin

text \<open>
  The read-only FAT file system of \<open>fs/fat/fat.c\<close>, as the boot flow uses it: registering a
  partition, the size of a file and reading a file (\<open>dols\<close> is \<open>LS_NO\<close> throughout; the
  directory listing only prints).

  C strings are byte lists without their terminator.  The static directory block of
  \<open>do_fat_read_at\<close> keeps its contents between calls and is part of \<open>sys\<close>; a read that
  comes back short leaves the old bytes in it, as in the code.  Bytes read to the caller's buffer
  are returned as a list, from the start of the buffer on; the buffer's address only decides
  whether transfers are aligned.  \<open>None\<close> means not returning, dividing by zero, or leaving a
  buffer.
\<close>

section \<open>Names\<close>

type_synonym cstr = "u8 list"

definition ctype_isupper :: "u8 \<Rightarrow> bool" where
  "ctype_isupper c \<longleftrightarrow> 0x41 \<le> c \<and> c \<le> 0x5a \<or> 0xc0 \<le> c \<and> c \<le> 0xde \<and> c \<noteq> 0xd7"

definition ctype_tolower :: "u8 \<Rightarrow> u8" where
  "ctype_tolower c = (if ctype_isupper c then c + 0x20 else c)"

definition downcase :: "cstr \<Rightarrow> cstr" where
  "downcase str = map ctype_tolower str"

definition ISDIRDELIM :: "u8 \<Rightarrow> bool" where
  "ISDIRDELIM c \<longleftrightarrow> c = 0x2f \<or> c = 0x5c"

fun dirdelim_from :: "nat \<Rightarrow> cstr \<Rightarrow> nat option" where
  "dirdelim_from i [] = None"
| "dirdelim_from i (c # str) = (if ISDIRDELIM c then Some i else dirdelim_from (Suc i) str)"

definition dirdelim :: "cstr \<Rightarrow> nat option" where
  "dirdelim str = dirdelim_from 0 str"

section \<open>Directory entries\<close>

definition DELETED_FLAG :: u8 where "DELETED_FLAG = 0xe5"
definition aRING :: u8 where "aRING = 0x05"
definition LAST_LONG_ENTRY_MASK :: u8 where "LAST_LONG_ENTRY_MASK = 0x40"
definition ATTR_VOLUME :: u8 where "ATTR_VOLUME = 8"
definition ATTR_DIR :: u8 where "ATTR_DIR = 16"
definition ATTR_VFAT :: u8 where "ATTR_VFAT = 1 OR 2 OR 4 OR 8"
definition VFAT_MAXSEQ :: nat where "VFAT_MAXSEQ = 9"
definition PREFETCH_BLOCKS :: u32 where "PREFETCH_BLOCKS = 2"
definition MAX_CLUSTSIZE :: nat where "MAX_CLUSTSIZE = 65536"

lemmas fat_consts =
  DELETED_FLAG_def aRING_def LAST_LONG_ENTRY_MASK_def ATTR_VOLUME_def ATTR_DIR_def ATTR_VFAT_def
  VFAT_MAXSEQ_def PREFETCH_BLOCKS_def MAX_CLUSTSIZE_def ARCH_DMA_MINALIGN_def

definition u16_of_bytes :: "u8 \<Rightarrow> u8 \<Rightarrow> u16" where
  "u16_of_bytes b0 b1 = ucast b0 OR push_bit 8 (ucast b1)"

record dir_entry =
  de_name :: "u8 list"
  de_ext :: "u8 list"
  de_attr :: u8
  de_starthi :: u16
  de_start :: u16
  de_size :: u32

text \<open>The fields of the 32 bytes of an entry.\<close>

definition dir_entry_of :: "u8 list \<Rightarrow> dir_entry" where
  "dir_entry_of d =
     \<lparr>de_name = take 8 d, de_ext = sub_bytes d 8 3, de_attr = d ! 11,
      de_starthi = u16_of_bytes (d ! 20) (d ! 21), de_start = u16_of_bytes (d ! 26) (d ! 27),
      de_size = u32_of_bytes (d ! 28) (d ! 29) (d ! 30) (d ! 31)\<rparr>"

text \<open>The treatment of the first character, shared by \<open>get_name\<close> and \<open>get_vfatname\<close>.\<close>

fun fix_first :: "cstr \<Rightarrow> cstr" where
  "fix_first [] = []"
| "fix_first (c # cs) = (if c = DELETED_FLAG then [] else if c = aRING then DELETED_FLAG # cs else c # cs)"

definition get_name :: "dir_entry \<Rightarrow> cstr" where
  "get_name dirent =
     (let s_name = takeWhile (\<lambda>c. c \<noteq> 0 \<and> c \<noteq> 0x20) (de_name dirent);
          s_name = (if de_ext dirent ! 0 \<noteq> 0 \<and> de_ext dirent ! 0 \<noteq> 0x20
                    then s_name @ [0x2e] @ takeWhile (\<lambda>c. c \<noteq> 0 \<and> c \<noteq> 0x20) (de_ext dirent)
                    else s_name)
      in downcase (fix_first s_name))"

section \<open>The volume\<close>

record fsdata =
  fatbuf :: "u8 list"
  fatsize :: nat
  fatlength :: u32
  fat_sect :: u16
  rootdir_sect :: u32
  sect_size :: u16
  clust_size :: u16
  data_begin :: u32
  fatbufnum :: u32

definition FATBUFBLOCKS :: nat where "FATBUFBLOCKS = 6"

definition FATBUFSIZE :: "fsdata \<Rightarrow> nat" where
  "FATBUFSIZE mydata = unat (sect_size mydata) * FATBUFBLOCKS"
definition FAT12BUFSIZE :: "fsdata \<Rightarrow> nat" where "FAT12BUFSIZE mydata = FATBUFSIZE mydata * 2 div 3"
definition FAT16BUFSIZE :: "fsdata \<Rightarrow> nat" where "FAT16BUFSIZE mydata = FATBUFSIZE mydata div 2"
definition FAT32BUFSIZE :: "fsdata \<Rightarrow> nat" where "FAT32BUFSIZE mydata = FATBUFSIZE mydata div 4"

definition START :: "fsdata \<Rightarrow> dir_entry \<Rightarrow> u32" where
  "START mydata dent =
     ucast (de_start dent) + (if fatsize mydata \<noteq> 32 then 0 else push_bit 16 (ucast (de_starthi dent)))"

definition CHECK_CLUST :: "u32 \<Rightarrow> nat \<Rightarrow> bool" where
  "CHECK_CLUST x fs \<longleftrightarrow>
     x \<le> 1 \<or> x \<ge> (if fs \<noteq> 32 then (if fs \<noteq> 16 then 0xff0 else 0xfff0) else 0xffffff0)"

text \<open>Accesses to a buffer, which must stay inside it.\<close>

definition store_at :: "u8 list \<Rightarrow> nat \<Rightarrow> u8 list \<Rightarrow> u8 list option" where
  "store_at buf off bytes =
     (if off + length bytes \<le> length buf
      then Some (take off buf @ bytes @ drop (off + length bytes) buf) else None)"

definition load16 :: "u8 list \<Rightarrow> nat \<Rightarrow> u16 option" where
  "load16 buf i = (if 2 * i + 2 \<le> length buf then Some (u16_of_bytes (buf ! (2 * i)) (buf ! (2 * i + 1))) else None)"

definition load32 :: "u8 list \<Rightarrow> nat \<Rightarrow> u32 option" where
  "load32 buf i =
     (if 4 * i + 4 \<le> length buf
      then Some (u32_of_bytes (buf ! (4 * i)) (buf ! (4 * i + 1)) (buf ! (4 * i + 2)) (buf ! (4 * i + 3)))
      else None)"

definition load_dirent :: "u8 list \<Rightarrow> nat \<Rightarrow> u8 list option" where
  "load_dirent buf off = (if off + 32 \<le> length buf then Some (sub_bytes buf off 32) else None)"

section \<open>Reading from the device\<close>

definition disk_read ::
  "bsp_config \<Rightarrow> env \<Rightarrow> media \<Rightarrow> u32 \<Rightarrow> u32 \<Rightarrow> sys \<Rightarrow> (int \<times> u8 list \<times> sys) option" where
  "disk_read cfg e md block nr_blocks s =
     (case cur_dev s of
        None \<Rightarrow> Some (- 1, [], s)
      | Some dev \<Rightarrow> do {
          (n, bytes, s) \<leftarrow> block_read cfg e md dev (part_start (cur_part_info s) + block) nr_blocks s;
          Some (sint n, bytes, s)
        })"

definition fat_set_blk_dev ::
  "bsp_config \<Rightarrow> env \<Rightarrow> media \<Rightarrow> block_dev_desc \<Rightarrow> disk_partition \<Rightarrow> sys \<Rightarrow> (int \<times> sys) option" where
  "fat_set_blk_dev cfg e md dev_desc info s = do {
     (r, buffer, s) \<leftarrow> disk_read cfg e md 0 1 (s\<lparr>cur_dev := Some dev_desc, cur_part_info := info\<rparr>);
     if r \<noteq> 1 then Some (- 2, s\<lparr>cur_dev := None\<rparr>)
     else if length buffer \<noteq> unat (bd_blksz dev_desc) \<or> length buffer < 512 then None
     else if sub_bytes buffer 0x1fe 2 \<noteq> [0x55, 0xAA] then Some (- 2, s\<lparr>cur_dev := None\<rparr>)
     else if sub_bytes buffer 0x36 3 = map of_char ''FAT'' then Some (0, s)
     else if sub_bytes buffer 0x52 5 = map of_char ''FAT32'' then Some (0, s)
     else Some (- 2, s\<lparr>cur_dev := None\<rparr>)
   }"

definition fat_register_device ::
  "bsp_config \<Rightarrow> env \<Rightarrow> media \<Rightarrow> block_dev_desc \<Rightarrow> int \<Rightarrow> sys \<Rightarrow> (int \<times> sys) option" where
  "fat_register_device cfg e md dev_desc part_no s = do {
     (found, s) \<leftarrow> get_partition_info cfg e md dev_desc part_no (s\<lparr>cur_dev := None\<rparr>);
     (case found of
        Some info \<Rightarrow> fat_set_blk_dev cfg e md dev_desc info s
      | None \<Rightarrow>
          if part_no \<noteq> 0 then Some (- 1, s)
          else fat_set_blk_dev cfg e md dev_desc
                 \<lparr>part_start = 0, part_size = bd_lba dev_desc, part_blksz = bd_blksz dev_desc\<rparr> s)
   }"

section \<open>The file allocation table\<close>

text \<open>Reading the blocks of the table that hold the wanted entry, unless they are cached.\<close>

definition get_fatent_load ::
  "bsp_config \<Rightarrow> env \<Rightarrow> media \<Rightarrow> fsdata \<Rightarrow> u32 \<Rightarrow> sys \<Rightarrow> (int \<times> fsdata \<times> sys) option" where
  "get_fatent_load cfg e md mydata bufnum s =
     (if bufnum \<noteq> fatbufnum mydata then
        let startblock = bufnum * of_nat FATBUFBLOCKS;
            getsize = (if startblock + of_nat FATBUFBLOCKS > fatlength mydata
                       then fatlength mydata - startblock else of_nat FATBUFBLOCKS);
            startblock = startblock + ucast (fat_sect mydata)
        in do {
          (r, bytes, s) \<leftarrow> disk_read cfg e md startblock getsize s;
          buf \<leftarrow> store_at (fatbuf mydata) 0 bytes;
          Some (if r < 0 then (- 1, mydata\<lparr>fatbuf := buf\<rparr>, s)
                else (0, mydata\<lparr>fatbuf := buf, fatbufnum := bufnum\<rparr>, s))
        }
      else Some (0, mydata, s))"

text \<open>The entry at an offset of the buffer.\<close>

definition get_fatent_entry :: "fsdata \<Rightarrow> nat \<Rightarrow> u32 option" where
  "get_fatent_entry mydata offset =
     (if fatsize mydata = 32 then load32 (fatbuf mydata) offset
      else if fatsize mydata = 16 then do {
        ret \<leftarrow> load16 (fatbuf mydata) offset;
        Some (ucast ret)
      }
      else
        let off16 = offset * 3 div 4 in
        if offset mod 4 = 0 then do {
          ret \<leftarrow> load16 (fatbuf mydata) off16;
          Some (ucast ret AND 0xfff)
        }
        else if offset mod 4 = 1 then do {
          val1 \<leftarrow> load16 (fatbuf mydata) off16;
          val2 \<leftarrow> load16 (fatbuf mydata) (off16 + 1);
          Some (push_bit 4 (ucast (val2 AND 0x00ff)) OR drop_bit 12 (ucast (val1 AND 0xf000)))
        }
        else if offset mod 4 = 2 then do {
          val1 \<leftarrow> load16 (fatbuf mydata) off16;
          val2 \<leftarrow> load16 (fatbuf mydata) (off16 + 1);
          Some (push_bit 8 (ucast (val2 AND 0x000f)) OR drop_bit 8 (ucast (val1 AND 0xff00)))
        }
        else do {
          ret \<leftarrow> load16 (fatbuf mydata) off16;
          Some (drop_bit 4 (ucast ret AND 0xfff0))
        })"

text \<open>The number of entries that the buffer holds.\<close>

definition fat_bufsize :: "fsdata \<Rightarrow> nat" where
  "fat_bufsize mydata =
     (if fatsize mydata = 32 then FAT32BUFSIZE mydata
      else if fatsize mydata = 16 then FAT16BUFSIZE mydata else FAT12BUFSIZE mydata)"

definition get_fatent ::
  "bsp_config \<Rightarrow> env \<Rightarrow> media \<Rightarrow> fsdata \<Rightarrow> u32 \<Rightarrow> sys \<Rightarrow> (u32 \<times> fsdata \<times> sys) option" where
  "get_fatent cfg e md mydata entry s =
     (if fatsize mydata \<notin> {32, 16, 12} then Some (0, mydata, s)
      else if fat_bufsize mydata = 0 then None
      else
        let bufnum = entry div of_nat (fat_bufsize mydata);
            offset = entry - bufnum * of_nat (fat_bufsize mydata)
        in do {
          (r, mydata, s) \<leftarrow> get_fatent_load cfg e md mydata bufnum s;
          if r < 0 then Some (0, mydata, s)
          else do {
            ret \<leftarrow> get_fatent_entry mydata (unat offset);
            Some (ret, mydata, s)
          }
        })"

section \<open>Clusters\<close>

text \<open>One sector to a temporary buffer: \<open>None\<close> inside when the read failed.\<close>

definition read_sector ::
  "bsp_config \<Rightarrow> env \<Rightarrow> media \<Rightarrow> fsdata \<Rightarrow> u32 \<Rightarrow> sys \<Rightarrow> (u8 list option \<times> sys) option" where
  "read_sector cfg e md mydata startsect s = do {
     (r, tmpbuf, s) \<leftarrow> disk_read cfg e md startsect 1 s;
     if r \<noteq> 1 then Some (None, s)
     else if length tmpbuf \<noteq> unat (sect_size mydata) then None
     else Some (Some tmpbuf, s)
   }"

text \<open>The sector-wise loop for a misaligned buffer: (return value, next sector, rest, bytes, state).\<close>

partial_function (option) get_cluster_misaligned ::
  "bsp_config \<Rightarrow> env \<Rightarrow> media \<Rightarrow> fsdata \<Rightarrow> u32 \<Rightarrow> u32 \<Rightarrow> u8 list \<Rightarrow> sys
    \<Rightarrow> (int \<times> u32 \<times> u32 \<times> u8 list \<times> sys) option" where [code]:
  "get_cluster_misaligned cfg e md mydata startsect n out s =
     (if n \<ge> ucast (sect_size mydata) then do {
        (sector, s) \<leftarrow> read_sector cfg e md mydata startsect s;
        (case sector of
           None \<Rightarrow> Some (- 1, startsect + 1, n, out, s)
         | Some tmpbuf \<Rightarrow>
             get_cluster_misaligned cfg e md mydata (startsect + 1) (n - ucast (sect_size mydata)) (out @ tmpbuf) s)
      }
      else Some (0, startsect, n, out, s))"

definition get_cluster ::
  "bsp_config \<Rightarrow> env \<Rightarrow> media \<Rightarrow> fsdata \<Rightarrow> u32 \<Rightarrow> u32 \<Rightarrow> u32 \<Rightarrow> sys \<Rightarrow> (int \<times> u8 list \<times> sys) option" where
  "get_cluster cfg e md mydata clustnum buffer n s =
     (let startsect = (if clustnum > 0 then data_begin mydata + clustnum * ucast (clust_size mydata)
                       else rootdir_sect mydata)
      in do {
        (ret, startsect, n, out, s) \<leftarrow>
          (if buffer AND (ARCH_DMA_MINALIGN - 1) \<noteq> 0
           then get_cluster_misaligned cfg e md mydata startsect n [] s
           else if sect_size mydata = 0 then None
           else
             let idx = n div ucast (sect_size mydata) in do {
               (r, bytes, s) \<leftarrow> disk_read cfg e md startsect idx s;
               if of_int r \<noteq> idx then Some (- 1, startsect, n, bytes, s)
               else if length bytes \<noteq> unat idx * unat (sect_size mydata) then None
               else Some (0, startsect + idx, n - idx * ucast (sect_size mydata), bytes, s)
             });
        if ret \<noteq> 0 then Some (- 1, out, s)
        else if n \<noteq> 0 then do {
          (sector, s) \<leftarrow> read_sector cfg e md mydata startsect s;
          (case sector of
             None \<Rightarrow> Some (- 1, out, s)
           | Some tmpbuf \<Rightarrow>
               if unat n > length tmpbuf then None else Some (0, out @ take (unat n) tmpbuf, s))
        }
        else Some (0, out, s)
      })"

section \<open>The contents of a file\<close>

definition bytesperclust :: "fsdata \<Rightarrow> int" where
  "bytesperclust mydata = int (unat (clust_size mydata)) * int (unat (sect_size mydata))"

text \<open>The walk to the cluster at \<open>pos\<close>: \<open>None\<close> inside when the chain ends before it.\<close>

partial_function (option) get_contents_seek ::
  "bsp_config \<Rightarrow> env \<Rightarrow> media \<Rightarrow> fsdata \<Rightarrow> u32 \<Rightarrow> int \<Rightarrow> int \<Rightarrow> sys
    \<Rightarrow> ((u32 \<times> int) option \<times> fsdata \<times> sys) option" where [code]:
  "get_contents_seek cfg e md mydata curclust actsize pos s =
     (if actsize \<le> pos then do {
        (curclust, mydata, s) \<leftarrow> get_fatent cfg e md mydata curclust s;
        if CHECK_CLUST curclust (fatsize mydata) then Some (None, mydata, s)
        else get_contents_seek cfg e md mydata curclust (actsize + bytesperclust mydata) pos s
      }
      else Some (Some (curclust, actsize), mydata, s))"

text \<open>The search for consecutive clusters, and how it ends: at the end of the file, at a jump
  (\<open>goto getit\<close>), or at an invalid entry.\<close>

datatype run_end = Run_rest | Run_getit | Run_invalid

partial_function (option) get_contents_run ::
  "bsp_config \<Rightarrow> env \<Rightarrow> media \<Rightarrow> fsdata \<Rightarrow> u32 \<Rightarrow> int \<Rightarrow> int \<Rightarrow> sys
    \<Rightarrow> (run_end \<times> u32 \<times> int \<times> fsdata \<times> sys) option" where [code]:
  "get_contents_run cfg e md mydata endclust actsize filesize s =
     (if actsize < filesize then do {
        (newclust, mydata, s) \<leftarrow> get_fatent cfg e md mydata endclust s;
        if newclust - 1 \<noteq> endclust then Some (Run_getit, endclust, actsize, mydata, s)
        else if CHECK_CLUST newclust (fatsize mydata) then Some (Run_invalid, endclust, actsize, mydata, s)
        else get_contents_run cfg e md mydata newclust (actsize + bytesperclust mydata) filesize s
      }
      else Some (Run_rest, endclust, actsize, mydata, s))"

text \<open>The cast \<open>(int)actsize\<close>: the low 32 bits, as a signed number.\<close>

definition to_int :: "int \<Rightarrow> int" where
  "to_int x = sint (of_int x :: u32)"

lemma to_int_small: "0 \<le> x \<Longrightarrow> x < 2 ^ 31 \<Longrightarrow> to_int x = x"
  by (simp add: to_int_def signed_of_int signed_take_bit_int_eq_self)

text \<open>The main loop: (return value, \<open>*gotsize\<close>, bytes, volume, state).\<close>

partial_function (option) get_contents_loop ::
  "bsp_config \<Rightarrow> env \<Rightarrow> media \<Rightarrow> fsdata \<Rightarrow> u32 \<Rightarrow> u32 \<Rightarrow> int \<Rightarrow> int \<Rightarrow> u8 list \<Rightarrow> sys
    \<Rightarrow> (int \<times> int \<times> u8 list \<times> fsdata \<times> sys) option" where [code]:
  "get_contents_loop cfg e md mydata curclust buffer filesize gotsize out s = do {
     (how, endclust, actsize, mydata, s) \<leftarrow>
       get_contents_run cfg e md mydata curclust (bytesperclust mydata) filesize s;
     (case how of
        Run_invalid \<Rightarrow> Some (0, gotsize, out, mydata, s)
      | Run_rest \<Rightarrow> do {
          (ret, bytes, s) \<leftarrow> get_cluster cfg e md mydata curclust buffer (of_int filesize) s;
          if ret \<noteq> 0 then Some (- 1, gotsize, out @ bytes, mydata, s)
          else Some (0, gotsize + filesize, out @ bytes, mydata, s)
        }
      | Run_getit \<Rightarrow> do {
          (ret, bytes, s) \<leftarrow> get_cluster cfg e md mydata curclust buffer (of_int actsize) s;
          if ret \<noteq> 0 then Some (- 1, gotsize, out @ bytes, mydata, s)
          else do {
            (curclust, mydata, s) \<leftarrow> get_fatent cfg e md mydata endclust s;
            if CHECK_CLUST curclust (fatsize mydata)
            then Some (0, gotsize + to_int actsize, out @ bytes, mydata, s)
            else get_contents_loop cfg e md mydata curclust (buffer + of_int actsize) (filesize - actsize)
                   (gotsize + to_int actsize) (out @ bytes) s
          }
        })
   }"

definition get_contents ::
  "bsp_config \<Rightarrow> env \<Rightarrow> media \<Rightarrow> fsdata \<Rightarrow> dir_entry \<Rightarrow> int \<Rightarrow> u32 \<Rightarrow> int \<Rightarrow> sys
    \<Rightarrow> (int \<times> int \<times> u8 list \<times> fsdata \<times> sys) option" where
  "get_contents cfg e md mydata dentptr pos buffer maxsize s =
     (let filesize = uint (de_size dentptr);
          curclust = START mydata dentptr
      in if pos \<ge> filesize then Some (0, 0, [], mydata, s)
         else
           let filesize = (if maxsize > 0 \<and> filesize > pos + maxsize then pos + maxsize else filesize) in do {
             (seek, mydata, s) \<leftarrow> get_contents_seek cfg e md mydata curclust (bytesperclust mydata) pos s;
             (case seek of
                None \<Rightarrow> Some (0, 0, [], mydata, s)
              | Some (curclust, actsize) \<Rightarrow>
                  let actsize = actsize - bytesperclust mydata;
                      filesize = filesize - actsize;
                      pos = pos - actsize
                  in if pos \<noteq> 0 then
                       let actsize = min filesize (bytesperclust mydata) in do {
                         (ret, block, s) \<leftarrow> get_cluster cfg e md mydata curclust 0 (of_int actsize) s;
                         if length block > MAX_CLUSTSIZE then None
                         else if ret \<noteq> 0 then Some (- 1, 0, [], mydata, s)
                         else
                           let filesize = filesize - actsize;
                               actsize = actsize - pos;
                               out = take (nat actsize) (drop (nat pos) block)
                           in if filesize = 0 then Some (0, actsize, out, mydata, s)
                              else do {
                                (curclust, mydata, s) \<leftarrow> get_fatent cfg e md mydata curclust s;
                                if CHECK_CLUST curclust (fatsize mydata)
                                then Some (0, actsize, out, mydata, s)
                                else get_contents_loop cfg e md mydata curclust (buffer + of_int actsize)
                                       filesize actsize out s
                              }
                       }
                     else get_contents_loop cfg e md mydata curclust buffer filesize 0 [] s)
           })"

section \<open>Long names\<close>

text \<open>The characters of a slot; \<open>slot2str\<close> appends them up to a terminator.\<close>

definition slot_chars :: "u8 list \<Rightarrow> u8 list" where
  "slot_chars slot = map (\<lambda>i. slot ! i) [1, 3, 5, 7, 9, 14, 16, 18, 20, 22, 24, 28, 30]"

definition slot2str :: "u8 list \<Rightarrow> cstr \<Rightarrow> bool \<times> cstr" where
  "slot2str slot l_name = (0 \<in> set (slot_chars slot), l_name @ takeWhile (\<lambda>c. c \<noteq> 0) (slot_chars slot))"

definition slot_id :: "u8 list \<Rightarrow> nat \<Rightarrow> u8" where
  "slot_id block off = block ! off AND NOT LAST_LONG_ENTRY_MASK"

text \<open>The walk over the slots up to the limit of the block: \<open>None\<close> when a sequence number does not
  fit.\<close>

fun slot_walk :: "u8 list \<Rightarrow> nat \<Rightarrow> nat \<Rightarrow> nat \<Rightarrow> (nat \<times> nat) option" where
  "slot_walk block buflimit off 0 = Some (off, 0)"
| "slot_walk block buflimit off (Suc counter) =
     (if off \<ge> buflimit then Some (off, Suc counter)
      else if unat (slot_id block off) \<noteq> Suc counter then None
      else slot_walk block buflimit (off + 32) counter)"

text \<open>The way back over the slots, collecting the name.\<close>

function slot_back :: "u8 list \<Rightarrow> nat \<Rightarrow> cstr \<Rightarrow> cstr option" where
  "slot_back block off l_name =
     (if off < 32 \<or> length block < off then None
      else
        let off = off - 32;
            (ended, l_name) = slot2str (sub_bytes block off 32) l_name
        in if ended \<or> block ! off AND LAST_LONG_ENTRY_MASK \<noteq> 0 then Some l_name
           else slot_back block off l_name)"
  by pat_completeness auto

termination slot_back
  by (relation "measure (\<lambda>(block, off, l_name). off)") auto

declare slot_back.simps [simp del]

text \<open>
  \<open>cluster\<close> and \<open>retdent\<close> are offsets into the block.  The result: return value, the name, the
  block with the real entry copied over the slot.
\<close>

definition get_vfatname ::
  "bsp_config \<Rightarrow> env \<Rightarrow> media \<Rightarrow> fsdata \<Rightarrow> u32 \<Rightarrow> u8 list \<Rightarrow> nat \<Rightarrow> nat \<Rightarrow> sys
    \<Rightarrow> (int \<times> cstr \<times> u8 list \<times> fsdata \<times> sys) option" where
  "get_vfatname cfg e md mydata curclust block cluster retdent s =
     (let buflimit = cluster + unat (sect_size mydata) *
            (if curclust = 0 then unat PREFETCH_BLOCKS else unat (clust_size mydata));
          counter = unat (slot_id block retdent);
          finish = (\<lambda>realdent slotptr l_name mydata s. do {
             l_name \<leftarrow> slot_back block slotptr l_name;
             block \<leftarrow> store_at block retdent realdent;
             Some (0, downcase (fix_first l_name), block, mydata, s)
           })
      in if counter > VFAT_MAXSEQ then Some (- 1, [], block, mydata, s)
         else if buflimit > length block then None
         else case slot_walk block buflimit retdent counter of
           None \<Rightarrow> Some (- 1, [], block, mydata, s)
         | Some (slotptr, counter) \<Rightarrow>
             if slotptr \<ge> buflimit then
               (if curclust = 0 then Some (- 1, [], block, mydata, s)
                else do {
                  (curclust, mydata, s) \<leftarrow> get_fatent cfg e md mydata curclust s;
                  if CHECK_CLUST curclust (fatsize mydata) then Some (- 1, [], block, mydata, s)
                  else do {
                    (ret, block2, s) \<leftarrow>
                      get_cluster cfg e md mydata curclust 0 (of_int (bytesperclust mydata)) s;
                    if length block2 > MAX_CLUSTSIZE then None
                    else if ret \<noteq> 0 then Some (- 1, [], block, mydata, s)
                    else if length block2 < 32 * counter + 32 then None
                    else case slot_walk block2 (length block2) 0 counter of
                      None \<Rightarrow> Some (- 1, [], block, mydata, s)
                    | Some _ \<Rightarrow>
                        finish (sub_bytes block2 (32 * counter) 32) slotptr
                          (fold (\<lambda>i l_name. snd (slot2str (sub_bytes block2 (32 * i) 32) l_name))
                             (rev [0..<counter]) []) mydata s
                  }
                })
             else finish (sub_bytes block slotptr 32) slotptr [] mydata s)"

definition ror1 :: "u8 \<Rightarrow> u8" where
  "ror1 ret = push_bit 7 (ret AND 1) OR drop_bit 1 (ret AND 0xfe)"

text \<open>The checksum of a short name; only the listing compares it.\<close>

definition mkcksum :: "u8 list \<Rightarrow> u8 list \<Rightarrow> u8" where
  "mkcksum name ext = fold (\<lambda>c ret. ror1 ret + c) (name @ ext) 0"

section \<open>Subdirectories\<close>

datatype scan_result = Scan_next | Scan_null | Scan_found "u8 list"

fun dir_scan ::
  "bsp_config \<Rightarrow> env \<Rightarrow> media \<Rightarrow> u32 \<Rightarrow> cstr \<Rightarrow> nat \<Rightarrow> nat \<Rightarrow> u8 list \<Rightarrow> fsdata \<Rightarrow> sys
    \<Rightarrow> (scan_result \<times> fsdata \<times> sys) option" where
  "dir_scan cfg e md curclust filename 0 off block mydata s = Some (Scan_next, mydata, s)"
| "dir_scan cfg e md curclust filename (Suc n) off block mydata s = do {
     d \<leftarrow> load_dirent block off;
     let attr = de_attr (dir_entry_of d);
     if d ! 0 = DELETED_FLAG then dir_scan cfg e md curclust filename n (off + 32) block mydata s
     else do {
       (skip, l_name, block, mydata, s) \<leftarrow>
         (if attr AND ATTR_VOLUME \<noteq> 0 then
            (if attr AND ATTR_VFAT = ATTR_VFAT \<and> d ! 0 AND LAST_LONG_ENTRY_MASK \<noteq> 0 then do {
               (ret, l_name, block, mydata, s) \<leftarrow> get_vfatname cfg e md mydata curclust block 0 off s;
               Some (False, l_name, block, mydata, s)
             }
             else Some (True, [], block, mydata, s))
          else Some (False, [], block, mydata, s));
       if skip then dir_scan cfg e md curclust filename n (off + 32) block mydata s
       else do {
         d \<leftarrow> load_dirent block off;
         if d ! 0 = 0 then Some (Scan_null, mydata, s)
         else if filename \<noteq> get_name (dir_entry_of d) \<and> filename \<noteq> l_name
         then dir_scan cfg e md curclust filename n (off + 32) block mydata s
         else Some (Scan_found d, mydata, s)
       }
     }
   }"

text \<open>\<open>None\<close> inside stands for \<open>NULL\<close>.  (The parameter \<open>startsect\<close> of the code is not used there.)\<close>

partial_function (option) get_dentfromdir_loop ::
  "bsp_config \<Rightarrow> env \<Rightarrow> media \<Rightarrow> fsdata \<Rightarrow> u32 \<Rightarrow> cstr \<Rightarrow> sys
    \<Rightarrow> (u8 list option \<times> fsdata \<times> sys) option" where [code]:
  "get_dentfromdir_loop cfg e md mydata curclust filename s = do {
     (ret, block, s) \<leftarrow> get_cluster cfg e md mydata curclust 0 (of_int (bytesperclust mydata)) s;
     if length block > MAX_CLUSTSIZE then None
     else if ret \<noteq> 0 then Some (None, mydata, s)
     else do {
       (r, mydata, s) \<leftarrow>
         dir_scan cfg e md curclust filename (nat (bytesperclust mydata) div 32) 0 block mydata s;
       (case r of
          Scan_null \<Rightarrow> Some (None, mydata, s)
        | Scan_found d \<Rightarrow> Some (Some d, mydata, s)
        | Scan_next \<Rightarrow> do {
            (curclust, mydata, s) \<leftarrow> get_fatent cfg e md mydata curclust s;
            if CHECK_CLUST curclust (fatsize mydata) then Some (None, mydata, s)
            else get_dentfromdir_loop cfg e md mydata curclust filename s
          })
     }
   }"

definition get_dentfromdir ::
  "bsp_config \<Rightarrow> env \<Rightarrow> media \<Rightarrow> fsdata \<Rightarrow> cstr \<Rightarrow> u8 list \<Rightarrow> sys
    \<Rightarrow> (u8 list option \<times> fsdata \<times> sys) option" where
  "get_dentfromdir cfg e md mydata filename retdent s =
     get_dentfromdir_loop cfg e md mydata (START mydata (dir_entry_of retdent)) filename s"

section \<open>The boot sector\<close>

record boot_sector =
  bs_sector_size :: "u8 \<times> u8"
  bs_cluster_size :: u8
  bs_reserved :: u16
  bs_fats :: u8
  bs_dir_entries :: "u8 \<times> u8"
  bs_fat_length :: u16
  bs_fat32_length :: u32
  bs_root_cluster :: u32

definition boot_sector_of :: "u8 list \<Rightarrow> boot_sector" where
  "boot_sector_of b =
     \<lparr>bs_sector_size = (b ! 11, b ! 12), bs_cluster_size = b ! 13,
      bs_reserved = u16_of_bytes (b ! 14) (b ! 15), bs_fats = b ! 16,
      bs_dir_entries = (b ! 17, b ! 18), bs_fat_length = u16_of_bytes (b ! 22) (b ! 23),
      bs_fat32_length = u32_of_bytes (b ! 36) (b ! 37) (b ! 38) (b ! 39),
      bs_root_cluster = u32_of_bytes (b ! 44) (b ! 45) (b ! 46) (b ! 47)\<rparr>"

text \<open>\<open>fs_type\<close> of the volume information, which follows the boot sector on FAT32 and its
  common part otherwise.  \<open>None\<close> inside stands for -1.\<close>

definition read_bootsectandvi ::
  "bsp_config \<Rightarrow> env \<Rightarrow> media \<Rightarrow> sys \<Rightarrow> ((boot_sector \<times> nat) option \<times> sys) option" where
  "read_bootsectandvi cfg e md s =
     (case cur_dev s of
        None \<Rightarrow> Some (None, s)
      | Some dev \<Rightarrow>
          (case memalign md (unat (bd_blksz dev)) s of
             None \<Rightarrow> Some (None, s)
           | Some block \<Rightarrow> do {
               (r, bytes, s) \<leftarrow> disk_read cfg e md 0 1 s;
               block \<leftarrow> store_at block 0 bytes;
               if r < 0 then Some (None, s)
               else if length block < 90 then None
               else
                 let bs = boot_sector_of block in
                 Some (if bs_fat_length bs = 0 then
                         (if sub_bytes block 82 8 = map of_char ''FAT32   '' then Some (bs, 32) else None)
                       else if sub_bytes block 54 8 = map of_char ''FAT12   '' then Some (bs, 12)
                       else if sub_bytes block 54 8 = map of_char ''FAT16   '' then Some (bs, 16)
                       else None, s)
             }))"

section \<open>The root directory\<close>

datatype root_result = Root_next nat | Root_exit | Root_match nat

text \<open>The entries of one sector, in the static block, from offset \<open>off\<close> on.\<close>

fun root_scan ::
  "bsp_config \<Rightarrow> env \<Rightarrow> media \<Rightarrow> u32 \<Rightarrow> nat \<Rightarrow> cstr \<Rightarrow> bool \<Rightarrow> nat \<Rightarrow> nat \<Rightarrow> fsdata \<Rightarrow> sys
    \<Rightarrow> (root_result \<times> fsdata \<times> sys) option" where
  "root_scan cfg e md root_cluster dir_ptr fnamecopy isdir 0 off mydata s = Some (Root_next off, mydata, s)"
| "root_scan cfg e md root_cluster dir_ptr fnamecopy isdir (Suc n) off mydata s = do {
     d \<leftarrow> load_dirent (do_fat_read_at_block s) off;
     let attr = de_attr (dir_entry_of d);
     if d ! 0 = DELETED_FLAG then root_scan cfg e md root_cluster dir_ptr fnamecopy isdir n (off + 32) mydata s
     else if attr AND ATTR_VOLUME \<noteq> 0 \<and>
       \<not> (attr AND ATTR_VFAT = ATTR_VFAT \<and> d ! 0 AND LAST_LONG_ENTRY_MASK \<noteq> 0)
     then root_scan cfg e md root_cluster dir_ptr fnamecopy isdir n (off + 32) mydata s
     else if attr AND ATTR_VOLUME = 0 \<and> d ! 0 = 0 then Some (Root_exit, mydata, s)
     else do {
       (l_name, mydata, s) \<leftarrow>
         (if attr AND ATTR_VOLUME \<noteq> 0 then do {
            (ret, l_name, block, mydata, s) \<leftarrow>
              get_vfatname cfg e md mydata root_cluster (do_fat_read_at_block s) dir_ptr off s;
            Some (l_name, mydata, s\<lparr>do_fat_read_at_block := block\<rparr>)
          }
          else Some ([], mydata, s));
       d \<leftarrow> load_dirent (do_fat_read_at_block s) off;
       if fnamecopy \<noteq> get_name (dir_entry_of d) \<and> fnamecopy \<noteq> l_name
       then root_scan cfg e md root_cluster dir_ptr fnamecopy isdir n (off + 32) mydata s
       else if isdir \<and> de_attr (dir_entry_of d) AND ATTR_DIR = 0 then Some (Root_exit, mydata, s)
       else Some (Root_match off, mydata, s)
     }
   }"

text \<open>
  The loop over the sectors of the root directory; it yields the matching entry, or \<open>None\<close>
  inside when it leaves through \<open>exit\<close>.
\<close>

partial_function (option) root_loop ::
  "bsp_config \<Rightarrow> env \<Rightarrow> media \<Rightarrow> int \<Rightarrow> cstr \<Rightarrow> bool \<Rightarrow> bool \<Rightarrow> u32 \<Rightarrow> u32 \<Rightarrow> nat \<Rightarrow> nat \<Rightarrow> fsdata \<Rightarrow> sys
    \<Rightarrow> (u8 list option \<times> fsdata \<times> sys) option" where [code]:
  "root_loop cfg e md rootdir_size fnamecopy isdir firsttime root_cluster cursect buffer_blk_cnt dentptr mydata s =
     (let sect = unat (sect_size mydata);
          dir_ptr = (if fatsize mydata = 32 \<or> firsttime then 0 else sect)
      in do {
        block \<leftarrow> (if fatsize mydata = 32 \<or> firsttime then Some (do_fat_read_at_block s)
                   else store_at (do_fat_read_at_block s) 0 (sub_bytes (do_fat_read_at_block s) sect sect));
        let s = s\<lparr>do_fat_read_at_block := block\<rparr>;
        (r, dentptr, s) \<leftarrow>
          (if \<not> (fatsize mydata = 32 \<and> buffer_blk_cnt \<noteq> 0) then
             let read_blk = (if fatsize mydata = 32 then ucast (clust_size mydata) else PREFETCH_BLOCKS) in do {
               (r, bytes, s) \<leftarrow> disk_read cfg e md cursect read_blk s;
               block \<leftarrow> store_at (do_fat_read_at_block s) dir_ptr bytes;
               Some (r, dir_ptr, s\<lparr>do_fat_read_at_block := block\<rparr>)
             }
           else Some (0, dentptr, s));
        if r < 0 then Some (None, mydata, s)
        else do {
          (res, mydata, s) \<leftarrow>
            root_scan cfg e md root_cluster dir_ptr fnamecopy isdir (sect div 32) dentptr mydata s;
          (case res of
             Root_exit \<Rightarrow> Some (None, mydata, s)
           | Root_match off \<Rightarrow> do {
               d \<leftarrow> load_dirent (do_fat_read_at_block s) off;
               Some (Some d, mydata, s)
             }
           | Root_next dentptr \<Rightarrow>
               if fatsize mydata = 32 then
                 (if buffer_blk_cnt + 1 = unat (clust_size mydata) then do {
                    (nxt_clust, mydata, s) \<leftarrow> get_fatent cfg e md mydata root_cluster s;
                    if CHECK_CLUST nxt_clust 32 then Some (None, mydata, s)
                    else root_loop cfg e md rootdir_size fnamecopy isdir False nxt_clust
                           (data_begin mydata + nxt_clust * ucast (clust_size mydata)) 0 dentptr mydata s
                  }
                  else root_loop cfg e md rootdir_size fnamecopy isdir False root_cluster cursect
                         (buffer_blk_cnt + 1) dentptr mydata s)
               else
                 let buffer_blk_cnt = (if buffer_blk_cnt + 1 = unat PREFETCH_BLOCKS then 0 else buffer_blk_cnt + 1);
                     cursect = cursect + 1
                 in if cursect - rootdir_sect mydata \<ge> of_int rootdir_size then Some (None, mydata, s)
                    else root_loop cfg e md rootdir_size fnamecopy isdir False root_cluster cursect
                           buffer_blk_cnt dentptr mydata s)
        }
      })"

section \<open>Reading a file\<close>

text \<open>The walk down the path after the root directory; \<open>None\<close> inside stands for \<open>exit\<close>.\<close>

partial_function (option) path_loop ::
  "bsp_config \<Rightarrow> env \<Rightarrow> media \<Rightarrow> fsdata \<Rightarrow> u8 list \<Rightarrow> cstr \<Rightarrow> sys \<Rightarrow> (u8 list option \<times> fsdata \<times> sys) option" where [code]:
  "path_loop cfg e md mydata dentptr subname s =
     (case dirdelim subname of
        Some idx \<Rightarrow> do {
          (found, mydata, s) \<leftarrow> get_dentfromdir cfg e md mydata (take idx subname) dentptr s;
          (case found of
             None \<Rightarrow> Some (None, mydata, s)
           | Some dentptr \<Rightarrow>
               if de_attr (dir_entry_of dentptr) AND ATTR_DIR = 0 then Some (None, mydata, s)
               else path_loop cfg e md mydata dentptr (dropWhile ISDIRDELIM (drop (idx + 1) subname)) s)
        }
      | None \<Rightarrow> get_dentfromdir cfg e md mydata subname dentptr s)"

definition volume_of :: "boot_sector \<Rightarrow> nat \<Rightarrow> u8 list \<Rightarrow> fsdata" where
  "volume_of bs fs buf =
     (let len = (if fs = 32 then bs_fat32_length bs else ucast (bs_fat_length bs));
          rootsect = ucast (bs_reserved bs) + len * ucast (bs_fats bs);
          sectsz = push_bit 8 (ucast (snd (bs_sector_size bs))) + ucast (fst (bs_sector_size bs));
          rootdir_size = (ucast (snd (bs_dir_entries bs)) * 256 + ucast (fst (bs_dir_entries bs))) * 32 div
            ucast (sectsz :: u16)
      in \<lparr>fatbuf = buf, fatsize = fs, fatlength = len, fat_sect = bs_reserved bs, rootdir_sect = rootsect,
          sect_size = sectsz, clust_size = ucast (bs_cluster_size bs),
          data_begin = (if fs = 32 then rootsect - ucast (bs_cluster_size bs) * 2
                        else rootsect + rootdir_size - ucast (bs_cluster_size bs) * 2),
          fatbufnum = - 1\<rparr>)"

definition rootdir_size_of :: "boot_sector \<Rightarrow> fsdata \<Rightarrow> int" where
  "rootdir_size_of bs mydata =
     (if fatsize mydata = 32 then 0
      else (uint (snd (bs_dir_entries bs)) * 256 + uint (fst (bs_dir_entries bs))) * 32 div
           uint (sect_size mydata))"

text \<open>\<open>do_fat_read_at\<close> with \<open>dols = LS_NO\<close>: (return value, \<open>*size\<close>, bytes, state).  Where the
  code does not store \<open>*size\<close> the value is 0.\<close>

definition do_fat_read_at ::
  "bsp_config \<Rightarrow> env \<Rightarrow> media \<Rightarrow> cstr \<Rightarrow> int \<Rightarrow> u32 \<Rightarrow> int \<Rightarrow> bool \<Rightarrow> sys
    \<Rightarrow> (int \<times> int \<times> u8 list \<times> sys) option" where
  "do_fat_read_at cfg e md filename pos buffer maxsize dogetsize s = do {
     (boot, s) \<leftarrow> read_bootsectandvi cfg e md s;
     (case boot of
        None \<Rightarrow> Some (- 1, 0, [], s)
      | Some (bs, fs) \<Rightarrow>
          let mydata = volume_of bs fs [] in
          if ucast (sect_size mydata) \<noteq> part_blksz (cur_part_info s) then Some (- 1, 0, [], s)
          else if fs \<noteq> 32 \<and> sect_size mydata = 0 then None
          else
            (case memalign md (FATBUFSIZE mydata) s of
               None \<Rightarrow> Some (- 1, 0, [], s)
             | Some buf \<Rightarrow>
                 let mydata = mydata\<lparr>fatbuf := buf\<rparr>;
                     filename = dropWhile ISDIRDELIM filename
                 in if length filename \<ge> 2048 then None
                    else
                      let fnamecopy = downcase filename in
                      if fnamecopy = [] then Some (- 1, 0, [], s)
                      else
                        let (isdir, rootname, subname) =
                          (case dirdelim fnamecopy of
                             Some idx \<Rightarrow> (True, take idx fnamecopy, dropWhile ISDIRDELIM (drop (idx + 1) fnamecopy))
                           | None \<Rightarrow> (False, fnamecopy, []))
                        in do {
                          (found, mydata, s) \<leftarrow>
                            root_loop cfg e md (rootdir_size_of bs mydata) rootname isdir True
                              (if fs = 32 then bs_root_cluster bs else 0) (rootdir_sect mydata) 0 0 mydata s;
                          (case found of
                             None \<Rightarrow> Some (- 1, 0, [], s)
                           | Some dentptr \<Rightarrow> do {
                               (found, mydata, s) \<leftarrow>
                                 (if isdir then path_loop cfg e md mydata dentptr subname s
                                  else Some (Some dentptr, mydata, s));
                               (case found of
                                  None \<Rightarrow> Some (- 1, 0, [], s)
                                | Some dentptr \<Rightarrow>
                                    if dogetsize then Some (0, uint (de_size (dir_entry_of dentptr)), [], s)
                                    else do {
                                      (ret, got, bytes, mydata, s) \<leftarrow>
                                        get_contents cfg e md mydata (dir_entry_of dentptr) pos buffer maxsize s;
                                      Some (ret, got, bytes, s)
                                    })
                             })
                        }))
   }"

definition fat_exists :: "bsp_config \<Rightarrow> env \<Rightarrow> media \<Rightarrow> cstr \<Rightarrow> sys \<Rightarrow> (bool \<times> sys) option" where
  "fat_exists cfg e md filename s = do {
     (ret, _, _, s) \<leftarrow> do_fat_read_at cfg e md filename 0 0 0 True s;
     Some (ret = 0, s)
   }"

definition fat_size :: "bsp_config \<Rightarrow> env \<Rightarrow> media \<Rightarrow> cstr \<Rightarrow> sys \<Rightarrow> (int \<times> int \<times> sys) option" where
  "fat_size cfg e md filename s = do {
     (ret, n, _, s) \<leftarrow> do_fat_read_at cfg e md filename 0 0 0 True s;
     Some (ret, n, s)
   }"

definition file_fat_read_at ::
  "bsp_config \<Rightarrow> env \<Rightarrow> media \<Rightarrow> cstr \<Rightarrow> int \<Rightarrow> u32 \<Rightarrow> int \<Rightarrow> sys \<Rightarrow> (int \<times> int \<times> u8 list \<times> sys) option" where
  "file_fat_read_at cfg e md filename pos buffer maxsize s =
     do_fat_read_at cfg e md filename pos buffer maxsize False s"

text \<open>The return value of \<open>file_fat_read\<close> is the count as an \<open>int\<close>; with it, the bytes stored.\<close>

definition file_fat_read ::
  "bsp_config \<Rightarrow> env \<Rightarrow> media \<Rightarrow> cstr \<Rightarrow> u32 \<Rightarrow> int \<Rightarrow> sys \<Rightarrow> (int \<times> u8 list \<times> sys) option" where
  "file_fat_read cfg e md filename buffer maxsize s = do {
     (ret, actread, bytes, s) \<leftarrow> file_fat_read_at cfg e md filename 0 buffer maxsize s;
     Some (if ret \<noteq> 0 then ret else sint (of_int actread :: u32), bytes, s)
   }"

end
