(* ===== verification/Fat_Frame.thy ===== *)
theory Fat_Frame
  imports Fat_Fs
begin

text \<open>
  What the file system leaves alone.  Over media that change none of the program's data
  (\<open>quiet_media\<close>), no operation of \<open>fat.c\<close> changes memory, the boot mode, the board version or
  the other boot data: whatever a file's contents or a damaged volume make it do, it only writes its
  own static variables and the buffer of its caller.
\<close>

section \<open>What the file system leaves alone\<close>

lemma boot_data_fat_update [simp]:
  "boot_data (s\<lparr>cur_dev := d\<rparr>) = boot_data s" "boot_data (s\<lparr>cur_part_info := p\<rparr>) = boot_data s"
  "boot_data (s\<lparr>do_fat_read_at_block := b\<rparr>) = boot_data s"
  by (simp_all add: boot_data_def)

context quiet_media
begin

lemma disk_read_quiet: "disk_read cfg e md b n s = Some (r, bytes, t) \<Longrightarrow> calm t = calm s"
  by (auto simp: disk_read_def split: option.splits Option.bind_splits dest!: block_read_quiet)

lemma fat_set_blk_dev_quiet:
  "fat_set_blk_dev cfg e md dev info s = Some (r, t) \<Longrightarrow> boot_data t = boot_data s"
  by (auto simp: fat_set_blk_dev_def split: if_splits Option.bind_splits
      dest!: disk_read_quiet calm_boot_data)

lemma fat_register_device_quiet:
  "fat_register_device cfg e md dev part s = Some (r, t) \<Longrightarrow> boot_data t = boot_data s"
  by (auto simp: fat_register_device_def split: if_splits option.splits Option.bind_splits
      dest!: fat_set_blk_dev_quiet get_partition_info_quiet calm_boot_data)

lemma get_fatent_quiet: "get_fatent cfg e md mydata n s = Some (r, my', t) \<Longrightarrow> calm t = calm s"
  by (auto simp: get_fatent_def get_fatent_load_def Let_def split: if_splits Option.bind_splits
      dest!: disk_read_quiet)

lemma read_sector_quiet: "read_sector cfg e md mydata b s = Some (r, t) \<Longrightarrow> calm t = calm s"
  by (auto simp: read_sector_def split: if_splits Option.bind_splits dest!: disk_read_quiet)

lemma get_cluster_misaligned_quiet:
  assumes "get_cluster_misaligned cfg e md mydata b n out s = Some y"
  shows "calm (snd (snd (snd (snd y)))) = calm s"
proof -
  have "md' = md \<longrightarrow> calm (snd (snd (snd (snd y)))) = calm s"
    if "get_cluster_misaligned cfg e md' mydata b n out s = Some y" for md' y
    using that
  proof (rule get_cluster_misaligned.raw_induct [rotated], goal_cases)
    case 1
    from 1(2) show ?case
      by (auto split: if_splits option.splits Option.bind_splits dest!: read_sector_quiet 1(1))
  qed
  with assms show ?thesis
    by blast
qed

lemma get_cluster_quiet: "get_cluster cfg e md mydata c buf n s = Some (r, bytes, t) \<Longrightarrow> calm t = calm s"
  by (auto simp: get_cluster_def Let_def split: if_splits option.splits Option.bind_splits
      dest!: read_sector_quiet disk_read_quiet get_cluster_misaligned_quiet)

lemma get_contents_seek_quiet:
  assumes "get_contents_seek cfg e md mydata c act pos s = Some y"
  shows "calm (snd (snd y)) = calm s"
proof -
  have "md' = md \<longrightarrow> calm (snd (snd y)) = calm s"
    if "get_contents_seek cfg e md' mydata c act pos s = Some y" for md' y
    using that
  proof (rule get_contents_seek.raw_induct [rotated], goal_cases)
    case 1
    from 1(2) show ?case
      by (auto split: if_splits Option.bind_splits dest!: get_fatent_quiet 1(1))
  qed
  with assms show ?thesis
    by blast
qed

lemma get_contents_run_quiet:
  assumes "get_contents_run cfg e md mydata c act len s = Some y"
  shows "calm (snd (snd (snd (snd y)))) = calm s"
proof -
  have "md' = md \<longrightarrow> calm (snd (snd (snd (snd y)))) = calm s"
    if "get_contents_run cfg e md' mydata c act len s = Some y" for md' y
    using that
  proof (rule get_contents_run.raw_induct [rotated], goal_cases)
    case 1
    from 1(2) show ?case
      by (auto split: if_splits Option.bind_splits dest!: get_fatent_quiet 1(1))
  qed
  with assms show ?thesis
    by blast
qed

lemma get_contents_loop_quiet:
  assumes "get_contents_loop cfg e md mydata c buf len got out s = Some y"
  shows "calm (snd (snd (snd (snd y)))) = calm s"
proof -
  have "md' = md \<longrightarrow> calm (snd (snd (snd (snd y)))) = calm s"
    if "get_contents_loop cfg e md' mydata c buf len got out s = Some y" for md' y
    using that
  proof (rule get_contents_loop.raw_induct [rotated], goal_cases)
    case 1
    from 1(2) show ?case
      by (auto split: if_splits Option.bind_splits run_end.splits
          dest!: get_contents_run_quiet get_fatent_quiet get_cluster_quiet 1(1))
  qed
  with assms show ?thesis
    by blast
qed

lemma get_contents_quiet:
  "get_contents cfg e md mydata dent pos buf maxsize s = Some (r, got, bytes, my', t) \<Longrightarrow> calm t = calm s"
  by (auto simp: get_contents_def Let_def split: if_splits option.splits Option.bind_splits
      dest!: get_contents_seek_quiet get_contents_loop_quiet get_fatent_quiet get_cluster_quiet)

lemma get_vfatname_quiet:
  "get_vfatname cfg e md mydata c block cl ret s = Some (r, l_name, block', my', t) \<Longrightarrow> calm t = calm s"
  by (auto simp: get_vfatname_def Let_def split: if_splits option.splits Option.bind_splits
      dest!: get_fatent_quiet get_cluster_quiet)

lemma dir_scan_quiet:
  "dir_scan cfg e md c filename n off block mydata s = Some (r, my', t) \<Longrightarrow> calm t = calm s"
proof (induction n arbitrary: off block mydata s)
  case (Suc n)
  from Suc.prems show ?case
    by (auto simp: Let_def split: if_splits Option.bind_splits dest!: Suc.IH get_vfatname_quiet)
qed simp

lemma get_dentfromdir_loop_quiet:
  assumes "get_dentfromdir_loop cfg e md mydata c filename s = Some y"
  shows "calm (snd (snd y)) = calm s"
proof -
  have "md' = md \<longrightarrow> calm (snd (snd y)) = calm s"
    if "get_dentfromdir_loop cfg e md' mydata c filename s = Some y" for md' y
    using that
  proof (rule get_dentfromdir_loop.raw_induct [rotated], goal_cases)
    case 1
    from 1(2) show ?case
      by (auto split: if_splits Option.bind_splits scan_result.splits
          dest!: dir_scan_quiet get_fatent_quiet get_cluster_quiet 1(1))
  qed
  with assms show ?thesis
    by blast
qed

lemma root_scan_quiet:
  "root_scan cfg e md rc dp fname isdir n off mydata s = Some (r, my', t) \<Longrightarrow> boot_data t = boot_data s"
proof (induction n arbitrary: off mydata s)
  case (Suc n)
  from Suc.prems show ?case
    by (auto simp: Let_def split: if_splits Option.bind_splits dest!: Suc.IH get_vfatname_quiet calm_boot_data)
qed simp

lemma root_loop_quiet:
  assumes "root_loop cfg e md rs fname isdir ft rc cs bc dp mydata s = Some y"
  shows "boot_data (snd (snd y)) = boot_data s"
proof -
  have "md' = md \<longrightarrow> boot_data (snd (snd y)) = boot_data s"
    if "root_loop cfg e md' rs fname isdir ft rc cs bc dp mydata s = Some y" for md' y
    using that
  proof (rule root_loop.raw_induct [rotated], goal_cases)
    case 1
    from 1(2) show ?case
      by (auto simp: Let_def split: if_splits Option.bind_splits root_result.splits
          dest!: root_scan_quiet get_fatent_quiet disk_read_quiet calm_boot_data 1(1))
  qed
  with assms show ?thesis
    by blast
qed

lemma path_loop_quiet:
  assumes "path_loop cfg e md mydata dent sub s = Some y"
  shows "calm (snd (snd y)) = calm s"
proof -
  have "md' = md \<longrightarrow> calm (snd (snd y)) = calm s"
    if "path_loop cfg e md' mydata dent sub s = Some y" for md' y
    using that
  proof (rule path_loop.raw_induct [rotated], goal_cases)
    case 1
    from 1(2) show ?case
      by (auto simp: get_dentfromdir_def split: if_splits option.splits Option.bind_splits
          dest!: get_dentfromdir_loop_quiet 1(1))
  qed
  with assms show ?thesis
    by blast
qed

lemma read_bootsectandvi_quiet: "read_bootsectandvi cfg e md s = Some (r, t) \<Longrightarrow> calm t = calm s"
  by (auto simp: read_bootsectandvi_def Let_def split: if_splits option.splits Option.bind_splits
      dest!: disk_read_quiet)

lemma do_fat_read_at_quiet:
  "do_fat_read_at cfg e md filename pos buf maxsize getsize s = Some (r, n, bytes, t) \<Longrightarrow>
   boot_data t = boot_data s"
  by (auto simp: do_fat_read_at_def Let_def split: if_splits option.splits prod.splits Option.bind_splits
      dest!: read_bootsectandvi_quiet root_loop_quiet path_loop_quiet get_contents_quiet calm_boot_data)

lemma fat_size_quiet: "fat_size cfg e md filename s = Some (r, n, t) \<Longrightarrow> boot_data t = boot_data s"
  by (auto simp: fat_size_def split: Option.bind_splits dest!: do_fat_read_at_quiet)

lemma file_fat_read_quiet:
  "file_fat_read cfg e md filename buf maxsize s = Some (r, bytes, t) \<Longrightarrow> boot_data t = boot_data s"
  by (auto simp: file_fat_read_def file_fat_read_at_def split: if_splits Option.bind_splits
      dest!: do_fat_read_at_quiet)

end

end
