(* ===== verification/Mmc_Card.thy ===== *)
theory Mmc_Card
  imports Block_Dev
begin

text \<open>
  The identification of cards, \<open>drivers/mmc/mmc.c\<close>: reset, voltage negotiation, the card's registers,
  its capacity, speed and bus width, for SD cards and for MMC cards, up to \<open>mmc_init\<close>,
  \<open>mmc_get_dev\<close> and \<open>mmc_select_hwpart\<close>; then the lookup of a device by name (\<open>get_dev\<close> of
  \<open>disk/part.c\<close>).  \<open>mmc_host_is_spi\<close> is 0 in this build.

  The C functions write through \<open>struct mmc *\<close>; here they return the slot, and \<open>store_mmc\<close> puts it back
  into the list \<open>mmc_devices\<close> where \<open>mmc_bread\<close> looks for it.  \<open>None\<close> means that the code
  does not return or reads outside an array or a buffer no command has filled.
\<close>

section \<open>Constants\<close>

definition SD_VERSION_SD :: u32 where "SD_VERSION_SD = 0x80000000"
definition MMC_VERSION_MMC :: u32 where "MMC_VERSION_MMC = 0x40000000"

definition MAKE_SDMMC_VERSION :: "u32 \<Rightarrow> u32 \<Rightarrow> u32 \<Rightarrow> u32" where
  "MAKE_SDMMC_VERSION a b c = push_bit 16 a OR push_bit 8 b OR c"

definition MAKE_SD_VERSION :: "u32 \<Rightarrow> u32 \<Rightarrow> u32 \<Rightarrow> u32" where
  "MAKE_SD_VERSION a b c = SD_VERSION_SD OR MAKE_SDMMC_VERSION a b c"

definition MAKE_MMC_VERSION :: "u32 \<Rightarrow> u32 \<Rightarrow> u32 \<Rightarrow> u32" where
  "MAKE_MMC_VERSION a b c = MMC_VERSION_MMC OR MAKE_SDMMC_VERSION a b c"

definition SD_VERSION_3 :: u32 where "SD_VERSION_3 = MAKE_SD_VERSION 3 0 0"
definition SD_VERSION_2 :: u32 where "SD_VERSION_2 = MAKE_SD_VERSION 2 0 0"
definition SD_VERSION_1_0 :: u32 where "SD_VERSION_1_0 = MAKE_SD_VERSION 1 0 0"
definition SD_VERSION_1_10 :: u32 where "SD_VERSION_1_10 = MAKE_SD_VERSION 1 10 0"
definition MMC_VERSION_UNKNOWN :: u32 where "MMC_VERSION_UNKNOWN = MAKE_MMC_VERSION 0 0 0"
definition MMC_VERSION_1_2 :: u32 where "MMC_VERSION_1_2 = MAKE_MMC_VERSION 1 2 0"
definition MMC_VERSION_1_4 :: u32 where "MMC_VERSION_1_4 = MAKE_MMC_VERSION 1 4 0"
definition MMC_VERSION_2_2 :: u32 where "MMC_VERSION_2_2 = MAKE_MMC_VERSION 2 2 0"
definition MMC_VERSION_3 :: u32 where "MMC_VERSION_3 = MAKE_MMC_VERSION 3 0 0"
definition MMC_VERSION_4 :: u32 where "MMC_VERSION_4 = MAKE_MMC_VERSION 4 0 0"
definition MMC_VERSION_4_1 :: u32 where "MMC_VERSION_4_1 = MAKE_MMC_VERSION 4 1 0"
definition MMC_VERSION_4_2 :: u32 where "MMC_VERSION_4_2 = MAKE_MMC_VERSION 4 2 0"
definition MMC_VERSION_4_3 :: u32 where "MMC_VERSION_4_3 = MAKE_MMC_VERSION 4 3 0"
definition MMC_VERSION_4_41 :: u32 where "MMC_VERSION_4_41 = MAKE_MMC_VERSION 4 4 1"
definition MMC_VERSION_4_5 :: u32 where "MMC_VERSION_4_5 = MAKE_MMC_VERSION 4 5 0"
definition MMC_VERSION_5_0 :: u32 where "MMC_VERSION_5_0 = MAKE_MMC_VERSION 5 0 0"

definition IS_SD :: "mmc \<Rightarrow> bool" where
  "IS_SD mmc \<longleftrightarrow> c_true (mmc_version mmc AND SD_VERSION_SD)"

definition MMC_MODE_HS :: u32 where "MMC_MODE_HS = 0x1"
definition MMC_MODE_HS_52MHz :: u32 where "MMC_MODE_HS_52MHz = 0x2"
definition MMC_MODE_4BIT :: u32 where "MMC_MODE_4BIT = 0x4"
definition MMC_MODE_8BIT :: u32 where "MMC_MODE_8BIT = 0x8"
definition MMC_MODE_DDR_52MHz :: u32 where "MMC_MODE_DDR_52MHz = 0x20"
definition SD_DATA_4BIT :: u32 where "SD_DATA_4BIT = 0x00040000"

definition NO_CARD_ERR :: int where "NO_CARD_ERR = - 16"
definition UNUSABLE_ERR :: int where "UNUSABLE_ERR = - 17"
definition COMM_ERR :: int where "COMM_ERR = - 18"
definition SWITCH_ERR :: int where "SWITCH_ERR = - 20"

definition OCR_VOLTAGE_MASK :: u32 where "OCR_VOLTAGE_MASK = 0x007FFF80"
definition OCR_ACCESS_MODE :: u32 where "OCR_ACCESS_MODE = 0x60000000"
definition MMC_STATUS_MASK :: u32 where "MMC_STATUS_MASK = NOT 0x0206BF7F"
definition MMC_STATUS_SWITCH_ERROR :: u32 where "MMC_STATUS_SWITCH_ERROR = 0x80"
definition MMC_STATUS_RDY_FOR_DATA :: u32 where "MMC_STATUS_RDY_FOR_DATA = 0x100"
definition MMC_STATUS_CURR_STATE :: u32 where "MMC_STATUS_CURR_STATE = 0x1e00"
definition MMC_STATE_PRG :: u32 where "MMC_STATE_PRG = 0xe00"
definition SD_HIGHSPEED_BUSY :: u32 where "SD_HIGHSPEED_BUSY = 0x00020000"
definition SD_HIGHSPEED_SUPPORTED :: u32 where "SD_HIGHSPEED_SUPPORTED = 0x00020000"
definition SD_SWITCH_CHECK :: u32 where "SD_SWITCH_CHECK = 0"
definition SD_SWITCH_SWITCH :: u32 where "SD_SWITCH_SWITCH = 1"
definition MMC_SWITCH_MODE_WRITE_BYTE :: u32 where "MMC_SWITCH_MODE_WRITE_BYTE = 3"
definition MMC_MAX_BLOCK_LEN :: u32 where "MMC_MAX_BLOCK_LEN = 512"
definition MMCPART_NOAVAILABLE :: u8 where "MMCPART_NOAVAILABLE = 0xff"
definition PART_ACCESS_MASK :: u8 where "PART_ACCESS_MASK = 7"
definition PART_SUPPORT :: u8 where "PART_SUPPORT = 1"
definition ENHNCD_SUPPORT :: u8 where "ENHNCD_SUPPORT = 2"
definition PART_ENH_ATTRIB :: u8 where "PART_ENH_ATTRIB = 0x1f"
definition ENODEV :: int where "ENODEV = 19"
definition EMEDIUMTYPE :: int where "EMEDIUMTYPE = 124"

definition EXT_CSD_ENH_START_ADDR :: nat where "EXT_CSD_ENH_START_ADDR = 136"
definition EXT_CSD_ENH_SIZE_MULT :: nat where "EXT_CSD_ENH_SIZE_MULT = 140"
definition EXT_CSD_GP_SIZE_MULT :: nat where "EXT_CSD_GP_SIZE_MULT = 143"
definition EXT_CSD_PARTITION_SETTING :: nat where "EXT_CSD_PARTITION_SETTING = 155"
definition EXT_CSD_PARTITIONS_ATTRIBUTE :: nat where "EXT_CSD_PARTITIONS_ATTRIBUTE = 156"
definition EXT_CSD_PARTITIONING_SUPPORT :: nat where "EXT_CSD_PARTITIONING_SUPPORT = 160"
definition EXT_CSD_WR_REL_SET :: nat where "EXT_CSD_WR_REL_SET = 167"
definition EXT_CSD_RPMB_MULT :: nat where "EXT_CSD_RPMB_MULT = 168"
definition EXT_CSD_ERASE_GROUP_DEF :: nat where "EXT_CSD_ERASE_GROUP_DEF = 175"
definition EXT_CSD_PART_CONF :: nat where "EXT_CSD_PART_CONF = 179"
definition EXT_CSD_BUS_WIDTH :: nat where "EXT_CSD_BUS_WIDTH = 183"
definition EXT_CSD_HS_TIMING :: nat where "EXT_CSD_HS_TIMING = 185"
definition EXT_CSD_REV :: nat where "EXT_CSD_REV = 192"
definition EXT_CSD_CARD_TYPE :: nat where "EXT_CSD_CARD_TYPE = 196"
definition EXT_CSD_SEC_CNT :: nat where "EXT_CSD_SEC_CNT = 212"
definition EXT_CSD_HC_WP_GRP_SIZE :: nat where "EXT_CSD_HC_WP_GRP_SIZE = 221"
definition EXT_CSD_HC_ERASE_GRP_SIZE :: nat where "EXT_CSD_HC_ERASE_GRP_SIZE = 224"
definition EXT_CSD_BOOT_MULT :: nat where "EXT_CSD_BOOT_MULT = 226"
definition EXT_CSD_CMD_SET_NORMAL :: u8 where "EXT_CSD_CMD_SET_NORMAL = 1"
definition EXT_CSD_CARD_TYPE_52 :: u8 where "EXT_CSD_CARD_TYPE_52 = 2"
definition EXT_CSD_CARD_TYPE_DDR_1_8V :: u8 where "EXT_CSD_CARD_TYPE_DDR_1_8V = 4"
definition EXT_CSD_PARTITION_SETTING_COMPLETED :: u8 where "EXT_CSD_PARTITION_SETTING_COMPLETED = 1"

lemmas sd_version_defs =
  SD_VERSION_3_def SD_VERSION_2_def SD_VERSION_1_0_def SD_VERSION_1_10_def MAKE_SD_VERSION_def MAKE_SDMMC_VERSION_def SD_VERSION_SD_def

section \<open>Commands without and with data\<close>

definition plain_cmd :: "media \<Rightarrow> mmc \<Rightarrow> nat \<Rightarrow> nat \<Rightarrow> u32 \<Rightarrow> sys \<Rightarrow> int \<times> (nat \<Rightarrow> u32) \<times> sys" where
  "plain_cmd md mmc idx rsp arg s =
     (let (err, resp, _, s) = mmc_send_cmd md mmc \<lparr>cmdidx = idx, resp_type = rsp, cmdarg = arg\<rparr> None s in (err, resp, s))"

definition data_cmd :: "media \<Rightarrow> mmc \<Rightarrow> nat \<Rightarrow> u32 \<Rightarrow> u32 \<Rightarrow> sys \<Rightarrow> (int \<times> u8 list \<times> sys) option" where
  "data_cmd md mmc idx arg len s =
     (let (err, _, bytes, s) =
        mmc_send_cmd md mmc \<lparr>cmdidx = idx, resp_type = MMC_RSP_R1, cmdarg = arg\<rparr> (Some (1, len)) s
      in if err = 0 \<and> length bytes \<noteq> unat len then None else Some (err, bytes, s))"

definition rca_arg :: "mmc \<Rightarrow> u32" where
  "rca_arg mmc = push_bit 16 (ucast (mmc_rca mmc))"

text \<open>The loop of \<open>mmc_send_status\<close>; \<open>retries\<close> and \<open>timeout\<close> count down to 0.\<close>

fun send_status_loop :: "media \<Rightarrow> mmc \<Rightarrow> nat \<Rightarrow> nat \<Rightarrow> sys \<Rightarrow> int \<times> sys" where
  "send_status_loop md mmc retries timeout s =
     (let (err, resp, s) = plain_cmd md mmc MMC_CMD_SEND_STATUS MMC_RSP_R1 (rca_arg mmc) s in
      if err = 0 \<and> c_true (resp 0 AND MMC_STATUS_RDY_FOR_DATA) \<and> resp 0 AND MMC_STATUS_CURR_STATE \<noteq> MMC_STATE_PRG then
        (if timeout = 0 then TIMEOUT else if c_true (resp 0 AND MMC_STATUS_SWITCH_ERROR) then SWITCH_ERR else 0, s)
      else if err = 0 \<and> c_true (resp 0 AND MMC_STATUS_MASK) then (COMM_ERR, s)
      else if err \<noteq> 0 \<and> retries = 0 then (err, s)
      else (case timeout of
          0 \<Rightarrow> (TIMEOUT, s)
        | Suc timeout \<Rightarrow> send_status_loop md mmc (if err \<noteq> 0 then retries - 1 else retries) timeout (udelay 1000 s)))"

declare send_status_loop.simps [simp del]

definition mmc_send_status :: "media \<Rightarrow> mmc \<Rightarrow> nat \<Rightarrow> sys \<Rightarrow> int \<times> sys" where
  "mmc_send_status md mmc timeout s = send_status_loop md mmc 5 timeout s"

definition mmc_go_idle :: "media \<Rightarrow> mmc \<Rightarrow> sys \<Rightarrow> int \<times> sys" where
  "mmc_go_idle md mmc s =
     (let s = udelay 1000 s;
          (err, _, s) = plain_cmd md mmc MMC_CMD_GO_IDLE_STATE MMC_RSP_NONE 0 s
      in if err \<noteq> 0 then (err, s) else (0, udelay 2000 s))"

section \<open>Operating conditions\<close>

definition sd_op_cond_arg :: "mmc \<Rightarrow> u32" where
  "sd_op_cond_arg mmc =
     (voltages (mmc_cfg mmc) AND 0xff8000) OR (if mmc_version mmc = SD_VERSION_2 then OCR_HCS else 0)"

text \<open>The rounds of \<open>sd_send_op_cond\<close>: the error code and the last response.\<close>

fun sd_op_cond_loop :: "media \<Rightarrow> mmc \<Rightarrow> nat \<Rightarrow> sys \<Rightarrow> int \<times> u32 \<times> sys" where
  "sd_op_cond_loop md mmc timeout s =
     (let (err, _, s) = plain_cmd md mmc MMC_CMD_APP_CMD MMC_RSP_R1 0 s in
      if err \<noteq> 0 then (err, 0, s)
      else
        let (err, resp, s) = plain_cmd md mmc SD_CMD_APP_SEND_OP_COND MMC_RSP_R3 (sd_op_cond_arg mmc) s in
        if err \<noteq> 0 then (err, 0, s)
        else if c_true (resp 0 AND OCR_BUSY) then (0, resp 0, s)
        else (case timeout of
            0 \<Rightarrow> (UNUSABLE_ERR, 0, s)
          | Suc timeout \<Rightarrow> sd_op_cond_loop md mmc timeout (udelay 1000 s)))"

declare sd_op_cond_loop.simps [simp del]

definition sd_send_op_cond :: "media \<Rightarrow> mmc \<Rightarrow> sys \<Rightarrow> int \<times> mmc \<times> sys" where
  "sd_send_op_cond md mmc s =
     (let (err, ocr, s) = sd_op_cond_loop md mmc 1000 s in
      if err \<noteq> 0 then (err, mmc, s)
      else
        (0, mmc\<lparr>mmc_version := (if mmc_version mmc \<noteq> SD_VERSION_2 then SD_VERSION_1_0 else mmc_version mmc),
                mmc_ocr := ocr, mmc_high_capacity := (ocr AND OCR_HCS = OCR_HCS), mmc_rca := 0\<rparr>, s))"

definition mmc_send_op_cond_iter :: "media \<Rightarrow> mmc \<Rightarrow> bool \<Rightarrow> sys \<Rightarrow> int \<times> mmc \<times> sys" where
  "mmc_send_op_cond_iter md mmc use_arg s =
     (let arg = (if use_arg then
                   OCR_HCS OR (voltages (mmc_cfg mmc) AND (mmc_ocr mmc AND OCR_VOLTAGE_MASK)) OR (mmc_ocr mmc AND OCR_ACCESS_MODE)
                 else 0);
          (err, resp, s) = plain_cmd md mmc MMC_CMD_SEND_OP_COND MMC_RSP_R3 arg s
      in if err \<noteq> 0 then (err, mmc, s) else (0, mmc\<lparr>mmc_ocr := resp 0\<rparr>, s))"

definition mmc_send_op_cond :: "media \<Rightarrow> mmc \<Rightarrow> sys \<Rightarrow> int \<times> mmc \<times> sys" where
  "mmc_send_op_cond md mmc s =
     (let (_, s) = mmc_go_idle md mmc s;
          (err, mmc, s) = mmc_send_op_cond_iter md mmc False s
      in if err \<noteq> 0 then (err, mmc, s)
         else if c_true (mmc_ocr mmc AND OCR_BUSY) then (0, mmc\<lparr>mmc_op_cond_pending := True\<rparr>, s)
         else
           let (err, mmc, s) = mmc_send_op_cond_iter md mmc True s in
           if err \<noteq> 0 then (err, mmc, s) else (0, mmc\<lparr>mmc_op_cond_pending := True\<rparr>, s))"

text \<open>The polling of \<open>mmc_complete_op_cond\<close> ends when the card is ready or the clock has passed a second.\<close>

partial_function (option) op_cond_poll ::
  "env \<Rightarrow> media \<Rightarrow> mmc \<Rightarrow> u32 \<Rightarrow> sys \<Rightarrow> (int \<times> mmc \<times> sys) option" where [code]:
  "op_cond_poll e md mmc start s =
     (let (err, mmc, s) = mmc_send_op_cond_iter md mmc True s in
      if err \<noteq> 0 then Some (err, mmc, s)
      else if c_true (mmc_ocr mmc AND OCR_BUSY) then Some (0, mmc, s)
      else if get_timer e start s > 1000 then Some (UNUSABLE_ERR, mmc, s)
      else op_cond_poll e md mmc start (udelay 100 s))"

definition mmc_complete_op_cond :: "env \<Rightarrow> media \<Rightarrow> mmc \<Rightarrow> sys \<Rightarrow> (int \<times> mmc \<times> sys) option" where
  "mmc_complete_op_cond e md mmc s = do {
     let mmc = mmc\<lparr>mmc_op_cond_pending := False\<rparr>;
     (err, mmc, s) \<leftarrow>
       (if c_true (mmc_ocr mmc AND OCR_BUSY) then Some (0, mmc, s)
        else op_cond_poll e md mmc (get_timer e 0 s) s);
     if err \<noteq> 0 then Some (err, mmc, s)
     else
       Some (0, mmc\<lparr>mmc_version := MMC_VERSION_UNKNOWN, mmc_high_capacity := (mmc_ocr mmc AND OCR_HCS = OCR_HCS),
                    mmc_rca := 1\<rparr>, s)
   }"

section \<open>Switching\<close>

definition mmc_send_ext_csd :: "media \<Rightarrow> mmc \<Rightarrow> sys \<Rightarrow> (int \<times> u8 list \<times> sys) option" where
  "mmc_send_ext_csd md mmc s = data_cmd md mmc MMC_CMD_SEND_EXT_CSD 0 MMC_MAX_BLOCK_LEN s"

text \<open>The command set is not used.\<close>

definition mmc_switch :: "media \<Rightarrow> mmc \<Rightarrow> u8 \<Rightarrow> nat \<Rightarrow> u8 \<Rightarrow> sys \<Rightarrow> int \<times> sys" where
  "mmc_switch md mmc cmdset index value s =
     (let arg = push_bit 24 MMC_SWITCH_MODE_WRITE_BYTE OR push_bit 16 (of_nat index) OR push_bit 8 (ucast value);
          (ret, _, s) = plain_cmd md mmc MMC_CMD_SWITCH MMC_RSP_R1b arg s
      in if ret \<noteq> 0 then (ret, s) else mmc_send_status md mmc 1000 s)"

definition mmc_change_freq :: "media \<Rightarrow> mmc \<Rightarrow> sys \<Rightarrow> (int \<times> mmc \<times> sys) option" where
  "mmc_change_freq md mmc s = do {
     let mmc = mmc\<lparr>mmc_card_caps := 0\<rparr>;
     if mmc_version mmc < MMC_VERSION_4 then Some (0, mmc, s)
     else do {
       let mmc = mmc\<lparr>mmc_card_caps := MMC_MODE_4BIT OR MMC_MODE_8BIT\<rparr>;
       (err, ext_csd, s) \<leftarrow> mmc_send_ext_csd md mmc s;
       if err \<noteq> 0 then Some (err, mmc, s)
       else do {
         let cardtype = ext_csd ! EXT_CSD_CARD_TYPE AND 0xf;
         let (err, s) = mmc_switch md mmc EXT_CSD_CMD_SET_NORMAL EXT_CSD_HS_TIMING 1 s;
         if err \<noteq> 0 then Some (if err = SWITCH_ERR then 0 else err, mmc, s)
         else do {
           (err, ext_csd, s) \<leftarrow> mmc_send_ext_csd md mmc s;
           if err \<noteq> 0 then Some (err, mmc, s)
           else if ext_csd ! EXT_CSD_HS_TIMING = 0 then Some (0, mmc, s)
           else
             Some (0, mmc\<lparr>mmc_card_caps := mmc_card_caps mmc OR
                (if c_true (cardtype AND EXT_CSD_CARD_TYPE_52) then
                   (if c_true (cardtype AND EXT_CSD_CARD_TYPE_DDR_1_8V) then MMC_MODE_DDR_52MHz else 0) OR
                   MMC_MODE_HS_52MHz OR MMC_MODE_HS
                 else MMC_MODE_HS)\<rparr>, s)
         }
       }
     }
   }"

text \<open>The capacity of a hardware partition; other numbers are refused.\<close>

definition mmc_set_capacity :: "mmc \<Rightarrow> u8 \<Rightarrow> int \<times> mmc" where
  "mmc_set_capacity mmc part_num =
     (let put = (\<lambda>c. (0, mmc\<lparr>mmc_capacity := c,
            mmc_block_dev := (mmc_block_dev mmc)\<lparr>bd_lba := ucast (c div ucast (mmc_read_bl_len mmc))\<rparr>\<rparr>))
      in if part_num = 0 then put (mmc_capacity_user mmc)
         else if part_num = 1 \<or> part_num = 2 then put (mmc_capacity_boot mmc)
         else if part_num = 3 then put (mmc_capacity_rpmb mmc)
         else if 4 \<le> part_num \<and> part_num \<le> 7 then put (mmc_capacity_gp mmc ! (unat part_num - 4))
         else (- 1, mmc))"

definition sd_switch :: "media \<Rightarrow> mmc \<Rightarrow> u32 \<Rightarrow> nat \<Rightarrow> u8 \<Rightarrow> sys \<Rightarrow> (int \<times> u8 list \<times> sys) option" where
  "sd_switch md mmc mode grp value s =
     (let arg = push_bit 31 mode OR 0xffffff;
          arg = arg AND NOT (push_bit (grp * 4) 0xf);
          arg = arg OR push_bit (grp * 4) (ucast value)
      in data_cmd md mmc SD_CMD_SWITCH_FUNC arg 64 s)"

text \<open>A word of a big-endian answer.\<close>

definition be32_word :: "u8 list \<Rightarrow> nat \<Rightarrow> u32" where
  "be32_word bs i = be32_at bs (4 * i)"

text \<open>The SCR register with its retries, and the check of the high-speed function while it is busy.\<close>

fun read_scr :: "media \<Rightarrow> mmc \<Rightarrow> nat \<Rightarrow> sys \<Rightarrow> (int \<times> u8 list \<times> sys) option" where
  "read_scr md mmc timeout s = do {
     (err, scr, s) \<leftarrow> data_cmd md mmc SD_CMD_APP_SEND_SCR 0 8 s;
     if err \<noteq> 0 then (case timeout of 0 \<Rightarrow> Some (err, scr, s) | Suc timeout \<Rightarrow> read_scr md mmc timeout s)
     else Some (0, scr, s)
   }"

declare read_scr.simps [simp del]

fun switch_check :: "media \<Rightarrow> mmc \<Rightarrow> nat \<Rightarrow> u8 list \<Rightarrow> sys \<Rightarrow> (int \<times> u8 list \<times> sys) option" where
  "switch_check md mmc 0 status s = Some (0, status, s)"
| "switch_check md mmc (Suc timeout) status s = do {
     (err, status, s) \<leftarrow> sd_switch md mmc SD_SWITCH_CHECK 0 1 s;
     if err \<noteq> 0 then Some (err, status, s)
     else if c_true (be32_word status 7 AND SD_HIGHSPEED_BUSY) then switch_check md mmc timeout status s
     else Some (0, status, s)
   }"

definition scr_version :: "u32 \<Rightarrow> u32" where
  "scr_version scr0 =
     (let v = drop_bit 24 scr0 AND 0xf in
      if v = 0 then SD_VERSION_1_0
      else if v = 1 then SD_VERSION_1_10
      else if v = 2 then (if c_true (drop_bit 15 scr0 AND 0x1) then SD_VERSION_3 else SD_VERSION_2)
      else SD_VERSION_1_0)"

definition sd_change_freq :: "media \<Rightarrow> mmc \<Rightarrow> sys \<Rightarrow> (int \<times> mmc \<times> sys) option" where
  "sd_change_freq md mmc s = do {
     let mmc = mmc\<lparr>mmc_card_caps := 0\<rparr>;
     let (err, _, s) = plain_cmd md mmc MMC_CMD_APP_CMD MMC_RSP_R1 (rca_arg mmc) s;
     if err \<noteq> 0 then Some (err, mmc, s)
     else do {
       (err, scr, s) \<leftarrow> read_scr md mmc 3 s;
       if err \<noteq> 0 then Some (err, mmc, s)
       else do {
         let mmc = mmc\<lparr>mmc_scr := [be32_word scr 0, be32_word scr 1], mmc_version := scr_version (be32_word scr 0),
           mmc_card_caps := (if c_true (be32_word scr 0 AND SD_DATA_4BIT) then MMC_MODE_4BIT else 0)\<rparr>;
         if mmc_version mmc = SD_VERSION_1_0 then Some (0, mmc, s)
         else do {
           (err, status, s) \<leftarrow> switch_check md mmc 4 [] s;
           if err \<noteq> 0 then Some (err, mmc, s)
           else if \<not> c_true (be32_word status 3 AND SD_HIGHSPEED_SUPPORTED) then Some (0, mmc, s)
           else if \<not> (c_true (host_caps (mmc_cfg mmc) AND MMC_MODE_HS_52MHz) \<and> c_true (host_caps (mmc_cfg mmc) AND MMC_MODE_HS))
             then Some (0, mmc, s)
           else do {
             (err, status, s) \<leftarrow> sd_switch md mmc SD_SWITCH_SWITCH 0 1 s;
             if err \<noteq> 0 then Some (err, mmc, s)
             else if be32_word status 4 AND 0x0f000000 = 0x01000000
               then Some (0, mmc\<lparr>mmc_card_caps := mmc_card_caps mmc OR MMC_MODE_HS\<rparr>, s)
             else Some (0, mmc, s)
           }
         }
       }
     }
   }"

definition mmc_set_ios :: "media \<Rightarrow> mmc \<Rightarrow> sys \<Rightarrow> sys" where
  "mmc_set_ios md mmc s = ops_set_ios md mmc s"

definition mmc_set_clock :: "media \<Rightarrow> mmc \<Rightarrow> u32 \<Rightarrow> sys \<Rightarrow> mmc \<times> sys" where
  "mmc_set_clock md mmc clock s =
     (let clock = (if clock > f_max (mmc_cfg mmc) then f_max (mmc_cfg mmc) else clock);
          clock = (if clock < f_min (mmc_cfg mmc) then f_min (mmc_cfg mmc) else clock);
          mmc = mmc\<lparr>mmc_clock := clock\<rparr>
      in (mmc, mmc_set_ios md mmc s))"

definition mmc_set_bus_width :: "media \<Rightarrow> mmc \<Rightarrow> u32 \<Rightarrow> sys \<Rightarrow> mmc \<times> sys" where
  "mmc_set_bus_width md mmc width s = (let mmc = mmc\<lparr>mmc_bus_width := width\<rparr> in (mmc, mmc_set_ios md mmc s))"

section \<open>Starting a card\<close>

text \<open>\<open>mmc_startup\<close> in its parts.  First the identification: CID, relative address, CSD.  The response to
  \<open>SEND_CSD\<close> is returned for the next part.\<close>

definition startup_identify :: "media \<Rightarrow> mmc \<Rightarrow> sys \<Rightarrow> int \<times> mmc \<times> (nat \<Rightarrow> u32) \<times> sys" where
  "startup_identify md mmc s =
     (let (err, resp, s) = plain_cmd md mmc MMC_CMD_ALL_SEND_CID MMC_RSP_R2 0 s in
      if err \<noteq> 0 then (err, mmc, resp, s)
      else
        let mmc = mmc\<lparr>mmc_cid := map resp [0, 1, 2, 3]\<rparr>;
            (err, resp, s) = plain_cmd md mmc SD_CMD_SEND_RELATIVE_ADDR MMC_RSP_R6 (rca_arg mmc) s in
        if err \<noteq> 0 then (err, mmc, resp, s)
        else
          let mmc = (if IS_SD mmc then mmc\<lparr>mmc_rca := ucast (drop_bit 16 (resp 0) AND 0xffff)\<rparr> else mmc);
              (err, resp, s) = plain_cmd md mmc MMC_CMD_SEND_CSD MMC_RSP_R2 (rca_arg mmc) s;
              (_, s) = mmc_send_status md mmc 1000 s in
          if err \<noteq> 0 then (err, mmc, resp, s)
          else (0, mmc\<lparr>mmc_csd := map resp [0, 1, 2, 3]\<rparr>, resp, s))"

definition fbase :: "u32 list" where
  "fbase = [10000, 100000, 1000000, 10000000]"

definition multipliers :: "u32 list" where
  "multipliers = [0, 10, 12, 13, 15, 20, 25, 30, 35, 40, 45, 50, 55, 60, 70, 80]"

definition csd_version :: "u32 \<Rightarrow> u32" where
  "csd_version csd0 =
     (let version = drop_bit 26 csd0 AND 0xf in
      if version = 0 then MMC_VERSION_1_2
      else if version = 1 then MMC_VERSION_1_4
      else if version = 2 then MMC_VERSION_2_2
      else if version = 3 then MMC_VERSION_3
      else if version = 4 then MMC_VERSION_4
      else MMC_VERSION_1_2)"

text \<open>The capacity the CSD tells, in bytes.\<close>

definition csd_capacity :: "bool \<Rightarrow> u32 \<Rightarrow> u32 \<Rightarrow> u32 \<Rightarrow> u64" where
  "csd_capacity high_capacity csd1 csd2 bl_len =
     (let (csize, cmult) =
        (if high_capacity then
           (ucast (push_bit 16 (csd1 AND 0x3f) OR drop_bit 16 (csd2 AND 0xffff0000)), 8)
         else
           (ucast (push_bit 2 (csd1 AND 0x3ff) OR drop_bit 30 (csd2 AND 0xc0000000)),
            unat (drop_bit 15 (csd2 AND 0x00038000))))
      in push_bit (cmult + 2) (csize + 1 :: u64) * ucast bl_len)"

definition clamp_bl_len :: "u32 \<Rightarrow> u32" where
  "clamp_bl_len len = (if len > MMC_MAX_BLOCK_LEN then MMC_MAX_BLOCK_LEN else len)"

text \<open>What the CSD says.  \<open>fbase\<close> has four entries and is indexed with three bits of the card's answer.\<close>

definition startup_csd :: "mmc \<Rightarrow> (nat \<Rightarrow> u32) \<Rightarrow> mmc option" where
  "startup_csd mmc resp =
     (let unit = unat (resp 0 AND 0x7) in
      if length fbase \<le> unit then None
      else
        let mmc = (if mmc_version mmc = MMC_VERSION_UNKNOWN then mmc\<lparr>mmc_version := csd_version (resp 0)\<rparr> else mmc);
            read_len = push_bit (unat (drop_bit 16 (resp 1) AND 0xf)) 1;
            write_len = (if IS_SD mmc then read_len else push_bit (unat (drop_bit 22 (resp 3) AND 0xf)) 1)
        in Some (mmc\<lparr>mmc_tran_speed := fbase ! unit * multipliers ! unat (drop_bit 3 (resp 0) AND 0xf),
             mmc_dsr_imp := drop_bit 12 (resp 1) AND 0x1,
             mmc_capacity_user := csd_capacity (mmc_high_capacity mmc) (mmc_csd mmc ! 1) (mmc_csd mmc ! 2) read_len,
             mmc_capacity_boot := 0, mmc_capacity_rpmb := 0, mmc_capacity_gp := [0, 0, 0, 0],
             mmc_read_bl_len := clamp_bl_len read_len, mmc_write_bl_len := clamp_bl_len write_len\<rparr>))"

definition startup_select :: "media \<Rightarrow> mmc \<Rightarrow> sys \<Rightarrow> int \<times> mmc \<times> sys" where
  "startup_select md mmc s =
     (let s = (if c_true (mmc_dsr_imp mmc) \<and> mmc_dsr mmc \<noteq> 0xffffffff
               then snd (snd (plain_cmd md mmc MMC_CMD_SET_DSR MMC_RSP_NONE (push_bit 16 (mmc_dsr mmc AND 0xffff)) s))
               else s);
          (err, _, s) = plain_cmd md mmc MMC_CMD_SELECT_CARD MMC_RSP_R1 (rca_arg mmc) s
      in if err \<noteq> 0 then (err, mmc, s)
         else (0, mmc\<lparr>mmc_erase_grp_size := 1, mmc_part_config := MMCPART_NOAVAILABLE\<rparr>, s))"

text \<open>The sector count of the extended CSD: the bytes are put together as an \<open>int\<close> and only then
  widened to 64 bits.\<close>

definition ext_csd_capacity :: "u8 list \<Rightarrow> u64" where
  "ext_csd_capacity ext_csd =
     scast (u32_of_bytes (ext_csd ! EXT_CSD_SEC_CNT) (ext_csd ! (EXT_CSD_SEC_CNT + 1)) (ext_csd ! (EXT_CSD_SEC_CNT + 2))
       (ext_csd ! (EXT_CSD_SEC_CNT + 3))) * ucast MMC_MAX_BLOCK_LEN"

definition ext_csd_version :: "u8 \<Rightarrow> u32 \<Rightarrow> u32" where
  "ext_csd_version csd_rev version =
     (if csd_rev = 1 then MMC_VERSION_4_1 else if csd_rev = 2 then MMC_VERSION_4_2 else if csd_rev = 3 then MMC_VERSION_4_3
      else if csd_rev = 5 then MMC_VERSION_4_41 else if csd_rev = 6 then MMC_VERSION_4_5 else if csd_rev = 7 then MMC_VERSION_5_0
      else version)"

definition ext_csd_24 :: "u8 list \<Rightarrow> nat \<Rightarrow> u32" where
  "ext_csd_24 ext_csd i = push_bit 16 (ucast (ext_csd ! (i + 2))) + push_bit 8 (ucast (ext_csd ! (i + 1))) + ucast (ext_csd ! i)"

definition part_completed :: "u8 list \<Rightarrow> bool" where
  "part_completed ext_csd \<longleftrightarrow> c_true (ext_csd ! EXT_CSD_PARTITION_SETTING AND EXT_CSD_PARTITION_SETTING_COMPLETED)"

definition gp_mult :: "u8 list \<Rightarrow> nat \<Rightarrow> u32" where
  "gp_mult ext_csd i = ext_csd_24 ext_csd (EXT_CSD_GP_SIZE_MULT + i * 3)"

definition grp_sizes :: "u8 list \<Rightarrow> u64" where
  "grp_sizes ext_csd = ucast (ext_csd ! EXT_CSD_HC_ERASE_GRP_SIZE) * ucast (ext_csd ! EXT_CSD_HC_WP_GRP_SIZE)"

text \<open>Version, capacity and partitions from the extended CSD, before the group size is enabled.\<close>

definition ext_csd_fields :: "u8 list \<Rightarrow> mmc \<Rightarrow> mmc" where
  "ext_csd_fields ext_csd mmc =
     (let capacity = ext_csd_capacity ext_csd;
          completed = part_completed ext_csd;
          support = ext_csd ! EXT_CSD_PARTITIONING_SUPPORT
      in mmc\<lparr>
           mmc_capacity_user := (if ext_csd ! EXT_CSD_REV \<ge> 2 \<and> drop_bit 20 capacity > 2 * 1024 then capacity
                                 else mmc_capacity_user mmc),
           mmc_version := ext_csd_version (ext_csd ! EXT_CSD_REV) (mmc_version mmc),
           mmc_part_support := support,
           mmc_part_config := (if c_true (support AND PART_SUPPORT) \<or> c_true (ext_csd ! EXT_CSD_BOOT_MULT)
                               then ext_csd ! EXT_CSD_PART_CONF else mmc_part_config mmc),
           mmc_part_attr := (if completed \<and> c_true (support AND ENHNCD_SUPPORT) then ext_csd ! EXT_CSD_PARTITIONS_ATTRIBUTE
                             else mmc_part_attr mmc),
           mmc_capacity_boot := push_bit 17 (ucast (ext_csd ! EXT_CSD_BOOT_MULT)),
           mmc_capacity_rpmb := push_bit 17 (ucast (ext_csd ! EXT_CSD_RPMB_MULT)),
           mmc_capacity_gp := (if completed then map (\<lambda>i. push_bit 19 (ucast (gp_mult ext_csd i) * grp_sizes ext_csd)) [0..<4]
                               else mmc_capacity_gp mmc),
           mmc_enh_user_size := (if completed then push_bit 19 (ucast (ext_csd_24 ext_csd EXT_CSD_ENH_SIZE_MULT) * grp_sizes ext_csd)
                                 else mmc_enh_user_size mmc),
           mmc_enh_user_start := (if completed then
               push_bit (if mmc_high_capacity mmc then 9 else 0)
                 (scast (push_bit 24 (ucast (ext_csd ! (EXT_CSD_ENH_START_ADDR + 3))) + ext_csd_24 ext_csd EXT_CSD_ENH_START_ADDR :: u32))
             else mmc_enh_user_start mmc)\<rparr>)"

definition has_parts :: "u8 list \<Rightarrow> bool" where
  "has_parts ext_csd \<longleftrightarrow>
     list_ex (\<lambda>i. gp_mult ext_csd i \<noteq> 0) [0..<4] \<or> part_completed ext_csd \<or>
     c_true (ext_csd ! EXT_CSD_PARTITIONING_SUPPORT AND PART_SUPPORT) \<and>
     c_true (ext_csd ! EXT_CSD_PARTITIONS_ATTRIBUTE AND PART_ENH_ATTRIB)"

text \<open>Group sizes, after it.\<close>

definition ext_csd_groups :: "u8 list \<Rightarrow> mmc \<Rightarrow> mmc" where
  "ext_csd_groups ext_csd mmc =
     (let csd2 = mmc_csd mmc ! 2;
          mmc = (if c_true (ext_csd ! EXT_CSD_ERASE_GROUP_DEF AND 0x01) then
                   mmc\<lparr>mmc_erase_grp_size := ucast (ext_csd ! EXT_CSD_HC_ERASE_GRP_SIZE) * 1024,
                     mmc_capacity_user := (if mmc_high_capacity mmc \<and> part_completed ext_csd then ext_csd_capacity ext_csd
                                           else mmc_capacity_user mmc)\<rparr>
                 else
                   mmc\<lparr>mmc_erase_grp_size := (drop_bit 10 (csd2 AND 0x00007c00) + 1) * (drop_bit 5 (csd2 AND 0x000003e0) + 1)\<rparr>)
      in mmc\<lparr>mmc_hc_wp_grp_size := 1024 * ucast (ext_csd ! EXT_CSD_HC_ERASE_GRP_SIZE) * ucast (ext_csd ! EXT_CSD_HC_WP_GRP_SIZE),
             mmc_wr_rel_set := ext_csd ! EXT_CSD_WR_REL_SET\<rparr>)"

text \<open>The part for MMC cards of version 4: the extended CSD is also returned.\<close>

definition startup_ext_csd :: "media \<Rightarrow> mmc \<Rightarrow> sys \<Rightarrow> (int \<times> mmc \<times> u8 list \<times> sys) option" where
  "startup_ext_csd md mmc s =
     (if IS_SD mmc \<or> mmc_version mmc < MMC_VERSION_4 then Some (0, mmc, [], s)
      else do {
        (err, ext_csd, s) \<leftarrow> mmc_send_ext_csd md mmc s;
        if err \<noteq> 0 then Some (err, mmc, ext_csd, s)
        else do {
          let mmc = ext_csd_fields ext_csd mmc;
          let (err, s) = (if has_parts ext_csd then mmc_switch md mmc EXT_CSD_CMD_SET_NORMAL EXT_CSD_ERASE_GROUP_DEF 1 s
                          else (0, s));
          if err \<noteq> 0 then Some (err, mmc, ext_csd, s)
          else do {
            let ext_csd = (if has_parts ext_csd then ext_csd[EXT_CSD_ERASE_GROUP_DEF := 1] else ext_csd);
            Some (0, ext_csd_groups ext_csd mmc, ext_csd, s)
          }
        }
      })"

text \<open>The bus widths tried for MMC cards: value for the card, capabilities needed, width.\<close>

definition bus_widths :: "(u8 \<times> u32 \<times> u32) list" where
  "bus_widths =
     [(6, MMC_MODE_DDR_52MHz OR MMC_MODE_8BIT, 8), (5, MMC_MODE_DDR_52MHz OR MMC_MODE_4BIT, 4),
      (2, MMC_MODE_8BIT, 8), (1, MMC_MODE_4BIT, 4), (0, 0, 1)]"

definition same_read_only :: "u8 list \<Rightarrow> u8 list \<Rightarrow> bool" where
  "same_read_only ext_csd test_csd \<longleftrightarrow>
     list_all (\<lambda>i. ext_csd ! i = test_csd ! i)
       [EXT_CSD_PARTITIONING_SUPPORT, EXT_CSD_HC_WP_GRP_SIZE, EXT_CSD_REV, EXT_CSD_HC_ERASE_GRP_SIZE,
        EXT_CSD_SEC_CNT, EXT_CSD_SEC_CNT + 1, EXT_CSD_SEC_CNT + 2, EXT_CSD_SEC_CNT + 3]"

fun width_loop ::
  "media \<Rightarrow> u8 list \<Rightarrow> (u8 \<times> u32 \<times> u32) list \<Rightarrow> int \<Rightarrow> mmc \<Rightarrow> sys \<Rightarrow> (int \<times> mmc \<times> sys) option" where
  "width_loop md ext_csd [] err mmc s = Some (err, mmc, s)"
| "width_loop md ext_csd ((extw, caps, width) # ws) err mmc s =
     (if extw = 0 \<and> mmc_bus_width mmc = 1 then Some (0, mmc, s)
      else if mmc_card_caps mmc AND caps \<noteq> caps then width_loop md ext_csd ws err mmc s
      else
        let (err, s) = mmc_switch md mmc EXT_CSD_CMD_SET_NORMAL EXT_CSD_BUS_WIDTH extw s in
        if err \<noteq> 0 then width_loop md ext_csd ws err mmc s
        else do {
          let mmc = mmc\<lparr>mmc_ddr_mode := c_true (caps AND MMC_MODE_DDR_52MHz)\<rparr>;
          let (mmc, s) = mmc_set_bus_width md mmc width s;
          (err, test_csd, s) \<leftarrow> mmc_send_ext_csd md mmc s;
          if err \<noteq> 0 then width_loop md ext_csd ws err mmc s
          else if same_read_only ext_csd test_csd then Some (0, mmc, s)
          else width_loop md ext_csd ws SWITCH_ERR mmc s
        })"

definition startup_width :: "media \<Rightarrow> u8 list \<Rightarrow> mmc \<Rightarrow> sys \<Rightarrow> (int \<times> mmc \<times> sys) option" where
  "startup_width md ext_csd mmc s =
     (if IS_SD mmc then
        let speed = (if c_true (mmc_card_caps mmc AND MMC_MODE_HS) then 50000000 else 25000000) in
        if c_true (mmc_card_caps mmc AND MMC_MODE_4BIT) then
          let (err, _, s) = plain_cmd md mmc MMC_CMD_APP_CMD MMC_RSP_R1 (rca_arg mmc) s in
          if err \<noteq> 0 then Some (err, mmc, s)
          else
            let (err, _, s) = plain_cmd md mmc SD_CMD_APP_SET_BUS_WIDTH MMC_RSP_R1 2 s in
            if err \<noteq> 0 then Some (err, mmc, s)
            else let (mmc, s) = mmc_set_bus_width md mmc 4 s in Some (0, mmc\<lparr>mmc_tran_speed := speed\<rparr>, s)
        else Some (0, mmc\<lparr>mmc_tran_speed := speed\<rparr>, s)
      else if mmc_version mmc \<ge> MMC_VERSION_4 then do {
        (err, mmc, s) \<leftarrow> width_loop md ext_csd bus_widths 0 mmc s;
        if err \<noteq> 0 then Some (err, mmc, s)
        else
          Some (0, (if c_true (mmc_card_caps mmc AND MMC_MODE_HS) then
                      mmc\<lparr>mmc_tran_speed := (if c_true (mmc_card_caps mmc AND MMC_MODE_HS_52MHz) then 52000000 else 26000000)\<rparr>
                    else mmc), s)
      }
      else Some (0, mmc, s))"

definition store_mmc :: "mmc \<Rightarrow> sys \<Rightarrow> sys" where
  "store_mmc mmc s =
     s\<lparr>mmc_devices := map (\<lambda>m. if bd_dev (mmc_block_dev m) = bd_dev (mmc_block_dev mmc) then mmc else m) (mmc_devices s)\<rparr>"

text \<open>The clock and the device description; the partition table is read through the list of devices.\<close>

definition startup_finish :: "bsp_config \<Rightarrow> env \<Rightarrow> media \<Rightarrow> mmc \<Rightarrow> sys \<Rightarrow> (int \<times> mmc \<times> sys) option" where
  "startup_finish cfg e md mmc s = do {
     let (mmc, s) = mmc_set_clock md mmc (mmc_tran_speed mmc) s;
     let mmc = (if mmc_ddr_mode mmc then mmc\<lparr>mmc_read_bl_len := MMC_MAX_BLOCK_LEN, mmc_write_bl_len := MMC_MAX_BLOCK_LEN\<rparr>
                else mmc);
     let mmc = mmc\<lparr>mmc_block_dev := (mmc_block_dev mmc)
           \<lparr>bd_lun := 0, bd_type := 0, bd_blksz := mmc_read_bl_len mmc,
            bd_lba := ucast (mmc_capacity mmc div ucast (mmc_read_bl_len mmc))\<rparr>\<rparr>;
     (desc, s) \<leftarrow> init_part cfg e md (mmc_block_dev mmc) (store_mmc mmc s);
     Some (0, mmc\<lparr>mmc_block_dev := desc\<rparr>, s)
   }"

text \<open>The registers and the capacity, up to \<open>mmc_set_capacity\<close>; then the speed and the width of the bus, and the end.\<close>

definition startup_registers :: "media \<Rightarrow> mmc \<Rightarrow> sys \<Rightarrow> (int \<times> mmc \<times> u8 list \<times> sys) option" where
  "startup_registers md mmc s = do {
     let (err, mmc, resp, s) = startup_identify md mmc s;
     if err \<noteq> 0 then Some (err, mmc, [], s)
     else do {
       mmc \<leftarrow> startup_csd mmc resp;
       let (err, mmc, s) = startup_select md mmc s;
       if err \<noteq> 0 then Some (err, mmc, [], s)
       else do {
         (err, mmc, ext_csd, s) \<leftarrow> startup_ext_csd md mmc s;
         if err \<noteq> 0 then Some (err, mmc, ext_csd, s)
         else do {
           let (err, mmc) = mmc_set_capacity mmc (mmc_part_num mmc);
           Some (err, mmc, ext_csd, s)
         }
       }
     }
   }"

definition startup_bus :: "bsp_config \<Rightarrow> env \<Rightarrow> media \<Rightarrow> u8 list \<Rightarrow> mmc \<Rightarrow> sys \<Rightarrow> (int \<times> mmc \<times> sys) option" where
  "startup_bus cfg e md ext_csd mmc s = do {
     (err, mmc, s) \<leftarrow> (if IS_SD mmc then sd_change_freq md mmc s else mmc_change_freq md mmc s);
     if err \<noteq> 0 then Some (err, mmc, s)
     else do {
       let mmc = mmc\<lparr>mmc_card_caps := mmc_card_caps mmc AND host_caps (mmc_cfg mmc)\<rparr>;
       (err, mmc, s) \<leftarrow> startup_width md ext_csd mmc s;
       if err \<noteq> 0 then Some (err, mmc, s) else startup_finish cfg e md mmc s
     }
   }"

definition mmc_startup :: "bsp_config \<Rightarrow> env \<Rightarrow> media \<Rightarrow> mmc \<Rightarrow> sys \<Rightarrow> (int \<times> mmc \<times> sys) option" where
  "mmc_startup cfg e md mmc s = do {
     (err, mmc, ext_csd, s) \<leftarrow> startup_registers md mmc s;
     if err \<noteq> 0 then Some (err, mmc, s) else startup_bus cfg e md ext_csd mmc s
   }"

section \<open>Initialising a slot\<close>

definition mmc_send_if_cond :: "media \<Rightarrow> mmc \<Rightarrow> sys \<Rightarrow> int \<times> mmc \<times> sys" where
  "mmc_send_if_cond md mmc s =
     (let arg = push_bit 8 (if voltages (mmc_cfg mmc) AND 0xff8000 \<noteq> 0 then 1 else 0) OR 0xaa;
          (err, resp, s) = plain_cmd md mmc SD_CMD_SEND_IF_COND MMC_RSP_R7 arg s
      in if err \<noteq> 0 then (err, mmc, s)
         else if resp 0 AND 0xff \<noteq> 0xaa then (UNUSABLE_ERR, mmc, s)
         else (0, mmc\<lparr>mmc_version := SD_VERSION_2\<rparr>, s))"

text \<open>\<open>mmc_create\<close>: the slot is allocated, numbered and added at the end of the list.  \<open>cur_dev_num\<close>
  is an argument and a result, and whether \<open>calloc\<close> has memory an argument; \<open>part_type\<close> of the configuration is 0.\<close>

definition mmc_create :: "bool \<Rightarrow> mmc_config \<Rightarrow> u32 \<Rightarrow> nat \<Rightarrow> sys \<Rightarrow> mmc option \<times> nat \<times> sys" where
  "mmc_create calloc cfg base cur_dev_num s =
     (if f_min cfg = 0 \<or> f_max cfg = 0 \<or> b_max cfg = 0 \<or> \<not> calloc then (None, cur_dev_num, s)
      else
        let mmc = mmc_zero\<lparr>mmc_cfg := cfg, mmc_esdhc_base := base, mmc_dsr_imp := 0, mmc_dsr := 0xffffffff,
              mmc_block_dev := (mmc_block_dev mmc_zero)\<lparr>bd_if_type := IF_TYPE_MMC, bd_dev := cur_dev_num, bd_removable := True,
                bd_part_type := PART_TYPE_UNKNOWN\<rparr>\<rparr>
        in (Some mmc, cur_dev_num + 1, s\<lparr>mmc_devices := mmc_devices s @ [mmc]\<rparr>))"

text \<open>\<open>mmc_getcd\<close>: the board's hook decides; it never returns a negative value.\<close>

definition mmc_getcd :: "env \<Rightarrow> mmc \<Rightarrow> sys \<Rightarrow> int \<times> sys" where
  "mmc_getcd e mmc s = board_mmc_getcd e (mmc_esdhc_base mmc) s"

definition mmc_start_init :: "env \<Rightarrow> media \<Rightarrow> mmc \<Rightarrow> sys \<Rightarrow> int \<times> mmc \<times> sys" where
  "mmc_start_init e md mmc s =
     (let (cd, s) = mmc_getcd e mmc s in
      if cd = 0 then (NO_CARD_ERR, mmc\<lparr>mmc_has_init := False\<rparr>, s)
      else if mmc_has_init mmc then (0, mmc, s)
      else
        let (err, mmc, s) = ops_init md mmc s in
        if err \<noteq> 0 then (err, mmc, s)
        else
          let (mmc, s) = mmc_set_bus_width md (mmc\<lparr>mmc_ddr_mode := False\<rparr>) 1 s;
              (mmc, s) = mmc_set_clock md mmc 1 s;
              (err, s) = mmc_go_idle md mmc s in
          if err \<noteq> 0 then (err, mmc, s)
          else
            let mmc = mmc\<lparr>mmc_part_num := 0\<rparr>;
                (_, mmc, s) = mmc_send_if_cond md mmc s;
                (err, mmc, s) = sd_send_op_cond md mmc s in
            if err = TIMEOUT then
              let (err, mmc, s) = mmc_send_op_cond md mmc s in
              if err \<noteq> 0 then (UNUSABLE_ERR, mmc, s) else (0, mmc\<lparr>mmc_init_in_progress := True\<rparr>, s)
            else (err, if err = 0 then mmc\<lparr>mmc_init_in_progress := True\<rparr> else mmc, s))"

definition mmc_complete_init :: "bsp_config \<Rightarrow> env \<Rightarrow> media \<Rightarrow> mmc \<Rightarrow> sys \<Rightarrow> (int \<times> mmc \<times> sys) option" where
  "mmc_complete_init cfg e md mmc s = do {
     let mmc = mmc\<lparr>mmc_init_in_progress := False\<rparr>;
     (err, mmc, s) \<leftarrow> (if mmc_op_cond_pending mmc then mmc_complete_op_cond e md mmc s else Some (0, mmc, s));
     (err, mmc, s) \<leftarrow> (if err = 0 then mmc_startup cfg e md mmc s else Some (err, mmc, s));
     Some (err, mmc\<lparr>mmc_has_init := (err = 0)\<rparr>, s)
   }"

definition mmc_init :: "bsp_config \<Rightarrow> env \<Rightarrow> media \<Rightarrow> mmc \<Rightarrow> sys \<Rightarrow> (int \<times> mmc \<times> sys) option" where
  "mmc_init cfg e md mmc s =
     (if mmc_has_init mmc then Some (0, mmc, s)
      else
        let (err, mmc, s) = (if mmc_init_in_progress mmc then (0, mmc, s) else mmc_start_init e md mmc s) in
        if err = 0 then mmc_complete_init cfg e md mmc s else Some (err, mmc, s))"

definition mmc_get_dev :: "bsp_config \<Rightarrow> env \<Rightarrow> media \<Rightarrow> nat \<Rightarrow> sys \<Rightarrow> (block_dev_desc option \<times> sys) option" where
  "mmc_get_dev cfg e md dev s =
     (case find_mmc_device dev s of
        None \<Rightarrow> Some (None, s)
      | Some mmc \<Rightarrow> do {
          (err, mmc, s) \<leftarrow> mmc_init cfg e md mmc s;
          Some (if err \<noteq> 0 then None else Some (mmc_block_dev mmc), store_mmc mmc s)
        })"

definition mmc_switch_part :: "media \<Rightarrow> mmc \<Rightarrow> u8 \<Rightarrow> sys \<Rightarrow> int \<times> mmc \<times> sys" where
  "mmc_switch_part md mmc part_num s =
     (let (ret, s) = mmc_switch md mmc EXT_CSD_CMD_SET_NORMAL EXT_CSD_PART_CONF
            ((mmc_part_config mmc AND NOT PART_ACCESS_MASK) OR (part_num AND PART_ACCESS_MASK)) s;
          (ret, mmc) = (if ret = 0 \<or> ret = - ENODEV \<and> part_num = 0 then mmc_set_capacity mmc part_num else (ret, mmc))
      in (ret, mmc, s))"

definition mmc_select_hwpart :: "media \<Rightarrow> nat \<Rightarrow> u8 \<Rightarrow> sys \<Rightarrow> int \<times> sys" where
  "mmc_select_hwpart md dev_num hwpart s =
     (case find_mmc_device dev_num s of
        None \<Rightarrow> (- ENODEV, s)
      | Some mmc \<Rightarrow>
          if mmc_part_num mmc = hwpart then (0, s)
          else if mmc_part_config mmc = MMCPART_NOAVAILABLE then (- EMEDIUMTYPE, s)
          else
            let (ret, mmc, s) = mmc_switch_part md mmc hwpart s in
            (ret, store_mmc (if ret \<noteq> 0 then mmc else mmc\<lparr>mmc_part_num := hwpart\<rparr>) s))"

section \<open>Devices by name\<close>

text \<open>\<open>get_dev\<close> with the two drivers of this build; only MMC has \<open>select_hwpart\<close>.  The
  description is the one in the slot, after the partition has been selected.\<close>

definition get_dev ::
  "bsp_config \<Rightarrow> env \<Rightarrow> media \<Rightarrow> string \<Rightarrow> nat \<Rightarrow> sys \<Rightarrow> (block_dev_desc option \<times> sys) option" where
  "get_dev cfg e md ifname dev s =
     (if take 3 ifname = ''usb'' then Some (usb_stor_get_dev dev s, s)
      else if take 3 ifname = ''mmc'' then do {
        (desc, s) \<leftarrow> mmc_get_dev cfg e md dev s;
        (case desc of
           None \<Rightarrow> Some (None, s)
         | Some dev_desc \<Rightarrow>
             let (ret, s) = mmc_select_hwpart md (bd_dev dev_desc) 0 s in
             Some (if ret < 0 then None else map_option mmc_block_dev (find_mmc_device (bd_dev dev_desc) s), s))
      }
      else Some (None, s))"

section \<open>What the identification leaves alone\<close>

text \<open>Everything but the list of slots.\<close>

definition slot_kept where
  "slot_kept s = (boot_data s, usb_dev_desc s, cur_dev s, cur_part_info s, do_fat_read_at_block s)"

lemma calm_slot_kept: "calm t = calm s \<Longrightarrow> slot_kept t = slot_kept s"
  by (simp add: calm_def fat_data_def slot_kept_def)

lemma slot_kept_store [simp]: "slot_kept (store_mmc mmc s) = slot_kept s"
  by (simp add: slot_kept_def boot_data_def store_mmc_def)

lemma slot_kept_boot_data: "slot_kept t = slot_kept s \<Longrightarrow> boot_data t = boot_data s"
  by (simp add: slot_kept_def)

lemma calm_simps [simp]:
  "calm (udelay n s) = calm s" "calm (snd (gpio_get_value e g s)) = calm s"
  by (simp_all add: calm_def boot_data_def fat_data_def udelay_def gpio_get_value_def Let_def)

lemma getcd_calm: "mmc_getcd e mmc s = (cd, t) \<Longrightarrow> calm t = calm s"
  using calm_simps(2) [of e USDHC1_CD_GPIO s]
  by (cases "gpio_get_value e USDHC1_CD_GPIO s") (auto simp: mmc_getcd_def board_mmc_getcd_def split: if_splits)

context quiet_media
begin

lemma plain_cmd_quiet: "plain_cmd md mmc idx rsp arg s = (r, resp, t) \<Longrightarrow> calm t = calm s"
  by (auto simp: plain_cmd_def split: prod.splits dest: mmc_send_cmd_quiet)

lemma data_cmd_quiet: "data_cmd md mmc idx arg len s = Some (r, bytes, t) \<Longrightarrow> calm t = calm s"
  by (auto simp: data_cmd_def split: prod.splits if_splits dest: mmc_send_cmd_quiet)

lemma send_status_quiet: "send_status_loop md mmc retries timeout s = (r, t) \<Longrightarrow> calm t = calm s"
proof (induction timeout arbitrary: retries s)
  case 0
  then show ?case
    by (subst (asm) send_status_loop.simps) (auto split: prod.splits if_splits dest!: plain_cmd_quiet)
next
  case (Suc timeout)
  from Suc.prems show ?case
    by (subst (asm) send_status_loop.simps) (auto split: prod.splits if_splits dest!: plain_cmd_quiet Suc.IH)
qed

lemma go_idle_quiet: "mmc_go_idle md mmc s = (r, t) \<Longrightarrow> calm t = calm s"
  by (auto simp: mmc_go_idle_def Let_def split: prod.splits if_splits dest!: plain_cmd_quiet)

lemma sd_op_cond_quiet: "sd_op_cond_loop md mmc timeout s = (r, ocr, t) \<Longrightarrow> calm t = calm s"
proof (induction timeout arbitrary: s)
  case 0
  then show ?case
    by (subst (asm) sd_op_cond_loop.simps) (auto split: prod.splits if_splits dest!: plain_cmd_quiet)
next
  case (Suc timeout)
  from Suc.prems show ?case
    by (subst (asm) sd_op_cond_loop.simps) (auto split: prod.splits if_splits dest!: plain_cmd_quiet Suc.IH)
qed

lemma sd_send_op_cond_quiet: "sd_send_op_cond md mmc s = (r, mmc', t) \<Longrightarrow> calm t = calm s"
  by (auto simp: sd_send_op_cond_def split: prod.splits if_splits dest!: sd_op_cond_quiet)

lemma op_cond_iter_quiet: "mmc_send_op_cond_iter md mmc use_arg s = (r, mmc', t) \<Longrightarrow> calm t = calm s"
  by (auto simp: mmc_send_op_cond_iter_def Let_def split: prod.splits if_splits dest!: plain_cmd_quiet)

lemma mmc_send_op_cond_quiet: "mmc_send_op_cond md mmc s = (r, mmc', t) \<Longrightarrow> calm t = calm s"
  by (auto simp: mmc_send_op_cond_def split: prod.splits if_splits dest!: go_idle_quiet op_cond_iter_quiet)

lemma op_cond_poll_quiet:
  assumes "op_cond_poll e md mmc start s = Some y"
  shows "calm (snd (snd y)) = calm s"
proof -
  have "md' = md \<longrightarrow> calm (snd (snd y)) = calm s" if "op_cond_poll e md' mmc start s = Some y" for md' y
    using that
  proof (rule op_cond_poll.raw_induct [rotated], goal_cases)
    case 1
    show ?case
      using 1(2) op_cond_iter_quiet by (auto simp: Let_def split: if_splits prod.splits dest!: 1(1)) (metis prod.collapse)+
  qed
  with assms show ?thesis
    by blast
qed

lemma complete_op_cond_quiet: "mmc_complete_op_cond e md mmc s = Some (r, mmc', t) \<Longrightarrow> calm t = calm s"
  by (auto simp: mmc_complete_op_cond_def Let_def split: Option.bind_splits if_splits dest!: op_cond_poll_quiet)

lemma mmc_switch_quiet: "mmc_switch md mmc cs i v s = (r, t) \<Longrightarrow> calm t = calm s"
  by (auto simp: mmc_switch_def mmc_send_status_def Let_def split: prod.splits if_splits dest!: plain_cmd_quiet send_status_quiet)

lemma change_freq_quiet: "mmc_change_freq md mmc s = Some (r, mmc', t) \<Longrightarrow> calm t = calm s"
  by (auto simp: mmc_change_freq_def mmc_send_ext_csd_def Let_def split: prod.splits if_splits Option.bind_splits
      dest!: data_cmd_quiet mmc_switch_quiet)

lemma read_scr_quiet: "read_scr md mmc timeout s = Some (r, scr, t) \<Longrightarrow> calm t = calm s"
proof (induction timeout arbitrary: s)
  case 0
  then show ?case
    by (subst (asm) read_scr.simps) (auto split: Option.bind_splits if_splits dest!: data_cmd_quiet)
next
  case (Suc timeout)
  from Suc.prems show ?case
    by (subst (asm) read_scr.simps) (auto split: Option.bind_splits if_splits dest!: data_cmd_quiet Suc.IH)
qed

lemma sd_switch_quiet: "sd_switch md mmc mode grp v s = Some (r, status, t) \<Longrightarrow> calm t = calm s"
  by (auto simp: sd_switch_def Let_def dest: data_cmd_quiet)

lemma switch_check_quiet: "switch_check md mmc timeout status s = Some (r, status', t) \<Longrightarrow> calm t = calm s"
  by (induction timeout arbitrary: status s) (auto split: Option.bind_splits if_splits dest!: sd_switch_quiet)

lemma sd_change_freq_quiet: "sd_change_freq md mmc s = Some (r, mmc', t) \<Longrightarrow> calm t = calm s"
  by (auto simp: sd_change_freq_def Let_def split: prod.splits if_splits Option.bind_splits
      dest!: plain_cmd_quiet read_scr_quiet switch_check_quiet sd_switch_quiet)

lemma set_ios_quiet [simp]: "calm (mmc_set_ios md mmc s) = calm s"
  by (simp add: mmc_set_ios_def ops_set_ios_quiet)

lemma set_width_quiet: "mmc_set_bus_width md mmc w s = (mmc', t) \<Longrightarrow> calm t = calm s"
  and set_clock_quiet: "mmc_set_clock md mmc c s = (mmc', t) \<Longrightarrow> calm t = calm s"
  by (auto simp: mmc_set_bus_width_def mmc_set_clock_def Let_def)

lemma startup_identify_quiet: "startup_identify md mmc s = (r, mmc', resp, t) \<Longrightarrow> calm t = calm s"
  by (auto simp: startup_identify_def mmc_send_status_def Let_def split: prod.splits if_splits
      dest!: plain_cmd_quiet send_status_quiet)

lemma startup_select_quiet: "startup_select md mmc s = (r, mmc', t) \<Longrightarrow> calm t = calm s"
  by (cases "plain_cmd md mmc MMC_CMD_SET_DSR MMC_RSP_NONE (push_bit 16 (mmc_dsr mmc AND 0xffff)) s")
     (auto simp: startup_select_def Let_def split: prod.splits if_splits dest!: plain_cmd_quiet)

lemma startup_ext_csd_quiet: "startup_ext_csd md mmc s = Some (r, mmc', ext, t) \<Longrightarrow> calm t = calm s"
  by (auto simp: startup_ext_csd_def mmc_send_ext_csd_def Let_def split: prod.splits if_splits Option.bind_splits
      dest!: data_cmd_quiet mmc_switch_quiet)

lemma width_loop_quiet: "width_loop md ext ws err mmc s = Some (r, mmc', t) \<Longrightarrow> calm t = calm s"
proof (induction ws arbitrary: err mmc s)
  case (Cons w ws)
  obtain extw caps width where w: "w = (extw, caps, width)"
    by (cases w) auto
  from Cons.prems show ?case
    by (auto simp: w mmc_send_ext_csd_def Let_def split: prod.splits if_splits Option.bind_splits
        dest!: Cons.IH data_cmd_quiet mmc_switch_quiet set_width_quiet)
qed simp

lemma startup_width_quiet: "startup_width md ext mmc s = Some (r, mmc', t) \<Longrightarrow> calm t = calm s"
  by (auto simp: startup_width_def Let_def split: prod.splits if_splits Option.bind_splits
      dest!: plain_cmd_quiet width_loop_quiet set_width_quiet)

lemma startup_finish_quiet:
  assumes "startup_finish cfg e md mmc s = Some (r, mmc', t)"
  shows "slot_kept t = slot_kept s"
proof -
  obtain m u where m: "mmc_set_clock md mmc (mmc_tran_speed mmc) s = (m, u)" "calm u = calm s"
    using set_clock_quiet by (metis surj_pair)
  show ?thesis
    using assms calm_slot_kept [OF m(2)]
    by (auto simp: startup_finish_def m(1) Let_def split: Option.bind_splits dest!: init_part_quiet [THEN calm_slot_kept])
qed

lemma startup_registers_quiet: "startup_registers md mmc s = Some (r, mmc', ext, t) \<Longrightarrow> calm t = calm s"
  by (auto simp: startup_registers_def Let_def split: prod.splits if_splits Option.bind_splits
      dest!: startup_identify_quiet startup_select_quiet startup_ext_csd_quiet)

lemma startup_bus_quiet: "startup_bus cfg e md ext mmc s = Some (r, mmc', t) \<Longrightarrow> slot_kept t = slot_kept s"
  by (auto simp: startup_bus_def Let_def split: prod.splits if_splits Option.bind_splits
      dest!: sd_change_freq_quiet [THEN calm_slot_kept] change_freq_quiet [THEN calm_slot_kept]
        startup_width_quiet [THEN calm_slot_kept] startup_finish_quiet)

lemma mmc_startup_quiet: "mmc_startup cfg e md mmc s = Some (r, mmc', t) \<Longrightarrow> slot_kept t = slot_kept s"
  by (auto simp: mmc_startup_def split: if_splits Option.bind_splits
      dest!: startup_registers_quiet [THEN calm_slot_kept] startup_bus_quiet)

lemma if_cond_quiet: "mmc_send_if_cond md mmc s = (r, mmc', t) \<Longrightarrow> calm t = calm s"
  by (auto simp: mmc_send_if_cond_def Let_def split: prod.splits if_splits dest!: plain_cmd_quiet)

lemma start_init_quiet: "mmc_start_init e md mmc s = (r, mmc', t) \<Longrightarrow> calm t = calm s"
  by (auto simp: mmc_start_init_def Let_def split: prod.splits if_splits
      dest!: getcd_calm ops_init_quiet set_width_quiet set_clock_quiet go_idle_quiet if_cond_quiet
        sd_send_op_cond_quiet mmc_send_op_cond_quiet)

lemma mmc_init_quiet: "mmc_init cfg e md mmc s = Some (r, mmc', t) \<Longrightarrow> slot_kept t = slot_kept s"
  by (auto simp: mmc_init_def mmc_complete_init_def Let_def split: prod.splits if_splits Option.bind_splits
      dest!: start_init_quiet [THEN calm_slot_kept] complete_op_cond_quiet [THEN calm_slot_kept] mmc_startup_quiet)

lemma mmc_get_dev_quiet: "mmc_get_dev cfg e md dev s = Some (desc, t) \<Longrightarrow> slot_kept t = slot_kept s"
  by (auto simp: mmc_get_dev_def split: option.splits Option.bind_splits dest!: mmc_init_quiet)

lemma select_hwpart_quiet: "mmc_select_hwpart md dev hwpart s = (r, t) \<Longrightarrow> slot_kept t = slot_kept s"
  by (auto simp: mmc_select_hwpart_def mmc_switch_part_def Let_def split: option.splits prod.splits if_splits
      dest!: mmc_switch_quiet [THEN calm_slot_kept])

lemma get_dev_quiet: "get_dev cfg e md ifname dev s = Some (desc, t) \<Longrightarrow> slot_kept t = slot_kept s"
  by (auto simp: get_dev_def Let_def split: if_splits prod.splits option.splits Option.bind_splits
      dest!: mmc_get_dev_quiet select_hwpart_quiet)

end

section \<open>An empty slot\<close>

definition slot_empty :: "env \<Rightarrow> sys \<Rightarrow> bool" where
  "slot_empty e s \<longleftrightarrow>
     list_all (\<lambda>m. \<not> mmc_has_init m \<and> \<not> mmc_init_in_progress m \<and> (\<forall>t. fst (mmc_getcd e m t) = 0)) (mmc_devices s)"

lemma get_dev_empty:
  assumes "slot_empty e s"
  shows "\<exists>t. get_dev cfg e md ''mmc'' dev s = Some (None, t)"
proof (cases "find_mmc_device dev s")
  case None
  then show ?thesis
    by (simp add: get_dev_def mmc_get_dev_def)
next
  case (Some m)
  then have m: "\<not> mmc_has_init m" "\<not> mmc_init_in_progress m" "fst (mmc_getcd e m s) = 0"
    using assms by (auto simp: slot_empty_def find_mmc_device_def list_all_iff dest: find_Some_iff [THEN iffD1])
  then show ?thesis
    using Some by (cases "mmc_getcd e m s") (simp add: get_dev_def mmc_get_dev_def mmc_init_def mmc_start_init_def NO_CARD_ERR_def)
qed

end
