(* ===== verification/Os_Boot.thy ===== *)
theory Os_Boot
  imports Fat_Frame Mmc_Card
begin

text \<open>
  The boot flow of the pendant (\<open>mx6sabresd.c\<close>): bringing the board up (\<open>board_init\<close>), reading
  the reference text and the image it names from USB or SD, leaving the boot information in the
  shared argument area, copying EBOOT from NOR flash to RAM and jumping to it
  (\<open>os_boot_submain\<close>, called by \<open>autoboot_command\<close>).

  A function returns an option: \<open>None\<close> means that the C code does not return or leaves the bounds
  of an object.  The address of the local array \<open>FileName\<close> and the value an uninitialised local
  starts with are arguments.
\<close>

section \<open>Bringing the board up\<close>

text \<open>\<open>setup_i2c\<close>, a driver of its own, is an argument.\<close>

definition board_init :: "bsp_config \<Rightarrow> env \<Rightarrow> (sys \<Rightarrow> sys) \<Rightarrow> sys \<Rightarrow> int \<times> sys" where
  "board_init cfg e setup_i2c s =
     (let s = SetupBootMode cfg e s;
          s = ccm_init s;
          s = setup_spi s;
          s = setup_i2c s;
          s = setup_eimnor s;
          s = setup_gpio e s;
          s = setup_usb s;
          s = setup_display s;
          s = BlinkAllLEDs cfg 0 s;
          s = SW_LED cfg 0 s
      in (0, s))"

section \<open>Reading files\<close>

definition STORAGE_DEV_NAME_USB :: string where "STORAGE_DEV_NAME_USB = ''usb''"
definition STORAGE_DEV_NUM_USB :: string where "STORAGE_DEV_NUM_USB = ''0''"
definition STORAGE_DEV_NAME_MMC :: string where "STORAGE_DEV_NAME_MMC = ''mmc''"
definition STORAGE_DEV_NUM_MMC :: string where "STORAGE_DEV_NUM_MMC = ''0''"
definition INST_TEXT_FILENAME :: cstr where "INST_TEXT_FILENAME = map of_char ''2016INST.TXT''"
definition TEST_TEXT_FILENAME :: cstr where "TEST_TEXT_FILENAME = map of_char ''MNT.KEY''"

definition SDCardExistCheck :: "env \<Rightarrow> sys \<Rightarrow> int \<times> sys" where
  "SDCardExistCheck e s =
     (let (v, s) = gpio_get_value e USDHC1_CD_GPIO s in (if c_true v then 0 else 1, s))"

text \<open>The loop over the partitions; \<open>stop\<close> says whether -2 ends it, as in \<open>osBoot_fat_fsload\<close>.\<close>

fun register_parts ::
  "bsp_config \<Rightarrow> env \<Rightarrow> media \<Rightarrow> bool \<Rightarrow> block_dev_desc \<Rightarrow> int list \<Rightarrow> int \<Rightarrow> sys \<Rightarrow> (int \<times> sys) option" where
  "register_parts cfg e md stop dev_desc [] ret s = Some (ret, s)"
| "register_parts cfg e md stop dev_desc (part # parts) ret s = do {
     (ret, s) \<leftarrow> fat_register_device cfg e md dev_desc part s;
     if ret = 0 \<or> stop \<and> ret = - 2 then Some (ret, s)
     else register_parts cfg e md stop dev_desc parts ret s
   }"

declare register_parts.simps [simp del]

text \<open>(Return value, \<open>*filesize\<close>, bytes stored at \<open>Offset\<close>, state).  \<open>*filesize\<close> is stored only
  with return value 0 and is given as 0 otherwise.\<close>

definition osBoot_fat_fsload ::
  "bsp_config \<Rightarrow> env \<Rightarrow> media \<Rightarrow> string \<Rightarrow> string \<Rightarrow> u32 \<Rightarrow> cstr \<Rightarrow> sys
    \<Rightarrow> (int \<times> u32 \<times> u8 list \<times> sys) option" where
  "osBoot_fat_fsload cfg e md devname devnum Offset filename s =
     (let (dev, ep) = simple_strtoul devnum 16 in do {
        (found, s) \<leftarrow> get_dev cfg e md devname (unat dev) s;
        (case found of
           None \<Rightarrow> Some (1, 0, [], s)
         | Some dev_desc \<Rightarrow>
             if ep \<noteq> [] \<and> hd ep \<noteq> CHR '':'' then Some (1, 0, [], s)
             else do {
               (ret, s) \<leftarrow> register_parts cfg e md True dev_desc [1, 2, 3] 0 s;
               if ret \<noteq> 0 then Some (2, 0, [], s)
               else do {
                 (n, bytes, s) \<leftarrow> file_fat_read cfg e md filename Offset (uint READ_FILE_MAX_SIZE) s;
                 let size = (of_int n :: u32) in
                 if size = - 1 then Some (3, 0, bytes, s) else Some (0, size, bytes, s)
               }
             })
      })"

text \<open>The image: (return value, \<open>*filesize\<close> if stored, state); the file goes to memory at
  \<open>Offset\<close>, and \<open>nk_load\<close> takes it apart.\<close>

definition osBoot_fat_fsload_bin ::
  "bsp_config \<Rightarrow> env \<Rightarrow> media \<Rightarrow> string \<Rightarrow> string \<Rightarrow> u32 \<Rightarrow> cstr \<Rightarrow> sys
    \<Rightarrow> (int \<times> u32 option \<times> sys) option" where
  "osBoot_fat_fsload_bin cfg e md devname devnum Offset filename s =
     (let (dev, ep) = simple_strtoul devnum 16 in do {
        (found, s) \<leftarrow> get_dev cfg e md devname (unat dev) s;
        (case found of
           None \<Rightarrow> Some (1, None, s)
         | Some dev_desc \<Rightarrow>
             if ep \<noteq> [] \<and> hd ep \<noteq> CHR '':'' then Some (1, None, s)
             else do {
               (ret, s) \<leftarrow> register_parts cfg e md False dev_desc [1, 2, 3] 0 s;
               if ret \<noteq> 0 then Some (2, None, s)
               else do {
                 let s = TimerInit e 100 (setup_led cfg s);
                 (retval, chk_size, s) \<leftarrow> fat_size cfg e md filename s;
                 if retval \<noteq> 0 then Some (3, None, s)
                 else if chk_size > uint READ_FILE_MAX_SIZE_120 then Some (- 1, None, s)
                 else do {
                   (size, bytes, s) \<leftarrow> file_fat_read cfg e md filename Offset (uint READ_FILE_MAX_SIZE_120) s;
                   let s = BlinkAllLEDs cfg 0 (s\<lparr>mem := put_bytes Offset bytes (mem s)\<rparr>);
                   if size = - 1 then Some (3, None, s)
                   else do {
                     (ret, dwSize, s) \<leftarrow> nk_load cfg s;
                     if ret \<noteq> 0 then Some (ret, None, s)
                     else Some (0, Some dwSize, BlinkAllLEDs cfg 0 s)
                   }
                 }
               }
             })
      })"

section \<open>The local array \<open>FileName\<close>\<close>

text \<open>Storing bytes from the start of a local array on; past its end the store leaves it.\<close>

definition store_local :: "u8 list \<Rightarrow> u8 list \<Rightarrow> u8 list option" where
  "store_local buf bytes =
     (if length bytes \<le> length buf then Some (bytes @ drop (length bytes) buf) else None)"

text \<open>The loop that cuts the name at the end of the line.\<close>

fun clean_name :: "u8 list \<Rightarrow> u8 list" where
  "clean_name [] = []"
| "clean_name (b # bs) =
     (if b = 0 then b # bs else (if b = 0x0d \<or> b = 0x0a then 0 else b) # clean_name bs)"

text \<open>The array read as a C string; without a terminator the reader leaves the array.\<close>

definition string_of_array :: "u8 list \<Rightarrow> cstr option" where
  "string_of_array buf = (if 0 \<in> set buf then Some (takeWhile (\<lambda>b. b \<noteq> 0) buf) else None)"

section \<open>EBOOT\<close>

definition load_eboot :: "sys \<Rightarrow> int \<times> sys" where
  "load_eboot s =
     (let m = memset IMAGE_EBOOT_RAM_BASE_ADDR 0 IMAGE_BOOT_EBOOTIMAGE_NOR_SIZE (mem s);
          m = memcpy IMAGE_EBOOT_RAM_BASE_ADDR IMAGE_BOOT_EBOOTIMAGE_NOR_PA_START
                IMAGE_BOOT_EBOOTIMAGE_NOR_SIZE m
      in (0, s\<lparr>mem := m\<rparr>))"

section \<open>Boot information\<close>

text \<open>The stores at the end of the three mode functions, in their order.\<close>

definition set_boot_device :: "bsp_config \<Rightarrow> boot_device \<Rightarrow> memory \<Rightarrow> memory" where
  "set_boot_device cfg bootDevice m =
     (if bootDevice = WEIM_NOR_BOOT then put_bootDevice cfg BOOT_DEVICE_NOR m
      else if bootDevice = SD_BOOT then put_bootDevice cfg BOOT_DEVICE_SD m
      else m)"

definition set_versions :: "bsp_config \<Rightarrow> sys \<Rightarrow> memory \<Rightarrow> memory" where
  "set_versions cfg s m =
     (let m = put_boardVersion cfg (Board_Version s) m
      in if BSP_SUPPORT_VERCHK cfg then put_AllowBootVersion cfg (take 8 (Allow_Boot_Version s)) m else m)"

definition osBoot_Mode_0367 :: "bsp_config \<Rightarrow> u32 \<Rightarrow> sys \<Rightarrow> int \<times> sys" where
  "osBoot_Mode_0367 cfg mode s =
     (let bootMedia = 0;
          bootDevice = get_boot_device s;
          errCode = ERROR_PP_BL_NO_ERROR;
          m = set_boot_device cfg bootDevice (mem s);
          m = put_strage cfg bootMedia m;
          m = put_errorCode cfg errCode m;
          m = put_osImageSize cfg 0 m;
          m = put_bootMode cfg
                (if mode = 0 then BOOT_CFG_BOOTMODE_0
                 else if mode = 3 then BOOT_CFG_BOOTMODE_3
                 else if mode = 6 then BOOT_CFG_BOOTMODE_6
                 else BOOT_CFG_BOOTMODE_7) m;
          m = set_versions cfg s m
      in (0, s\<lparr>mem := m\<rparr>))"

section \<open>Modes 1, 2, 4 and 5\<close>

text \<open>The two LEDs that show which medium is searched.\<close>

definition search_leds :: "bsp_config \<Rightarrow> int \<Rightarrow> int \<Rightarrow> sys \<Rightarrow> sys" where
  "search_leds cfg usb sd s =
     (if BSP_SUPPORT_HIRATA cfg then gpio_run [Set_value (LED_GPIO3 19) usb, Set_value (LED_GPIO3 20) sd] s
      else gpio_run [Set_value (LED_GPIO3 30) usb, Set_value (LED_GPIO3 29) sd] s)"

text \<open>The local variables of \<open>osBoot_Mode_1245\<close>.\<close>

record search =
  errCode :: u32
  bootMedia :: u32
  FileSize :: u32
  FileName :: "u8 list"

text \<open>The image the text in \<open>FileName\<close> names, read with the LEDs blinking: (return value, locals,
  state).\<close>

definition load_named_image ::
  "bsp_config \<Rightarrow> env \<Rightarrow> media \<Rightarrow> string \<Rightarrow> string \<Rightarrow> search \<Rightarrow> sys \<Rightarrow> (int \<times> search \<times> sys) option" where
  "load_named_image cfg e md devname devnum v s = do {
     let v = v\<lparr>FileName := clean_name (FileName v)\<rparr>;
     name \<leftarrow> string_of_array (FileName v);
     let s = s\<lparr>ledEnable := 1\<rparr>;
     (ret, size, s) \<leftarrow>
       osBoot_fat_fsload_bin cfg e md devname devnum IMAGE_BOOT_NKIMAGE_RAM_PA_STORE_START name s;
     let v = (case size of None \<Rightarrow> v | Some n \<Rightarrow> v\<lparr>FileSize := n\<rparr>);
     Some (ret, v, s\<lparr>ledEnable := 0\<rparr>)
   }"

text \<open>\<open>fn\<close> is the address of \<open>FileName\<close>; the single round of the \<open>while\<close> loop.\<close>

definition search_usb ::
  "bsp_config \<Rightarrow> env \<Rightarrow> media \<Rightarrow> u32 \<Rightarrow> search \<Rightarrow> sys \<Rightarrow> (search \<times> sys) option" where
  "search_usb cfg e md fn v s = do {
     s \<leftarrow> go_usb_start md s;
     (ret, _, bytes, s) \<leftarrow>
       osBoot_fat_fsload cfg e md STORAGE_DEV_NAME_USB STORAGE_DEV_NUM_USB fn INST_TEXT_FILENAME s;
     buf \<leftarrow> store_local (FileName v) bytes;
     let v = v\<lparr>FileName := buf\<rparr>;
     if ret = 0 then do {
       (ret, v, s) \<leftarrow> load_named_image cfg e md STORAGE_DEV_NAME_USB STORAGE_DEV_NUM_USB v s;
       if ret \<noteq> 0 then
         (if ret = 3 then Some (v\<lparr>errCode := ERROR_PP_BL_USB_NO_OSIMG, bootMedia := BOOT_STORAGE_USB\<rparr>, s)
          else if ret = 1 then Some (v\<lparr>errCode := ERROR_PP_BL_USB_NO_OSIMG, bootMedia := BOOT_STORAGE_USB\<rparr>, s)
          else if ret = 2 then Some (v\<lparr>errCode := ERROR_PP_BL_USB_INVALID_FS, bootMedia := BOOT_STORAGE_USB\<rparr>, s)
          else if BSP_SUPPORT_SUMERR cfg \<and> ret = - 3
            then Some (v\<lparr>errCode := ERROR_PP_BL_NK_SUM_ERROR, bootMedia := BOOT_STORAGE_USB\<rparr>, s)
          else Some (v\<lparr>errCode := ERROR_PP_BL_FLASH_ERROR, bootMedia := BOOT_STORAGE_USB\<rparr>, s))
       else Some (v\<lparr>bootMedia := BOOT_STORAGE_USB\<rparr>, s)
     }
     else if ret = 1 then Some (v, s)
     else
       let (exist, s) = SDCardExistCheck e s in
       if exist \<noteq> 0 then Some (v\<lparr>errCode := ERROR_PP_BL_NO_ERROR, bootMedia := 0\<rparr>, s)
       else if ret = 2 then Some (v\<lparr>errCode := ERROR_PP_BL_USB_INVALID_FS, bootMedia := BOOT_STORAGE_USB\<rparr>, s)
       else if ret = 3 then Some (v\<lparr>errCode := ERROR_PP_BL_USB_NO_REFTEXT, bootMedia := BOOT_STORAGE_USB\<rparr>, s)
       else Some (v\<lparr>bootMedia := BOOT_STORAGE_USB\<rparr>, s)
   }"

definition search_sd ::
  "bsp_config \<Rightarrow> env \<Rightarrow> media \<Rightarrow> u32 \<Rightarrow> search \<Rightarrow> sys \<Rightarrow> (search \<times> sys) option" where
  "search_sd cfg e md fn v s = do {
     let v = v\<lparr>bootMedia := BOOT_STORAGE_SD\<rparr>;
     (ret, _, bytes, s) \<leftarrow>
       osBoot_fat_fsload cfg e md STORAGE_DEV_NAME_MMC STORAGE_DEV_NUM_MMC fn INST_TEXT_FILENAME s;
     buf \<leftarrow> store_local (FileName v) bytes;
     let v = v\<lparr>FileName := buf\<rparr>;
     if ret = 0 then do {
       (ret, v, s) \<leftarrow> load_named_image cfg e md STORAGE_DEV_NAME_MMC STORAGE_DEV_NUM_MMC v s;
       if ret \<noteq> 0 then
         (if ret = 3 then Some (v\<lparr>errCode := ERROR_PP_BL_SD_NO_OSIMG\<rparr>, s)
          else if ret = 1 then Some (v\<lparr>errCode := ERROR_PP_BL_SD_NO_OSIMG\<rparr>, s)
          else if ret = 2 then Some (v\<lparr>errCode := ERROR_PP_BL_SD_INVALID_FS\<rparr>, s)
          else if BSP_SUPPORT_SUMERR cfg \<and> ret = - 3 then Some (v\<lparr>errCode := ERROR_PP_BL_NK_SUM_ERROR\<rparr>, s)
          else Some (v\<lparr>errCode := ERROR_PP_BL_FLASH_ERROR\<rparr>, s))
       else Some (v\<lparr>bootMedia := BOOT_STORAGE_SD\<rparr>, s)
     }
     else if ret = 1 then Some (v\<lparr>errCode := ERROR_PP_BL_NO_USB_SD\<rparr>, s)
     else if ret = 2 then Some (v\<lparr>errCode := ERROR_PP_BL_SD_INVALID_FS\<rparr>, s)
     else if ret = 3 then Some (v\<lparr>errCode := ERROR_PP_BL_SD_NO_REFTEXT\<rparr>, s)
     else Some (v, s)
   }"

text \<open>\<open>stack\<close> is what the uninitialised local \<open>FileSize\<close> holds on entry.\<close>

definition osBoot_Mode_1245 ::
  "bsp_config \<Rightarrow> env \<Rightarrow> media \<Rightarrow> u32 \<Rightarrow> u32 \<Rightarrow> u32 \<Rightarrow> sys \<Rightarrow> (int \<times> sys) option" where
  "osBoot_Mode_1245 cfg e md fn stack mode s = do {
     let bootDevice = get_boot_device s;
     let v = \<lparr>errCode = ERROR_PP_BL_NO_ERROR, bootMedia = 0, FileSize = stack, FileName = replicate 128 0\<rparr>;
     let s = search_leds cfg 1 0 s;
     let s = TimerInit e 250 s;
     (v, s) \<leftarrow> search_usb cfg e md fn v s;
     let s = search_leds cfg 0 1 s;
     (v, s) \<leftarrow> (if errCode v = ERROR_PP_BL_NO_ERROR \<and> bootMedia v = 0 then search_sd cfg e md fn v s
                else Some (v, s));
     let s = search_leds cfg 0 0 s;
     let m = set_boot_device cfg bootDevice (mem s);
     let m = put_strage cfg (bootMedia v) m;
     let m = put_errorCode cfg (errCode v) m;
     let m = put_osImageSize cfg (FileSize v) m;
     let m = put_bootMode cfg
               (if mode = 1 then BOOT_CFG_BOOTMODE_1
                else if mode = 2 then BOOT_CFG_BOOTMODE_2
                else if mode = 4 then BOOT_CFG_BOOTMODE_4
                else BOOT_CFG_BOOTMODE_5) m;
     let m = set_versions cfg s m;
     Some (0, s\<lparr>mem := m\<rparr>)
   }"

section \<open>Mode 8\<close>

definition osBoot_Mode_8 ::
  "bsp_config \<Rightarrow> env \<Rightarrow> media \<Rightarrow> u32 \<Rightarrow> u32 \<Rightarrow> sys \<Rightarrow> (int \<times> sys) option" where
  "osBoot_Mode_8 cfg e md fn mode s = do {
     let bootMedia = 0;
     let errCode = ERROR_PP_BL_NO_ERROR;
     let FileSize = 0;
     let s = TimerInit e 250 s;
     (ret, _, bytes, s) \<leftarrow>
       osBoot_fat_fsload cfg e md STORAGE_DEV_NAME_MMC STORAGE_DEV_NUM_MMC fn TEST_TEXT_FILENAME s;
     _ \<leftarrow> store_local (replicate 128 0) bytes;
     let m = put_bootDevice cfg BOOT_DEVICE_NOR (mem s);
     let m = put_strage cfg bootMedia m;
     let m = put_errorCode cfg errCode m;
     let m = put_osImageSize cfg FileSize m;
     let m = put_bootMode cfg (if ret = 0 then BOOT_CFG_BOOTMODE_8 else BOOT_CFG_BOOTMODE_0) m;
     let m = set_versions cfg s m;
     Some (0, s\<lparr>mem := m\<rparr>)
   }"

section \<open>The main flow\<close>

text \<open>\<open>os_boot_submain\<close> either returns or jumps; what is jumped to does not come back.
  \<open>cleanup_before_linux\<close>, which disables caches and interrupts, is an argument.\<close>

datatype boot_end = Returned int | Jumped u32

definition os_boot_submain ::
  "bsp_config \<Rightarrow> env \<Rightarrow> media \<Rightarrow> (sys \<Rightarrow> sys) \<Rightarrow> u32 \<Rightarrow> u32 \<Rightarrow> sys \<Rightarrow> (boot_end \<times> sys) option" where
  "os_boot_submain cfg e md cleanup_before_linux fn stack s =
     (let bootMode = osBoot_KEYIn_Mode s;
          jump = (\<lambda>s. let (ret, s) = load_eboot s in
                  if ret \<noteq> 0 then Some (Returned ret, s)
                  else Some (Jumped IMAGE_EBOOT_JUMP_ADDR, cleanup_before_linux s))
      in if bootMode \<in> {0, 3, 6, 7} then jump (snd (osBoot_Mode_0367 cfg bootMode s))
         else if bootMode \<in> {1, 2, 4, 5} then do {
           (_, s) \<leftarrow> osBoot_Mode_1245 cfg e md fn stack bootMode s;
           jump s
         }
         else if bootMode = 8 then do {
           (_, s) \<leftarrow> osBoot_Mode_8 cfg e md fn bootMode s;
           jump s
         }
         else Some (Returned 1, s))"

text \<open>The call in \<open>common/autoboot.c\<close>: the boot command and the answer to the prompt are arguments.\<close>

definition autoboot_command ::
  "bsp_config \<Rightarrow> env \<Rightarrow> media \<Rightarrow> (sys \<Rightarrow> sys) \<Rightarrow> (int \<Rightarrow> sys \<Rightarrow> bool \<times> sys) \<Rightarrow> int \<Rightarrow> string option
    \<Rightarrow> u32 \<Rightarrow> u32 \<Rightarrow> sys \<Rightarrow> (boot_end option \<times> sys) option" where
  "autoboot_command cfg e md cleanup_before_linux abortboot stored_bootdelay cmd fn stack s =
     (if stored_bootdelay \<noteq> - 1 \<and> cmd \<noteq> None then
        let (abort, s) = abortboot stored_bootdelay s in
        if \<not> abort then do {
          (r, s) \<leftarrow> os_boot_submain cfg e md cleanup_before_linux fn stack s;
          Some (Some r, s)
        }
        else Some (None, s)
      else Some (None, s))"

end
