(* ===== verification/Boot_Flow.thy ===== *)
theory Boot_Flow
  imports Os_Boot
begin

text \<open>
  The boot flow keeps its promises.  EBOOT in RAM is the image in NOR flash and copying it leaves
  the boot information alone; modes 0, 3, 6 and 7 reach the jump in every state; in modes 1, 2, 4
  and 5 the reported pair of error code and medium is one of the documented ones, and "no error" is
  reported only when an image was loaded from the reported medium; mode 8 is passed on only when
  \<open>MNT.KEY\<close> was read; and \<open>board_init\<close> leaves the mode that the pressed keys select.

  The lemmas about media hold in the locale \<open>quiet_media\<close>.
\<close>

section \<open>The argument area\<close>

definition in_boot_info :: "bsp_config \<Rightarrow> u32 \<Rightarrow> bool" where
  "in_boot_info cfg a \<longleftrightarrow> unat (a - pBoootInfo cfg) < sizeof_BSP_BOOT_INFO cfg"

lemma put_field_outside:
  assumes "\<not> in_boot_info cfg a" and "i + length bs \<le> sizeof_BSP_BOOT_INFO cfg"
  shows "put_bytes (field_at (pBoootInfo cfg) i) bs m a = m a"
proof (rule ccontr)
  let ?d = "a - field_at (pBoootInfo cfg) i"
  assume "put_bytes (field_at (pBoootInfo cfg) i) bs m a \<noteq> m a"
  then have d: "unat ?d < length bs"
    by (auto simp: put_bytes_def split: if_splits)
  have i: "unat (of_nat i :: u32) = i" and small: "i + unat ?d < 2 ^ 32"
    using assms(2) d sizeof_BSP_BOOT_INFO_cases [of cfg]
    by (simp_all add: unsigned_of_nat take_bit_nat_eq_self split: if_splits)
  have "unat (?d + of_nat i) = unat ?d + i"
    using unat_add_small [of ?d "of_nat i"] i small by (simp add: add.commute)
  moreover have "?d + of_nat i = a - pBoootInfo cfg"
    by (simp add: field_at_def)
  ultimately have "unat (a - pBoootInfo cfg) = unat ?d + i"
    by metis
  then show False
    using assms d by (simp add: in_boot_info_def)
qed

lemma put_outside:
  assumes "\<not> in_boot_info cfg a"
  shows "put_bootMode cfg v m a = m a" "put_errorCode cfg v m a = m a" "put_bootDevice cfg v m a = m a"
    "put_strage cfg v m a = m a" "put_osImageSize cfg v m a = m a" "put_boardVersion cfg b m a = m a"
    and "length bs \<le> allow_len cfg \<Longrightarrow> put_AllowBootVersion cfg bs m a = m a"
  using assms
  by (simp_all add: put_defs write_le32_def put_field_outside sizeof_BSP_BOOT_INFO_cases
      boardVersion_off_def allow_len_def split: if_splits)

text \<open>The stores of the mode functions: where they do not write, and what the structure becomes.\<close>

lemma set_outside:
  assumes "\<not> in_boot_info cfg a"
  shows "set_boot_device cfg d m a = m a" and "set_versions cfg s m a = m a"
  using assms by (simp_all add: set_boot_device_def set_versions_def put_outside allow_len_def Let_def)

definition device_code :: "boot_device \<Rightarrow> u32 \<Rightarrow> u32" where
  "device_code d old = (if d = WEIM_NOR_BOOT then BOOT_DEVICE_NOR else if d = SD_BOOT then BOOT_DEVICE_SD else old)"

lemma boot_info_set_device:
  "boot_info_of cfg (set_boot_device cfg d m)
    = (boot_info_of cfg m)\<lparr>bi_bootDevice := device_code d (bi_bootDevice (boot_info_of cfg m))\<rparr>"
  by (simp add: set_boot_device_def device_code_def boot_info_put)

definition versions_ok :: "bsp_config \<Rightarrow> sys \<Rightarrow> bool" where
  "versions_ok cfg s \<longleftrightarrow> (BSP_SUPPORT_VERCHK cfg \<longrightarrow> length (Allow_Boot_Version s) = 8)"

lemma boot_info_set_versions:
  assumes "versions_ok cfg s"
  shows "boot_info_of cfg (set_versions cfg s m)
    = (boot_info_of cfg m)\<lparr>bi_boardVersion := Board_Version s,
        bi_AllowBootVersion := (if BSP_SUPPORT_VERCHK cfg then Allow_Boot_Version s else [])\<rparr>"
proof -
  have "bi_AllowBootVersion (boot_info_of cfg m) = []" if "\<not> BSP_SUPPORT_VERCHK cfg"
    using that by (simp add: boot_info_of_def allow_len_def Let_def)
  then show ?thesis
    using assms by (simp add: set_versions_def boot_info_put versions_ok_def allow_len_def)
qed

section \<open>EBOOT\<close>

lemma eboot_copy:
  "get_bytes (mem (snd (load_eboot s))) IMAGE_EBOOT_RAM_BASE_ADDR (unat IMAGE_BOOT_EBOOTIMAGE_NOR_SIZE)
    = get_bytes (mem s) IMAGE_BOOT_EBOOTIMAGE_NOR_PA_START (unat IMAGE_BOOT_EBOOTIMAGE_NOR_SIZE)"
proof (rule nth_equalityI, simp)
  fix i
  assume "i < length (get_bytes (mem (snd (load_eboot s))) IMAGE_EBOOT_RAM_BASE_ADDR (unat IMAGE_BOOT_EBOOTIMAGE_NOR_SIZE))"
  then have i: "i < 524288"
    by (simp add: layout_defs)
  then have u: "unat (of_nat i :: u32) = i"
    by (simp add: unsigned_of_nat take_bit_nat_eq_self)
  have "unat (IMAGE_BOOT_EBOOTIMAGE_NOR_PA_START + of_nat i) = unat IMAGE_BOOT_EBOOTIMAGE_NOR_PA_START + i"
    using i u unat_add_small [of IMAGE_BOOT_EBOOTIMAGE_NOR_PA_START "of_nat i"] by (simp add: layout_defs)
  then have "\<not> in_region IMAGE_EBOOT_RAM_BASE_ADDR IMAGE_BOOT_EBOOTIMAGE_NOR_SIZE
      (IMAGE_BOOT_EBOOTIMAGE_NOR_PA_START + of_nat i)"
    using i region_bounds(1) [of "IMAGE_BOOT_EBOOTIMAGE_NOR_PA_START + of_nat i" IMAGE_EBOOT_RAM_BASE_ADDR 524288]
    by (auto simp: in_region_def layout_defs word_less_nat_alt)
  then show "get_bytes (mem (snd (load_eboot s))) IMAGE_EBOOT_RAM_BASE_ADDR (unat IMAGE_BOOT_EBOOTIMAGE_NOR_SIZE) ! i
      = get_bytes (mem s) IMAGE_BOOT_EBOOTIMAGE_NOR_PA_START (unat IMAGE_BOOT_EBOOTIMAGE_NOR_SIZE) ! i"
    using i u
    by (simp add: load_eboot_def memset_def memcpy_def in_region_def layout_defs word_less_nat_alt)
qed

lemma load_eboot_outside:
  "\<not> in_region IMAGE_EBOOT_RAM_BASE_ADDR IMAGE_BOOT_EBOOTIMAGE_NOR_SIZE a \<Longrightarrow>
   mem (snd (load_eboot s)) a = mem s a"
  by (simp add: load_eboot_def memset_def memcpy_def)

lemma boot_info_not_eboot:
  "in_boot_info cfg a \<Longrightarrow> \<not> in_region IMAGE_EBOOT_RAM_BASE_ADDR IMAGE_BOOT_EBOOTIMAGE_NOR_SIZE a"
proof
  assume "in_boot_info cfg a" and "in_region IMAGE_EBOOT_RAM_BASE_ADDR IMAGE_BOOT_EBOOTIMAGE_NOR_SIZE a"
  then show False
    using region_bounds(2) [of a "pBoootInfo cfg" "sizeof_BSP_BOOT_INFO cfg"]
      region_bounds(1) [of a IMAGE_EBOOT_RAM_BASE_ADDR "unat IMAGE_BOOT_EBOOTIMAGE_NOR_SIZE"]
    by (simp add: in_boot_info_def in_region_def word_less_nat_alt pBoootInfo_def sizeof_BSP_BOOT_INFO_cases
        layout_defs split: if_splits)
qed

lemma load_eboot_boot_info: "boot_info_of cfg (mem (snd (load_eboot s))) = boot_info_of cfg (mem s)"
proof (rule boot_info_of_cong)
  fix i
  assume i: "i < sizeof_BSP_BOOT_INFO cfg"
  then have "unat (of_nat i :: u32) = i"
    using sizeof_BSP_BOOT_INFO_cases [of cfg]
    by (simp add: unsigned_of_nat take_bit_nat_eq_self split: if_splits)
  then have "in_boot_info cfg (field_at (pBoootInfo cfg) i)"
    using i by (simp add: in_boot_info_def field_at_def)
  then show "mem (snd (load_eboot s)) (field_at (pBoootInfo cfg) i) = mem s (field_at (pBoootInfo cfg) i)"
    using boot_info_not_eboot load_eboot_outside by blast
qed

section \<open>Modes 0, 3, 6 and 7\<close>

lemma Mode_0367_boot_info:
  assumes "mode \<in> {0, 3, 6, 7}" and "versions_ok cfg s"
  shows "boot_info_of cfg (mem (snd (osBoot_Mode_0367 cfg mode s)))
    = (boot_info_of cfg (mem s))
        \<lparr>bi_bootMode := mode, bi_errorCode := ERROR_PP_BL_NO_ERROR,
         bi_bootDevice := device_code (boot_dev s) (bi_bootDevice (boot_info_of cfg (mem s))),
         bi_strage := 0, bi_osImageSize := 0, bi_boardVersion := Board_Version s,
         bi_AllowBootVersion := (if BSP_SUPPORT_VERCHK cfg then Allow_Boot_Version s else [])\<rparr>"
  using assms
  by (auto simp: osBoot_Mode_0367_def Let_def boot_info_put boot_info_set_device boot_info_set_versions
      get_boot_device_def boot_mode_defs)

lemma Mode_0367_outside:
  "\<not> in_boot_info cfg a \<Longrightarrow> mem (snd (osBoot_Mode_0367 cfg mode s)) a = mem s a"
  by (simp add: osBoot_Mode_0367_def Let_def put_outside set_outside)

lemma nor_eboot_not_boot_info:
  assumes "i < unat IMAGE_BOOT_EBOOTIMAGE_NOR_SIZE"
  shows "\<not> in_boot_info cfg (IMAGE_BOOT_EBOOTIMAGE_NOR_PA_START + of_nat i)"
proof
  assume *: "in_boot_info cfg (IMAGE_BOOT_EBOOTIMAGE_NOR_PA_START + of_nat i)"
  have "unat (of_nat i :: u32) = i"
    using assms by (simp add: layout_defs unsigned_of_nat take_bit_nat_eq_self)
  then have "unat (IMAGE_BOOT_EBOOTIMAGE_NOR_PA_START + of_nat i) = unat IMAGE_BOOT_EBOOTIMAGE_NOR_PA_START + i"
    using assms unat_add_small [of IMAGE_BOOT_EBOOTIMAGE_NOR_PA_START "of_nat i"] by (simp add: layout_defs)
  then show False
    using * assms region_bounds(1) [of "IMAGE_BOOT_EBOOTIMAGE_NOR_PA_START + of_nat i" "pBoootInfo cfg" "sizeof_BSP_BOOT_INFO cfg"]
    by (simp add: in_boot_info_def pBoootInfo_def sizeof_BSP_BOOT_INFO_cases layout_defs split: if_splits)
qed

text \<open>Stores into the structure do not change the EBOOT image in NOR flash.\<close>

lemma nor_eboot_kept:
  assumes "\<And>a. \<not> in_boot_info cfg a \<Longrightarrow> m a = m' a"
  shows "get_bytes m IMAGE_BOOT_EBOOTIMAGE_NOR_PA_START (unat IMAGE_BOOT_EBOOTIMAGE_NOR_SIZE)
    = get_bytes m' IMAGE_BOOT_EBOOTIMAGE_NOR_PA_START (unat IMAGE_BOOT_EBOOTIMAGE_NOR_SIZE)"
  by (intro nth_equalityI) (simp_all add: assms nor_eboot_not_boot_info)

section \<open>Result codes\<close>

lemma osBoot_fat_fsload_codes:
  "osBoot_fat_fsload cfg e md devname devnum Offset filename s = Some (ret, n, bytes, t) \<Longrightarrow>
   ret \<in> {0, 1, 2, 3}"
  by (auto simp: osBoot_fat_fsload_def Let_def split: prod.splits option.splits if_splits Option.bind_splits)

lemma blink_module_fields [simp]:
  "boot_dev (blink_module cfg s) = boot_dev s" "Board_Version (blink_module cfg s) = Board_Version s"
  "bootMode (blink_module cfg s) = bootMode s" "Allow_Boot_Version (blink_module cfg s) = Allow_Boot_Version s"
  by (simp_all add: blink_module_def BlinkFourLEDs_def Let_def)

lemma nk_load_modules_result:
  assumes "nk_load_modules cfg ram_init p s = Some y"
  shows "fst y \<in> {0, - 1} \<union> (if BSP_SUPPORT_SUMERR cfg then {- 3} else {}) \<and>
    boot_dev (snd y) = boot_dev s \<and> Board_Version (snd y) = Board_Version s \<and>
    bootMode (snd y) = bootMode s \<and> Allow_Boot_Version (snd y) = Allow_Boot_Version s"
  using assms
proof (rule nk_load_modules.raw_induct [rotated], goal_cases)
  case 1
  from 1(2) show ?case
    by (auto simp: Let_def split: if_splits prod.splits dest!: 1(1))
qed

lemma nk_load_result:
  assumes "nk_load cfg s = Some (ret, n, t)"
  shows "ret \<in> {0, - 1} \<union> (if BSP_SUPPORT_SUMERR cfg then {- 3} else {})"
    and "boot_dev t = boot_dev s" "Board_Version t = Board_Version s" "bootMode t = bootMode s"
    and "versions_ok cfg s \<Longrightarrow> versions_ok cfg t"
  using assms
  by (auto simp: nk_load_def Let_def versions_ok_def split: if_splits option.splits prod.splits
      dest!: nk_load_modules_result)

lemma led_fields [simp]:
  "mem (BlinkAllLEDs cfg on s) = mem s" "boot_dev (BlinkAllLEDs cfg on s) = boot_dev s"
  "Board_Version (BlinkAllLEDs cfg on s) = Board_Version s" "bootMode (BlinkAllLEDs cfg on s) = bootMode s"
  "Allow_Boot_Version (BlinkAllLEDs cfg on s) = Allow_Boot_Version s" "g_AutoSel (BlinkAllLEDs cfg on s) = g_AutoSel s"
  "boot_data (setup_led cfg s) = boot_data s" "boot_data (TimerInit e n s) = boot_data s"
  "boot_data (search_leds cfg u v s) = boot_data s" "boot_data (s\<lparr>ledEnable := l\<rparr>) = boot_data s"
  by (simp_all add: BlinkAllLEDs_def setup_led_def boot_data_def TimerInit_def search_leds_def)

lemma osBoot_fat_fsload_bin_codes:
  "osBoot_fat_fsload_bin cfg e md devname devnum Offset filename s = Some (ret, n, t) \<Longrightarrow>
   ret \<in> {0, 1, 2, 3, - 1} \<union> (if BSP_SUPPORT_SUMERR cfg then {- 3} else {}) \<and> (ret = 0 \<longleftrightarrow> n \<noteq> None)"
  by (auto simp: osBoot_fat_fsload_bin_def Let_def split: prod.splits option.splits if_splits Option.bind_splits
      dest!: nk_load_result(1))

section \<open>What the searches leave alone\<close>

text \<open>The settings made at start-up, without the memory the image goes to.\<close>

definition settings :: "sys \<Rightarrow> boot_device \<times> u8 \<times> u32" where
  "settings s = (boot_dev s, Board_Version s, bootMode s)"

lemma settings_boot_data: "boot_data t = boot_data s \<Longrightarrow> settings t = settings s"
  by (simp add: boot_data_def settings_def)

lemma versions_boot_data: "boot_data t = boot_data s \<Longrightarrow> versions_ok cfg t = versions_ok cfg s"
  by (simp add: boot_data_def versions_ok_def)

context quiet_media
begin

lemma register_parts_quiet:
  "register_parts cfg e md stop d parts ret s = Some (r, t) \<Longrightarrow> boot_data t = boot_data s"
  by (induction parts arbitrary: ret s)
     (auto simp: register_parts.simps split: Option.bind_splits if_splits dest!: fat_register_device_quiet)

lemma osBoot_fat_fsload_quiet:
  "osBoot_fat_fsload cfg e md devname devnum Offset filename s = Some (ret, n, bytes, t) \<Longrightarrow>
   boot_data t = boot_data s"
  by (auto simp: osBoot_fat_fsload_def Let_def split: prod.splits option.splits if_splits Option.bind_splits
      dest!: get_dev_quiet slot_kept_boot_data register_parts_quiet file_fat_read_quiet)

lemma osBoot_fat_fsload_bin_settings:
  assumes "osBoot_fat_fsload_bin cfg e md devname devnum Offset filename s = Some (ret, n, t)"
  shows "settings t = settings s" and "versions_ok cfg s \<Longrightarrow> versions_ok cfg t"
proof -
  have put: "settings (BlinkAllLEDs cfg 0 s) = settings s" "settings (s\<lparr>mem := m\<rparr>) = settings s"
    "versions_ok cfg (BlinkAllLEDs cfg 0 s) = versions_ok cfg s" "versions_ok cfg (s\<lparr>mem := m\<rparr>) = versions_ok cfg s" for s m
    by (simp_all add: settings_def versions_ok_def)
  have nk: "settings t = settings s \<and> (versions_ok cfg s \<longrightarrow> versions_ok cfg t)"
    if "nk_load cfg s = Some (ret, n, t)" for ret n s t
    using nk_load_result [OF that] by (simp add: settings_def)
  have step: "settings t = settings s \<and> versions_ok cfg t = versions_ok cfg s" if "boot_data t = boot_data s" for s t
    using that settings_boot_data versions_boot_data by blast
  note quiet = get_dev_quiet [THEN slot_kept_boot_data, THEN step] register_parts_quiet [THEN step]
    file_fat_read_quiet [THEN step] fat_size_quiet [THEN step]
  have led: "settings (TimerInit e 100 (setup_led cfg s)) = settings s"
    "versions_ok cfg (TimerInit e 100 (setup_led cfg s)) = versions_ok cfg s" for s
    using step [of "TimerInit e 100 (setup_led cfg s)" s] by simp_all
  show "settings t = settings s"
    using assms
    by (auto simp: osBoot_fat_fsload_bin_def Let_def put led
        split: prod.splits option.splits if_splits Option.bind_splits dest!: quiet nk)
  show "versions_ok cfg t" if "versions_ok cfg s"
    using assms that
    by (auto simp: osBoot_fat_fsload_bin_def Let_def put led
        split: prod.splits option.splits if_splits Option.bind_splits dest!: quiet nk)
qed

end

section \<open>Verdicts\<close>

text \<open>The pairs of error code and medium that can be reported.\<close>

definition verdict_ok :: "bsp_config \<Rightarrow> u32 \<Rightarrow> u32 \<Rightarrow> bool" where
  "verdict_ok cfg err media \<longleftrightarrow>
     media = BOOT_STORAGE_USB \<and> err \<in> {ERROR_PP_BL_NO_ERROR, ERROR_PP_BL_USB_INVALID_FS, ERROR_PP_BL_USB_NO_REFTEXT,
       ERROR_PP_BL_USB_NO_OSIMG, ERROR_PP_BL_FLASH_ERROR} \<or>
     media = BOOT_STORAGE_SD \<and> err \<in> {ERROR_PP_BL_NO_ERROR, ERROR_PP_BL_NO_USB_SD, ERROR_PP_BL_SD_INVALID_FS,
       ERROR_PP_BL_SD_NO_REFTEXT, ERROR_PP_BL_SD_NO_OSIMG, ERROR_PP_BL_FLASH_ERROR} \<or>
     BSP_SUPPORT_SUMERR cfg \<and> media \<in> {BOOT_STORAGE_USB, BOOT_STORAGE_SD} \<and> err = ERROR_PP_BL_NK_SUM_ERROR"

text \<open>The image was loaded from the given medium by a call that ended in state \<open>t\<close>.\<close>

definition image_loaded ::
  "bsp_config \<Rightarrow> env \<Rightarrow> media \<Rightarrow> u32 \<Rightarrow> u32 \<Rightarrow> sys \<Rightarrow> bool" where
  "image_loaded cfg e md media sz t \<longleftrightarrow>
     (\<exists>name s. osBoot_fat_fsload_bin cfg e md
        (if media = BOOT_STORAGE_USB then STORAGE_DEV_NAME_USB else STORAGE_DEV_NAME_MMC)
        (if media = BOOT_STORAGE_USB then STORAGE_DEV_NUM_USB else STORAGE_DEV_NUM_MMC)
        IMAGE_BOOT_NKIMAGE_RAM_PA_STORE_START name s = Some (0, Some sz, t))"

lemma load_named_image_cases:
  assumes "load_named_image cfg e md devname devnum v s = Some (ret, v', t)"
  obtains name sz u where "string_of_array (clean_name (FileName v)) = Some name"
    and "osBoot_fat_fsload_bin cfg e md devname devnum IMAGE_BOOT_NKIMAGE_RAM_PA_STORE_START name (s\<lparr>ledEnable := 1\<rparr>)
      = Some (ret, sz, u)"
    and "v' = v\<lparr>FileName := clean_name (FileName v), FileSize := (case sz of None \<Rightarrow> FileSize v | Some n \<Rightarrow> n)\<rparr>"
    and "t = u\<lparr>ledEnable := 0\<rparr>"
  using assms
  by (auto simp: load_named_image_def Let_def split: Option.bind_splits option.splits prod.splits)

lemma load_named_image_ret:
  "load_named_image cfg e md devname devnum v s = Some (ret, v', t) \<Longrightarrow>
   ret \<in> {0, 1, 2, 3, - 1} \<union> (if BSP_SUPPORT_SUMERR cfg then {- 3} else {})"
  by (elim load_named_image_cases) (auto dest!: osBoot_fat_fsload_bin_codes)

lemma load_named_image_locals:
  "load_named_image cfg e md devname devnum v s = Some (ret, v', t) \<Longrightarrow>
   errCode v' = errCode v \<and> bootMedia v' = bootMedia v"
  by (elim load_named_image_cases) simp

lemma load_named_image_0:
  assumes "load_named_image cfg e md
      (if media = BOOT_STORAGE_USB then STORAGE_DEV_NAME_USB else STORAGE_DEV_NAME_MMC)
      (if media = BOOT_STORAGE_USB then STORAGE_DEV_NUM_USB else STORAGE_DEV_NUM_MMC) v s = Some (0, v', t)"
  obtains u where "image_loaded cfg e md media (FileSize v') u" and "t = u\<lparr>ledEnable := 0\<rparr>"
  using assms
proof (elim load_named_image_cases)
  fix name sz u
  assume u: "osBoot_fat_fsload_bin cfg e md
      (if media = BOOT_STORAGE_USB then STORAGE_DEV_NAME_USB else STORAGE_DEV_NAME_MMC)
      (if media = BOOT_STORAGE_USB then STORAGE_DEV_NUM_USB else STORAGE_DEV_NUM_MMC)
      IMAGE_BOOT_NKIMAGE_RAM_PA_STORE_START name (s\<lparr>ledEnable := 1\<rparr>) = Some (0, sz, u)"
    and v': "v' = v\<lparr>FileName := clean_name (FileName v), FileSize := (case sz of None \<Rightarrow> FileSize v | Some n \<Rightarrow> n)\<rparr>"
    and t: "t = u\<lparr>ledEnable := 0\<rparr>"
  obtain n where "sz = Some n"
    using osBoot_fat_fsload_bin_codes [OF u] by auto
  then show thesis
    using u v' t that unfolding image_loaded_def by auto
qed

lemma usb_media: "BOOT_STORAGE_USB \<noteq> 0" "BOOT_STORAGE_SD \<noteq> 0" "BOOT_STORAGE_SD \<noteq> BOOT_STORAGE_USB"
  by (simp_all add: boot_device_defs)

text \<open>The three ways the search on USB can end.\<close>

lemma search_usb_cases:
  assumes "search_usb cfg e md fn v s = Some (v', t)" and "errCode v = ERROR_PP_BL_NO_ERROR" "bootMedia v = 0"
  obtains (loaded) u where "image_loaded cfg e md BOOT_STORAGE_USB (FileSize v') u" and "t = u\<lparr>ledEnable := 0\<rparr>"
      and "errCode v' = ERROR_PP_BL_NO_ERROR" and "bootMedia v' = BOOT_STORAGE_USB"
  | (failed) "errCode v' \<noteq> ERROR_PP_BL_NO_ERROR" and "bootMedia v' = BOOT_STORAGE_USB"
      and "verdict_ok cfg (errCode v') BOOT_STORAGE_USB"
  | (go_on) "errCode v' = ERROR_PP_BL_NO_ERROR" and "bootMedia v' = 0"
proof -
  from assms(1) obtain s0 ret n bytes s1 buf where
    ref: "osBoot_fat_fsload cfg e md STORAGE_DEV_NAME_USB STORAGE_DEV_NUM_USB fn INST_TEXT_FILENAME s0
      = Some (ret, n, bytes, s1)" and go: "go_usb_start md s = Some s0" and buf: "store_local (FileName v) bytes = Some buf"
    by (auto simp: search_usb_def Let_def split: Option.bind_splits)
  show thesis
  proof (cases "ret = 0")
    case True
    then obtain ret' w s2 where img: "load_named_image cfg e md STORAGE_DEV_NAME_USB STORAGE_DEV_NUM_USB
        (v\<lparr>FileName := buf\<rparr>) s1 = Some (ret', w, s2)"
      using assms(1) by (auto simp: search_usb_def Let_def go ref buf split: Option.bind_splits)
    show thesis
    proof (cases "ret' = 0")
      case ok: True
      then have "v' = w\<lparr>bootMedia := BOOT_STORAGE_USB\<rparr>" "t = s2"
        using assms(1) True by (auto simp: search_usb_def Let_def go ref buf img)
      then show thesis
        using load_named_image_0 [where media = BOOT_STORAGE_USB, simplified, OF img [unfolded ok]]
          load_named_image_locals [OF img] assms(2) loaded by auto
    next
      case False
      then show thesis
        using assms(1) True load_named_image_ret [OF img]
        by (intro failed) (auto simp: search_usb_def Let_def go ref buf img verdict_ok_def error_code_defs split: if_splits)
    qed
  next
    case False
    then show thesis
      using assms osBoot_fat_fsload_codes [OF ref] failed go_on
      by (auto simp: search_usb_def Let_def go ref buf verdict_ok_def error_code_defs split: if_splits prod.splits)
  qed
qed

lemma search_sd_cases:
  assumes "search_sd cfg e md fn v s = Some (v', t)" and "errCode v = ERROR_PP_BL_NO_ERROR"
  obtains (loaded) u where "image_loaded cfg e md BOOT_STORAGE_SD (FileSize v') u" and "t = u\<lparr>ledEnable := 0\<rparr>"
      and "errCode v' = ERROR_PP_BL_NO_ERROR" and "bootMedia v' = BOOT_STORAGE_SD"
  | (failed) "errCode v' \<noteq> ERROR_PP_BL_NO_ERROR" and "bootMedia v' = BOOT_STORAGE_SD"
      and "verdict_ok cfg (errCode v') BOOT_STORAGE_SD"
proof -
  from assms(1) obtain ret n bytes s1 buf where
    ref: "osBoot_fat_fsload cfg e md STORAGE_DEV_NAME_MMC STORAGE_DEV_NUM_MMC fn INST_TEXT_FILENAME s
      = Some (ret, n, bytes, s1)" and buf: "store_local (FileName v) bytes = Some buf"
    by (auto simp: search_sd_def Let_def split: Option.bind_splits)
  show thesis
  proof (cases "ret = 0")
    case True
    then obtain ret' w s2 where img: "load_named_image cfg e md STORAGE_DEV_NAME_MMC STORAGE_DEV_NUM_MMC
        (v\<lparr>bootMedia := BOOT_STORAGE_SD, FileName := buf\<rparr>) s1 = Some (ret', w, s2)"
      using assms(1) by (auto simp: search_sd_def Let_def ref buf split: Option.bind_splits)
    show thesis
    proof (cases "ret' = 0")
      case ok: True
      then have "v' = w\<lparr>bootMedia := BOOT_STORAGE_SD\<rparr>" "t = s2"
        using assms(1) True by (auto simp: search_sd_def Let_def ref buf img)
      then show thesis
        using load_named_image_0 [where media = BOOT_STORAGE_SD, simplified usb_media if_False, OF img [unfolded ok]]
          load_named_image_locals [OF img] assms(2) loaded by auto
    next
      case False
      then show thesis
        using assms(1) True load_named_image_ret [OF img] load_named_image_locals [OF img]
        by (intro failed) (auto simp: search_sd_def Let_def ref buf img verdict_ok_def error_code_defs split: if_splits)
    qed
  next
    case False
    then show thesis
      using assms osBoot_fat_fsload_codes [OF ref] failed
      by (auto simp: search_sd_def Let_def ref buf verdict_ok_def error_code_defs split: if_splits prod.splits)
  qed
qed

section \<open>Modes 1, 2, 4 and 5\<close>

text \<open>The stores at the end of \<open>osBoot_Mode_1245\<close>, after the searches ended with \<open>v\<close> in state \<open>t\<close>.\<close>

definition report_1245 :: "bsp_config \<Rightarrow> boot_device \<Rightarrow> u32 \<Rightarrow> search \<Rightarrow> sys \<Rightarrow> memory" where
  "report_1245 cfg bootDevice mode v t =
     set_versions cfg t
       (put_bootMode cfg mode
         (put_osImageSize cfg (FileSize v)
           (put_errorCode cfg (errCode v)
             (put_strage cfg (bootMedia v) (set_boot_device cfg bootDevice (mem t))))))"

lemma report_1245_outside: "\<not> in_boot_info cfg a \<Longrightarrow> report_1245 cfg d mode v t a = mem t a"
  by (simp add: report_1245_def put_outside set_outside)

lemma report_1245_boot_info:
  assumes "versions_ok cfg t"
  shows "boot_info_of cfg (report_1245 cfg d mode v t)
    = (boot_info_of cfg (mem t))
        \<lparr>bi_bootMode := mode, bi_errorCode := errCode v,
         bi_bootDevice := device_code d (bi_bootDevice (boot_info_of cfg (mem t))),
         bi_strage := bootMedia v, bi_osImageSize := FileSize v, bi_boardVersion := Board_Version t,
         bi_AllowBootVersion := (if BSP_SUPPORT_VERCHK cfg then Allow_Boot_Version t else [])\<rparr>"
  using assms by (simp add: report_1245_def boot_info_put boot_info_set_device boot_info_set_versions)

lemma search_leds_fields [simp]:
  "mem (search_leds cfg u d s) = mem s" "Board_Version (search_leds cfg u d s) = Board_Version s"
  "Allow_Boot_Version (search_leds cfg u d s) = Allow_Boot_Version s"
  "boot_dev (search_leds cfg u d s) = boot_dev s" "bootMode (search_leds cfg u d s) = bootMode s"
  by (simp_all add: search_leds_def)

lemma set_versions_leds [simp]: "set_versions cfg (search_leds cfg u d s) m = set_versions cfg s m"
  by (simp add: set_versions_def Let_def)

lemma mode_1245:
  "mode \<in> {1, 2, 4, 5} \<Longrightarrow>
   (if mode = 1 then BOOT_CFG_BOOTMODE_1 else if mode = 2 then BOOT_CFG_BOOTMODE_2
    else if mode = 4 then BOOT_CFG_BOOTMODE_4 else BOOT_CFG_BOOTMODE_5) = mode"
  by (auto simp: boot_mode_defs)

definition first_locals :: "u32 \<Rightarrow> search" where
  "first_locals stack =
     \<lparr>errCode = ERROR_PP_BL_NO_ERROR, bootMedia = 0, FileSize = stack, FileName = replicate 128 0\<rparr>"

lemma osBoot_Mode_1245_stages:
  assumes "osBoot_Mode_1245 cfg e md fn stack mode s = Some (r, t)" and "mode \<in> {1, 2, 4, 5}"
  obtains v s1 w u where
    "search_usb cfg e md fn (first_locals stack) (TimerInit e 250 (search_leds cfg 1 0 s)) = Some (v, s1)"
    and "(if errCode v = ERROR_PP_BL_NO_ERROR \<and> bootMedia v = 0
          then search_sd cfg e md fn v (search_leds cfg 0 1 s1) else Some (v, search_leds cfg 0 1 s1)) = Some (w, u)"
    and "r = 0" and "t = search_leds cfg 0 0 u \<lparr>mem := report_1245 cfg (boot_dev s) mode w u\<rparr>"
  using assms(1) that unfolding osBoot_Mode_1245_def Let_def mode_1245 [OF assms(2)]
  by (auto simp: first_locals_def get_boot_device_def report_1245_def split: Option.bind_splits)

context quiet_media
begin

lemma load_named_image_settings:
  assumes "load_named_image cfg e md devname devnum v s = Some (ret, v', t)"
  shows "settings t = settings s \<and> (versions_ok cfg s \<longrightarrow> versions_ok cfg t)"
proof -
  have led: "settings (s\<lparr>ledEnable := l\<rparr>) = settings s" "versions_ok cfg (s\<lparr>ledEnable := l\<rparr>) = versions_ok cfg s" for s l
    by (simp_all add: settings_def versions_ok_def)
  from assms show ?thesis
  proof (cases rule: load_named_image_cases)
    case (1 name sz u)
    then show ?thesis
      using osBoot_fat_fsload_bin_settings [OF 1(2)] by (simp add: led)
  qed
qed

lemma SDCardExistCheck_boot_data: "SDCardExistCheck e s = (r, t) \<Longrightarrow> boot_data t = boot_data s"
  by (auto simp: SDCardExistCheck_def gpio_get_value_def boot_data_def Let_def split: if_splits)

lemma search_usb_settings:
  assumes "search_usb cfg e md fn v s = Some (v', t)"
  shows "settings t = settings s" and "versions_ok cfg s \<Longrightarrow> versions_ok cfg t"
proof -
  have step: "settings t = settings s \<and> versions_ok cfg t = versions_ok cfg s" if "boot_data t = boot_data s" for s t
    using that settings_boot_data versions_boot_data by blast
  show "settings t = settings s"
    using assms
    by (auto simp: search_usb_def Let_def split: Option.bind_splits if_splits prod.splits
        dest!: go_usb_start_quiet [THEN step] osBoot_fat_fsload_quiet [THEN step] load_named_image_settings SDCardExistCheck_boot_data [THEN step])
  show "versions_ok cfg t" if "versions_ok cfg s"
    using assms that
    by (auto simp: search_usb_def Let_def split: Option.bind_splits if_splits prod.splits
        dest!: go_usb_start_quiet [THEN step] osBoot_fat_fsload_quiet [THEN step] SDCardExistCheck_boot_data [THEN step] load_named_image_settings)
qed

lemma search_sd_settings:
  assumes "search_sd cfg e md fn v s = Some (v', t)"
  shows "settings t = settings s" and "versions_ok cfg s \<Longrightarrow> versions_ok cfg t"
proof -
  have step: "settings t = settings s \<and> versions_ok cfg t = versions_ok cfg s" if "boot_data t = boot_data s" for s t
    using that settings_boot_data versions_boot_data by blast
  show "settings t = settings s"
    using assms
    by (auto simp: search_sd_def Let_def split: Option.bind_splits if_splits
        dest!: osBoot_fat_fsload_quiet [THEN step] load_named_image_settings)
  show "versions_ok cfg t" if "versions_ok cfg s"
    using assms that
    by (auto simp: search_sd_def Let_def split: Option.bind_splits if_splits
        dest!: osBoot_fat_fsload_quiet [THEN step] load_named_image_settings)
qed

lemma osBoot_Mode_1245_report:
  assumes run: "osBoot_Mode_1245 cfg e md fn stack mode s = Some (r, t)" and mode: "mode \<in> {1, 2, 4, 5}"
    and ver: "versions_ok cfg s"
  defines "bi \<equiv> boot_info_of cfg (mem t)"
  shows "r = 0" and "bi_bootMode bi = mode" and "bi_boardVersion bi = Board_Version s"
    and "boot_dev s = WEIM_NOR_BOOT \<Longrightarrow> bi_bootDevice bi = BOOT_DEVICE_NOR"
    and "verdict_ok cfg (bi_errorCode bi) (bi_strage bi)"
    and "bi_errorCode bi = ERROR_PP_BL_NO_ERROR \<Longrightarrow> \<exists>u. image_loaded cfg e md (bi_strage bi) (bi_osImageSize bi) u \<and>
      (\<forall>a. \<not> in_boot_info cfg a \<longrightarrow> mem t a = mem u a)"
proof -
  obtain v s1 w u where usb: "search_usb cfg e md fn (first_locals stack) (TimerInit e 250 (search_leds cfg 1 0 s)) = Some (v, s1)"
    and sd: "(if errCode v = ERROR_PP_BL_NO_ERROR \<and> bootMedia v = 0
          then search_sd cfg e md fn v (search_leds cfg 0 1 s1) else Some (v, search_leds cfg 0 1 s1)) = Some (w, u)"
    and r: "r = 0" and t: "t = search_leds cfg 0 0 u \<lparr>mem := report_1245 cfg (boot_dev s) mode w u\<rparr>"
    using osBoot_Mode_1245_stages [OF run mode] by blast
  have start: "settings (TimerInit e 250 (search_leds cfg 1 0 s)) = settings s"
    "versions_ok cfg (TimerInit e 250 (search_leds cfg 1 0 s))"
    using ver by (simp_all add: settings_def versions_ok_def TimerInit_def)
  have s1: "settings (search_leds cfg 0 1 s1) = settings s" "versions_ok cfg (search_leds cfg 0 1 s1)"
    using search_usb_settings [OF usb] start by (simp_all add: settings_def versions_ok_def)
  have u: "settings u = settings s" "versions_ok cfg u"
    using sd s1 search_sd_settings [of cfg e fn v "search_leds cfg 0 1 s1" w u] by (auto split: if_splits)
  note bi = report_1245_boot_info [OF u(2), of "boot_dev s" mode w]
  have info: "bi_bootMode bi = mode" "bi_errorCode bi = errCode w" "bi_strage bi = bootMedia w"
    "bi_osImageSize bi = FileSize w" "bi_boardVersion bi = Board_Version u"
    "bi_bootDevice bi = device_code (boot_dev s) (bi_bootDevice (boot_info_of cfg (mem u)))"
    by (simp_all add: bi_def t bi)
  show "r = 0" "bi_bootMode bi = mode" "bi_boardVersion bi = Board_Version s"
    using r info u by (simp_all add: settings_def)
  show "bi_bootDevice bi = BOOT_DEVICE_NOR" if "boot_dev s = WEIM_NOR_BOOT"
    using that by (simp add: info device_code_def)
  have first: "errCode (first_locals stack) = ERROR_PP_BL_NO_ERROR" "bootMedia (first_locals stack) = 0"
    by (simp_all add: first_locals_def)
  have "verdict_ok cfg (errCode w) (bootMedia w) \<and>
    (errCode w = ERROR_PP_BL_NO_ERROR \<longrightarrow> (\<exists>x. image_loaded cfg e md (bootMedia w) (FileSize w) x \<and> mem u = mem x))"
    using usb first
  proof (cases rule: search_usb_cases)
    case (loaded x)
    then have "w = v" "u = search_leds cfg 0 1 s1"
      using sd by (simp_all add: usb_media)
    then show ?thesis
      using loaded by (auto simp: verdict_ok_def)
  next
    case failed
    then show ?thesis
      using sd by (auto simp: usb_media)
  next
    case go_on
    then have "search_sd cfg e md fn v (search_leds cfg 0 1 s1) = Some (w, u)"
      using sd by simp
    then show ?thesis
      using go_on(1) by (cases rule: search_sd_cases) (auto simp: verdict_ok_def)
  qed
  then show "verdict_ok cfg (bi_errorCode bi) (bi_strage bi)"
    and "bi_errorCode bi = ERROR_PP_BL_NO_ERROR \<Longrightarrow> \<exists>u. image_loaded cfg e md (bi_strage bi) (bi_osImageSize bi) u \<and>
      (\<forall>a. \<not> in_boot_info cfg a \<longrightarrow> mem t a = mem u a)"
    unfolding info by (auto simp: t report_1245_outside)
qed

end

section \<open>The reference text\<close>

text \<open>The name is the text up to the first NUL, CR or LF.\<close>

definition line_end :: "u8 \<Rightarrow> bool" where
  "line_end b \<longleftrightarrow> b = 0 \<or> b = 0x0d \<or> b = 0x0a"

lemma clean_name_string:
  "string_of_array (clean_name buf)
    = (if list_ex line_end buf then Some (takeWhile (\<lambda>b. \<not> line_end b) buf) else None)"
proof (induction buf)
  case (Cons b bs)
  then show ?case
    by (cases "b = 0"; cases "b = 0x0d \<or> b = 0x0a")
       (auto simp: string_of_array_def line_end_def split: if_splits)
qed (simp add: string_of_array_def)

lemma length_clean_name [simp]: "length (clean_name buf) = length buf"
  by (induction buf) auto

text \<open>A text longer than the array, or one that fills it without a line end, is undefined behaviour.\<close>

lemma search_usb_overrun:
  assumes "go_usb_start md s = Some u"
    and "osBoot_fat_fsload cfg e md STORAGE_DEV_NAME_USB STORAGE_DEV_NUM_USB fn INST_TEXT_FILENAME u
      = Some (ret, n, bytes, t)"
    and "length bytes > length (FileName v) \<or> length bytes = length (FileName v) \<and> ret = 0 \<and> \<not> list_ex line_end bytes"
  shows "search_usb cfg e md fn v s = None"
  using assms by (auto simp: search_usb_def store_local_def load_named_image_def Let_def clean_name_string)

section \<open>Mode 8\<close>

context quiet_media
begin

lemma osBoot_Mode_8_report:
  assumes run: "osBoot_Mode_8 cfg e md fn 8 s = Some (r, t)" and ver: "versions_ok cfg s"
  obtains ret n bytes u where
    "osBoot_fat_fsload cfg e md STORAGE_DEV_NAME_MMC STORAGE_DEV_NUM_MMC fn TEST_TEXT_FILENAME (TimerInit e 250 s)
      = Some (ret, n, bytes, u)"
    and "r = 0" and "length bytes \<le> 128"
    and "boot_info_of cfg (mem t) = (boot_info_of cfg (mem s))
        \<lparr>bi_bootMode := (if ret = 0 then 8 else 0), bi_errorCode := ERROR_PP_BL_NO_ERROR,
         bi_bootDevice := BOOT_DEVICE_NOR, bi_strage := 0, bi_osImageSize := 0,
         bi_boardVersion := Board_Version s,
         bi_AllowBootVersion := (if BSP_SUPPORT_VERCHK cfg then Allow_Boot_Version s else [])\<rparr>"
    and "\<And>a. \<not> in_boot_info cfg a \<Longrightarrow> mem t a = mem s a"
proof -
  from run obtain ret n bytes u buf where
    ref: "osBoot_fat_fsload cfg e md STORAGE_DEV_NAME_MMC STORAGE_DEV_NUM_MMC fn TEST_TEXT_FILENAME (TimerInit e 250 s)
      = Some (ret, n, bytes, u)" and buf: "store_local (replicate 128 0) bytes = Some buf"
    by (auto simp: osBoot_Mode_8_def Let_def split: Option.bind_splits)
  have u: "boot_data u = boot_data s"
    using osBoot_fat_fsload_quiet [OF ref] by simp
  then have u': "mem u = mem s" "Board_Version u = Board_Version s" "Allow_Boot_Version u = Allow_Boot_Version s"
    "versions_ok cfg u"
    using ver by (simp_all add: boot_data_def versions_ok_def)
  have t: "r = 0" "t = u\<lparr>mem := set_versions cfg u (put_bootMode cfg (if ret = 0 then 8 else 0)
      (put_osImageSize cfg 0 (put_errorCode cfg ERROR_PP_BL_NO_ERROR (put_strage cfg 0
        (put_bootDevice cfg BOOT_DEVICE_NOR (mem s))))))\<rparr>"
    using run by (auto simp: osBoot_Mode_8_def Let_def ref buf u' boot_mode_defs)
  have "length bytes \<le> 128"
    using buf by (simp add: store_local_def split: if_splits)
  then show thesis
    using t u' by (intro that [OF ref])
      (simp_all add: boot_info_put boot_info_set_versions put_outside set_outside)
qed

end

section \<open>The jump to EBOOT\<close>

text \<open>What EBOOT finds in RAM after \<open>load_eboot\<close>, given the memory before it.\<close>

definition eboot_ready :: "memory \<Rightarrow> memory \<Rightarrow> bool" where
  "eboot_ready nor m \<longleftrightarrow>
     get_bytes m IMAGE_EBOOT_RAM_BASE_ADDR (unat IMAGE_BOOT_EBOOTIMAGE_NOR_SIZE)
       = get_bytes nor IMAGE_BOOT_EBOOTIMAGE_NOR_PA_START (unat IMAGE_BOOT_EBOOTIMAGE_NOR_SIZE)"

lemma os_boot_submain_0367:
  assumes "bootMode s \<in> {0, 3, 6, 7}" and "versions_ok cfg s" and "\<And>s. mem (cleanup s) = mem s"
  shows "\<exists>t. os_boot_submain cfg e md cleanup fn stack s = Some (Jumped IMAGE_EBOOT_JUMP_ADDR, t)
    \<and> eboot_ready (mem s) (mem t)
    \<and> boot_info_of cfg (mem t) = (boot_info_of cfg (mem s))
        \<lparr>bi_bootMode := bootMode s, bi_errorCode := ERROR_PP_BL_NO_ERROR,
         bi_bootDevice := device_code (boot_dev s) (bi_bootDevice (boot_info_of cfg (mem s))),
         bi_strage := 0, bi_osImageSize := 0, bi_boardVersion := Board_Version s,
         bi_AllowBootVersion := (if BSP_SUPPORT_VERCHK cfg then Allow_Boot_Version s else [])\<rparr>"
proof -
  let ?u = "snd (osBoot_Mode_0367 cfg (bootMode s) s)"
  have jump: "os_boot_submain cfg e md cleanup fn stack s
      = Some (Jumped IMAGE_EBOOT_JUMP_ADDR, cleanup (snd (load_eboot ?u)))"
    using assms(1) by (auto simp: os_boot_submain_def osBoot_KEYIn_Mode_def load_eboot_def Let_def)
  have "eboot_ready (mem s) (mem (snd (load_eboot ?u)))"
    unfolding eboot_ready_def eboot_copy using Mode_0367_outside by (intro nor_eboot_kept) blast
  moreover have "boot_info_of cfg (mem (snd (load_eboot ?u))) = boot_info_of cfg (mem ?u)"
    by (rule load_eboot_boot_info)
  ultimately show ?thesis
    using jump Mode_0367_boot_info [OF assms(1,2)] assms(3) by simp
qed

text \<open>With neither a stick nor a card, modes 1, 2, 4 and 5 still reach EBOOT, with error code 1.\<close>

lemma search_no_media:
  assumes "go_usb_start md s = Some s0" "usb_dev_desc s0 = []"
  shows "search_usb cfg e md fn v s = Some (v, s0)"
    and "slot_empty e s \<Longrightarrow> \<exists>s1. search_sd cfg e md fn v s
      = Some (v\<lparr>bootMedia := BOOT_STORAGE_SD, errCode := ERROR_PP_BL_NO_USB_SD\<rparr>, s1)"
proof -
  have num: "simple_strtoul ''0'' 16 = (0, [])"
    by (simp add: simple_strtoul_def Let_def)
  have load: "osBoot_fat_fsload cfg e md dev ''0'' fn name s = Some (1, 0, [], s1)"
    if "get_dev cfg e md dev 0 s = Some (None, s1)" for dev name s s1
    using that by (simp add: osBoot_fat_fsload_def num)
  have "get_dev cfg e md STORAGE_DEV_NAME_USB 0 s0 = Some (None, s0)"
    using assms(2) by (simp add: get_dev_def STORAGE_DEV_NAME_USB_def usb_stor_get_dev_def)
  from load [OF this] show "search_usb cfg e md fn v s = Some (v, s0)"
    by (simp add: search_usb_def assms(1) Let_def store_local_def STORAGE_DEV_NUM_USB_def)
  show "\<exists>s1. search_sd cfg e md fn v s
      = Some (v\<lparr>bootMedia := BOOT_STORAGE_SD, errCode := ERROR_PP_BL_NO_USB_SD\<rparr>, s1)" if slot: "slot_empty e s"
  proof -
    obtain s1 where "get_dev cfg e md STORAGE_DEV_NAME_MMC 0 s = Some (None, s1)"
      using get_dev_empty [OF slot, of cfg md 0] by (auto simp: STORAGE_DEV_NAME_MMC_def)
    from load [OF this] show ?thesis
      by (simp add: search_sd_def Let_def store_local_def STORAGE_DEV_NUM_MMC_def)
  qed
qed

lemma os_boot_submain_1245:
  assumes "bootMode s \<in> {1, 2, 4, 5}"
    and "osBoot_Mode_1245 cfg e md fn stack (bootMode s) s = Some (r, u)" and "\<And>s. mem (cleanup s) = mem s"
  shows "\<exists>t. os_boot_submain cfg e md cleanup fn stack s = Some (Jumped IMAGE_EBOOT_JUMP_ADDR, t)
    \<and> eboot_ready (mem u) (mem t) \<and> boot_info_of cfg (mem t) = boot_info_of cfg (mem u)
    \<and> (\<forall>a. \<not> in_region IMAGE_EBOOT_RAM_BASE_ADDR IMAGE_BOOT_EBOOTIMAGE_NOR_SIZE a \<longrightarrow> mem t a = mem u a)"
proof -
  have "os_boot_submain cfg e md cleanup fn stack s
      = Some (Jumped IMAGE_EBOOT_JUMP_ADDR, cleanup (snd (load_eboot u)))"
    using assms(1,2) by (auto simp: os_boot_submain_def osBoot_KEYIn_Mode_def load_eboot_def Let_def)
  then show ?thesis
    using assms(3) eboot_copy load_eboot_boot_info load_eboot_outside by (simp add: eboot_ready_def)
qed

lemma os_boot_submain_8:
  assumes "bootMode s = 8"
    and "osBoot_Mode_8 cfg e md fn 8 s = Some (r, u)" and "\<And>s. mem (cleanup s) = mem s"
  shows "\<exists>t. os_boot_submain cfg e md cleanup fn stack s = Some (Jumped IMAGE_EBOOT_JUMP_ADDR, t)
    \<and> eboot_ready (mem u) (mem t) \<and> boot_info_of cfg (mem t) = boot_info_of cfg (mem u)"
proof -
  have "os_boot_submain cfg e md cleanup fn stack s
      = Some (Jumped IMAGE_EBOOT_JUMP_ADDR, cleanup (snd (load_eboot u)))"
    using assms(1,2) by (auto simp: os_boot_submain_def osBoot_KEYIn_Mode_def load_eboot_def Let_def)
  then show ?thesis
    using assms(3) eboot_copy load_eboot_boot_info by (simp add: eboot_ready_def)
qed

lemma osBoot_Mode_1245_no_media:
  assumes quiet: "quiet_media md" and usb: "\<And>s. \<exists>t. go_usb_start md s = Some t \<and> usb_dev_desc t = []"
    and slot: "slot_empty e s" and mode: "mode \<in> {1, 2, 4, 5}"
  shows "\<exists>u. osBoot_Mode_1245 cfg e md fn stack mode s
    = Some (0, (search_leds cfg 0 0 u)\<lparr>mem := report_1245 cfg (boot_dev s) mode
        ((first_locals stack)\<lparr>bootMedia := BOOT_STORAGE_SD, errCode := ERROR_PP_BL_NO_USB_SD\<rparr>) u\<rparr>)"
proof -
  let ?s = "TimerInit e 250 (search_leds cfg 1 0 s)"
  obtain s0 where s0: "go_usb_start md ?s = Some s0" "usb_dev_desc s0 = []"
    using usb by blast
  have "mmc_devices s0 = mmc_devices s"
    using quiet_media.go_usb_start_scan_kept [OF quiet s0(1)] by (simp add: scan_kept_def TimerInit_def search_leds_def)
  then have "slot_empty e (search_leds cfg 0 1 s0)"
    using slot by (simp add: slot_empty_def search_leds_def)
  moreover obtain t where "go_usb_start md (search_leds cfg 0 1 s0) = Some t" "usb_dev_desc t = []"
    using usb by blast
  ultimately obtain u where u: "search_sd cfg e md fn (first_locals stack) (search_leds cfg 0 1 s0)
      = Some ((first_locals stack)\<lparr>bootMedia := BOOT_STORAGE_SD, errCode := ERROR_PP_BL_NO_USB_SD\<rparr>, u)"
    using search_no_media(2) by blast
  show ?thesis
    unfolding osBoot_Mode_1245_def Let_def mode_1245 [OF mode] first_locals_def [symmetric] search_no_media(1) [OF s0]
    by (intro exI [of _ u]) (simp add: u report_1245_def get_boot_device_def, simp add: first_locals_def u)
qed

section \<open>Bringing the board up\<close>

lemma gpio_get_value_boot_data [simp]: "boot_data (snd (gpio_get_value e g s)) = boot_data s"
  by (simp add: gpio_get_value_def boot_data_def Let_def)

lemma gpio_run_boot_data [simp]: "boot_data (gpio_run cs s) = boot_data s"
  by (simp add: boot_data_def)

lemma udelay_boot_data [simp]: "boot_data (udelay n s) = boot_data s"
  by (simp add: boot_data_def udelay_def)

lemma writel_boot_data [simp]: "boot_data (writel v a s) = boot_data s"
  by (simp add: boot_data_def writel_def)

lemma pads_boot_data [simp]: "boot_data (imx_iomux_v3_setup_multiple_pads ps s) = boot_data s"
  by (simp add: boot_data_def)

lemma board_setup_boot_data [simp]:
  "boot_data (ccm_init s) = boot_data s" "boot_data (setup_spi s) = boot_data s"
  "boot_data (setup_eimnor s) = boot_data s" "boot_data (setup_usb s) = boot_data s"
  "boot_data (setup_display s) = boot_data s" "boot_data (BlinkAllLEDs cfg on s) = boot_data s"
  "boot_data (SW_LED cfg on s) = boot_data s"
  by (simp_all add: ccm_init_def setup_spi_def setup_eimnor_def setup_iomux_eimnor_def setup_eimnor_regs_def
      set_chipselect_size_CS0_128_def setup_usb_def imx_iomux_set_gpr_register_def setup_display_def
      enable_ipu_clock_def BlinkAllLEDs_def SW_LED_def setup_sw_led_def Let_def)

lemma KeyScan_loop_boot_data [simp]: "boot_data (snd (KeyScan_loop e i m s)) = boot_data s"
proof (induction i arbitrary: m s)
  case 0
  then show ?case
    by (simp add: KeyScan_loop.simps [of e 0] Let_def split_beta)
next
  case (Suc i)
  then show ?case
    by (simp add: KeyScan_loop.simps [of e "Suc i"] Let_def split_beta del: KeyScan_loop.simps)
qed

lemma KeyScan_mem [simp]: "mem (snd (KeyScan e s)) = mem s"
  using KeyScan_loop_boot_data [of e 7 0 s] by (simp add: KeyScan_def boot_data_def split_beta)

lemma put_KeyInfo_outside: "\<not> in_boot_info cfg a \<Longrightarrow> i < 16 \<Longrightarrow> put_KeyInfo cfg i v m a = m a"
  by (simp add: put_KeyInfo_def put_field_outside sizeof_BSP_BOOT_INFO_cases)

lemma scan_column_outside:
  "\<not> in_boot_info cfg a \<Longrightarrow> i < 8 \<Longrightarrow> mem (scan_column cfg e i s) a = mem s a"
  by (simp add: scan_column_def Let_def split_beta put_KeyInfo_outside)

text \<open>\<open>SetupBootMode\<close> writes to memory only in the structure, and leaves an array of 8 bytes for the
  allowed version.\<close>

lemma DetectBootKey_outside:
  assumes "\<not> in_boot_info cfg a"
  shows "mem (snd (DetectBootKey cfg e s)) a = mem s a"
proof -
  have scan: "list_all (\<lambda>i. i < 8) is \<Longrightarrow> mem (fold (scan_column cfg e) is s) a = mem s a" for "is" s
    using assms by (induction "is" arbitrary: s) (simp_all add: scan_column_outside)
  obtain w where sw: "read_switches cfg e u = u\<lparr>now := now u + 4, mem := put_KeyInfo cfg 8 w (mem u)\<rparr>"
      if "u = fold (scan_column cfg e) [0, 1, 2, 3, 4, 5, 6, 7] s" for u
    using read_switches_frame by blast
  have ver: "put_UbootVer cfg bs m a = m a" if "length bs = 16" for bs m
    using assms that by (simp add: put_UbootVer_def put_field_outside sizeof_BSP_BOOT_INFO_cases)
  have "mem (read_switches cfg e (fold (scan_column cfg e) [0, 1, 2, 3, 4, 5, 6, 7] s)) a = mem s a"
    using scan [of "[0, 1, 2, 3, 4, 5, 6, 7]" s] assms by (simp only: sw) (simp add: put_KeyInfo_outside)
  then show ?thesis
    unfolding DetectBootKey_def Let_def by (simp add: ver)
qed

lemma key_init_mem [simp]: "mem (key_init s) = mem s"
  by (simp add: key_init_def Let_def)

lemma AutoSelect_mem [simp]: "mem (snd (AutoSelect cfg e s)) = mem s"
proof -
  have get: "mem (snd (gpio_get_value e g s)) = mem s" for g s
    by (simp add: gpio_get_value_def Let_def)
  show ?thesis
    by (simp add: AutoSelect_def Let_def split_beta get)
qed

lemma SetupBootMode_outside: "\<not> in_boot_info cfg a \<Longrightarrow> mem (SetupBootMode cfg e s) a = mem s a"
  by (simp add: SetupBootMode_def Let_def split_beta DetectBootKey_outside)

lemma pwm_boot_data [simp]:
  "boot_data (BuzzerBeep cfg d s) = boot_data s" "boot_data (BuzzerInit s) = boot_data s"
  by (simp_all add: BuzzerBeep_def BuzzerInit_def pwm_init_def pwm_config_direct_def pwm_enable_def
      pwm_disable_def Let_def)

lemma beep_fields [simp]:
  "boot_dev (BuzzerBeep cfg d (BuzzerInit s)) = boot_dev s"
  "Allow_Boot_Version (BuzzerBeep cfg d (BuzzerInit s)) = Allow_Boot_Version s"
proof -
  have "boot_data (BuzzerBeep cfg d (BuzzerInit s)) = boot_data s"
    by simp
  then show "boot_dev (BuzzerBeep cfg d (BuzzerInit s)) = boot_dev s"
    "Allow_Boot_Version (BuzzerBeep cfg d (BuzzerInit s)) = Allow_Boot_Version s"
    by (simp_all only: boot_data_def prod.inject)
qed

lemma SetupBootMode_versions: "versions_ok cfg (SetupBootMode cfg e s)"
  by (simp add: versions_ok_def SetupBootMode_def DetectBootKey_def Let_def split_beta)

lemma SetupBootMode_boot_dev: "boot_dev (SetupBootMode cfg e s) = boot_dev s"
proof -
  have get: "boot_dev (snd (gpio_get_value e g s)) = boot_dev s" for g s
    by (simp add: gpio_get_value_def Let_def)
  have delay: "boot_dev (udelay n s) = boot_dev s" for n s
    by (simp add: udelay_def)
  have scan: "boot_dev (scan_column cfg e i s) = boot_dev s" for i s
    using KeyScan_loop_boot_data [of e 7 0]
    by (simp add: scan_column_def KeyScan_def boot_data_def Let_def split_beta udelay_def)
  have "boot_dev (read_switches cfg e s) = boot_dev s" for s
    using read_switches_frame [of cfg e s] by auto
  moreover have "boot_dev (key_init s) = boot_dev s" for s
    by (simp add: key_init_def Let_def delay)
  moreover have "boot_dev (snd (AutoSelect cfg e s)) = boot_dev s" for s
    by (simp add: AutoSelect_def Let_def split_beta get delay)
  ultimately show ?thesis
    by (simp add: SetupBootMode_def DetectBootKey_def Let_def split_beta scan)
qed

text \<open>\<open>setup_gpio\<close> changes the version of the board and nothing else of the boot data.\<close>

lemma version_loop_boot_data [simp]:
  "valid_gpio g \<Longrightarrow> boot_data (snd (snd (version_loop e g l h u cnt s))) = boot_data s"
  using version_loop_frame [of g e l h u cnt s] by (auto simp: boot_data_def)

definition with_version :: "u8 \<Rightarrow> memory \<times> boot_device \<times> u8 \<times> u8 \<times> u32 \<times> u8 list \<Rightarrow> memory \<times> boot_device \<times> u8 \<times> u8 \<times> u32 \<times> u8 list" where
  "with_version v d = (case d of (m, dev, _, sel, mode, allow) \<Rightarrow> (m, dev, v, sel, mode, allow))"

lemma boot_data_version [simp]:
  "boot_data (s\<lparr>Board_Version := v\<rparr>) = with_version v (boot_data s)"
  "with_version v (with_version w d) = with_version v d"
  by (simp_all add: boot_data_def with_version_def split: prod.splits)

lemma setup_gpio_io_fast_boot_data:
  "\<exists>v. boot_data (setup_gpio_io_fast e s) = with_version v (boot_data s)"
proof -
  obtain v where v: "boot_data (snd (after_first_loop e s)) = with_version v (boot_data s)"
    by (simp add: after_first_loop_def Let_def split_beta)
  show ?thesis
    by (simp add: setup_gpio_io_fast_stages Let_def split_beta v) blast
qed

lemma setup_gpio_boot_data:
  "boot_data (setup_gpio e s) = with_version (Board_Version (setup_gpio e s)) (boot_data s)"
proof -
  obtain v where "boot_data (setup_gpio_io_fast e (setup_iomux_gpio_fast s)) = with_version v (boot_data s)"
    using setup_gpio_io_fast_boot_data [of e "setup_iomux_gpio_fast s"] by (auto simp: setup_iomux_gpio_fast_def)
  then have "boot_data (setup_gpio e s) = with_version v (boot_data s)"
    by (simp add: setup_gpio_def setup_gpio_io_def setup_iomux_gpio_def Let_def)
  then show ?thesis
    by (simp add: boot_data_def with_version_def)
qed

lemma setup_gpio_version: "Board_Version (setup_gpio e s) \<in> {1, 2, 3}"
  using setup_gpio_before(1) [of e s] by (simp add: setup_gpio_final)

text \<open>The state \<open>board_init\<close> leaves, for a board whose keys \<open>pressed\<close> describes.\<close>

lemma board_init_state:
  fixes cfg e setup_i2c s
  assumes keys: "key_matrix e pressed" and i2c: "\<And>s. boot_data (setup_i2c s) = boot_data s"
  defines "t \<equiv> snd (board_init cfg e setup_i2c s)"
  shows "bootMode t = boot_mode_spec (is_toyota cfg t) pressed" and "Board_Version t \<in> {1, 2, 3}"
    and "boot_dev t = boot_dev s" and "versions_ok cfg t"
    and "c < 8 \<Longrightarrow> bi_KeyInfo (boot_info_of cfg (mem t)) ! c = row_byte (pressed c)"
    and "\<not> in_boot_info cfg a \<Longrightarrow> mem t a = mem s a"
proof -
  let ?b = "SetupBootMode cfg e s"
  obtain v where v: "boot_data t = with_version v (boot_data ?b)" "v \<in> {1, 2, 3}"
    using setup_gpio_boot_data setup_gpio_version by (simp add: t_def board_init_def Let_def i2c)
  then have t: "mem t = mem ?b" "boot_dev t = boot_dev ?b" "Board_Version t = v" "g_AutoSel t = g_AutoSel ?b"
    "bootMode t = bootMode ?b" "Allow_Boot_Version t = Allow_Boot_Version ?b"
    by (simp_all add: boot_data_def with_version_def)
  have "is_toyota cfg t = is_toyota cfg ?b"
    by (simp add: is_toyota_def t)
  then show "bootMode t = boot_mode_spec (is_toyota cfg t) pressed"
    using SetupBootMode_matrix(1) [OF keys] by (simp add: t)
  show "Board_Version t \<in> {1, 2, 3}" "boot_dev t = boot_dev s" "versions_ok cfg t"
    using v SetupBootMode_boot_dev SetupBootMode_versions [of cfg e s] by (simp_all add: t versions_ok_def)
  show "bi_KeyInfo (boot_info_of cfg (mem t)) ! c = row_byte (pressed c)" if "c < 8"
    using SetupBootMode_matrix(2) [OF keys that] by (simp add: t)
  show "mem t a = mem s a" if "\<not> in_boot_info cfg a"
    using SetupBootMode_outside [OF that] by (simp add: t)
qed

lemma set_versions_words:
  "bi_bootMode (boot_info_of cfg (set_versions cfg s m)) = bi_bootMode (boot_info_of cfg m)"
  "bi_errorCode (boot_info_of cfg (set_versions cfg s m)) = bi_errorCode (boot_info_of cfg m)"
  "bi_strage (boot_info_of cfg (set_versions cfg s m)) = bi_strage (boot_info_of cfg m)"
  "bi_osImageSize (boot_info_of cfg (set_versions cfg s m)) = bi_osImageSize (boot_info_of cfg m)"
  using allow_len_cases [of cfg] by (auto simp: set_versions_def boot_info_unfold)

lemma report_1245_words:
  "bi_bootMode (boot_info_of cfg (report_1245 cfg d mode v t)) = mode"
  "bi_errorCode (boot_info_of cfg (report_1245 cfg d mode v t)) = errCode v"
  "bi_strage (boot_info_of cfg (report_1245 cfg d mode v t)) = bootMedia v"
  "bi_osImageSize (boot_info_of cfg (report_1245 cfg d mode v t)) = FileSize v"
  by (simp_all add: report_1245_def set_versions_words boot_info_put)

end
