(* ===== verification/Fat_Read.thy ===== *)
theory Fat_Read
  imports Fat_Frame
begin

text \<open>
  Reading files is correct.  Over a disk whose reads succeed (\<open>readable_disk\<close>), with the volume
  mounted, the cached lookup of a table entry is the entry on the disk, the transfer of a run of
  sectors yields the bytes of those sectors whether the buffer is aligned or not, and
  \<open>get_contents\<close>, which coalesces consecutive clusters into one transfer, returns exactly the
  bytes of the cluster chain.  The lemmas live in the locale \<open>fat_volume\<close>; it is interpreted for a
  partition of an SD card and of a USB stick.
\<close>

section \<open>The volume on the disk\<close>

text \<open>
  Reference definitions over the blocks \<open>vol\<close> of a volume: a byte of the file allocation table; the
  word of a cluster in the table (32, 16 or 12 bits wide, little endian; an odd 12-bit entry is the upper part of the
  16 bits at its byte offset); and the entry of the cluster as the FAT specification defines it, which on FAT32 leaves out the
  upper four bits of the word: they are reserved.
\<close>

definition fat_byte :: "(u32 \<Rightarrow> u8 list) \<Rightarrow> fsdata \<Rightarrow> nat \<Rightarrow> u8" where
  "fat_byte vol my i =
     vol (ucast (fat_sect my) + of_nat (i div unat (sect_size my))) ! (i mod unat (sect_size my))"

definition fat_word :: "(u32 \<Rightarrow> u8 list) \<Rightarrow> fsdata \<Rightarrow> nat \<Rightarrow> u32" where
  "fat_word vol my n =
     (if fatsize my = 32 then
        u32_of_bytes (fat_byte vol my (4 * n)) (fat_byte vol my (4 * n + 1))
          (fat_byte vol my (4 * n + 2)) (fat_byte vol my (4 * n + 3))
      else if fatsize my = 16 then
        ucast (u16_of_bytes (fat_byte vol my (2 * n)) (fat_byte vol my (2 * n + 1)))
      else
        let w = u16_of_bytes (fat_byte vol my (n + n div 2)) (fat_byte vol my (n + n div 2 + 1)) in
        if even n then ucast w AND 0xfff else drop_bit 4 (ucast w))"

definition fat_entry :: "(u32 \<Rightarrow> u8 list) \<Rightarrow> fsdata \<Rightarrow> nat \<Rightarrow> u32" where
  "fat_entry vol my n = (if fatsize my = 32 then take_bit 28 (fat_word vol my n) else fat_word vol my n)"

text \<open>The driver does not mask them: it agrees with the specification where the reserved bits are 0.\<close>

definition fat_clean :: "(u32 \<Rightarrow> u8 list) \<Rightarrow> fsdata \<Rightarrow> nat \<Rightarrow> bool" where
  "fat_clean vol my n \<longleftrightarrow> (fatsize my = 32 \<longrightarrow> fat_word vol my n < 0x10000000)"

lemma fat_clean_entry: "fat_clean vol my n \<longleftrightarrow> fat_word vol my n = fat_entry vol my n"
proof -
  have "w = take_bit 28 w \<longleftrightarrow> w < 0x10000000" for w :: u32
    using take_bit_nat_eq_self_iff [of 28 "unat w"]
    by (simp only: word_unat_eq_iff unsigned_take_bit_eq word_less_nat_alt eq_commute [of "unat w"]) simp
  then show ?thesis
    unfolding fat_clean_def fat_entry_def by (cases "fatsize my = 32") (simp_all only: if_True if_False simp_thms)
qed

lemma reserved_bits_end_chain: "\<not> fat_clean vol my n \<Longrightarrow> CHECK_CLUST (fat_word vol my n) (fatsize my)"
  by (auto simp: fat_clean_def CHECK_CLUST_def not_less intro: order_trans [rotated])

lemma check_entry_word:
  "CHECK_CLUST (fat_entry vol my n) (fatsize my) \<Longrightarrow> CHECK_CLUST (fat_word vol my n) (fatsize my)"
  using reserved_bits_end_chain fat_clean_entry by metis

text \<open>The end of an entry in the table, in bytes.\<close>

definition fat_entry_end :: "fsdata \<Rightarrow> nat \<Rightarrow> nat" where
  "fat_entry_end my n =
     (if fatsize my = 32 then 4 * n + 4 else if fatsize my = 16 then 2 * n + 2 else n + n div 2 + 2)"

text \<open>The parameters of a volume: a supported kind, an even sector size, and a table inside the medium.\<close>

definition fat_wf :: "nat \<Rightarrow> fsdata \<Rightarrow> bool" where
  "fat_wf nsect my \<longleftrightarrow>
     fatsize my \<in> {12, 16, 32} \<and> 0 < unat (sect_size my) \<and> even (unat (sect_size my)) \<and>
     unat (fat_sect my) + unat (fatlength my) \<le> nsect \<and> unat (fatlength my) < 2 ^ 31"

text \<open>The invariant of the table cache: the buffer has its size, and what it is said to hold agrees
  with the disk as far as the table goes.\<close>

definition fat_cache_ok :: "(u32 \<Rightarrow> u8 list) \<Rightarrow> fsdata \<Rightarrow> bool" where
  "fat_cache_ok vol my \<longleftrightarrow>
     length (fatbuf my) = FATBUFSIZE my \<and>
     (\<forall>i < FATBUFSIZE my. unat (fatbufnum my) * FATBUFSIZE my + i < unat (fatlength my) * unat (sect_size my) \<longrightarrow>
        fatbuf my ! i = fat_byte vol my (unat (fatbufnum my) * FATBUFSIZE my + i))"

section \<open>Looking up an entry\<close>

lemma unat_ucast_u16: "unat (ucast x :: u32) = unat x" for x :: u16
  using unsigned_less [of x, where 'a = nat] by (simp add: unsigned_ucast_eq take_bit_nat_eq_self)

lemma bit_u8_less: "bit b n \<Longrightarrow> n < 8" for b :: u8
  using bit_imp_le_length [of b n] by simp

lemma FAT12_entry:
  fixes b0 b1 b2 b3 b4 b5 :: u8
  shows "(push_bit 4 (ucast (u16_of_bytes b2 b3 AND 0x00ff)) OR drop_bit 12 (ucast (u16_of_bytes b0 b1 AND 0xf000)) :: u32)
      = drop_bit 4 (ucast (u16_of_bytes b1 b2))"
    and "(push_bit 8 (ucast (u16_of_bytes b4 b5 AND 0x000f)) OR drop_bit 8 (ucast (u16_of_bytes b2 b3 AND 0xff00)) :: u32)
      = ucast (u16_of_bytes b3 b4) AND 0xfff"
    and "(drop_bit 4 (ucast (u16_of_bytes b4 b5) AND 0xfff0) :: u32) = drop_bit 4 (ucast (u16_of_bytes b4 b5))"
proof -
  have m: "(0x00ff :: u16) = mask 8" "(0xf000 :: u16) = push_bit 12 (mask 4)" "(0x000f :: u16) = mask 4"
    "(0xff00 :: u16) = push_bit 8 (mask 8)" "(0xfff :: u32) = mask 12" "(0xfff0 :: u32) = push_bit 4 (mask 12)"
    by (simp_all add: mask_numeral)
  show "(push_bit 4 (ucast (u16_of_bytes b2 b3 AND 0x00ff)) OR drop_bit 12 (ucast (u16_of_bytes b0 b1 AND 0xf000)) :: u32)
      = drop_bit 4 (ucast (u16_of_bytes b1 b2))"
    unfolding m by (rule bit_word_eqI) (auto simp: u16_of_bytes_def bit_simps dest: bit_u8_less)
  show "(push_bit 8 (ucast (u16_of_bytes b4 b5 AND 0x000f)) OR drop_bit 8 (ucast (u16_of_bytes b2 b3 AND 0xff00)) :: u32)
      = ucast (u16_of_bytes b3 b4) AND 0xfff"
    unfolding m by (rule bit_word_eqI) (auto simp: u16_of_bytes_def bit_simps dest: bit_u8_less)
  show "(drop_bit 4 (ucast (u16_of_bytes b4 b5) AND 0xfff0) :: u32) = drop_bit 4 (ucast (u16_of_bytes b4 b5))"
    unfolding m by (rule bit_word_eqI) (auto simp: u16_of_bytes_def bit_simps dest: bit_u8_less)
qed

lemma nth_sectors:
  assumes "\<And>b. length (vol b) = sz" and "i < n * sz"
  shows "sectors vol b n ! i = vol (b + of_nat (i div sz)) ! (i mod sz)"
  using assms(2)
proof (induction n arbitrary: b i)
  case (Suc n)
  have eq: "sectors vol b (Suc n) = vol b @ sectors vol (b + 1) n"
    using sectors_add [of vol b 1 n] by (simp add: sectors_1)
  show ?case
  proof (cases "i < sz")
    case True
    then show ?thesis
      by (simp add: eq nth_append assms(1))
  next
    case False
    moreover have "0 < sz"
      using Suc.prems by (cases sz) simp_all
    ultimately have "i div sz = Suc ((i - sz) div sz)" "i mod sz = (i - sz) mod sz"
      by (simp_all add: le_div_geq le_mod_geq not_less)
    then show ?thesis
      using False Suc.prems Suc.IH [of "i - sz" "b + 1"] by (simp add: eq nth_append assms(1) add.assoc)
  qed
qed simp

lemma fat_byte_block:
  assumes "0 < unat (sect_size my)"
  shows "fat_byte vol my (a * unat (sect_size my) + i)
    = vol (ucast (fat_sect my) + of_nat a + of_nat (i div unat (sect_size my))) ! (i mod unat (sect_size my))"
  using assms by (simp add: fat_byte_def div_mult_self3 add.assoc)

lemma fat_bufsize_bytes:
  assumes "fat_wf nsect my"
  shows "fatsize my = 32 \<Longrightarrow> 4 * fat_bufsize my = FATBUFSIZE my"
    and "fatsize my = 16 \<Longrightarrow> 2 * fat_bufsize my = FATBUFSIZE my"
    and "fatsize my = 12 \<Longrightarrow> 3 * fat_bufsize my = 2 * FATBUFSIZE my \<and> fat_bufsize my mod 4 = 0"
    and "0 < fat_bufsize my" and "FATBUFSIZE my = unat (sect_size my) * 6"
proof -
  let ?s = "unat (sect_size my)"
  have B: "FATBUFSIZE my = ?s * 6"
    by (simp add: FATBUFSIZE_def FATBUFBLOCKS_def)
  have wf: "fatsize my = 12 \<or> fatsize my = 16 \<or> fatsize my = 32" "0 < ?s" "even ?s"
    using assms by (auto simp: fat_wf_def)
  obtain h where h: "?s = 2 * h"
    using wf(3) by blast
  show "fatsize my = 32 \<Longrightarrow> 4 * fat_bufsize my = FATBUFSIZE my"
    "fatsize my = 16 \<Longrightarrow> 2 * fat_bufsize my = FATBUFSIZE my"
    "fatsize my = 12 \<Longrightarrow> 3 * fat_bufsize my = 2 * FATBUFSIZE my \<and> fat_bufsize my mod 4 = 0"
    "0 < fat_bufsize my" "FATBUFSIZE my = ?s * 6"
    using wf h by (auto simp: fat_bufsize_def FAT32BUFSIZE_def FAT16BUFSIZE_def FAT12BUFSIZE_def B)
qed

text \<open>Where an entry lies: in the buffer number \<open>n div bufsize\<close>, which starts inside the table.\<close>

lemma fat_entry_buffer:
  assumes wf: "fat_wf nsect my" and fits: "fat_entry_end my n \<le> unat (fatlength my) * unat (sect_size my)"
  shows "n div fat_bufsize my * 6 < unat (fatlength my)"
proof -
  let ?k = "fat_bufsize my" and ?B = "FATBUFSIZE my" and ?s = "unat (sect_size my)"
  note bs = fat_bufsize_bytes [OF wf]
  have "n div ?k * ?k \<le> n"
    by simp
  moreover have "fatsize my = 12 \<or> fatsize my = 16 \<or> fatsize my = 32"
    using wf by (auto simp: fat_wf_def)
  ultimately have "2 * (n div ?k * ?B) < 2 * fat_entry_end my n"
  proof (elim disjE)
    assume 12: "fatsize my = 12"
    then have "3 * (n div ?k * ?k) = 2 * (n div ?k * ?B)"
      using bs(3) by (metis mult.left_commute)
    moreover have "fat_entry_end my n = n + n div 2 + 2" "n \<le> 2 * (n div 2) + 1"
      using 12 by (simp_all add: fat_entry_end_def)
    ultimately show ?thesis
      using \<open>n div ?k * ?k \<le> n\<close> by linarith
  next
    assume 16: "fatsize my = 16"
    then have "2 * (n div ?k * ?k) = n div ?k * ?B"
      using bs(2) by (metis mult.left_commute)
    moreover have "fat_entry_end my n = 2 * n + 2"
      using 16 by (simp add: fat_entry_end_def)
    ultimately show ?thesis
      using \<open>n div ?k * ?k \<le> n\<close> by linarith
  next
    assume 32: "fatsize my = 32"
    then have "4 * (n div ?k * ?k) = n div ?k * ?B"
      using bs(1) by (metis mult.left_commute)
    moreover have "fat_entry_end my n = 4 * n + 4"
      using 32 by (simp add: fat_entry_end_def)
    ultimately show ?thesis
      using \<open>n div ?k * ?k \<le> n\<close> by linarith
  qed
  moreover have "n div ?k * ?B = n div ?k * 6 * ?s"
    using bs(5) by simp
  ultimately have "n div ?k * 6 * ?s < unat (fatlength my) * ?s"
    using fits by linarith
  then show ?thesis
    by simp
qed

section \<open>A mounted volume\<close>

definition mounted :: "block_dev_desc \<Rightarrow> u32 \<Rightarrow> sys \<Rightarrow> bool" where
  "mounted dev start s \<longleftrightarrow> cur_dev s = Some dev \<and> part_start (cur_part_info s) = start"

lemma mounted_kept: "kept t = kept s \<Longrightarrow> mounted dev start t = mounted dev start s"
  by (simp add: kept_defs mounted_def)

locale fat_volume = readable_disk +
  fixes vol :: "u32 \<Rightarrow> u8 list" and start :: u32 and nsect :: nat
  assumes vol_def: "vol = (\<lambda>b. disk (start + b))"
    and vol_inside: "unat start + nsect \<le> lba"
begin

lemma vol_length: "length (vol b) = bsz"
  by (simp add: vol_def sector_length)

lemma disk_read_ok:
  assumes "ready s" and "mounted dev start s" and "unat b + unat n \<le> nsect"
  shows "\<exists>t. disk_read cfg e md b n s = Some (sint n, sectors vol b (unat n), t) \<and>
    kept t = kept s \<and> ready t \<and> mounted dev start t"
proof -
  have "unat (start + b) = unat start + unat b"
    using assms(3) vol_inside lba_bound by (intro unat_add_small) linarith
  then obtain t where t: "block_read cfg e md dev (start + b) n s = Some (n, sectors disk (start + b) (unat n), t)"
    "kept t = kept s"
    using read_ok [OF assms(1), of "start + b" n] assms(3) vol_inside by auto
  moreover have "sectors disk (start + b) (unat n) = sectors vol b (unat n)"
    by (simp add: sectors_def vol_def add.assoc)
  ultimately show ?thesis
    using assms(2) ready_kept [OF t(2) assms(1)] mounted_kept [OF t(2)]
    by (simp add: disk_read_def mounted_def)
qed

lemma fat_byte_sectors:
  assumes "fat_wf nsect my" and "bsz = unat (sect_size my)" and "i < g * bsz"
  shows "sectors vol (of_nat a + ucast (fat_sect my)) g ! i = fat_byte vol my (a * bsz + i)"
  using assms nth_sectors [OF vol_length assms(3)] fat_byte_block [of my vol a i]
  by (simp add: fat_wf_def add.commute)

lemma get_fatent_load_ok:
  assumes wf: "fat_wf nsect my" and bsz: "bsz = unat (sect_size my)" and cache: "fat_cache_ok vol my"
    and s: "ready s" "mounted dev start s" and num: "unat bufnum * 6 < unat (fatlength my)"
  shows "\<exists>my' t. get_fatent_load cfg e md my bufnum s = Some (0, my', t) \<and>
    fat_cache_ok vol my' \<and> (\<exists>buf. my' = my\<lparr>fatbuf := buf, fatbufnum := bufnum\<rparr>) \<and>
    kept t = kept s \<and> ready t \<and> mounted dev start t"
proof (cases "bufnum = fatbufnum my")
  case True
  then show ?thesis
    using cache s by (intro exI [of _ my] exI [of _ s]) (auto simp: get_fatent_load_def intro: exI [of _ "fatbuf my"])
next
  case False
  define startblock where "startblock = bufnum * 6"
  define g where "g = min 6 (unat (fatlength my) - unat bufnum * 6)"
  have len: "unat (fatlength my) < 2 ^ 31" "unat (fat_sect my) + unat (fatlength my) \<le> nsect"
    using wf by (simp_all add: fat_wf_def)
  have sb: "unat startblock = unat bufnum * 6"
    using num len by (simp add: startblock_def unat_mult_lem [THEN iffD1])
  have g: "0 < g" "g \<le> 6" "unat bufnum * 6 + g \<le> unat (fatlength my)"
    using num by (auto simp: g_def)
  have getsize: "(if startblock + 6 > fatlength my then fatlength my - startblock else 6) = of_nat g"
  proof -
    have "unat (startblock + 6) = unat bufnum * 6 + 6"
      using unat_add_small [of startblock 6] sb num len by simp
    then have "startblock + 6 > fatlength my \<longleftrightarrow> unat bufnum * 6 + 6 > unat (fatlength my)"
      by (simp add: word_less_nat_alt)
    moreover have "fatlength my - startblock = of_nat (unat (fatlength my) - unat bufnum * 6)"
      using num sb unat_sub [of startblock "fatlength my"] 
      by (simp add: word_le_nat_alt startblock_def)
    ultimately show ?thesis
      by (auto simp: g_def min_def)
  qed
  have "g \<in> {1, 2, 3, 4, 5, 6}"
    using g by auto
  then have g32: "unat (of_nat g :: u32) = g" "sint (of_nat g :: u32) \<ge> 0"
    by auto
  have bytes: "unat (startblock + ucast (fat_sect my)) + unat (of_nat g :: u32) \<le> nsect"
  proof -
    have "unat (ucast (fat_sect my) :: u32) = unat (fat_sect my)"
      by (rule unat_ucast_u16)
    then have "unat (startblock + ucast (fat_sect my)) = unat bufnum * 6 + unat (fat_sect my)"
      using unat_add_small [of startblock "ucast (fat_sect my)"] sb g len vol_inside lba_bound by simp
    then show ?thesis
      using g len g32 by simp
  qed
  obtain t where t: "disk_read cfg e md (startblock + ucast (fat_sect my)) (of_nat g) s
      = Some (sint (of_nat g :: u32), sectors vol (startblock + ucast (fat_sect my)) g, t)"
    "kept t = kept s" "ready t" "mounted dev start t"
    using disk_read_ok [OF s bytes] g32 by auto
  have B: "FATBUFSIZE my = 6 * bsz" and buf: "length (fatbuf my) = 6 * bsz"
    using cache by (simp_all add: fat_cache_ok_def FATBUFSIZE_def FATBUFBLOCKS_def bsz)
  define buf' where "buf' = sectors vol (startblock + ucast (fat_sect my)) g @ drop (g * bsz) (fatbuf my)"
  have store: "store_at (fatbuf my) 0 (sectors vol (startblock + ucast (fat_sect my)) g) = Some buf'"
    using g(2) buf by (simp add: store_at_def length_sectors [of vol bsz, OF vol_length] buf'_def)
  let ?my = "my\<lparr>fatbuf := buf', fatbufnum := bufnum\<rparr>"
  have load: "get_fatent_load cfg e md my bufnum s = Some (0, ?my, t)"
    using False t(1) store getsize g32(2)
    by (cases "startblock + 6 > fatlength my")
       (simp_all add: get_fatent_load_def FATBUFBLOCKS_def startblock_def [symmetric] Let_def)
  have B': "FATBUFSIZE ?my = 6 * bsz"
    using B by (simp add: FATBUFSIZE_def)
  have "fat_cache_ok vol ?my"
    unfolding fat_cache_ok_def
  proof (intro conjI allI impI)
    show "length (fatbuf ?my) = FATBUFSIZE ?my"
      using g(2) buf unfolding B' by (simp add: buf'_def length_sectors [of vol bsz, OF vol_length])
  next
    fix i
    assume i: "i < FATBUFSIZE ?my"
      "unat (fatbufnum ?my) * FATBUFSIZE ?my + i < unat (fatlength ?my) * unat (sect_size ?my)"
    then have i': "i < 6 * bsz" "(unat bufnum * 6) * bsz + i < unat (fatlength my) * bsz"
      unfolding B' by (simp_all add: bsz mult_ac)
    have "i < g * bsz"
    proof (cases "g = 6")
      case False
      then have "unat (fatlength my) = unat bufnum * 6 + g"
        using g(3) by (auto simp: g_def min_def split: if_splits)
      then show ?thesis
        using i'(2) by (simp add: algebra_simps)
    qed (use i'(1) in simp)
    then have "buf' ! i = fat_byte vol my ((unat bufnum * 6) * bsz + i)"
      using fat_byte_sectors [OF wf bsz, of i g "unat bufnum * 6"]
      by (simp add: buf'_def nth_append length_sectors [of vol bsz, OF vol_length] startblock_def)
    then show "fatbuf ?my ! i = fat_byte vol ?my (unat (fatbufnum ?my) * FATBUFSIZE ?my + i)"
      unfolding B' by (simp add: fat_byte_def mult.assoc)
  qed
  then show ?thesis
    using load t(2-4) by blast
qed

end

lemma fat_cache_nth:
  assumes "fat_cache_ok vol my" and "fatbufnum my = bufnum" and "j < FATBUFSIZE my"
    and "unat bufnum * FATBUFSIZE my + j < unat (fatlength my) * unat (sect_size my)"
  shows "fatbuf my ! j = fat_byte vol my (unat bufnum * FATBUFSIZE my + j)"
  using assms by (simp add: fat_cache_ok_def)

lemma get_fatent_entry_wide:
  assumes wf: "fat_wf nsect my" and cache: "fat_cache_ok vol my" and w: "fatsize my = 32 \<or> fatsize my = 16"
    and num: "unat (fatbufnum my) = n div fat_bufsize my"
    and fits: "fat_entry_end my n \<le> unat (fatlength my) * unat (sect_size my)"
  shows "get_fatent_entry my (n mod fat_bufsize my) = Some (fat_word vol my n)"
proof -
  let ?k = "fat_bufsize my" and ?B = "FATBUFSIZE my"
  define w where "w = (if fatsize my = 32 then 4 else 2 :: nat)"
  have wB: "w * ?k = ?B" and fend: "fat_entry_end my n = w * n + w"
    using fat_bufsize_bytes(1,2) [OF wf] \<open>fatsize my = 32 \<or> fatsize my = 16\<close>
    by (auto simp: w_def fat_entry_end_def)
  have k: "n mod ?k < ?k"
    using fat_bufsize_bytes(4) [OF wf] by simp
  then have "Suc (n mod ?k) \<le> ?k"
    by simp
  then have in_buf: "w * (n mod ?k) + w \<le> ?B"
    using mult_le_mono2 [of "Suc (n mod ?k)" ?k w] wB by simp
  have pos: "n div ?k * ?B + w * (n mod ?k) = w * n"
  proof -
    have "n div ?k * ?B + w * (n mod ?k) = w * (n div ?k * ?k + n mod ?k)"
      unfolding wB [symmetric] distrib_left by (simp only: mult.left_commute mult.commute)
    then show ?thesis
      by simp
  qed
  have nth: "fatbuf my ! (w * (n mod ?k) + j) = fat_byte vol my (w * n + j)" if "j < w" for j
    using fat_cache_nth [OF cache refl, of "w * (n mod ?k) + j"] in_buf fits that pos fend num
    by (simp add: add.assoc [symmetric])
  have len: "length (fatbuf my) = ?B"
    using cache by (simp add: fat_cache_ok_def)
  show ?thesis
    using \<open>fatsize my = 32 \<or> fatsize my = 16\<close> in_buf len nth [of 0] nth [of 1] nth [of 2] nth [of 3]
    by (auto simp: get_fatent_entry_def fat_word_def load32_def load16_def w_def)
qed

lemma get_fatent_entry_12:
  assumes wf: "fat_wf nsect my" and cache: "fat_cache_ok vol my" and 12: "fatsize my = 12"
    and num: "unat (fatbufnum my) = n div fat_bufsize my"
    and fits: "fat_entry_end my n \<le> unat (fatlength my) * unat (sect_size my)"
  shows "get_fatent_entry my (n mod fat_bufsize my) = Some (fat_word vol my n)"
proof -
  let ?k = "fat_bufsize my" and ?B = "FATBUFSIZE my" and ?T = "unat (fatlength my) * unat (sect_size my)"
  define a where "a = n div ?k"
  define q where "q = n mod ?k div 4"
  define r where "r = n mod ?k mod 4"
  have k: "3 * ?k = 2 * ?B" "?k mod 4 = 0" "0 < ?k"
    using fat_bufsize_bytes(3,4) [OF wf] 12 by auto
  define c where "c = ?k div 4"
  have c: "?k = 4 * c" "?B = 6 * c"
    using k(1,2) by (auto simp: c_def)
  have o: "n mod ?k = 4 * q + r" "r < 4"
    by (simp_all add: q_def r_def)
  have n: "n = 4 * (a * c + q) + r"
    using div_mult_mod_eq [of n ?k] o(1) c(1) by (simp add: a_def)
  have q: "q < c"
    using mod_less_divisor [OF k(3), of n] o(1) c(1) by linarith
  have len: "length (fatbuf my) = 6 * c"
    using cache c by (simp add: fat_cache_ok_def)
  define P where "P = 6 * (a * c + q)"
  have nth: "fatbuf my ! (6 * q + j) = fat_byte vol my (P + j)" if "j < 6" "P + j < ?T" for j
    using fat_cache_nth [OF cache refl, of "6 * q + j"] that q num c a_def
    by (simp add: P_def algebra_simps)
  have fend: "n + n div 2 + 2 \<le> ?T"
    using fits 12 by (simp add: fat_entry_end_def)
  have half: "n + n div 2 = P + r + r div 2"
    using n by (simp add: P_def)
  have "r = 0 \<or> r = 1 \<or> r = 2 \<or> r = 3"
    using o(2) by auto
  then show ?thesis
  proof (elim disjE)
    assume r: "r = 0"
    then show ?thesis
      using nth [of 0] nth [of 1] half fend q len n 12 o
      by (simp add: get_fatent_entry_def fat_word_def load16_def Let_def)
  next
    assume r: "r = 1"
    have off: "(3 + 12 * q) div 4 = 3 * q"
      by simp
    show ?thesis
      using nth [of 1] nth [of 2] half fend q len n 12 o r
      by (simp add: get_fatent_entry_def fat_word_def load16_def Let_def off FAT12_entry(1))
  next
    assume r: "r = 2"
    have off: "(6 + 12 * q) div 4 = 3 * q + 1" and md: "Suc (Suc (4 * q)) mod 4 = 2"
      by (simp, presburger)
    show ?thesis
      using nth [of "Suc (Suc (Suc 0))"] nth [of "Suc (Suc (Suc (Suc 0)))"] half fend q len n 12 o r md
      by (simp add: get_fatent_entry_def fat_word_def load16_def Let_def off FAT12_entry(2))
  next
    assume "r = 3"
    then have r: "r = Suc (Suc (Suc 0))"
      by simp
    have off: "(9 + 12 * q) div 4 = 3 * q + 2" and md: "Suc (Suc (Suc (4 * q))) mod 4 = 3"
      by (simp, presburger)
    show ?thesis
      using nth [of "Suc (Suc (Suc (Suc 0)))"] nth [of "Suc (Suc (Suc (Suc (Suc 0))))"] half fend q len n 12 o r md
      by (simp add: get_fatent_entry_def fat_word_def load16_def Let_def off FAT12_entry(3) [simplified])
  qed
qed

context fat_volume
begin

lemma get_fatent_ok:
  assumes wf: "fat_wf nsect my" and bsz: "bsz = unat (sect_size my)" and cache: "fat_cache_ok vol my"
    and s: "ready s" "mounted dev start s"
    and fits: "fat_entry_end my (unat c) \<le> unat (fatlength my) * unat (sect_size my)"
  shows "\<exists>my' t. get_fatent cfg e md my c s = Some (fat_word vol my (unat c), my', t) \<and>
    fat_cache_ok vol my' \<and> (\<exists>buf num. my' = my\<lparr>fatbuf := buf, fatbufnum := num\<rparr>) \<and>
    kept t = kept s \<and> ready t \<and> mounted dev start t"
proof -
  let ?k = "fat_bufsize my"
  have k: "0 < ?k" "?k < 2 ^ 32"
  proof -
    show "0 < ?k"
      by (rule fat_bufsize_bytes(4) [OF wf])
    have "unat (sect_size my) < 2 ^ 16"
      using unsigned_less [of "sect_size my", where 'a = nat] by simp
    then show "?k < 2 ^ 32"
      by (auto simp: fat_bufsize_def FAT32BUFSIZE_def FAT16BUFSIZE_def FAT12BUFSIZE_def FATBUFSIZE_def
          FATBUFBLOCKS_def)
  qed
  then have uk: "unat (of_nat ?k :: u32) = ?k"
    by (simp add: unsigned_of_nat take_bit_nat_eq_self)
  define num where "num = c div of_nat ?k"
  have num: "unat num = unat c div ?k"
    by (simp add: num_def unat_div uk)
  have off: "unat (c - num * of_nat ?k) = unat c mod ?k"
    using minus_div_mult_eq_mod [of c "of_nat ?k"] by (simp add: num_def unat_mod uk)
  have "unat num * 6 < unat (fatlength my)"
    using fat_entry_buffer [OF wf fits] num by simp
  from get_fatent_load_ok [OF wf bsz cache s this]
  obtain my' t buf where load: "get_fatent_load cfg e md my num s = Some (0, my', t)"
    "fat_cache_ok vol my'" "my' = my\<lparr>fatbuf := buf, fatbufnum := num\<rparr>"
    "kept t = kept s" "ready t" "mounted dev start t"
    by blast
  have same: "fat_wf nsect my'" "fat_bufsize my' = ?k" "fat_word vol my' = fat_word vol my"
    "fat_entry_end my' = fat_entry_end my" "fatsize my' = fatsize my"
    using wf by (auto simp: load(3) fat_wf_def fat_bufsize_def FAT32BUFSIZE_def FAT16BUFSIZE_def FAT12BUFSIZE_def
        FATBUFSIZE_def fat_word_def fat_byte_def fat_entry_end_def fun_eq_iff)
  have "get_fatent_entry my' (unat c mod ?k) = Some (fat_word vol my (unat c))"
  proof (cases "fatsize my = 12")
    case True
    then show ?thesis
      using get_fatent_entry_12 [OF same(1) load(2), of "unat c"] num fits same by (simp add: load(3))
  next
    case False
    then have "fatsize my' = 32 \<or> fatsize my' = 16"
      using wf same(5) by (auto simp: fat_wf_def)
    then show ?thesis
      using get_fatent_entry_wide [OF same(1) load(2), of "unat c"] num fits same by (simp add: load(3))
  qed
  then have "get_fatent cfg e md my c s = Some (fat_word vol my (unat c), my', t)"
    using wf k(1) load(1) off by (simp add: get_fatent_def num_def [symmetric] Let_def fat_wf_def insert_commute)
  then show ?thesis
    using load by blast
qed

end

section \<open>Reading clusters\<close>

text \<open>The first \<open>n\<close> bytes from block \<open>st\<close> on.\<close>

definition run_bytes :: "(u32 \<Rightarrow> u8 list) \<Rightarrow> nat \<Rightarrow> u32 \<Rightarrow> nat \<Rightarrow> u8 list" where
  "run_bytes vol sz st n = sectors vol st (n div sz) @ take (n mod sz) (vol (st + of_nat (n div sz)))"

lemma run_bytes_take:
  assumes len: "\<And>b. length (vol b) = sz" and "0 < sz" and "n \<le> k * sz"
  shows "run_bytes vol sz st n = take n (sectors vol st k)"
proof -
  have q: "n div sz \<le> k"
    using assms(2,3) by (metis div_le_mono nonzero_mult_div_cancel_right not_gr0)
  have nq: "n - n div sz * sz = n mod sz"
    by (simp add: minus_div_mult_eq_mod)
  have split: "take n (sectors vol st k) = sectors vol st (n div sz) @
      take (n mod sz) (sectors vol (st + of_nat (n div sz)) (k - n div sz))"
    using sectors_add [of vol st "n div sz" "k - n div sz"] q nq
    by (simp add: length_sectors [of vol sz, OF len])
  show ?thesis
  proof (cases "k - n div sz")
    case 0
    then have "n mod sz = 0"
      using q assms(2,3) by (metis diff_is_0_eq le_antisym nq diff_self_eq_0 mult_le_mono1 diff_is_0_eq')
    then show ?thesis
      by (simp add: split run_bytes_def)
  next
    case (Suc j)
    have "sectors vol b (Suc j) = vol b @ sectors vol (b + 1) j" for b
      using sectors_add [of vol b 1 j] by (simp add: sectors_1)
    then show ?thesis
      using mod_less_divisor [OF assms(2), of n] by (simp add: split run_bytes_def Suc len)
  qed
qed

lemma length_run_bytes:
  assumes "\<And>b. length (vol b) = sz" and "0 < sz"
  shows "length (run_bytes vol sz st n) = n"
  using mod_less_divisor [OF assms(2), of n]
  by (simp add: run_bytes_def length_sectors [of vol sz, OF assms(1)] assms(1) min_def less_imp_le)

definition blocks_of :: "nat \<Rightarrow> nat \<Rightarrow> nat" where
  "blocks_of sz n = n div sz + (if n mod sz = 0 then 0 else 1)"

context fat_volume
begin

lemma read_sector_ok:
  assumes "bsz = unat (sect_size my)" and "ready s" "mounted dev start s" and "unat b + 1 \<le> nsect"
  shows "\<exists>t. read_sector cfg e md my b s = Some (Some (vol b), t) \<and> kept t = kept s \<and> ready t \<and> mounted dev start t"
proof -
  obtain t where "disk_read cfg e md b 1 s = Some (1, vol b, t)" "kept t = kept s" "ready t" "mounted dev start t"
    using disk_read_ok [OF assms(2,3), of b 1] assms(4) by (auto simp: sectors_1)
  then show ?thesis
    using assms(1) by (simp add: read_sector_def vol_length)
qed

lemma get_cluster_misaligned_ok:
  assumes bsz: "bsz = unat (sect_size my)" "0 < bsz"
    and "ready s" "mounted dev start s" and "unat b + unat n div bsz \<le> nsect"
  shows "\<exists>t. get_cluster_misaligned cfg e md my b n out s
      = Some (0, b + of_nat (unat n div bsz), of_nat (unat n mod bsz), out @ sectors vol b (unat n div bsz), t)
    \<and> kept t = kept s \<and> ready t \<and> mounted dev start t"
  using assms(3-5)
proof (induction "unat n" arbitrary: n b out s rule: less_induct)
  case less
  have sz: "unat (ucast (sect_size my) :: u32) = bsz"
    using bsz(1) by (simp add: unat_ucast_u16)
  show ?case
  proof (cases "n \<ge> ucast (sect_size my)")
    case False
    then have "unat n < bsz"
      using sz by (simp add: not_le word_less_nat_alt)
    then show ?thesis
      using less.prems False by (subst get_cluster_misaligned.simps) simp
  next
    case True
    then have n: "bsz \<le> unat n"
      using sz by (simp add: word_le_nat_alt)
    define n' where "n' = n - ucast (sect_size my)"
    have n': "unat n' = unat n - bsz"
      using True sz by (simp add: n'_def unat_sub)
    have div: "unat n div bsz = Suc (unat n' div bsz)" "unat n mod bsz = unat n' mod bsz"
      using n n' bsz(2) by (simp_all add: le_div_geq le_mod_geq)
    obtain t where t: "read_sector cfg e md my b s = Some (Some (vol b), t)" "kept t = kept s" "ready t"
      "mounted dev start t"
      using read_sector_ok [OF bsz(1) less.prems(1,2), of b] less.prems(3) div by auto
    have b1: "unat (b + 1) = unat b + 1 \<or> unat n' div bsz = 0 \<and> unat (b + 1) = 0"
    proof -
      have "unat b + 1 \<le> 2 ^ 32 - 1"
        using less.prems(3) div vol_inside lba_bound by simp
      then show ?thesis
        using unat_add_small [of b 1] by simp
    qed
    have "unat n' < unat n"
      using n n' bsz(2) by simp
    moreover have "unat (b + 1) + unat n' div bsz \<le> nsect"
      using b1 less.prems(3) div by auto
    ultimately obtain u where u: "get_cluster_misaligned cfg e md my (b + 1) n' (out @ vol b) t
        = Some (0, b + 1 + of_nat (unat n' div bsz), of_nat (unat n' mod bsz),
            (out @ vol b) @ sectors vol (b + 1) (unat n' div bsz), u)"
      "kept u = kept t" "ready u" "mounted dev start u"
      using less.hyps [of n' t "b + 1"] t(3,4) by blast
    have "sectors vol b (unat n div bsz) = vol b @ sectors vol (b + 1) (unat n' div bsz)"
      using sectors_add [of vol b 1 "unat n' div bsz"] div by (simp add: sectors_1)
    then show ?thesis
      using u t True div by (subst get_cluster_misaligned.simps) (simp add: n'_def [symmetric] add.assoc)
  qed
qed

text \<open>Aligned or not, the bytes are those of the blocks.\<close>

lemma get_cluster_ok:
  assumes bsz: "bsz = unat (sect_size my)" "0 < bsz"
    and s: "ready s" "mounted dev start s"
    and st: "st = (if c > 0 then data_begin my + c * ucast (clust_size my) else rootdir_sect my)"
    and fits: "unat st + blocks_of bsz (unat n) \<le> nsect"
  shows "\<exists>t. get_cluster cfg e md my c buf n s = Some (0, run_bytes vol bsz st (unat n), t)
    \<and> kept t = kept s \<and> ready t \<and> mounted dev start t"
proof -
  let ?q = "unat n div bsz" and ?r = "unat n mod bsz"
  have sz: "unat (ucast (sect_size my) :: u32) = bsz"
    using bsz(1) by (simp add: unat_ucast_u16)
  have q: "unat st + ?q \<le> nsect"
    using fits by (simp add: blocks_of_def)
  have idx: "n div ucast (sect_size my) = of_nat ?q" "n - of_nat ?q * ucast (sect_size my) = of_nat ?r"
    "unat (of_nat ?q :: u32) = ?q" "unat (of_nat ?r :: u32) = ?r"
  proof -
    have lt: "?q < 2 ^ 32" "?r < 2 ^ 32"
      using unsigned_less [of n, where 'a = nat] by (auto intro: le_less_trans [OF div_le_dividend] le_less_trans [OF mod_less_eq_dividend])
    then show uq: "unat (of_nat ?q :: u32) = ?q" "unat (of_nat ?r :: u32) = ?r"
      by (simp_all add: unsigned_of_nat take_bit_nat_eq_self)
    show d: "n div ucast (sect_size my) = of_nat ?q"
      by (simp add: word_unat_eq_iff unat_div sz uq)
    show "n - of_nat ?q * ucast (sect_size my) = of_nat ?r"
      unfolding d [symmetric] by (simp add: minus_div_mult_eq_mod word_unat_eq_iff unat_mod sz uq)
  qed
  have start_ok: "\<exists>t. (if buf AND (ARCH_DMA_MINALIGN - 1) \<noteq> 0 then get_cluster_misaligned cfg e md my st n [] s
      else if sect_size my = 0 then None
      else let idx = n div ucast (sect_size my) in do {
        (r, bytes, s) \<leftarrow> disk_read cfg e md st idx s;
        if of_int r \<noteq> idx then Some (- 1, st, n, bytes, s)
        else if length bytes \<noteq> unat idx * unat (sect_size my) then None
        else Some (0, st + idx, n - idx * ucast (sect_size my), bytes, s)
      }) = Some (0, st + of_nat ?q, of_nat ?r, sectors vol st ?q, t) \<and> kept t = kept s \<and> ready t \<and> mounted dev start t"
  proof (cases "buf AND (ARCH_DMA_MINALIGN - 1) \<noteq> 0")
    case True
    then show ?thesis
      using get_cluster_misaligned_ok [OF bsz s q, of "[]"] by simp
  next
    case False
    obtain t where "disk_read cfg e md st (of_nat ?q) s = Some (sint (of_nat ?q :: u32), sectors vol st ?q, t)"
      "kept t = kept s" "ready t" "mounted dev start t"
      using disk_read_ok [OF s, of st "of_nat ?q"] q idx(3) by auto
    then show ?thesis
      using False idx bsz by (auto simp: Let_def length_sectors [of vol bsz, OF vol_length])
  qed
  then obtain t where t: "kept t = kept s" "ready t" "mounted dev start t"
    and first: "get_cluster cfg e md my c buf n s =
      (if (of_nat ?r :: u32) \<noteq> 0 then do {
         (sector, s) \<leftarrow> read_sector cfg e md my (st + of_nat ?q) t;
         (case sector of
            None \<Rightarrow> Some (- 1, sectors vol st ?q, s)
          | Some tmpbuf \<Rightarrow>
              if unat (of_nat ?r :: u32) > length tmpbuf then None
              else Some (0, sectors vol st ?q @ take (unat (of_nat ?r :: u32)) tmpbuf, s))
       } else Some (0, sectors vol st ?q, t))"
    by (auto simp: get_cluster_def st [symmetric] simp del: of_nat_eq_0_iff)
  show ?thesis
  proof (cases "?r = 0")
    case True
    then show ?thesis
      using t by (simp add: first run_bytes_def)
  next
    case False
    then have r0: "(of_nat ?r :: u32) \<noteq> 0"
      using idx(4) by (metis unsigned_0)
    have "unat (st + of_nat ?q) + 1 \<le> nsect"
    proof -
      have "unat (st + of_nat ?q) = unat st + ?q"
        using unat_add_small [of st "of_nat ?q"] idx(3) q vol_inside lba_bound by simp
      then show ?thesis
        using fits False by (simp add: blocks_of_def)
    qed
    then obtain u where u: "read_sector cfg e md my (st + of_nat ?q) t = Some (Some (vol (st + of_nat ?q)), u)"
      "kept u = kept t" "ready u" "mounted dev start u"
      using read_sector_ok [OF bsz(1) t(2,3)] by blast
    have "?r < bsz"
      using bsz(2) by simp
    then show ?thesis
      using u t r0 idx(4) by (simp add: first run_bytes_def vol_length)
  qed
qed

end

section \<open>Reading a file\<close>

text \<open>
  The reference: the chain of clusters that the table gives, the blocks of a cluster, and the
  contents of a file of \<open>n\<close> bytes that starts at cluster \<open>c\<close>.
\<close>

definition cluster_sect :: "fsdata \<Rightarrow> u32 \<Rightarrow> u32" where
  "cluster_sect my c = data_begin my + c * ucast (clust_size my)"

definition cluster_bytes :: "(u32 \<Rightarrow> u8 list) \<Rightarrow> fsdata \<Rightarrow> u32 \<Rightarrow> u8 list" where
  "cluster_bytes vol my c = sectors vol (cluster_sect my c) (unat (clust_size my))"

fun fat_chain :: "(u32 \<Rightarrow> u8 list) \<Rightarrow> fsdata \<Rightarrow> nat \<Rightarrow> u32 \<Rightarrow> u32 list" where
  "fat_chain vol my 0 c = []"
| "fat_chain vol my (Suc k) c = c # fat_chain vol my k (fat_entry vol my (unat c))"

definition clust_bytes :: "fsdata \<Rightarrow> nat" where
  "clust_bytes my = unat (clust_size my) * unat (sect_size my)"

definition file_chain :: "(u32 \<Rightarrow> u8 list) \<Rightarrow> fsdata \<Rightarrow> u32 \<Rightarrow> nat \<Rightarrow> u32 list" where
  "file_chain vol my c n = fat_chain vol my (blocks_of (clust_bytes my) n) c"

definition file_bytes :: "(u32 \<Rightarrow> u8 list) \<Rightarrow> fsdata \<Rightarrow> u32 \<Rightarrow> nat \<Rightarrow> u8 list" where
  "file_bytes vol my c n = take n (concat (map (cluster_bytes vol my) (file_chain vol my c n)))"

text \<open>A sound chain: valid cluster numbers, whose blocks and table entries are inside the volume; the reserved bits of the
  entries that lead on are clear.\<close>

definition chain_ok :: "(u32 \<Rightarrow> u8 list) \<Rightarrow> nat \<Rightarrow> fsdata \<Rightarrow> u32 list \<Rightarrow> bool" where
  "chain_ok vol nsect my cs \<longleftrightarrow>
     (\<forall>c \<in> set cs. \<not> CHECK_CLUST c (fatsize my) \<and>
        unat (cluster_sect my c) + unat (clust_size my) \<le> nsect \<and>
        fat_entry_end my (unat c) \<le> unat (fatlength my) * unat (sect_size my)) \<and>
     (\<forall>c \<in> set (butlast cs). fat_clean vol my (unat c))"

lemma same_volume [simp]:
  "fat_entry vol (my\<lparr>fatbuf := b, fatbufnum := k\<rparr>) = fat_entry vol my"
  "fat_clean vol (my\<lparr>fatbuf := b, fatbufnum := k\<rparr>) = fat_clean vol my"
  "fat_entry_end (my\<lparr>fatbuf := b, fatbufnum := k\<rparr>) = fat_entry_end my"
  "fat_wf nsect (my\<lparr>fatbuf := b, fatbufnum := k\<rparr>) = fat_wf nsect my"
  "cluster_sect (my\<lparr>fatbuf := b, fatbufnum := k\<rparr>) = cluster_sect my"
  "cluster_bytes vol (my\<lparr>fatbuf := b, fatbufnum := k\<rparr>) = cluster_bytes vol my"
  "bytesperclust (my\<lparr>fatbuf := b, fatbufnum := k\<rparr>) = bytesperclust my"
  "chain_ok vol nsect (my\<lparr>fatbuf := b, fatbufnum := k\<rparr>) cs = chain_ok vol nsect my cs"
  by (auto simp: fat_entry_def fat_clean_def fat_word_def fat_byte_def fat_entry_end_def fat_wf_def cluster_sect_def cluster_bytes_def
      bytesperclust_def chain_ok_def fun_eq_iff)

lemma same_volume_chain [simp]:
  "fat_chain vol (my\<lparr>fatbuf := b, fatbufnum := k\<rparr>) n c = fat_chain vol my n c"
  by (induction n arbitrary: c) simp_all

lemma volume_self: "\<exists>b k. my = my\<lparr>fatbuf := b, fatbufnum := k\<rparr>" for my :: fsdata
  by (intro exI [of _ "fatbuf my"] exI [of _ "fatbufnum my"]) simp

lemma fat_chain_add:
  "fat_chain vol my (Suc j + m) c = fat_chain vol my (Suc j) c @
     fat_chain vol my m (fat_entry vol my (unat (last (fat_chain vol my (Suc j) c))))"
  by (induction j arbitrary: c) simp_all

text \<open>Consecutive clusters are consecutive blocks.\<close>

lemma consecutive_bytes:
  "concat (map (\<lambda>x. cluster_bytes vol my (c + of_nat x)) [0..<j])
    = sectors vol (cluster_sect my c) (j * unat (clust_size my))"
proof (induction j)
  case (Suc j)
  have "cluster_sect my (c + of_nat j) = cluster_sect my c + of_nat (j * unat (clust_size my))"
    by (simp add: cluster_sect_def algebra_simps)
  then show ?case
    using Suc sectors_add [of vol "cluster_sect my c" "j * unat (clust_size my)" "unat (clust_size my)"]
    by (simp add: cluster_bytes_def add.commute)
qed simp

lemma consecutive_inside:
  assumes "\<And>x. x \<le> j \<Longrightarrow> unat (cluster_sect my (c + of_nat x)) + unat (clust_size my) \<le> nsect"
    and "nsect < 2 ^ 32"
  shows "unat (cluster_sect my c) + Suc j * unat (clust_size my) \<le> nsect"
proof -
  have "unat (cluster_sect my (c + of_nat x)) = unat (cluster_sect my c) + x * unat (clust_size my)" if "x \<le> j" for x
    using that
  proof (induction x)
    case (Suc x)
    have "cluster_sect my (c + of_nat (Suc x)) = cluster_sect my (c + of_nat x) + ucast (clust_size my)"
      by (simp add: cluster_sect_def algebra_simps)
    moreover have "unat (cluster_sect my (c + of_nat x)) + unat (clust_size my) < 2 ^ 32"
      using assms Suc.prems by (meson Suc_leD le_less_trans)
    ultimately have "unat (cluster_sect my (c + of_nat (Suc x)))
        = unat (cluster_sect my (c + of_nat x)) + unat (clust_size my)"
      using unat_add_small [of "cluster_sect my (c + of_nat x)" "ucast (clust_size my)"]
      by (simp add: unat_ucast_u16)
    then show ?case
      using Suc by simp
  qed simp
  from this [of j] assms(1) [of j] show ?thesis
    by simp
qed

context fat_volume
begin

lemma get_fatent_clean:
  assumes "fat_wf nsect my" "bsz = unat (sect_size my)" "fat_cache_ok vol my" "ready s" "mounted dev start s"
    and "fat_entry_end my (unat c) \<le> unat (fatlength my) * unat (sect_size my)" "fat_clean vol my (unat c)"
  shows "\<exists>my' t. get_fatent cfg e md my c s = Some (fat_entry vol my (unat c), my', t) \<and>
    fat_cache_ok vol my' \<and> (\<exists>buf num. my' = my\<lparr>fatbuf := buf, fatbufnum := num\<rparr>) \<and>
    kept t = kept s \<and> ready t \<and> mounted dev start t"
  using get_fatent_ok [OF assms(1-6)] assms(7) by (simp add: fat_clean_entry)

lemma get_contents_run_ok:
  assumes wf: "fat_wf nsect my" and bsz: "bsz = unat (sect_size my)" and cache: "fat_cache_ok vol my"
    and s: "ready s" "mounted dev start s"
    and chain: "chain_ok vol nsect my (fat_chain vol my (Suc m) c)"
    and f: "filesize \<le> act + int m * bytesperclust my"
      "0 < m \<Longrightarrow> act + (int m - 1) * bytesperclust my < filesize"
  shows "\<exists>j how my' t. get_contents_run cfg e md my c act filesize s
      = Some (how, c + of_nat j, act + int j * bytesperclust my, my', t) \<and>
    (j = m \<and> how = Run_rest \<or> j < m \<and> how = Run_getit) \<and>
    fat_chain vol my (Suc j) c = map (\<lambda>x. c + of_nat x) [0..<Suc j] \<and>
    fat_cache_ok vol my' \<and> (\<exists>b k. my' = my\<lparr>fatbuf := b, fatbufnum := k\<rparr>) \<and>
    kept t = kept s \<and> ready t \<and> mounted dev start t"
  using assms
proof (induction m arbitrary: my c act s)
  case 0
  then show ?case
    by (intro exI [of _ 0] exI [of _ Run_rest] exI [of _ my] exI [of _ s], subst get_contents_run.simps)
       (auto simp: volume_self)
next
  case (Suc m)
  let ?next = "fat_entry vol my (unat c)"
  have bpc: "0 \<le> bytesperclust my"
    by (simp add: bytesperclust_def)
  have "fat_entry_end my (unat c) \<le> unat (fatlength my) * unat (sect_size my)"
    using Suc.prems(6) by (simp add: chain_ok_def)
  moreover have "fat_clean vol my (unat c)"
    using Suc.prems(6) by (simp add: chain_ok_def)
  ultimately obtain my1 t b k where fe: "get_fatent cfg e md my c s = Some (?next, my1, t)" "fat_cache_ok vol my1"
    "my1 = my\<lparr>fatbuf := b, fatbufnum := k\<rparr>" "kept t = kept s" "ready t" "mounted dev start t"
    using get_fatent_clean [OF Suc.prems(1-5)] by blast
  have lt: "act < filesize"
    using Suc.prems(8) bpc by (smt (verit) mult_nonneg_nonneg of_nat_0_le_iff of_nat_Suc zero_less_Suc)
  have ok: "\<not> CHECK_CLUST ?next (fatsize my)"
    using Suc.prems(6) by (simp add: chain_ok_def)
  show ?case
  proof (cases "?next - 1 \<noteq> c")
    case True
    then show ?thesis
      using fe lt by (intro exI [of _ 0] exI [of _ Run_getit] exI [of _ my1] exI [of _ t], subst get_contents_run.simps)
         auto
  next
    case False
    then have nx: "?next = c + 1"
      by (metis add.commute add_diff_cancel_left' diff_add_cancel)
    have chain': "chain_ok vol nsect my1 (fat_chain vol my1 (Suc m) ?next)"
      using Suc.prems(6) by (simp add: fe(3) chain_ok_def)
    have "filesize \<le> act + bytesperclust my1 + int m * bytesperclust my1"
      "0 < m \<Longrightarrow> act + bytesperclust my1 + (int m - 1) * bytesperclust my1 < filesize"
      using Suc.prems(7,8) by (simp_all add: fe(3) algebra_simps)
    moreover have "fat_wf nsect my1" "bsz = unat (sect_size my1)"
      using Suc.prems(1,2) by (simp_all add: fe(3))
    ultimately obtain j how my' u b' k' where IH: "get_contents_run cfg e md my1 ?next (act + bytesperclust my1) filesize t
        = Some (how, ?next + of_nat j, act + bytesperclust my1 + int j * bytesperclust my1, my', u)"
      "j = m \<and> how = Run_rest \<or> j < m \<and> how = Run_getit"
      "fat_chain vol my1 (Suc j) ?next = map (\<lambda>x. ?next + of_nat x) [0..<Suc j]"
      "fat_cache_ok vol my'" "my' = my1\<lparr>fatbuf := b', fatbufnum := k'\<rparr>" "kept u = kept t" "ready u" "mounted dev start u"
      using Suc.IH [OF _ _ fe(2,5,6) chain'] by blast
    have run: "get_contents_run cfg e md my c act filesize s
        = Some (how, c + of_nat (Suc j), act + int (Suc j) * bytesperclust my, my', u)"
      using fe(1,3) lt False ok IH(1) nx by (subst get_contents_run.simps) (simp add: algebra_simps)
    have "fat_chain vol my (Suc (Suc j)) c = map (\<lambda>x. c + of_nat x) [0..<Suc (Suc j)]"
    proof -
      have "map (\<lambda>x. ?next + of_nat x) [0..<Suc j] = map (\<lambda>x. c + of_nat x) [1..<Suc (Suc j)]"
        unfolding One_nat_def map_Suc_upt [symmetric] by (simp add: nx add.assoc del: upt_Suc)
      moreover have "fat_chain vol my (Suc (Suc j)) c = c # map (\<lambda>x. ?next + of_nat x) [0..<Suc j]"
        using IH(3) by (simp add: fe(3) del: upt_Suc)
      moreover have "map (\<lambda>x. c + of_nat x) [0..<Suc (Suc j)] = c # map (\<lambda>x. c + of_nat x) [1..<Suc (Suc j)]"
        by (subst upt_conv_Cons) simp_all
      ultimately show ?thesis
        by (simp only:)
    qed
    then show ?thesis
      using run IH fe(3,4) by (intro exI [of _ "Suc j"] exI [of _ how] exI [of _ my'] exI [of _ u]) auto
  qed
qed

lemma get_contents_loop_ok:
  assumes wf: "fat_wf nsect my" and bsz: "bsz = unat (sect_size my)" and clust: "0 < unat (clust_size my)"
    and cache: "fat_cache_ok vol my"
    and s: "ready s" "mounted dev start s"
    and chain: "chain_ok vol nsect my (fat_chain vol my (Suc m) c)"
    and f: "m * clust_bytes my < f" "f \<le> Suc m * clust_bytes my" "f < 2 ^ 31"
  shows "\<exists>my' t. get_contents_loop cfg e md my c buf (int f) got out s
      = Some (0, got + int f, out @ take f (concat (map (cluster_bytes vol my) (fat_chain vol my (Suc m) c))), my', t) \<and>
    kept t = kept s"
  using assms
proof (induction m arbitrary: my c buf f got out s rule: less_induct)
  case (less m)
  let ?B = "clust_bytes my" and ?n = "unat (clust_size my)"
  have bsz0: "0 < bsz"
    using less.prems(1,2) by (simp add: fat_wf_def)
  have B: "bytesperclust my = int ?B" "?B = ?n * bsz"
    using less.prems(2) by (simp_all add: bytesperclust_def clust_bytes_def)
  have f32: "f < 2 ^ 32"
    using less.prems(10) by simp
  have c0: "c > 0"
    using less.prems(7) by (auto simp: chain_ok_def CHECK_CLUST_def word_gt_0 word_le_nat_alt)
  have act: "bytesperclust my + int i * bytesperclust my = int (Suc i * ?B)" for i
    by (simp add: B(1))
  have f1: "int f \<le> bytesperclust my + int m * bytesperclust my"
    unfolding act using less.prems(9) by (simp only: of_nat_le_iff)
  have f2: "bytesperclust my + (int m - 1) * bytesperclust my < int f"
  proof -
    have "int (m * ?B) < int f"
      using less.prems(8) by (simp only: of_nat_less_iff)
    then show ?thesis
      unfolding B(1) by (simp add: left_diff_distrib)
  qed
  from get_contents_run_ok [OF less.prems(1,2,4-7) f1 f2, unfolded act]
  obtain j how my1 t b k where run: "get_contents_run cfg e md my c (bytesperclust my) (int f) s
      = Some (how, c + of_nat j, int (Suc j * ?B), my1, t)"
    and how: "j = m \<and> how = Run_rest \<or> j < m \<and> how = Run_getit"
    and consec: "fat_chain vol my (Suc j) c = map (\<lambda>x. c + of_nat x) [0..<Suc j]"
    and my1: "fat_cache_ok vol my1" "my1 = my\<lparr>fatbuf := b, fatbufnum := k\<rparr>"
    and t: "kept t = kept s" "ready t" "mounted dev start t"
    by blast
  have jm: "j \<le> m"
    using how by auto
  have chain_j: "fat_chain vol my (Suc m) c = map (\<lambda>x. c + of_nat x) [0..<Suc j] @
      fat_chain vol my (m - j) (fat_entry vol my (unat (c + of_nat j)))"
  proof -
    have "last (map (\<lambda>x. c + of_nat x) [0..<Suc j]) = c + of_nat j" "Suc j + (m - j) = Suc m"
      using jm by simp_all
    then show ?thesis
      using fat_chain_add [of vol my j "m - j" c] unfolding consec by simp
  qed
  have inside: "unat (cluster_sect my c) + Suc j * ?n \<le> nsect"
  proof (rule consecutive_inside)
    show "unat (cluster_sect my (c + of_nat x)) + ?n \<le> nsect" if "x \<le> j" for x
    proof -
      have "c + of_nat x \<in> set (fat_chain vol my (Suc m) c)"
        unfolding chain_j using that by (auto simp del: upt_Suc)
      then show ?thesis
        using less.prems(7) unfolding chain_ok_def by blast
    qed
    show "nsect < 2 ^ 32"
      using vol_inside lba_bound by simp
  qed
  have blocks: "blocks_of bsz i \<le> Suc j * ?n" if "i \<le> Suc j * ?B" for i
  proof -
    have "i \<le> Suc j * ?n * bsz"
      using that unfolding B(2) by (simp only: mult.assoc)
    then have "i div bsz \<le> Suc j * ?n" "i mod bsz \<noteq> 0 \<Longrightarrow> i div bsz < Suc j * ?n"
      using bsz0 div_le_mono [of i "Suc j * ?n * bsz" bsz]
      by (auto simp: div_less_iff_less_mult le_less dest: order_neq_le_trans)
    then show ?thesis
      by (auto simp: blocks_of_def Suc_le_eq)
  qed
  have read: "\<exists>u. get_cluster cfg e md my1 c buf (of_int (int i)) t
      = Some (0, take i (concat (map (cluster_bytes vol my) (map (\<lambda>x. c + of_nat x) [0..<Suc j]))), u)
    \<and> kept u = kept t \<and> ready u \<and> mounted dev start u" if "i \<le> Suc j * ?B" "i < 2 ^ 32" for i buf
  proof -
    have ui: "unat (of_int (int i) :: u32) = i"
      using that(2) by (simp add: unsigned_of_nat take_bit_nat_eq_self)
    have "\<exists>u. get_cluster cfg e md my1 c buf (of_int (int i)) t = Some (0, run_bytes vol bsz (cluster_sect my c) i, u)
      \<and> kept u = kept t \<and> ready u \<and> mounted dev start u"
      using get_cluster_ok [of my1 t "cluster_sect my c" c "of_int (int i)" buf] less.prems(2) bsz0 t c0 my1(2)
        inside blocks [OF that(1)] ui by (simp add: cluster_sect_def)
    moreover have "run_bytes vol bsz (cluster_sect my c) i = take i (sectors vol (cluster_sect my c) (Suc j * ?n))"
      using that(1) unfolding B(2) by (intro run_bytes_take vol_length bsz0) (simp only: mult.assoc)
    ultimately show ?thesis
      using consecutive_bytes [of vol my c "Suc j"] by (simp add: comp_def del: upt_Suc)
  qed
  let ?cs = "map (\<lambda>x. c + of_nat x) [0..<Suc j]"
  have len: "length (concat (map (cluster_bytes vol my) ?cs)) = Suc j * ?B"
    using consecutive_bytes [of vol my c "Suc j"] B(2)
    by (simp add: comp_def length_sectors [of vol bsz, OF vol_length] add_mult_distrib mult.assoc del: upt_Suc)
  from how show ?case
  proof (elim disjE conjE)
    assume j: "j = m" "how = Run_rest"
    have cs: "fat_chain vol my (Suc m) c = ?cs"
      using consec j(1) by simp
    obtain u where u: "get_cluster cfg e md my1 c buf (of_int (int f)) t
        = Some (0, take f (concat (map (cluster_bytes vol my) ?cs)), u)" "kept u = kept t"
      using read [of f buf] less.prems(9) f32 j(1) by blast
    show ?thesis
      using run j(2) u t(1) unfolding cs
      by (intro exI [of _ my1] exI [of _ u], subst get_contents_loop.simps) (simp del: upt_Suc)
  next
    assume j: "j < m" "how = Run_getit"
    let ?next = "fat_entry vol my (unat (c + of_nat j))"
    define g where "g = Suc j * ?B"
    have "g \<le> m * ?B"
      unfolding g_def using j(1) by (intro mult_le_mono1) simp
    then have g: "g < f"
      using less.prems(8) by simp
    obtain u where u: "get_cluster cfg e md my1 c buf (of_int (int g)) t
        = Some (0, concat (map (cluster_bytes vol my) ?cs), u)" "kept u = kept t" "ready u" "mounted dev start u"
      using read [of g buf] g f32 len by (auto simp: g_def simp del: upt_Suc)
    define m' where "m' = m - Suc j"
    have m': "m - j = Suc m'" "m' < m" "m = Suc j + m'"
      using j(1) by (simp_all add: m'_def)
    have cs: "fat_chain vol my (Suc m) c = ?cs @ fat_chain vol my (Suc m') ?next"
      using chain_j m'(1) by simp
    have ok: "chain_ok vol nsect my (fat_chain vol my (Suc m') ?next)" "\<forall>x \<in> set ?cs. fat_clean vol my (unat x) \<and>
        fat_entry_end my (unat x) \<le> unat (fatlength my) * unat (sect_size my)"
      using less.prems(7) unfolding cs chain_ok_def
      by (auto simp: butlast_append simp del: upt_Suc fat_chain.simps) (simp_all del: upt_Suc)
    have "fat_entry_end my1 (unat (c + of_nat j)) \<le> unat (fatlength my1) * unat (sect_size my1)" "fat_clean vol my1 (unat (c + of_nat j))"
      using ok(2) my1(2) by simp_all
    from get_fatent_clean [OF _ _ my1(1) u(3,4) this] less.prems(1,2)
    obtain my2 v b2 k2 where fe: "get_fatent cfg e md my1 (c + of_nat j) u = Some (?next, my2, v)" "fat_cache_ok vol my2"
      "my2 = my\<lparr>fatbuf := b2, fatbufnum := k2\<rparr>" "kept v = kept u" "ready v" "mounted dev start v"
      by (auto simp: my1(2))
    have cast: "to_int (int g) = int g"
      using g less.prems(10) by (intro to_int_small) simp_all
    have f': "m' * ?B < f - g" "f - g \<le> Suc m' * ?B" "f - g < 2 ^ 31"
      using less.prems(8-10) m'(3) by (simp_all add: g_def add_mult_distrib)
    have same: "clust_bytes my2 = ?B" "clust_size my2 = clust_size my" "sect_size my2 = sect_size my"
      by (simp_all add: fe(3) clust_bytes_def)
    have "\<exists>my' w. get_contents_loop cfg e md my2 ?next (buf + of_int (int g)) (int (f - g)) (got + int g)
          (out @ concat (map (cluster_bytes vol my) ?cs)) v
        = Some (0, (got + int g) + int (f - g), (out @ concat (map (cluster_bytes vol my) ?cs)) @
            take (f - g) (concat (map (cluster_bytes vol my2) (fat_chain vol my2 (Suc m') ?next))), my', w)
      \<and> kept w = kept v"
      using less.prems(1-3) ok(1) f' same fe
      by (intro less.IH [OF m'(2)]) (simp_all add: fe(3) del: fat_chain.simps)
    then obtain my' w where loop: "get_contents_loop cfg e md my2 ?next (buf + of_int (int g)) (int (f - g)) (got + int g)
          (out @ concat (map (cluster_bytes vol my) ?cs)) v
        = Some (0, got + int f, out @ concat (map (cluster_bytes vol my) ?cs) @
            take (f - g) (concat (map (cluster_bytes vol my) (fat_chain vol my (Suc m') ?next))), my', w)"
      "kept w = kept v"
      using g by (auto simp: fe(3) simp del: fat_chain.simps upt_Suc)
    have nochk: "\<not> CHECK_CLUST ?next (fatsize my2)"
      using ok(1) by (simp add: chain_ok_def fe(3))
    have "get_contents_loop cfg e md my c buf (int f) got out s = Some (0, got + int f,
        out @ concat (map (cluster_bytes vol my) ?cs) @
          take (f - g) (concat (map (cluster_bytes vol my) (fat_chain vol my (Suc m') ?next))), my', w)"
      using run [unfolded j(2), folded g_def] u(1) fe(1) nochk loop(1) g
      by (subst get_contents_loop.simps) (simp add: of_nat_diff cast del: upt_Suc fat_chain.simps)
    then show ?thesis
      using loop(2) fe(4) u(2) t(1) g len [folded g_def] unfolding cs
      by (intro exI [of _ my'] exI [of _ w]) (simp del: upt_Suc fat_chain.simps)
  qed
qed

end

lemma blocks_of_bounds:
  assumes "0 < sz" and "0 < n"
  obtains m where "blocks_of sz n = Suc m" and "m * sz < n" and "n \<le> Suc m * sz"
proof -
  define m where "m = (n - 1) div sz"
  have n: "n = (n - 1) div sz * sz + (n - 1) mod sz + 1"
    using assms(2) div_mult_mod_eq [of "n - 1" sz] by linarith
  have r: "(n - 1) mod sz < sz"
    using assms(1) by simp
  have "m * sz < n" "n \<le> Suc m * sz"
    unfolding m_def mult_Suc using n r by linarith+
  moreover have "blocks_of sz n = Suc m"
  proof (cases "n = Suc m * sz")
    case True
    then show ?thesis
      using assms(1) by (simp add: blocks_of_def del: mult_Suc)
  next
    case False
    then have "n < Suc m * sz"
      using \<open>n \<le> Suc m * sz\<close> by simp
    then have "n div sz = m"
      using \<open>m * sz < n\<close> by (intro div_nat_eqI) (simp_all add: mult.commute)
    moreover have "n mod sz \<noteq> 0"
      using \<open>m * sz < n\<close> calculation div_mult_mod_eq [of n sz] by (metis add.right_neutral less_irrefl_nat)
    ultimately show ?thesis
      by (simp add: blocks_of_def)
  qed
  ultimately show thesis
    using that by blast
qed

text \<open>The length that a read from the start with a limit delivers.\<close>

definition read_length :: "dir_entry \<Rightarrow> int \<Rightarrow> nat" where
  "read_length dent maxsize =
     (if 0 < maxsize \<and> maxsize < uint (de_size dent) then nat maxsize else unat (de_size dent))"

context fat_volume
begin

lemma get_contents_ok:
  assumes wf: "fat_wf nsect my" and bsz: "bsz = unat (sect_size my)" and clust: "0 < unat (clust_size my)"
    and cache: "fat_cache_ok vol my" and s: "ready s" "mounted dev start s"
    and chain: "chain_ok vol nsect my (file_chain vol my (START my dent) (read_length dent maxsize))"
    and small: "read_length dent maxsize < 2 ^ 31"
  shows "\<exists>my' t. get_contents cfg e md my dent 0 buf maxsize s
      = Some (0, int (read_length dent maxsize), file_bytes vol my (START my dent) (read_length dent maxsize), my', t)
    \<and> kept t = kept s"
proof (cases "de_size dent = 0")
  case True
  then show ?thesis
    by (simp add: get_contents_def read_length_def file_bytes_def)
next
  case False
  define n where "n = read_length dent maxsize"
  have bpc: "0 < clust_bytes my" "bytesperclust my = int (clust_bytes my)"
    using wf clust by (simp_all add: bytesperclust_def clust_bytes_def fat_wf_def)
  have pos: "0 < uint (de_size dent)"
    using False by (simp add: word_neq_0_conv word_less_def)
  then have n: "0 < n" "n < 2 ^ 31"
    using small by (auto simp: n_def read_length_def unat_gt_0 False)
  have filesize: "(if maxsize > 0 \<and> uint (de_size dent) > 0 + maxsize then 0 + maxsize else uint (de_size dent)) = int n"
    by (auto simp: n_def read_length_def)
  obtain m where m: "blocks_of (clust_bytes my) n = Suc m" "m * clust_bytes my < n" "n \<le> Suc m * clust_bytes my"
    using blocks_of_bounds [OF bpc(1) n(1)] by blast
  have "chain_ok vol nsect my (fat_chain vol my (Suc m) (START my dent))"
    using chain m(1) by (simp add: file_chain_def n_def)
  from get_contents_loop_ok [OF wf bsz clust cache s this m(2,3) n(2), of buf 0 "[]"]
  obtain my' t where loop: "get_contents_loop cfg e md my (START my dent) buf (int n) 0 [] s
      = Some (0, int n, file_bytes vol my (START my dent) n, my', t)" "kept t = kept s"
    using m(1) by (auto simp: file_bytes_def file_chain_def)
  have seek: "get_contents_seek cfg e md my (START my dent) (bytesperclust my) 0 s
      = Some (Some (START my dent, bytesperclust my), my, s)"
    using bpc by (subst get_contents_seek.simps) simp
  have "get_contents cfg e md my dent 0 buf maxsize s = Some (0, int n, file_bytes vol my (START my dent) n, my', t)"
    using pos loop(1) seek filesize by (simp add: get_contents_def Let_def)
  then show ?thesis
    using loop(2) by (auto simp: n_def)
qed

end

section \<open>Partitions of the two media\<close>

text \<open>A partition of any medium that answers.\<close>

lemma medium_volume:
  assumes "medium_answers md desc disk bsz" and "unat start + nsect \<le> unat (bd_lba desc)"
  shows "fat_volume cfg e md desc disk (unat (bd_lba desc)) bsz (dev_ready md desc disk) (\<lambda>b. disk (start + b)) start nsect"
  using medium_readable [OF assms(1)] assms(2) by (simp add: fat_volume_def fat_volume_axioms_def)

interpretation sd_part: fat_volume cfg e "image_media bl sd sd_blocks usb usb_blocks" "sd_desc bl sd_blocks"
    "image_block bl sd" "unat (bd_lba (sd_desc bl sd_blocks))" bl
    "dev_ready (image_media bl sd sd_blocks usb usb_blocks) (sd_desc bl sd_blocks) (image_block bl sd)"
    "\<lambda>b. image_block bl sd (min p sd_blocks + b)" "min p sd_blocks" "unat sd_blocks - unat (min p sd_blocks)"
  for cfg e bl sd sd_blocks usb usb_blocks p
  by (rule medium_volume [OF image_media_answers(1)]) (auto simp: sd_desc_def min_def word_le_nat_alt)

interpretation usb_part: fat_volume cfg e "image_media bl sd sd_blocks usb usb_blocks" "usb_desc bl usb_blocks"
    "image_block bl usb" "unat (bd_lba (usb_desc bl usb_blocks))" bl
    "dev_ready (image_media bl sd sd_blocks usb usb_blocks) (usb_desc bl usb_blocks) (image_block bl usb)"
    "\<lambda>b. image_block bl usb (min p usb_blocks + b)" "min p usb_blocks" "unat usb_blocks - unat (min p usb_blocks)"
  for cfg e bl sd sd_blocks usb usb_blocks p
  by (rule medium_volume [OF image_media_answers(2)]) (auto simp: usb_desc_def sd_desc_def min_def word_le_nat_alt)

end
