(* ===== verification/Fat_Dir.thy ===== *)
theory Fat_Dir
  imports Fat_Read
begin

text \<open>
  Looking up a name in the root directory is correct.  A directory is seen as lists of 32-byte
  entries; \<open>dir_lookup\<close> is the lookup in such a list, with runs of long-name slots taken as a
  whole.  The lemmas show that scanning a window of the static buffer (\<open>root_scan\<close>) is this lookup,
  that the sector-wise loop over the fixed root directory of FAT12 and FAT16, with its sliding window of two sectors, is the
  lookup in the whole directory, and that the loop over the clusters of a FAT32 root directory is the lookup in
  one cluster after the other.
\<close>

section \<open>Directories as lists of entries\<close>

definition is_slot :: "u8 list \<Rightarrow> bool" where
  "is_slot d \<longleftrightarrow> d ! 0 \<noteq> DELETED_FLAG \<and> de_attr (dir_entry_of d) AND ATTR_VOLUME \<noteq> 0 \<and>
     de_attr (dir_entry_of d) AND ATTR_VFAT = ATTR_VFAT \<and> d ! 0 AND LAST_LONG_ENTRY_MASK \<noteq> 0"

definition slot_number :: "u8 list \<Rightarrow> nat" where
  "slot_number d = unat (d ! 0 AND NOT LAST_LONG_ENTRY_MASK)"

definition slot_group :: "u8 list list \<Rightarrow> (u8 list list \<times> u8 list) option" where
  "slot_group ds =
     (let k = slot_number (ds ! 0) in
      if k \<le> VFAT_MAXSEQ \<and> k < length ds \<and> list_all (\<lambda>i. slot_number (ds ! i) = k - i) [0..<k]
      then Some (take k ds, ds ! k) else None)"

fun slots_name :: "u8 list list \<Rightarrow> cstr" where
  "slots_name [] = []"
| "slots_name (d # ds) =
     (let cs = takeWhile (\<lambda>c. c \<noteq> 0) (slot_chars d) in
      if 0 \<in> set (slot_chars d) \<or> d ! 0 AND LAST_LONG_ENTRY_MASK \<noteq> 0 then cs else cs @ slots_name ds)"

definition long_name :: "u8 list list \<Rightarrow> cstr" where
  "long_name ds = downcase (fix_first (slots_name (rev ds)))"

datatype dir_result = Dir_next | Dir_end | Dir_found "u8 list"

definition dir_match :: "cstr \<Rightarrow> bool \<Rightarrow> u8 list \<Rightarrow> cstr list \<Rightarrow> dir_result" where
  "dir_match name isdir d names =
     (if name \<notin> set names then Dir_next
      else if isdir \<and> de_attr (dir_entry_of d) AND ATTR_DIR = 0 then Dir_end else Dir_found d)"

definition dir_step :: "cstr \<Rightarrow> bool \<Rightarrow> u8 list list \<Rightarrow> dir_result" where
  "dir_step name isdir ds =
     (let d = ds ! 0 in
      if d ! 0 = DELETED_FLAG then Dir_next
      else if is_slot d then
        (case slot_group ds of
           Some (slots, real) \<Rightarrow> dir_match name isdir real [get_name (dir_entry_of real), long_name slots]
         | None \<Rightarrow> dir_match name isdir d [get_name (dir_entry_of d)])
      else if de_attr (dir_entry_of d) AND ATTR_VOLUME \<noteq> 0 then Dir_next
      else if d ! 0 = 0 then Dir_end
      else dir_match name isdir d [get_name (dir_entry_of d)])"

fun dir_lookup :: "cstr \<Rightarrow> bool \<Rightarrow> nat \<Rightarrow> u8 list list \<Rightarrow> dir_result" where
  "dir_lookup name isdir 0 ds = Dir_next"
| "dir_lookup name isdir (Suc n) ds =
     (case dir_step name isdir ds of
        Dir_next \<Rightarrow> dir_lookup name isdir n (tl ds)
      | r \<Rightarrow> r)"

text \<open>Every run of slots is numbered and ends before the window does.\<close>

definition slots_fit :: "nat \<Rightarrow> u8 list list \<Rightarrow> bool" where
  "slots_fit n ds \<longleftrightarrow>
     list_all (\<lambda>i. is_slot (ds ! i) \<longrightarrow>
        0 < slot_number (ds ! i) \<and> (slot_number (ds ! i) \<le> VFAT_MAXSEQ \<longrightarrow> i + slot_number (ds ! i) < length ds))
       [0..<n]"

lemma dir_lookup_add:
  "dir_lookup name isdir (m + n) ds =
     (case dir_lookup name isdir m ds of Dir_next \<Rightarrow> dir_lookup name isdir n (drop m ds) | r \<Rightarrow> r)"
  by (induction m arbitrary: ds) (simp_all add: drop_Suc split: dir_result.split)

section \<open>Entries in a buffer\<close>

definition entries_of :: "u8 list \<Rightarrow> nat \<Rightarrow> nat \<Rightarrow> u8 list list" where
  "entries_of block base m = map (\<lambda>j. sub_bytes block (base + 32 * j) 32) [0..<m]"

lemma length_entries_of [simp]: "length (entries_of block base m) = m"
  by (simp add: entries_of_def)

lemma nth_entries_of [simp]: "j < m \<Longrightarrow> entries_of block base m ! j = sub_bytes block (base + 32 * j) 32"
  by (simp add: entries_of_def)

lemma sub_bytes_nth: "i < n \<Longrightarrow> off + i < length bs \<Longrightarrow> sub_bytes bs off n ! i = bs ! (off + i)"
  by (simp add: sub_bytes_def)

lemma length_sub_bytes [simp]: "length (sub_bytes bs off n) = min n (length bs - off)"
  by (simp add: sub_bytes_def)

text \<open>A window: the entries of \<open>ds\<close> from number \<open>p\<close> on are in the block.\<close>

definition window :: "u8 list \<Rightarrow> nat \<Rightarrow> u8 list list \<Rightarrow> nat \<Rightarrow> bool" where
  "window block base ds p \<longleftrightarrow>
     base + 32 * length ds \<le> length block \<and>
     (\<forall>j. p \<le> j \<longrightarrow> j < length ds \<longrightarrow> sub_bytes block (base + 32 * j) 32 = ds ! j)"

lemma window_mono: "window block base ds p \<Longrightarrow> p \<le> q \<Longrightarrow> window block base ds q"
  by (simp add: window_def)

lemma window_dirent:
  "window block base ds p \<Longrightarrow> p \<le> j \<Longrightarrow> j < length ds \<Longrightarrow> load_dirent block (base + 32 * j) = Some (ds ! j)"
  by (simp add: window_def load_dirent_def)

lemma window_entry:
  "window block base ds p \<Longrightarrow> p \<le> j \<Longrightarrow> j < length ds \<Longrightarrow> sub_bytes block (base + 32 * j) 32 = ds ! j"
  by (simp add: window_def)

lemma window_first:
  assumes "window block base ds p" "p \<le> j" "j < length ds"
  shows "block ! (base + 32 * j) = ds ! j ! 0"
  using assms sub_bytes_nth [of 0 32 "base + 32 * j" block] unfolding window_def by force

lemma list_all_upt_Suc: "list_all P [0..<Suc k] \<longleftrightarrow> P 0 \<and> list_all (\<lambda>i. P (Suc i)) [0..<k]"
  by (auto simp: list_all_iff less_Suc_eq_0_disj simp del: upt_Suc)

lemma window_slot_walk:
  assumes w: "window block base ds p" and "p \<le> q" and "q + k < length ds"
  shows "slot_walk block (base + 32 * length ds) (base + 32 * q) k =
    (if list_all (\<lambda>i. slot_number (ds ! (q + i)) = k - i) [0..<k] then Some (base + 32 * (q + k), 0) else None)"
  using assms(2,3)
proof (induction k arbitrary: q)
  case (Suc k)
  have id: "unat (slot_id block (base + 32 * q)) = slot_number (ds ! q)"
    using window_first [OF w, of q] Suc.prems by (simp add: slot_id_def slot_number_def)
  have off: "base + 32 * q + 32 = base + 32 * Suc q"
    by simp
  show ?case
    using Suc.IH [of "Suc q"] Suc.prems id
    unfolding list_all_upt_Suc slot_walk.simps off by simp
qed simp

lemma window_slot_back:
  assumes w: "window block base ds p" and "p \<le> q" and "0 < k" and "q + k \<le> length ds"
    and "ds ! q ! 0 AND LAST_LONG_ENTRY_MASK \<noteq> 0"
  shows "slot_back block (base + 32 * (q + k)) acc = Some (acc @ slots_name (rev (take k (drop q ds))))"
  using assms(3,4)
proof (induction k arbitrary: acc)
  case (Suc k)
  define j where "j = q + k"
  have j: "p \<le> j" "j < length ds"
    using Suc.prems assms(2) by (simp_all add: j_def)
  have bound: "base + 32 * j + 32 \<le> length block"
    using w j by (simp add: window_def)
  have sub: "sub_bytes block (base + 32 * j) 32 = ds ! j"
    using w j by (simp add: window_def)
  have first: "block ! (base + 32 * j) = ds ! j ! 0"
    by (rule window_first [OF w j])
  have take: "rev (take (Suc k) (drop q ds)) = ds ! j # rev (take k (drop q ds))"
    using j Suc.prems by (simp add: take_Suc_conv_app_nth j_def)
  show ?case
  proof (cases "k = 0")
    case True
    then show ?thesis
      using assms(5) bound sub first take
      by (subst slot_back.simps) (simp add: j_def slot2str_def Let_def)
  next
    case False
    have "slot_back block (base + 32 * (q + Suc k)) acc =
        (if 0 \<in> set (slot_chars (ds ! j)) \<or> ds ! j ! 0 AND LAST_LONG_ENTRY_MASK \<noteq> 0
         then Some (acc @ takeWhile (\<lambda>c. c \<noteq> 0) (slot_chars (ds ! j)))
         else slot_back block (base + 32 * (q + k)) (acc @ takeWhile (\<lambda>c. c \<noteq> 0) (slot_chars (ds ! j))))"
      using bound sub first by (subst slot_back.simps) (simp add: j_def slot2str_def Let_def)
    then show ?thesis
      using Suc.IH [of "acc @ takeWhile (\<lambda>c. c \<noteq> 0) (slot_chars (ds ! j))"] Suc.prems False take
      by (simp add: Let_def)
  qed
qed simp

lemma window_store:
  assumes w: "window block base ds q" and "q < length ds" and len: "length d = 32"
  shows "\<exists>block'. store_at block (base + 32 * q) d = Some block' \<and> length block' = length block \<and>
    window block' base ds (Suc q) \<and> load_dirent block' (base + 32 * q) = Some d"
proof -
  let ?o = "base + 32 * q"
  let ?b = "take ?o block @ d @ drop (?o + 32) block"
  have bound: "?o + 32 \<le> length block" and all: "base + 32 * length ds \<le> length block"
    using w assms(2) by (simp_all add: window_def)
  have length_b: "length ?b = length block"
    using bound len by simp
  have "sub_bytes ?b (base + 32 * j) 32 = sub_bytes block (base + 32 * j) 32" if "q < j" for j
  proof -
    have "base + 32 * j = ?o + 32 + 32 * (j - Suc q)"
      using that by (simp add: algebra_simps)
    then show ?thesis
      using bound len by (simp add: sub_bytes_def algebra_simps)
  qed
  then have "window ?b base ds (Suc q)"
    using w all length_b by (simp add: window_def)
  moreover have "load_dirent ?b ?o = Some d"
    using bound len by (simp add: load_dirent_def sub_bytes_def)
  moreover have "store_at block ?o d = Some ?b"
    using bound len by (simp add: store_at_def)
  ultimately show ?thesis
    using length_b by blast
qed

lemma window_length:
  assumes "window block base ds p" and "p \<le> j" and "j < length ds"
  shows "length (ds ! j) = 32"
proof -
  have "ds ! j = sub_bytes block (base + 32 * j) 32" "base + 32 * j + 32 \<le> length block"
    using assms by (simp_all add: window_def)
  then show ?thesis
    by simp
qed

lemma slot_group_drop:
  assumes "q < length ds"
  shows "slot_group (drop q ds) =
    (let k = slot_number (ds ! q) in
     if k \<le> VFAT_MAXSEQ \<and> q + k < length ds \<and> list_all (\<lambda>i. slot_number (ds ! (q + i)) = k - i) [0..<k]
     then Some (take k (drop q ds), ds ! (q + k)) else None)"
  using assms by (auto simp: slot_group_def Let_def list_all_iff)

text \<open>The name of a slot run, and the real entry copied over the first slot.\<close>

lemma window_vfatname:
  assumes w: "window block base ds p" and q: "p \<le> q" "q < length ds"
    and limit: "unat (sect_size my) * (if rc = 0 then unat PREFETCH_BLOCKS else unat (clust_size my)) = 32 * length ds"
    and slot: "is_slot (ds ! q)"
    and fit: "0 < slot_number (ds ! q)" "slot_number (ds ! q) \<le> VFAT_MAXSEQ \<Longrightarrow> q + slot_number (ds ! q) < length ds"
  shows "\<exists>ret l_name block' d. get_vfatname cfg e md my rc block base (base + 32 * q) s = Some (ret, l_name, block', my, s) \<and>
    length block' = length block \<and> window block' base ds (Suc q) \<and> load_dirent block' (base + 32 * q) = Some d \<and>
    (l_name, d) = (case slot_group (drop q ds) of Some (slots, real) \<Rightarrow> (long_name slots, real) | None \<Rightarrow> ([], ds ! q))"
proof -
  let ?k = "slot_number (ds ! q)"
  have counter: "unat (slot_id block (base + 32 * q)) = ?k"
    using window_first [OF w q] by (simp add: slot_id_def slot_number_def)
  have fits: "base + 32 * length ds \<le> length block"
    using w by (simp add: window_def)
  have none: ?thesis if "slot_group (drop q ds) = None"
    "get_vfatname cfg e md my rc block base (base + 32 * q) s = Some (- 1, [], block, my, s)"
    using that window_mono [OF w, of "Suc q"] q window_dirent [OF w q] by auto
  show ?thesis
  proof (cases "?k > VFAT_MAXSEQ")
    case True
    then show ?thesis
      using counter none by (simp add: get_vfatname_def slot_group_drop [OF q(2)] Let_def)
  next
    case False
    then have k: "q + ?k < length ds"
      using fit(2) by simp
    note walk = window_slot_walk [OF w q(1) k]
    show ?thesis
    proof (cases "list_all (\<lambda>i. slot_number (ds ! (q + i)) = ?k - i) [0..<?k]")
      case False
      then show ?thesis
        using counter none \<open>\<not> ?k > VFAT_MAXSEQ\<close> fits walk
        by (simp add: get_vfatname_def slot_group_drop [OF q(2)] Let_def limit)
    next
      case True
      have last: "ds ! q ! 0 AND LAST_LONG_ENTRY_MASK \<noteq> 0"
        using slot by (simp add: is_slot_def)
      have name: "slot_back block (base + 32 * (q + ?k)) [] = Some (slots_name (rev (take ?k (drop q ds))))"
        using window_slot_back [OF w q(1) fit(1) _ last, of "[]"] k by simp
      have real: "sub_bytes block (base + 32 * (q + ?k)) 32 = ds ! (q + ?k)"
        using window_entry [OF w _ k] q(1) by simp
      obtain block' where block': "store_at block (base + 32 * q) (ds ! (q + ?k)) = Some block'" "length block' = length block"
        "window block' base ds (Suc q)" "load_dirent block' (base + 32 * q) = Some (ds ! (q + ?k))"
        using window_store [OF window_mono [OF w q(1)] q(2) window_length [OF w _ k]] q(1) by auto
      have "get_vfatname cfg e md my rc block base (base + 32 * q) s
          = Some (0, long_name (take ?k (drop q ds)), block', my, s)"
        using counter \<open>\<not> ?k > VFAT_MAXSEQ\<close> fits walk True k name real block'(1)
        by (simp add: get_vfatname_def Let_def limit long_name_def)
      moreover have "slot_group (drop q ds) = Some (take ?k (drop q ds), ds ! (q + ?k))"
        using True k \<open>\<not> ?k > VFAT_MAXSEQ\<close> by (simp add: slot_group_drop [OF q(2)] Let_def)
      ultimately show ?thesis
        using block' by auto
    qed
  qed
qed

lemma slots_fit_nth:
  assumes "slots_fit n ds" "q < n" "is_slot (ds ! q)"
  shows "0 < slot_number (ds ! q)"
    and "slot_number (ds ! q) \<le> VFAT_MAXSEQ \<Longrightarrow> q + slot_number (ds ! q) < length ds"
  using assms by (auto simp: slots_fit_def list_all_iff)

text \<open>Scanning entries of a window is the lookup in the list of entries.\<close>

declare root_scan.simps [simp del]

definition scan_matches :: "dir_result \<Rightarrow> u8 list \<Rightarrow> nat \<Rightarrow> root_result \<Rightarrow> bool" where
  "scan_matches r block next_off res \<longleftrightarrow>
     (case r of
        Dir_next \<Rightarrow> res = Root_next next_off
      | Dir_end \<Rightarrow> res = Root_exit
      | Dir_found d \<Rightarrow> \<exists>off. res = Root_match off \<and> load_dirent block off = Some d)"

lemma root_scan_window:
  assumes fit: "slots_fit m ds" and name: "name \<noteq> []"
    and limit: "unat (sect_size my) * (if rc = 0 then unat PREFETCH_BLOCKS else unat (clust_size my)) = 32 * length ds"
    and "window (do_fat_read_at_block s) base ds p" and "p + n \<le> m" and m: "m \<le> length ds"
  shows "\<exists>res block'. root_scan cfg e md rc base name isdir n (base + 32 * p) my s
      = Some (res, my, s\<lparr>do_fat_read_at_block := block'\<rparr>) \<and>
    length block' = length (do_fat_read_at_block s) \<and>
    scan_matches (dir_lookup name isdir n (drop p ds)) block' (base + 32 * (p + n)) res \<and>
    (dir_lookup name isdir n (drop p ds) = Dir_next \<longrightarrow> window block' base ds (p + n))"
  using assms(4,5)
proof (induction n arbitrary: p s)
  case 0
  then show ?case
    by (intro exI [of _ "Root_next (base + 32 * p)"] exI [of _ "do_fat_read_at_block s"])
       (simp add: scan_matches_def root_scan.simps)
next
  case (Suc n)
  let ?b = "do_fat_read_at_block s" and ?d = "ds ! p"
  note w = Suc.prems(1)
  have p: "p < length ds" "p < m"
    using Suc.prems m by simp_all
  have hd: "drop p ds ! 0 = ?d" and tl: "tl (drop p ds) = drop (Suc p) ds"
    using p(1) by (simp_all add: tl_drop drop_Suc)
  have ld: "load_dirent ?b (base + 32 * p) = Some ?d"
    by (rule window_dirent [OF w order_refl p(1)])
  have off: "base + 32 * p + 32 = base + 32 * Suc p"
    by simp
  note scan = root_scan.simps(2) [of cfg e md rc base name isdir n "base + 32 * p" my s, unfolded off]
  have step: ?case
    if "root_scan cfg e md rc base name isdir (Suc n) (base + 32 * p) my s
        = root_scan cfg e md rc base name isdir n (base + 32 * Suc p) my (s\<lparr>do_fat_read_at_block := b\<rparr>)"
      and "dir_step name isdir (drop p ds) = Dir_next" and "window b base ds (Suc p)" and "length b = length ?b" for b
    using Suc.IH [of "s\<lparr>do_fat_read_at_block := b\<rparr>" "Suc p"] that Suc.prems(2) tl by auto
  have skip: ?case
    if "root_scan cfg e md rc base name isdir (Suc n) (base + 32 * p) my s
        = root_scan cfg e md rc base name isdir n (base + 32 * Suc p) my s"
      and "dir_step name isdir (drop p ds) = Dir_next"
    by (rule step [of ?b]) (use that window_mono [OF w, of "Suc p"] in simp_all)
  have match: ?case
    if "root_scan cfg e md rc base name isdir (Suc n) (base + 32 * p) my s
        = (if name \<noteq> get_name (dir_entry_of d) \<and> name \<noteq> l
           then root_scan cfg e md rc base name isdir n (base + 32 * Suc p) my (s\<lparr>do_fat_read_at_block := b\<rparr>)
           else if isdir \<and> de_attr (dir_entry_of d) AND ATTR_DIR = 0
             then Some (Root_exit, my, s\<lparr>do_fat_read_at_block := b\<rparr>)
           else Some (Root_match (base + 32 * p), my, s\<lparr>do_fat_read_at_block := b\<rparr>))"
      and "dir_step name isdir (drop p ds) = dir_match name isdir d names"
      and "name \<in> set names \<longleftrightarrow> name = get_name (dir_entry_of d) \<or> name = l"
      and "window b base ds (Suc p)" and "length b = length ?b" and "load_dirent b (base + 32 * p) = Some d" for b d l names
  proof (cases "name \<in> set names")
    case False
    then show ?thesis
      using that by (intro step [of b]) (auto simp: dir_match_def)
  next
    case True
    let ?r = "if isdir \<and> de_attr (dir_entry_of d) AND ATTR_DIR = 0 then Root_exit else Root_match (base + 32 * p)"
    have run: "root_scan cfg e md rc base name isdir (Suc n) (base + 32 * p) my s
        = Some (?r, my, s\<lparr>do_fat_read_at_block := b\<rparr>)"
      unfolding that(1) using True that(3) by auto
    have look: "dir_lookup name isdir (Suc n) (drop p ds)
        = (if isdir \<and> de_attr (dir_entry_of d) AND ATTR_DIR = 0 then Dir_end else Dir_found d)"
      using True that(2) by (simp add: dir_match_def)
    show ?thesis
      unfolding look run using that(5,6)
      by (intro exI [of _ ?r] exI [of _ b]) (simp add: scan_matches_def)
  qed
  consider (del) "?d ! 0 = DELETED_FLAG" | (slot) "is_slot ?d"
    | (vol) "?d ! 0 \<noteq> DELETED_FLAG" "\<not> is_slot ?d" "de_attr (dir_entry_of ?d) AND ATTR_VOLUME \<noteq> 0"
    | (fin) "?d ! 0 \<noteq> DELETED_FLAG" "de_attr (dir_entry_of ?d) AND ATTR_VOLUME = 0" "?d ! 0 = 0"
    | (short) "?d ! 0 \<noteq> DELETED_FLAG" "de_attr (dir_entry_of ?d) AND ATTR_VOLUME = 0" "?d ! 0 \<noteq> 0"
    by blast
  then show ?case
  proof cases
    case del
    then show ?thesis
      by (intro skip) (simp_all add: scan ld dir_step_def hd)
  next
    case slot
    obtain ret l b d where v: "get_vfatname cfg e md my rc ?b base (base + 32 * p) s = Some (ret, l, b, my, s)"
      "length b = length ?b" "window b base ds (Suc p)" "load_dirent b (base + 32 * p) = Some d"
      "(l, d) = (case slot_group (drop p ds) of Some (slots, real) \<Rightarrow> (long_name slots, real) | None \<Rightarrow> ([], ?d))"
      using window_vfatname [OF w order_refl p(1) limit slot slots_fit_nth [OF fit p(2) slot]] by blast
    define names where "names = (case slot_group (drop p ds) of
        Some (slots, real) \<Rightarrow> [get_name (dir_entry_of real), long_name slots] | None \<Rightarrow> [get_name (dir_entry_of ?d)])"
    have "dir_step name isdir (drop p ds) = dir_match name isdir d names"
      "name \<in> set names \<longleftrightarrow> name = get_name (dir_entry_of d) \<or> name = l"
      using slot v(5) name
      by (auto simp: dir_step_def hd is_slot_def names_def Let_def split: option.splits)
    then show ?thesis
      using slot v by (intro match) (auto simp: scan ld is_slot_def Let_def)
  next
    case vol
    then show ?thesis
      by (intro skip) (auto simp: scan ld dir_step_def hd is_slot_def Let_def)
  next
    case fin
    then show ?thesis
      by (auto simp: scan ld dir_step_def hd is_slot_def scan_matches_def Let_def
          intro!: exI [of _ ?b])
  next
    case short
    then show ?thesis
      using window_mono [OF w, of "Suc p"] name
      by (intro match [of ?d "[]" ?b "[get_name (dir_entry_of ?d)]"])
         (auto simp: scan ld dir_step_def hd is_slot_def Let_def)
  qed
qed

text \<open>The lookup depends only on entries that both windows hold.\<close>

lemma dir_lookup_steps:
  "(\<And>j. j < n \<Longrightarrow> dir_step name isdir (drop j ds) = dir_step name isdir (drop j es)) \<Longrightarrow>
   dir_lookup name isdir n ds = dir_lookup name isdir n es"
proof (induction n arbitrary: ds es)
  case (Suc n)
  have "dir_lookup name isdir n (tl ds) = dir_lookup name isdir n (tl es)"
    by (rule Suc.IH) (use Suc.prems [of "Suc _"] in \<open>simp add: drop_Suc\<close>)
  then show ?case
    using Suc.prems [of 0] by (simp split: dir_result.split)
qed simp

lemma dir_lookup_cong:
  assumes "slots_fit n ds" "slots_fit n es" and "n \<le> length ds" "n \<le> length es"
    and same: "\<And>j. j < length ds \<Longrightarrow> j < length es \<Longrightarrow> ds ! j = es ! j"
  shows "dir_lookup name isdir n ds = dir_lookup name isdir n es"
proof (rule dir_lookup_steps)
  fix j
  assume j: "j < n"
  then have l: "j < length ds" "j < length es"
    using assms by simp_all
  have d: "drop j ds ! 0 = drop j es ! 0" "ds ! j = es ! j"
    using l same by simp_all
  have "slot_group (drop j ds) = slot_group (drop j es)" if slot: "is_slot (ds ! j)"
  proof (cases "slot_number (ds ! j) \<le> VFAT_MAXSEQ")
    case True
    define k where "k = slot_number (ds ! j)"
    have k: "j + k < length ds" "j + k < length es"
      using slots_fit_nth [OF assms(1) j] slots_fit_nth [OF assms(2) j] slot True d(2) by (simp_all add: k_def)
    have "take k (drop j ds) = take k (drop j es)"
      using k same by (intro nth_equalityI) simp_all
    moreover have "list_all (\<lambda>i. slot_number (ds ! (j + i)) = k - i) [0..<k]
        = list_all (\<lambda>i. slot_number (es ! (j + i)) = k - i) [0..<k]"
      using k same by (simp add: list_all_iff)
    ultimately show ?thesis
      using k same [OF k] d(2) by (simp add: slot_group_drop l Let_def k_def)
  next
    case False
    then show ?thesis
      using d(2) by (simp add: slot_group_drop l Let_def)
  qed
  then show "dir_step name isdir (drop j ds) = dir_step name isdir (drop j es)"
    using d l by (simp add: dir_step_def Let_def)
qed

section \<open>The root directory\<close>

definition dir_answer :: "dir_result \<Rightarrow> u8 list option" where
  "dir_answer r = (case r of Dir_found d \<Rightarrow> Some d | _ \<Rightarrow> None)"

fun chain_lookup :: "cstr \<Rightarrow> bool \<Rightarrow> u8 list list list \<Rightarrow> u8 list option" where
  "chain_lookup name isdir [] = None"
| "chain_lookup name isdir (W # Ws) =
     (case dir_lookup name isdir (length W) W of
        Dir_next \<Rightarrow> chain_lookup name isdir Ws
      | Dir_end \<Rightarrow> None
      | Dir_found d \<Rightarrow> Some d)"

text \<open>What a walk through a directory keeps: everything but the contents of the directory block.\<close>

definition dir_kept :: "sys \<Rightarrow> sys \<Rightarrow> bool" where
  "dir_kept t s \<longleftrightarrow>
     (\<exists>b. length b = length (do_fat_read_at_block s) \<and> kept t = kept (s\<lparr>do_fat_read_at_block := b\<rparr>))"

lemma kept_block_cong:
  "kept t = kept s \<Longrightarrow> kept (t\<lparr>do_fat_read_at_block := b\<rparr>) = kept (s\<lparr>do_fat_read_at_block := b\<rparr>)"
  by (simp add: kept_defs)

lemma kept_block: "kept t = kept s \<Longrightarrow> do_fat_read_at_block t = do_fat_read_at_block s"
  by (simp add: kept_defs)

lemma dir_kept_block: "length b = length (do_fat_read_at_block s) \<Longrightarrow> dir_kept (s\<lparr>do_fat_read_at_block := b\<rparr>) s"
  by (auto simp: dir_kept_def)

lemma dir_kept_kept: "kept t = kept s \<Longrightarrow> dir_kept t s"
  unfolding dir_kept_def by (intro exI [of _ "do_fat_read_at_block s"]) simp

lemma dir_kept_trans:
  assumes "dir_kept u t" "dir_kept t s"
  shows "dir_kept u s"
proof -
  obtain b c where b: "length b = length (do_fat_read_at_block s)" "kept t = kept (s\<lparr>do_fat_read_at_block := b\<rparr>)"
    and c: "length c = length (do_fat_read_at_block t)" "kept u = kept (t\<lparr>do_fat_read_at_block := c\<rparr>)"
    using assms unfolding dir_kept_def by blast
  then have "length c = length (do_fat_read_at_block s)"
    using kept_block [OF b(2)] by simp
  then show ?thesis
    using c(2) kept_block_cong [OF b(2), of c] unfolding dir_kept_def by auto
qed

lemma dir_kept_data:
  assumes "dir_kept t s"
  shows "boot_data t = boot_data s" "usb_dev_desc t = usb_dev_desc s" "cur_dev t = cur_dev s"
    "cur_part_info t = cur_part_info s" "length (do_fat_read_at_block t) = length (do_fat_read_at_block s)"
    "mounted dev start t = mounted dev start s" "mmc_devices t = mmc_devices s" "sd_line t = sd_line s" "sd_app t = sd_app s"
  using assms by (auto simp: dir_kept_def kept_defs mounted_def)

lemma sint_nonneg: "unat n < 2 ^ 31 \<Longrightarrow> 0 \<le> sint n" for n :: u32
proof -
  assume "unat n < 2 ^ 31"
  then have "take_bit 31 (unat n) = unat n"
    by (simp add: take_bit_nat_eq_self)
  then have "\<not> bit (unat n) 31"
    by (metis bit_take_bit_iff less_irrefl)
  then have "\<not> bit n 31"
    by (simp add: bit_unsigned_iff)
  then show ?thesis
    by (simp add: sint_uint signed_take_bit_nonnegative_iff bit_unsigned_iff)
qed

locale fat_directory = fat_volume +
  assumes ready_block: "ready s \<Longrightarrow> ready (s\<lparr>do_fat_read_at_block := b\<rparr>)"
begin

lemma ready_dir_kept: "dir_kept t s \<Longrightarrow> ready s \<Longrightarrow> ready t"
  unfolding dir_kept_def using ready_kept ready_block by blast

text \<open>Reading blocks of a directory to an offset of the buffer puts them in a window.\<close>

lemma read_window:
  assumes s: "ready s" "mounted dev start s" and n: "unat b + unat n \<le> nsect" "unat n < 2 ^ 31"
    and m: "unat n * bsz = 32 * m" and base: "base + 32 * m \<le> length (do_fat_read_at_block s)"
  shows "\<exists>t block. disk_read cfg e md b n s = Some (sint n, sectors vol b (unat n), t) \<and> 0 \<le> sint n \<and>
    store_at (do_fat_read_at_block t) base (sectors vol b (unat n)) = Some block \<and>
    dir_kept (t\<lparr>do_fat_read_at_block := block\<rparr>) s \<and> ready t \<and> mounted dev start t \<and>
    window block base (entries_of (sectors vol b (unat n)) 0 m) 0"
proof -
  obtain t where t: "disk_read cfg e md b n s = Some (sint n, sectors vol b (unat n), t)" "kept t = kept s" "ready t"
    "mounted dev start t"
    using disk_read_ok [OF s n(1)] by blast
  let ?bytes = "sectors vol b (unat n)" and ?old = "do_fat_read_at_block t"
  have len: "length ?bytes = 32 * m"
    using m by (simp add: length_sectors [of vol bsz] vol_length)
  have old: "?old = do_fat_read_at_block s"
    by (rule kept_block [OF t(2)])
  define block where "block = take base ?old @ ?bytes @ drop (base + 32 * m) ?old"
  have length_b: "length block = length (do_fat_read_at_block s)"
    using base old len by (simp add: block_def)
  have "sub_bytes block (base + 32 * j) 32 = sub_bytes ?bytes (32 * j) 32" if "j < m" for j
    using that base old len by (simp add: block_def sub_bytes_def)
  then have "window block base (entries_of ?bytes 0 m) 0"
    using base length_b by (simp add: window_def)
  moreover have "store_at ?old base ?bytes = Some block"
    using base old len by (simp add: store_at_def block_def)
  moreover have "dir_kept (t\<lparr>do_fat_read_at_block := block\<rparr>) s"
    using dir_kept_trans [OF dir_kept_block dir_kept_kept [OF t(2)]] length_b old by simp
  moreover have "0 \<le> sint n"
    by (rule sint_nonneg [OF n(2)])
  ultimately show ?thesis
    using t by blast
qed

lemma sub_bytes_append: "off + n \<le> length xs \<Longrightarrow> sub_bytes (xs @ ys) off n = sub_bytes xs off n"
  by (simp add: sub_bytes_def)

lemma sub_bytes_sectors:
  assumes "off + len \<le> n * bsz" "off + len \<le> k * bsz"
  shows "sub_bytes (sectors vol b n) off len = sub_bytes (sectors vol b k) off len"
proof -
  have "sub_bytes (sectors vol b (m + j)) off len = sub_bytes (sectors vol b m) off len" if "off + len \<le> m * bsz" for m j
    unfolding sectors_add using that by (intro sub_bytes_append) (simp add: length_sectors [of vol bsz] vol_length)
  from this [of "min n k" "n - min n k"] this [of "min n k" "k - min n k"] show ?thesis
    using assms by (auto simp: min_def split: if_splits)
qed

lemma entries_sectors:
  assumes "bsz = 32 * eps" and "i \<le> R" and "i * eps + j < R * eps" and "j < n * eps"
  shows "sub_bytes (sectors vol b R) (32 * (i * eps + j)) 32 = sub_bytes (sectors vol (b + of_nat i) n) (32 * j) 32"
proof -
  have split: "sectors vol b R = sectors vol b i @ sectors vol (b + of_nat i) (R - i)"
    using sectors_add [of vol b i "R - i"] assms(2) by simp
  have len: "length (sectors vol b i) = 32 * (i * eps)"
    using assms(1) by (simp add: length_sectors [of vol bsz] vol_length)
  have 1: "32 * j + 32 \<le> (R - i) * bsz"
  proof -
    have "Suc j \<le> (R - i) * eps"
      using assms(2,3) by (simp add: diff_mult_distrib)
    then have "32 * Suc j \<le> 32 * ((R - i) * eps)"
      by (rule mult_le_mono2)
    then show ?thesis
      using assms(1) by (simp add: mult.left_commute)
  qed
  have 2: "32 * j + 32 \<le> n * bsz"
  proof -
    have "32 * Suc j \<le> 32 * (n * eps)"
      using assms(4) by (intro mult_le_mono2) simp
    then show ?thesis
      using assms(1) by (simp add: mult.left_commute)
  qed
  have "sub_bytes (sectors vol b R) (32 * (i * eps + j)) 32 = sub_bytes (sectors vol (b + of_nat i) (R - i)) (32 * j) 32"
    unfolding split using len by (simp add: sub_bytes_def distrib_left)
  then show ?thesis
    using sub_bytes_sectors [OF 1 2] by simp
qed

lemma root_window_16:
  assumes bsz: "bsz = 32 * eps" "10 \<le> eps" and i: "i < R"
    and E: "E = entries_of (sectors vol b R) 0 (R * eps)" "slots_fit (R * eps) E"
    and W: "W = entries_of (sectors vol (b + of_nat i) 2) 0 (2 * eps)"
  shows "slots_fit eps W"
    and "dir_lookup name isdir eps (drop (i * eps) E) = dir_lookup name isdir eps W"
proof -
  have bound: "i * eps + j < R * eps" if "j < eps" for j
  proof -
    have "Suc i * eps \<le> R * eps"
      using i by (intro mult_le_mono1) simp
    then show ?thesis
      using that by simp
  qed
  have same: "E ! (i * eps + j) = W ! j" if "i * eps + j < R * eps" "j < 2 * eps" for j
    using entries_sectors [OF bsz(1) less_imp_le [OF i] that] that by (simp add: E(1) W)
  show W_fit: "slots_fit eps W"
    unfolding slots_fit_def list_all_iff
  proof (intro ballI impI)
    fix j
    assume j: "j \<in> set [0..<eps]" and slot: "is_slot (W ! j)"
    then have "E ! (i * eps + j) = W ! j"
      using same bound by simp
    then show "0 < slot_number (W ! j) \<and> (slot_number (W ! j) \<le> VFAT_MAXSEQ \<longrightarrow> j + slot_number (W ! j) < length W)"
      using slots_fit_nth [OF E(2) bound [of j]] j slot bsz(2) by (auto simp: W VFAT_MAXSEQ_def)
  qed
  show "dir_lookup name isdir eps (drop (i * eps) E) = dir_lookup name isdir eps W"
  proof (rule dir_lookup_cong [OF _ W_fit])
    show "slots_fit eps (drop (i * eps) E)"
      unfolding slots_fit_def list_all_iff
    proof (intro ballI impI)
      fix j
      assume j: "j \<in> set [0..<eps]" and slot: "is_slot (drop (i * eps) E ! j)"
      have "i * eps \<le> length E"
        using i by (simp add: E(1) mult_le_mono1)
      then have "drop (i * eps) E ! j = E ! (i * eps + j)"
        by (rule nth_drop)
      then show "0 < slot_number (drop (i * eps) E ! j) \<and> (slot_number (drop (i * eps) E ! j) \<le> VFAT_MAXSEQ \<longrightarrow>
          j + slot_number (drop (i * eps) E ! j) < length (drop (i * eps) E))"
        using slots_fit_nth [OF E(2) bound [of j]] j slot by auto
    qed
    show "eps \<le> length (drop (i * eps) E)"
      using bound [of "eps - 1"] bsz(2) by (simp add: E(1))
    show "drop (i * eps) E ! j = W ! j" if "j < length (drop (i * eps) E)" "j < length W" for j
    proof -
      have "i * eps \<le> length E"
        using i by (simp add: E(1) mult_le_mono1)
      then show ?thesis
        using same [of j] that by (simp add: E(1) W nth_drop del: nth_entries_of)
    qed
  qed (simp add: W)
qed

text \<open>One round of the loop, when its reads and its scan are known.\<close>

lemma root_loop_step_16:
  assumes fs: "fatsize my \<noteq> 32" and bsz: "bsz = unat (sect_size my)" "bsz = 32 * eps"
    and shift: "(if first then Some (do_fat_read_at_block s)
      else store_at (do_fat_read_at_block s) 0 (sub_bytes (do_fat_read_at_block s) bsz bsz)) = Some b1"
    and read: "disk_read cfg e md cur 2 (s\<lparr>do_fat_read_at_block := b1\<rparr>) = Some (2, bytes, t)"
    and store: "store_at (do_fat_read_at_block t) (if first then 0 else bsz) bytes = Some block"
    and scan: "root_scan cfg e md rc (if first then 0 else bsz) name isdir eps (if first then 0 else bsz) my
      (t\<lparr>do_fat_read_at_block := block\<rparr>) = Some (res, my, t\<lparr>do_fat_read_at_block := block'\<rparr>)"
  shows "root_loop cfg e md R name isdir first rc cur cnt dp my s =
     (case res of
        Root_exit \<Rightarrow> Some (None, my, t\<lparr>do_fat_read_at_block := block'\<rparr>)
      | Root_match off \<Rightarrow> (case load_dirent block' off of None \<Rightarrow> None
          | Some d \<Rightarrow> Some (Some d, my, t\<lparr>do_fat_read_at_block := block'\<rparr>))
      | Root_next dp \<Rightarrow>
          if cur + 1 - rootdir_sect my \<ge> of_int R then Some (None, my, t\<lparr>do_fat_read_at_block := block'\<rparr>)
          else root_loop cfg e md R name isdir False rc (cur + 1)
                 (if cnt + 1 = unat PREFETCH_BLOCKS then 0 else cnt + 1) dp my (t\<lparr>do_fat_read_at_block := block'\<rparr>))"
proof -
  have eps: "unat (sect_size my) = bsz" "bsz div 32 = eps"
    using bsz by simp_all
  show ?thesis
  proof (cases first)
    case True
    then show ?thesis
      using fs shift read store scan
      by (subst root_loop.simps, cases res)
         (simp_all add: eps PREFETCH_BLOCKS_def Let_def split: option.split)
  next
    case False
    then show ?thesis
      using fs shift read store scan
      by (subst root_loop.simps, cases res)
         (simp_all add: eps PREFETCH_BLOCKS_def Let_def split: option.split)
  qed
qed

lemma root_loop_16:
  assumes fs: "fatsize my \<noteq> 32" and bsz: "bsz = unat (sect_size my)" "bsz = 32 * eps" "10 \<le> eps"
    and root: "unat (rootdir_sect my) + Suc R \<le> nsect" "R < 2 ^ 31" and name: "name \<noteq> []"
    and E: "E = entries_of (sectors vol (rootdir_sect my) R) 0 (R * eps)" "slots_fit (R * eps) E"
    and s: "ready s" "mounted dev start s" "3 * bsz \<le> length (do_fat_read_at_block s)" and i: "i < R"
  shows "\<exists>t. root_loop cfg e md (int R) name isdir (i = 0) 0 (rootdir_sect my + of_nat i) cnt dp my s
      = Some (dir_answer (dir_lookup name isdir ((R - i) * eps) (drop (i * eps) E)), my, t) \<and> dir_kept t s"
  using s i
proof (induction "R - i" arbitrary: i cnt dp s)
  case (Suc x)
  let ?b = "do_fat_read_at_block s" and ?cur = "rootdir_sect my + of_nat i"
  note s = Suc.prems(1-3) and i = Suc.prems(4)
  define base where "base = (if i = 0 then 0 else bsz)"
  define b1 where "b1 = (if i = 0 then ?b else sub_bytes ?b bsz bsz @ drop bsz ?b)"
  let ?s1 = "s\<lparr>do_fat_read_at_block := b1\<rparr>"
  have len1: "length b1 = length ?b"
    using s(3) by (simp add: b1_def)
  have shift: "(if i = 0 then Some ?b else store_at ?b 0 (sub_bytes ?b bsz bsz)) = Some b1"
    using s(3) by (simp add: b1_def store_at_def)
  have cur: "unat ?cur = unat (rootdir_sect my) + i"
    using root i vol_inside lba_bound by (simp add: unat_word_ariths unat_of_nat)
  define W where "W = entries_of (sectors vol ?cur 2) 0 (2 * eps)"
  note fit = root_window_16 [OF bsz(2,3) i E W_def]
  obtain t block where t: "disk_read cfg e md ?cur 2 ?s1 = Some (2, sectors vol ?cur 2, t)"
    "store_at (do_fat_read_at_block t) base (sectors vol ?cur 2) = Some block"
    "dir_kept (t\<lparr>do_fat_read_at_block := block\<rparr>) ?s1" "ready t" "mounted dev start t" "window block base W 0"
  proof -
    have "\<exists>t block. disk_read cfg e md ?cur 2 ?s1 = Some (sint (2 :: u32), sectors vol ?cur (unat (2 :: u32)), t) \<and> 0 \<le> sint (2 :: u32) \<and>
      store_at (do_fat_read_at_block t) base (sectors vol ?cur (unat (2 :: u32))) = Some block \<and>
      dir_kept (t\<lparr>do_fat_read_at_block := block\<rparr>) ?s1 \<and> ready t \<and> mounted dev start t \<and>
      window block base (entries_of (sectors vol ?cur (unat (2 :: u32))) 0 (2 * eps)) 0"
    proof (rule read_window)
      show "ready ?s1"
        using s(1) by (rule ready_block)
      show "mounted dev start ?s1"
        using s(2) by (simp add: mounted_def)
      show "unat ?cur + unat (2 :: u32) \<le> nsect"
        using cur i root(1) by simp
      show "base + 32 * (2 * eps) \<le> length (do_fat_read_at_block ?s1)"
        using s(3) len1 bsz by (simp add: base_def)
    qed (use bsz in simp_all)
    then show thesis
      using that by (auto simp: W_def)
  qed
  let ?t1 = "t\<lparr>do_fat_read_at_block := block\<rparr>"
  have limit: "unat (sect_size my) * (if (0 :: u32) = 0 then unat PREFETCH_BLOCKS else unat (clust_size my)) = 32 * length W"
    using bsz by (simp add: W_def PREFETCH_BLOCKS_def)
  have "window (do_fat_read_at_block ?t1) base W 0"
    using t(6) by simp
  from root_scan_window [OF fit(1) name limit this, of eps cfg e md isdir]
  obtain res block' where scan: "root_scan cfg e md 0 base name isdir eps base my ?t1
      = Some (res, my, t\<lparr>do_fat_read_at_block := block'\<rparr>)" "length block' = length block"
    "scan_matches (dir_lookup name isdir eps W) block' (base + 32 * eps) res"
    by (auto simp: W_def)
  let ?t2 = "t\<lparr>do_fat_read_at_block := block'\<rparr>"
  have kept2: "dir_kept ?t2 s"
    using dir_kept_trans [OF dir_kept_trans [OF _ t(3)] dir_kept_block [OF len1]] dir_kept_block [of block' ?t1] scan(2)
    by simp
  have step: "root_loop cfg e md (int R) name isdir (i = 0) 0 ?cur cnt dp my s =
     (case res of
        Root_exit \<Rightarrow> Some (None, my, ?t2)
      | Root_match off \<Rightarrow> (case load_dirent block' off of None \<Rightarrow> None | Some d \<Rightarrow> Some (Some d, my, ?t2))
      | Root_next dp \<Rightarrow>
          if ?cur + 1 - rootdir_sect my \<ge> of_int (int R) then Some (None, my, ?t2)
          else root_loop cfg e md (int R) name isdir False 0 (?cur + 1)
                 (if cnt + 1 = unat PREFETCH_BLOCKS then 0 else cnt + 1) dp my ?t2)"
    by (rule root_loop_step_16 [OF fs bsz(1,2) shift [unfolded base_def] t(1) t(2) [unfolded base_def] scan(1) [unfolded base_def]])
  have look: "dir_lookup name isdir ((R - i) * eps) (drop (i * eps) E) =
      (case dir_lookup name isdir eps W of
         Dir_next \<Rightarrow> dir_lookup name isdir ((R - Suc i) * eps) (drop (Suc i * eps) E) | r \<Rightarrow> r)"
  proof -
    have "R - i = Suc (R - Suc i)"
      using i by simp
    then have "(R - i) * eps = eps + (R - Suc i) * eps"
      by simp
    then show ?thesis
      using dir_lookup_add [of name isdir eps "(R - Suc i) * eps" "drop (i * eps) E"] fit(2)
      by (simp add: add.commute split: dir_result.split)
  qed
  show ?case
  proof (cases "dir_lookup name isdir eps W")
    case Dir_next
    then have res: "res = Root_next (base + 32 * eps)"
      using scan(3) by (simp add: scan_matches_def)
    have ge: "(?cur + 1 - rootdir_sect my \<ge> of_int (int R)) = (Suc i \<ge> R)"
    proof -
      have "?cur + 1 - rootdir_sect my = of_nat (Suc i)"
        by simp
      then show ?thesis
        using i root(2) by (simp only: of_int_of_nat_eq word_le_nat_alt) (simp add: unat_of_nat del: of_nat_Suc)
    qed
    show ?thesis
    proof (cases "Suc i < R")
      case True
      have "\<exists>t. root_loop cfg e md (int R) name isdir (Suc i = 0) 0 (rootdir_sect my + of_nat (Suc i))
          (if cnt + 1 = unat PREFETCH_BLOCKS then 0 else cnt + 1) (base + 32 * eps) my ?t2
        = Some (dir_answer (dir_lookup name isdir ((R - Suc i) * eps) (drop (Suc i * eps) E)), my, t) \<and> dir_kept t ?t2"
      proof (rule Suc.hyps(1))
        show "x = R - Suc i"
          using Suc.hyps(2) by simp
        show "ready ?t2"
          using t(4) by (rule ready_block)
        show "mounted dev start ?t2"
          using t(5) by (simp add: mounted_def)
        show "3 * bsz \<le> length (do_fat_read_at_block ?t2)"
          using s(3) dir_kept_data(5) [OF kept2] by simp
      qed (rule True)
      then obtain u where u: "root_loop cfg e md (int R) name isdir False 0 (?cur + 1)
          (if cnt + 1 = unat PREFETCH_BLOCKS then 0 else cnt + 1) (base + 32 * eps) my ?t2
        = Some (dir_answer (dir_lookup name isdir ((R - Suc i) * eps) (drop (Suc i * eps) E)), my, u)" "dir_kept u ?t2"
        by (auto simp: add.commute add.left_commute)
      have "\<not> ?cur + 1 - rootdir_sect my \<ge> of_int (int R)"
        using True unfolding ge by simp
      then show ?thesis
        using u(1) dir_kept_trans [OF u(2) kept2]
        by (simp only: step look res Dir_next if_False root_result.case dir_result.case) blast
    next
      case False
      then have "?cur + 1 - rootdir_sect my \<ge> of_int (int R)" "R - Suc i = 0"
        unfolding ge by simp_all
      then show ?thesis
        using kept2 by (simp only: step look res Dir_next if_True root_result.case dir_result.case) (simp add: dir_answer_def)
    qed
  qed (use scan(3) kept2 in \<open>auto simp: step look scan_matches_def dir_answer_def\<close>)
qed simp

end

text \<open>The step from one cluster of the root directory to the next.\<close>

definition next_root_cluster where
  "next_root_cluster cfg e md R name isdir rc dp my s = do {
     (nxt, my, s) \<leftarrow> get_fatent cfg e md my rc s;
     if CHECK_CLUST nxt 32 then Some (None, my, s)
     else root_loop cfg e md R name isdir False nxt (data_begin my + nxt * ucast (clust_size my)) 0 dp my s
   }"

definition after_scan where
  "after_scan cfg e md R name isdir rc dp my t r =
     (case r of
        Dir_next \<Rightarrow> next_root_cluster cfg e md R name isdir rc dp my t
      | Dir_end \<Rightarrow> Some (None, my, t)
      | Dir_found d \<Rightarrow> Some (Some d, my, t))"

text \<open>One round of the loop on FAT32: the state \<open>s'\<close> after the read, if there is one.\<close>

lemma root_loop_step_32:
  assumes fs: "fatsize my = 32" and sect: "unat (sect_size my) = 32 * eps"
    and read: "if cnt = 0 then \<exists>r bytes u block. disk_read cfg e md cur (ucast (clust_size my)) s = Some (r, bytes, u) \<and> 0 \<le> r \<and>
        store_at (do_fat_read_at_block u) 0 bytes = Some block \<and> s' = u\<lparr>do_fat_read_at_block := block\<rparr> \<and> dp' = 0
      else s' = s \<and> dp' = dp"
    and scan: "root_scan cfg e md rc 0 name isdir eps dp' my s' = Some (res, my, t)"
  shows "root_loop cfg e md R name isdir first rc cur cnt dp my s =
     (case res of
        Root_exit \<Rightarrow> Some (None, my, t)
      | Root_match off \<Rightarrow> (case load_dirent (do_fat_read_at_block t) off of None \<Rightarrow> None | Some d \<Rightarrow> Some (Some d, my, t))
      | Root_next dp \<Rightarrow>
          if cnt + 1 = unat (clust_size my) then next_root_cluster cfg e md R name isdir rc dp my t
          else root_loop cfg e md R name isdir False rc cur (cnt + 1) dp my t)"
proof -
  have eps: "unat (sect_size my) div 32 = eps"
    using sect by simp
  show ?thesis
  proof (cases "cnt = 0")
    case True
    with read obtain r bytes u block where u: "disk_read cfg e md cur (ucast (clust_size my)) s = Some (r, bytes, u)" "0 \<le> r"
      "store_at (do_fat_read_at_block u) 0 bytes = Some block" "s' = u\<lparr>do_fat_read_at_block := block\<rparr>" "dp' = 0"
      by auto
    show ?thesis
      using fs u scan True
      by (subst root_loop.simps, cases res)
         (simp_all add: eps next_root_cluster_def Let_def split: option.split)
  next
    case False
    then show ?thesis
      using fs read scan
      by (subst root_loop.simps, cases res)
         (simp_all add: eps next_root_cluster_def Let_def split: option.split)
  qed
qed

definition cluster_window :: "(u32 \<Rightarrow> u8 list) \<Rightarrow> fsdata \<Rightarrow> u32 \<Rightarrow> u8 list list" where
  "cluster_window vol my c = entries_of (cluster_bytes vol my c) 0 (clust_bytes my div 32)"

lemma cluster_window_same [simp]: "cluster_window vol (my\<lparr>fatbuf := b, fatbufnum := k\<rparr>) = cluster_window vol my"
  by (simp add: cluster_window_def clust_bytes_def fun_eq_iff)

context fat_directory
begin

lemma root_loop_cluster_from:
  assumes fs: "fatsize my = 32" and sect: "unat (sect_size my) = 32 * eps" and name: "name \<noteq> []" and rc: "rc \<noteq> 0"
    and W: "length W = unat (clust_size my) * eps" "slots_fit (length W) W"
    and j: "j < unat (clust_size my)"
    and read: "if j = 0 then \<exists>r bytes u block. disk_read cfg e md cur (ucast (clust_size my)) s = Some (r, bytes, u) \<and> 0 \<le> r \<and>
        store_at (do_fat_read_at_block u) 0 bytes = Some block \<and> s' = u\<lparr>do_fat_read_at_block := block\<rparr>
      else s' = s \<and> dp = 32 * (j * eps)"
    and s': "dir_kept s' s" "window (do_fat_read_at_block s') 0 W (j * eps)"
  shows "\<exists>t dp'. dir_kept t s \<and> root_loop cfg e md R name isdir first rc cur j dp my s =
    after_scan cfg e md R name isdir rc dp' my t (dir_lookup name isdir ((unat (clust_size my) - j) * eps) (drop (j * eps) W))"
  using j read s'
proof (induction "unat (clust_size my) - j" arbitrary: j s s' dp first)
  case (Suc x)
  note j = Suc.prems(1) and read = Suc.prems(2) and s' = Suc.prems(3,4)
  have limit: "unat (sect_size my) * (if rc = 0 then unat PREFETCH_BLOCKS else unat (clust_size my)) = 32 * length W"
    using sect rc W(1) by simp
  have le: "j * eps + eps \<le> length W"
  proof -
    have "Suc j * eps \<le> unat (clust_size my) * eps"
      using j by (intro mult_le_mono1) simp
    then show ?thesis
      using W(1) by simp
  qed
  from root_scan_window [OF W(2) name limit s'(2) le order_refl, of cfg e md isdir]
  obtain res block' where scan: "root_scan cfg e md rc 0 name isdir eps (32 * (j * eps)) my s'
      = Some (res, my, s'\<lparr>do_fat_read_at_block := block'\<rparr>)" "length block' = length (do_fat_read_at_block s')"
    "scan_matches (dir_lookup name isdir eps (drop (j * eps) W)) block' (32 * (j * eps + eps)) res"
    "dir_lookup name isdir eps (drop (j * eps) W) = Dir_next \<longrightarrow> window block' 0 W (j * eps + eps)"
    by auto
  let ?t = "s'\<lparr>do_fat_read_at_block := block'\<rparr>"
  have t: "dir_kept ?t s"
    by (rule dir_kept_trans [OF dir_kept_block [OF scan(2)] s'(1)])
  have "if j = 0 then \<exists>r bytes u block. disk_read cfg e md cur (ucast (clust_size my)) s = Some (r, bytes, u) \<and> 0 \<le> r \<and>
        store_at (do_fat_read_at_block u) 0 bytes = Some block \<and> s' = u\<lparr>do_fat_read_at_block := block\<rparr> \<and> 32 * (j * eps) = 0
      else s' = s \<and> 32 * (j * eps) = dp"
    using read by (simp split: if_splits)
  note step = root_loop_step_32 [OF fs sect this scan(1), of R first]
  have look: "dir_lookup name isdir ((unat (clust_size my) - j) * eps) (drop (j * eps) W) =
      (case dir_lookup name isdir eps (drop (j * eps) W) of
         Dir_next \<Rightarrow> dir_lookup name isdir ((unat (clust_size my) - Suc j) * eps) (drop (Suc j * eps) W) | r \<Rightarrow> r)"
  proof -
    have "unat (clust_size my) - j = Suc (unat (clust_size my) - Suc j)"
      using j by simp
    then have "(unat (clust_size my) - j) * eps = eps + (unat (clust_size my) - Suc j) * eps"
      by simp
    then show ?thesis
      using dir_lookup_add [of name isdir eps "(unat (clust_size my) - Suc j) * eps" "drop (j * eps) W"]
      by (simp add: add.commute split: dir_result.split)
  qed
  show ?case
  proof (cases "dir_lookup name isdir eps (drop (j * eps) W)")
    case Dir_next
    then have res: "res = Root_next (32 * (j * eps + eps))" and w: "window block' 0 W (Suc j * eps)"
      using scan(3,4) by (simp_all add: scan_matches_def add.commute)
    show ?thesis
    proof (cases "Suc j = unat (clust_size my)")
      case True
      then have "(unat (clust_size my) - Suc j) * eps = 0"
        by simp
      then show ?thesis
        using True t
        by (simp only: step look res Dir_next root_result.case dir_result.case) (auto simp: after_scan_def)
    next
      case False
      have "\<exists>u dp'. dir_kept u ?t \<and> root_loop cfg e md R name isdir False rc cur (Suc j) (32 * (j * eps + eps)) my ?t =
          after_scan cfg e md R name isdir rc dp' my u
            (dir_lookup name isdir ((unat (clust_size my) - Suc j) * eps) (drop (Suc j * eps) W))"
      proof (rule Suc.hyps(1))
        show "x = unat (clust_size my) - Suc j" "Suc j < unat (clust_size my)"
          using Suc.hyps(2) j False by simp_all
        show "dir_kept ?t ?t"
          by (simp add: dir_kept_kept)
        show "window (do_fat_read_at_block ?t) 0 W (Suc j * eps)"
          using w by simp
      qed simp
      then obtain u dp' where u: "dir_kept u ?t" "root_loop cfg e md R name isdir False rc cur (j + 1) (32 * (j * eps + eps)) my ?t =
          after_scan cfg e md R name isdir rc dp' my u
            (dir_lookup name isdir ((unat (clust_size my) - Suc j) * eps) (drop (Suc j * eps) W))"
        by auto
      have "\<not> j + 1 = unat (clust_size my)"
        using False by simp
      then show ?thesis
        using u(2) dir_kept_trans [OF u(1) t]
        by (simp only: step look res Dir_next root_result.case dir_result.case if_False) blast
    qed
  qed (use scan(3) t in \<open>auto simp: step look scan_matches_def after_scan_def\<close>)
qed simp

text \<open>A whole cluster, with its read.\<close>

lemma root_loop_cluster:
  assumes fs: "fatsize my = 32" and bsz: "bsz = unat (sect_size my)" "bsz = 32 * eps" and name: "name \<noteq> []"
    and s: "ready s" "mounted dev start s" "clust_bytes my \<le> length (do_fat_read_at_block s)" and clust: "0 < unat (clust_size my)"
    and c: "chain_ok vol nsect my [c]" and W: "slots_fit (length (cluster_window vol my c)) (cluster_window vol my c)"
  shows "\<exists>t dp'. dir_kept t s \<and> root_loop cfg e md R name isdir first c (cluster_sect my c) 0 dp my s =
    after_scan cfg e md R name isdir c dp' my t (dir_lookup name isdir (length (cluster_window vol my c)) (cluster_window vol my c))"
proof -
  let ?n = "ucast (clust_size my) :: u32" and ?W = "cluster_window vol my c"
  have n: "unat ?n = unat (clust_size my)" "unat ?n < 2 ^ 31"
    using unsigned_less [of "clust_size my", where 'a = nat] by (simp_all add: unat_ucast_u16)
  have len: "length ?W = unat (clust_size my) * eps" "clust_bytes my = 32 * (unat (clust_size my) * eps)"
    by (simp_all add: cluster_window_def clust_bytes_def bsz(1) [symmetric] bsz(2))
  have "unat (cluster_sect my c) + unat ?n \<le> nsect" "c \<noteq> 0"
    using c by (auto simp: chain_ok_def n CHECK_CLUST_def)
  moreover have "unat ?n * bsz = 32 * (unat (clust_size my) * eps)"
    using n bsz by simp
  moreover have "0 + 32 * (unat (clust_size my) * eps) \<le> length (do_fat_read_at_block s)"
    using s(3) len by simp
  ultimately obtain u block where u: "disk_read cfg e md (cluster_sect my c) ?n s = Some (sint ?n, cluster_bytes vol my c, u)"
    "0 \<le> sint ?n" "store_at (do_fat_read_at_block u) 0 (cluster_bytes vol my c) = Some block"
    "dir_kept (u\<lparr>do_fat_read_at_block := block\<rparr>) s" "window block 0 ?W 0" "c \<noteq> 0"
    using read_window [OF s(1,2) _ n(2), of "cluster_sect my c" "unat (clust_size my) * eps" 0] len
    by (auto simp: n cluster_bytes_def cluster_window_def)
  have "\<exists>t dp'. dir_kept t s \<and> root_loop cfg e md R name isdir first c (cluster_sect my c) 0 dp my s =
    after_scan cfg e md R name isdir c dp' my t
      (dir_lookup name isdir ((unat (clust_size my) - 0) * eps) (drop (0 * eps) ?W))"
  proof (rule root_loop_cluster_from [OF fs _ name u(6) len(1) W clust _ u(4)])
    show "if (0 :: nat) = 0 then \<exists>r bytes ua blocka. disk_read cfg e md (cluster_sect my c) ?n s = Some (r, bytes, ua) \<and> 0 \<le> r \<and>
        store_at (do_fat_read_at_block ua) 0 bytes = Some blocka \<and>
        u\<lparr>do_fat_read_at_block := block\<rparr> = ua\<lparr>do_fat_read_at_block := blocka\<rparr>
      else u\<lparr>do_fat_read_at_block := block\<rparr> = s \<and> dp = 32 * (0 * eps)"
      using u by auto
  qed (use bsz u in simp_all)
  then show ?thesis
    using len by simp
qed

lemma root_loop_32:
  assumes wf: "fat_wf nsect my" and fs: "fatsize my = 32" and bsz: "bsz = unat (sect_size my)" "bsz = 32 * eps"
    and name: "name \<noteq> []" and cache: "fat_cache_ok vol my"
    and s: "ready s" "mounted dev start s" "clust_bytes my \<le> length (do_fat_read_at_block s)" and clust: "0 < unat (clust_size my)"
    and chain: "chain_ok vol nsect my (c # cs)" "c # cs = fat_chain vol my (Suc (length cs)) c"
      "CHECK_CLUST (fat_entry vol my (unat (last (c # cs)))) 32"
    and W: "\<And>c'. c' \<in> set (c # cs) \<Longrightarrow> slots_fit (length (cluster_window vol my c')) (cluster_window vol my c')"
  shows "\<exists>my' t. root_loop cfg e md R name isdir first c (cluster_sect my c) 0 dp my s
      = Some (chain_lookup name isdir (map (cluster_window vol my) (c # cs)), my', t) \<and>
    dir_kept t s \<and> fat_cache_ok vol my' \<and> (\<exists>b k. my' = my\<lparr>fatbuf := b, fatbufnum := k\<rparr>)"
  using assms
proof (induction cs arbitrary: c my s first dp)
  case Nil
  note prems = Nil.prems
  obtain t dp' where t: "dir_kept t s" "root_loop cfg e md R name isdir first c (cluster_sect my c) 0 dp my s =
      after_scan cfg e md R name isdir c dp' my t (dir_lookup name isdir (length (cluster_window vol my c)) (cluster_window vol my c))"
    using root_loop_cluster [OF prems(2-5,7-11)] prems(14) by fastforce
  have s': "ready t" "mounted dev start t"
    using ready_dir_kept [OF t(1) prems(7)] dir_kept_data(6) [OF t(1)] prems(8) by simp_all
  have fits: "fat_entry_end my (unat c) \<le> unat (fatlength my) * unat (sect_size my)"
    using prems(11) by (simp add: chain_ok_def)
  obtain my' u where u: "get_fatent cfg e md my c t = Some (fat_word vol my (unat c), my', u)" "fat_cache_ok vol my'"
    "\<exists>b k. my' = my\<lparr>fatbuf := b, fatbufnum := k\<rparr>" "kept u = kept t"
    using get_fatent_ok [OF prems(1,3,6) s' fits] by blast
  show ?case
    using t u check_entry_word [of vol my "unat c"] prems(2,13) dir_kept_trans [OF dir_kept_kept [OF u(4)] t(1)] prems(6) volume_self [of my]
    by (auto simp: after_scan_def next_root_cluster_def split: dir_result.split)
next
  case (Cons c' cs)
  note prems = Cons.prems
  have c: "chain_ok vol nsect my [c]" and tail: "chain_ok vol nsect my (c' # cs)"
    using prems(11) by (simp_all add: chain_ok_def)
  obtain t dp' where t: "dir_kept t s" "root_loop cfg e md R name isdir first c (cluster_sect my c) 0 dp my s =
      after_scan cfg e md R name isdir c dp' my t (dir_lookup name isdir (length (cluster_window vol my c)) (cluster_window vol my c))"
    using root_loop_cluster [OF prems(2-5,7-10) c] prems(14) by fastforce
  have s': "ready t" "mounted dev start t"
    using ready_dir_kept [OF t(1) prems(7)] dir_kept_data(6) [OF t(1)] prems(8) by simp_all
  have fits: "fat_entry_end my (unat c) \<le> unat (fatlength my) * unat (sect_size my)"
    using c by (simp add: chain_ok_def)
  have next_c: "fat_entry vol my (unat c) = c'" "c' # cs = fat_chain vol my (Suc (length cs)) c'"
    using prems(12) by simp_all
  obtain my' u b k where u: "get_fatent cfg e md my c t = Some (c', my', u)" "fat_cache_ok vol my'"
    "my' = my\<lparr>fatbuf := b, fatbufnum := k\<rparr>" "kept u = kept t" "ready u" "mounted dev start u"
    using get_fatent_clean [OF prems(1,3,6) s' fits] prems(11) next_c(1) by (auto simp: chain_ok_def)
  have u_kept: "dir_kept u s"
    by (rule dir_kept_trans [OF dir_kept_kept [OF u(4)] t(1)])
  have "\<exists>my'' v. root_loop cfg e md R name isdir False c' (cluster_sect my' c') 0 dp' my' u
      = Some (chain_lookup name isdir (map (cluster_window vol my') (c' # cs)), my'', v) \<and>
    dir_kept v u \<and> fat_cache_ok vol my'' \<and> (\<exists>b k. my'' = my'\<lparr>fatbuf := b, fatbufnum := k\<rparr>)"
  proof (rule Cons.IH)
    show "clust_bytes my' \<le> length (do_fat_read_at_block u)"
      using prems(9) dir_kept_data(5) [OF u_kept] by (simp add: u(3) clust_bytes_def)
    show "CHECK_CLUST (fat_entry vol my' (unat (last (c' # cs)))) 32"
      using prems(13) by (simp add: u(3))
    show "slots_fit (length (cluster_window vol my' x)) (cluster_window vol my' x)" if "x \<in> set (c' # cs)" for x
      using prems(14) [of x] that by (simp add: u(3))
    show "c' # cs = fat_chain vol my' (Suc (length cs)) c'"
      using next_c(2) by (simp add: u(3) del: fat_chain.simps)
  qed (use prems tail u in simp_all)
  then obtain my'' v where v: "root_loop cfg e md R name isdir False c' (cluster_sect my' c') 0 dp' my' u
      = Some (chain_lookup name isdir (map (cluster_window vol my') (c' # cs)), my'', v)" "dir_kept v u" "fat_cache_ok vol my''"
    "\<exists>b k. my'' = my\<lparr>fatbuf := b, fatbufnum := k\<rparr>"
    by (auto simp: u(3))
  have "\<not> CHECK_CLUST c' 32"
    using tail prems(2) by (simp add: chain_ok_def)
  then have next_run: "next_root_cluster cfg e md R name isdir c dp' my t
      = Some (chain_lookup name isdir (map (cluster_window vol my) (c' # cs)), my'', v)"
    using v(1) u(1) by (simp add: next_root_cluster_def u(3) cluster_sect_def)
  show ?case
    using t next_run v(3,4) dir_kept_trans [OF v(2) u_kept] prems(6) volume_self [of my]
    by (auto simp: after_scan_def split: dir_result.split)
qed

end

end
