(* ===== verification/Fat_File.thy ===== *)
theory Fat_File
  imports Fat_Dir
begin

text \<open>
  Whole volumes: what the boot sector says, the root directory it describes, and the three entry points of the
  file system on a sound volume.  \<open>fat_size\<close> returns the size in the directory entry of the name,
  \<open>file_fat_read\<close> the bytes of its cluster chain, and both fail with -1 when the name is not in the root
  directory.
\<close>

section \<open>Volumes\<close>

text \<open>What a boot sector says: its parameters and the kind of the volume.\<close>

definition boot_kind :: "u8 list \<Rightarrow> (boot_sector \<times> nat) option" where
  "boot_kind block =
     (let bs = boot_sector_of block in
      if bs_fat_length bs = 0 then
        (if sub_bytes block 82 8 = map of_char ''FAT32   '' then Some (bs, 32) else None)
      else if sub_bytes block 54 8 = map of_char ''FAT12   '' then Some (bs, 12)
      else if sub_bytes block 54 8 = map of_char ''FAT16   '' then Some (bs, 16)
      else None)"

text \<open>The root directory as lists of entries: one list for a fixed root directory of \<open>R\<close> sectors, one
  for each cluster of its chain \<open>cs\<close> on FAT32.\<close>

definition root_windows :: "(u32 \<Rightarrow> u8 list) \<Rightarrow> fsdata \<Rightarrow> nat \<Rightarrow> u32 list \<Rightarrow> u8 list list list" where
  "root_windows vol my R cs =
     (if fatsize my = 32 then map (cluster_window vol my) cs
      else [entries_of (sectors vol (rootdir_sect my) R) 0 (R * (unat (sect_size my) div 32))])"

definition root_ok :: "(u32 \<Rightarrow> u8 list) \<Rightarrow> nat \<Rightarrow> fsdata \<Rightarrow> nat \<Rightarrow> u32 \<Rightarrow> u32 list \<Rightarrow> bool" where
  "root_ok vol nsect my R rc cs \<longleftrightarrow>
     (if fatsize my = 32 then
        cs \<noteq> [] \<and> cs = fat_chain vol my (length cs) rc \<and> chain_ok vol nsect my cs \<and>
        CHECK_CLUST (fat_entry vol my (unat (last cs))) 32 \<and> cluster_sect my rc = rootdir_sect my
      else rc = 0 \<and> 0 < R \<and> R < 2 ^ 31 \<and> unat (rootdir_sect my) + Suc R \<le> nsect) \<and>
     list_all (\<lambda>W. slots_fit (length W) W) (root_windows vol my R cs)"

definition volume_ok :: "(u32 \<Rightarrow> u8 list) \<Rightarrow> nat \<Rightarrow> boot_sector \<Rightarrow> nat \<Rightarrow> u32 list \<Rightarrow> bool" where
  "volume_ok vol nsect bs fs cs \<longleftrightarrow>
     (let my = volume_of bs fs [] in
      boot_kind (vol 0) = Some (bs, fs) \<and> 0 < nsect \<and>
      512 \<le> unat (sect_size my) \<and> unat (sect_size my) mod 32 = 0 \<and> 0 < unat (clust_size my) \<and> fat_wf nsect my \<and>
      root_ok vol nsect my (nat (rootdir_size_of bs my)) (if fs = 32 then bs_root_cluster bs else 0) cs)"

definition root_find :: "(u32 \<Rightarrow> u8 list) \<Rightarrow> boot_sector \<Rightarrow> nat \<Rightarrow> u32 list \<Rightarrow> cstr \<Rightarrow> u8 list option" where
  "root_find vol bs fs cs name =
     (let my = volume_of bs fs [] in
      chain_lookup (downcase name) False (root_windows vol my (nat (rootdir_size_of bs my)) cs))"

text \<open>The allocator serves every request.\<close>

definition allocates :: "media \<Rightarrow> bool" where
  "allocates md \<longleftrightarrow> (\<forall>n s. \<exists>buf. memalign md n s = Some buf \<and> length buf = n)"

text \<open>The partition has the sector size of the volume, and three sectors and a cluster fit in the
  directory block.\<close>

definition dir_ready :: "fsdata \<Rightarrow> sys \<Rightarrow> bool" where
  "dir_ready my s \<longleftrightarrow>
     part_blksz (cur_part_info s) = ucast (sect_size my) \<and>
     3 * unat (sect_size my) \<le> length (do_fat_read_at_block s) \<and> clust_bytes my \<le> length (do_fat_read_at_block s)"

text \<open>A file name without directories.\<close>

definition root_name :: "cstr \<Rightarrow> bool" where
  "root_name name \<longleftrightarrow> name \<noteq> [] \<and> list_all (\<lambda>c. \<not> ISDIRDELIM c) name \<and> length name < 2048"

lemma dir_ready_kept: "dir_kept t s \<Longrightarrow> dir_ready my t = dir_ready my s"
  using dir_kept_data by (simp add: dir_ready_def)

lemma volume_of_fields [simp]:
  "fatsize (volume_of bs fs buf) = fs" "fatbuf (volume_of bs fs buf) = buf" "fatbufnum (volume_of bs fs buf) = - 1"
  by (simp_all add: volume_of_def Let_def)

lemma volume_of_buf: "volume_of bs fs buf = (volume_of bs fs [])\<lparr>fatbuf := buf, fatbufnum := - 1\<rparr>"
  by (simp add: volume_of_def Let_def)

lemma root_windows_same [simp]:
  "root_windows vol (my\<lparr>fatbuf := b, fatbufnum := k\<rparr>) = root_windows vol my"
  by (simp add: root_windows_def fun_eq_iff)

lemma root_ok_same [simp]:
  "root_ok vol nsect (my\<lparr>fatbuf := b, fatbufnum := k\<rparr>) = root_ok vol nsect my"
  by (simp add: root_ok_def fun_eq_iff)

lemma fresh_cache:
  assumes "fat_wf nsect my" and "length (fatbuf my) = FATBUFSIZE my" and "fatbufnum my = - 1"
  shows "fat_cache_ok vol my"
proof -
  have "unat (fatlength my) \<le> 25769803770"
    using assms(1) by (simp add: fat_wf_def)
  then have "unat (fatlength my) * unat (sect_size my) \<le> 25769803770 * unat (sect_size my)"
    by (rule mult_le_mono1)
  then have "\<not> 25769803770 * unat (sect_size my) + i < unat (fatlength my) * unat (sect_size my)" for i
    by (metis le_add1 le_trans not_less)
  then show ?thesis
    using assms(2,3)
    by (auto simp: fat_cache_ok_def FATBUFSIZE_def FATBUFBLOCKS_def unsigned_minus_1_eq_mask mask_eq_exp_minus_1)
qed

lemma ISDIRDELIM_tolower: "ISDIRDELIM (ctype_tolower c) = ISDIRDELIM c"
proof -
  have "c + 0x20 = 0x2f \<longleftrightarrow> c = 0x0f" "c + 0x20 = 0x5c \<longleftrightarrow> c = 0x3c"
    by (auto simp: eq_diff_eq [symmetric])
  then show ?thesis
    by (auto simp: ISDIRDELIM_def ctype_tolower_def ctype_isupper_def)
qed

lemma dirdelim_none: "dirdelim (downcase name) = None \<longleftrightarrow> list_all (\<lambda>c. \<not> ISDIRDELIM c) name"
proof -
  have "dirdelim_from i (map ctype_tolower name) = None \<longleftrightarrow> list_all (\<lambda>c. \<not> ISDIRDELIM c) name" for i
    by (induction name arbitrary: i) (simp_all add: ISDIRDELIM_tolower)
  then show ?thesis
    by (simp add: dirdelim_def downcase_def)
qed

context fat_directory
begin

lemma root_loop_ok:
  assumes wf: "fat_wf nsect my" and bsz: "bsz = unat (sect_size my)" "512 \<le> bsz" "bsz mod 32 = 0"
    and clust: "0 < unat (clust_size my)" and cache: "fat_cache_ok vol my" and root: "root_ok vol nsect my R rc cs"
    and R: "rs = int R" and name: "name \<noteq> []"
    and s: "ready s" "mounted dev start s" "3 * bsz \<le> length (do_fat_read_at_block s)"
      "clust_bytes my \<le> length (do_fat_read_at_block s)"
  shows "\<exists>my' t. root_loop cfg e md rs name isdir True rc (rootdir_sect my) 0 0 my s
      = Some (chain_lookup name isdir (root_windows vol my R cs), my', t) \<and>
    dir_kept t s \<and> fat_cache_ok vol my' \<and> (\<exists>b k. my' = my\<lparr>fatbuf := b, fatbufnum := k\<rparr>)"
proof (cases "fatsize my = 32")
  case True
  obtain eps where eps: "bsz = 32 * eps"
    using bsz(3) by (auto simp: mod_eq_0_iff_dvd elim: dvdE)
  have r: "cs \<noteq> []" "cs = fat_chain vol my (length cs) rc" "chain_ok vol nsect my cs"
    "CHECK_CLUST (fat_entry vol my (unat (last cs))) 32" "cluster_sect my rc = rootdir_sect my"
    "list_all (\<lambda>W. slots_fit (length W) W) (map (cluster_window vol my) cs)"
    using root True by (simp_all add: root_ok_def root_windows_def)
  obtain c cs' where cs: "cs = c # cs'"
    using r(1) by (cases cs) auto
  have c: "c = rc"
    using r(2) unfolding cs by simp
  have "\<exists>my' t. root_loop cfg e md rs name isdir True c (cluster_sect my c) 0 0 my s
      = Some (chain_lookup name isdir (map (cluster_window vol my) (c # cs')), my', t) \<and>
    dir_kept t s \<and> fat_cache_ok vol my' \<and> (\<exists>b k. my' = my\<lparr>fatbuf := b, fatbufnum := k\<rparr>)"
  proof (rule root_loop_32 [OF wf True bsz(1) eps name cache s(1,2,4) clust])
    show "c # cs' = fat_chain vol my (Suc (length cs')) c"
      using r(2) unfolding cs c by simp
    show "slots_fit (length (cluster_window vol my c')) (cluster_window vol my c')" if "c' \<in> set (c # cs')" for c'
      using r(6) that by (auto simp: cs list_all_iff)
  qed (use r cs in auto)
  then show ?thesis
    using True r(5) by (simp add: root_windows_def cs c)
next
  case False
  obtain eps where eps: "bsz = 32 * eps"
    using bsz(3) by (auto simp: mod_eq_0_iff_dvd elim: dvdE)
  define E where "E = entries_of (sectors vol (rootdir_sect my) R) 0 (R * eps)"
  have sect: "unat (sect_size my) div 32 = eps"
    using bsz(1) eps by simp
  have r: "0 < R" "R < 2 ^ 31" "unat (rootdir_sect my) + Suc R \<le> nsect" "slots_fit (R * eps) E" "rc = 0"
    using root False sect by (simp_all add: root_ok_def root_windows_def E_def)
  have "\<exists>t. root_loop cfg e md (int R) name isdir (0 = 0) 0 (rootdir_sect my + of_nat 0) 0 0 my s
      = Some (dir_answer (dir_lookup name isdir ((R - 0) * eps) (drop (0 * eps) E)), my, t) \<and> dir_kept t s"
    using root_loop_16 [OF False bsz(1) eps _ r(3,2) name E_def r(4) s(1-3) r(1)] bsz(2) eps by simp
  moreover have "chain_lookup name isdir (root_windows vol my R cs) = dir_answer (dir_lookup name isdir (R * eps) E)"
    using False sect by (simp add: root_windows_def E_def dir_answer_def split: dir_result.split)
  ultimately show ?thesis
    using cache volume_self [of my] by (auto simp: R r(5))
qed

lemma read_bootsect_ok:
  assumes s: "ready s" "mounted dev start s" and bsz: "512 \<le> bsz" "unat (bd_blksz dev) = bsz" and nsect: "0 < nsect"
    and alloc: "allocates md"
  shows "\<exists>t. read_bootsectandvi cfg e md s = Some (boot_kind (vol 0), t) \<and> kept t = kept s \<and> ready t \<and> mounted dev start t"
proof -
  obtain buf where buf: "memalign md (unat (bd_blksz dev)) s = Some buf" "length buf = unat (bd_blksz dev)"
    using alloc unfolding allocates_def by blast
  obtain t where t: "disk_read cfg e md 0 1 s = Some (1, vol 0, t)" "kept t = kept s" "ready t" "mounted dev start t"
    using disk_read_ok [OF s, of 0 1] nsect by (auto simp: sectors_1)
  have "store_at buf 0 (vol 0) = Some (vol 0)"
    using buf(2) bsz by (simp add: store_at_def vol_length)
  then show ?thesis
    using buf t s(2) bsz
    by (simp add: read_bootsectandvi_def mounted_def boot_kind_def vol_length Let_def)
qed

lemma do_fat_read_at_root:
  assumes vol: "volume_ok vol nsect bs fs cs"
    and bsz: "bsz = unat (sect_size (volume_of bs fs []))" "unat (bd_blksz dev) = bsz"
    and alloc: "allocates md"
    and s: "ready s" "mounted dev start s" "dir_ready (volume_of bs fs []) s" and name: "root_name name"
  shows "\<exists>my t. do_fat_read_at cfg e md name 0 buf maxsize getsize s =
      (case root_find vol bs fs cs name of
         None \<Rightarrow> Some (- 1, 0, [], t)
       | Some d \<Rightarrow>
           if getsize then Some (0, uint (de_size (dir_entry_of d)), [], t)
           else do {
             (ret, got, bytes, my, t) \<leftarrow> get_contents cfg e md my (dir_entry_of d) 0 buf maxsize t;
             Some (ret, got, bytes, t)
           }) \<and>
    dir_kept t s \<and> fat_cache_ok vol my \<and> (\<exists>b k. my = (volume_of bs fs [])\<lparr>fatbuf := b, fatbufnum := k\<rparr>)"
proof -
  let ?v = "volume_of bs fs []"
  note part = s(3) [unfolded dir_ready_def]
  have v: "boot_kind (vol 0) = Some (bs, fs)" "0 < nsect" "512 \<le> bsz" "bsz mod 32 = 0" "0 < unat (clust_size ?v)"
    "fat_wf nsect ?v" "root_ok vol nsect ?v (nat (rootdir_size_of bs ?v)) (if fs = 32 then bs_root_cluster bs else 0) cs"
    using vol by (simp_all add: volume_ok_def Let_def bsz(1))
  obtain t where t: "read_bootsectandvi cfg e md s = Some (Some (bs, fs), t)" "kept t = kept s" "ready t" "mounted dev start t"
    using read_bootsect_ok [OF s(1,2) v(3) bsz(2) v(2) alloc] v(1) by auto
  have same: "cur_part_info t = cur_part_info s" "do_fat_read_at_block t = do_fat_read_at_block s"
    using t(2) by (simp_all add: kept_defs)
  obtain fb where fb: "memalign md (FATBUFSIZE ?v) t = Some fb" "length fb = FATBUFSIZE ?v"
    using alloc unfolding allocates_def by blast
  define my where "my = ?v\<lparr>fatbuf := fb\<rparr>"
  have my: "my = ?v\<lparr>fatbuf := fb, fatbufnum := - 1\<rparr>"
    by (simp add: my_def volume_of_def Let_def)
  have cache: "fat_cache_ok vol my"
    by (rule fresh_cache [of nsect]) (use v(6) fb in \<open>simp_all add: my FATBUFSIZE_def\<close>)
  have R: "rootdir_size_of bs my = int (nat (rootdir_size_of bs ?v))"
  proof -
    have "sect_size ?v \<noteq> 0"
      using v(3) bsz(1) by auto
    then have "0 < uint (sect_size ?v)"
      by (simp add: word_neq_0_conv word_less_def)
    then have "0 \<le> rootdir_size_of bs ?v"
      by (simp add: rootdir_size_of_def pos_imp_zdiv_nonneg_iff)
    then show ?thesis
      by (simp add: my rootdir_size_of_def)
  qed
  have "\<exists>my' u. root_loop cfg e md (rootdir_size_of bs my) (downcase name) False True (if fs = 32 then bs_root_cluster bs else 0)
      (rootdir_sect my) 0 0 my t
    = Some (chain_lookup (downcase name) False (root_windows vol my (nat (rootdir_size_of bs ?v)) cs), my', u) \<and>
    dir_kept u t \<and> fat_cache_ok vol my' \<and> (\<exists>b k. my' = my\<lparr>fatbuf := b, fatbufnum := k\<rparr>)"
  proof (rule root_loop_ok [OF _ _ v(3,4) _ cache _ R])
    show "root_ok vol nsect my (nat (rootdir_size_of bs ?v)) (if fs = 32 then bs_root_cluster bs else 0) cs"
      using v(7) by (simp only: my root_ok_same)
    show "downcase name \<noteq> []"
      using name by (simp add: root_name_def downcase_def)
  qed (use v t s part same bsz(1) in \<open>simp_all add: my clust_bytes_def\<close>)
  then obtain my' u where u: "root_loop cfg e md (rootdir_size_of bs my) (downcase name) False True (if fs = 32 then bs_root_cluster bs else 0)
      (rootdir_sect my) 0 0 my t = Some (root_find vol bs fs cs name, my', u)" "dir_kept u t" "fat_cache_ok vol my'"
    "\<exists>b k. my' = ?v\<lparr>fatbuf := b, fatbufnum := k\<rparr>"
    by (auto simp: my root_find_def Let_def)
  have plain: "dropWhile ISDIRDELIM name = name" "dirdelim (downcase name) = None" "downcase name \<noteq> []"
    using name dirdelim_none [of name] by (simp_all add: root_name_def downcase_def dropWhile_eq_self_iff list_all_iff)
  have sect: "ucast (sect_size ?v) = part_blksz (cur_part_info t)" "sect_size ?v \<noteq> 0"
    using part same v(3) bsz(1) by auto
  have "do_fat_read_at cfg e md name 0 buf maxsize getsize s =
      (case root_find vol bs fs cs name of
         None \<Rightarrow> Some (- 1, 0, [], u)
       | Some d \<Rightarrow>
           if getsize then Some (0, uint (de_size (dir_entry_of d)), [], u)
           else do {
             (ret, got, bytes, my, t) \<leftarrow> get_contents cfg e md my' (dir_entry_of d) 0 buf maxsize u;
             Some (ret, got, bytes, t)
           })"
    using t(1) sect fb(1) name plain u(1)
    by (cases "root_find vol bs fs cs name") (simp_all add: do_fat_read_at_def my_def root_name_def Let_def)
  then show ?thesis
    using u(2-4) dir_kept_trans [OF u(2) dir_kept_kept [OF t(2)]] by blast
qed

end

section \<open>Files\<close>

context fat_directory
begin

lemma fat_size_ok:
  assumes vol: "volume_ok vol nsect bs fs cs"
    and bsz: "bsz = unat (sect_size (volume_of bs fs []))" "unat (bd_blksz dev) = bsz"
    and alloc: "allocates md"
    and s: "ready s" "mounted dev start s" "dir_ready (volume_of bs fs []) s" and name: "root_name name"
  shows "\<exists>t. fat_size cfg e md name s =
      Some (case root_find vol bs fs cs name of
              None \<Rightarrow> (- 1, 0, t) | Some d \<Rightarrow> (0, uint (de_size (dir_entry_of d)), t)) \<and> dir_kept t s"
proof -
  obtain my t where t: "do_fat_read_at cfg e md name 0 0 0 True s =
      (case root_find vol bs fs cs name of
         None \<Rightarrow> Some (- 1, 0, [], t)
       | Some d \<Rightarrow>
           if True then Some (0, uint (de_size (dir_entry_of d)), [], t)
           else do {
             (ret, got, bytes, my, t) \<leftarrow> get_contents cfg e md my (dir_entry_of d) 0 0 0 t;
             Some (ret, got, bytes, t)
           })" "dir_kept t s"
    using do_fat_read_at_root [OF assms, of 0 0 True] by blast
  show ?thesis
    using t(2) by (intro exI [of _ t]) (simp add: fat_size_def t(1) split: option.split)
qed

lemma file_fat_read_missing:
  assumes vol: "volume_ok vol nsect bs fs cs"
    and bsz: "bsz = unat (sect_size (volume_of bs fs []))" "unat (bd_blksz dev) = bsz"
    and alloc: "allocates md"
    and s: "ready s" "mounted dev start s" "dir_ready (volume_of bs fs []) s" and name: "root_name name"
    and missing: "root_find vol bs fs cs name = None"
  shows "\<exists>t. file_fat_read cfg e md name buf maxsize s = Some (- 1, [], t) \<and> dir_kept t s"
  using do_fat_read_at_root [OF assms(1-8), of buf maxsize False] missing
  by (auto simp: file_fat_read_def file_fat_read_at_def)

lemma file_fat_read_ok:
  assumes vol: "volume_ok vol nsect bs fs cs"
    and bsz: "bsz = unat (sect_size (volume_of bs fs []))" "unat (bd_blksz dev) = bsz"
    and alloc: "allocates md"
    and s: "ready s" "mounted dev start s" "dir_ready (volume_of bs fs []) s" and name: "root_name name"
    and found: "root_find vol bs fs cs name = Some d"
    and n: "n = read_length (dir_entry_of d) maxsize" "n < 2 ^ 31"
    and chain: "chain_ok vol nsect (volume_of bs fs []) (file_chain vol (volume_of bs fs []) (START (volume_of bs fs []) (dir_entry_of d)) n)"
  shows "\<exists>t. file_fat_read cfg e md name buf maxsize s
      = Some (int n, file_bytes vol (volume_of bs fs []) (START (volume_of bs fs []) (dir_entry_of d)) n, t) \<and> dir_kept t s"
proof -
  let ?v = "volume_of bs fs []" and ?d = "dir_entry_of d"
  obtain my t b k where t: "do_fat_read_at cfg e md name 0 buf maxsize False s = do {
        (ret, got, bytes, my, t) \<leftarrow> get_contents cfg e md my ?d 0 buf maxsize t;
        Some (ret, got, bytes, t)
      }" "dir_kept t s" "fat_cache_ok vol my" "my = ?v\<lparr>fatbuf := b, fatbufnum := k\<rparr>"
    using do_fat_read_at_root [OF assms(1-8), of buf maxsize False] found by auto
  have same: "START my ?d = START ?v ?d" "file_chain vol my = file_chain vol ?v" "file_bytes vol my = file_bytes vol ?v"
    by (simp_all add: t(4) START_def file_chain_def file_bytes_def clust_bytes_def fun_eq_iff)
  have v: "fat_wf nsect ?v" "0 < unat (clust_size ?v)"
    using vol by (simp_all add: volume_ok_def Let_def)
  have "\<exists>my' u. get_contents cfg e md my ?d 0 buf maxsize t
      = Some (0, int (read_length ?d maxsize), file_bytes vol my (START my ?d) (read_length ?d maxsize), my', u) \<and> kept u = kept t"
  proof (rule get_contents_ok)
    show "ready t" "mounted dev start t"
      using ready_dir_kept [OF t(2) s(1)] dir_kept_data(6) [OF t(2)] s(2) by simp_all
    show "chain_ok vol nsect my (file_chain vol my (START my ?d) (read_length ?d maxsize))"
      using chain by (simp add: same n(1)) (simp add: t(4))
  qed (use v bsz(1) t(3) n in \<open>simp_all add: t(4)\<close>)
  then obtain my' u where u: "get_contents cfg e md my ?d 0 buf maxsize t
      = Some (0, int n, file_bytes vol ?v (START ?v ?d) n, my', u)" "kept u = kept t"
    by (auto simp: same n(1))
  have "sint (of_int (int n) :: u32) = int n"
    using n(2) by (simp add: sint_uint unsigned_of_nat take_bit_nat_eq_self signed_take_bit_int_eq_self)
  then show ?thesis
    using t(1) u(1) dir_kept_trans [OF dir_kept_kept [OF u(2)] t(2)]
    by (auto simp: file_fat_read_def file_fat_read_at_def)
qed

end

text \<open>The directories of a partition of any medium that answers.\<close>

lemma dev_ready_block: "dev_ready md desc disk (s\<lparr>do_fat_read_at_block := b\<rparr>) = dev_ready md desc disk s"
  by (simp add: dev_ready_def card_there_def stick_there_def selected_def find_mmc_device_def split: if_type.splits)

lemma medium_directory:
  assumes "medium_answers md desc disk bsz" and "unat start + nsect \<le> unat (bd_lba desc)"
  shows "fat_directory cfg e md desc disk (unat (bd_lba desc)) bsz (dev_ready md desc disk) (\<lambda>b. disk (start + b)) start nsect"
  using medium_volume [OF assms] by (simp add: fat_directory_def fat_directory_axioms_def dev_ready_block)

interpretation sd_dir: fat_directory cfg e "image_media bl sd sd_blocks usb usb_blocks" "sd_desc bl sd_blocks"
    "image_block bl sd" "unat (bd_lba (sd_desc bl sd_blocks))" bl
    "dev_ready (image_media bl sd sd_blocks usb usb_blocks) (sd_desc bl sd_blocks) (image_block bl sd)"
    "\<lambda>b. image_block bl sd (min p sd_blocks + b)" "min p sd_blocks" "unat sd_blocks - unat (min p sd_blocks)"
  for cfg e bl sd sd_blocks usb usb_blocks p
  by unfold_locales (simp add: dev_ready_block)

interpretation usb_dir: fat_directory cfg e "image_media bl sd sd_blocks usb usb_blocks" "usb_desc bl usb_blocks"
    "image_block bl usb" "unat (bd_lba (usb_desc bl usb_blocks))" bl
    "dev_ready (image_media bl sd sd_blocks usb usb_blocks) (usb_desc bl usb_blocks) (image_block bl usb)"
    "\<lambda>b. image_block bl usb (min p usb_blocks + b)" "min p usb_blocks" "unat usb_blocks - unat (min p usb_blocks)"
  for cfg e bl sd sd_blocks usb usb_blocks p
  by unfold_locales (simp add: dev_ready_block)

end
