(* ===== verification/Media_Boot.thy ===== *)
theory Media_Boot
  imports Boot_Flow Fat_File
begin

text \<open>
  Booting from a medium, end to end.  A medium is sound (\<open>fat_medium\<close>) when its blocks can be read, its first
  primary partition holds a FAT volume and the root directory of that volume is well formed.  On such a medium
  the partition loop mounts the volume, the reference text and the image it names are loaded, and the boot flow
  jumps to EBOOT with every record of the image in memory and the medium reported in the boot information; this is shown for a
  USB stick and, when no stick is there, for an SD card.
\<close>

section \<open>A medium with a FAT volume\<close>

text \<open>The first partition of the table is a primary one that starts at \<open>start\<close>.\<close>

definition first_partition :: "u8 list \<Rightarrow> u32 \<Rightarrow> bool" where
  "first_partition mbr start \<longleftrightarrow>
     mbr ! DOS_PART_MAGIC_OFFSET = 0x55 \<and> mbr ! (DOS_PART_MAGIC_OFFSET + 1) = 0xaa \<and>
     (let pt = table_entries mbr ! 0 in
      pt_boot_ind pt AND NOT 0x80 = 0 \<and> pt_sys_ind pt \<noteq> 0 \<and> \<not> is_extended (pt_sys_ind pt) \<and> pt_start4 pt = start)"

definition fat_medium ::
  "media \<Rightarrow> block_dev_desc \<Rightarrow> (u32 \<Rightarrow> u8 list) \<Rightarrow> u32 \<Rightarrow> nat \<Rightarrow> boot_sector \<Rightarrow> nat \<Rightarrow> u32 list \<Rightarrow> bool" where
  "fat_medium md desc disk start nsect bs fs cs \<longleftrightarrow>
     medium_answers md desc disk 512 \<and> allocates md \<and> bd_blksz desc = 512 \<and> bd_part_type desc = PART_TYPE_DOS \<and>
     unat start + nsect \<le> unat (bd_lba desc) \<and> first_partition (disk 0) start \<and>
     sub_bytes (disk start) 0x1fe 2 = [0x55, 0xAA] \<and> sect_size (volume_of bs fs []) = 512 \<and>
     volume_ok (\<lambda>b. disk (start + b)) nsect bs fs cs"

lemma boot_kind_mark:
  assumes "boot_kind b = Some (bs, fs)"
  shows "sub_bytes b 0x36 3 = map of_char ''FAT'' \<or> sub_bytes b 0x52 5 = map of_char ''FAT32''"
proof -
  have pre: "sub_bytes b off m = take m (sub_bytes b off n)" if "m \<le> n" for off m n
    using that by (simp add: sub_bytes_def)
  have "sub_bytes b 82 8 = map of_char ''FAT32   '' \<Longrightarrow> sub_bytes b 0x52 5 = map of_char ''FAT32''"
    "sub_bytes b 54 8 = map of_char ''FAT12   '' \<Longrightarrow> sub_bytes b 0x36 3 = map of_char ''FAT''"
    "sub_bytes b 54 8 = map of_char ''FAT16   '' \<Longrightarrow> sub_bytes b 0x36 3 = map of_char ''FAT''"
    using pre [of 5 8 82] pre [of 3 8 54] by simp_all
  then show ?thesis
    using assms by (auto simp: boot_kind_def Let_def split: if_splits)
qed

text \<open>The partition loop of the boot flow mounts that volume.\<close>

definition same_but_mount :: "sys \<Rightarrow> sys \<Rightarrow> bool" where
  "same_but_mount t s \<longleftrightarrow> boot_data t = boot_data s \<and> usb_dev_desc t = usb_dev_desc s \<and>
     mmc_devices t = mmc_devices s \<and> sd_line t = sd_line s \<and> sd_app t = sd_app s \<and>
     length (do_fat_read_at_block t) = length (do_fat_read_at_block s)"

lemma same_but_mount_trans: "same_but_mount u t \<Longrightarrow> same_but_mount t s \<Longrightarrow> same_but_mount u s"
  by (simp add: same_but_mount_def)

lemma same_but_mount_dir_kept: "dir_kept t s \<Longrightarrow> same_but_mount t s"
  using dir_kept_data by (simp add: same_but_mount_def)

lemma same_but_mount_kept: "kept t = kept s \<Longrightarrow> same_but_mount t s"
  by (simp add: same_but_mount_def kept_defs)

lemma dev_ready_same: "same_but_mount t s \<Longrightarrow> dev_ready md desc disk t = dev_ready md desc disk s"
  by (simp add: same_but_mount_def dev_ready_def stick_there_def card_there_def selected_def find_mmc_device_def split: if_type.splits)

lemma register_parts_ok:
  assumes m: "fat_medium md desc disk start nsect bs fs cs" and s: "dev_ready md desc disk s"
  shows "\<exists>t. register_parts cfg e md stop desc [1, 2, 3] 0 s = Some (0, t) \<and> same_but_mount t s \<and>
    mounted desc start t \<and> part_blksz (cur_part_info t) = 512"
proof -
  have a: "medium_answers md desc disk 512" "bd_blksz desc = 512" "bd_part_type desc = PART_TYPE_DOS"
    "unat start + nsect \<le> unat (bd_lba desc)" "first_partition (disk 0) start"
    "sub_bytes (disk start) 0x1fe 2 = [0x55, 0xAA]" "boot_kind (disk start) = Some (bs, fs)" "0 < nsect"
    using m by (simp_all add: fat_medium_def volume_ok_def Let_def)
  note read = readable_disk.read_ok [OF medium_readable [OF a(1)]]
  let ?s0 = "s\<lparr>cur_dev := None\<rparr>"
  have len: "length (disk b) = 512" for b
    using a(1) by (simp add: medium_answers_def)
  have ready0: "dev_ready md desc disk ?s0"
    using s dev_ready_same [of ?s0 s] by (simp add: same_but_mount_def boot_data_def)
  obtain t where t: "block_read cfg e md desc 0 1 ?s0 = Some (1, disk 0, t)" "kept t = kept ?s0"
    using read [OF ready0, of 0 1] a(4,8) by (auto simp: sectors_1)
  define info where "info = \<lparr>part_start = start, part_size = pt_size4 (table_entries (disk 0) ! 0),
    part_blksz = DOS_PART_DEFAULT_SECTOR\<rparr>"
  have entries: "dos_entries 0 1 1 (table_entries (disk 0)) = Inl info"
  proof -
    have "table_entries (disk 0) = table_entries (disk 0) ! 0 # tl (table_entries (disk 0))"
      by (simp add: table_entries_def upt_rec)
    then have "dos_entries 0 1 1 (table_entries (disk 0)) = dos_entries 0 1 1 (table_entries (disk 0) ! 0 # tl (table_entries (disk 0)))"
      by (rule arg_cong)
    also have "\<dots> = Inl info"
      using a(5) by (simp add: first_partition_def info_def Let_def)
    finally show ?thesis .
  qed
  have part: "get_partition_info cfg e md desc 1 ?s0 = Some (Some info, t)"
    using a(2,3,5) t(1) len entries
    by (simp add: get_partition_info_def get_partition_info_extended.simps read_block_def first_partition_def Let_def)
  let ?s1 = "t\<lparr>cur_dev := Some desc, cur_part_info := info\<rparr>"
  have ready1: "dev_ready md desc disk ?s1"
    using s t(2) dev_ready_same [of ?s1 s] by (simp add: same_but_mount_def kept_defs)
  obtain u where u: "block_read cfg e md desc start 1 ?s1 = Some (1, disk start, u)" "kept u = kept ?s1"
    using read [OF ready1, of start 1] a(4,8) by (auto simp: sectors_1)
  have "fat_register_device cfg e md desc 1 s = Some (0, u)"
    using part u(1) a(2,6) len boot_kind_mark [OF a(7)]
    by (auto simp: fat_register_device_def fat_set_blk_dev_def disk_read_def info_def)
  moreover have "same_but_mount u s" "mounted desc start u" "part_blksz (cur_part_info u) = 512"
    using t(2) u(2)
    by (simp_all add: same_but_mount_def mounted_def kept_defs info_def DOS_PART_DEFAULT_SECTOR_def)
  ultimately show ?thesis
    by (simp add: register_parts.simps)
qed

section \<open>Files of the medium\<close>

definition file_on ::
  "(u32 \<Rightarrow> u8 list) \<Rightarrow> nat \<Rightarrow> boot_sector \<Rightarrow> nat \<Rightarrow> u32 list \<Rightarrow> cstr \<Rightarrow> u8 list \<Rightarrow> bool" where
  "file_on vol nsect bs fs cs name content \<longleftrightarrow>
     root_name name \<and>
     (case root_find vol bs fs cs name of
        None \<Rightarrow> False
      | Some d \<Rightarrow>
          let my = volume_of bs fs []; dent = dir_entry_of d; n = unat (de_size dent) in
          chain_ok vol nsect my (file_chain vol my (START my dent) n) \<and>
          file_bytes vol my (START my dent) n = content \<and> length content = n)"

text \<open>Room for the directory block, as the static array has it.\<close>

definition dir_room :: "fsdata \<Rightarrow> sys \<Rightarrow> bool" where
  "dir_room my s \<longleftrightarrow>
     3 * unat (sect_size my) \<le> length (do_fat_read_at_block s) \<and> clust_bytes my \<le> length (do_fat_read_at_block s)"

lemma dir_room_same: "same_but_mount t s \<Longrightarrow> dir_room my t = dir_room my s"
  by (simp add: same_but_mount_def dir_room_def)

lemma dir_ready_room:
  assumes "fat_medium md desc disk start nsect bs fs cs" "part_blksz (cur_part_info s) = 512" "dir_room (volume_of bs fs []) s"
  shows "dir_ready (volume_of bs fs []) s"
  using assms by (simp add: dir_ready_def dir_room_def fat_medium_def)

lemma mounted_file:
  assumes m: "fat_medium md desc disk start nsect bs fs cs" and s: "dev_ready md desc disk s" "mounted desc start s"
    "part_blksz (cur_part_info s) = 512" "dir_room (volume_of bs fs []) s"
    and f: "file_on (\<lambda>b. disk (start + b)) nsect bs fs cs name content"
  shows "\<exists>t. fat_size cfg e md name s = Some (0, int (length content), t) \<and> dir_kept t s"
    and "length content < 2 ^ 31 \<Longrightarrow> int (length content) \<le> maxsize \<Longrightarrow>
      \<exists>t. file_fat_read cfg e md name buf maxsize s = Some (int (length content), content, t) \<and> dir_kept t s"
proof -
  let ?vol = "\<lambda>b. disk (start + b)" and ?my = "volume_of bs fs []"
  have a: "medium_answers md desc disk 512" "allocates md" "unat (bd_blksz desc) = 512"
    "unat start + nsect \<le> unat (bd_lba desc)" "512 = unat (sect_size ?my)" "volume_ok ?vol nsect bs fs cs"
    using m by (simp_all add: fat_medium_def)
  note dir = medium_directory [OF a(1,4)]
  have ready: "dir_ready ?my s"
    by (rule dir_ready_room [OF m s(3,4)])
  obtain d where d: "root_find ?vol bs fs cs name = Some d" "root_name name"
    "chain_ok ?vol nsect ?my (file_chain ?vol ?my (START ?my (dir_entry_of d)) (unat (de_size (dir_entry_of d))))"
    "file_bytes ?vol ?my (START ?my (dir_entry_of d)) (unat (de_size (dir_entry_of d))) = content"
    "length content = unat (de_size (dir_entry_of d))"
    using f by (auto simp: file_on_def Let_def split: option.splits)
  show "\<exists>t. fat_size cfg e md name s = Some (0, int (length content), t) \<and> dir_kept t s"
    using fat_directory.fat_size_ok [OF dir a(6,5,3,2) s(1,2) ready d(2), of cfg e] d(1,5) by simp
  show "\<exists>t. file_fat_read cfg e md name buf maxsize s = Some (int (length content), content, t) \<and> dir_kept t s"
    if small: "length content < 2 ^ 31" and fits: "int (length content) \<le> maxsize"
  proof -
    have n: "length content = read_length (dir_entry_of d) maxsize"
      using fits d(5) by (simp add: read_length_def)
    show ?thesis
      using fat_directory.file_fat_read_ok [OF dir a(6,5,3,2) s(1,2) ready d(2,1) n small, of cfg e buf] d(3-5) by simp
  qed
qed

section \<open>Loading from the medium\<close>

lemma same_leds [simp]:
  "same_but_mount (setup_led cfg s) s" "same_but_mount (TimerInit e n s) s" "same_but_mount (BlinkAllLEDs cfg on s) s"
  "same_but_mount (search_leds cfg a b s) s" "same_but_mount (s\<lparr>ledEnable := x\<rparr>) s" "same_but_mount s s"
  by (simp_all add: same_but_mount_def boot_data_def setup_led_def TimerInit_def BlinkAllLEDs_def search_leds_def Let_def)

lemma strtoul_0: "simple_strtoul ''0'' 16 = (0, [])"
  by (simp add: simple_strtoul_def Let_def)

lemma fsload_file:
  assumes m: "fat_medium md desc disk start nsect bs fs cs" and dev: "get_dev cfg e md devname 0 s = Some (Some desc, s1)"
    and s: "dev_ready md desc disk s1" "dir_room (volume_of bs fs []) s1"
    and f: "file_on (\<lambda>b. disk (start + b)) nsect bs fs cs name content" "length content \<le> 2 ^ 28"
  shows "\<exists>t. osBoot_fat_fsload cfg e md devname ''0'' Offset name s = Some (0, of_nat (length content), content, t) \<and>
    same_but_mount t s1"
proof -
  obtain t where t: "register_parts cfg e md True desc [1, 2, 3] 0 s1 = Some (0, t)" "same_but_mount t s1"
    "mounted desc start t" "part_blksz (cur_part_info t) = 512"
    using register_parts_ok [OF m s(1), of cfg e True] by auto
  note ts = t(2)
  have "length content < 2 ^ 31" "int (length content) \<le> uint READ_FILE_MAX_SIZE"
    using f(2) by (simp_all add: READ_FILE_MAX_SIZE_def)
  then obtain u where u: "file_fat_read cfg e md name Offset (uint READ_FILE_MAX_SIZE) t = Some (int (length content), content, u)"
    "dir_kept u t"
    using mounted_file(2) [OF m _ t(3,4) _ f(1)] s dev_ready_same [OF ts] dir_room_same [OF ts] by blast
  have "(of_nat (length content) :: u32) \<noteq> - 1"
  proof
    assume "(of_nat (length content) :: u32) = - 1"
    then have "unat (of_nat (length content) :: u32) = 2 ^ 32 - 1"
      by (simp add: unsigned_minus_1_eq_mask mask_eq_exp_minus_1)
    then show False
      using f(2) by (simp add: unat_of_nat take_bit_nat_eq_self)
  qed
  then show ?thesis
    using dev t(1) u(1) same_but_mount_trans [OF same_but_mount_dir_kept [OF u(2)] ts]
    by (simp add: osBoot_fat_fsload_def strtoul_0)
qed

lemma fsload_missing:
  assumes m: "fat_medium md desc disk start nsect bs fs cs" and dev: "get_dev cfg e md devname 0 s = Some (Some desc, s1)"
    and s: "dev_ready md desc disk s1" "dir_room (volume_of bs fs []) s1"
    and f: "root_name name" "root_find (\<lambda>b. disk (start + b)) bs fs cs name = None"
  shows "\<exists>t. osBoot_fat_fsload cfg e md devname ''0'' Offset name s = Some (3, 0, [], t) \<and> same_but_mount t s1"
proof -
  let ?my = "volume_of bs fs []"
  obtain t where t: "register_parts cfg e md True desc [1, 2, 3] 0 s1 = Some (0, t)" "same_but_mount t s1"
    "mounted desc start t" "part_blksz (cur_part_info t) = 512"
    using register_parts_ok [OF m s(1), of cfg e True] by auto
  note ts = t(2)
  have a: "medium_answers md desc disk 512" "allocates md" "unat (bd_blksz desc) = 512"
    "unat start + nsect \<le> unat (bd_lba desc)" "512 = unat (sect_size ?my)" "volume_ok (\<lambda>b. disk (start + b)) nsect bs fs cs"
    using m by (simp_all add: fat_medium_def)
  have "dev_ready md desc disk t" "dir_ready ?my t"
    using s t(4) dev_ready_same [OF ts] dir_room_same [OF ts] dir_ready_room [OF m] by simp_all
  then obtain u where u: "file_fat_read cfg e md name Offset (uint READ_FILE_MAX_SIZE) t = Some (- 1, [], u)" "dir_kept u t"
    using fat_directory.file_fat_read_missing [OF medium_directory [OF a(1,4)] a(6,5,3,2) _ t(3) _ f] by blast
  then show ?thesis
    using dev t(1) same_but_mount_trans [OF same_but_mount_dir_kept [OF u(2)] ts]
    by (simp add: osBoot_fat_fsload_def strtoul_0)
qed

text \<open>An image of records on the medium, loaded.\<close>

lemma fsload_bin_image:
  assumes m: "fat_medium md desc disk start nsect bs fs cs" and dev: "get_dev cfg e md devname 0 s = Some (Some desc, s1)"
    and s: "dev_ready md desc disk s1" "dir_room (volume_of bs fs []) s1"
    and f: "file_on (\<lambda>b. disk (start + b)) nsect bs fs cs name (encode_nk st len rs launch)"
      "length (encode_nk st len rs launch) \<le> unat READ_FILE_MAX_SIZE_120"
    and image: "len \<le> IMAGE_BOOT_NKIMAGE_NOR_SIZE" "records_ok False rs" "sums_ok rs"
  shows "\<exists>t. osBoot_fat_fsload_bin cfg e md devname ''0'' IMAGE_BOOT_NKIMAGE_RAM_PA_STORE_START name s = Some (0, Some len, t) \<and>
    mem t = snd (load_spec cfg False rs (put_bytes IMAGE_BOOT_NKIMAGE_RAM_PA_STORE_START (encode_nk st len rs launch) (mem s1)))"
proof -
  let ?img = "encode_nk st len rs launch" and ?S = IMAGE_BOOT_NKIMAGE_RAM_PA_STORE_START
  obtain t where t: "register_parts cfg e md False desc [1, 2, 3] 0 s1 = Some (0, t)" "same_but_mount t s1"
    "mounted desc start t" "part_blksz (cur_part_info t) = 512"
    using register_parts_ok [OF m s(1), of cfg e False] by auto
  define t1 where "t1 = TimerInit e 100 (setup_led cfg t)"
  have t1: "same_but_mount t1 s1" "mounted desc start t1" "part_blksz (cur_part_info t1) = 512"
    using same_but_mount_trans [OF same_leds(2) same_but_mount_trans [OF same_leds(1) t(2)]] t(3,4)
    by (simp_all add: t1_def mounted_def TimerInit_def setup_led_def)
  have room: "dev_ready md desc disk t1" "dir_room (volume_of bs fs []) t1"
    using s dev_ready_same [OF t1(1)] dir_room_same [OF t1(1)] by simp_all
  obtain u where u: "fat_size cfg e md name t1 = Some (0, int (length ?img), u)" "dir_kept u t1"
    using mounted_file(1) [OF m room(1) t1(2,3) room(2) f(1)] by blast
  have us: "same_but_mount u s1"
    by (rule same_but_mount_trans [OF same_but_mount_dir_kept [OF u(2)] t1(1)])
  have len: "length ?img < 2 ^ 31" "int (length ?img) \<le> uint READ_FILE_MAX_SIZE_120"
    using f(2) by (simp_all add: READ_FILE_MAX_SIZE_120_def)
  have "dev_ready md desc disk u" "mounted desc start u" "part_blksz (cur_part_info u) = 512" "dir_room (volume_of bs fs []) u"
    using s dev_ready_same [OF us] dir_room_same [OF us] t1(2,3) dir_kept_data [OF u(2)] by simp_all
  from mounted_file(2) [OF m this f(1) len] obtain v where
    v: "file_fat_read cfg e md name ?S (uint READ_FILE_MAX_SIZE_120) u = Some (int (length ?img), ?img, v)" "dir_kept v u"
    by blast
  have vs: "same_but_mount v s1"
    by (rule same_but_mount_trans [OF same_but_mount_dir_kept [OF v(2)] us])
  define w where "w = BlinkAllLEDs cfg 0 (v\<lparr>mem := put_bytes ?S ?img (mem v)\<rparr>)"
  have w: "mem w = put_bytes ?S ?img (mem s1)"
    using vs by (simp add: w_def same_but_mount_def boot_data_def)
  have "get_bytes (mem w) ?S (length ?img) = ?img"
    using len(1) by (simp add: w get_put_bytes)
  from nk_load_spec [OF this f(2) image(1,2), where cfg = cfg]
  obtain x where x: "nk_load cfg w = Some (0, len, x)" "mem x = snd (load_spec cfg False rs (mem w))"
    using image(3) by (auto simp: load_spec_ok)
  have "osBoot_fat_fsload_bin cfg e md devname ''0'' ?S name s = Some (0, Some len, BlinkAllLEDs cfg 0 x)"
    using dev t(1) u(1) v(1) x(1) len
    by (simp add: osBoot_fat_fsload_bin_def strtoul_0 t1_def [symmetric] w_def [symmetric] Let_def)
  then show ?thesis
    using x(2) by (simp add: w)
qed

section \<open>Booting from the medium\<close>

text \<open>The reference text and the image it names.\<close>

definition boot_files ::
  "(u32 \<Rightarrow> u8 list) \<Rightarrow> nat \<Rightarrow> boot_sector \<Rightarrow> nat \<Rightarrow> u32 list \<Rightarrow> u8 list \<Rightarrow> u32 \<Rightarrow> u32 \<Rightarrow> nk_record list \<Rightarrow> u32 \<Rightarrow> bool" where
  "boot_files vol nsect bs fs cs inst st len rs launch \<longleftrightarrow>
     file_on vol nsect bs fs cs INST_TEXT_FILENAME inst \<and>
     (length inst < 128 \<or> length inst = 128 \<and> list_ex line_end inst) \<and>
     file_on vol nsect bs fs cs (takeWhile (\<lambda>b. \<not> line_end b) inst) (encode_nk st len rs launch) \<and>
     length (encode_nk st len rs launch) \<le> unat READ_FILE_MAX_SIZE_120 \<and> len \<le> IMAGE_BOOT_NKIMAGE_NOR_SIZE \<and>
     records_ok False rs \<and> sums_ok rs \<and> disjoint_records rs"

text \<open>The device behind a name: the first lookup makes it ready, later ones find it as it is.\<close>

definition dev_at :: "bsp_config \<Rightarrow> env \<Rightarrow> media \<Rightarrow> string \<Rightarrow> block_dev_desc \<Rightarrow> (u32 \<Rightarrow> u8 list) \<Rightarrow> sys \<Rightarrow> bool" where
  "dev_at cfg e md devname desc disk s \<longleftrightarrow>
     (\<exists>u. get_dev cfg e md devname 0 s = Some (Some desc, u) \<and> slot_kept u = slot_kept s \<and> dev_ready md desc disk u \<and>
        (\<forall>t. same_but_mount t u \<longrightarrow> get_dev cfg e md devname 0 t = Some (Some desc, t)))"

lemma dev_at_usb:
  assumes "usb_dev_desc s = desc # ds" and "bd_dev desc = 0" "bd_if_type desc = IF_TYPE_USB"
  shows "dev_at cfg e md STORAGE_DEV_NAME_USB desc disk s"
  using assms
  by (auto simp: dev_at_def get_dev_def STORAGE_DEV_NAME_USB_def usb_stor_get_dev_def same_but_mount_def dev_ready_def stick_there_def)

lemma dir_room_slot: "slot_kept t = slot_kept s \<Longrightarrow> dir_room my t = dir_room my s"
  by (simp add: slot_kept_def dir_room_def)

lemma line_end_padding:
  assumes "length inst < 128 \<or> length inst = 128 \<and> list_ex line_end inst"
  shows "store_local (replicate 128 0) inst = Some (inst @ replicate (128 - length inst) 0)"
    and "string_of_array (clean_name (inst @ replicate (128 - length inst) 0)) = Some (takeWhile (\<lambda>b. \<not> line_end b) inst)"
proof -
  have "takeWhile (\<lambda>b. \<not> line_end b) (inst @ replicate n 0) = takeWhile (\<lambda>b. \<not> line_end b) inst" for n
    by (induction inst) (cases n, simp_all add: line_end_def)
  moreover have "list_ex line_end (inst @ replicate (128 - length inst) 0)"
    using assms by (auto simp: list_ex_iff line_end_def)
  ultimately show "string_of_array (clean_name (inst @ replicate (128 - length inst) 0)) = Some (takeWhile (\<lambda>b. \<not> line_end b) inst)"
    by (simp add: clean_name_string)
  show "store_local (replicate 128 0) inst = Some (inst @ replicate (128 - length inst) 0)"
    using assms by (auto simp: store_local_def)
qed

lemma medium_search:
  assumes m: "fat_medium md desc disk start nsect bs fs cs" and dev: "dev_at cfg e md devname desc disk s"
    and room: "dir_room (volume_of bs fs []) s"
    and f: "boot_files (\<lambda>b. disk (start + b)) nsect bs fs cs inst st len rs launch" and v: "FileName v = replicate 128 0"
  shows "\<exists>n bytes t u buf. osBoot_fat_fsload cfg e md devname ''0'' fn INST_TEXT_FILENAME s = Some (0, n, bytes, t) \<and>
    store_local (FileName v) bytes = Some buf \<and>
    load_named_image cfg e md devname ''0'' (v\<lparr>FileName := buf\<rparr>) t
      = Some (0, v\<lparr>FileName := clean_name buf, FileSize := len\<rparr>, u) \<and>
    mem u = snd (load_spec cfg False rs (put_bytes IMAGE_BOOT_NKIMAGE_RAM_PA_STORE_START (encode_nk st len rs launch) (mem s)))"
proof -
  let ?vol = "\<lambda>b. disk (start + b)" and ?name = "takeWhile (\<lambda>b. \<not> line_end b) inst"
  have files: "file_on ?vol nsect bs fs cs INST_TEXT_FILENAME inst" "length inst < 128 \<or> length inst = 128 \<and> list_ex line_end inst"
    "file_on ?vol nsect bs fs cs ?name (encode_nk st len rs launch)"
    "length (encode_nk st len rs launch) \<le> unat READ_FILE_MAX_SIZE_120" "len \<le> IMAGE_BOOT_NKIMAGE_NOR_SIZE"
    "records_ok False rs" "sums_ok rs"
    using f by (simp_all add: boot_files_def)
  obtain s1 where s1: "get_dev cfg e md devname 0 s = Some (Some desc, s1)" "slot_kept s1 = slot_kept s" "dev_ready md desc disk s1"
    and again: "\<And>t. same_but_mount t s1 \<Longrightarrow> get_dev cfg e md devname 0 t = Some (Some desc, t)"
    using dev unfolding dev_at_def by blast
  have room1: "dir_room (volume_of bs fs []) s1"
    using room dir_room_slot [OF s1(2)] by blast
  obtain t where t: "osBoot_fat_fsload cfg e md devname ''0'' fn INST_TEXT_FILENAME s = Some (0, of_nat (length inst), inst, t)"
    "same_but_mount t s1"
    using fsload_file [OF m s1(1,3) room1 files(1), of fn] files(2) by auto
  note pad = line_end_padding [OF files(2)]
  let ?t = "t\<lparr>ledEnable := 1\<rparr>"
  have ts: "same_but_mount ?t s1"
    by (rule same_but_mount_trans [OF same_leds(5) t(2)])
  have ready: "dev_ready md desc disk ?t" "dir_room (volume_of bs fs []) ?t"
    using s1(3) room1 dev_ready_same [OF ts] dir_room_same [OF ts] by simp_all
  obtain u where u: "osBoot_fat_fsload_bin cfg e md devname ''0'' IMAGE_BOOT_NKIMAGE_RAM_PA_STORE_START ?name ?t = Some (0, Some len, u)"
    "mem u = snd (load_spec cfg False rs (put_bytes IMAGE_BOOT_NKIMAGE_RAM_PA_STORE_START (encode_nk st len rs launch) (mem ?t)))"
    using fsload_bin_image [OF m again [OF ts] ready files(3-7)] by blast
  have "mem ?t = mem s"
    using t(2) s1(2) by (simp add: same_but_mount_def slot_kept_def boot_data_def)
  then show ?thesis
    using t(1) pad u v by (simp add: load_named_image_def)
qed

lemma records_ok_bound:
  assumes "records_ok init rs" "(addr, bs, ck) \<in> set rs"
  shows "unat (addr - 0x70000000) + length bs \<le> unat IMAGE_BOOT_NKIMAGE_RAM_PA_STORE_START"
  using assms by (induction rs arbitrary: init) (auto simp: record_ok_def)

text \<open>Records that lie above the argument area and EBOOT stay in memory.\<close>

definition records_above :: "nk_record list \<Rightarrow> bool" where
  "records_above rs \<longleftrightarrow>
     list_all (\<lambda>(addr, bs, ck). unat IMAGE_BOOT_NKIMAGE_RAM_PA_START \<le> unat (addr - 0x70000000)) rs"

lemma record_above_kept:
  assumes "unat IMAGE_BOOT_NKIMAGE_RAM_PA_START \<le> unat p" and "unat p + n \<le> 2 ^ 32"
    and same: "\<And>a. \<not> in_boot_info cfg a \<Longrightarrow> \<not> in_region IMAGE_EBOOT_RAM_BASE_ADDR IMAGE_BOOT_EBOOTIMAGE_NOR_SIZE a \<Longrightarrow> m a = m' a"
  shows "get_bytes m p n = get_bytes m' p n"
proof (rule nth_equalityI)
  fix i
  assume "i < length (get_bytes m p n)"
  then have i: "i < n"
    by simp
  let ?a = "p + of_nat i"
  have "unat (of_nat i :: u32) = i"
    using i assms(2) by (simp add: unat_of_nat take_bit_nat_eq_self)
  then have a: "unat IMAGE_BOOT_NKIMAGE_RAM_PA_START \<le> unat ?a"
    using assms(1,2) i by (simp add: unat_add_small)
  have "\<not> in_boot_info cfg ?a"
    using a region_bounds(2) [of ?a "pBoootInfo cfg" "sizeof_BSP_BOOT_INFO cfg"]
    by (auto simp: in_boot_info_def pBoootInfo_def sizeof_BSP_BOOT_INFO_cases layout_defs split: if_splits)
  moreover have "\<not> in_region IMAGE_EBOOT_RAM_BASE_ADDR IMAGE_BOOT_EBOOTIMAGE_NOR_SIZE ?a"
    using a region_bounds(2) [of ?a IMAGE_EBOOT_RAM_BASE_ADDR "unat IMAGE_BOOT_EBOOTIMAGE_NOR_SIZE"]
    by (auto simp: in_region_def word_less_nat_alt layout_defs)
  ultimately show "get_bytes m p n ! i = get_bytes m' p n ! i"
    using same i by simp
qed simp

text \<open>The stick is found after the scan of the bus, or only a card is there.\<close>

lemma search_usb_image:
  assumes m: "fat_medium md desc disk start nsect bs fs cs" and usb: "go_usb_start md s = Some s0" "usb_dev_desc s0 = desc # ds" "bd_dev desc = 0"
      "bd_if_type desc = IF_TYPE_USB"
    and quiet: "quiet_media md" and room: "dir_room (volume_of bs fs []) s"
    and f: "boot_files (\<lambda>b. disk (start + b)) nsect bs fs cs inst st len rs launch" and v: "FileName v = replicate 128 0"
  shows "\<exists>buf u. search_usb cfg e md fn v s = Some (v\<lparr>FileName := buf, FileSize := len, bootMedia := BOOT_STORAGE_USB\<rparr>, u) \<and>
    mem u = snd (load_spec cfg False rs (put_bytes IMAGE_BOOT_NKIMAGE_RAM_PA_STORE_START (encode_nk st len rs launch) (mem s)))"
proof -
  have same: "do_fat_read_at_block s0 = do_fat_read_at_block s" "mem s0 = mem s"
    using quiet_media.go_usb_start_scan_kept [OF quiet usb(1)] by (simp_all add: scan_kept_def boot_data_def)
  have "dir_room (volume_of bs fs []) s0"
    using room by (simp add: dir_room_def same)
  from medium_search [OF m dev_at_usb [OF usb(2-4)] this f v, of cfg e fn]
  obtain n bytes t u buf where "osBoot_fat_fsload cfg e md STORAGE_DEV_NAME_USB ''0'' fn INST_TEXT_FILENAME s0 = Some (0, n, bytes, t)"
    "store_local (FileName v) bytes = Some buf"
    "load_named_image cfg e md STORAGE_DEV_NAME_USB ''0'' (v\<lparr>FileName := buf\<rparr>) t
      = Some (0, v\<lparr>FileName := clean_name buf, FileSize := len\<rparr>, u)"
    "mem u = snd (load_spec cfg False rs (put_bytes IMAGE_BOOT_NKIMAGE_RAM_PA_STORE_START (encode_nk st len rs launch) (mem s)))"
    by (auto simp: same)
  then show ?thesis
    by (auto simp: search_usb_def usb(1) STORAGE_DEV_NUM_USB_def Let_def)
qed

lemma search_sd_image:
  assumes m: "fat_medium md desc disk start nsect bs fs cs" and dev: "dev_at cfg e md STORAGE_DEV_NAME_MMC desc disk s"
    and s: "dir_room (volume_of bs fs []) s"
    and f: "boot_files (\<lambda>b. disk (start + b)) nsect bs fs cs inst st len rs launch" and v: "FileName v = replicate 128 0"
  shows "\<exists>buf u. search_sd cfg e md fn v s = Some (v\<lparr>FileName := buf, FileSize := len, bootMedia := BOOT_STORAGE_SD\<rparr>, u) \<and>
    mem u = snd (load_spec cfg False rs (put_bytes IMAGE_BOOT_NKIMAGE_RAM_PA_STORE_START (encode_nk st len rs launch) (mem s)))"
proof -
  from medium_search [OF m dev s f, of "v\<lparr>bootMedia := BOOT_STORAGE_SD\<rparr>" fn] v
  obtain n bytes t u buf where "osBoot_fat_fsload cfg e md STORAGE_DEV_NAME_MMC ''0'' fn INST_TEXT_FILENAME s = Some (0, n, bytes, t)"
    "store_local (FileName v) bytes = Some buf"
    "load_named_image cfg e md STORAGE_DEV_NAME_MMC ''0'' (v\<lparr>bootMedia := BOOT_STORAGE_SD, FileName := buf\<rparr>) t
      = Some (0, v\<lparr>bootMedia := BOOT_STORAGE_SD, FileName := clean_name buf, FileSize := len\<rparr>, u)"
    "mem u = snd (load_spec cfg False rs (put_bytes IMAGE_BOOT_NKIMAGE_RAM_PA_STORE_START (encode_nk st len rs launch) (mem s)))"
    by auto
  then show ?thesis
    by (auto simp: search_sd_def STORAGE_DEV_NUM_MMC_def Let_def)
qed

lemma loaded_records:
  assumes "sums_ok rs" "disjoint_records rs" "records_ok False rs" "records_above rs"
    and mem: "mem u = snd (load_spec cfg False rs m)"
    and same: "\<And>a. \<not> in_boot_info cfg a \<Longrightarrow> \<not> in_region IMAGE_EBOOT_RAM_BASE_ADDR IMAGE_BOOT_EBOOTIMAGE_NOR_SIZE a \<Longrightarrow> m' a = mem u a"
  shows "\<forall>(addr, bs, ck) \<in> set rs. get_bytes m' (addr - 0x70000000) (length bs) = bs"
proof clarify
  fix addr bs ck
  assume r: "(addr, bs, ck) \<in> set rs"
  have len: "unat (addr - 0x70000000) + length bs \<le> unat IMAGE_BOOT_NKIMAGE_RAM_PA_STORE_START"
    using records_ok_bound [OF assms(3) r] .
  have "get_bytes m' (addr - 0x70000000) (length bs) = get_bytes (mem u) (addr - 0x70000000) (length bs)"
    by (rule record_above_kept) (use r assms(4) len same in \<open>auto simp: records_above_def list_all_iff layout_defs\<close>)
  then show "get_bytes m' (addr - 0x70000000) (length bs) = bs"
    using load_spec_records [OF assms(1,2) r, of cfg False m] len by (simp add: mem layout_defs)
qed

lemma Mode_1245_run:
  assumes "search_usb cfg e md fn (first_locals stack) (TimerInit e 250 (search_leds cfg 1 0 s)) = Some (v, s1)"
    and "(if errCode v = ERROR_PP_BL_NO_ERROR \<and> bootMedia v = 0
          then search_sd cfg e md fn v (search_leds cfg 0 1 s1) else Some (v, search_leds cfg 0 1 s1)) = Some (w, u)"
    and "mode \<in> {1, 2, 4, 5}"
  shows "osBoot_Mode_1245 cfg e md fn stack mode s
    = Some (0, (search_leds cfg 0 0 u)\<lparr>mem := report_1245 cfg (boot_dev s) mode w u\<rparr>)"
  unfolding osBoot_Mode_1245_def Let_def mode_1245 [OF assms(3)] first_locals_def [symmetric] assms(1)
  using assms(2) by (simp add: report_1245_def get_boot_device_def split: if_splits)

text \<open>The end of the flow once the image of records is in memory.\<close>

definition image_booted :: "bsp_config \<Rightarrow> u32 \<Rightarrow> u32 \<Rightarrow> u32 \<Rightarrow> nk_record list \<Rightarrow> memory \<Rightarrow> bool" where
  "image_booted cfg mode medium len rs m \<longleftrightarrow>
     bi_bootMode (boot_info_of cfg m) = mode \<and> bi_errorCode (boot_info_of cfg m) = ERROR_PP_BL_NO_ERROR \<and>
     bi_strage (boot_info_of cfg m) = medium \<and> bi_osImageSize (boot_info_of cfg m) = len \<and>
     list_all (\<lambda>(addr, bs, ck). get_bytes m (addr - 0x70000000) (length bs) = bs) rs"

lemma submain_image:
  assumes mode: "bootMode s \<in> {1, 2, 4, 5}" and cleanup: "\<And>s. mem (cleanup s) = mem s"
    and run: "osBoot_Mode_1245 cfg e md fn stack (bootMode s) s
      = Some (0, (search_leds cfg 0 0 u)\<lparr>mem := report_1245 cfg (boot_dev s) (bootMode s) w u\<rparr>)"
    and w: "errCode w = ERROR_PP_BL_NO_ERROR" "bootMedia w = medium" "FileSize w = len"
    and rs: "sums_ok rs" "disjoint_records rs" "records_ok False rs" "records_above rs"
    and mem: "mem u = snd (load_spec cfg False rs m)"
  shows "\<exists>t. os_boot_submain cfg e md cleanup fn stack s = Some (Jumped IMAGE_EBOOT_JUMP_ADDR, t) \<and>
    image_booted cfg (bootMode s) medium len rs (mem t)"
proof -
  obtain t where t: "os_boot_submain cfg e md cleanup fn stack s = Some (Jumped IMAGE_EBOOT_JUMP_ADDR, t)"
    "boot_info_of cfg (mem t) = boot_info_of cfg (report_1245 cfg (boot_dev s) (bootMode s) w u)"
    "\<forall>a. \<not> in_region IMAGE_EBOOT_RAM_BASE_ADDR IMAGE_BOOT_EBOOTIMAGE_NOR_SIZE a \<longrightarrow>
      mem t a = report_1245 cfg (boot_dev s) (bootMode s) w u a"
    using os_boot_submain_1245 [OF mode run cleanup] by auto
  have "\<forall>(addr, bs, ck) \<in> set rs. get_bytes (mem t) (addr - 0x70000000) (length bs) = bs"
    by (rule loaded_records [OF rs mem]) (simp add: t(3) report_1245_outside)
  then show ?thesis
    using t(1,2) w by (auto simp: image_booted_def report_1245_words list_all_iff)
qed

lemma stick_boot:
  assumes m: "fat_medium md desc disk start nsect bs fs cs" and quiet: "quiet_media md"
    and usb: "\<And>s. \<exists>t. go_usb_start md s = Some t \<and> usb_dev_desc t = desc # ds" "bd_dev desc = 0" "bd_if_type desc = IF_TYPE_USB"
    and room: "dir_room (volume_of bs fs []) s"
    and f: "boot_files (\<lambda>b. disk (start + b)) nsect bs fs cs inst st len rs launch" "records_above rs"
    and mode: "bootMode s \<in> {1, 2, 4, 5}" and cleanup: "\<And>s. mem (cleanup s) = mem s"
  shows "\<exists>t. os_boot_submain cfg e md cleanup fn stack s = Some (Jumped IMAGE_EBOOT_JUMP_ADDR, t) \<and>
    image_booted cfg (bootMode s) BOOT_STORAGE_USB len rs (mem t)"
proof -
  let ?s1 = "TimerInit e 250 (search_leds cfg 1 0 s)" and ?v = "first_locals stack"
  have s1: "same_but_mount ?s1 s"
    by (rule same_but_mount_trans [OF same_leds(2,4)])
  have room1: "dir_room (volume_of bs fs []) ?s1" and name: "FileName ?v = replicate 128 0"
    using room dir_room_same [OF s1] by (simp_all add: first_locals_def)
  obtain buf u where u: "search_usb cfg e md fn ?v ?s1
      = Some (?v\<lparr>FileName := buf, FileSize := len, bootMedia := BOOT_STORAGE_USB\<rparr>, u)"
    "mem u = snd (load_spec cfg False rs (put_bytes IMAGE_BOOT_NKIMAGE_RAM_PA_STORE_START (encode_nk st len rs launch) (mem ?s1)))"
    using usb(1) [of ?s1] search_usb_image [OF m _ _ usb(2,3) quiet room1 f(1) name] by blast
  let ?w = "?v\<lparr>FileName := buf, FileSize := len, bootMedia := BOOT_STORAGE_USB\<rparr>"
  have run: "osBoot_Mode_1245 cfg e md fn stack (bootMode s) s
      = Some (0, (search_leds cfg 0 0 (search_leds cfg 0 1 u))\<lparr>mem := report_1245 cfg (boot_dev s) (bootMode s) ?w (search_leds cfg 0 1 u)\<rparr>)"
    by (rule Mode_1245_run [OF u(1) _ mode]) (simp add: usb_media)
  show ?thesis
    by (rule submain_image [OF mode cleanup run])
       (use f u(2) in \<open>simp_all add: first_locals_def boot_files_def\<close>)
qed

lemma card_boot:
  assumes m: "fat_medium md desc disk start nsect bs fs cs"
    and usb: "\<And>s. \<exists>t. go_usb_start md s = Some t \<and> usb_dev_desc t = []" and quiet: "quiet_media md"
    and dev: "\<And>t. mmc_devices t = mmc_devices s \<Longrightarrow> dev_at cfg e md STORAGE_DEV_NAME_MMC desc disk t"
    and room: "dir_room (volume_of bs fs []) s"
    and f: "boot_files (\<lambda>b. disk (start + b)) nsect bs fs cs inst st len rs launch" "records_above rs"
    and mode: "bootMode s \<in> {1, 2, 4, 5}" and cleanup: "\<And>s. mem (cleanup s) = mem s"
  shows "\<exists>t. os_boot_submain cfg e md cleanup fn stack s = Some (Jumped IMAGE_EBOOT_JUMP_ADDR, t) \<and>
    image_booted cfg (bootMode s) BOOT_STORAGE_SD len rs (mem t)"
proof -
  let ?s1 = "TimerInit e 250 (search_leds cfg 1 0 s)" and ?v = "first_locals stack"
  obtain s2 where start: "go_usb_start md ?s1 = Some s2" "usb_dev_desc s2 = []"
    using usb by blast
  have kept: "do_fat_read_at_block s2 = do_fat_read_at_block s" "mmc_devices s2 = mmc_devices s"
    using quiet_media.go_usb_start_scan_kept [OF quiet start(1)]
    by (simp_all add: scan_kept_def TimerInit_def search_leds_def)
  let ?s3 = "search_leds cfg 0 1 s2"
  have s3: "dir_room (volume_of bs fs []) ?s3" "mmc_devices ?s3 = mmc_devices s"
    using room dir_room_same [OF same_leds(4), of _ cfg 0 1 s2] by (simp_all add: dir_room_def kept search_leds_def)
  obtain buf u where u: "search_sd cfg e md fn ?v ?s3 = Some (?v\<lparr>FileName := buf, FileSize := len, bootMedia := BOOT_STORAGE_SD\<rparr>, u)"
    "mem u = snd (load_spec cfg False rs (put_bytes IMAGE_BOOT_NKIMAGE_RAM_PA_STORE_START (encode_nk st len rs launch) (mem ?s3)))"
    using search_sd_image [OF m dev [OF s3(2)] s3(1) f(1), of ?v fn] by (auto simp: first_locals_def)
  let ?w = "?v\<lparr>FileName := buf, FileSize := len, bootMedia := BOOT_STORAGE_SD\<rparr>"
  have run: "osBoot_Mode_1245 cfg e md fn stack (bootMode s) s
      = Some (0, (search_leds cfg 0 0 u)\<lparr>mem := report_1245 cfg (boot_dev s) (bootMode s) ?w u\<rparr>)"
    by (rule Mode_1245_run [OF search_no_media(1) [OF start] _ mode]) (use u(1) in \<open>simp add: first_locals_def\<close>)
  show ?thesis
    by (rule submain_image [OF mode cleanup run])
       (use f u(2) in \<open>simp_all add: first_locals_def boot_files_def\<close>)
qed

section \<open>Disks to boot from\<close>

text \<open>A disk whose first partition is a FAT volume with the files to boot from.\<close>

definition boot_disk_ok ::
  "(u32 \<Rightarrow> u8 list) \<Rightarrow> u32 \<Rightarrow> u32 \<Rightarrow> nat \<Rightarrow> boot_sector \<Rightarrow> nat \<Rightarrow> u32 list \<Rightarrow> bool" where
  "boot_disk_ok disk lba start nsect bs fs cs \<longleftrightarrow>
     unat start + nsect \<le> unat lba \<and> first_partition (disk 0) start \<and>
     sub_bytes (disk start) 0x1fe 2 = [0x55, 0xAA] \<and> sect_size (volume_of bs fs []) = 512 \<and>
     volume_ok (\<lambda>b. disk (start + b)) nsect bs fs cs"

lemma boot_ind_cases:
  assumes "(b :: u8) AND NOT 0x80 = 0"
  shows "b = 0 \<or> b = 0x80"
proof -
  have "(0x80 :: u8) = 2 ^ 7"
    by simp
  then have hi: "bit (0x80 :: u8) n \<longleftrightarrow> n = 7" for n
    by (simp only: bit_exp_iff possible_bit_word) auto
  have low: "\<not> bit b n" if "n \<noteq> 7" for n
  proof
    assume n: "bit b n"
    have "\<not> bit (b AND NOT 0x80) n"
      by (simp only: assms bit_0_eq bot_apply bot_bool_def not_False_eq_True)
    then show False
      using n that hi bit_imp_le_length [OF n] by (simp only: bit_and_iff bit_not_iff possible_bit_word) simp
  qed
  show ?thesis
  proof (cases "bit b 7")
    case True
    have "b = 0x80"
      by (rule bit_word_eqI) (use True low hi in metis)
    then show ?thesis ..
  next
    case False
    have "b = 0"
      by (rule bit_word_eqI) (use False low in \<open>metis bit_0_eq bot_apply bot_bool_def\<close>)
    then show ?thesis ..
  qed
qed

lemma first_partition_mbr:
  assumes "first_partition block start" "length block = 512"
  shows "test_block_type block = DOS_MBR"
proof -
  have "table_entries block ! 0 ! 0 = block ! DOS_PART_TBL_OFFSET"
    using assms(2) by (simp add: table_entries_def sub_bytes_def DOS_PART_TBL_OFFSET_def upt_rec)
  then have "block ! DOS_PART_TBL_OFFSET = 0 \<or> block ! DOS_PART_TBL_OFFSET = 0x80"
    using assms(1) boot_ind_cases by (auto simp: first_partition_def Let_def)
  then show ?thesis
    using assms(1) by (auto simp: test_block_type_def first_partition_def Let_def)
qed

end
