(* ===== verification/Usb_Storage.thy ===== *)
theory Usb_Storage
  imports Block_Dev
begin

text \<open>
  The USB storage driver (\<open>common/usb_storage.c\<close>, with the transfer functions of \<open>common/usb.c\<close>): the
  Bulk-Only transport with its command, data and status phase, recovery from stalls and the reset, the SCSI commands with
  their retries, and the scan of the bus for storage devices.  The host controller, the enumeration and the transport
  of the old floppy protocols are the fields of \<open>usb_bus\<close>.

  The interface downwards is the locale \<open>quiet_bus\<close>: transfers change none of the driver's variables.  Its lemmas
  carry this up to the scan, which gives the contract \<open>quiet_media\<close> that the block devices rely on, and show that a
  command counts as successful only after a status block that says so.
\<close>

section \<open>Transfers on the bus\<close>

text \<open>\<open>struct devrequest\<close>, the pipes of a device, and what the host controller reports of a transfer.\<close>

record devrequest =
  requesttype :: u8
  request :: u8
  dr_value :: u16
  dr_index :: u16
  dr_length :: u16

datatype usb_pipe = usb_sndbulkpipe u8 | usb_rcvbulkpipe u8

record urb =
  urb_err :: int
  urb_status :: u32
  urb_act_len :: int
  urb_data :: "u8 list"

record usb_endpoint =
  bmAttributes :: u8
  bEndpointAddress :: u8
  bInterval :: u8

record usb_interface =
  bInterfaceNumber :: u8
  bInterfaceClass :: u8
  bInterfaceSubClass :: u8
  bInterfaceProtocol :: u8
  num_altsetting :: nat
  ep_desc :: "usb_endpoint list"

record usb_device =
  usb_index :: nat
  devnum :: u8
  bDeviceClass :: u8
  if_desc :: "usb_interface list"

text \<open>A SCSI command block (\<open>ccb\<close>) as far as the transports use it.\<close>

record ccb =
  ccb_cmd :: "u8 list"
  ccb_lun :: u8
  ccb_cmdlen :: u8
  ccb_datalen :: u32
  ccb_pdata :: "u8 list"

text \<open>
  What lies below: the two entry points of the host controller driver, the devices the enumeration found, the
  transport of the old floppy protocols, and the old contents of memory (\<open>stale\<close>), which uninitialised local
  arrays have and which a short transfer leaves in place.
\<close>

record usb_bus =
  submit_control_msg :: "nat \<Rightarrow> devrequest \<Rightarrow> sys \<Rightarrow> urb \<times> sys"
  submit_bulk_msg :: "nat \<Rightarrow> usb_pipe \<Rightarrow> u8 list \<Rightarrow> nat \<Rightarrow> sys \<Rightarrow> urb \<times> sys"
  usb_get_dev_index :: "nat \<Rightarrow> sys \<Rightarrow> usb_device option"
  usb_stor_CB_transport :: "us_data \<Rightarrow> ccb \<Rightarrow> sys \<Rightarrow> int \<times> u8 list \<times> sys"
  stale :: "sys \<Rightarrow> nat \<Rightarrow> u8"

definition stale_bytes :: "usb_bus \<Rightarrow> nat \<Rightarrow> sys \<Rightarrow> u8 list" where
  "stale_bytes bus n s = map (stale bus s) [0..<n]"

text \<open>Bytes stored from the start of a buffer on.\<close>

definition store_over :: "u8 list \<Rightarrow> u8 list \<Rightarrow> u8 list" where
  "store_over bytes buf = take (length buf) bytes @ drop (length bytes) buf"

definition USB_ST_STALLED :: u32 where "USB_ST_STALLED = 0x2"
definition USB_ST_NOT_PROC :: u32 where "USB_ST_NOT_PROC = 0x80000000"
definition USB_CNTL_TIMEOUT :: nat where "USB_CNTL_TIMEOUT = 100"
definition EIO :: int where "EIO = 5"

definition mdelay :: "nat \<Rightarrow> sys \<Rightarrow> sys" where
  "mdelay msec s = udelay (1000 * msec) s"

definition set_usb_status :: "nat \<Rightarrow> u32 \<Rightarrow> sys \<Rightarrow> sys" where
  "set_usb_status dev v s = s\<lparr>usb_status := (usb_status s)(dev := v)\<rparr>"

text \<open>The controller driver has finished when it returns, so that only a status it left at \<open>NOT_PROC\<close> lets the
  loop run to its end.\<close>

definition wait_status :: "nat \<Rightarrow> nat \<Rightarrow> sys \<Rightarrow> sys" where
  "wait_status dev timeout s = (if usb_status s dev AND USB_ST_NOT_PROC \<noteq> 0 then mdelay timeout s else s)"

definition usb_control_msg ::
  "usb_bus \<Rightarrow> nat \<Rightarrow> u8 \<Rightarrow> u8 \<Rightarrow> u16 \<Rightarrow> u16 \<Rightarrow> u16 \<Rightarrow> nat \<Rightarrow> sys \<Rightarrow> int \<times> u8 list \<times> sys" where
  "usb_control_msg bus dev req reqtype val index sz timeout s =
     (let setup_packet = \<lparr>requesttype = reqtype, request = req, dr_value = val, dr_index = index, dr_length = sz\<rparr>;
          s = set_usb_status dev USB_ST_NOT_PROC s;
          (urb, s) = submit_control_msg bus dev setup_packet s;
          s = set_usb_status dev (urb_status urb) s;
          bytes = take (unat sz) (urb_data urb)
      in if urb_err urb < 0 then (urb_err urb, bytes, s)
         else
           let s = wait_status dev timeout s in
           if usb_status s dev \<noteq> 0 then (- 1, bytes, s) else (urb_act_len urb, bytes, s))"

text \<open>Result, the actual length if it was set, the bytes stored, state.\<close>

definition usb_bulk_msg ::
  "usb_bus \<Rightarrow> nat \<Rightarrow> usb_pipe \<Rightarrow> u8 list \<Rightarrow> int \<Rightarrow> nat \<Rightarrow> sys \<Rightarrow> int \<times> int option \<times> u8 list \<times> sys" where
  "usb_bulk_msg bus dev pipe data len timeout s =
     (if len < 0 then (- EINVAL, None, [], s)
      else
        let s = set_usb_status dev USB_ST_NOT_PROC s;
            (urb, s) = submit_bulk_msg bus dev pipe data (nat len) s;
            s = set_usb_status dev (urb_status urb) s;
            bytes = take (nat len) (urb_data urb)
        in if urb_err urb < 0 then (- EIO, None, bytes, s)
           else
             let s = wait_status dev timeout s in
             (if usb_status s dev = 0 then 0 else - EIO, Some (urb_act_len urb), bytes, s))"

definition USB_REQ_CLEAR_FEATURE :: u8 where "USB_REQ_CLEAR_FEATURE = 1"
definition USB_REQ_SET_INTERFACE :: u8 where "USB_REQ_SET_INTERFACE = 0x0B"
definition USB_TYPE_CLASS :: u8 where "USB_TYPE_CLASS = 0x20"
definition USB_RECIP_INTERFACE :: u8 where "USB_RECIP_INTERFACE = 1"
definition USB_RECIP_ENDPOINT :: u8 where "USB_RECIP_ENDPOINT = 2"
definition USB_DIR_IN :: u8 where "USB_DIR_IN = 0x80"

text \<open>The data toggle, which \<open>usb_clear_halt\<close> resets too, belongs to the controller's side.\<close>

definition usb_pipe_endp :: "usb_pipe \<Rightarrow> u16" where
  "usb_pipe_endp pipe = (case pipe of usb_sndbulkpipe ep \<Rightarrow> ucast ep AND 0xf | usb_rcvbulkpipe ep \<Rightarrow> (ucast ep AND 0xf) OR 0x80)"

definition usb_clear_halt :: "usb_bus \<Rightarrow> nat \<Rightarrow> usb_pipe \<Rightarrow> sys \<Rightarrow> int \<times> sys" where
  "usb_clear_halt bus dev pipe s =
     (let (result, _, s) = usb_control_msg bus dev USB_REQ_CLEAR_FEATURE USB_RECIP_ENDPOINT 0 (usb_pipe_endp pipe) 0
            (USB_CNTL_TIMEOUT * 3) s
      in (if result < 0 then result else 0, s))"

definition usb_set_interface :: "usb_bus \<Rightarrow> usb_device \<Rightarrow> u8 \<Rightarrow> u16 \<Rightarrow> sys \<Rightarrow> int \<times> sys" where
  "usb_set_interface bus dev interface alternate s =
     (case find (\<lambda>i. bInterfaceNumber i = interface) (if_desc dev) of
        None \<Rightarrow> (- EINVAL, s)
      | Some if_face \<Rightarrow>
          if num_altsetting if_face = 1 then (0, s)
          else
            let (ret, _, s) = usb_control_msg bus (usb_index dev) USB_REQ_SET_INTERFACE USB_RECIP_INTERFACE alternate
                  (ucast interface) 0 (USB_CNTL_TIMEOUT * 5) s
            in (if ret < 0 then ret else 0, s))"

section \<open>The Bulk-Only transport\<close>

definition us_direction :: "u8 list" where
  "us_direction =
     [0x28, 0x81, 0x14, 0x14, 0x20, 0x01, 0x90, 0x77,
      0x0C, 0x20, 0x00, 0x04, 0x00, 0x00, 0x00, 0x00,
      0x00, 0x00, 0x00, 0x00, 0x00, 0x01, 0x00, 0x01,
      0x00, 0x00, 0x00, 0x00, 0x00, 0x00, 0x00, 0x00]"

definition US_DIRECTION :: "u8 \<Rightarrow> bool" where
  "US_DIRECTION x \<longleftrightarrow> drop_bit (unat (x AND 7)) (us_direction ! unat (drop_bit 3 x)) AND 1 \<noteq> 0"

definition CBWSIGNATURE :: u32 where "CBWSIGNATURE = 0x43425355"
definition CBWFLAGS_OUT :: u8 where "CBWFLAGS_OUT = 0x00"
definition CBWFLAGS_IN :: u8 where "CBWFLAGS_IN = 0x80"
definition CBWCDBLENGTH :: nat where "CBWCDBLENGTH = 16"
definition UMASS_BBB_CBW_SIZE :: int where "UMASS_BBB_CBW_SIZE = 31"
definition CSWSIGNATURE :: u32 where "CSWSIGNATURE = 0x53425355"
definition CSWSTATUS_FAILED :: u8 where "CSWSTATUS_FAILED = 1"
definition CSWSTATUS_PHASE :: u8 where "CSWSTATUS_PHASE = 2"
definition UMASS_BBB_CSW_SIZE :: int where "UMASS_BBB_CSW_SIZE = 13"
definition US_BBB_RESET :: u8 where "US_BBB_RESET = 0xff"
definition US_BBB_GET_MAX_LUN :: u8 where "US_BBB_GET_MAX_LUN = 0xfe"
definition USB_STOR_TRANSPORT_GOOD :: int where "USB_STOR_TRANSPORT_GOOD = 0"
definition USB_STOR_TRANSPORT_FAILED :: int where "USB_STOR_TRANSPORT_FAILED = - 1"

text \<open>\<open>struct umass_bbb_cbw\<close> and \<open>umass_bbb_csw\<close> as bytes.\<close>

definition umass_bbb_cbw :: "u32 \<Rightarrow> u32 \<Rightarrow> u8 \<Rightarrow> u8 \<Rightarrow> u8 \<Rightarrow> u8 list \<Rightarrow> u8 list" where
  "umass_bbb_cbw tag len flags lun cdblen cdb =
     bytes_of_u32 CBWSIGNATURE @ bytes_of_u32 tag @ bytes_of_u32 len @ [flags, lun, cdblen] @ cdb"

definition csw_word :: "u8 list \<Rightarrow> nat \<Rightarrow> u32" where
  "csw_word csw i = u32_of_bytes (csw ! i) (csw ! (i + 1)) (csw ! (i + 2)) (csw ! (i + 3))"

definition dCSWSignature :: "u8 list \<Rightarrow> u32" where "dCSWSignature csw = csw_word csw 0"
definition dCSWTag :: "u8 list \<Rightarrow> u32" where "dCSWTag csw = csw_word csw 4"
definition dCSWDataResidue :: "u8 list \<Rightarrow> u32" where "dCSWDataResidue csw = csw_word csw 8"
definition bCSWStatus :: "u8 list \<Rightarrow> u8" where "bCSWStatus csw = csw ! 12"

definition usb_stor_BBB_reset :: "usb_bus \<Rightarrow> us_data \<Rightarrow> sys \<Rightarrow> int \<times> sys" where
  "usb_stor_BBB_reset bus us s =
     (let (result, _, s) = usb_control_msg bus (pusb_dev us) US_BBB_RESET (USB_TYPE_CLASS OR USB_RECIP_INTERFACE)
            0 (ucast (us_ifnum us)) 0 (USB_CNTL_TIMEOUT * 5) s
      in if result < 0 \<and> usb_status s (pusb_dev us) AND USB_ST_STALLED \<noteq> 0 then (- 1, s)
         else
           let s = mdelay 150 s;
               (_, s) = usb_clear_halt bus (pusb_dev us) (usb_rcvbulkpipe (ep_in us)) s;
               s = mdelay 150 s;
               (_, s) = usb_clear_halt bus (pusb_dev us) (usb_sndbulkpipe (ep_out us)) s
           in (0, mdelay 150 s))"

definition usb_stor_BBB_comdat :: "usb_bus \<Rightarrow> us_data \<Rightarrow> ccb \<Rightarrow> sys \<Rightarrow> int \<times> sys" where
  "usb_stor_BBB_comdat bus us srb s =
     (let dir_in = US_DIRECTION (ccb_cmd srb ! 0) in
      if \<not> unat (ccb_cmdlen srb) \<le> CBWCDBLENGTH then (- 1, s)
      else
        let cdb = store_over (take (unat (ccb_cmdlen srb)) (ccb_cmd srb)) (stale_bytes bus CBWCDBLENGTH s);
            cbw = umass_bbb_cbw (CBWTag s) (ccb_datalen srb) (if dir_in then CBWFLAGS_IN else CBWFLAGS_OUT)
              (ccb_lun srb) (ccb_cmdlen srb) cdb;
            s = s\<lparr>CBWTag := CBWTag s + 1\<rparr>;
            (result, _, _, s) = usb_bulk_msg bus (pusb_dev us) (usb_sndbulkpipe (ep_out us)) cbw UMASS_BBB_CBW_SIZE
              (USB_CNTL_TIMEOUT * 5) s
        in (result, s))"

definition usb_stor_BBB_clear_endpt_stall :: "usb_bus \<Rightarrow> us_data \<Rightarrow> u8 \<Rightarrow> sys \<Rightarrow> int \<times> sys" where
  "usb_stor_BBB_clear_endpt_stall bus us endpt s =
     (let (result, _, s) = usb_control_msg bus (pusb_dev us) USB_REQ_CLEAR_FEATURE USB_RECIP_ENDPOINT 0 (ucast endpt) 0
            (USB_CNTL_TIMEOUT * 5) s
      in (result, s))"

text \<open>The status phase from label \<open>again\<close> on, with the retries left (one at first): result, the contents of \<open>csw\<close>,
  state.\<close>

primrec bbb_status :: "usb_bus \<Rightarrow> us_data \<Rightarrow> nat \<Rightarrow> u8 list \<Rightarrow> sys \<Rightarrow> int \<times> u8 list \<times> sys" where
  "bbb_status bus us 0 csw s =
     (let (result, _, bytes, s) = usb_bulk_msg bus (pusb_dev us) (usb_rcvbulkpipe (ep_in us)) [] UMASS_BBB_CSW_SIZE
            (USB_CNTL_TIMEOUT * 5) s
      in (result, store_over bytes csw, s))"
| "bbb_status bus us (Suc retry) csw s =
     (let (result, _, bytes, s) = usb_bulk_msg bus (pusb_dev us) (usb_rcvbulkpipe (ep_in us)) [] UMASS_BBB_CSW_SIZE
            (USB_CNTL_TIMEOUT * 5) s;
          csw = store_over bytes csw
      in if result < 0 \<and> usb_status s (pusb_dev us) AND USB_ST_STALLED \<noteq> 0 then
           let (result, s) = usb_stor_BBB_clear_endpt_stall bus us (ep_in us) s in
           if result \<ge> 0 then bbb_status bus us retry csw s else (result, csw, s)
         else (result, csw, s))"

text \<open>The data phase: \<open>None\<close> when the command has failed, otherwise the actual length; the bytes stored, state.\<close>

definition bbb_data :: "usb_bus \<Rightarrow> us_data \<Rightarrow> ccb \<Rightarrow> sys \<Rightarrow> int option \<times> u8 list \<times> sys" where
  "bbb_data bus us srb s =
     (if ccb_datalen srb = 0 then (Some 0, [], s)
      else
        let dir_in = US_DIRECTION (ccb_cmd srb ! 0);
            pipe = (if dir_in then usb_rcvbulkpipe (ep_in us) else usb_sndbulkpipe (ep_out us));
            (result, actlen, bytes, s) = usb_bulk_msg bus (pusb_dev us) pipe (ccb_pdata srb) (sint (ccb_datalen srb))
              (USB_CNTL_TIMEOUT * 5) s;
            data_actlen = (case actlen of None \<Rightarrow> 0 | Some n \<Rightarrow> n);
            (again, result, s) =
              (if result < 0 \<and> usb_status s (pusb_dev us) AND USB_ST_STALLED \<noteq> 0 then
                 let (result, s) = usb_stor_BBB_clear_endpt_stall bus us (if dir_in then ep_in us else ep_out us) s
                 in (result \<ge> 0, result, s)
               else (False, result, s))
        in if again then (Some data_actlen, bytes, s)
           else if result < 0 then (None, bytes, s)
           else (Some data_actlen, bytes, s))"

definition usb_stor_BBB_transport :: "usb_bus \<Rightarrow> us_data \<Rightarrow> ccb \<Rightarrow> sys \<Rightarrow> int \<times> u8 list \<times> sys" where
  "usb_stor_BBB_transport bus us srb s =
     (let (result, s) = usb_stor_BBB_comdat bus us srb s in
      if result < 0 then (USB_STOR_TRANSPORT_FAILED, [], snd (usb_stor_BBB_reset bus us s))
      else
        let s = (if us_flags s (us_slot us) AND USB_READY = 0 then mdelay 5 s else s);
            (actlen, bytes, s) = bbb_data bus us srb s
        in case actlen of
             None \<Rightarrow> (USB_STOR_TRANSPORT_FAILED, bytes, snd (usb_stor_BBB_reset bus us s))
           | Some data_actlen \<Rightarrow>
               let (result, csw, s) = bbb_status bus us 1 (stale_bytes bus (nat UMASS_BBB_CSW_SIZE) s) s in
               if result < 0 then (USB_STOR_TRANSPORT_FAILED, bytes, snd (usb_stor_BBB_reset bus us s))
               else if CSWSIGNATURE \<noteq> dCSWSignature csw then
                 (USB_STOR_TRANSPORT_FAILED, bytes, snd (usb_stor_BBB_reset bus us s))
               else if CBWTag s - 1 \<noteq> dCSWTag csw then
                 (USB_STOR_TRANSPORT_FAILED, bytes, snd (usb_stor_BBB_reset bus us s))
               else if bCSWStatus csw > CSWSTATUS_PHASE then
                 (USB_STOR_TRANSPORT_FAILED, bytes, snd (usb_stor_BBB_reset bus us s))
               else if bCSWStatus csw = CSWSTATUS_PHASE then
                 (USB_STOR_TRANSPORT_FAILED, bytes, snd (usb_stor_BBB_reset bus us s))
               else if of_int data_actlen > ccb_datalen srb then (USB_STOR_TRANSPORT_FAILED, bytes, s)
               else if bCSWStatus csw = CSWSTATUS_FAILED then (USB_STOR_TRANSPORT_FAILED, bytes, s)
               else (result, bytes, s))"

section \<open>SCSI commands\<close>

definition SCSI_TST_U_RDY :: u8 where "SCSI_TST_U_RDY = 0x00"
definition SCSI_REQ_SENSE :: u8 where "SCSI_REQ_SENSE = 0x03"
definition SCSI_INQUIRY :: u8 where "SCSI_INQUIRY = 0x12"
definition SCSI_RD_CAPAC :: u8 where "SCSI_RD_CAPAC = 0x25"
definition SCSI_READ10 :: u8 where "SCSI_READ10 = 0x28"

definition US_PR_CB :: u8 where "US_PR_CB = 1"
definition US_PR_CBI :: u8 where "US_PR_CBI = 0"
definition US_PR_BULK :: u8 where "US_PR_BULK = 0x50"

text \<open>\<open>ss->transport\<close>, set by the probe.\<close>

definition transport :: "usb_bus \<Rightarrow> us_data \<Rightarrow> ccb \<Rightarrow> sys \<Rightarrow> int \<times> u8 list \<times> sys" where
  "transport bus us srb s =
     (if us_protocol us = US_PR_BULK then usb_stor_BBB_transport bus us srb s
      else usb_stor_CB_transport bus us srb s)"

text \<open>A command that reads: all are 12 bytes long, the logical unit is in the second.\<close>

definition scsi_cmd :: "u8 \<Rightarrow> u8 \<Rightarrow> u8 list \<Rightarrow> u8 list" where
  "scsi_cmd opcode lun rest = store_over ([opcode, push_bit 5 lun] @ rest) (replicate 12 0)"

definition scsi_ccb :: "u8 \<Rightarrow> u8 \<Rightarrow> u8 list \<Rightarrow> u32 \<Rightarrow> ccb" where
  "scsi_ccb opcode lun rest len =
     \<lparr>ccb_cmd = scsi_cmd opcode lun rest, ccb_lun = lun, ccb_cmdlen = 12, ccb_datalen = len, ccb_pdata = []\<rparr>"

text \<open>\<open>retry\<close> counts the rounds left; the buffer keeps what failed rounds have stored.\<close>

primrec usb_inquiry :: "usb_bus \<Rightarrow> us_data \<Rightarrow> u8 \<Rightarrow> nat \<Rightarrow> u8 list \<Rightarrow> sys \<Rightarrow> int \<times> u8 list \<times> sys" where
  "usb_inquiry bus us lun 0 buf s = (- 1, buf, s)"
| "usb_inquiry bus us lun (Suc retry) buf s =
     (let (i, bytes, s) = transport bus us (scsi_ccb SCSI_INQUIRY lun [0, 0, 36] 36) s;
          buf = store_over bytes buf
      in if i = 0 then (0, buf, s) else usb_inquiry bus us lun retry buf s)"

definition usb_request_sense_ccb :: "usb_bus \<Rightarrow> us_data \<Rightarrow> u8 \<Rightarrow> sys \<Rightarrow> sys" where
  "usb_request_sense_ccb bus us lun s =
     (let (_, bytes, s) = transport bus us (scsi_ccb SCSI_REQ_SENSE lun [0, 0, 18] 18) s
      in s\<lparr>sense_buf := store_over bytes (sense_buf s)\<rparr>)"

primrec usb_test_unit_ready :: "usb_bus \<Rightarrow> us_data \<Rightarrow> u8 \<Rightarrow> nat \<Rightarrow> sys \<Rightarrow> int \<times> sys" where
  "usb_test_unit_ready bus us lun 0 s = (- 1, s)"
| "usb_test_unit_ready bus us lun (Suc retries) s =
     (let (r, _, s) = transport bus us (scsi_ccb SCSI_TST_U_RDY lun [] 0) s in
      if r = USB_STOR_TRANSPORT_GOOD then (0, set_us_flags us (us_flags s (us_slot us) OR USB_READY) s)
      else
        let s = usb_request_sense_ccb bus us lun s in
        if sense_buf s ! 2 = 0x02 \<and> sense_buf s ! 12 = 0x3a then (- 1, s)
        else usb_test_unit_ready bus us lun retries (mdelay 100 s))"

primrec usb_read_capacity :: "usb_bus \<Rightarrow> us_data \<Rightarrow> u8 \<Rightarrow> nat \<Rightarrow> u8 list \<Rightarrow> sys \<Rightarrow> int \<times> u8 list \<times> sys" where
  "usb_read_capacity bus us lun 0 cap s = (- 1, cap, s)"
| "usb_read_capacity bus us lun (Suc retry) cap s =
     (let (r, bytes, s) = transport bus us (scsi_ccb SCSI_RD_CAPAC lun [] 8) s;
          cap = store_over bytes cap
      in if r = USB_STOR_TRANSPORT_GOOD then (0, cap, s) else usb_read_capacity bus us lun retry cap s)"

text \<open>\<open>usb_read_10\<close> with the data length \<open>usb_stor_read\<close> has set; where less data arrives, the rest of the
  buffer keeps its old contents.\<close>

definition usb_read_10_ccb :: "usb_bus \<Rightarrow> us_data \<Rightarrow> u8 \<Rightarrow> u32 \<Rightarrow> u32 \<Rightarrow> u16 \<Rightarrow> sys \<Rightarrow> int \<times> u8 list \<times> sys" where
  "usb_read_10_ccb bus us lun len start blocks s =
     (let cdb = [ucast (drop_bit 24 start), ucast (drop_bit 16 start), ucast (drop_bit 8 start), ucast start, 0,
            ucast (drop_bit 8 blocks), ucast blocks];
          (r, bytes, s') = transport bus us (scsi_ccb SCSI_READ10 lun cdb len) s
      in (r, store_over bytes (stale_bytes bus (unat len) s), s'))"

section \<open>Finding storage devices\<close>

definition USB_CLASS_MASS_STORAGE :: u8 where "USB_CLASS_MASS_STORAGE = 8"
definition US_SC_MIN :: u8 where "US_SC_MIN = 1"
definition US_SC_MAX :: u8 where "US_SC_MAX = 6"
definition US_SC_UFI :: u8 where "US_SC_UFI = 4"
definition US_SC_8070 :: u8 where "US_SC_8070 = 5"
definition US_SC_SCSI :: u8 where "US_SC_SCSI = 6"
definition USB_MAX_STOR_DEV :: nat where "USB_MAX_STOR_DEV = 5"
definition USB_MAX_DEVICE :: nat where "USB_MAX_DEVICE = 32"
definition ENOSPC :: int where "ENOSPC = 28"

definition probe_endpoint :: "us_data \<Rightarrow> usb_endpoint \<Rightarrow> us_data" where
  "probe_endpoint ss ep =
     (let addr = bEndpointAddress ep;
          ss = (if bmAttributes ep AND 3 = 2 then
                  (if addr AND USB_DIR_IN \<noteq> 0 then ss\<lparr>ep_in := addr AND 0x0f\<rparr> else ss\<lparr>ep_out := addr AND 0x0f\<rparr>)
                else ss)
      in if bmAttributes ep AND 3 = 3 then ss\<lparr>ep_int := addr AND 0x0f, irqinterval := bInterval ep\<rparr> else ss)"

text \<open>The probe of interface 0: the data of the device when it returns 1.  An interface that is not there has
  class 0.  \<open>slot\<close> is the index in \<open>usb_stor\<close>.\<close>

definition usb_storage_probe :: "usb_bus \<Rightarrow> usb_device \<Rightarrow> nat \<Rightarrow> sys \<Rightarrow> us_data option \<times> sys" where
  "usb_storage_probe bus dev slot s =
     (case if_desc dev of
        [] \<Rightarrow> (None, s)
      | iface # _ \<Rightarrow>
          if bDeviceClass dev \<noteq> 0 \<or> bInterfaceClass iface \<noteq> USB_CLASS_MASS_STORAGE \<or>
             bInterfaceSubClass iface < US_SC_MIN \<or> bInterfaceSubClass iface > US_SC_MAX then (None, s)
          else
            let ss = \<lparr>us_slot = slot, pusb_dev = usb_index dev, us_ifnum = 0, ep_in = 0, ep_out = 0, ep_int = 0,
                      us_subclass = bInterfaceSubClass iface, us_protocol = bInterfaceProtocol iface, irqinterval = 0\<rparr>;
                s = set_us_flags ss 0 s
            in if us_protocol ss \<noteq> US_PR_CB \<and> us_protocol ss \<noteq> US_PR_CBI \<and> us_protocol ss \<noteq> US_PR_BULK then (None, s)
               else
                 let ss = foldl probe_endpoint ss (ep_desc iface);
                     (r, s) = usb_set_interface bus dev (bInterfaceNumber iface) 0 s
                 in if r \<noteq> 0 \<or> ep_in ss = 0 \<or> ep_out ss = 0 \<or> us_protocol ss = US_PR_CBI \<and> ep_int ss = 0 then (None, s)
                    else if us_subclass ss \<noteq> US_SC_UFI \<and> us_subclass ss \<noteq> US_SC_SCSI \<and> us_subclass ss \<noteq> US_SC_8070
                    then (None, s)
                    else
                      (Some (if ep_int ss \<noteq> 0 \<and> \<not> irqinterval ss > 0 then ss\<lparr>irqinterval := 255\<rparr> else ss), s))"

definition usb_get_max_lun :: "usb_bus \<Rightarrow> us_data \<Rightarrow> sys \<Rightarrow> nat \<times> sys" where
  "usb_get_max_lun bus us s =
     (let (len, bytes, s') = usb_control_msg bus (pusb_dev us) US_BBB_GET_MAX_LUN
            (USB_TYPE_CLASS OR USB_RECIP_INTERFACE OR USB_DIR_IN) 0 (ucast (us_ifnum us)) 1 (USB_CNTL_TIMEOUT * 5) s;
          result = store_over bytes (stale_bytes bus 1 s)
      in (if len > 0 then unat (result ! 0) else 0, s'))"

text \<open>The entry at the end of \<open>usb_dev_desc\<close> is the one being filled.\<close>

definition set_last_desc :: "block_dev_desc \<Rightarrow> sys \<Rightarrow> sys" where
  "set_last_desc desc s = s\<lparr>usb_dev_desc := butlast (usb_dev_desc s) @ [desc]\<rparr>"

definition usb_stor_get_info ::
  "bsp_config \<Rightarrow> env \<Rightarrow> usb_bus \<Rightarrow> media \<Rightarrow> usb_device \<Rightarrow> us_data \<Rightarrow> block_dev_desc \<Rightarrow> sys \<Rightarrow>
   (int \<times> block_dev_desc \<times> sys) option" where
  "usb_stor_get_info cfg e bus md dev ss dev_desc s =
     (let dev_desc = dev_desc\<lparr>bd_target := devnum dev\<rparr>;
          lun = bd_lun dev_desc;
          (r, buf, s) = usb_inquiry bus ss lun 5 (stale_bytes bus 36 s) s
      in if r \<noteq> 0 then Some (- 1, dev_desc, s)
         else
           let perq = buf ! 0; modi = buf ! 1 in
           if perq AND 0x1f = 0x1f \<or> perq AND 0x1f = 0x0d then Some (0, dev_desc, s)
           else
             let dev_desc = (if modi AND 0x80 = 0x80 then dev_desc\<lparr>bd_removable := True\<rparr> else dev_desc);
                 (r, s) = usb_test_unit_ready bus ss lun 11 s
             in if r \<noteq> 0 then
                  (if bd_removable dev_desc then Some (1, dev_desc\<lparr>bd_type := perq\<rparr>, s) else Some (0, dev_desc, s))
                else
                  let (r, cap, s) = usb_read_capacity bus ss lun 4 (replicate 8 0) s;
                      cap = (if r \<noteq> 0 then bytes_of_u32 2880 @ bytes_of_u32 0x200 else cap);
                      s = set_us_flags ss (us_flags s (us_slot ss) AND NOT USB_READY) s;
                      dev_desc = dev_desc\<lparr>bd_lba := be32_at cap 0 + 1, bd_blksz := be32_at cap 4, bd_type := perq\<rparr>
                  in do {
                    (dev_desc, s) \<leftarrow> init_part cfg e md dev_desc (set_last_desc dev_desc s);
                    Some (1, dev_desc, s)
                  })"

definition new_desc :: "nat \<Rightarrow> us_data \<Rightarrow> nat \<Rightarrow> block_dev_desc" where
  "new_desc dev ss lun =
     \<lparr>bd_if_type = IF_TYPE_USB, bd_dev = dev, bd_part_type = PART_TYPE_UNKNOWN, bd_target = 0xff, bd_lun = of_nat lun,
      bd_type = 0xff, bd_removable = False, bd_lba = 0, bd_blksz = 0, bd_priv = Some ss\<rparr>"

fun probe_luns ::
  "bsp_config \<Rightarrow> env \<Rightarrow> usb_bus \<Rightarrow> media \<Rightarrow> usb_device \<Rightarrow> us_data \<Rightarrow> nat list \<Rightarrow> sys \<Rightarrow> sys option" where
  "probe_luns cfg e bus md dev ss [] s = Some s"
| "probe_luns cfg e bus md dev ss (lun # luns) s =
     (let found = usb_dev_desc s in
      if length found < USB_MAX_STOR_DEV then
        let desc = new_desc (length found) ss lun in do {
          (r, desc, s) \<leftarrow> usb_stor_get_info cfg e bus md dev ss desc (s\<lparr>usb_dev_desc := found @ [desc]\<rparr>);
          probe_luns cfg e bus md dev ss luns (s\<lparr>usb_dev_desc := (if r = 1 then found @ [desc] else found)\<rparr>)
        }
      else Some s)"

definition usb_stor_probe_device ::
  "bsp_config \<Rightarrow> env \<Rightarrow> usb_bus \<Rightarrow> media \<Rightarrow> usb_device option \<Rightarrow> sys \<Rightarrow> (int \<times> sys) option" where
  "usb_stor_probe_device cfg e bus md dev s =
     (case dev of
        None \<Rightarrow> Some (- ENOENT, s)
      | Some dev \<Rightarrow> do {
          let (ss, s) = usb_storage_probe bus dev (length (usb_dev_desc s)) s;
          s \<leftarrow> (case ss of
                  None \<Rightarrow> Some s
                | Some ss \<Rightarrow>
                    let (max_lun, s) = usb_get_max_lun bus ss s in
                    probe_luns cfg e bus md dev ss [0..<Suc max_lun] s);
          Some (if length (usb_dev_desc s) = USB_MAX_STOR_DEV then - ENOSPC else 0, s)
        })"

fun scan_devices :: "bsp_config \<Rightarrow> env \<Rightarrow> usb_bus \<Rightarrow> media \<Rightarrow> nat list \<Rightarrow> sys \<Rightarrow> sys option" where
  "scan_devices cfg e bus md [] s = Some s"
| "scan_devices cfg e bus md (i # is) s = do {
     (r, s) \<leftarrow> usb_stor_probe_device cfg e bus md (usb_get_dev_index bus i s) s;
     if r \<noteq> 0 then Some s else scan_devices cfg e bus md is s
   }"

definition usb_stor_scan_bus :: "bsp_config \<Rightarrow> env \<Rightarrow> usb_bus \<Rightarrow> media \<Rightarrow> sys \<Rightarrow> sys option" where
  "usb_stor_scan_bus cfg e bus md s = scan_devices cfg e bus md [0..<USB_MAX_DEVICE] (s\<lparr>usb_dev_desc := []\<rparr>)"

text \<open>The media with this driver as their USB part; \<open>usb_stor_read\<close> passes the unit and the block size of the device.\<close>

definition bus_read_10 :: "usb_bus \<Rightarrow> nat \<Rightarrow> u32 \<Rightarrow> u16 \<Rightarrow> sys \<Rightarrow> int \<times> u8 list \<times> sys" where
  "bus_read_10 bus device start blocks s =
     (let desc = usb_dev_desc s ! device in
      case bd_priv desc of
        None \<Rightarrow> (- 1, [], s)
      | Some ss \<Rightarrow> usb_read_10_ccb bus ss (bd_lun desc) (bd_blksz desc * ucast blocks) start blocks s)"

definition bus_request_sense :: "usb_bus \<Rightarrow> nat \<Rightarrow> sys \<Rightarrow> sys" where
  "bus_request_sense bus device s =
     (let desc = usb_dev_desc s ! device in
      case bd_priv desc of None \<Rightarrow> s | Some ss \<Rightarrow> usb_request_sense_ccb bus ss (bd_lun desc) s)"

definition usb_read_media :: "usb_bus \<Rightarrow> media \<Rightarrow> media" where
  "usb_read_media bus md = md\<lparr>usb_read_10 := bus_read_10 bus, usb_request_sense := bus_request_sense bus\<rparr>"

definition usb_media :: "bsp_config \<Rightarrow> env \<Rightarrow> usb_bus \<Rightarrow> media \<Rightarrow> media" where
  "usb_media cfg e bus md =
     (let md = usb_read_media bus md in md\<lparr>usb_stor_scan := usb_stor_scan_bus cfg e bus md\<rparr>)"

section \<open>What the driver leaves alone\<close>

text \<open>The variables of the program and of the driver; a transfer only changes the status of its device, the clock and
  what is on the line.\<close>

definition usb_kept where
  "usb_kept s = (kept s, CBWTag s, us_flags s, sense_buf s)"

lemma usb_kept_simps [simp]:
  "usb_kept (set_usb_status dev v s) = usb_kept s" "usb_kept (mdelay n s) = usb_kept s"
  "usb_kept (wait_status dev n s) = usb_kept s"
  by (simp_all add: usb_kept_def kept_defs set_usb_status_def mdelay_def udelay_def wait_status_def)

lemma kept_usb_simps [simp]:
  "kept (s\<lparr>CBWTag := v\<rparr>) = kept s" "kept (s\<lparr>sense_buf := w\<rparr>) = kept s" "kept (mdelay n s) = kept s"
  by (simp_all add: kept_defs mdelay_def udelay_def)

lemma usb_kept_kept: "usb_kept t = usb_kept s \<Longrightarrow> kept t = kept s"
  by (simp add: usb_kept_def)

lemma usb_line_simps [simp]:
  "usb_line (set_usb_status dev v s) = usb_line s" "usb_line (mdelay n s) = usb_line s"
  "usb_line (wait_status dev n s) = usb_line s"
  by (simp_all add: set_usb_status_def mdelay_def udelay_def wait_status_def)

locale quiet_bus =
  fixes bus :: usb_bus
  assumes control_quiet: "submit_control_msg bus dev req s = (urb, t) \<Longrightarrow> usb_kept t = usb_kept s"
    and bulk_quiet: "submit_bulk_msg bus dev pipe data len s = (urb, t) \<Longrightarrow> usb_kept t = usb_kept s"
    and CB_quiet: "usb_stor_CB_transport bus us srb s = (r, bytes, t) \<Longrightarrow> kept t = kept s"
begin

lemma usb_control_msg_quiet:
  "usb_control_msg bus dev req reqtype val index sz timeout s = (r, bytes, t) \<Longrightarrow> usb_kept t = usb_kept s"
  by (auto simp: usb_control_msg_def Let_def split: prod.splits if_splits dest!: control_quiet)

lemma usb_bulk_msg_quiet:
  "usb_bulk_msg bus dev pipe data len timeout s = (r, actlen, bytes, t) \<Longrightarrow> usb_kept t = usb_kept s"
  by (auto simp: usb_bulk_msg_def Let_def split: prod.splits if_splits dest!: bulk_quiet)

lemma usb_clear_halt_quiet: "usb_clear_halt bus dev pipe s = (r, t) \<Longrightarrow> usb_kept t = usb_kept s"
  by (auto simp: usb_clear_halt_def Let_def split: prod.splits dest!: usb_control_msg_quiet)

lemma usb_set_interface_quiet: "usb_set_interface bus dev i alt s = (r, t) \<Longrightarrow> usb_kept t = usb_kept s"
  by (auto simp: usb_set_interface_def Let_def split: prod.splits option.splits if_splits dest!: usb_control_msg_quiet)

lemma usb_get_max_lun_quiet: "usb_get_max_lun bus us s = (n, t) \<Longrightarrow> usb_kept t = usb_kept s"
  by (auto simp: usb_get_max_lun_def Let_def split: prod.splits dest!: usb_control_msg_quiet)

lemma BBB_reset_quiet: "usb_kept (snd (usb_stor_BBB_reset bus us s)) = usb_kept s"
  by (auto simp: usb_stor_BBB_reset_def Let_def split: prod.splits dest!: usb_control_msg_quiet usb_clear_halt_quiet)

lemma BBB_clear_quiet: "usb_stor_BBB_clear_endpt_stall bus us ep s = (r, t) \<Longrightarrow> usb_kept t = usb_kept s"
  by (auto simp: usb_stor_BBB_clear_endpt_stall_def split: prod.splits dest!: usb_control_msg_quiet)

lemma BBB_comdat_quiet:
  "usb_stor_BBB_comdat bus us srb s = (r, t) \<Longrightarrow>
    kept t = kept s \<and> us_flags t = us_flags s \<and> sense_buf t = sense_buf s \<and> (r \<ge> 0 \<longrightarrow> CBWTag t = CBWTag s + 1)"
  by (auto simp: usb_stor_BBB_comdat_def Let_def usb_kept_def split: prod.splits if_splits dest!: usb_bulk_msg_quiet)

lemma bbb_data_quiet: "bbb_data bus us srb s = (n, bytes, t) \<Longrightarrow> usb_kept t = usb_kept s"
  by (auto simp: bbb_data_def Let_def split: prod.splits if_splits dest!: usb_bulk_msg_quiet BBB_clear_quiet)

lemma bbb_status_quiet: "bbb_status bus us retry csw s = (r, csw', t) \<Longrightarrow> usb_kept t = usb_kept s"
  by (induction retry arbitrary: csw s)
    (auto simp: Let_def split: prod.splits if_splits dest!: usb_bulk_msg_quiet BBB_clear_quiet)

lemma BBB_transport_quiet:
  assumes "usb_stor_BBB_transport bus us srb s = (r, bytes, t)"
  shows "kept t = kept s"
  using assms BBB_reset_quiet [THEN usb_kept_kept, of us]
  by (auto simp: usb_stor_BBB_transport_def Let_def simp del: bbb_status.simps One_nat_def split: prod.splits if_splits option.splits
      dest!: BBB_comdat_quiet bbb_data_quiet [THEN usb_kept_kept] bbb_status_quiet [THEN usb_kept_kept])

lemma transport_quiet: "transport bus us srb s = (r, bytes, t) \<Longrightarrow> kept t = kept s"
  by (auto simp: transport_def split: if_splits dest: BBB_transport_quiet CB_quiet)

lemma usb_inquiry_quiet: "usb_inquiry bus us lun n buf s = (r, buf', t) \<Longrightarrow> kept t = kept s"
  by (induction n arbitrary: buf s) (auto simp: Let_def split: prod.splits if_splits dest!: transport_quiet)

lemma request_sense_quiet: "kept (usb_request_sense_ccb bus us lun s) = kept s"
  by (auto simp: usb_request_sense_ccb_def Let_def split: prod.splits dest!: transport_quiet)

lemma test_unit_ready_quiet: "usb_test_unit_ready bus us lun n s = (r, t) \<Longrightarrow> kept t = kept s"
  by (induction n arbitrary: s)
    (auto simp: Let_def request_sense_quiet split: prod.splits if_splits dest!: transport_quiet)

lemma read_capacity_quiet: "usb_read_capacity bus us lun n cap s = (r, cap', t) \<Longrightarrow> kept t = kept s"
  by (induction n arbitrary: cap s) (auto simp: Let_def split: prod.splits if_splits dest!: transport_quiet)

lemma read_10_quiet: "usb_read_10_ccb bus us lun len start n s = (r, bytes, t) \<Longrightarrow> kept t = kept s"
  by (auto simp: usb_read_10_ccb_def Let_def split: prod.splits dest!: transport_quiet)

lemma probe_quiet: "usb_storage_probe bus dev slot s = (us, t) \<Longrightarrow> kept t = kept s"
  by (auto simp: usb_storage_probe_def Let_def split: prod.splits list.splits if_splits
      dest!: usb_set_interface_quiet [THEN usb_kept_kept])

lemma usb_read_media_quiet:
  assumes "quiet_media md"
  shows "quiet_media (usb_read_media bus md)"
  using assms unfolding quiet_media_def usb_read_media_def
  by (auto simp: bus_read_10_def bus_request_sense_def Let_def request_sense_quiet [THEN kept_calm] split: option.splits
      dest: read_10_quiet [THEN kept_calm])

end

lemma scan_kept_simps [simp]:
  "scan_kept (s\<lparr>usb_dev_desc := ds\<rparr>) = scan_kept s" "scan_kept (set_last_desc d s) = scan_kept s"
  "scan_kept (set_us_flags us v s) = scan_kept s"
  by (simp_all add: scan_kept_def boot_data_def set_last_desc_def set_us_flags_def)

context quiet_bus
begin

lemma get_info_scan_kept:
  assumes md: "quiet_media md" and run: "usb_stor_get_info cfg e bus (usb_read_media bus md) dev ss d s = Some (r, d', t)"
  shows "scan_kept t = scan_kept s"
  using run
  by (auto simp: usb_stor_get_info_def Let_def split: prod.splits if_splits Option.bind_splits
      dest!: usb_inquiry_quiet [THEN kept_scan_kept] test_unit_ready_quiet [THEN kept_scan_kept]
        read_capacity_quiet [THEN kept_scan_kept]
        quiet_media.init_part_quiet [OF usb_read_media_quiet [OF md], THEN calm_scan_kept])

lemma probe_luns_scan_kept:
  assumes "quiet_media md"
  shows "probe_luns cfg e bus (usb_read_media bus md) dev ss luns s = Some t \<Longrightarrow> scan_kept t = scan_kept s"
  by (induction luns arbitrary: s)
    (auto simp: Let_def split: if_splits Option.bind_splits dest!: get_info_scan_kept [OF assms])

lemma probe_device_scan_kept:
  assumes "quiet_media md" and "usb_stor_probe_device cfg e bus (usb_read_media bus md) dev s = Some (r, t)"
  shows "scan_kept t = scan_kept s"
  using assms(2)
  by (auto simp: usb_stor_probe_device_def Let_def split: option.splits prod.splits Option.bind_splits
      dest!: probe_luns_scan_kept [OF assms(1)] probe_quiet [THEN kept_scan_kept]
        usb_get_max_lun_quiet [THEN usb_kept_kept, THEN kept_scan_kept])

lemma scan_devices_scan_kept:
  assumes "quiet_media md"
  shows "scan_devices cfg e bus (usb_read_media bus md) is s = Some t \<Longrightarrow> scan_kept t = scan_kept s"
  by (induction "is" arbitrary: s)
    (auto split: if_splits Option.bind_splits dest!: probe_device_scan_kept [OF assms])

lemma usb_media_quiet:
  assumes "quiet_media md"
  shows "quiet_media (usb_media cfg e bus md)"
proof -
  have "scan_kept t = scan_kept s" if "usb_stor_scan_bus cfg e bus (usb_read_media bus md) s = Some t" for s t
    using scan_devices_scan_kept [OF assms] that by (fastforce simp: usb_stor_scan_bus_def)
  then show ?thesis
    using usb_read_media_quiet [OF assms] unfolding quiet_media_def usb_media_def Let_def by simp
qed

text \<open>A command has succeeded only if the device said so: the status block has the right signature, the tag of
  this very command and the status \<open>GOOD\<close>, whatever else happened on the bus.\<close>

lemma BBB_good_status:
  assumes "usb_stor_BBB_transport bus us srb s = (0, bytes, t)"
  shows "\<exists>s1 csw. bbb_status bus us 1 (stale_bytes bus 13 s1) s1 = (0, csw, t) \<and>
    dCSWSignature csw = CSWSIGNATURE \<and> dCSWTag csw = CBWTag s \<and> bCSWStatus csw = 0"
proof -
  obtain r1 s1 where s1: "usb_stor_BBB_comdat bus us srb s = (r1, s1)" "\<not> r1 < 0"
    using assms by (auto simp: usb_stor_BBB_transport_def USB_STOR_TRANSPORT_FAILED_def Let_def split: prod.splits if_splits)
  let ?s1 = "if us_flags s1 (us_slot us) AND USB_READY = 0 then mdelay 5 s1 else s1"
  obtain n b s2 where s2: "bbb_data bus us srb ?s1 = (Some n, b, s2)"
    using assms s1 by (auto simp: usb_stor_BBB_transport_def USB_STOR_TRANSPORT_FAILED_def Let_def split: prod.splits if_splits option.splits)
  obtain r3 csw s3 where s3: "bbb_status bus us 1 (stale_bytes bus (nat UMASS_BBB_CSW_SIZE) s2) s2 = (r3, csw, s3)"
    by (metis prod_cases3)
  have ok: "r3 = 0" "dCSWSignature csw = CSWSIGNATURE" "dCSWTag csw = CBWTag s3 - 1" "\<not> bCSWStatus csw > CSWSTATUS_PHASE"
    "bCSWStatus csw \<noteq> CSWSTATUS_PHASE" "bCSWStatus csw \<noteq> CSWSTATUS_FAILED" "s3 = t"
    using assms unfolding usb_stor_BBB_transport_def Let_def s1(1) prod.case s2 option.case s3
    by (auto simp: s1(2) USB_STOR_TRANSPORT_FAILED_def split: if_splits)
  have "usb_kept ?s1 = usb_kept s1"
    by simp
  then have "CBWTag s3 = CBWTag s1"
    using bbb_status_quiet [OF s3] bbb_data_quiet [OF s2] by (simp add: usb_kept_def del: usb_kept_simps)
  moreover have "CBWTag s1 = CBWTag s + 1"
    using BBB_comdat_quiet [OF s1(1)] s1(2) by simp
  moreover have "bCSWStatus csw = 0"
  proof -
    have "unat (bCSWStatus csw) \<noteq> 1" "unat (bCSWStatus csw) \<noteq> 2" "unat (bCSWStatus csw) \<le> 2"
      using ok(4-6) unat_1 [where 'a = 8]
      by (auto simp: CSWSTATUS_PHASE_def CSWSTATUS_FAILED_def word_less_nat_alt word_unat_eq_iff)
    then have "unat (bCSWStatus csw) = 0"
      by linarith
    then show ?thesis
      by (simp add: unat_eq_zero)
  qed
  ultimately show ?thesis
    using ok s3 by (auto simp: UMASS_BBB_CSW_SIZE_def)
qed

end

end
