(* ===== verification/Usb_Stick.thy ===== *)
theory Usb_Stick
  imports Usb_Storage
begin

text \<open>
  The USB storage driver with a disk behind it.  \<open>bulk_only\<close> says what a device that keeps to the Bulk-Only protocol
  does, \<open>disk_target\<close> what a SCSI disk answers; in the locale \<open>stick\<close> the driver finds such a disk with its
  geometry and reads exactly its blocks, so that it meets the contract of the block devices.  Two lemmas show
  where the driver's handling of failures goes wrong.
\<close>

section \<open>A stick that speaks the protocol\<close>

text \<open>
  A device whose logical unit answers a command block with the data \<open>target\<close> gives for it.  After it has
  received a command wrapper it hands out the data, if there are any, and then a status block with the tag of the
  wrapper, residue 0 and status \<open>GOOD\<close>; what it does depends on the line only, not on the driver's variables.
\<close>

definition good_urb :: "u8 list \<Rightarrow> nat \<Rightarrow> urb" where
  "good_urb bytes n = \<lparr>urb_err = 0, urb_status = 0, urb_act_len = int n, urb_data = bytes\<rparr>"

definition umass_bbb_csw :: "u32 \<Rightarrow> u32 \<Rightarrow> u8 \<Rightarrow> u8 list" where
  "umass_bbb_csw tag residue status =
     bytes_of_u32 CSWSIGNATURE @ bytes_of_u32 tag @ bytes_of_u32 residue @ [status]"

lemma csw_fields [simp]:
  "length (umass_bbb_csw tag residue status) = 13" "dCSWSignature (umass_bbb_csw tag residue status) = CSWSIGNATURE"
  "dCSWTag (umass_bbb_csw tag residue status) = tag" "dCSWDataResidue (umass_bbb_csw tag residue status) = residue"
  "bCSWStatus (umass_bbb_csw tag residue status) = status"
  by (simp_all add: umass_bbb_csw_def dCSWSignature_def dCSWTag_def dCSWDataResidue_def bCSWStatus_def csw_word_def)
    (simp_all add: bytes_of_u32_def)

type_synonym scsi_target = "u8 list \<Rightarrow> u8 list option"

definition status_ready :: "usb_bus \<Rightarrow> us_data \<Rightarrow> u32 \<Rightarrow> u8 list \<Rightarrow> bool" where
  "status_ready bus us tag line \<longleftrightarrow>
     (\<forall>s. usb_line s = line \<longrightarrow>
        (\<exists>t. submit_bulk_msg bus (pusb_dev us) (usb_rcvbulkpipe (ep_in us)) [] 13 s
            = (good_urb (umass_bbb_csw tag 0 0) 13, t) \<and> usb_kept t = usb_kept s))"

definition data_ready :: "usb_bus \<Rightarrow> us_data \<Rightarrow> u32 \<Rightarrow> u8 list \<Rightarrow> u8 list \<Rightarrow> bool" where
  "data_ready bus us tag data line \<longleftrightarrow>
     (if data = [] then status_ready bus us tag line
      else \<forall>s. usb_line s = line \<longrightarrow>
        (\<exists>t. submit_bulk_msg bus (pusb_dev us) (usb_rcvbulkpipe (ep_in us)) [] (length data) s
            = (good_urb data (length data), t) \<and> usb_kept t = usb_kept s \<and> status_ready bus us tag (usb_line t)))"

definition bulk_only :: "usb_bus \<Rightarrow> us_data \<Rightarrow> u8 \<Rightarrow> scsi_target \<Rightarrow> bool" where
  "bulk_only bus us lun target \<longleftrightarrow>
     (\<forall>cmd data tag pad s. target cmd = Some data \<longrightarrow> length cmd = 12 \<longrightarrow> length pad = 4 \<longrightarrow>
        (\<exists>t. submit_bulk_msg bus (pusb_dev us) (usb_sndbulkpipe (ep_out us))
            (umass_bbb_cbw tag (of_nat (length data)) (if US_DIRECTION (cmd ! 0) then CBWFLAGS_IN else CBWFLAGS_OUT)
              lun 12 (cmd @ pad)) 31 s = (good_urb [] 31, t) \<and>
          usb_kept t = usb_kept s \<and> data_ready bus us tag data (usb_line t)))"

lemma usb_bulk_msg_good:
  assumes "submit_bulk_msg bus dev pipe data len (set_usb_status dev USB_ST_NOT_PROC s) = (good_urb bytes n, t)"
    and "length bytes \<le> len"
  shows "usb_bulk_msg bus dev pipe data (int len) timeout s = (0, Some (int n), bytes, set_usb_status dev 0 t)"
  using assms by (simp add: usb_bulk_msg_def good_urb_def Let_def wait_status_def) (simp add: set_usb_status_def)

lemma store_over_full [simp]: "length bytes = length buf \<Longrightarrow> store_over bytes buf = bytes"
  by (simp add: store_over_def)

lemma length_store_over [simp]: "length (store_over bytes buf) = length buf"
  by (simp add: store_over_def)

lemma length_stale_bytes [simp]: "length (stale_bytes bus n s) = n"
  by (simp add: stale_bytes_def)

lemma bbb_status_good:
  assumes "status_ready bus us tag (usb_line s)" and "length csw = 13"
  shows "\<exists>t. bbb_status bus us (Suc n) csw s = (0, umass_bbb_csw tag 0 0, t) \<and> usb_kept t = usb_kept s"
proof -
  obtain t where t: "submit_bulk_msg bus (pusb_dev us) (usb_rcvbulkpipe (ep_in us)) [] 13
      (set_usb_status (pusb_dev us) USB_ST_NOT_PROC s) = (good_urb (umass_bbb_csw tag 0 0) 13, t)" "usb_kept t = usb_kept s"
    using assms(1) unfolding status_ready_def by (metis usb_kept_simps(1) usb_line_simps(1))
  then show ?thesis
    using usb_bulk_msg_good [OF t(1)] assms(2) by (simp add: UMASS_BBB_CSW_SIZE_def)
qed

lemma bbb_data_good:
  assumes "data_ready bus us tag data (usb_line s)" and "ccb_datalen srb = of_nat (length data)" "ccb_pdata srb = []"
    and "data \<noteq> [] \<longrightarrow> US_DIRECTION (ccb_cmd srb ! 0)" and "length data < 2 ^ 31"
  shows "\<exists>t. bbb_data bus us srb s = (Some (int (length data)), data, t) \<and> usb_kept t = usb_kept s \<and>
    status_ready bus us tag (usb_line t)"
proof (cases "data = []")
  case True
  then show ?thesis
    using assms(1,2) by (simp add: bbb_data_def data_ready_def)
next
  case False
  have len: "sint (ccb_datalen srb) = int (length data)" "ccb_datalen srb \<noteq> 0"
  proof -
    have "unat (ccb_datalen srb) = length data"
      using assms(2,5) by (simp add: unat_of_nat take_bit_nat_eq_self)
    then have "uint (ccb_datalen srb) = int (length data)"
      by (metis of_nat_unat)
    then show "sint (ccb_datalen srb) = int (length data)" "ccb_datalen srb \<noteq> 0"
      using assms(5) False by (auto simp: sint_uint signed_take_bit_int_eq_self)
  qed
  obtain t where t: "submit_bulk_msg bus (pusb_dev us) (usb_rcvbulkpipe (ep_in us)) [] (length data)
      (set_usb_status (pusb_dev us) USB_ST_NOT_PROC s) = (good_urb data (length data), t)" "usb_kept t = usb_kept s"
    "status_ready bus us tag (usb_line t)"
    using assms(1) False unfolding data_ready_def by (metis usb_kept_simps(1) usb_line_simps(1))
  then show ?thesis
    using usb_bulk_msg_good [OF t(1)] assms(3,4) False len by (simp add: bbb_data_def Let_def)
qed

lemma BBB_comdat_good:
  assumes dev: "bulk_only bus us lun target" "target cmd = Some data" "length cmd = 12"
    and srb: "srb = \<lparr>ccb_cmd = cmd, ccb_lun = lun, ccb_cmdlen = 12, ccb_datalen = of_nat (length data), ccb_pdata = []\<rparr>"
  shows "\<exists>t. usb_stor_BBB_comdat bus us srb s = (0, t) \<and> usb_kept t = usb_kept (s\<lparr>CBWTag := CBWTag s + 1\<rparr>) \<and>
    data_ready bus us (CBWTag s) data (usb_line t)"
proof -
  define pad where "pad = drop 12 (stale_bytes bus 16 s)"
  have cdb: "store_over (take (unat (ccb_cmdlen srb)) (ccb_cmd srb)) (stale_bytes bus CBWCDBLENGTH s) = cmd @ pad" "length pad = 4"
    using dev(3) by (simp_all add: srb store_over_def pad_def CBWCDBLENGTH_def)
  let ?s = "set_usb_status (pusb_dev us) USB_ST_NOT_PROC (s\<lparr>CBWTag := CBWTag s + 1\<rparr>)"
  obtain t where t: "submit_bulk_msg bus (pusb_dev us) (usb_sndbulkpipe (ep_out us))
      (umass_bbb_cbw (CBWTag s) (of_nat (length data)) (if US_DIRECTION (cmd ! 0) then CBWFLAGS_IN else CBWFLAGS_OUT)
        lun 12 (cmd @ pad)) 31 ?s = (good_urb [] 31, t)"
    "usb_kept t = usb_kept ?s" "data_ready bus us (CBWTag s) data (usb_line t)"
    using dev cdb(2) unfolding bulk_only_def by blast
  then show ?thesis
    using usb_bulk_msg_good [OF t(1)] cdb(1)
    by (simp add: usb_stor_BBB_comdat_def Let_def UMASS_BBB_CBW_SIZE_def split del: if_split)
      (simp add: srb CBWCDBLENGTH_def UMASS_BBB_CBW_SIZE_def split del: if_split)
qed

lemma BBB_transport_good:
  assumes dev: "bulk_only bus us lun target" "target cmd = Some data" "length cmd = 12"
    and srb: "srb = \<lparr>ccb_cmd = cmd, ccb_lun = lun, ccb_cmdlen = 12, ccb_datalen = of_nat (length data), ccb_pdata = []\<rparr>"
    and len: "data \<noteq> [] \<longrightarrow> US_DIRECTION (cmd ! 0)" "length data < 2 ^ 31"
  shows "\<exists>t. usb_stor_BBB_transport bus us srb s = (0, data, t) \<and> usb_kept t = usb_kept (s\<lparr>CBWTag := CBWTag s + 1\<rparr>)"
proof -
  obtain s1 where s1: "usb_stor_BBB_comdat bus us srb s = (0, s1)" "usb_kept s1 = usb_kept (s\<lparr>CBWTag := CBWTag s + 1\<rparr>)"
    "data_ready bus us (CBWTag s) data (usb_line s1)"
    using BBB_comdat_good [OF dev srb] by blast
  let ?s1 = "if us_flags s1 (us_slot us) AND USB_READY = 0 then mdelay 5 s1 else s1"
  have "data_ready bus us (CBWTag s) data (usb_line ?s1)" "usb_kept ?s1 = usb_kept s1"
    using s1(3) by simp_all
  then obtain s2 where s2: "bbb_data bus us srb ?s1 = (Some (int (length data)), data, s2)" "usb_kept s2 = usb_kept s1"
    "status_ready bus us (CBWTag s) (usb_line s2)"
    using bbb_data_good [of bus us "CBWTag s" data ?s1 srb] len by (auto simp: srb)
  obtain s3 where s3: "bbb_status bus us 1 (stale_bytes bus (nat UMASS_BBB_CSW_SIZE) s2) s2
      = (0, umass_bbb_csw (CBWTag s) 0 0, s3)" "usb_kept s3 = usb_kept s2"
    using bbb_status_good [OF s2(3), of "stale_bytes bus 13 s2" 0] by (auto simp: UMASS_BBB_CSW_SIZE_def)
  have tag: "CBWTag s3 = CBWTag s + 1" and kept: "usb_kept s3 = usb_kept (s\<lparr>CBWTag := CBWTag s + 1\<rparr>)"
    using s1(2) s2(2) s3(2) by (simp_all add: usb_kept_def)
  show ?thesis
    unfolding usb_stor_BBB_transport_def Let_def s1(1) prod.case s2(1) option.case s3(1)
    by (simp add: tag kept srb CSWSTATUS_PHASE_def CSWSTATUS_FAILED_def)
qed

section \<open>A disk behind the transport\<close>

text \<open>What the logical unit of a disk with \<open>lba\<close> blocks of \<open>bsz\<close> bytes answers (SCSI block commands).\<close>

definition be_bytes :: "u32 \<Rightarrow> u8 list" where
  "be_bytes w = rev (bytes_of_u32 w)"

definition read_10_cdb :: "u32 \<Rightarrow> u16 \<Rightarrow> u8 list" where
  "read_10_cdb start blocks =
     [ucast (drop_bit 24 start), ucast (drop_bit 16 start), ucast (drop_bit 8 start), ucast start, 0,
      ucast (drop_bit 8 blocks), ucast blocks]"

definition disk_target :: "scsi_target \<Rightarrow> u8 \<Rightarrow> u8 list \<Rightarrow> (u32 \<Rightarrow> u8 list) \<Rightarrow> u32 \<Rightarrow> u32 \<Rightarrow> bool" where
  "disk_target target lun inq disk lba bsz \<longleftrightarrow>
     target (scsi_cmd SCSI_INQUIRY lun [0, 0, 36]) = Some inq \<and>
     length inq = 36 \<and> inq ! 0 AND 0x1f \<noteq> 0x1f \<and> inq ! 0 AND 0x1f \<noteq> 0x0d \<and>
     target (scsi_cmd SCSI_TST_U_RDY lun []) = Some [] \<and>
     target (scsi_cmd SCSI_RD_CAPAC lun []) = Some (be_bytes (lba - 1) @ be_bytes bsz) \<and>
     (\<forall>b. length (disk b) = unat bsz) \<and> unat bsz \<le> 2 ^ 16 \<and>
     (\<forall>b n. unat b + unat n \<le> unat lba \<longrightarrow>
        target (scsi_cmd SCSI_READ10 lun (read_10_cdb b n)) = Some (sectors disk b (unat n)))"

lemma directions [simp]:
  "US_DIRECTION SCSI_INQUIRY" "US_DIRECTION SCSI_RD_CAPAC" "US_DIRECTION SCSI_READ10" "US_DIRECTION SCSI_REQ_SENSE"
  by (simp_all add: US_DIRECTION_def us_direction_def SCSI_INQUIRY_def SCSI_RD_CAPAC_def SCSI_READ10_def SCSI_REQ_SENSE_def)

lemma scsi_cmd_simps [simp]: "length (scsi_cmd opc lun rest) = 12" "scsi_cmd opc lun rest ! 0 = opc"
  by (simp_all add: scsi_cmd_def, simp add: store_over_def)

lemma length_be_bytes: "length (be_bytes w) = 4"
  by (simp add: be_bytes_def)

lemma be32_at_be_bytes: "be32_at (be_bytes w @ rest) 0 = w" "length pre = 4 \<Longrightarrow> be32_at (pre @ be_bytes w) 4 = w"
  by (simp_all add: be32_at_def be_bytes_def bytes_of_u32_def nth_append)

text \<open>A logical unit behind the Bulk-Only transport, and a disk.\<close>

locale bulk_unit =
  fixes bus :: usb_bus and us :: us_data and lun :: u8 and target :: scsi_target
  assumes bulk_protocol: "us_protocol us = US_PR_BULK"
    and protocol: "bulk_only bus us lun target"
begin

lemma transport_good:
  assumes "target (scsi_cmd opc lun rest) = Some data" and "data \<noteq> [] \<longrightarrow> US_DIRECTION opc" "length data < 2 ^ 31"
    and "len = of_nat (length data)"
  shows "\<exists>t. transport bus us (scsi_ccb opc lun rest len) s = (0, data, t) \<and> kept t = kept s \<and> us_flags t = us_flags s"
proof -
  obtain t where t: "usb_stor_BBB_transport bus us (scsi_ccb opc lun rest len) s = (0, data, t)"
    "usb_kept t = usb_kept (s\<lparr>CBWTag := CBWTag s + 1\<rparr>)"
    using BBB_transport_good [OF protocol assms(1) scsi_cmd_simps(1), of _ s] assms(2-4)
    by (fastforce simp: scsi_ccb_def)
  then show ?thesis
    by (auto simp: transport_def bulk_protocol usb_kept_def)
qed

lemma inquiry_good:
  assumes "target (scsi_cmd SCSI_INQUIRY lun [0, 0, 36]) = Some inq" "length inq = 36"
  shows "\<exists>t. usb_inquiry bus us lun 5 (stale_bytes bus 36 s) s = (0, inq, t) \<and> kept t = kept s"
proof -
  obtain t where "transport bus us (scsi_ccb SCSI_INQUIRY lun [0, 0, 36] 36) s = (0, inq, t)" "kept t = kept s"
    using transport_good [OF assms(1), of 36 s] assms(2) by auto
  moreover have "usb_inquiry bus us lun 5 = usb_inquiry bus us lun (Suc 4)"
    by (simp only: eval_nat_numeral)
  ultimately show ?thesis
    using assms(2) by (simp only: usb_inquiry.simps) simp
qed

lemma unit_ready_good:
  assumes "target (scsi_cmd SCSI_TST_U_RDY lun []) = Some []"
  shows "\<exists>t. usb_test_unit_ready bus us lun 11 s = (0, t) \<and> kept t = kept s"
proof -
  obtain t where "transport bus us (scsi_ccb SCSI_TST_U_RDY lun [] 0) s = (0, [], t)" "kept t = kept s"
    using transport_good [OF assms, of 0 s] by auto
  moreover have "usb_test_unit_ready bus us lun 11 = usb_test_unit_ready bus us lun (Suc 10)"
    by (simp only: eval_nat_numeral)
  ultimately show ?thesis
    by (simp only: usb_test_unit_ready.simps) (simp add: USB_STOR_TRANSPORT_GOOD_def)
qed

end

locale stick = bulk_unit +
  fixes inq :: "u8 list" and disk :: "u32 \<Rightarrow> u8 list" and lba bsz :: u32
  assumes unit: "disk_target target lun inq disk lba bsz"
begin

lemma unit_facts:
  "target (scsi_cmd SCSI_INQUIRY lun [0, 0, 36]) = Some inq" "length inq = 36"
  "inq ! 0 AND 0x1f \<noteq> 0x1f" "inq ! 0 AND 0x1f \<noteq> 0x0d"
  "target (scsi_cmd SCSI_TST_U_RDY lun []) = Some []"
  "target (scsi_cmd SCSI_RD_CAPAC lun []) = Some (be_bytes (lba - 1) @ be_bytes bsz)"
  "length (disk b) = unat bsz" "unat bsz \<le> 2 ^ 16"
  "unat b + unat n \<le> unat lba \<Longrightarrow> target (scsi_cmd SCSI_READ10 lun (read_10_cdb b n)) = Some (sectors disk b (unat n))"
  using unit by (simp_all add: disk_target_def)

lemma capacity_good:
  "\<exists>t. usb_read_capacity bus us lun 4 (replicate 8 0) s = (0, be_bytes (lba - 1) @ be_bytes bsz, t) \<and> kept t = kept s"
proof -
  have len: "length (be_bytes w) = 4" for w
    by (simp add: be_bytes_def)
  obtain t where "transport bus us (scsi_ccb SCSI_RD_CAPAC lun [] 8) s = (0, be_bytes (lba - 1) @ be_bytes bsz, t)" "kept t = kept s"
    using transport_good [OF unit_facts(6), of 8 s] by (auto simp: len)
  moreover have "usb_read_capacity bus us lun 4 = usb_read_capacity bus us lun (Suc 3)"
    by (rule arg_cong) simp
  ultimately show ?thesis
    by (simp only: usb_read_capacity.simps) (simp add: USB_STOR_TRANSPORT_GOOD_def len)
qed

lemma read_10_good:
  assumes "unat b + unat n \<le> unat lba" and "unat n \<le> 256"
  shows "\<exists>t. usb_read_10_ccb bus us lun (bsz * ucast n) b n s = (0, sectors disk b (unat n), t) \<and> kept t = kept s"
proof -
  have d: "length (sectors disk b (unat n)) = unat n * unat bsz" "unat bsz \<le> 2 ^ 16"
    using unit_facts(7,8) by (simp_all add: length_sectors)
  have "unat n * unat bsz \<le> 256 * 2 ^ 16"
    using d(2) assms(2) by (intro mult_mono) simp_all
  then have len: "unat n * unat bsz < 2 ^ 31"
    by simp
  have "unat (bsz * ucast n) = unat n * unat bsz"
  proof -
    have "unat (ucast n :: u32) = unat n"
      using assms(2) by (simp add: unsigned_ucast_eq take_bit_nat_eq_self)
    then show ?thesis
      using len by (simp add: unat_word_ariths mult.commute)
  qed
  moreover from this have "bsz * ucast n = of_nat (length (sectors disk b (unat n)))"
    using d(1) by (metis of_nat_unat ucast_id)
  moreover obtain t where "transport bus us (scsi_ccb SCSI_READ10 lun (read_10_cdb b n) (bsz * ucast n)) s
      = (0, sectors disk b (unat n), t)" "kept t = kept s"
    using transport_good [OF unit_facts(9) [OF assms(1)] _ _ calculation(2), of s] len d(1) by auto
  moreover have "store_over (sectors disk b (unat n)) (stale_bytes bus (unat (bsz * ucast n)) s) = sectors disk b (unat n)"
    by (rule store_over_full) (simp only: length_stale_bytes d(1) calculation(1))
  ultimately show ?thesis
    by (simp add: usb_read_10_ccb_def read_10_cdb_def Let_def)
qed

lemma stick_answers_bus:
  assumes "bd_priv desc = Some us" "bd_lun desc = lun" "bd_blksz desc = bsz"
  shows "stick_answers (usb_read_media bus md) desc disk (unat lba)"
  using read_10_good assms
  by (auto simp: stick_answers_def stick_there_def usb_read_media_def bus_read_10_def USB_MAX_XFER_BLK_def)

end

text \<open>What the scan notes about the stick.\<close>

definition stick_desc :: "nat \<Rightarrow> usb_device \<Rightarrow> us_data \<Rightarrow> nat \<Rightarrow> u8 list \<Rightarrow> (u32 \<Rightarrow> u8 list) \<Rightarrow> u32 \<Rightarrow> u32 \<Rightarrow> block_dev_desc" where
  "stick_desc d dev us lun inq disk lba bsz =
     (new_desc d us lun)
       \<lparr>bd_target := devnum dev, bd_removable := (inq ! 1 AND 0x80 = 0x80), bd_lba := lba, bd_blksz := bsz,
        bd_type := inq ! 0,
        bd_part_type := (if test_block_type (disk 0) = DOS_MBR then PART_TYPE_DOS else PART_TYPE_UNKNOWN)\<rparr>"

context stick
begin

lemma init_part_good:
  assumes desc: "bd_if_type desc = IF_TYPE_USB" "bd_priv desc = Some us" "bd_lun desc = lun" "bd_blksz desc = bsz" "bd_lba desc = lba"
    and there: "stick_there desc s" "bd_dev desc < 256" and size: "512 \<le> unat bsz" "0 < unat lba"
  shows "\<exists>t. init_part cfg e (usb_read_media bus md) desc s
    = Some (desc\<lparr>bd_part_type := (if test_block_type (disk 0) = DOS_MBR then PART_TYPE_DOS else PART_TYPE_UNKNOWN)\<rparr>, t) \<and>
    kept t = kept s"
proof -
  have lba: "unat lba < 2 ^ 32"
    using unsigned_less [of lba, where 'a = nat] by simp
  obtain t where "usb_stor_read cfg e (usb_read_media bus md) (bd_dev desc) 0 1 s = (1, disk 0, t)" "kept t = kept s"
    using usb_stor_read_ok [OF stick_answers_bus [OF desc(2-4)] lba _ there, of 0 1 cfg e] size(2) desc(2)
    by (auto simp: sectors_1)
  then show ?thesis
    using desc size(1) unit_facts(7) by (simp add: init_part_def test_part_dos_def read_block_def block_read_def)
qed

lemma get_info_good:
  assumes desc: "d = new_desc n us (unat lun)" and s: "usb_dev_desc s = found @ [d]" "length found = n" "n < 256"
    and size: "512 \<le> unat bsz" "0 < unat lba"
  shows "\<exists>t. usb_stor_get_info cfg e bus (usb_read_media bus md) dev us d s
    = Some (1, stick_desc n dev us (unat lun) inq disk lba bsz, t)"
proof -
  have lun: "bd_lun d = lun"
    by (simp add: desc new_desc_def)
  let ?d1 = "d\<lparr>bd_target := devnum dev, bd_removable := (inq ! 1 AND 0x80 = 0x80)\<rparr>"
  let ?d2 = "?d1\<lparr>bd_lba := lba, bd_blksz := bsz, bd_type := inq ! 0\<rparr>"
  obtain s1 where s1: "usb_inquiry bus us lun 5 (stale_bytes bus 36 s) s = (0, inq, s1)" "kept s1 = kept s"
    using inquiry_good [OF unit_facts(1,2)] by blast
  obtain s2 where s2: "usb_test_unit_ready bus us lun 11 s1 = (0, s2)" "kept s2 = kept s1"
    using unit_ready_good [OF unit_facts(5)] by blast
  obtain s3 where s3: "usb_read_capacity bus us lun 4 (replicate 8 0) s2 = (0, be_bytes (lba - 1) @ be_bytes bsz, s3)"
    "kept s3 = kept s2"
    using capacity_good by blast
  define s4 where "s4 = set_last_desc ?d2 (set_us_flags us (us_flags s3 (us_slot us) AND NOT USB_READY) s3)"
  have "usb_dev_desc s3 = found @ [d]"
    using s1(2) s2(2) s3(2) s(1) by (simp add: kept_defs)
  then have "stick_there ?d2 s4"
    using s(2) by (simp add: s4_def set_last_desc_def set_us_flags_def stick_there_def desc new_desc_def nth_append)
  then obtain t where "init_part cfg e (usb_read_media bus md) ?d2 s4
      = Some (?d2\<lparr>bd_part_type := (if test_block_type (disk 0) = DOS_MBR then PART_TYPE_DOS else PART_TYPE_UNKNOWN)\<rparr>, t)"
    using init_part_good [of ?d2 s4 cfg e md] s(3) size by (auto simp: desc new_desc_def)
  moreover have "be32_at (be_bytes (lba - 1) @ be_bytes bsz) 0 + 1 = lba" "be32_at (be_bytes (lba - 1) @ be_bytes bsz) 4 = bsz"
    by (simp_all add: be32_at_be_bytes length_be_bytes)
  moreover have "(if inq ! 1 AND 0x80 = 0x80 then d\<lparr>bd_target := devnum dev, bd_removable := True\<rparr> else d\<lparr>bd_target := devnum dev\<rparr>) = ?d1"
    by (simp add: desc new_desc_def)
  moreover have "stick_desc n dev us (unat lun) inq disk lba bsz
      = ?d2\<lparr>bd_part_type := (if test_block_type (disk 0) = DOS_MBR then PART_TYPE_DOS else PART_TYPE_UNKNOWN)\<rparr>"
    by (simp add: stick_desc_def desc)
  ultimately show ?thesis
    using unit_facts(3,4) s1(1) s2(1) s3(1)
    by (simp add: usb_stor_get_info_def Let_def lun s4_def split del: if_split)
qed

end

text \<open>Devices on the bus: a Bulk-Only disk with one alternate setting, and devices that are no storage.\<close>

definition bulk_device :: "usb_device \<Rightarrow> us_data \<Rightarrow> bool" where
  "bulk_device dev us \<longleftrightarrow>
     (case if_desc dev of
        [] \<Rightarrow> False
      | iface # _ \<Rightarrow>
          bDeviceClass dev = 0 \<and> bInterfaceClass iface = USB_CLASS_MASS_STORAGE \<and> bInterfaceSubClass iface = US_SC_SCSI \<and>
          bInterfaceProtocol iface = US_PR_BULK \<and> num_altsetting iface = 1 \<and>
          us = foldl probe_endpoint
            \<lparr>us_slot = 0, pusb_dev = usb_index dev, us_ifnum = 0, ep_in = 0, ep_out = 0, ep_int = 0,
             us_subclass = US_SC_SCSI, us_protocol = US_PR_BULK, irqinterval = 0\<rparr> (ep_desc iface) \<and>
          ep_in us \<noteq> 0 \<and> ep_out us \<noteq> 0 \<and> ep_int us = 0)"

definition no_storage :: "usb_device option \<Rightarrow> bool" where
  "no_storage dev \<longleftrightarrow>
     (case dev of
        None \<Rightarrow> True
      | Some dev \<Rightarrow> bDeviceClass dev \<noteq> 0 \<or>
          (case if_desc dev of [] \<Rightarrow> True | iface # _ \<Rightarrow> bInterfaceClass iface \<noteq> USB_CLASS_MASS_STORAGE))"

lemma probe_endpoint_fields [simp]:
  "us_slot (foldl probe_endpoint ss eps) = us_slot ss" "us_protocol (foldl probe_endpoint ss eps) = us_protocol ss"
  "us_subclass (foldl probe_endpoint ss eps) = us_subclass ss" "pusb_dev (foldl probe_endpoint ss eps) = pusb_dev ss"
  by (induction eps arbitrary: ss) (simp_all add: probe_endpoint_def Let_def)

lemma probe_no_storage: "no_storage (Some dev) \<Longrightarrow> usb_storage_probe bus dev slot s = (None, s)"
  by (auto simp: no_storage_def usb_storage_probe_def split: list.splits)

lemma probe_bulk_device:
  assumes "bulk_device dev us"
  shows "\<exists>t. usb_storage_probe bus dev 0 s = (Some us, t) \<and> kept t = kept s"
proof -
  define ss where "ss = \<lparr>us_slot = 0, pusb_dev = usb_index dev, us_ifnum = 0, ep_in = 0, ep_out = 0, ep_int = 0,
    us_subclass = US_SC_SCSI, us_protocol = US_PR_BULK, irqinterval = 0\<rparr>"
  from assms obtain iface rest where dev: "if_desc dev = iface # rest" "bDeviceClass dev = 0"
    "bInterfaceClass iface = USB_CLASS_MASS_STORAGE" "bInterfaceSubClass iface = US_SC_SCSI"
    "bInterfaceProtocol iface = US_PR_BULK" "num_altsetting iface = 1" and us: "foldl probe_endpoint ss (ep_desc iface) = us"
    "ep_in us \<noteq> 0" "ep_out us \<noteq> 0" "ep_int us = 0"
    by (auto simp: bulk_device_def ss_def split: list.splits)
  have fields: "us_protocol us = US_PR_BULK" "us_subclass us = US_SC_SCSI"
    by (simp_all add: us(1) [symmetric] ss_def)
  have range: "\<not> US_SC_SCSI < US_SC_MIN" "\<not> US_SC_MAX < US_SC_SCSI" "US_PR_BULK \<noteq> US_PR_CBI"
    by (simp_all add: US_SC_SCSI_def US_SC_MIN_def US_SC_MAX_def US_PR_BULK_def US_PR_CBI_def)
  have "usb_storage_probe bus dev 0 s = (Some us, set_us_flags ss 0 s)"
    by (simp add: usb_storage_probe_def usb_set_interface_def dev range Let_def us [unfolded ss_def] fields ss_def
        del: probe_endpoint_fields)
  then show ?thesis
    by simp
qed

lemma bulk_device_protocol: "bulk_device dev us \<Longrightarrow> us_protocol us = US_PR_BULK"
  by (auto simp: bulk_device_def split: list.splits)

lemma probe_device_no_storage:
  assumes "no_storage (Some dev)" "length (usb_dev_desc s) \<noteq> USB_MAX_STOR_DEV"
  shows "usb_stor_probe_device cfg e bus md (Some dev) s = Some (0, s)"
  using assms by (simp add: usb_stor_probe_device_def probe_no_storage)

text \<open>What the enumeration found does not change while the driver scans.\<close>

definition bus_devices :: "usb_bus \<Rightarrow> usb_device list \<Rightarrow> bool" where
  "bus_devices bus devs \<longleftrightarrow> (\<forall>i s. usb_get_dev_index bus i s = (if i < length devs then Some (devs ! i) else None))"

lemma scan_no_storage:
  assumes "bus_devices bus devs" "length (usb_dev_desc s) \<noteq> USB_MAX_STOR_DEV"
    and "list_all (\<lambda>i. i < length devs \<longrightarrow> no_storage (Some (devs ! i))) is"
  shows "scan_devices cfg e bus md is s = Some s"
    and "list_all (\<lambda>i. i < length devs) is \<Longrightarrow> scan_devices cfg e bus md (is @ js) s = scan_devices cfg e bus md js s"
  using assms
  by (induction "is")
    (auto simp: bus_devices_def probe_device_no_storage usb_stor_probe_device_def [of _ _ _ _ None] ENOENT_def)

context stick
begin

lemma probe_stick:
  assumes "bulk_device dev us" "\<And>s. fst (usb_get_max_lun bus us s) = 0" "lun = 0" "quiet_bus bus"
    and "usb_dev_desc s = []" and "512 \<le> unat bsz" "0 < unat lba"
  shows "\<exists>t. usb_stor_probe_device cfg e bus (usb_read_media bus md) (Some dev) s = Some (0, t) \<and>
    usb_dev_desc t = [stick_desc 0 dev us 0 inq disk lba bsz]"
proof -
  obtain s1 where s1: "usb_storage_probe bus dev 0 s = (Some us, s1)" "kept s1 = kept s"
    using probe_bulk_device [OF assms(1)] by blast
  obtain s2 where s2: "usb_get_max_lun bus us s1 = (0, s2)" "usb_kept s2 = usb_kept s1"
    using assms(2) [of s1] quiet_bus.usb_get_max_lun_quiet [OF assms(4)] by (cases "usb_get_max_lun bus us s1") auto
  have none: "usb_dev_desc s2 = []"
    using s1(2) s2(2) assms(5) by (simp add: usb_kept_def kept_defs)
  obtain t where "usb_stor_get_info cfg e bus (usb_read_media bus md) dev us (new_desc 0 us 0)
      (s2\<lparr>usb_dev_desc := [new_desc 0 us 0]\<rparr>) = Some (1, stick_desc 0 dev us 0 inq disk lba bsz, t)"
    using get_info_good [of "new_desc 0 us 0" 0 "s2\<lparr>usb_dev_desc := [new_desc 0 us 0]\<rparr>" "[]" cfg e md dev] assms(3,6,7) by auto
  then show ?thesis
    using s1(1) s2(1) none assms(5) by (simp add: usb_stor_probe_device_def USB_MAX_STOR_DEV_def Let_def)
qed

text \<open>The scan finds the stick, wherever it is among the devices of the bus.\<close>

lemma scan_finds_stick:
  assumes dev: "bulk_device dev us" "\<And>s. fst (usb_get_max_lun bus us s) = 0" "lun = 0" "quiet_bus bus"
    and bus: "bus_devices bus (pre @ dev # post)" "length pre < USB_MAX_DEVICE"
      "list_all (\<lambda>d. no_storage (Some d)) pre" "list_all (\<lambda>d. no_storage (Some d)) post"
    and size: "512 \<le> unat bsz" "0 < unat lba"
  shows "\<exists>t. usb_stor_scan_bus cfg e bus (usb_read_media bus md) s = Some t \<and>
    usb_dev_desc t = [stick_desc 0 dev us 0 inq disk lba bsz]"
proof -
  let ?md = "usb_read_media bus md" and ?p = "length pre" and ?devs = "pre @ dev # post"
  have split: "[0..<USB_MAX_DEVICE] = [0..<?p] @ ?p # [Suc ?p..<USB_MAX_DEVICE]"
    using bus(2) upt_add_eq_append [of 0 ?p "USB_MAX_DEVICE - ?p"] by (simp add: upt_conv_Cons)
  have pre: "list_all (\<lambda>i. i < length ?devs \<longrightarrow> no_storage (Some (?devs ! i))) [0..<?p]" "list_all (\<lambda>i. i < length ?devs) [0..<?p]"
    using bus(3) by (simp_all add: list_all_iff nth_append)
  have post: "list_all (\<lambda>i. i < length ?devs \<longrightarrow> no_storage (Some (?devs ! i))) [Suc ?p..<USB_MAX_DEVICE]"
    using bus(4) by (auto simp: list_all_iff nth_append nth_Cons split: nat.splits)
  have at: "usb_get_dev_index bus ?p s = Some dev" for s
    using bus(1) by (simp add: bus_devices_def)
  have five: "length ([] :: block_dev_desc list) \<noteq> USB_MAX_STOR_DEV" "length [d] \<noteq> USB_MAX_STOR_DEV" for d :: block_dev_desc
    by (simp_all add: USB_MAX_STOR_DEV_def)
  obtain t where t: "usb_stor_probe_device cfg e bus ?md (Some dev) (s\<lparr>usb_dev_desc := []\<rparr>) = Some (0, t)"
    "usb_dev_desc t = [stick_desc 0 dev us 0 inq disk lba bsz]"
    using probe_stick [OF dev _ size, of "s\<lparr>usb_dev_desc := []\<rparr>" cfg e md] by auto
  have "usb_stor_scan_bus cfg e bus ?md s = scan_devices cfg e bus ?md (?p # [Suc ?p..<USB_MAX_DEVICE]) (s\<lparr>usb_dev_desc := []\<rparr>)"
    unfolding usb_stor_scan_bus_def split using scan_no_storage(2) [OF bus(1) _ pre, of "s\<lparr>usb_dev_desc := []\<rparr>"] five(1) by simp
  also have "\<dots> = Some t"
    using t scan_no_storage(1) [OF bus(1) _ post, of t cfg e ?md] five(2) by (simp add: at)
  finally show ?thesis
    using t(2) by blast
qed

end

section \<open>When the device does not answer\<close>

text \<open>A failing \<open>READ CAPACITY\<close>: the two fallback values are stored in host order but read back as big-endian
  words.\<close>

lemma capacity_fallback:
  assumes "usb_inquiry bus us (bd_lun d) 5 (stale_bytes bus 36 s) s = (0, inq, s1)"
    and "inq ! 0 AND 0x1f \<noteq> 0x1f" "inq ! 0 AND 0x1f \<noteq> 0x0d"
    and "usb_test_unit_ready bus us (bd_lun d) 11 s1 = (0, s2)"
    and "usb_read_capacity bus us (bd_lun d) 4 (replicate 8 0) s2 = (r, cap, s3)" "r \<noteq> 0"
    and "usb_stor_get_info cfg e bus md dev us d s = Some (n, d', t)"
  shows "n = 1 \<and> bd_lba d' = 0x400B0001 \<and> bd_blksz d' = 0x20000"
  using assms
  by (auto simp: usb_stor_get_info_def init_part_def be32_at_def bytes_of_u32_def u32_of_bytes_def Let_def
      split: if_splits Option.bind_splits)

text \<open>After a stall of the IN endpoint the recovery clears the OUT endpoint of the same number: the direction bit is
  missing from the request.\<close>

lemma endpoint_number:
  "ep_in ss \<le> 0xf \<Longrightarrow> ep_in (foldl probe_endpoint ss eps) \<le> 0xf"
  by (induction eps arbitrary: ss) (simp_all add: probe_endpoint_def Let_def word_and_le1)

lemma stall_request_direction:
  assumes "ep \<le> 0xf"
  shows "(ucast (ep :: u8) :: u16) = usb_pipe_endp (usb_sndbulkpipe ep)"
    and "(ucast ep :: u16) \<noteq> usb_pipe_endp (usb_rcvbulkpipe ep)"
proof -
  have "unat ep < 2 ^ 4"
    using assms by (simp add: word_le_nat_alt)
  then have "unat (take_bit 4 ep) = unat ep"
    by (simp add: unsigned_take_bit_eq take_bit_nat_eq_self)
  then have ep: "take_bit 4 ep = ep"
    by (simp only: word_unat_eq_iff)
  have bits: "bit ep n \<longleftrightarrow> n < 4 \<and> bit ep n" for n
    by (subst ep [symmetric]) (auto simp: bit_simps)
  have mask: "(0xf :: u16) = mask 4"
    by (simp add: mask_eq_exp_minus_1)
  show "(ucast ep :: u16) = usb_pipe_endp (usb_sndbulkpipe ep)"
    by (rule bit_word_eqI) (use bits in \<open>auto simp: usb_pipe_endp_def mask bit_simps\<close>)
  have "bit (usb_pipe_endp (usb_rcvbulkpipe ep)) 7" "\<not> bit (ucast ep :: u16) 7"
    using bits [of 7] by (simp_all add: usb_pipe_endp_def bit_simps)
  then show "(ucast ep :: u16) \<noteq> usb_pipe_endp (usb_rcvbulkpipe ep)"
    by auto
qed

section \<open>Instances\<close>

text \<open>A disk as the only storage behind a root hub.  What is on the line is the last command wrapper.\<close>

definition scsi_disk :: "u8 list \<Rightarrow> (u32 \<Rightarrow> u8 list) \<Rightarrow> u32 \<Rightarrow> u32 \<Rightarrow> scsi_target" where
  "scsi_disk inq disk lba bsz cmd =
     (if cmd = scsi_cmd SCSI_INQUIRY 0 [0, 0, 36] then Some inq
      else if cmd = scsi_cmd SCSI_TST_U_RDY 0 [] then Some []
      else if cmd = scsi_cmd SCSI_RD_CAPAC 0 [] then Some (be_bytes (lba - 1) @ be_bytes bsz)
      else
        let start = be32_at cmd 2; blocks = (push_bit 8 (ucast (cmd ! 7)) OR ucast (cmd ! 8)) :: u16 in
        if cmd = scsi_cmd SCSI_READ10 0 (read_10_cdb start blocks) then Some (sectors disk start (unat blocks)) else None)"

definition target_bus :: "scsi_target \<Rightarrow> usb_device list \<Rightarrow> usb_bus" where
  "target_bus target devs =
     \<lparr>submit_control_msg = (\<lambda>dev req s. (\<lparr>urb_err = - 1, urb_status = USB_ST_STALLED, urb_act_len = 0, urb_data = []\<rparr>, s)),
      submit_bulk_msg = (\<lambda>dev pipe data len s.
        case pipe of
          usb_sndbulkpipe ep \<Rightarrow> (good_urb [] len, s\<lparr>usb_line := data\<rparr>)
        | usb_rcvbulkpipe ep \<Rightarrow>
            (case target (take 12 (drop 15 (usb_line s))) of
               None \<Rightarrow> (\<lparr>urb_err = - 1, urb_status = USB_ST_STALLED, urb_act_len = 0, urb_data = []\<rparr>, s)
             | Some d \<Rightarrow> (if len = 13 then good_urb (umass_bbb_csw (csw_word (usb_line s) 4) 0 0) 13 else good_urb d (length d), s))),
      usb_get_dev_index = (\<lambda>i s. if i < length devs then Some (devs ! i) else None),
      usb_stor_CB_transport = (\<lambda>us srb s. (- 2, [], s)),
      stale = (\<lambda>s i. 0)\<rparr>"

interpretation target_bus: quiet_bus "target_bus target devs" for target devs
  by unfold_locales
    (auto simp: target_bus_def usb_kept_def kept_defs split: usb_pipe.splits option.splits if_splits)

lemma read_10_decode:
  "be32_at (scsi_cmd opc lun (read_10_cdb b n)) 2 = b"
  "push_bit 8 (ucast (scsi_cmd opc lun (read_10_cdb b n) ! 7)) OR ucast (scsi_cmd opc lun (read_10_cdb b n) ! 8) = n"
proof -
  show "be32_at (scsi_cmd opc lun (read_10_cdb b n)) 2 = b"
    by (simp add: be32_at_def scsi_cmd_def store_over_def read_10_cdb_def)
  show "push_bit 8 (ucast (scsi_cmd opc lun (read_10_cdb b n) ! 7)) OR ucast (scsi_cmd opc lun (read_10_cdb b n) ! 8) = n"
    by (rule bit_word_eqI) (auto simp: scsi_cmd_def store_over_def read_10_cdb_def bit_simps)
qed

lemma scsi_disk_target:
  assumes "length inq = 36" "inq ! 0 AND 0x1f \<noteq> 0x1f" "inq ! 0 AND 0x1f \<noteq> 0x0d"
    and "\<And>b. length (disk b) = unat bsz" "unat bsz \<le> 2 ^ 16"
  shows "disk_target (scsi_disk inq disk lba bsz) 0 inq disk lba bsz"
proof -
  have opc: "scsi_cmd a lun r \<noteq> scsi_cmd b lun r'" if "a \<noteq> b" for a b lun r r'
    using that scsi_cmd_simps(2) by metis
  have codes: "SCSI_TST_U_RDY \<noteq> SCSI_INQUIRY" "SCSI_RD_CAPAC \<noteq> SCSI_INQUIRY" "SCSI_RD_CAPAC \<noteq> SCSI_TST_U_RDY"
    "SCSI_READ10 \<noteq> SCSI_INQUIRY" "SCSI_READ10 \<noteq> SCSI_TST_U_RDY" "SCSI_READ10 \<noteq> SCSI_RD_CAPAC"
    by (simp_all add: SCSI_TST_U_RDY_def SCSI_INQUIRY_def SCSI_RD_CAPAC_def SCSI_READ10_def)
  show ?thesis
    using assms by (simp add: disk_target_def scsi_disk_def opc codes read_10_decode Let_def)
qed

lemma cbw_fields:
  "csw_word (umass_bbb_cbw tag len flags lun n cdb) 4 = tag"
  "length cmd = 12 \<Longrightarrow> take 12 (drop 15 (umass_bbb_cbw tag len flags lun n (cmd @ pad))) = cmd"
  by (simp_all add: csw_word_def umass_bbb_cbw_def bytes_of_u32_def)

lemma target_bus_protocol:
  assumes "\<And>cmd data. target cmd = Some data \<Longrightarrow> length data \<noteq> 13"
  shows "bulk_only (target_bus target devs) us 0 target"
  using assms
  by (auto simp: bulk_only_def data_ready_def status_ready_def target_bus_def cbw_fields usb_kept_def kept_defs)

lemma scsi_disk_lengths:
  assumes "length inq = 36" "\<And>b. length (disk b) = unat bsz" "13 < unat bsz"
    and "scsi_disk inq disk lba bsz cmd = Some data"
  shows "length data \<noteq> 13"
proof -
  have "unat n * unat bsz \<noteq> 13" for n :: u16
    using assms(3) by (cases "unat n") auto
  then show ?thesis
    using assms by (auto simp: scsi_disk_def length_be_bytes length_sectors Let_def split: if_splits)
qed

text \<open>A command the unit does not know ends in a stall, and the transport reports it.\<close>

lemma target_bus_refuses:
  assumes "target cmd = None" "length cmd = 12" "us_protocol us = US_PR_BULK" "len \<noteq> 0" "US_DIRECTION (cmd ! 0)"
  shows "fst (transport (target_bus target devs) us
    \<lparr>ccb_cmd = cmd, ccb_lun = lun, ccb_cmdlen = 12, ccb_datalen = len, ccb_pdata = []\<rparr> s) = USB_STOR_TRANSPORT_FAILED"
proof -
  let ?bus = "target_bus target devs" and ?srb = "\<lparr>ccb_cmd = cmd, ccb_lun = lun, ccb_cmdlen = 12, ccb_datalen = len, ccb_pdata = []\<rparr>"
  define pad where "pad = drop 12 (stale_bytes ?bus 16 s)"
  have cdb: "store_over (take (unat (12 :: u8)) cmd) (stale_bytes ?bus CBWCDBLENGTH s) = cmd @ pad"
    using assms(2) by (simp add: store_over_def pad_def CBWCDBLENGTH_def)
  obtain s1 cbw where s1: "usb_stor_BBB_comdat ?bus us ?srb s = (0, s1)" "take 12 (drop 15 (usb_line s1)) = cmd"
    using cdb cbw_fields(2) [OF assms(2)]
    by (simp add: usb_stor_BBB_comdat_def usb_bulk_msg_def target_bus_def good_urb_def wait_status_def Let_def UMASS_BBB_CBW_SIZE_def
        CBWCDBLENGTH_def set_usb_status_def)
  have data: "fst (bbb_data ?bus us ?srb t) = None" if "usb_line t = usb_line s1" for t
    using that s1(2) assms(1,4,5)
    by (simp add: bbb_data_def usb_bulk_msg_def usb_stor_BBB_clear_endpt_stall_def usb_control_msg_def target_bus_def Let_def
        set_usb_status_def EIO_def EINVAL_def)
  let ?t = "if us_flags s1 (us_slot us) AND USB_READY = 0 then mdelay 5 s1 else s1"
  obtain bytes s2 where s2: "bbb_data ?bus us ?srb ?t = (None, bytes, s2)"
    using data [of ?t] by (cases "bbb_data ?bus us ?srb ?t") auto
  show ?thesis
    unfolding transport_def usb_stor_BBB_transport_def Let_def s1(1) prod.case s2 option.case by (simp add: assms(3))
qed

interpretation target_unit: bulk_unit "target_bus (\<lambda>cmd. case target cmd of None \<Rightarrow> None | Some d \<Rightarrow> if length d = 13 then None else Some d) devs"
    "us\<lparr>us_protocol := US_PR_BULK\<rparr>" 0 "\<lambda>cmd. case target cmd of None \<Rightarrow> None | Some d \<Rightarrow> if length d = 13 then None else Some d"
  for target devs us
  by unfold_locales (auto intro!: target_bus_protocol split: option.splits if_splits)

text \<open>With blocks of 512 bytes, as the interface \<open>stick\<close>.\<close>

interpretation disk_stick: stick "target_bus (scsi_disk (replicate 36 0) (image_block 512 disk) lba 512) devs" "us\<lparr>us_protocol := US_PR_BULK\<rparr>" 0
    "scsi_disk (replicate 36 0) (image_block 512 disk) lba 512" "replicate 36 0" "image_block 512 disk" lba 512
  for disk lba devs us
  by unfold_locales (auto intro!: target_bus_protocol scsi_disk_target dest!: scsi_disk_lengths [rotated -1])

end
