(* ===== verification/Stick_Boot.thy ===== *)
theory Stick_Boot
  imports Media_Boot Usb_Stick
begin

text \<open>
  The boot flow over the USB storage driver: a stick that keeps to the Bulk-Only protocol and holds a sound FAT volume is
  a sound medium, so the flow loads its image and jumps to EBOOT.
\<close>

lemma usb_media_simps [simp]:
  "usb_read_10 (usb_media cfg e bus md) = usb_read_10 (usb_read_media bus md)" "memalign (usb_media cfg e bus md) = memalign md"
  "usb_init (usb_media cfg e bus md) = usb_init md"
  "usb_stor_scan (usb_media cfg e bus md) = usb_stor_scan_bus cfg e bus (usb_read_media bus md)"
  by (simp_all add: usb_media_def usb_read_media_def Let_def)

lemma stick_desc_fields [simp]:
  "bd_if_type (stick_desc n dev us lun inq disk lba bsz) = IF_TYPE_USB" "bd_dev (stick_desc n dev us lun inq disk lba bsz) = n"
  "bd_lba (stick_desc n dev us lun inq disk lba bsz) = lba" "bd_blksz (stick_desc n dev us lun inq disk lba bsz) = bsz"
  "bd_priv (stick_desc n dev us lun inq disk lba bsz) = Some us" "bd_lun (stick_desc n dev us lun inq disk lba bsz) = of_nat lun"
  by (simp_all add: stick_desc_def new_desc_def)

lemma stick_fat_medium:
  assumes stick: "stick bus us 0 target inq disk lba 512" and "boot_disk_ok disk lba start nsect bs fs cs" "allocates md"
  shows "fat_medium (usb_media cfg e bus md) (stick_desc 0 dev us 0 inq disk lba 512) disk start nsect bs fs cs"
proof -
  let ?d = "stick_desc 0 dev us 0 inq disk lba 512"
  have len: "length (disk b) = 512" for b
    using stick.unit_facts(7) [OF stick] by simp
  have "stick_answers (usb_media cfg e bus md) ?d disk (unat lba)"
    using stick.stick_answers_bus [OF stick, of ?d md] by (simp add: stick_answers_def)
  moreover have "bd_part_type ?d = PART_TYPE_DOS"
    using assms(2) first_partition_mbr [OF _ len, of 0 start] by (simp add: stick_desc_def boot_disk_ok_def)
  ultimately show ?thesis
    using assms(2,3) len by (simp add: fat_medium_def medium_answers_def boot_disk_ok_def allocates_def)
qed

text \<open>From the protocol on the bus to the jump into EBOOT.\<close>

lemma bus_stick_boot:
  assumes stick: "stick bus us 0 target inq disk lba 512" and quiet: "quiet_bus bus" "quiet_media md"
    and dev: "bulk_device dev us" "\<And>s. fst (usb_get_max_lun bus us s) = 0"
    and devs: "bus_devices bus (pre @ dev # post)" "length pre < USB_MAX_DEVICE"
      "list_all (\<lambda>d. no_storage (Some d)) pre" "list_all (\<lambda>d. no_storage (Some d)) post"
    and md: "\<And>s. 0 \<le> fst (usb_init md s)" "allocates md"
    and disk: "boot_disk_ok disk lba start nsect bs fs cs" "dir_room (volume_of bs fs []) s"
    and f: "boot_files (\<lambda>b. disk (start + b)) nsect bs fs cs inst st len rs launch" "records_above rs"
    and mode: "bootMode s \<in> {1, 2, 4, 5}" and cleanup: "\<And>s. mem (cleanup s) = mem s"
  shows "\<exists>t. os_boot_submain cfg e (usb_media cfg e bus md) cleanup fn stack s = Some (Jumped IMAGE_EBOOT_JUMP_ADDR, t) \<and>
    image_booted cfg (bootMode s) BOOT_STORAGE_USB len rs (mem t)"
proof -
  let ?d = "stick_desc 0 dev us 0 inq disk lba 512"
  have size: "0 < unat lba"
    using disk(1) by (auto simp: boot_disk_ok_def volume_ok_def Let_def)
  have start: "\<exists>t. go_usb_start (usb_media cfg e bus md) s = Some t \<and> usb_dev_desc t = ?d # []" for s
    using stick.scan_finds_stick [OF stick dev refl quiet(1) devs _ size, of cfg e md "snd (usb_init md s)"] md(1) [of s]
    by (auto simp: go_usb_start_def Let_def not_less split: prod.splits)
  show ?thesis
    by (rule stick_boot [OF stick_fat_medium [OF stick disk(1) md(2)] quiet_bus.usb_media_quiet [OF quiet] start _ _ disk(2) f mode cleanup])
      simp_all
qed

end
