(* ===== verification/Mmc_Slots.thy ===== *)
theory Mmc_Slots
  imports Mmc_Card
begin

text \<open>
  The list of MMC slots, whatever the cards answer.  \<open>slot_wf\<close>: the arrays of a slot keep their lengths, and a slot
  marked as initialised has a block length from 1 to 512 and a description that agrees with it and with the capacity.
  \<open>slots_wf\<close> adds that the slots have different numbers, so that a slot is found under its own.  \<open>slot_reach\<close> are the
  states the operations lead to from the empty list; \<open>slots_wf\<close> holds in all of them.
\<close>

section \<open>The contract of the controller\<close>

text \<open>Starting the controller may set the clock of the slot, nothing else of it.\<close>

locale quiet_host = quiet_media +
  assumes ops_init_slot: "ops_init md mmc s = (r, mmc', t) \<Longrightarrow> \<exists>k. mmc' = mmc\<lparr>mmc_clock := k\<rparr>"

section \<open>Slots\<close>

definition arrays_ok :: "mmc \<Rightarrow> bool" where
  "arrays_ok m \<longleftrightarrow> length (mmc_scr m) = 2 \<and> length (mmc_csd m) = 4 \<and> length (mmc_cid m) = 4 \<and> length (mmc_capacity_gp m) = 4"

definition bl_ok :: "mmc \<Rightarrow> bool" where
  "bl_ok m \<longleftrightarrow> 0 < mmc_read_bl_len m \<and> mmc_read_bl_len m \<le> MMC_MAX_BLOCK_LEN"

definition desc_ok :: "mmc \<Rightarrow> bool" where
  "desc_ok m \<longleftrightarrow> bd_blksz (mmc_block_dev m) = mmc_read_bl_len m \<and>
     bd_lba (mmc_block_dev m) = ucast (mmc_capacity m div ucast (mmc_read_bl_len m))"

definition slot_wf :: "mmc \<Rightarrow> bool" where
  "slot_wf m \<longleftrightarrow> arrays_ok m \<and> (mmc_has_init m \<longrightarrow> bl_ok m \<and> desc_ok m)"

definition slots_wf :: "nat \<Rightarrow> sys \<Rightarrow> bool" where
  "slots_wf n s \<longleftrightarrow> list_all slot_wf (mmc_devices s) \<and> distinct (map (\<lambda>m. bd_dev (mmc_block_dev m)) (mmc_devices s)) \<and>
     list_all (\<lambda>m. bd_dev (mmc_block_dev m) < n) (mmc_devices s)"

text \<open>What every step of the identification keeps of the slot.\<close>

definition slot_step :: "mmc \<Rightarrow> mmc \<Rightarrow> bool" where
  "slot_step m m' \<longleftrightarrow> mmc_has_init m' = mmc_has_init m \<and> bd_dev (mmc_block_dev m') = bd_dev (mmc_block_dev m) \<and>
     (arrays_ok m \<longrightarrow> arrays_ok m') \<and> (bl_ok m \<longrightarrow> bl_ok m')"

lemma slot_step_refl [simp]: "slot_step m m"
  by (simp add: slot_step_def)

lemma slot_step_trans: "slot_step m m' \<Longrightarrow> slot_step m' m'' \<Longrightarrow> slot_step m m''"
  by (simp add: slot_step_def)

lemma slot_step_bl: "slot_step m m' \<Longrightarrow> bl_ok m \<Longrightarrow> bl_ok m'"
  by (simp add: slot_step_def)

lemma slot_step_caps: "slot_step m (m\<lparr>mmc_card_caps := caps\<rparr>)"
  by (simp add: slot_step_def arrays_ok_def bl_ok_def)

lemmas slot_defs = slot_step_def arrays_ok_def bl_ok_def

lemma op_cond_iter_step: "mmc_send_op_cond_iter md m use_arg s = (r, m', t) \<Longrightarrow> slot_step m m'"
  by (auto simp: mmc_send_op_cond_iter_def slot_defs split: prod.splits if_splits)

lemma mmc_op_cond_step: "mmc_send_op_cond md m s = (r, m', t) \<Longrightarrow> slot_step m m'"
  by (auto simp: mmc_send_op_cond_def slot_defs split: prod.splits if_splits dest!: op_cond_iter_step)

lemma op_cond_poll_step:
  assumes "op_cond_poll e md m start s = Some y"
  shows "slot_step m (fst (snd y))"
  using assms
proof (rule op_cond_poll.raw_induct [rotated], goal_cases)
  case 1
  show ?case
    using 1(2)
    by (auto simp: Let_def split: if_splits prod.splits dest!: 1(1))
      (metis op_cond_iter_step slot_step_trans fst_conv snd_conv)+
qed

lemma complete_op_cond_step: "mmc_complete_op_cond e md m s = Some (r, m', t) \<Longrightarrow> slot_step m m'"
  by (auto simp: mmc_complete_op_cond_def Let_def split: Option.bind_splits if_splits dest!: op_cond_poll_step)
    (auto simp: slot_defs)

lemma small_steps:
  "sd_send_op_cond md m s = (r, m', t) \<Longrightarrow> slot_step m m'"
  "mmc_send_if_cond md m s = (r, m', t) \<Longrightarrow> slot_step m m'"
  "mmc_set_bus_width md m w s = (m', t) \<Longrightarrow> slot_step m m'"
  "mmc_set_clock md m c s = (m', t) \<Longrightarrow> slot_step m m'"
  "startup_select md m s = (r, m', t) \<Longrightarrow> slot_step m m'"
  "startup_identify md m s = (r, m', resp, t) \<Longrightarrow> slot_step m m'"
  by (auto simp: sd_send_op_cond_def mmc_send_if_cond_def mmc_set_bus_width_def mmc_set_clock_def startup_select_def
      startup_identify_def slot_defs Let_def split: prod.splits if_splits)

lemma freq_steps:
  "mmc_change_freq md m s = Some (r, m', t) \<Longrightarrow> slot_step m m'"
  "sd_change_freq md m s = Some (r, m', t) \<Longrightarrow> slot_step m m'"
  by (auto simp: mmc_change_freq_def sd_change_freq_def slot_defs Let_def split: prod.splits if_splits Option.bind_splits)

lemma ext_csd_parts_step: "slot_step m (ext_csd_fields ext m)" "slot_step m (ext_csd_groups ext m)"
  by (simp_all add: ext_csd_fields_def ext_csd_groups_def slot_defs Let_def)

lemma ext_csd_step: "startup_ext_csd md m s = Some (r, m', ext, t) \<Longrightarrow> slot_step m m'"
  using ext_csd_parts_step slot_step_trans [OF ext_csd_parts_step(1) ext_csd_parts_step(2)]
  by (auto simp: startup_ext_csd_def Let_def split: prod.splits if_splits Option.bind_splits)

lemma width_loop_step: "width_loop md ext ws err m s = Some (r, m', t) \<Longrightarrow> slot_step m m'"
proof (induction ws arbitrary: err m s)
  case (Cons w ws)
  obtain extw caps width where w: "w = (extw, caps, width)"
    by (cases w) auto
  from Cons.prems show ?case
    by (auto simp: w Let_def split: prod.splits if_splits Option.bind_splits
        dest!: Cons.IH small_steps(3)) (auto simp: slot_defs)
qed simp

lemma width_step: "startup_width md ext m s = Some (r, m', t) \<Longrightarrow> slot_step m m'"
  by (auto simp: startup_width_def Let_def split: prod.splits if_splits Option.bind_splits
      dest!: width_loop_step small_steps(3)) (auto simp: slot_defs)

lemma set_capacity_step: "mmc_set_capacity m part = (r, m') \<Longrightarrow> slot_step m m'"
  by (auto simp: mmc_set_capacity_def slot_defs Let_def split: if_splits)

lemma clamp_bl_ok: "0 < x \<Longrightarrow> 0 < clamp_bl_len x \<and> clamp_bl_len x \<le> MMC_MAX_BLOCK_LEN"
  by (auto simp: clamp_bl_len_def MMC_MAX_BLOCK_LEN_def)

lemma startup_csd_step:
  assumes "startup_csd m resp = Some m'"
  shows "slot_step m m' \<and> bl_ok m'"
proof -
  have "unat (drop_bit 16 (resp 1) AND 0xf) < 16"
    using word_and_le1 [of "drop_bit 16 (resp 1)" "0xf :: u32"] by (simp add: word_le_nat_alt)
  then have "0 < (push_bit (unat (drop_bit 16 (resp 1) AND 0xf)) 1 :: u32)"
    by (simp add: word_gt_0 push_bit_eq_mult)
  note len = clamp_bl_ok [OF this]
  then show ?thesis
    using assms len by (auto simp: startup_csd_def slot_step_def bl_ok_def arrays_ok_def Let_def split: if_splits)
qed

section \<open>The list\<close>

lemma store_numbers: "map (\<lambda>m. bd_dev (mmc_block_dev m)) (mmc_devices (store_mmc m s)) = map (\<lambda>m. bd_dev (mmc_block_dev m)) (mmc_devices s)"
  by (auto simp: store_mmc_def)

lemma slots_wf_numbers:
  assumes "map (\<lambda>m. bd_dev (mmc_block_dev m)) ms = map (\<lambda>m. bd_dev (mmc_block_dev m)) ms'"
  shows "list_all (\<lambda>m. bd_dev (mmc_block_dev m) < n) ms = list_all (\<lambda>m. bd_dev (mmc_block_dev m) < n) ms'"
proof -
  have "list_all (\<lambda>m. bd_dev (mmc_block_dev m) < n) xs = list_all (\<lambda>d. d < n) (map (\<lambda>m. bd_dev (mmc_block_dev m)) xs)" for xs
    by (simp add: list.pred_map comp_def)
  then show ?thesis
    using assms by metis
qed

lemma slots_wf_store:
  assumes "slots_wf n s" "slot_wf m"
  shows "slots_wf n (store_mmc m s)"
proof -
  have "list_all slot_wf (mmc_devices (store_mmc m s))"
    using assms by (auto simp: slots_wf_def store_mmc_def list_all_iff)
  then show ?thesis
    using assms(1) store_numbers [of m s] slots_wf_numbers [OF store_numbers [of m s], of n] unfolding slots_wf_def by metis
qed

lemma slots_wf_calm: "calm t = calm s \<Longrightarrow> slots_wf n t = slots_wf n s"
  by (simp add: slots_wf_def calm_def fat_data_def)

lemma slots_wf_find: "slots_wf n s \<Longrightarrow> find_mmc_device d s = Some m \<Longrightarrow> slot_wf m"
  by (auto simp: slots_wf_def find_mmc_device_def find_Some_iff list_all_length)

lemma set_capacity_wf:
  assumes "mmc_set_capacity m part = (r, m')" "slot_wf m"
  shows "slot_wf m'"
  using assms by (auto simp: mmc_set_capacity_def slot_wf_def arrays_ok_def bl_ok_def desc_ok_def Let_def split: if_splits)

text \<open>\<open>mmc_create\<close> adds a well-formed slot with the next number.\<close>

lemma create_wf:
  assumes "mmc_create ok c base n s = (r, n', t)" "slots_wf n s"
  shows "slots_wf n' t"
  using assms
  by (auto simp: mmc_create_def slots_wf_def slot_wf_def arrays_ok_def mmc_zero_def list_all_iff Let_def split: if_splits
      intro: less_SucI)

context quiet_host
begin

lemma start_init_step:
  assumes "mmc_start_init e md m s = (r, m', t)" "\<not> mmc_has_init m"
  shows "slot_step m m'"
  using assms
  by (auto simp: mmc_start_init_def Let_def split: prod.splits if_splits
      dest!: ops_init_slot small_steps mmc_op_cond_step) (auto simp: slot_defs)

lemma finish_step:
  assumes "startup_finish cfg e md m s = Some (r, m', t)" "bl_ok m" "\<not> mmc_has_init m" "arrays_ok m" "slots_wf n s"
  shows "slot_step m m' \<and> desc_ok m' \<and> slots_wf n t"
proof -
  obtain m1 s1 where m1: "mmc_set_clock md m (mmc_tran_speed m) s = (m1, s1)"
    by fastforce
  have s1: "calm s1 = calm s"
    using set_clock_quiet [OF m1] .
  have m1s: "slot_step m m1"
    using small_steps(4) [OF m1] .
  define m2 where "m2 = (if mmc_ddr_mode m1 then m1\<lparr>mmc_read_bl_len := MMC_MAX_BLOCK_LEN, mmc_write_bl_len := MMC_MAX_BLOCK_LEN\<rparr> else m1)"
  define m3 where "m3 = m2\<lparr>mmc_block_dev := (mmc_block_dev m2)\<lparr>bd_lun := 0, bd_type := 0, bd_blksz := mmc_read_bl_len m2,
            bd_lba := ucast (mmc_capacity m2 div ucast (mmc_read_bl_len m2))\<rparr>\<rparr>"
  have step: "slot_step m m3" "desc_ok m3"
    using m1s by (auto simp: m3_def m2_def slot_defs desc_ok_def MMC_MAX_BLOCK_LEN_def)
  then have "slots_wf n (store_mmc m3 s1)"
    using assms(3-5) slots_wf_calm [OF s1] by (intro slots_wf_store) (auto simp: slot_wf_def slot_step_def)
  moreover obtain d where d: "init_part cfg e md (mmc_block_dev m3) (store_mmc m3 s1) = Some (d, t)" "m' = m3\<lparr>mmc_block_dev := d\<rparr>"
    using assms(1) by (auto simp: startup_finish_def m1 m2_def [symmetric] m3_def Let_def split: Option.bind_splits)
  moreover have "bd_dev d = bd_dev (mmc_block_dev m3) \<and> bd_blksz d = bd_blksz (mmc_block_dev m3) \<and> bd_lba d = bd_lba (mmc_block_dev m3)"
    using d(1) by (auto simp: init_part_def split: Option.bind_splits)
  ultimately show ?thesis
    using step slots_wf_calm [OF init_part_quiet [OF d(1)]] by (auto simp: slot_defs desc_ok_def)
qed

text \<open>A step that leaves the list of slots alone.\<close>

definition calm_step :: "mmc \<Rightarrow> sys \<Rightarrow> mmc \<Rightarrow> sys \<Rightarrow> bool" where
  "calm_step m s m' t \<longleftrightarrow> slot_step m m' \<and> (\<forall>n. slots_wf n t = slots_wf n s)"

lemma calm_stepI: "slot_step m m' \<Longrightarrow> calm t = calm s \<Longrightarrow> calm_step m s m' t"
  unfolding calm_step_def using slots_wf_calm by blast

lemma startup_steps:
  "sd_change_freq md m s = Some (r, m', t) \<Longrightarrow> calm_step m s m' t"
  "mmc_change_freq md m s = Some (r, m', t) \<Longrightarrow> calm_step m s m' t"
  "startup_width md ext m s = Some (r, m', t) \<Longrightarrow> calm_step m s m' t"
  by (rule calm_stepI, erule freq_steps width_step, erule sd_change_freq_quiet change_freq_quiet startup_width_quiet)+

lemma registers_wf:
  assumes "startup_registers md m s = Some (r, m', ext, t)"
  shows "slot_step m m' \<and> (r = 0 \<longrightarrow> bl_ok m')"
proof -
  show ?thesis
    using assms unfolding startup_registers_def
    by (auto simp: Let_def split: prod.splits if_splits Option.bind_splits
        dest!: small_steps(6,5) ext_csd_step startup_csd_step set_capacity_step)
      (meson slot_step_trans slot_step_bl)+
qed

lemma bus_wf:
  assumes "startup_bus cfg e md ext m s = Some (r, m', t)" "bl_ok m" "\<not> mmc_has_init m" "arrays_ok m" "slots_wf n s"
  shows "slot_step m m' \<and> (r = 0 \<longrightarrow> bl_ok m' \<and> desc_ok m') \<and> slots_wf n t"
proof -
  obtain r1 m1 s1 where m1: "(if IS_SD m then sd_change_freq md m s else mmc_change_freq md m s) = Some (r1, m1, s1)"
    using assms(1) by (auto simp: startup_bus_def split: Option.bind_splits)
  then have step1: "slot_step m m1" "slots_wf n s1"
    using startup_steps(1,2) assms(5) by (auto simp: calm_step_def split: if_splits)
  show ?thesis
  proof (cases "r1 = 0")
    case True
    let ?m2 = "m1\<lparr>mmc_card_caps := mmc_card_caps m1 AND host_caps (mmc_cfg m1)\<rparr>"
    obtain r3 m3 s3 where m3: "startup_width md ext ?m2 s1 = Some (r3, m3, s3)"
      using assms(1) m1 True by (auto simp: startup_bus_def split: Option.bind_splits)
    have step3: "slot_step m m3" "slots_wf n s3"
      using startup_steps(3) [OF m3] slot_step_trans [OF slot_step_trans [OF step1(1) slot_step_caps]] step1(2)
      unfolding calm_step_def by blast+
    then have "bl_ok m3" "\<not> mmc_has_init m3" "arrays_ok m3"
      using assms(2-4) by (auto simp: slot_step_def)
    note finish = finish_step [OF _ this step3(2), of cfg e r m' t]
    show ?thesis
      using assms(1) m1 m3 True step3 finish slot_step_trans [OF step3(1)] slot_step_bl \<open>bl_ok m3\<close>
      by (auto simp: startup_bus_def split: if_splits)
  qed (use assms(1) m1 step1 in \<open>auto simp: startup_bus_def\<close>)
qed

lemma startup_wf:
  assumes "mmc_startup cfg e md m s = Some (r, m', t)" "\<not> mmc_has_init m" "arrays_ok m" "slots_wf n s"
  shows "slot_step m m' \<and> (r = 0 \<longrightarrow> bl_ok m' \<and> desc_ok m') \<and> slots_wf n t"
proof -
  obtain r1 m1 ext s1 where m1: "startup_registers md m s = Some (r1, m1, ext, s1)"
    using assms(1) by (auto simp: mmc_startup_def split: Option.bind_splits)
  have step: "slot_step m m1" "r1 = 0 \<Longrightarrow> bl_ok m1" "slots_wf n s1"
    using registers_wf [OF m1] slots_wf_calm [OF startup_registers_quiet [OF m1]] assms(4) by blast+
  have "\<not> mmc_has_init m1" "arrays_ok m1"
    using step(1) assms(2,3) by (auto simp: slot_step_def)
  note bus = bus_wf [OF _ step(2) this step(3), of cfg e ext r m' t]
  show ?thesis
    using assms(1) m1 step(1,3) bus slot_step_trans [OF step(1)] by (auto simp: mmc_startup_def split: if_splits)
qed

lemma complete_init_wf:
  assumes "mmc_complete_init cfg e md m s = Some (r, m', t)" "\<not> mmc_has_init m" "arrays_ok m" "slots_wf n s"
  shows "slot_wf m' \<and> (mmc_has_init m' \<longleftrightarrow> r = 0) \<and> bd_dev (mmc_block_dev m') = bd_dev (mmc_block_dev m) \<and> slots_wf n t"
proof -
  let ?m = "m\<lparr>mmc_init_in_progress := False\<rparr>"
  have m: "slot_step m ?m"
    by (simp add: slot_defs)
  obtain r1 m1 s1 where m1: "(if mmc_op_cond_pending ?m then mmc_complete_op_cond e md ?m s else Some (0, ?m, s)) = Some (r1, m1, s1)"
    using assms(1) by (auto simp: mmc_complete_init_def Let_def split: Option.bind_splits)
  then have "slot_step ?m m1" "calm s1 = calm s"
    by (auto split: if_splits dest: complete_op_cond_step complete_op_cond_quiet)
  then have step: "slot_step m m1" "slots_wf n s1"
    using slot_step_trans [OF m] slots_wf_calm assms(4) by blast+
  then have "\<not> mmc_has_init m1" "arrays_ok m1"
    using assms(2,3) by (auto simp: slot_step_def)
  note startup = startup_wf [OF _ this step(2)]
  obtain r2 m2 s2 where m2: "(if r1 = 0 then mmc_startup cfg e md m1 s1 else Some (r1, m1, s1)) = Some (r2, m2, s2)"
    "r = r2" "m' = m2\<lparr>mmc_has_init := (r2 = 0)\<rparr>" "t = s2"
    using assms(1) m1 by (auto simp: mmc_complete_init_def Let_def split: Option.bind_splits)
  have "slot_step m1 m2" "r2 = 0 \<longrightarrow> bl_ok m2 \<and> desc_ok m2" "slots_wf n s2"
    using m2(1) startup [of cfg e r2 m2 s2] step(2) by (auto split: if_splits)
  then show ?thesis
    using m2(2-4) step(1) assms(3) slot_step_trans [OF step(1)]
    by (auto simp: slot_wf_def slot_step_def arrays_ok_def bl_ok_def desc_ok_def)
qed

lemma init_wf:
  assumes "mmc_init cfg e md m s = Some (r, m', t)" "slot_wf m" "slots_wf n s"
  shows "slot_wf m' \<and> (r = 0 \<longrightarrow> mmc_has_init m') \<and> bd_dev (mmc_block_dev m') = bd_dev (mmc_block_dev m) \<and> slots_wf n t"
proof (cases "mmc_has_init m")
  case True
  then show ?thesis
    using assms by (simp add: mmc_init_def)
next
  case False
  obtain r1 m1 s1 where m1: "(if mmc_init_in_progress m then (0, m, s) else mmc_start_init e md m s) = (r1, m1, s1)"
    using prod_cases3 by blast
  then have step: "slot_step m m1" "slots_wf n s1"
    using start_init_step [OF _ False] slots_wf_calm [OF start_init_quiet] assms(3) by (auto split: if_splits)
  then have ok: "\<not> mmc_has_init m1" "arrays_ok m1"
    using assms(2) False by (auto simp: slot_step_def slot_wf_def)
  show ?thesis
    using assms(1) m1 False complete_init_wf [OF _ ok step(2), of cfg e r m' t] step ok
    by (auto simp: mmc_init_def slot_wf_def slot_step_def split: if_splits)
qed

lemma get_slot_wf:
  assumes "mmc_get_dev cfg e md d s = Some (desc, t)" "slots_wf n s"
  shows "slots_wf n t" and "desc = Some x \<Longrightarrow> 0 < bd_blksz x \<and> bd_blksz x \<le> MMC_MAX_BLOCK_LEN"
proof -
  show "slots_wf n t"
    using assms(1) init_wf [OF _ slots_wf_find [OF assms(2)] assms(2)] assms(2)
    by (auto simp: mmc_get_dev_def split: option.splits Option.bind_splits intro: slots_wf_store)
  show "0 < bd_blksz x \<and> bd_blksz x \<le> MMC_MAX_BLOCK_LEN" if "desc = Some x"
    using assms(1) init_wf [OF _ slots_wf_find [OF assms(2)] assms(2)] that
    by (fastforce simp: mmc_get_dev_def slot_wf_def desc_ok_def bl_ok_def split: option.splits Option.bind_splits if_splits)
qed

lemma select_wf:
  assumes "mmc_select_hwpart md d part s = (r, t)" "slots_wf n s"
  shows "slots_wf n t"
proof (cases "find_mmc_device d s")
  case None
  then show ?thesis
    using assms by (simp add: mmc_select_hwpart_def)
next
  case (Some m)
  obtain r1 s1 where s1: "mmc_switch md m EXT_CSD_CMD_SET_NORMAL EXT_CSD_PART_CONF
      ((mmc_part_config m AND NOT PART_ACCESS_MASK) OR (part AND PART_ACCESS_MASK)) s = (r1, s1)"
    by fastforce
  obtain r2 m2 where m2: "(if r1 = 0 \<or> r1 = - ENODEV \<and> part = 0 then mmc_set_capacity m part else (r1, m)) = (r2, m2)"
    by fastforce
  have "slot_wf m2" "slots_wf n s1"
    using m2 set_capacity_wf slots_wf_find [OF assms(2) Some] slots_wf_calm [OF mmc_switch_quiet [OF s1]] assms(2)
    by (auto split: if_splits)
  then have "slots_wf n (store_mmc (if r2 \<noteq> 0 then m2 else m2\<lparr>mmc_part_num := part\<rparr>) s1)"
    by (intro slots_wf_store) (auto simp: slot_wf_def arrays_ok_def bl_ok_def desc_ok_def)
  then show ?thesis
    using assms Some s1 m2 by (auto simp: mmc_select_hwpart_def mmc_switch_part_def Let_def split: if_splits)
qed

lemma get_dev_wf: "get_dev cfg e md name d s = Some (desc, t) \<Longrightarrow> slots_wf n s \<Longrightarrow> slots_wf n t"
  using get_slot_wf(1) select_wf
  by (auto simp: get_dev_def Let_def split: if_splits prod.splits option.splits Option.bind_splits)

end

section \<open>Reachable lists\<close>

text \<open>The operations on the list: a slot is created, a device is looked up, a partition is selected, blocks are read.\<close>

inductive slot_reach :: "bsp_config \<Rightarrow> env \<Rightarrow> media \<Rightarrow> nat \<Rightarrow> sys \<Rightarrow> bool" for cfg e md where
  start: "mmc_devices s = [] \<Longrightarrow> slot_reach cfg e md 0 s"
| create: "slot_reach cfg e md n s \<Longrightarrow> mmc_create ok c base n s = (r, n', t) \<Longrightarrow> slot_reach cfg e md n' t"
| lookup: "slot_reach cfg e md n s \<Longrightarrow> get_dev cfg e md name d s = Some (desc, t) \<Longrightarrow> slot_reach cfg e md n t"
| select: "slot_reach cfg e md n s \<Longrightarrow> mmc_select_hwpart md d part s = (r, t) \<Longrightarrow> slot_reach cfg e md n t"
| blocks: "slot_reach cfg e md n s \<Longrightarrow> mmc_bread cfg e md d b len s = Some (cnt, bytes, t) \<Longrightarrow> slot_reach cfg e md n t"

context quiet_host
begin

lemma reach_wf: "slot_reach cfg e md n s \<Longrightarrow> slots_wf n s"
proof (induction rule: slot_reach.induct)
  case (start s)
  then show ?case
    by (simp add: slots_wf_def)
next
  case (blocks n s d b len cnt bytes t)
  then show ?case
    using slots_wf_calm mmc_bread_quiet by blast
qed (erule create_wf get_dev_wf select_wf, assumption)+

end

interpretation host: quiet_host "image_media bl sd sd_blocks usb usb_blocks"
  for bl sd sd_blocks usb usb_blocks
proof unfold_locales
  show "\<exists>k. mmc' = mmc\<lparr>mmc_clock := k\<rparr>" if "ops_init (image_media bl sd sd_blocks usb usb_blocks) mmc s = (r, mmc', t)"
    for mmc s r mmc' t
    using that by (intro exI [of _ "mmc_clock mmc"]) (simp add: image_media_def)
qed

end
