(* ===== verification/Fsl_Esdhc.thy ===== *)
theory Fsl_Esdhc
  imports Mmc_Slots "HOL-Library.Signed_Division"
begin

text \<open>
  The driver of the SD host controller: \<open>drivers/mmc/fsl_esdhc.c\<close> as it is built for the pendant (DMA, USDHC, none of the errata
  switches), from \<open>esdhc_xfertyp\<close> to \<open>fsl_esdhc_initialize\<close>.  What the registers do is an argument, \<open>esdhc_hw\<close>: a read may
  change the state, as it does for status registers.  The loops that wait for the controller without counting are partial
  functions; a controller that never answers makes them \<open>None\<close>.  The locale \<open>reg_frame\<close> says that register accesses
  leave a part of the state alone; the driver's operations inherit this, and over registers that leave the program's data alone the
  driver is a \<open>quiet_host\<close>.
\<close>

section \<open>Registers\<close>

record esdhc_hw =
  esdhc_read32 :: "u32 \<Rightarrow> esdhc_reg \<Rightarrow> sys \<Rightarrow> u32 \<times> sys"
  esdhc_write32 :: "u32 \<Rightarrow> esdhc_reg \<Rightarrow> u32 \<Rightarrow> sys \<Rightarrow> sys"
  flush_dcache_range :: "u32 \<Rightarrow> u32 \<Rightarrow> sys \<Rightarrow> sys"
  invalidate_dcache_range :: "u32 \<Rightarrow> u32 \<Rightarrow> sys \<Rightarrow> sys"

definition esdhc_setbits32 :: "esdhc_hw \<Rightarrow> u32 \<Rightarrow> esdhc_reg \<Rightarrow> u32 \<Rightarrow> sys \<Rightarrow> sys" where
  "esdhc_setbits32 hw base r v s = (let (x, s) = esdhc_read32 hw base r s in esdhc_write32 hw base r (x OR v) s)"

definition esdhc_clrbits32 :: "esdhc_hw \<Rightarrow> u32 \<Rightarrow> esdhc_reg \<Rightarrow> u32 \<Rightarrow> sys \<Rightarrow> sys" where
  "esdhc_clrbits32 hw base r v s = (let (x, s) = esdhc_read32 hw base r s in esdhc_write32 hw base r (x AND NOT v) s)"

definition esdhc_clrsetbits32 :: "esdhc_hw \<Rightarrow> u32 \<Rightarrow> esdhc_reg \<Rightarrow> u32 \<Rightarrow> u32 \<Rightarrow> sys \<Rightarrow> sys" where
  "esdhc_clrsetbits32 hw base r c v s =
     (let (x, s) = esdhc_read32 hw base r s in esdhc_write32 hw base r ((x AND NOT c) OR v) s)"

definition SYSCTL_TIMEOUT_MASK :: u32 where "SYSCTL_TIMEOUT_MASK = 0x000f0000"
definition SYSCTL_CLOCK_MASK :: u32 where "SYSCTL_CLOCK_MASK = 0x0000fff0"
definition SYSCTL_CKEN :: u32 where "SYSCTL_CKEN = 0x00000008"
definition SYSCTL_PEREN :: u32 where "SYSCTL_PEREN = 0x00000004"
definition SYSCTL_HCKEN :: u32 where "SYSCTL_HCKEN = 0x00000002"
definition SYSCTL_IPGEN :: u32 where "SYSCTL_IPGEN = 0x00000001"
definition SYSCTL_RSTA :: u32 where "SYSCTL_RSTA = 0x01000000"
definition SYSCTL_RSTC :: u32 where "SYSCTL_RSTC = 0x02000000"
definition SYSCTL_RSTD :: u32 where "SYSCTL_RSTD = 0x04000000"

definition IRQSTAT_DMAE :: u32 where "IRQSTAT_DMAE = 0x10000000"
definition IRQSTAT_DEBE :: u32 where "IRQSTAT_DEBE = 0x00400000"
definition IRQSTAT_DCE :: u32 where "IRQSTAT_DCE = 0x00200000"
definition IRQSTAT_DTOE :: u32 where "IRQSTAT_DTOE = 0x00100000"
definition IRQSTAT_CIE :: u32 where "IRQSTAT_CIE = 0x00080000"
definition IRQSTAT_CEBE :: u32 where "IRQSTAT_CEBE = 0x00040000"
definition IRQSTAT_CCE :: u32 where "IRQSTAT_CCE = 0x00020000"
definition IRQSTAT_CTOE :: u32 where "IRQSTAT_CTOE = 0x00010000"
definition IRQSTAT_CINT :: u32 where "IRQSTAT_CINT = 0x00000100"
definition IRQSTAT_BRR :: u32 where "IRQSTAT_BRR = 0x00000020"
definition IRQSTAT_BWR :: u32 where "IRQSTAT_BWR = 0x00000010"
definition IRQSTAT_DINT :: u32 where "IRQSTAT_DINT = 0x00000008"
definition IRQSTAT_TC :: u32 where "IRQSTAT_TC = 0x00000002"
definition IRQSTAT_CC :: u32 where "IRQSTAT_CC = 0x00000001"

definition CMD_ERR :: u32 where "CMD_ERR = IRQSTAT_CIE OR IRQSTAT_CEBE OR IRQSTAT_CCE"
definition DATA_ERR :: u32 where "DATA_ERR = IRQSTAT_DEBE OR IRQSTAT_DCE OR IRQSTAT_DTOE OR IRQSTAT_DMAE"
definition DATA_COMPLETE :: u32 where "DATA_COMPLETE = IRQSTAT_TC OR IRQSTAT_DINT"

definition SDHCI_IRQ_EN_BITS :: u32 where
  "SDHCI_IRQ_EN_BITS = IRQSTAT_CC OR IRQSTAT_TC OR IRQSTAT_CINT OR IRQSTAT_CTOE OR IRQSTAT_CCE OR IRQSTAT_CEBE OR IRQSTAT_CIE OR
     IRQSTAT_DTOE OR IRQSTAT_DCE OR IRQSTAT_DEBE OR IRQSTAT_BRR OR IRQSTAT_BWR OR IRQSTAT_DINT"

definition PRSSTAT_DAT0 :: u32 where "PRSSTAT_DAT0 = 0x01000000"
definition PRSSTAT_WPSPL :: u32 where "PRSSTAT_WPSPL = 0x00080000"
definition PRSSTAT_CINS :: u32 where "PRSSTAT_CINS = 0x00010000"
definition PRSSTAT_DLA :: u32 where "PRSSTAT_DLA = 0x00000004"
definition PRSSTAT_CICHB :: u32 where "PRSSTAT_CICHB = 0x00000002"
definition PRSSTAT_CIDHB :: u32 where "PRSSTAT_CIDHB = 0x00000001"

definition PROCTL_INIT :: u32 where "PROCTL_INIT = 0x00000020"
definition PROCTL_DTW_4 :: u32 where "PROCTL_DTW_4 = 0x00000002"
definition PROCTL_DTW_8 :: u32 where "PROCTL_DTW_8 = 0x00000004"

definition XFERTYP_DPSEL :: u32 where "XFERTYP_DPSEL = 0x00200000"
definition XFERTYP_CICEN :: u32 where "XFERTYP_CICEN = 0x00100000"
definition XFERTYP_CCCEN :: u32 where "XFERTYP_CCCEN = 0x00080000"
definition XFERTYP_RSPTYP_136 :: u32 where "XFERTYP_RSPTYP_136 = 0x00010000"
definition XFERTYP_RSPTYP_48 :: u32 where "XFERTYP_RSPTYP_48 = 0x00020000"
definition XFERTYP_RSPTYP_48_BUSY :: u32 where "XFERTYP_RSPTYP_48_BUSY = 0x00030000"
definition XFERTYP_MSBSEL :: u32 where "XFERTYP_MSBSEL = 0x00000020"
definition XFERTYP_DTDSEL :: u32 where "XFERTYP_DTDSEL = 0x00000010"
definition XFERTYP_DDREN :: u32 where "XFERTYP_DDREN = 0x00000008"
definition XFERTYP_BCEN :: u32 where "XFERTYP_BCEN = 0x00000002"
definition XFERTYP_DMAEN :: u32 where "XFERTYP_DMAEN = 0x00000001"
definition XFERTYP_CMD :: "nat \<Rightarrow> u32" where "XFERTYP_CMD x = push_bit 24 (of_nat x AND 0x3f)"

definition WML_RD_WML_MAX :: u32 where "WML_RD_WML_MAX = 0x10"
definition WML_WR_WML_MAX :: u32 where "WML_WR_WML_MAX = 0x80"
definition WML_RD_WML_MAX_VAL :: u32 where "WML_RD_WML_MAX_VAL = 0x10"
definition WML_WR_WML_MAX_VAL :: u32 where "WML_WR_WML_MAX_VAL = 0x80"
definition WML_RD_WML_MASK :: u32 where "WML_RD_WML_MASK = 0xff"
definition WML_WR_WML_MASK :: u32 where "WML_WR_WML_MASK = 0xff0000"

definition ESDHC_HOSTCAPBLT_VS18 :: u32 where "ESDHC_HOSTCAPBLT_VS18 = 0x04000000"
definition ESDHC_HOSTCAPBLT_VS30 :: u32 where "ESDHC_HOSTCAPBLT_VS30 = 0x02000000"
definition ESDHC_HOSTCAPBLT_VS33 :: u32 where "ESDHC_HOSTCAPBLT_VS33 = 0x01000000"
definition ESDHC_HOSTCAPBLT_HSS :: u32 where "ESDHC_HOSTCAPBLT_HSS = 0x00200000"
definition ESDHC_VENDORSPEC_VSELECT :: u32 where "ESDHC_VENDORSPEC_VSELECT = 0x00000002"

definition MMC_VDD_165_195 :: u32 where "MMC_VDD_165_195 = 0x00000080"
definition MMC_VDD_29_30 :: u32 where "MMC_VDD_29_30 = 0x00020000"
definition MMC_VDD_30_31 :: u32 where "MMC_VDD_30_31 = 0x00040000"
definition MMC_VDD_32_33 :: u32 where "MMC_VDD_32_33 = 0x00100000"
definition MMC_VDD_33_34 :: u32 where "MMC_VDD_33_34 = 0x00200000"

definition MMC_RSP_PRESENT :: nat where "MMC_RSP_PRESENT = 1"
definition MMC_RSP_136 :: nat where "MMC_RSP_136 = 2"
definition MMC_RSP_CRC :: nat where "MMC_RSP_CRC = 4"
definition MMC_RSP_BUSY :: nat where "MMC_RSP_BUSY = 8"
definition MMC_RSP_OPCODE :: nat where "MMC_RSP_OPCODE = 16"
definition MMC_DATA_READ :: u32 where "MMC_DATA_READ = 1"
definition SD_CMD_SWITCH_UHS18V :: nat where "SD_CMD_SWITCH_UHS18V = 11"
definition CONFIG_SYS_MMC_MAX_BLK_COUNT :: u32 where "CONFIG_SYS_MMC_MAX_BLK_COUNT = 65535"

lemmas sysctl_defs = SYSCTL_TIMEOUT_MASK_def SYSCTL_CLOCK_MASK_def SYSCTL_CKEN_def SYSCTL_PEREN_def SYSCTL_HCKEN_def SYSCTL_IPGEN_def
  SYSCTL_RSTA_def SYSCTL_RSTC_def SYSCTL_RSTD_def

lemmas irqstat_defs = IRQSTAT_DMAE_def IRQSTAT_DEBE_def IRQSTAT_DCE_def IRQSTAT_DTOE_def IRQSTAT_CIE_def IRQSTAT_CEBE_def IRQSTAT_CCE_def
  IRQSTAT_CTOE_def IRQSTAT_CINT_def IRQSTAT_BRR_def IRQSTAT_BWR_def IRQSTAT_DINT_def IRQSTAT_TC_def IRQSTAT_CC_def CMD_ERR_def
  DATA_ERR_def DATA_COMPLETE_def

lemmas prsstat_defs = PRSSTAT_DAT0_def PRSSTAT_WPSPL_def PRSSTAT_CINS_def PRSSTAT_DLA_def PRSSTAT_CICHB_def PRSSTAT_CIDHB_def

lemmas xfertyp_defs = XFERTYP_DPSEL_def XFERTYP_CICEN_def XFERTYP_CCCEN_def XFERTYP_RSPTYP_136_def XFERTYP_RSPTYP_48_def
  XFERTYP_RSPTYP_48_BUSY_def XFERTYP_MSBSEL_def XFERTYP_DTDSEL_def XFERTYP_DDREN_def XFERTYP_BCEN_def XFERTYP_DMAEN_def XFERTYP_CMD_def

lemmas rsp_defs = MMC_RSP_PRESENT_def MMC_RSP_136_def MMC_RSP_CRC_def MMC_RSP_BUSY_def MMC_RSP_OPCODE_def

section \<open>Commands and transfers\<close>

text \<open>\<open>struct mmc_data\<close>; the union of source and destination is one address.\<close>

record mmc_data =
  data_dest :: u32
  data_flags :: u32
  data_blocks :: u32
  data_blocksize :: u32

definition esdhc_xfertyp :: "mmc_cmd \<Rightarrow> mmc_data option \<Rightarrow> u32" where
  "esdhc_xfertyp cmd data =
     (let xfertyp = (case data of
            None \<Rightarrow> 0
          | Some d \<Rightarrow>
              XFERTYP_DPSEL OR XFERTYP_DMAEN OR
              (if data_blocks d > 1 then XFERTYP_MSBSEL OR XFERTYP_BCEN else 0) OR
              (if c_true (data_flags d AND MMC_DATA_READ) then XFERTYP_DTDSEL else 0));
          xfertyp = xfertyp OR (if c_true (resp_type cmd AND MMC_RSP_CRC) then XFERTYP_CCCEN else 0);
          xfertyp = xfertyp OR (if c_true (resp_type cmd AND MMC_RSP_OPCODE) then XFERTYP_CICEN else 0);
          xfertyp = xfertyp OR
            (if c_true (resp_type cmd AND MMC_RSP_136) then XFERTYP_RSPTYP_136
             else if c_true (resp_type cmd AND MMC_RSP_BUSY) then XFERTYP_RSPTYP_48_BUSY
             else if c_true (resp_type cmd AND MMC_RSP_PRESENT) then XFERTYP_RSPTYP_48 else 0)
      in XFERTYP_CMD (cmdidx cmd) OR xfertyp)"

text \<open>\<open>generic_fls\<close> of \<open>include/linux/bitops.h\<close>: the position of the highest bit, from 1.\<close>

definition fls_step :: "u32 \<Rightarrow> nat \<Rightarrow> u32 \<times> int \<Rightarrow> u32 \<times> int" where
  "fls_step m k = (\<lambda>(x, r). if x AND m = 0 then (push_bit k x, r - int k) else (x, r))"

definition fls :: "u32 \<Rightarrow> int" where
  "fls x =
     (if x = 0 then 0
      else snd (fls_step 0x80000000 1 (fls_step 0xc0000000 2 (fls_step 0xf0000000 4
             (fls_step 0xff000000 8 (fls_step 0xffff0000 16 (x, 32)))))))"

definition data_timeout :: "u32 \<Rightarrow> int" where
  "data_timeout clock = (let t = fls (clock div 4) - 13; t = (if t > 14 then 14 else t) in if t < 0 then 0 else t)"

definition esdhc_setup_data :: "esdhc_hw \<Rightarrow> mmc \<Rightarrow> mmc_data \<Rightarrow> sys \<Rightarrow> int \<times> sys" where
  "esdhc_setup_data hw mmc d s =
     (let base = mmc_esdhc_base mmc;
          wml_value = data_blocksize d div 4;
          (locked, s) =
            (if c_true (data_flags d AND MMC_DATA_READ) then
               let wml_value = (if wml_value > WML_RD_WML_MAX then WML_RD_WML_MAX_VAL else wml_value);
                   s = esdhc_clrsetbits32 hw base Wml WML_RD_WML_MASK wml_value s
               in (False, esdhc_write32 hw base Dsaddr (data_dest d) s)
             else
               let s = flush_dcache_range hw (data_dest d) (data_dest d + data_blocks d * data_blocksize d) s;
                   wml_value = (if wml_value > WML_WR_WML_MAX then WML_WR_WML_MAX_VAL else wml_value);
                   (prs, s) = esdhc_read32 hw base Prsstat s
               in if prs AND PRSSTAT_WPSPL = 0 then (True, s)
                  else
                    let s = esdhc_clrsetbits32 hw base Wml WML_WR_WML_MASK (push_bit 16 wml_value) s
                    in (False, esdhc_write32 hw base Dsaddr (data_dest d) s))
      in if locked then (TIMEOUT, s)
         else
           let s = esdhc_write32 hw base Blkattr (push_bit 16 (data_blocks d) OR data_blocksize d) s
           in (0, esdhc_clrsetbits32 hw base Sysctl SYSCTL_TIMEOUT_MASK (push_bit 16 (of_int (data_timeout (mmc_clock mmc)))) s))"

text \<open>\<open>roundup (x, y)\<close> of \<open>include/linux/kernel.h\<close> is \<open>x\<close> rounded up to a multiple of \<open>y\<close>.\<close>

definition roundup :: "u32 \<Rightarrow> u32 \<Rightarrow> u32" where
  "roundup x y = ((x + (y - 1)) div y) * y"

definition check_and_invalidate_dcache_range :: "esdhc_hw \<Rightarrow> mmc_data \<Rightarrow> sys \<Rightarrow> sys" where
  "check_and_invalidate_dcache_range hw d s =
     (let start = data_dest d; size = roundup ARCH_DMA_MINALIGN (data_blocks d * data_blocksize d)
      in invalidate_dcache_range hw start (start + size) s)"

text \<open>The loops that wait for a register, until all of the bits are clear and until one of them is set.\<close>

partial_function (option) wait_clear :: "esdhc_hw \<Rightarrow> u32 \<Rightarrow> esdhc_reg \<Rightarrow> u32 \<Rightarrow> sys \<Rightarrow> sys option" where [code]:
  "wait_clear hw base r bits s =
     (let (v, s) = esdhc_read32 hw base r s in if c_true (v AND bits) then wait_clear hw base r bits s else Some s)"

partial_function (option) wait_set :: "esdhc_hw \<Rightarrow> u32 \<Rightarrow> esdhc_reg \<Rightarrow> u32 \<Rightarrow> sys \<Rightarrow> sys option" where [code]:
  "wait_set hw base r bits s =
     (let (v, s) = esdhc_read32 hw base r s in if c_true (v AND bits) then Some s else wait_set hw base r bits s)"

text \<open>The bus is idle when neither line is inhibited; the second bit is read only when the first is clear.\<close>

partial_function (option) wait_idle :: "esdhc_hw \<Rightarrow> u32 \<Rightarrow> sys \<Rightarrow> sys option" where [code]:
  "wait_idle hw base s =
     (let (v, s) = esdhc_read32 hw base Prsstat s in
      if c_true (v AND PRSSTAT_CICHB) then wait_idle hw base s
      else
        let (v, s) = esdhc_read32 hw base Prsstat s in
        if c_true (v AND PRSSTAT_CIDHB) then wait_idle hw base s else Some s)"

fun dat0_wait :: "esdhc_hw \<Rightarrow> u32 \<Rightarrow> nat \<Rightarrow> sys \<Rightarrow> nat \<times> sys" where
  "dat0_wait hw base 0 s = (0, s)"
| "dat0_wait hw base (Suc n) s =
     (let (v, s) = esdhc_read32 hw base Prsstat s in
      if c_true (v AND PRSSTAT_DAT0) then (Suc n, s) else dat0_wait hw base n (udelay 100 s))"

definition esdhc_response :: "esdhc_hw \<Rightarrow> u32 \<Rightarrow> mmc_cmd \<Rightarrow> (nat \<Rightarrow> u32) \<Rightarrow> sys \<Rightarrow> (nat \<Rightarrow> u32) \<times> sys" where
  "esdhc_response hw base cmd response s =
     (if c_true (resp_type cmd AND MMC_RSP_136) then
        let (cmdrsp3, s) = esdhc_read32 hw base Cmdrsp3 s;
            (cmdrsp2, s) = esdhc_read32 hw base Cmdrsp2 s;
            (cmdrsp1, s) = esdhc_read32 hw base Cmdrsp1 s;
            (cmdrsp0, s) = esdhc_read32 hw base Cmdrsp0 s
        in (response(0 := push_bit 8 cmdrsp3 OR drop_bit 24 cmdrsp2, 1 := push_bit 8 cmdrsp2 OR drop_bit 24 cmdrsp1,
              2 := push_bit 8 cmdrsp1 OR drop_bit 24 cmdrsp0, 3 := push_bit 8 cmdrsp0), s)
      else
        let (cmdrsp0, s) = esdhc_read32 hw base Cmdrsp0 s in (response(0 := cmdrsp0), s))"

partial_function (option) wait_data :: "esdhc_hw \<Rightarrow> u32 \<Rightarrow> sys \<Rightarrow> (int \<times> sys) option" where [code]:
  "wait_data hw base s =
     (let (irqstat, s) = esdhc_read32 hw base Irqstat s in
      if c_true (irqstat AND IRQSTAT_DTOE) then Some (TIMEOUT, s)
      else if c_true (irqstat AND DATA_ERR) then Some (COMM_ERR, s)
      else if irqstat AND DATA_COMPLETE \<noteq> DATA_COMPLETE then wait_data hw base s
      else Some (0, s))"

text \<open>From the end of the command to the label \<open>out\<close>.\<close>

definition esdhc_collect ::
  "esdhc_hw \<Rightarrow> u32 \<Rightarrow> mmc_cmd \<Rightarrow> mmc_data option \<Rightarrow> (nat \<Rightarrow> u32) \<Rightarrow> sys \<Rightarrow> (int \<times> (nat \<Rightarrow> u32) \<times> sys) option" where
  "esdhc_collect hw base cmd data response s =
     (let (irqstat, s) = esdhc_read32 hw base Irqstat s in
      if c_true (irqstat AND CMD_ERR) then Some (COMM_ERR, response, s)
      else if c_true (irqstat AND IRQSTAT_CTOE) then Some (TIMEOUT, response, s)
      else
        let s = (if cmdidx cmd = SD_CMD_SWITCH_UHS18V
                 then udelay 5000 (esdhc_setbits32 hw base Vendorspec ESDHC_VENDORSPEC_VSELECT s) else s);
            (timeout, s) = (if data = None \<and> c_true (resp_type cmd AND MMC_RSP_BUSY) then dat0_wait hw base 6000 s else (1, s))
        in if timeout = 0 then Some (TIMEOUT, response, s)
           else
             let (response, s) = esdhc_response hw base cmd response s in
             case data of
               None \<Rightarrow> Some (0, response, s)
             | Some d \<Rightarrow> do {
                 (err, s) \<leftarrow> wait_data hw base s;
                 Some (err, response,
                   if err = 0 \<and> c_true (data_flags d AND MMC_DATA_READ) then check_and_invalidate_dcache_range hw d s else s)
               })"

text \<open>After an error the command and data parts of the controller are reset.\<close>

definition esdhc_recover :: "esdhc_hw \<Rightarrow> u32 \<Rightarrow> mmc_data option \<Rightarrow> int \<Rightarrow> sys \<Rightarrow> sys option" where
  "esdhc_recover hw base data err s =
     (if err = 0 then Some s
      else do {
        s \<leftarrow> wait_clear hw base Sysctl SYSCTL_RSTC (esdhc_setbits32 hw base Sysctl SYSCTL_RSTC s);
        if data = None then Some s
        else wait_clear hw base Sysctl SYSCTL_RSTD (esdhc_setbits32 hw base Sysctl SYSCTL_RSTD s)
      })"

text \<open>The command is written to the registers; the registers of the USDHC split the transfer type.\<close>

definition esdhc_issue :: "esdhc_hw \<Rightarrow> mmc \<Rightarrow> mmc_cmd \<Rightarrow> mmc_data option \<Rightarrow> sys \<Rightarrow> sys" where
  "esdhc_issue hw mmc cmd data s =
     (let base = mmc_esdhc_base mmc;
          xfertyp = esdhc_xfertyp cmd data;
          s = esdhc_write32 hw base Irqsigen 0 s;
          s = esdhc_write32 hw base Cmdarg (cmdarg cmd) s;
          (mix, s) = esdhc_read32 hw base Mixctrl s;
          s = esdhc_write32 hw base Mixctrl
                ((mix AND 0xFFFFFF80) OR (xfertyp AND 0x7F) OR (if mmc_ddr_mode mmc then XFERTYP_DDREN else 0)) s
      in esdhc_write32 hw base Xfertyp (xfertyp AND 0xFFFF0000) s)"

definition esdhc_send_cmd ::
  "esdhc_hw \<Rightarrow> mmc \<Rightarrow> mmc_cmd \<Rightarrow> mmc_data option \<Rightarrow> (nat \<Rightarrow> u32) \<Rightarrow> sys \<Rightarrow> (int \<times> (nat \<Rightarrow> u32) \<times> sys) option" where
  "esdhc_send_cmd hw mmc cmd data response s = do {
     let base = mmc_esdhc_base mmc;
     s \<leftarrow> wait_idle hw base (esdhc_write32 hw base Irqstat (- 1) s);
     s \<leftarrow> wait_clear hw base Prsstat PRSSTAT_DLA s;
     let s = udelay 1000 s;
     let (err, s) = (case data of None \<Rightarrow> (0, s) | Some d \<Rightarrow> esdhc_setup_data hw mmc d s);
     if err \<noteq> 0 then Some (err, response, s)
     else do {
       s \<leftarrow> wait_set hw base Irqstat (IRQSTAT_CC OR IRQSTAT_CTOE) (esdhc_issue hw mmc cmd data s);
       (err, response, s) \<leftarrow> esdhc_collect hw base cmd data response s;
       s \<leftarrow> esdhc_recover hw base data err s;
       Some (err, response, esdhc_write32 hw base Irqstat (- 1) s)
     }
   }"

section \<open>Clock and bus width\<close>

text \<open>\<open>sdhc_clk\<close> is a signed \<open>int\<close> in \<open>set_sysctl\<close>: quotients are truncated, then compared as unsigned numbers.\<close>

definition int_div :: "u32 \<Rightarrow> int \<Rightarrow> u32" where
  "int_div x d = of_int (sint x sdiv d)"

text \<open>The smallest power of two from 2 to 128 that brings the clock to 16 times the one asked for, 256 if there is none; then the
  smallest divisor from 1 to 16, 17 if there is none.\<close>

definition pre_divider :: "u32 \<Rightarrow> u32 \<Rightarrow> int" where
  "pre_divider clk clock =
     (if int_div clk 16 > clock then
        case find (\<lambda>p. int_div clk p \<le> clock * 16) [2, 4, 8, 16, 32, 64, 128] of Some p \<Rightarrow> p | None \<Rightarrow> 256
      else 2)"

definition divider :: "u32 \<Rightarrow> u32 \<Rightarrow> int \<Rightarrow> int" where
  "divider clk clock pre_div =
     (case find (\<lambda>d. int_div clk (d * pre_div) \<le> clock) [1, 2, 3, 4, 5, 6, 7, 8, 9, 10, 11, 12, 13, 14, 15, 16] of
        Some d \<Rightarrow> d | None \<Rightarrow> 17)"

definition clock_field :: "u32 \<Rightarrow> u32 \<Rightarrow> bool \<Rightarrow> u32" where
  "clock_field clk clock ddr =
     (let pre_div = pre_divider clk clock;
          dv = divider clk clock pre_div;
          pre_div = drop_bit (if ddr then 2 else 1) pre_div;
          dv = dv - 1
      in of_int (push_bit 8 pre_div OR push_bit 4 dv))"

definition set_sysctl :: "esdhc_hw \<Rightarrow> u32 \<Rightarrow> mmc \<Rightarrow> u32 \<Rightarrow> sys \<Rightarrow> sys" where
  "set_sysctl hw clk mmc clock s =
     (let base = mmc_esdhc_base mmc;
          clock = (if clock < f_min (mmc_cfg mmc) then f_min (mmc_cfg mmc) else clock);
          s = esdhc_clrbits32 hw base Sysctl SYSCTL_CKEN s;
          s = esdhc_clrsetbits32 hw base Sysctl SYSCTL_CLOCK_MASK (clock_field clk clock (mmc_ddr_mode mmc)) s;
          s = udelay 10000 s
      in esdhc_setbits32 hw base Sysctl (SYSCTL_PEREN OR SYSCTL_CKEN) s)"

definition esdhc_set_ios :: "esdhc_hw \<Rightarrow> u32 \<Rightarrow> mmc \<Rightarrow> sys \<Rightarrow> sys" where
  "esdhc_set_ios hw clk mmc s =
     (let base = mmc_esdhc_base mmc;
          s = set_sysctl hw clk mmc (mmc_clock mmc) s;
          s = esdhc_clrbits32 hw base Proctl (PROCTL_DTW_4 OR PROCTL_DTW_8) s
      in if mmc_bus_width mmc = 4 then esdhc_setbits32 hw base Proctl PROCTL_DTW_4 s
         else if mmc_bus_width mmc = 8 then esdhc_setbits32 hw base Proctl PROCTL_DTW_8 s
         else s)"

section \<open>Initialisation\<close>

text \<open>The counted wait for a reset: at most \<open>n\<close> further reads.\<close>

fun reset_loop :: "esdhc_hw \<Rightarrow> u32 \<Rightarrow> nat \<Rightarrow> sys \<Rightarrow> sys" where
  "reset_loop hw base 0 s = s"
| "reset_loop hw base (Suc n) s =
     (let (v, s) = esdhc_read32 hw base Sysctl s in
      if c_true (v AND SYSCTL_RSTA) \<and> n \<noteq> 0 then reset_loop hw base n (udelay 1000 s) else s)"

text \<open>\<open>esdhc_init\<close>: the clock is set through \<open>mmc_set_clock\<close>, that is, through the operations of the slot.\<close>

definition esdhc_init :: "esdhc_hw \<Rightarrow> media \<Rightarrow> mmc \<Rightarrow> sys \<Rightarrow> int \<times> mmc \<times> sys" where
  "esdhc_init hw md mmc s =
     (let base = mmc_esdhc_base mmc;
          s = esdhc_setbits32 hw base Sysctl SYSCTL_RSTA s;
          s = reset_loop hw base 1000 s;
          s = esdhc_setbits32 hw base Sysctl (SYSCTL_HCKEN OR SYSCTL_IPGEN) s;
          (mmc, s) = mmc_set_clock md mmc 400000 s;
          s = esdhc_clrbits32 hw base Irqstaten (IRQSTAT_BRR OR IRQSTAT_BWR) s;
          s = esdhc_write32 hw base Proctl PROCTL_INIT s
      in (0, mmc, esdhc_clrsetbits32 hw base Sysctl SYSCTL_TIMEOUT_MASK (push_bit 16 14) s))"

text \<open>\<open>esdhc_getcd\<close>, which the board's own hook keeps from being asked.\<close>

fun getcd_loop :: "esdhc_hw \<Rightarrow> u32 \<Rightarrow> nat \<Rightarrow> sys \<Rightarrow> nat \<times> sys" where
  "getcd_loop hw base 0 s = (0, s)"
| "getcd_loop hw base (Suc n) s =
     (let (v, s) = esdhc_read32 hw base Prsstat s in
      if c_true (v AND PRSSTAT_CINS) then (Suc n, s)
      else if n = 0 then (0, s) else getcd_loop hw base n (udelay 1000 s))"

definition esdhc_getcd :: "esdhc_hw \<Rightarrow> mmc \<Rightarrow> sys \<Rightarrow> int \<times> sys" where
  "esdhc_getcd hw mmc s = (let (timeout, s) = getcd_loop hw (mmc_esdhc_base mmc) 1000 s in (of_bool (0 < timeout), s))"

definition esdhc_reset :: "esdhc_hw \<Rightarrow> u32 \<Rightarrow> sys \<Rightarrow> sys" where
  "esdhc_reset hw base s = reset_loop hw base 100 (esdhc_setbits32 hw base Sysctl SYSCTL_RSTA s)"

text \<open>The capabilities the driver announces: \<open>None\<close> when the controller has no 3.3 volts.\<close>

definition esdhc_config :: "u32 \<Rightarrow> fsl_esdhc_cfg \<Rightarrow> mmc_config option" where
  "esdhc_config caps cfg =
     (let voltage_caps =
            (if c_true (caps AND ESDHC_HOSTCAPBLT_VS18) then MMC_VDD_165_195 else 0) OR
            (if c_true (caps AND ESDHC_HOSTCAPBLT_VS30) then MMC_VDD_29_30 OR MMC_VDD_30_31 else 0) OR
            (if c_true (caps AND ESDHC_HOSTCAPBLT_VS33) then MMC_VDD_32_33 OR MMC_VDD_33_34 else 0);
          volts = MMC_VDD_32_33 OR MMC_VDD_33_34;
          modes = MMC_MODE_4BIT OR MMC_MODE_8BIT;
          modes = (if max_bus_width cfg > 0 then
                     let modes = (if max_bus_width cfg < 8 then modes AND NOT MMC_MODE_8BIT else modes)
                     in if max_bus_width cfg < 4 then modes AND NOT MMC_MODE_4BIT else modes
                   else modes);
          modes = (if c_true (caps AND ESDHC_HOSTCAPBLT_HSS) then modes OR MMC_MODE_HS_52MHz OR MMC_MODE_HS else modes)
      in if volts AND voltage_caps = 0 then None
         else Some \<lparr>host_caps = modes, voltages = volts, f_min = 400000, f_max = min (sdhc_clk cfg) 52000000,
                    b_max = CONFIG_SYS_MMC_MAX_BLK_COUNT\<rparr>)"

text \<open>\<open>fsl_esdhc_initialize\<close>.  \<open>cur_dev_num\<close> of \<open>mmc.c\<close> counts the slots, so it is the length of the list; whether
  \<open>calloc\<close> has memory is an argument.\<close>

definition fsl_esdhc_initialize :: "esdhc_hw \<Rightarrow> bool \<Rightarrow> fsl_esdhc_cfg \<Rightarrow> sys \<Rightarrow> int \<times> sys" where
  "fsl_esdhc_initialize hw calloc cfg s =
     (let base = esdhc_base cfg;
          s = esdhc_reset hw base s;
          s = esdhc_setbits32 hw base Sysctl (SYSCTL_PEREN OR SYSCTL_HCKEN OR SYSCTL_IPGEN OR SYSCTL_CKEN) s;
          s = esdhc_write32 hw base Irqstaten SDHCI_IRQ_EN_BITS s;
          (caps, s) = esdhc_read32 hw base Hostcapblt s
      in case esdhc_config caps cfg of
           None \<Rightarrow> (- 1, s)
         | Some config \<Rightarrow>
             (case mmc_create calloc config base (length (mmc_devices s)) s of
                (None, _, s) \<Rightarrow> (- 1, s)
              | (Some mmc, _, s) \<Rightarrow> (0, s)))"

text \<open>\<open>fsl_esdhc_mmc_init\<close>, the fallback of \<open>cpu_mmc_init\<close>; the clock is \<open>gd->arch.sdhc_clk\<close>.\<close>

definition fsl_esdhc_mmc_init :: "esdhc_hw \<Rightarrow> bool \<Rightarrow> u32 \<Rightarrow> sys \<Rightarrow> int \<times> sys" where
  "fsl_esdhc_mmc_init hw calloc clk s =
     fsl_esdhc_initialize hw calloc \<lparr>esdhc_base = 0, sdhc_clk = clk, max_bus_width = 0\<rparr> s"

section \<open>The driver as a medium\<close>

text \<open>The operations of a slot served by this driver, \<open>esdhc_ops\<close>.  \<open>clk\<close> is the clock of the controller, \<open>buf\<close> the
  address of the caller's buffer and \<open>view\<close> what the processor reads from memory; a transfer returns the bytes it then finds in the
  buffer.  Where the driver does not return the medium has no value to give; it gives a failure.\<close>

definition esdhc_cmd ::
  "esdhc_hw \<Rightarrow> u32 \<Rightarrow> (sys \<Rightarrow> memory) \<Rightarrow> mmc \<Rightarrow> mmc_cmd \<Rightarrow> (u32 \<times> u32) option \<Rightarrow> sys \<Rightarrow> int \<times> (nat \<Rightarrow> u32) \<times> u8 list \<times> sys" where
  "esdhc_cmd hw buf view mmc cmd data s =
     (let d = map_option (\<lambda>(n, bl). \<lparr>data_dest = buf, data_flags = MMC_DATA_READ, data_blocks = n, data_blocksize = bl\<rparr>) data
      in case esdhc_send_cmd hw mmc cmd d (\<lambda>_. 0) s of
           None \<Rightarrow> (TIMEOUT, \<lambda>_. 0, [], s)
         | Some (err, response, s) \<Rightarrow>
             (err, response, case data of None \<Rightarrow> [] | Some (n, bl) \<Rightarrow> get_bytes (view s) buf (unat (n * bl)), s))"

definition esdhc_media :: "esdhc_hw \<Rightarrow> u32 \<Rightarrow> u32 \<Rightarrow> (sys \<Rightarrow> memory) \<Rightarrow> media \<Rightarrow> media" where
  "esdhc_media hw clk buf view md =
     (let md = md\<lparr>mmc_send_cmd := esdhc_cmd hw buf view, ops_set_ios := esdhc_set_ios hw clk\<rparr>
      in md\<lparr>ops_init := esdhc_init hw md\<rparr>)"

section \<open>What the driver leaves alone\<close>

text \<open>A part \<open>P\<close> of the state that register accesses and delays do not touch, except perhaps the write that starts a command.\<close>

locale reg_frame =
  fixes hw :: esdhc_hw and P :: "sys \<Rightarrow> 'a"
  assumes read_frame: "esdhc_read32 hw base r s = (v, t) \<Longrightarrow> P t = P s"
    and write_frame: "r \<noteq> Xfertyp \<Longrightarrow> P (esdhc_write32 hw base r v s) = P s"
    and cache_frame: "P (flush_dcache_range hw a b s) = P s" "P (invalidate_dcache_range hw a b s) = P s"
    and delay_frame: "P (udelay n s) = P s"
begin

lemma bits_frame:
  assumes "r \<noteq> Xfertyp"
  shows "P (esdhc_setbits32 hw base r v s) = P s" "P (esdhc_clrbits32 hw base r v s) = P s"
    "P (esdhc_clrsetbits32 hw base r c v s) = P s"
  using assms
  by (auto simp: esdhc_setbits32_def esdhc_clrbits32_def esdhc_clrsetbits32_def write_frame split: prod.splits dest: read_frame)

lemmas frames = write_frame bits_frame cache_frame delay_frame

lemma wait_clear_frame:
  assumes "wait_clear hw base r bits s = Some t"
  shows "P t = P s"
proof -
  have "h = hw \<longrightarrow> P t = P s" if "wait_clear h base r bits s = Some t" for h t
    using that
  proof (rule wait_clear.raw_induct [rotated], goal_cases)
    case 1
    from 1(2) show ?case
      by (auto split: if_splits prod.splits dest!: read_frame 1(1))
  qed
  with assms show ?thesis
    by blast
qed

lemma wait_set_frame:
  assumes "wait_set hw base r bits s = Some t"
  shows "P t = P s"
proof -
  have "h = hw \<longrightarrow> P t = P s" if "wait_set h base r bits s = Some t" for h t
    using that
  proof (rule wait_set.raw_induct [rotated], goal_cases)
    case 1
    from 1(2) show ?case
      by (auto split: if_splits prod.splits dest!: read_frame 1(1))
  qed
  with assms show ?thesis
    by blast
qed

lemma wait_idle_frame:
  assumes "wait_idle hw base s = Some t"
  shows "P t = P s"
proof -
  have "h = hw \<longrightarrow> P t = P s" if "wait_idle h base s = Some t" for h t
    using that
  proof (rule wait_idle.raw_induct [rotated], goal_cases)
    case 1
    from 1(2) show ?case
      by (auto split: if_splits prod.splits dest!: read_frame 1(1))
  qed
  with assms show ?thesis
    by blast
qed

lemma wait_data_frame:
  assumes "wait_data hw base s = Some (err, t)"
  shows "P t = P s"
proof -
  have "h = hw \<longrightarrow> P (snd y) = P s" if "wait_data h base s = Some y" for h y
    using that
  proof (rule wait_data.raw_induct [rotated], goal_cases)
    case 1
    from 1(2) show ?case
      by (auto split: if_splits prod.splits dest!: read_frame 1(1))
  qed
  with assms show ?thesis
    by fastforce
qed

lemma dat0_wait_frame: "dat0_wait hw base n s = (k, t) \<Longrightarrow> P t = P s"
  by (induction n arbitrary: s)
    (auto simp: delay_frame split: prod.splits if_splits dest!: read_frame)

lemma setup_data_frame: "esdhc_setup_data hw mmc d s = (err, t) \<Longrightarrow> P t = P s"
  by (auto simp: esdhc_setup_data_def Let_def frames split: prod.splits if_splits dest!: read_frame)

lemma response_frame: "esdhc_response hw base cmd resp s = (resp', t) \<Longrightarrow> P t = P s"
  by (auto simp: esdhc_response_def split: prod.splits if_splits dest!: read_frame)

lemma collect_frame:
  assumes "esdhc_collect hw base cmd data resp s = Some (err, resp', t)"
  shows "P t = P s"
  using assms
  by (auto simp: esdhc_collect_def Let_def frames check_and_invalidate_dcache_range_def
      split: prod.splits if_splits option.splits Option.bind_splits
      dest!: read_frame dat0_wait_frame response_frame wait_data_frame)

lemma recover_frame: "esdhc_recover hw base data err s = Some t \<Longrightarrow> P t = P s"
  by (auto simp: esdhc_recover_def bits_frame split: if_splits Option.bind_splits dest!: wait_clear_frame)

lemma set_ios_frame: "P (esdhc_set_ios hw clk mmc s) = P s"
  by (simp add: esdhc_set_ios_def set_sysctl_def Let_def frames)

lemma reset_loop_frame: "P (reset_loop hw base n s) = P s"
  by (induction n arbitrary: s) (auto simp: delay_frame split: prod.splits dest: read_frame)

lemma init_frame:
  assumes "\<And>mmc s. P (ops_set_ios md mmc s) = P s"
  shows "\<exists>k t. esdhc_init hw md mmc s = (0, mmc\<lparr>mmc_clock := k\<rparr>, t) \<and> P t = P s"
  by (auto simp: esdhc_init_def mmc_set_clock_def mmc_set_ios_def Let_def frames reset_loop_frame assms)

lemma media_frame:
  "P (ops_set_ios (esdhc_media hw clk buf view md) mmc s) = P s"
  "\<exists>k t. ops_init (esdhc_media hw clk buf view md) mmc s = (0, mmc\<lparr>mmc_clock := k\<rparr>, t) \<and> P t = P s"
  using init_frame [of "md\<lparr>mmc_send_cmd := esdhc_cmd hw buf view, ops_set_ios := esdhc_set_ios hw clk\<rparr>" mmc s]
  by (simp_all add: esdhc_media_def Let_def set_ios_frame)

end

text \<open>The program's data is such a part, whatever is written.\<close>

locale quiet_esdhc = reg_frame hw calm for hw +
  assumes start_quiet: "calm (esdhc_write32 hw base Xfertyp v s) = calm s"
begin

lemma issue_quiet: "calm (esdhc_issue hw mmc cmd data s) = calm s"
  by (auto simp: esdhc_issue_def Let_def start_quiet frames split: prod.splits dest: read_frame)

lemma send_cmd_quiet:
  assumes "esdhc_send_cmd hw mmc cmd data resp s = Some (err, resp', t)"
  shows "calm t = calm s"
  using assms
  by (auto simp: esdhc_send_cmd_def Let_def frames issue_quiet split: prod.splits if_splits option.splits Option.bind_splits
      dest!: wait_idle_frame wait_clear_frame wait_set_frame setup_data_frame collect_frame recover_frame)

lemma cmd_quiet: "esdhc_cmd hw buf view mmc cmd data s = (err, resp, bytes, t) \<Longrightarrow> calm t = calm s"
  by (auto simp: esdhc_cmd_def Let_def split: option.splits prod.splits dest: send_cmd_quiet)

end

text \<open>Over any USB side that is quiet the driver is a quiet medium, and a host that sets nothing but the clock of a slot.\<close>

locale esdhc_slot = quiet_esdhc hw + quiet_media md for hw md

sublocale esdhc_slot \<subseteq> ctl: quiet_host "esdhc_media hw clk buf view md" for clk buf view
proof unfold_locales
  show "calm t = calm s" if "mmc_send_cmd (esdhc_media hw clk buf view md) mmc cmd data s = (r, resp, bytes, t)"
    for mmc cmd data s r resp bytes t
    using that by (auto simp: esdhc_media_def Let_def dest: cmd_quiet)
  show "calm (ops_set_ios (esdhc_media hw clk buf view md) mmc s) = calm s" for mmc s
    by (rule media_frame)
  show "calm t = calm s" if "ops_init (esdhc_media hw clk buf view md) mmc s = (r, mmc', t)" for mmc s r mmc' t
    using media_frame(2) [of clk buf view md mmc s] that by auto
  show "\<exists>k. mmc' = mmc\<lparr>mmc_clock := k\<rparr>" if "ops_init (esdhc_media hw clk buf view md) mmc s = (r, mmc', t)" for mmc s r mmc' t
    using media_frame(2) [of clk buf view md mmc s] that by auto
qed (auto simp: esdhc_media_def Let_def usb_request_sense_quiet dest: usb_init_quiet usb_stor_scan_quiet usb_read_10_quiet)

context esdhc_slot
begin

lemma media_quiet: "quiet_media (esdhc_media hw clk buf view md)"
  by (rule ctl.quiet_media_axioms)

end

end
