(* ===== verification/Sd_Slot.thy ===== *)
theory Sd_Slot
  imports Mmc_Card
begin

text \<open>
  The driver of \<open>Mmc_Card\<close> against a card that keeps to the SD specification.  The locale \<open>sd_slot\<close> is the contract:
  every command \<open>sd_answer\<close> has an answer for gets it, and the controller's own operations do not disturb the
  card.  Under it each step of the identification succeeds and takes the card to the next state.  Before that, what the
  driver reads in the CSD register is what the specification says is there.
\<close>

section \<open>The CSD register\<close>

lemma no_checksum: "8 \<le> k \<Longrightarrow> (ucast (drop_bit k csd AND drop_bit k (NOT (mask 8)) :: 128 word) :: u32) = ucast (drop_bit k csd)"
  by (rule bit_word_eqI) (auto simp: bit_simps dest: bit_imp_le_length)

lemma csd_words_nth:
  "csd_words csd ! 0 = ucast (drop_bit 96 csd)" "csd_words csd ! Suc 0 = ucast (drop_bit 64 csd)"
  "csd_words csd ! 1 = ucast (drop_bit 64 csd)"
  "csd_words csd ! 2 = ucast (drop_bit 32 csd)" "length (csd_words csd) = 4"
  by (simp_all add: csd_words_def nth_Cons' no_checksum)

lemma bit_eq_mask: "(7 :: u32) = mask 3" "(0xf :: u32) = mask 4" "(0x3f :: u32) = mask 6" "(0x3ff :: u32) = mask 10"
  "(0xffff0000 :: u32) = push_bit 16 (mask 16)" "(0xc0000000 :: u32) = push_bit 30 (mask 2)" "(0x00038000 :: u32) = push_bit 15 (mask 3)"
  by (simp_all add: mask_eq_exp_minus_1)

text \<open>A field as a word, by its bits.\<close>

definition field_word :: "128 word \<Rightarrow> nat \<Rightarrow> nat \<Rightarrow> u32" where
  "field_word csd lo n = ucast (take_bit n (drop_bit lo csd))"

lemma unat_field_word:
  assumes "n \<le> 32"
  shows "unat (field_word csd lo n) = csd_field csd lo n"
proof -
  have "take_bit 32 (take_bit n (drop_bit lo csd)) = take_bit n (drop_bit lo csd)"
    using assms by (simp add: min_absorb2)
  then have "unat (take_bit n (drop_bit lo csd)) mod 2 ^ 32 = unat (take_bit n (drop_bit lo csd))"
    by (metis take_bit_eq_mod unsigned_take_bit_eq)
  then show ?thesis
    by (simp add: field_word_def csd_field_def unsigned_ucast_eq take_bit_eq_mod)
qed

lemma csd_field_less: "csd_field csd lo n < 2 ^ n"
  by (simp add: csd_field_def unsigned_take_bit_eq)

lemma fields:
  "(ucast (drop_bit 96 csd) :: u32) AND 7 = field_word csd 96 3"
  "drop_bit 16 (ucast (drop_bit 64 csd) :: u32) AND 0xf = field_word csd 80 4"
  "push_bit 16 ((ucast (drop_bit 64 csd) :: u32) AND 0x3f) OR drop_bit 16 (ucast (drop_bit 32 csd) AND 0xffff0000) = field_word csd 48 22"
  "push_bit 2 ((ucast (drop_bit 64 csd) :: u32) AND 0x3ff) OR drop_bit 30 (ucast (drop_bit 32 csd) AND 0xc0000000) = field_word csd 62 12"
  "drop_bit 15 ((ucast (drop_bit 32 csd) :: u32) AND 0x00038000) = field_word csd 47 3"
  unfolding bit_eq_mask field_word_def
  by (rule bit_word_eqI, auto simp: bit_simps algebra_simps; fail)+

lemma ucast_of_nat: "(ucast (w :: u32) :: u64) = of_nat (unat w)"
  by (simp add: unsigned_of_nat unsigned_ucast_eq word_unat_eq_iff take_bit_nat_eq_self unsigned_less [THEN less_trans])

lemma unat_block_len:
  assumes "k < 16"
  shows "unat (push_bit k 1 :: u32) = 2 ^ k"
proof -
  have "(2 :: nat) ^ k < 2 ^ 32"
    using assms by (intro power_strict_increasing) auto
  then show ?thesis
    using unat_of_nat [of "2 ^ k", where 'a = 32] by (simp add: push_bit_eq_mult)
qed

lemma ucast_field:
  assumes "n \<le> 32"
  shows "(ucast (field_word csd lo n) :: u64) = of_nat (csd_field csd lo n)"
  by (simp only: ucast_of_nat unat_field_word [OF assms])

lemma csd_bytes_bound: "csd_bytes hc csd < 2 ^ 64"
proof -
  have len: "(2 :: nat) ^ csd_field csd 80 4 \<le> 2 ^ 15"
    using csd_field_less [of csd 80 4] by (intro power_increasing) auto
  have "(csd_field csd 48 22 + 1) * 2 ^ 10 * 2 ^ csd_field csd 80 4 \<le> 2 ^ 22 * 2 ^ 10 * 2 ^ 15"
    using csd_field_less [of csd 48 22] by (intro mult_le_mono len) auto
  moreover have "(2 :: nat) ^ (csd_field csd 47 3 + 2) \<le> 2 ^ 9"
    using csd_field_less [of csd 47 3] by (intro power_increasing) auto
  then have "(csd_field csd 62 12 + 1) * 2 ^ (csd_field csd 47 3 + 2) * 2 ^ csd_field csd 80 4 \<le> 2 ^ 12 * 2 ^ 9 * 2 ^ 15"
    using csd_field_less [of csd 62 12] by (intro mult_le_mono len) auto
  ultimately show ?thesis
    by (auto simp: csd_bytes_def)
qed

lemma csd_capacity_bytes:
  "unat (csd_capacity hc (csd_words csd ! 1) (csd_words csd ! 2) (push_bit (csd_field csd 80 4) 1)) = csd_bytes hc csd"
proof -
  have "csd_field csd 80 4 < 16"
    using csd_field_less [of csd 80 4] by simp
  then have len: "(ucast (push_bit (csd_field csd 80 4) 1 :: u32) :: u64) = of_nat (2 ^ csd_field csd 80 4)"
    by (simp only: ucast_of_nat unat_block_len)
  have "csd_capacity hc (csd_words csd ! 1) (csd_words csd ! 2) (push_bit (csd_field csd 80 4) 1) = of_nat (csd_bytes hc csd)"
    unfolding csd_capacity_def csd_words_nth fields Let_def len csd_bytes_def
    by (simp add: ucast_field unat_field_word push_bit_eq_mult algebra_simps)
  then show ?thesis
    using csd_bytes_bound [of hc csd] by (simp add: unat_of_nat)
qed

lemma startup_csd_ok:
  assumes "map resp [0, 1, 2, 3] = csd_words csd" "mmc_csd mmc = csd_words csd" "csd_field csd 96 3 < 4" "IS_SD mmc"
    "mmc_version mmc \<noteq> MMC_VERSION_UNKNOWN"
  shows "\<exists>speed imp cap. startup_csd mmc resp =
    Some (mmc\<lparr>mmc_tran_speed := speed, mmc_dsr_imp := imp, mmc_capacity_user := cap, mmc_capacity_boot := 0,
      mmc_capacity_rpmb := 0, mmc_capacity_gp := [0, 0, 0, 0],
      mmc_read_bl_len := clamp_bl_len (push_bit (csd_field csd 80 4) 1),
      mmc_write_bl_len := clamp_bl_len (push_bit (csd_field csd 80 4) 1)\<rparr>) \<and>
    unat cap = csd_bytes (mmc_high_capacity mmc) csd"
proof -
  have r: "resp 0 = csd_words csd ! 0" "resp 1 = csd_words csd ! 1"
    using assms(1) by (simp_all add: csd_words_def)
  have "unat (resp 0 AND 7) = csd_field csd 96 3" "unat (drop_bit 16 (resp 1) AND 0xf) = csd_field csd 80 4"
    unfolding r csd_words_nth fields by (simp_all add: unat_field_word)
  then show ?thesis
    using assms(2-5) csd_capacity_bytes [of "mmc_high_capacity mmc" csd] by (auto simp: startup_csd_def Let_def fbase_def)
qed

lemma startup_csd_capacity:
  assumes "startup_csd mmc resp = Some m" "map resp [0, 1, 2, 3] = csd_words csd" "mmc_csd mmc = csd_words csd"
  shows "unat (mmc_capacity_user m) = csd_bytes (mmc_high_capacity mmc) csd \<and>
    unat (mmc_read_bl_len m) = min 512 (2 ^ csd_field csd 80 4)"
proof -
  have "resp 1 = csd_words csd ! 1"
    using assms(2) by (simp add: csd_words_def)
  then have len: "unat (drop_bit 16 (resp 1) AND 0xf) = csd_field csd 80 4"
    by (simp only: csd_words_nth fields unat_field_word)
  have "unat (clamp_bl_len (push_bit (csd_field csd 80 4) 1)) = min 512 (2 ^ csd_field csd 80 4)"
    using unat_block_len [of "csd_field csd 80 4"] csd_field_less [of csd 80 4]
    by (auto simp: clamp_bl_len_def MMC_MAX_BLOCK_LEN_def word_less_nat_alt min_def)
  then show ?thesis
    using assms(1,3) csd_capacity_bytes [of "mmc_high_capacity mmc" csd] len
    by (auto simp: startup_csd_def Let_def split: if_splits)
qed

lemma startup_csd_reserved:
  assumes "map resp [0, 1, 2, 3] = csd_words csd" "4 \<le> csd_field csd 96 3"
  shows "startup_csd mmc resp = None"
proof -
  have "resp 0 = csd_words csd ! 0"
    using assms(1) by (simp add: csd_words_def)
  then have "unat (resp 0 AND 7) = csd_field csd 96 3"
    by (simp only: csd_words_nth fields unat_field_word)
  then show ?thesis
    using assms(2) by (simp add: startup_csd_def fbase_def)
qed

lemma clamp_ok:
  assumes "9 \<le> csd_field csd 80 4"
  shows "clamp_bl_len (push_bit (csd_field csd 80 4) 1) = 512"
proof -
  have k: "csd_field csd 80 4 < 16"
    using csd_field_less [of csd 80 4] by simp
  have "(2 :: nat) ^ 9 \<le> 2 ^ csd_field csd 80 4"
    using assms by (intro power_increasing) auto
  then have "512 \<le> unat (push_bit (csd_field csd 80 4) 1 :: u32)"
    using unat_block_len [OF k] by simp
  then show ?thesis
    by (auto simp: clamp_bl_len_def MMC_MAX_BLOCK_LEN_def word_less_nat_alt word_unat_eq_iff)
qed

section \<open>The contract\<close>

locale sd_slot =
  fixes md :: media and c :: sd_device
  assumes answers: "sd_answer c (sd_line s) (sd_app s) cmd data = Some (st, app, resp, bytes) \<Longrightarrow> transferable data \<Longrightarrow>
      \<exists>r t. mmc_send_cmd md mmc cmd data s = (0, r, bytes, t) \<and>
        (\<forall>i < length resp. i < resp_words (resp_type cmd) \<longrightarrow> r i = resp ! i) \<and>
        calm t = calm s \<and> sd_line t = st \<and> sd_app t = app"
    and set_ios_kept: "kept (ops_set_ios md mmc s) = kept s"
    and host_init: "\<exists>k t. ops_init md mmc s = (0, mmc\<lparr>mmc_clock := k\<rparr>, t) \<and> kept t = kept s"

definition card_at :: "sd_state \<Rightarrow> bool \<Rightarrow> sys \<Rightarrow> sys \<Rightarrow> bool" where
  "card_at st app t s \<longleftrightarrow> calm t = calm s \<and> sd_line t = st \<and> sd_app t = app"

lemma at_udelay [simp]: "card_at st app (udelay n t) s = card_at st app t s"
  "card_at st app t (udelay n s) = card_at st app t s"
  by (simp_all add: card_at_def) (simp_all add: udelay_def)

lemma at_trans: "card_at st app u t \<Longrightarrow> card_at st' app' t s \<Longrightarrow> card_at st app u s"
  by (simp add: card_at_def)

lemma at_kept: "kept t = kept s \<Longrightarrow> card_at (sd_line s) (sd_app s) t s"
  by (simp add: card_at_def kept_def)

lemma at_here: "card_at (sd_line s) (sd_app s) s s"
  by (simp add: card_at_def)

lemma udelay_line [simp]: "sd_line (udelay n s) = sd_line s" "sd_app (udelay n s) = sd_app s"
  by (simp_all add: udelay_def)

text \<open>What a card that is ready answers to \<open>APP_SEND_OP_COND\<close>.\<close>

definition ready_ocr :: "sd_device \<Rightarrow> u32" where
  "ready_ocr c = OCR_BUSY OR (if card_hc c then OCR_HCS else 0) OR (card_ocr c AND 0xffffff)"

lemma ready_ocr_bits: "c_true (ready_ocr c AND OCR_BUSY)" "(ready_ocr c AND OCR_HCS = OCR_HCS) = card_hc c"
proof -
  have "bit (ready_ocr c AND OCR_BUSY) 31"
    by (simp add: ready_ocr_def OCR_BUSY_def bit_simps)
  then show "c_true (ready_ocr c AND OCR_BUSY)"
    by (auto simp: c_true_def)
  have "bit (ready_ocr c AND OCR_HCS) 30 = card_hc c"
    by (simp add: ready_ocr_def OCR_BUSY_def OCR_HCS_def bit_simps)
  moreover have "bit OCR_HCS 30"
    by (simp add: OCR_HCS_def)
  moreover have "ready_ocr c AND OCR_HCS = OCR_HCS" if "card_hc c"
    using that by (simp add: ready_ocr_def OCR_BUSY_def OCR_HCS_def bit.conj_disj_distrib2)
  ultimately show "(ready_ocr c AND OCR_HCS = OCR_HCS) = card_hc c"
    by auto
qed

lemma op_cond_arg_bits:
  assumes "voltages (mmc_cfg mmc) AND card_ocr c AND 0xff8000 \<noteq> 0"
  shows "sd_op_cond_arg mmc AND card_ocr c AND 0xff8000 \<noteq> 0"
    and "mmc_version mmc = SD_VERSION_2 \<Longrightarrow> sd_op_cond_arg mmc AND OCR_HCS \<noteq> 0"
proof -
  obtain i where "bit (voltages (mmc_cfg mmc) AND card_ocr c AND 0xff8000) i"
    using assms by (metis bit_0_eq bit_eq_iff bot_apply bot_bool_def)
  then have "bit (sd_op_cond_arg mmc AND card_ocr c AND 0xff8000) i"
    by (simp add: sd_op_cond_arg_def bit_and_iff bit_or_iff)
  then show "sd_op_cond_arg mmc AND card_ocr c AND 0xff8000 \<noteq> 0"
    by auto
  have "bit (sd_op_cond_arg mmc AND OCR_HCS) 30" if "mmc_version mmc = SD_VERSION_2"
    using that by (simp add: sd_op_cond_arg_def OCR_HCS_def bit_simps)
  then show "sd_op_cond_arg mmc AND OCR_HCS \<noteq> 0" if "mmc_version mmc = SD_VERSION_2"
    using that by auto
qed

lemma low_half: "(0xffff :: u32) = mask 16"
  by (simp add: mask_eq_exp_minus_1)

lemma scr_version_sd: "c_true (scr_version scr0 AND SD_VERSION_SD)"
  by (simp add: scr_version_def sd_version_defs Let_def c_true_def)

section \<open>The steps of the identification\<close>

text \<open>\<open>mmc_start_init\<close> up to the operating conditions: the card is idle, the slot is the one given here.\<close>

definition reset_slot :: "u32 \<Rightarrow> mmc \<Rightarrow> mmc" where
  "reset_slot k mmc =
     mmc\<lparr>mmc_clock := k, mmc_ddr_mode := False, mmc_bus_width := 1, mmc_part_num := 0, mmc_version := SD_VERSION_2\<rparr>"

context sd_slot
begin

lemma plain:
  assumes "sd_answer c (sd_line s) (sd_app s) \<lparr>cmdidx = idx, resp_type = rsp, cmdarg = arg\<rparr> None = Some (st, app, resp, bytes)"
  shows "\<exists>r t. plain_cmd md mmc idx rsp arg s = (0, r, t) \<and> (\<forall>i < length resp. i < resp_words rsp \<longrightarrow> r i = resp ! i) \<and> card_at st app t s"
  using answers [OF assms, of mmc] by (auto simp: plain_cmd_def card_at_def)

lemma data:
  assumes "sd_answer c (sd_line s) (sd_app s) \<lparr>cmdidx = idx, resp_type = MMC_RSP_R1, cmdarg = arg\<rparr> (Some (1, len))
      = Some (st, app, resp, bytes)" and "length bytes = unat len" and "len < 0x1000"
  shows "\<exists>t. data_cmd md mmc idx arg len s = Some (0, bytes, t) \<and> card_at st app t s"
  using answers [OF assms(1), of mmc] assms(2,3) by (auto simp: data_cmd_def card_at_def)

lemma go_idle: "\<exists>t. mmc_go_idle md mmc s = (0, t) \<and> card_at (Sd_idle (card_busy c)) False t s"
proof -
  obtain r t where "plain_cmd md mmc MMC_CMD_GO_IDLE_STATE MMC_RSP_NONE 0 (udelay 1000 s) = (0, r, t)"
    "card_at (Sd_idle (card_busy c)) False t (udelay 1000 s)"
    using plain [of "udelay 1000 s" MMC_CMD_GO_IDLE_STATE MMC_RSP_NONE 0 "Sd_idle (card_busy c)" False "[]" "[]" mmc]
    by (auto simp: sd_answer_def mmc_cmd_defs)
  then show ?thesis
    by (simp add: mmc_go_idle_def)
qed

lemma if_cond:
  assumes "sd_line s = Sd_idle n" "\<not> sd_app s"
  shows "\<exists>t. mmc_send_if_cond md mmc s = (0, mmc\<lparr>mmc_version := SD_VERSION_2\<rparr>, t) \<and> card_at (Sd_idle n) False t s"
proof -
  define arg where "arg = (push_bit 8 (if voltages (mmc_cfg mmc) AND 0xff8000 \<noteq> 0 then 1 else 0) OR 0xaa :: u32)"
  have arg: "(arg AND 0xfff) AND 0xff = 0xaa"
    by (simp add: arg_def)
  obtain r t where "plain_cmd md mmc SD_CMD_SEND_IF_COND MMC_RSP_R7 arg s = (0, r, t)" "r 0 = arg AND 0xfff"
    "card_at (Sd_idle n) False t s"
    using plain [of s SD_CMD_SEND_IF_COND MMC_RSP_R7 arg "Sd_idle n" False "[arg AND 0xfff]" "[]" mmc] assms
    by (auto simp: sd_answer_def sd_plain_answer_def mmc_cmd_defs Let_def)
  then show ?thesis
    using arg by (auto simp: mmc_send_if_cond_def arg_def [symmetric] Let_def)
qed

lemma app_cmd_idle:
  assumes "sd_line s = Sd_idle n"
  shows "\<exists>r t. plain_cmd md mmc MMC_CMD_APP_CMD MMC_RSP_R1 arg s = (0, r, t) \<and> card_at (Sd_idle n) True t s"
  using plain [of s MMC_CMD_APP_CMD MMC_RSP_R1 arg "Sd_idle n" True "[card_status (Sd_idle n)]" "[]" mmc] assms
  by (auto simp: sd_answer_def)

lemma op_cond_round:
  assumes idle: "sd_line s = Sd_idle n"
    and volts: "voltages (mmc_cfg mmc) AND card_ocr c AND 0xff8000 \<noteq> 0" and v2: "mmc_version mmc = SD_VERSION_2"
  shows "\<exists>r r' t u. plain_cmd md mmc MMC_CMD_APP_CMD MMC_RSP_R1 0 s = (0, r, t) \<and>
    plain_cmd md mmc SD_CMD_APP_SEND_OP_COND MMC_RSP_R3 (sd_op_cond_arg mmc) t = (0, r', u) \<and>
    r' 0 = (case n of 0 \<Rightarrow> ready_ocr c | Suc m \<Rightarrow> card_ocr c AND 0xffffff) \<and>
    card_at (case n of 0 \<Rightarrow> Sd_ready | Suc m \<Rightarrow> Sd_idle m) False u s"
proof -
  obtain r t where t: "plain_cmd md mmc MMC_CMD_APP_CMD MMC_RSP_R1 0 s = (0, r, t)" "card_at (Sd_idle n) True t s"
    using app_cmd_idle [OF idle] by blast
  let ?cmd = "\<lparr>cmdidx = SD_CMD_APP_SEND_OP_COND, resp_type = MMC_RSP_R3, cmdarg = sd_op_cond_arg mmc\<rparr>"
  have "sd_answer c (sd_line t) (sd_app t) ?cmd None
      = Some (case n of 0 \<Rightarrow> Sd_ready | Suc m \<Rightarrow> Sd_idle m, False,
          [case n of 0 \<Rightarrow> ready_ocr c | Suc m \<Rightarrow> card_ocr c AND 0xffffff], [])"
    using t(2) op_cond_arg_bits [OF volts] v2
    by (auto simp: sd_answer_def sd_app_answer_def card_at_def mmc_cmd_defs ready_ocr_def split: nat.split)
  from plain [OF this, of mmc] obtain r' u where
    "plain_cmd md mmc SD_CMD_APP_SEND_OP_COND MMC_RSP_R3 (sd_op_cond_arg mmc) t = (0, r', u)"
    "r' 0 = (case n of 0 \<Rightarrow> ready_ocr c | Suc m \<Rightarrow> card_ocr c AND 0xffffff)"
    "card_at (case n of 0 \<Rightarrow> Sd_ready | Suc m \<Rightarrow> Sd_idle m) False u t"
    by auto
  then show ?thesis
    using t at_trans by blast
qed

lemma op_cond_loop:
  assumes "sd_line s = Sd_idle n" and "n \<le> timeout"
    and volts: "voltages (mmc_cfg mmc) AND card_ocr c AND 0xff8000 \<noteq> 0" and v2: "mmc_version mmc = SD_VERSION_2"
  shows "\<exists>t. sd_op_cond_loop md mmc timeout s = (0, ready_ocr c, t) \<and> card_at Sd_ready False t s"
  using assms(1,2)
proof (induction n arbitrary: timeout s)
  case 0
  then show ?case
    using op_cond_round [OF _ volts v2, of s 0] ready_ocr_bits(1)
    by (subst sd_op_cond_loop.simps) auto
next
  case (Suc n)
  then obtain k where k: "timeout = Suc k" "n \<le> k"
    by (cases timeout) auto
  obtain r r' t u where u: "plain_cmd md mmc MMC_CMD_APP_CMD MMC_RSP_R1 0 s = (0, r, t)"
    "plain_cmd md mmc SD_CMD_APP_SEND_OP_COND MMC_RSP_R3 (sd_op_cond_arg mmc) t = (0, r', u)"
    "r' 0 = card_ocr c AND 0xffffff" "card_at (Sd_idle n) False u s"
    using op_cond_round [OF Suc.prems(1) volts v2] by auto
  have "(card_ocr c AND 0xffffff) AND OCR_BUSY = 0"
    by (simp add: OCR_BUSY_def and.assoc)
  moreover obtain v where "sd_op_cond_loop md mmc k (udelay 1000 u) = (0, ready_ocr c, v)" "card_at Sd_ready False v (udelay 1000 u)"
    using Suc.IH [of "udelay 1000 u" k] k u(4) by (auto simp: card_at_def)
  ultimately show ?case
    using u k at_trans [of Sd_ready False v u] by (subst sd_op_cond_loop.simps) (auto simp: c_true_def)
qed

lemma op_cond:
  assumes "sd_line s = Sd_idle n" "n \<le> 1000"
    and "voltages (mmc_cfg mmc) AND card_ocr c AND 0xff8000 \<noteq> 0" "mmc_version mmc = SD_VERSION_2"
  shows "\<exists>t. sd_send_op_cond md mmc s = (0, mmc\<lparr>mmc_ocr := ready_ocr c, mmc_high_capacity := card_hc c, mmc_rca := 0\<rparr>, t) \<and>
    card_at Sd_ready False t s"
  using op_cond_loop [OF assms] assms(4) ready_ocr_bits(2) [of c] by (auto simp: sd_send_op_cond_def)

lemma ios: "kept (mmc_set_ios md mmc s) = kept s"
  by (simp add: mmc_set_ios_def set_ios_kept)

lemma set_width: "\<exists>t. mmc_set_bus_width md mmc w s = (mmc\<lparr>mmc_bus_width := w\<rparr>, t) \<and> kept t = kept s"
  by (simp add: mmc_set_bus_width_def ios Let_def)

lemma set_clock: "\<exists>k t. mmc_set_clock md mmc clk s = (mmc\<lparr>mmc_clock := k\<rparr>, t) \<and> kept t = kept s"
  by (auto simp: mmc_set_clock_def ios Let_def)

lemma start_upto:
  assumes cd: "fst (mmc_getcd e mmc s) \<noteq> 0" and "\<not> mmc_has_init mmc"
  shows "\<exists>k t. card_at (Sd_idle (card_busy c)) False t s \<and>
    (\<forall>err m u. sd_send_op_cond md (reset_slot k mmc) t = (err, m, u) \<longrightarrow> err \<noteq> TIMEOUT \<longrightarrow>
       mmc_start_init e md mmc s = (err, if err = 0 then m\<lparr>mmc_init_in_progress := True\<rparr> else m, u))"
proof -
  obtain n s0 where s0: "mmc_getcd e mmc s = (n, s0)" "n \<noteq> 0" "calm s0 = calm s"
    using cd getcd_calm by (metis prod.collapse)
  obtain k1 s1 where s1: "ops_init md mmc s0 = (0, mmc\<lparr>mmc_clock := k1\<rparr>, s1)" "kept s1 = kept s0"
    using host_init by blast
  let ?m1 = "mmc\<lparr>mmc_clock := k1, mmc_ddr_mode := False\<rparr>"
  obtain s2 where s2: "mmc_set_bus_width md ?m1 1 s1 = (?m1\<lparr>mmc_bus_width := 1\<rparr>, s2)" "kept s2 = kept s1"
    using set_width by blast
  let ?m2 = "?m1\<lparr>mmc_bus_width := 1\<rparr>"
  obtain k2 s3 where s3: "mmc_set_clock md ?m2 1 s2 = (?m2\<lparr>mmc_clock := k2\<rparr>, s3)" "kept s3 = kept s2"
    using set_clock by blast
  let ?m3 = "?m2\<lparr>mmc_clock := k2\<rparr>"
  obtain s4 where s4: "mmc_go_idle md ?m3 s3 = (0, s4)" "card_at (Sd_idle (card_busy c)) False s4 s3"
    using go_idle by blast
  let ?m4 = "?m3\<lparr>mmc_part_num := 0\<rparr>"
  obtain s5 where s5: "mmc_send_if_cond md ?m4 s4 = (0, ?m4\<lparr>mmc_version := SD_VERSION_2\<rparr>, s5)" "card_at (Sd_idle (card_busy c)) False s5 s4"
    using if_cond [of s4 "card_busy c" ?m4] s4(2) by (auto simp: card_at_def)
  have "calm s3 = calm s"
    using s0 s1 s2 s3 by (simp add: kept_def)
  then have "card_at (Sd_idle (card_busy c)) False s5 s"
    using s5(2) s4(2) by (simp add: card_at_def)
  moreover have "reset_slot k2 mmc = ?m4\<lparr>mmc_version := SD_VERSION_2\<rparr>"
    by (simp add: reset_slot_def)
  ultimately show ?thesis
    using s0(1,2) s1(1) s2(1) s3(1) s4(1) s5(1) assms(2)
    by (intro exI [of _ k2] exI [of _ s5]) (simp add: mmc_start_init_def)
qed

lemma start_init:
  assumes "fst (mmc_getcd e mmc s) \<noteq> 0" "\<not> mmc_has_init mmc"
    and volts: "voltages (mmc_cfg mmc) AND card_ocr c AND 0xff8000 \<noteq> 0" and busy: "card_busy c \<le> 1000"
  shows "\<exists>k t. mmc_start_init e md mmc s = (0, (reset_slot k mmc)\<lparr>mmc_ocr := ready_ocr c, mmc_high_capacity := card_hc c,
       mmc_rca := 0, mmc_init_in_progress := True\<rparr>, t) \<and> card_at Sd_ready False t s"
proof -
  obtain k u where u: "card_at (Sd_idle (card_busy c)) False u s" and
    start: "\<And>err m t. sd_send_op_cond md (reset_slot k mmc) u = (err, m, t) \<Longrightarrow> err \<noteq> TIMEOUT \<Longrightarrow>
       mmc_start_init e md mmc s = (err, if err = 0 then m\<lparr>mmc_init_in_progress := True\<rparr> else m, t)"
    using start_upto [OF assms(1,2)] by blast
  obtain t where t: "sd_send_op_cond md (reset_slot k mmc) u =
      (0, (reset_slot k mmc)\<lparr>mmc_ocr := ready_ocr c, mmc_high_capacity := card_hc c, mmc_rca := 0\<rparr>, t)" "card_at Sd_ready False t u"
    using op_cond [of u "card_busy c" "reset_slot k mmc"] u volts busy by (auto simp: card_at_def reset_slot_def)
  show ?thesis
    using start [OF t(1)] at_trans [OF t(2) u] by (auto simp: TIMEOUT_def)
qed

text \<open>A card that stays busy for longer is given up.\<close>

lemma op_cond_busy:
  assumes "sd_line s = Sd_idle n" and "timeout < n"
    and volts: "voltages (mmc_cfg mmc) AND card_ocr c AND 0xff8000 \<noteq> 0" and v2: "mmc_version mmc = SD_VERSION_2"
  shows "\<exists>t. sd_op_cond_loop md mmc timeout s = (UNUSABLE_ERR, 0, t) \<and> card_at (Sd_idle (n - timeout - 1)) False t s"
  using assms(1,2)
proof (induction timeout arbitrary: n s)
  case 0
  then obtain m where "n = Suc m"
    by (cases n) auto
  then show ?case
    using op_cond_round [OF 0(1) volts v2] by (subst sd_op_cond_loop.simps) (auto simp: OCR_BUSY_def and.assoc c_true_def)
next
  case (Suc timeout)
  then obtain m where m: "n = Suc m" "timeout < m"
    by (cases n) auto
  obtain r r' t u where u: "plain_cmd md mmc MMC_CMD_APP_CMD MMC_RSP_R1 0 s = (0, r, t)"
    "plain_cmd md mmc SD_CMD_APP_SEND_OP_COND MMC_RSP_R3 (sd_op_cond_arg mmc) t = (0, r', u)"
    "r' 0 = card_ocr c AND 0xffffff" "card_at (Sd_idle m) False u s"
    using op_cond_round [OF Suc.prems(1) volts v2] m(1) by auto
  obtain v where v: "sd_op_cond_loop md mmc timeout (udelay 1000 u) = (UNUSABLE_ERR, 0, v)"
    "card_at (Sd_idle (m - timeout - 1)) False v (udelay 1000 u)"
    using Suc.IH [of "udelay 1000 u" m] m(2) u(4) by (auto simp: card_at_def)
  have "card_at (Sd_idle (m - timeout - 1)) False v s"
    using v(2) at_trans [OF _ u(4)] by simp
  then show ?case
    using u v(1) m by (subst sd_op_cond_loop.simps) (simp add: OCR_BUSY_def and.assoc c_true_def)
qed

lemma start_init_busy:
  assumes "fst (mmc_getcd e mmc s) \<noteq> 0" "\<not> mmc_has_init mmc"
    and volts: "voltages (mmc_cfg mmc) AND card_ocr c AND 0xff8000 \<noteq> 0" and busy: "1000 < card_busy c"
  shows "\<exists>k t. mmc_start_init e md mmc s = (UNUSABLE_ERR, reset_slot k mmc, t) \<and> calm t = calm s"
proof -
  obtain k u where u: "card_at (Sd_idle (card_busy c)) False u s" and
    start: "\<And>err m t. sd_send_op_cond md (reset_slot k mmc) u = (err, m, t) \<Longrightarrow> err \<noteq> TIMEOUT \<Longrightarrow>
       mmc_start_init e md mmc s = (err, if err = 0 then m\<lparr>mmc_init_in_progress := True\<rparr> else m, t)"
    using start_upto [OF assms(1,2)] by blast
  obtain t where t: "sd_op_cond_loop md (reset_slot k mmc) 1000 u = (UNUSABLE_ERR, 0, t)" "calm t = calm u"
    using op_cond_busy [of u "card_busy c" 1000 "reset_slot k mmc"] u volts busy by (auto simp: card_at_def reset_slot_def)
  then have "sd_send_op_cond md (reset_slot k mmc) u = (UNUSABLE_ERR, reset_slot k mmc, t)"
    by (simp add: sd_send_op_cond_def UNUSABLE_ERR_def)
  from start [OF this] show ?thesis
    using t(2) u by (auto simp: UNUSABLE_ERR_def TIMEOUT_def card_at_def)
qed

lemma send_status:
  assumes "sd_line s = Sd_stby \<or> sd_line s = Sd_tran" "\<not> sd_app s" "mmc_rca mmc = card_rca c"
  shows "\<exists>t. mmc_send_status md mmc 1000 s = (0, t) \<and> card_at (sd_line s) False t s"
proof -
  have "sd_answer c (sd_line s) (sd_app s) \<lparr>cmdidx = MMC_CMD_SEND_STATUS, resp_type = MMC_RSP_R1, cmdarg = rca_arg mmc\<rparr> None
      = Some (sd_line s, False, [card_status (sd_line s)], [])"
    using assms by (auto simp: sd_answer_def sd_plain_answer_def mmc_cmd_defs rca_arg_def)
  from plain [OF this, of mmc] obtain r t where
    "plain_cmd md mmc MMC_CMD_SEND_STATUS MMC_RSP_R1 (rca_arg mmc) s = (0, r, t)" "r 0 = card_status (sd_line s)"
    "card_at (sd_line s) False t s"
    by auto
  then show ?thesis
    using assms(1) unfolding mmc_send_status_def
    by (subst send_status_loop.simps)
       (auto simp: card_status_def c_true_def MMC_STATUS_RDY_FOR_DATA_def MMC_STATUS_CURR_STATE_def MMC_STATE_PRG_def
         MMC_STATUS_SWITCH_ERROR_def)
qed

lemma identify:
  assumes "sd_line s = Sd_ready" "\<not> sd_app s" "IS_SD mmc"
  shows "\<exists>cid r t. startup_identify md mmc s =
      (0, mmc\<lparr>mmc_cid := cid, mmc_rca := card_rca c, mmc_csd := csd_words (card_csd c)\<rparr>, r, t) \<and>
    map r [0, 1, 2, 3] = csd_words (card_csd c) \<and> card_at Sd_stby False t s"
proof -
  have "sd_answer c (sd_line s) (sd_app s) \<lparr>cmdidx = MMC_CMD_ALL_SEND_CID, resp_type = MMC_RSP_R2, cmdarg = 0\<rparr> None
      = Some (Sd_ident, False, csd_words (card_cid c), [])"
    using assms by (auto simp: sd_answer_def sd_plain_answer_def mmc_cmd_defs)
  from plain [OF this, of mmc] obtain r1 s1 where s1:
    "plain_cmd md mmc MMC_CMD_ALL_SEND_CID MMC_RSP_R2 0 s = (0, r1, s1)" "card_at Sd_ident False s1 s"
    by auto
  let ?m1 = "mmc\<lparr>mmc_cid := map r1 [0, 1, 2, 3]\<rparr>"
  have "sd_answer c (sd_line s1) (sd_app s1) \<lparr>cmdidx = SD_CMD_SEND_RELATIVE_ADDR, resp_type = MMC_RSP_R6, cmdarg = rca_arg ?m1\<rparr> None
      = Some (Sd_stby, False, [push_bit 16 (ucast (card_rca c)) OR card_status Sd_ident], [])"
    using s1(2) by (auto simp: card_at_def sd_answer_def sd_plain_answer_def mmc_cmd_defs)
  from plain [OF this, of ?m1] obtain r2 s2 where s2:
    "plain_cmd md ?m1 SD_CMD_SEND_RELATIVE_ADDR MMC_RSP_R6 (rca_arg ?m1) s1 = (0, r2, s2)"
    "r2 0 = push_bit 16 (ucast (card_rca c)) OR card_status Sd_ident" "card_at Sd_stby False s2 s1"
    by auto
  have rca: "ucast (drop_bit 16 (r2 0) AND 0xffff) = card_rca c"
    unfolding s2(2) card_status_def low_half
    by (rule bit_word_eqI) (auto simp: bit_simps)
  let ?m2 = "?m1\<lparr>mmc_rca := card_rca c\<rparr>"
  have "sd_answer c (sd_line s2) (sd_app s2) \<lparr>cmdidx = MMC_CMD_SEND_CSD, resp_type = MMC_RSP_R2, cmdarg = rca_arg ?m2\<rparr> None
      = Some (Sd_stby, False, csd_words (card_csd c), [])"
    using s2(3) by (auto simp: card_at_def sd_answer_def sd_plain_answer_def mmc_cmd_defs rca_arg_def)
  from plain [OF this, of ?m2] obtain r3 s3 where s3:
    "plain_cmd md ?m2 MMC_CMD_SEND_CSD MMC_RSP_R2 (rca_arg ?m2) s2 = (0, r3, s3)"
    "map r3 [0, 1, 2, 3] = csd_words (card_csd c)" "card_at Sd_stby False s3 s2"
    by (auto simp: csd_words_def resp_words_def MMC_RSP_R2_def)
  obtain s4 where s4: "mmc_send_status md ?m2 1000 s3 = (0, s4)" "card_at Sd_stby False s4 s3"
    using send_status [of s3 ?m2] s3(3) by (auto simp: card_at_def)
  have "card_at Sd_stby False s4 s"
    using s1(2) s2(3) s3(3) s4(2) by (simp add: card_at_def)
  moreover have "startup_identify md mmc s = (0, ?m2\<lparr>mmc_csd := csd_words (card_csd c)\<rparr>, r3, s4)"
    using s1(1) s2(1) s3 s4(1) rca assms(3) by (simp add: startup_identify_def IS_SD_def Let_def)
  ultimately show ?thesis
    using s3(2) by (metis mmc.surjective mmc.update_convs)
qed

lemma select_card:
  assumes "sd_line s = Sd_stby" "\<not> sd_app s" "mmc_rca mmc = card_rca c" "mmc_dsr mmc = 0xffffffff"
  shows "\<exists>t. startup_select md mmc s = (0, mmc\<lparr>mmc_erase_grp_size := 1, mmc_part_config := MMCPART_NOAVAILABLE\<rparr>, t) \<and>
    card_at Sd_tran False t s"
proof -
  have "sd_answer c (sd_line s) (sd_app s) \<lparr>cmdidx = MMC_CMD_SELECT_CARD, resp_type = MMC_RSP_R1, cmdarg = rca_arg mmc\<rparr> None
      = Some (Sd_tran, False, [card_status Sd_stby], [])"
    using assms by (auto simp: sd_answer_def sd_plain_answer_def mmc_cmd_defs rca_arg_def)
  from plain [OF this, of mmc] show ?thesis
    using assms(4) by (auto simp: startup_select_def)
qed

lemma app_cmd_tran:
  assumes "sd_line s = Sd_tran" "mmc_rca mmc = card_rca c"
  shows "\<exists>r t. plain_cmd md mmc MMC_CMD_APP_CMD MMC_RSP_R1 (rca_arg mmc) s = (0, r, t) \<and> card_at Sd_tran True t s"
  using plain [of s MMC_CMD_APP_CMD MMC_RSP_R1 "rca_arg mmc" Sd_tran True "[card_status Sd_tran]" "[]" mmc] assms
  by (auto simp: sd_answer_def rca_arg_def)

lemma scr_ok:
  assumes "sd_line s = Sd_tran" "sd_app s" "length (card_scr c) = 8"
  shows "\<exists>t. read_scr md mmc timeout s = Some (0, card_scr c, t) \<and> card_at Sd_tran False t s"
proof -
  have "\<exists>t. data_cmd md mmc SD_CMD_APP_SEND_SCR 0 8 s = Some (0, card_scr c, t) \<and> card_at Sd_tran False t s"
    using assms by (intro data) (auto simp: sd_answer_def sd_app_answer_def mmc_cmd_defs)
  then show ?thesis
    by (subst read_scr.simps) auto
qed

lemma switch_ok:
  assumes "selected s" "\<And>arg. length (card_switch c arg) = 64"
  shows "\<exists>bs t. sd_switch md mmc mode grp v s = Some (0, bs, t) \<and> card_at Sd_tran False t s"
proof -
  have "\<exists>t. data_cmd md mmc SD_CMD_SWITCH_FUNC arg 64 s = Some (0, card_switch c arg, t) \<and> card_at Sd_tran False t s" for arg
    using assms by (intro data) (auto simp: selected_def sd_answer_def sd_plain_answer_def mmc_cmd_defs)
  then show ?thesis
    unfolding sd_switch_def Let_def by blast
qed

lemma at_selected: "card_at Sd_tran False t s \<Longrightarrow> selected t"
  by (simp add: card_at_def selected_def)

lemma switch_check_ok:
  assumes "selected s" "\<And>arg. length (card_switch c arg) = 64"
  shows "\<exists>bs' t. switch_check md mmc timeout bs s = Some (0, bs', t) \<and> card_at Sd_tran False t s"
  using assms(1)
proof (induction timeout arbitrary: bs s)
  case 0
  then show ?case
    by (auto simp: card_at_def selected_def)
next
  case (Suc timeout)
  obtain bs1 t where t: "sd_switch md mmc SD_SWITCH_CHECK 0 1 s = Some (0, bs1, t)" "card_at Sd_tran False t s"
    using switch_ok [OF Suc.prems assms(2)] by blast
  obtain bs2 u where "switch_check md mmc timeout bs1 t = Some (0, bs2, u)" "card_at Sd_tran False u t"
    using Suc.IH [OF at_selected [OF t(2)]] by blast
  then show ?case
    using t at_trans by auto
qed

lemma change_freq_ok:
  assumes "selected s" "mmc_rca mmc = card_rca c" "length (card_scr c) = 8" "\<And>arg. length (card_switch c arg) = 64"
  shows "\<exists>scr ver caps t. sd_change_freq md mmc s = Some (0, mmc\<lparr>mmc_scr := scr, mmc_version := ver, mmc_card_caps := caps\<rparr>, t) \<and>
    c_true (ver AND SD_VERSION_SD) \<and> card_at Sd_tran False t s"
proof -
  let ?m0 = "mmc\<lparr>mmc_card_caps := 0\<rparr>" and ?scr0 = "be32_word (card_scr c) 0"
  obtain r s1 where s1: "plain_cmd md ?m0 MMC_CMD_APP_CMD MMC_RSP_R1 (rca_arg ?m0) s = (0, r, s1)" "card_at Sd_tran True s1 s"
    using app_cmd_tran [of s ?m0] assms(1,2) by (auto simp: selected_def)
  obtain s2 where s2: "read_scr md ?m0 3 s1 = Some (0, card_scr c, s2)" "card_at Sd_tran False s2 s1"
    using scr_ok [of s1 ?m0 3] s1(2) assms(3) by (auto simp: card_at_def)
  let ?m1 = "mmc\<lparr>mmc_scr := [?scr0, be32_word (card_scr c) 1], mmc_version := scr_version ?scr0,
     mmc_card_caps := if c_true (?scr0 AND SD_DATA_4BIT) then MMC_MODE_4BIT else 0\<rparr>"
  have at2: "card_at Sd_tran False s2 s"
    using s1(2) s2(2) at_trans by blast
  obtain bs s3 where s3: "switch_check md ?m1 4 [] s2 = Some (0, bs, s3)" "card_at Sd_tran False s3 s2"
    using switch_check_ok [OF at_selected [OF at2] assms(4)] by blast
  obtain bs' s4 where s4: "sd_switch md ?m1 SD_SWITCH_SWITCH 0 1 s3 = Some (0, bs', s4)" "card_at Sd_tran False s4 s3"
    using switch_ok [OF at_selected [OF s3(2)] assms(4)] by blast
  have at: "card_at Sd_tran False s3 s" "card_at Sd_tran False s4 s"
    using at2 s3(2) s4(2) at_trans by blast+
  have "\<exists>caps t. sd_change_freq md mmc s = Some (0, mmc\<lparr>mmc_scr := [?scr0, be32_word (card_scr c) 1], mmc_version := scr_version ?scr0,
      mmc_card_caps := caps\<rparr>, t) \<and> card_at Sd_tran False t s"
    using s1(1) s2(1) s3(1) s4(1) at at2
    by (auto simp: sd_change_freq_def Let_def)
  then show ?thesis
    using scr_version_sd [of ?scr0] by auto
qed

lemma width_ok:
  assumes "selected s" "mmc_rca mmc = card_rca c" "IS_SD mmc"
  shows "\<exists>w speed t. startup_width md ext_csd mmc s = Some (0, mmc\<lparr>mmc_bus_width := w, mmc_tran_speed := speed\<rparr>, t) \<and>
    card_at Sd_tran False t s"
proof -
  obtain r s1 where s1: "plain_cmd md mmc MMC_CMD_APP_CMD MMC_RSP_R1 (rca_arg mmc) s = (0, r, s1)" "card_at Sd_tran True s1 s"
    using app_cmd_tran [of s mmc] assms(1,2) by (auto simp: selected_def)
  have "sd_answer c (sd_line s1) (sd_app s1) \<lparr>cmdidx = SD_CMD_APP_SET_BUS_WIDTH, resp_type = MMC_RSP_R1, cmdarg = 2\<rparr> None
      = Some (Sd_tran, False, [card_status Sd_tran], [])"
    using s1(2) by (auto simp: card_at_def sd_answer_def sd_app_answer_def mmc_cmd_defs)
  from plain [OF this, of mmc] obtain r' s2 where s2:
    "plain_cmd md mmc SD_CMD_APP_SET_BUS_WIDTH MMC_RSP_R1 2 s1 = (0, r', s2)" "card_at Sd_tran False s2 s1"
    by auto
  obtain s3 where s3: "mmc_set_bus_width md mmc 4 s2 = (mmc\<lparr>mmc_bus_width := 4\<rparr>, s3)" "kept s3 = kept s2"
    using set_width by blast
  have at: "card_at Sd_tran False s3 s" "card_at Sd_tran False s s"
    using s1(2) s2(2) s3(2) assms(1) by (auto simp: card_at_def kept_def selected_def)
  let ?speed = "if c_true (mmc_card_caps mmc AND MMC_MODE_HS) then 50000000 else 25000000"
  have "startup_width md ext_csd mmc s = Some (0, mmc\<lparr>mmc_bus_width := if c_true (mmc_card_caps mmc AND MMC_MODE_4BIT) then 4 else mmc_bus_width mmc,
      mmc_tran_speed := ?speed\<rparr>, if c_true (mmc_card_caps mmc AND MMC_MODE_4BIT) then s3 else s)"
    using s1(1) s2(1) s3(1) assms(3) by (simp add: startup_width_def Let_def)
  then show ?thesis
    by (intro exI conjI) (assumption, simp add: at)
qed

end

end
