(* ===== verification/Sd_Startup.thy ===== *)
theory Sd_Startup
  imports Sd_Slot
begin

text \<open>
  From an unused slot to a disk: \<open>mmc_init\<close> on a card whose registers tell the truth ends with a slot whose reads return
  the card's blocks, and \<open>get_dev\<close> hands out its description, the first time and every time after.
\<close>

section \<open>A card that keeps to its registers\<close>

text \<open>The TRAN_SPEED unit is one of the four the specification defines; the capacity in the CSD is the number of blocks of 512
  bytes, which 32-bit block numbers and, for standard capacity cards, 32-bit byte addresses reach.\<close>

definition card_sound :: "sd_device \<Rightarrow> bool" where
  "card_sound c \<longleftrightarrow>
     card_busy c \<le> 1000 \<and> csd_field (card_csd c) 96 3 < 4 \<and> 9 \<le> csd_field (card_csd c) 80 4 \<and>
     card_bl c = 512 \<and> csd_bytes (card_hc c) (card_csd c) = card_blocks c * 512 \<and> 0 < card_blocks c \<and>
     card_blocks c < 2 ^ 32 \<and> (card_hc c \<or> card_blocks c * 512 \<le> 2 ^ 32) \<and>
     length (card_scr c) = 8 \<and> (\<forall>arg. length (card_switch c arg) = 64) \<and> (\<forall>b. length (card_disk c b) = 512)"

definition card_lba :: "sd_device \<Rightarrow> u32" where
  "card_lba c = of_nat (card_blocks c)"

lemma unat_card_lba: "card_sound c \<Longrightarrow> unat (card_lba c) = card_blocks c"
  by (simp add: card_sound_def card_lba_def unat_of_nat)

lemma capacity_lba:
  assumes "card_sound c" "unat cap = csd_bytes (card_hc c) (card_csd c)"
  shows "(ucast ((cap :: u64) div 512) :: u32) = card_lba c"
proof -
  have "unat (cap div 512) = card_blocks c"
    using assms by (simp add: unat_div card_sound_def)
  then have "unat (ucast (cap div 512) :: u32) = card_blocks c"
    using assms(1) by (simp add: unsigned_ucast_eq take_bit_nat_eq_self card_sound_def)
  then show ?thesis
    using unat_card_lba [OF assms(1)] by (simp add: word_unat_eq_iff)
qed

text \<open>The description of the slot once the card is identified.\<close>

definition card_desc :: "sd_device \<Rightarrow> block_dev_desc \<Rightarrow> block_dev_desc" where
  "card_desc c desc = desc\<lparr>bd_lun := 0, bd_type := 0, bd_blksz := 512, bd_lba := card_lba c,
     bd_part_type := (if test_block_type (card_disk c 0) = DOS_MBR then PART_TYPE_DOS else PART_TYPE_UNKNOWN)\<rparr>"

text \<open>A slot whose fields are the card's.\<close>

definition slot_of :: "sd_device \<Rightarrow> mmc \<Rightarrow> bool" where
  "slot_of c mmc \<longleftrightarrow>
     b_max (mmc_cfg mmc) \<noteq> 0 \<and> b_max (mmc_cfg mmc) < 0x10000 \<and> mmc_read_bl_len mmc = 512 \<and> mmc_high_capacity mmc = card_hc c \<and>
     bd_lba (mmc_block_dev mmc) = card_lba c"

text \<open>The registers: the slot knows the card.\<close>

definition knows_card :: "sd_device \<Rightarrow> mmc \<Rightarrow> mmc \<Rightarrow> bool" where
  "knows_card c mmc m \<longleftrightarrow>
     mmc_rca m = card_rca c \<and> IS_SD m \<and> mmc_read_bl_len m = 512 \<and>
     unat (mmc_capacity m) = csd_bytes (card_hc c) (card_csd c) \<and>
     mmc_block_dev m = (mmc_block_dev mmc)\<lparr>bd_lba := card_lba c\<rparr> \<and> mmc_cfg m = mmc_cfg mmc \<and>
     mmc_high_capacity m = mmc_high_capacity mmc \<and> mmc_ddr_mode m = mmc_ddr_mode mmc \<and> mmc_part_num m = mmc_part_num mmc"

section \<open>The list of slots\<close>

lemma find_store:
  assumes "find_mmc_device (bd_dev (mmc_block_dev mmc)) s \<noteq> None"
  shows "find_mmc_device (bd_dev (mmc_block_dev mmc)) (store_mmc mmc s) = Some mmc"
proof -
  have "find (\<lambda>m. bd_dev (mmc_block_dev m) = bd_dev (mmc_block_dev mmc))
      (map (\<lambda>m. if bd_dev (mmc_block_dev m) = bd_dev (mmc_block_dev mmc) then mmc else m) ms) = Some mmc"
    if "find (\<lambda>m. bd_dev (mmc_block_dev m) = bd_dev (mmc_block_dev mmc)) ms \<noteq> None" for ms
    using that by (induction ms) (auto split: if_splits)
  then show ?thesis
    using assms by (simp add: find_mmc_device_def store_mmc_def)
qed

text \<open>A slot that has not been used: as \<open>mmc_create\<close> leaves it, a card is in it, and the host and the card share a voltage.\<close>

definition fresh_slot :: "env \<Rightarrow> sd_device \<Rightarrow> mmc \<Rightarrow> bool" where
  "fresh_slot e c mmc \<longleftrightarrow>
     \<not> mmc_has_init mmc \<and> \<not> mmc_init_in_progress mmc \<and> \<not> mmc_op_cond_pending mmc \<and> mmc_dsr mmc = 0xffffffff \<and>
     b_max (mmc_cfg mmc) \<noteq> 0 \<and> b_max (mmc_cfg mmc) < 0x10000 \<and> bd_if_type (mmc_block_dev mmc) = IF_TYPE_MMC \<and>
     voltages (mmc_cfg mmc) AND card_ocr c AND 0xff8000 \<noteq> 0 \<and> (\<forall>t. fst (mmc_getcd e mmc t) \<noteq> 0)"

lemma card_desc_simps [simp]:
  "bd_dev (card_desc c desc) = bd_dev desc" "bd_if_type (card_desc c desc) = bd_if_type desc" "bd_lba (card_desc c desc) = card_lba c"
  "bd_blksz (card_desc c desc) = 512"
  "bd_part_type (card_desc c desc) = (if test_block_type (card_disk c 0) = DOS_MBR then PART_TYPE_DOS else PART_TYPE_UNKNOWN)"
  by (simp_all add: card_desc_def)

lemma store_store:
  assumes "bd_dev (mmc_block_dev m) = bd_dev (mmc_block_dev n)" "mmc_devices t = mmc_devices (store_mmc m s)"
  shows "mmc_devices (store_mmc n t) = mmc_devices (store_mmc n s)"
  using assms by (simp add: store_mmc_def)

lemma store_same:
  assumes "mmc_devices t = mmc_devices (store_mmc m s)"
  shows "store_mmc m t = t"
proof -
  have "map (\<lambda>x. if bd_dev (mmc_block_dev x) = bd_dev (mmc_block_dev m) then m else x) (mmc_devices t) = mmc_devices t"
    using assms by (simp add: store_mmc_def)
  then show ?thesis
    unfolding store_mmc_def by (simp add: sys.surjective)
qed

lemma find_devices: "mmc_devices t = mmc_devices s \<Longrightarrow> find_mmc_device d t = find_mmc_device d s"
  by (simp add: find_mmc_device_def)

lemma find_dev: "find_mmc_device d s = Some m \<Longrightarrow> bd_dev (mmc_block_dev m) = d"
  by (auto simp: find_mmc_device_def find_Some_iff)

lemma select_same:
  assumes "find_mmc_device d s = Some m" "mmc_part_num m = part"
  shows "mmc_select_hwpart md d part s = (0, s)"
  using assms by (simp add: mmc_select_hwpart_def)

section \<open>The identified card\<close>

context sd_slot
begin

lemma read_answer:
  assumes "card_sound c" "n \<noteq> 0" "unat b + unat n \<le> card_blocks c"
    "cmdidx cmd = (if n > 1 then MMC_CMD_READ_MULTIPLE_BLOCK else MMC_CMD_READ_SINGLE_BLOCK)"
    "cmdarg cmd = (if card_hc c then b else b * 512)"
  shows "sd_answer c Sd_tran False cmd (Some (n, 512)) =
    Some (if n > 1 then Sd_data else Sd_tran, False, [card_status Sd_tran], sectors (card_disk c) b (unat n))"
proof -
  have "b * 512 div 512 = b" if "\<not> card_hc c"
  proof -
    have "0 < unat n"
      using assms(2) by (simp add: unat_gt_0)
    then have "unat b * 512 < 2 ^ 32"
      using assms(1,3) that by (simp add: card_sound_def)
    then have "unat (b * 512) = unat b * 512"
      by (simp add: unat_word_ariths)
    then show ?thesis
      by (simp add: word_unat_eq_iff unat_div)
  qed
  then have "block_of_arg c (cmdarg cmd) = b" "card_block c b (cmdarg cmd)"
    using assms(1,5) by (simp_all add: block_of_arg_def card_block_def card_sound_def)
  then show ?thesis
    using assms(1-4) by (auto simp: sd_answer_def sd_plain_answer_def mmc_cmd_defs card_sound_def Let_def)
qed

lemma slot_answers:
  assumes "card_sound c" "slot_of c mmc"
  shows "card_answers md mmc (card_disk c)"
proof -
  note slot = assms(2) [unfolded slot_of_def]
  have "\<exists>r bytes t. mmc_send_cmd md mmc cmd None s = (0, r, bytes, t) \<and> kept t = kept s"
    if "cmdidx cmd = MMC_CMD_SET_BLOCKLEN" "cmdarg cmd = 512" "selected s" for cmd s
  proof -
    have "sd_answer c (sd_line s) (sd_app s) cmd None = Some (Sd_tran, False, [card_status Sd_tran], [])"
      using that assms(1) by (auto simp: sd_answer_def sd_plain_answer_def selected_def mmc_cmd_defs card_sound_def)
    from answers [OF this, of mmc] show ?thesis
      using that(3) by (auto simp: kept_def selected_def)
  qed
  moreover have "\<exists>r bytes t. mmc_send_cmd md mmc cmd None s = (0, r, bytes, t) \<and> calm t = calm s \<and> selected t"
    if "cmdidx cmd = MMC_CMD_STOP_TRANSMISSION" "sd_line s = Sd_data" "\<not> sd_app s" for cmd s
  proof -
    have "sd_answer c (sd_line s) (sd_app s) cmd None = Some (Sd_tran, False, [card_status Sd_data], [])"
      using that by (auto simp: sd_answer_def sd_plain_answer_def mmc_cmd_defs)
    from answers [OF this, of mmc] show ?thesis
      by (auto simp: selected_def)
  qed
  moreover have "\<exists>r t. mmc_send_cmd md mmc cmd (Some (n, 512)) s = (0, r, sectors (card_disk c) b (unat n), t) \<and>
      calm t = calm s \<and> sd_line t = (if n > 1 then Sd_data else Sd_tran) \<and> \<not> sd_app t"
    if "cmdidx cmd = (if n > 1 then MMC_CMD_READ_MULTIPLE_BLOCK else MMC_CMD_READ_SINGLE_BLOCK)"
      "cmdarg cmd = (if card_hc c then b else b * 512)" "n \<noteq> 0" "n \<le> b_max (mmc_cfg mmc)" "unat b + unat n \<le> unat (card_lba c)" "selected s" for cmd b n s
  proof -
    have "sd_answer c (sd_line s) (sd_app s) cmd (Some (n, 512)) =
        Some (if n > 1 then Sd_data else Sd_tran, False, [card_status Sd_tran], sectors (card_disk c) b (unat n))"
      using read_answer [OF assms(1) that(3) _ that(1,2)] that(5,6) unat_card_lba [OF assms(1)] by (simp add: selected_def)
    moreover have "transferable (Some (n, 512))"
      using that(3,4) slot by (auto intro: le_less_trans)
    ultimately show ?thesis
      using answers [of s cmd "Some (n, 512)" _ False _ _ mmc] by blast
  qed
  ultimately show ?thesis
    unfolding card_answers_def using slot by simp
qed

lemma finish_ok:
  assumes "card_sound c" "slot_of c mmc" "\<not> mmc_ddr_mode mmc" "unat (mmc_capacity mmc) = csd_bytes (card_hc c) (card_csd c)"
    "bd_if_type (mmc_block_dev mmc) = IF_TYPE_MMC" "find_mmc_device (bd_dev (mmc_block_dev mmc)) s \<noteq> None" "selected s"
  shows "\<exists>k m t. startup_finish cfg e md mmc s = Some (0, mmc\<lparr>mmc_clock := k, mmc_block_dev := card_desc c (mmc_block_dev mmc)\<rparr>, t) \<and>
    bd_dev (mmc_block_dev m) = bd_dev (mmc_block_dev mmc) \<and> calm t = calm (store_mmc m s) \<and> selected t"
proof -
  obtain k s1 where s1: "mmc_set_clock md mmc (mmc_tran_speed mmc) s = (mmc\<lparr>mmc_clock := k\<rparr>, s1)" "kept s1 = kept s"
    using set_clock by blast
  let ?d = "(mmc_block_dev mmc)\<lparr>bd_lun := 0, bd_type := 0, bd_blksz := 512, bd_lba := card_lba c\<rparr>"
  let ?m = "mmc\<lparr>mmc_clock := k, mmc_block_dev := ?d\<rparr>"
  let ?s2 = "store_mmc ?m s1"
  have find1: "find_mmc_device (bd_dev (mmc_block_dev ?m)) s1 \<noteq> None"
    using assms(6) s1(2) by (simp add: find_mmc_device_def kept_defs)
  have "slot_of c ?m"
    using assms(2) by (simp add: slot_of_def)
  then have there: "card_there md ?d (card_disk c) ?s2"
    using find_store [OF find1] slot_answers [OF assms(1)] assms(7) s1(2)
    by (simp add: card_there_def selected_def store_mmc_def kept_def)
  obtain t where t: "block_read cfg e md ?d 0 1 ?s2 = Some (1, card_disk c 0, t)" "kept t = kept ?s2"
    using mmc_bread_ok [OF there, of 0 1 cfg e] assms(1,5) unat_card_lba [OF assms(1)]
    by (auto simp: block_read_def sectors_1 card_sound_def)
  then have "init_part cfg e md ?d ?s2 = Some (card_desc c (mmc_block_dev mmc), t)"
    using assms(1) by (auto simp: init_part_def test_part_dos_def read_block_def card_desc_def card_sound_def)
  moreover have "ucast (mmc_capacity mmc div 512) = card_lba c" "mmc_read_bl_len mmc = 512"
    using capacity_lba [OF assms(1,4)] assms(2) by (simp_all add: slot_of_def)
  ultimately have "startup_finish cfg e md mmc s = Some (0, mmc\<lparr>mmc_clock := k, mmc_block_dev := card_desc c (mmc_block_dev mmc)\<rparr>, t)"
    using s1(1) assms(3) by (simp add: startup_finish_def)
  moreover have "calm t = calm (store_mmc ?m s)" "selected t"
    using t(2) s1(2) assms(7) by (simp_all add: kept_defs store_mmc_def selected_def)
  moreover have "bd_dev (mmc_block_dev ?m) = bd_dev (mmc_block_dev mmc)"
    by simp
  ultimately show ?thesis
    by blast
qed


lemma registers_ok:
  assumes "card_sound c" "mmc_version mmc = SD_VERSION_2" "mmc_high_capacity mmc = card_hc c" "mmc_dsr mmc = 0xffffffff"
    "mmc_part_num mmc = 0" "sd_line s = Sd_ready" "\<not> sd_app s"
  shows "\<exists>m t. startup_registers md mmc s = Some (0, m, [], t) \<and> knows_card c mmc m \<and> card_at Sd_tran False t s"
proof -
  note sound = assms(1) [unfolded card_sound_def]
  have sd: "IS_SD mmc"
    using assms(2) by (simp add: IS_SD_def sd_version_defs c_true_def)
  obtain cid r s1 where s1: "startup_identify md mmc s =
      (0, mmc\<lparr>mmc_cid := cid, mmc_rca := card_rca c, mmc_csd := csd_words (card_csd c)\<rparr>, r, s1)"
    "map r [0, 1, 2, 3] = csd_words (card_csd c)" "card_at Sd_stby False s1 s"
    using identify [OF assms(6,7) sd] by blast
  let ?m1 = "mmc\<lparr>mmc_cid := cid, mmc_rca := card_rca c, mmc_csd := csd_words (card_csd c)\<rparr>"
  have sd1: "IS_SD ?m1" "mmc_version ?m1 \<noteq> MMC_VERSION_UNKNOWN"
    using sd assms(2) by (simp_all add: IS_SD_def sd_version_defs MMC_VERSION_UNKNOWN_def MAKE_MMC_VERSION_def MMC_VERSION_MMC_def)
  obtain speed imp cap where csd: "startup_csd ?m1 r = Some (?m1\<lparr>mmc_tran_speed := speed, mmc_dsr_imp := imp,
      mmc_capacity_user := cap, mmc_capacity_boot := 0, mmc_capacity_rpmb := 0, mmc_capacity_gp := [0, 0, 0, 0],
      mmc_read_bl_len := 512, mmc_write_bl_len := 512\<rparr>)" "unat cap = csd_bytes (card_hc c) (card_csd c)"
    using startup_csd_ok [OF s1(2) _ _ sd1] clamp_ok [of "card_csd c"] sound assms(3) by auto
  let ?m2 = "?m1\<lparr>mmc_tran_speed := speed, mmc_dsr_imp := imp,
      mmc_capacity_user := cap, mmc_capacity_boot := 0, mmc_capacity_rpmb := 0, mmc_capacity_gp := [0, 0, 0, 0],
      mmc_read_bl_len := 512, mmc_write_bl_len := 512\<rparr>"
  let ?m3 = "?m2\<lparr>mmc_erase_grp_size := 1, mmc_part_config := MMCPART_NOAVAILABLE\<rparr>"
  obtain s2 where s2: "startup_select md ?m2 s1 = (0, ?m3, s2)" "card_at Sd_tran False s2 s1"
    using select_card [of s1 ?m2] s1(3) assms(4) by (auto simp: card_at_def)
  let ?m4 = "?m3\<lparr>mmc_capacity := cap, mmc_block_dev := (mmc_block_dev mmc)\<lparr>bd_lba := card_lba c\<rparr>\<rparr>"
  have m4: "mmc_set_capacity ?m3 0 = (0, ?m4)" "IS_SD ?m3" "IS_SD ?m4"
    using capacity_lba [OF assms(1) csd(2)] sd by (simp_all add: mmc_set_capacity_def IS_SD_def)
  have "startup_registers md mmc s = Some (0, ?m4, [], s2)"
    using s1(1) csd(1) s2(1) m4(1,2) assms(5) unfolding startup_registers_def startup_ext_csd_def by simp
  moreover have "knows_card c mmc ?m4"
    using m4(3) csd(2) by (simp add: knows_card_def)
  moreover have "card_at Sd_tran False s2 s"
    using s1(3) s2(2) by (simp add: card_at_def)
  ultimately show ?thesis
    by blast
qed

text \<open>The bus and the end: the slot is the card's.\<close>

lemma bus_ok:
  assumes "card_sound c" "knows_card c mmc m" "mmc_high_capacity mmc = card_hc c" "\<not> mmc_ddr_mode mmc" "b_max (mmc_cfg mmc) \<noteq> 0 \<and> b_max (mmc_cfg mmc) < 0x10000"
    "bd_if_type (mmc_block_dev mmc) = IF_TYPE_MMC" "find_mmc_device (bd_dev (mmc_block_dev mmc)) s \<noteq> None" "selected s"
  shows "\<exists>m' n t. startup_bus cfg e md ext_csd m s = Some (0, m', t) \<and> slot_of c m' \<and>
    mmc_block_dev m' = card_desc c (mmc_block_dev mmc) \<and> mmc_part_num m' = mmc_part_num mmc \<and>
    bd_dev (mmc_block_dev n) = bd_dev (mmc_block_dev mmc) \<and> calm t = calm (store_mmc n s) \<and> selected t"
proof -
  note sound = assms(1) [unfolded card_sound_def] and m = assms(2) [unfolded knows_card_def]
  obtain scr ver caps s3 where s3: "sd_change_freq md m s = Some (0, m\<lparr>mmc_scr := scr, mmc_version := ver, mmc_card_caps := caps\<rparr>, s3)"
    "c_true (ver AND SD_VERSION_SD)" "card_at Sd_tran False s3 s"
    using change_freq_ok [of s m] assms(8) m sound by auto
  let ?m5 = "m\<lparr>mmc_scr := scr, mmc_version := ver, mmc_card_caps := caps AND host_caps (mmc_cfg m)\<rparr>"
  obtain w sp s4 where s4: "startup_width md ext_csd ?m5 s3 = Some (0, ?m5\<lparr>mmc_bus_width := w, mmc_tran_speed := sp\<rparr>, s4)"
    "card_at Sd_tran False s4 s3"
    using width_ok [of s3 ?m5 ext_csd] at_selected [OF s3(3)] s3(2) m by (auto simp: IS_SD_def)
  let ?m6 = "?m5\<lparr>mmc_bus_width := w, mmc_tran_speed := sp\<rparr>"
  have m6: "slot_of c ?m6" "\<not> mmc_ddr_mode ?m6" "unat (mmc_capacity ?m6) = csd_bytes (card_hc c) (card_csd c)"
    "bd_if_type (mmc_block_dev ?m6) = IF_TYPE_MMC"
    using assms(3-6) m by (simp_all add: slot_of_def)
  have at: "card_at Sd_tran False s4 s"
    using s3(3) s4(2) by (simp add: card_at_def)
  then have "find_mmc_device (bd_dev (mmc_block_dev ?m6)) s4 \<noteq> None"
    using assms(7) m by (simp add: card_at_def find_mmc_device_def calm_def fat_data_def)
  from finish_ok [OF assms(1) m6 this at_selected [OF at], of cfg e]
  obtain k n t where t: "startup_finish cfg e md ?m6 s4 = Some (0, ?m6\<lparr>mmc_clock := k, mmc_block_dev := card_desc c (mmc_block_dev ?m6)\<rparr>, t)"
    "bd_dev (mmc_block_dev n) = bd_dev (mmc_block_dev ?m6)" "calm t = calm (store_mmc n s4)" "selected t"
    by blast
  let ?m7 = "?m6\<lparr>mmc_clock := k, mmc_block_dev := card_desc c (mmc_block_dev ?m6)\<rparr>"
  have "startup_bus cfg e md ext_csd m s = Some (0, ?m7, t)"
    using s3(1) s4(1) t(1) m unfolding startup_bus_def by simp
  moreover have "slot_of c ?m7" "mmc_block_dev ?m7 = card_desc c (mmc_block_dev mmc)" "mmc_part_num ?m7 = mmc_part_num mmc"
    using m6(1) m by (simp_all add: slot_of_def card_desc_def)
  moreover have "calm t = calm (store_mmc n s)" "bd_dev (mmc_block_dev n) = bd_dev (mmc_block_dev mmc)"
    using t(2,3) at m by (simp_all add: card_at_def calm_def boot_data_def fat_data_def store_mmc_def)
  ultimately show ?thesis
    using t(4) by blast
qed

lemma startup_ok:
  assumes "card_sound c" "mmc_version mmc = SD_VERSION_2" "mmc_high_capacity mmc = card_hc c" "mmc_dsr mmc = 0xffffffff"
    "mmc_part_num mmc = 0" "\<not> mmc_ddr_mode mmc" "b_max (mmc_cfg mmc) \<noteq> 0 \<and> b_max (mmc_cfg mmc) < 0x10000"
    "bd_if_type (mmc_block_dev mmc) = IF_TYPE_MMC" "find_mmc_device (bd_dev (mmc_block_dev mmc)) s \<noteq> None"
    "sd_line s = Sd_ready" "\<not> sd_app s"
  shows "\<exists>m n t. mmc_startup cfg e md mmc s = Some (0, m, t) \<and> slot_of c m \<and> mmc_block_dev m = card_desc c (mmc_block_dev mmc) \<and>
    mmc_part_num m = 0 \<and> bd_dev (mmc_block_dev n) = bd_dev (mmc_block_dev mmc) \<and> calm t = calm (store_mmc n s) \<and> selected t"
proof -
  obtain m s1 where m: "startup_registers md mmc s = Some (0, m, [], s1)" "knows_card c mmc m" "card_at Sd_tran False s1 s"
    using registers_ok [OF assms(1-5,10,11)] by blast
  have "find_mmc_device (bd_dev (mmc_block_dev mmc)) s1 \<noteq> None"
    using assms(9) m(3) by (simp add: card_at_def find_mmc_device_def calm_def fat_data_def)
  from bus_ok [OF assms(1) m(2) assms(3,6-8) this at_selected [OF m(3)], of cfg e "[]"]
  obtain m' n t where t: "startup_bus cfg e md [] m s1 = Some (0, m', t)" "slot_of c m'"
    "mmc_block_dev m' = card_desc c (mmc_block_dev mmc)" "mmc_part_num m' = 0"
    "bd_dev (mmc_block_dev n) = bd_dev (mmc_block_dev mmc)" "calm t = calm (store_mmc n s1)" "selected t"
    using assms(5) by auto
  have "calm t = calm (store_mmc n s)"
    using t(6) m(3) by (simp add: card_at_def calm_def boot_data_def fat_data_def store_mmc_def)
  then show ?thesis
    using m(1) t by (auto simp: mmc_startup_def)
qed

lemma init_ok:
  assumes sound: "card_sound c" and fresh: "fresh_slot e c mmc"
    and find: "find_mmc_device (bd_dev (mmc_block_dev mmc)) s \<noteq> None"
  shows "\<exists>m n t. mmc_init cfg e md mmc s = Some (0, m, t) \<and> mmc_has_init m \<and> slot_of c m \<and>
    mmc_block_dev m = card_desc c (mmc_block_dev mmc) \<and> mmc_part_num m = 0 \<and>
    bd_dev (mmc_block_dev n) = bd_dev (mmc_block_dev mmc) \<and> calm t = calm (store_mmc n s) \<and> selected t"
proof -
  note f = fresh [unfolded fresh_slot_def]
  let ?up = "\<lambda>k p. (reset_slot k mmc)\<lparr>mmc_ocr := ready_ocr c, mmc_high_capacity := card_hc c, mmc_rca := 0, mmc_init_in_progress := p\<rparr>"
  obtain k s1 where s1: "mmc_start_init e md mmc s = (0, ?up k True, s1)" "card_at Sd_ready False s1 s"
    using start_init [of e mmc s] f sound by (auto simp: card_sound_def)
  let ?m = "?up k False"
  have "find_mmc_device (bd_dev (mmc_block_dev ?m)) s1 \<noteq> None"
    using find s1(2) by (simp add: card_at_def find_mmc_device_def calm_def fat_data_def reset_slot_def)
  then obtain m n t where t: "mmc_startup cfg e md ?m s1 = Some (0, m, t)" "slot_of c m"
    "mmc_block_dev m = card_desc c (mmc_block_dev mmc)" "mmc_part_num m = 0"
    "bd_dev (mmc_block_dev n) = bd_dev (mmc_block_dev mmc)" "calm t = calm (store_mmc n s1)" "selected t"
    using startup_ok [OF sound, of ?m s1 cfg e] f s1(2) by (auto simp: card_at_def reset_slot_def)
  have "mmc_init cfg e md mmc s = Some (0, m\<lparr>mmc_has_init := True\<rparr>, t)"
    using s1(1) t(1) f by (simp add: mmc_init_def mmc_complete_init_def reset_slot_def)
  moreover have "calm t = calm (store_mmc n s)"
    using t(6) s1(2) by (simp add: card_at_def calm_def boot_data_def fat_data_def store_mmc_def)
  moreover have "slot_of c (m\<lparr>mmc_has_init := True\<rparr>)" "mmc_has_init (m\<lparr>mmc_has_init := True\<rparr>)"
    "mmc_block_dev (m\<lparr>mmc_has_init := True\<rparr>) = card_desc c (mmc_block_dev mmc)" "mmc_part_num (m\<lparr>mmc_has_init := True\<rparr>) = 0"
    using t(2-4) by (simp_all add: slot_of_def)
  ultimately show ?thesis
    using t(5,7) by blast
qed

text \<open>A card that is never ready, and one whose CSD has a reserved TRAN_SPEED unit.\<close>

lemma get_dev_busy:
  assumes find: "find_mmc_device d s = Some mmc" and fresh: "fresh_slot e c mmc" and "1000 < card_busy c"
  shows "\<exists>m t. get_dev cfg e md ''mmc'' d s = Some (None, t) \<and> find_mmc_device d t = Some m \<and> \<not> mmc_has_init m \<and>
    slot_kept t = slot_kept s"
proof -
  note f = fresh [unfolded fresh_slot_def]
  obtain k t where t: "mmc_start_init e md mmc s = (UNUSABLE_ERR, reset_slot k mmc, t)" "calm t = calm s"
    using start_init_busy [of e mmc s] f assms(3) by blast
  then have "get_dev cfg e md ''mmc'' d s = Some (None, store_mmc (reset_slot k mmc) t)"
    using find f by (simp add: get_dev_def mmc_get_dev_def mmc_init_def UNUSABLE_ERR_def)
  moreover have "find_mmc_device d (store_mmc (reset_slot k mmc) t) = Some (reset_slot k mmc)"
    using find_store [of "reset_slot k mmc" t] find_dev [OF find] find t(2)
    by (simp add: reset_slot_def find_mmc_device_def calm_def fat_data_def)
  moreover have "slot_kept (store_mmc (reset_slot k mmc) t) = slot_kept s"
    using calm_slot_kept [OF t(2)] by simp
  ultimately show ?thesis
    using f by (auto simp: reset_slot_def)
qed

lemma get_dev_reserved:
  assumes find: "find_mmc_device d s = Some mmc" and fresh: "fresh_slot e c mmc" and "card_busy c \<le> 1000"
    and unit: "4 \<le> csd_field (card_csd c) 96 3"
  shows "get_dev cfg e md ''mmc'' d s = None"
proof -
  note f = fresh [unfolded fresh_slot_def]
  let ?up = "\<lambda>k p. (reset_slot k mmc)\<lparr>mmc_ocr := ready_ocr c, mmc_high_capacity := card_hc c, mmc_rca := 0, mmc_init_in_progress := p\<rparr>"
  obtain k s1 where s1: "mmc_start_init e md mmc s = (0, ?up k True, s1)" "card_at Sd_ready False s1 s"
    using start_init [of e mmc s] f assms(3) by auto
  have "IS_SD (?up k False)"
    by (simp add: reset_slot_def IS_SD_def sd_version_defs c_true_def)
  then obtain m r s2 where s2: "startup_identify md (?up k False) s1 = (0, m, r, s2)" "map r [0, 1, 2, 3] = csd_words (card_csd c)"
    using identify [of s1 "?up k False"] s1(2) by (auto simp: card_at_def)
  have "startup_csd m r = None"
    using startup_csd_reserved [OF s2(2) unit] .
  then show ?thesis
    using find f s1(1) s2(1)
    by (simp add: get_dev_def mmc_get_dev_def mmc_init_def mmc_complete_init_def mmc_startup_def startup_registers_def reset_slot_def)
qed

lemma get_dev_again:
  assumes "find_mmc_device d t = Some m" "mmc_has_init m" "mmc_part_num m = 0" "mmc_devices t = mmc_devices (store_mmc m s)"
  shows "get_dev cfg e md ''mmc'' d t = Some (Some (mmc_block_dev m), t)"
  using assms find_dev [OF assms(1)] store_same [OF assms(4)]
  by (simp add: get_dev_def mmc_get_dev_def mmc_init_def select_same)

lemma get_dev_fresh:
  assumes sound: "card_sound c" and find: "find_mmc_device d s = Some mmc" and fresh: "fresh_slot e c mmc"
  shows "\<exists>m t. get_dev cfg e md ''mmc'' d s = Some (Some (card_desc c (mmc_block_dev mmc)), t) \<and>
    mmc_has_init m \<and> mmc_part_num m = 0 \<and> mmc_block_dev m = card_desc c (mmc_block_dev mmc) \<and> card_answers md m (card_disk c) \<and>
    find_mmc_device d t = Some m \<and> slot_kept t = slot_kept s \<and> mmc_devices t = mmc_devices (store_mmc m s) \<and> selected t"
proof -
  have d: "bd_dev (mmc_block_dev mmc) = d"
    using find by (rule find_dev)
  obtain m n t where t: "mmc_init cfg e md mmc s = Some (0, m, t)" "mmc_has_init m" "slot_of c m"
    "mmc_block_dev m = card_desc c (mmc_block_dev mmc)" "mmc_part_num m = 0"
    "bd_dev (mmc_block_dev n) = bd_dev (mmc_block_dev mmc)" "calm t = calm (store_mmc n s)" "selected t"
    using init_ok [OF sound fresh, of s cfg] find d by auto
  let ?t = "store_mmc m t"
  have devs: "mmc_devices ?t = mmc_devices (store_mmc m s)"
    using t(4,6,7) by (intro store_store [of n]) (simp_all add: calm_def fat_data_def)
  have found: "find_mmc_device d ?t = Some m"
    using find_store [of m s] find d t(4) find_devices [OF devs] by simp
  have "get_dev cfg e md ''mmc'' d s = Some (Some (card_desc c (mmc_block_dev mmc)), ?t)"
    using t(1,4) find d select_same [OF found t(5), of md] found by (simp add: get_dev_def mmc_get_dev_def)
  moreover have "slot_kept ?t = slot_kept s"
    using calm_slot_kept [OF t(7)] by simp
  moreover have "selected ?t"
    using t(8) by (simp add: selected_def store_mmc_def)
  ultimately show ?thesis
    using t(2,4,5) found devs slot_answers [OF sound t(3)] by blast
qed

end

text \<open>The card of the images is one: its registers tell the number of its blocks, in units of 1024.\<close>

interpretation slot: sd_slot "image_media bl sd sd_blocks usb usb_blocks" "image_card bl sd sd_blocks"
  for bl sd sd_blocks usb usb_blocks
proof unfold_locales
  show "\<exists>r t. mmc_send_cmd (image_media bl sd sd_blocks usb usb_blocks) mmc cmd data s = (0, r, bytes, t) \<and>
      (\<forall>i < length resp. i < resp_words (resp_type cmd) \<longrightarrow> r i = resp ! i) \<and> calm t = calm s \<and> sd_line t = st \<and> sd_app t = app"
    if "sd_answer (image_card bl sd sd_blocks) (sd_line s) (sd_app s) cmd data = Some (st, app, resp, bytes)"
    for s cmd data st app resp bytes mmc
    using that by (simp add: image_media_def sd_reply_def calm_def boot_data_def fat_data_def)
  show "\<exists>k t. ops_init (image_media bl sd sd_blocks usb usb_blocks) mmc s = (0, mmc\<lparr>mmc_clock := k\<rparr>, t) \<and> kept t = kept s" for mmc s
    by (intro exI [of _ "mmc_clock mmc"] exI [of _ s]) (simp add: image_media_def)
qed (simp add: image_media_def)

end
