(* ===== verification/Usdhc_Card.thy ===== *)
theory Usdhc_Card
  imports Fsl_Esdhc Sd_Startup
begin

text \<open>
  The driver of \<open>Fsl_Esdhc\<close> against a host controller and a card.  \<open>usdhc_hw c lat\<close> is a specification, not code of the
  repository: the registers of the USDHC as the reference manual describes them, with the card \<open>c\<close> on its lines.  It takes its time:
  \<open>lat\<close> says for how many reads the lines, a command, a transfer or a reset keep it busy; any numbers will do, but the data
  line is released within the 600 ms the driver waits for it.  The DMA engine writes past the cache, so the processor sees the
  data only once its range has been invalidated.

  On this controller the driver always returns, with what the card answers, and so meets the contract \<open>sd_slot\<close>.
\<close>

section \<open>The controller\<close>

record latency =
  lat_line :: "sys \<Rightarrow> nat"
  lat_cmd :: "sys \<Rightarrow> nat"
  lat_data :: "sys \<Rightarrow> nat"
  lat_reset :: "sys \<Rightarrow> nat"

definition RESET_BITS :: u32 where "RESET_BITS = SYSCTL_RSTA OR SYSCTL_RSTC OR SYSCTL_RSTD"

definition usdhc_read :: "u32 \<Rightarrow> esdhc_reg \<Rightarrow> sys \<Rightarrow> u32 \<times> sys" where
  "usdhc_read base r s =
     (let u = usdhc1 s in
      if r = Prsstat then
        (PRSSTAT_CINS OR PRSSTAT_WPSPL OR
           (if 0 < line_wait u then PRSSTAT_CICHB OR PRSSTAT_CIDHB OR PRSSTAT_DLA else PRSSTAT_DAT0),
         s\<lparr>usdhc1 := u\<lparr>line_wait := line_wait u - 1\<rparr>\<rparr>)
      else if r = Irqstat then
        (if 0 < cmd_wait u then (0, s\<lparr>usdhc1 := u\<lparr>cmd_wait := cmd_wait u - 1\<rparr>\<rparr>)
         else (cmd_status u OR (if 0 < data_wait u then 0 else data_status u), s\<lparr>usdhc1 := u\<lparr>data_wait := data_wait u - 1\<rparr>\<rparr>))
      else if r = Sysctl then
        (if 0 < reset_wait u then esdhc_port u r else esdhc_port u r AND NOT RESET_BITS, s\<lparr>usdhc1 := u\<lparr>reset_wait := reset_wait u - 1\<rparr>\<rparr>)
      else (esdhc_port u r, s))"

text \<open>The response registers: a short response is in the first; of a long one all bits but the checksum are, the lowest in the
  first.\<close>

definition resp_word :: "u32 list \<Rightarrow> nat \<Rightarrow> u32" where
  "resp_word resp i = (if i < length resp then resp ! i else 0)"

definition store_response :: "bool \<Rightarrow> u32 list \<Rightarrow> (esdhc_reg \<Rightarrow> u32) \<Rightarrow> esdhc_reg \<Rightarrow> u32" where
  "store_response long resp p =
     (let w = resp_word resp in
      if long then
        p(Cmdrsp3 := drop_bit 8 (w 0), Cmdrsp2 := push_bit 24 (w 0) OR drop_bit 8 (w 1),
          Cmdrsp1 := push_bit 24 (w 1) OR drop_bit 8 (w 2), Cmdrsp0 := push_bit 24 (w 2) OR drop_bit 8 (w 3))
      else p(Cmdrsp0 := w 0))"

text \<open>Writing the transfer type starts a command: bits 24 to 29 are its index, bit 21 says that there is data, bits 16 and 17 are the
  type of the response (1 is the long one).  In the other half of the register bit 5 selects several blocks, bit 4 reading, bit 0
  DMA.\<close>

definition start_command :: "sd_device \<Rightarrow> latency \<Rightarrow> u32 \<Rightarrow> sys \<Rightarrow> sys" where
  "start_command c lat v s =
     (let u = usdhc1 s; p = esdhc_port u; mix = p Mixctrl;
          cmd = \<lparr>cmdidx = unat (take_bit 6 (drop_bit 24 v)), resp_type = 0, cmdarg = p Cmdarg\<rparr>;
          data = (if bit v 21 then Some (if bit mix 5 then drop_bit 16 (p Blkattr) else 1, take_bit 13 (p Blkattr)) else None);
          u = u\<lparr>line_wait := lat_line lat s mod 6000, cmd_wait := lat_cmd lat s, data_wait := lat_data lat s\<rparr>
      in case sd_answer c (sd_line s) (sd_app s) cmd data of
           None \<Rightarrow> s\<lparr>usdhc1 := u\<lparr>cmd_status := IRQSTAT_CTOE, data_status := 0\<rparr>\<rparr>
         | Some (st, app, resp, bytes) \<Rightarrow>
             s\<lparr>sd_line := st, sd_app := app,
               usdhc1 := u\<lparr>esdhc_port := store_response (bit v 16 \<and> \<not> bit v 17) resp p, cmd_status := IRQSTAT_CC,
                 data_status := (if data = None then 0 else DATA_COMPLETE),
                 dma_mem := (if data \<noteq> None \<and> bit mix 0 \<and> bit mix 4 then put_bytes (p Dsaddr) bytes (dma_mem u) else dma_mem u)\<rparr>\<rparr>)"

definition usdhc_write :: "sd_device \<Rightarrow> latency \<Rightarrow> u32 \<Rightarrow> esdhc_reg \<Rightarrow> u32 \<Rightarrow> sys \<Rightarrow> sys" where
  "usdhc_write c lat base r v s =
     (let u = usdhc1 s in
      if r = Xfertyp then start_command c lat v s
      else if r = Irqstat then s\<lparr>usdhc1 := u\<lparr>cmd_status := cmd_status u AND NOT v, data_status := data_status u AND NOT v\<rparr>\<rparr>
      else if r = Sysctl \<and> v AND RESET_BITS \<noteq> 0 then
        s\<lparr>usdhc1 := u\<lparr>esdhc_port := (esdhc_port u)(Sysctl := v), reset_wait := lat_reset lat s, cmd_status := 0, data_status := 0\<rparr>\<rparr>
      else if r \<in> {Cmdrsp0, Cmdrsp1, Cmdrsp2, Cmdrsp3, Prsstat, Hostcapblt} then s
      else s\<lparr>usdhc1 := u\<lparr>esdhc_port := (esdhc_port u)(r := v)\<rparr>\<rparr>)"

definition refetch :: "u32 \<Rightarrow> u32 \<Rightarrow> sys \<Rightarrow> sys" where
  "refetch start stop s =
     (let u = usdhc1 s in
      s\<lparr>usdhc1 := u\<lparr>cpu_mem := (\<lambda>a. if a - start < stop - start then dma_mem u a else cpu_mem u a)\<rparr>\<rparr>)"

definition usdhc_hw :: "sd_device \<Rightarrow> latency \<Rightarrow> esdhc_hw" where
  "usdhc_hw c lat =
     \<lparr>esdhc_read32 = usdhc_read, esdhc_write32 = usdhc_write c lat,
      flush_dcache_range = (\<lambda>start stop s. s), invalidate_dcache_range = refetch\<rparr>"

lemma usdhc_hw_simps [simp]:
  "esdhc_read32 (usdhc_hw c lat) = usdhc_read" "esdhc_write32 (usdhc_hw c lat) = usdhc_write c lat"
  "flush_dcache_range (usdhc_hw c lat) a b s = s" "invalidate_dcache_range (usdhc_hw c lat) = refetch"
  by (simp_all add: usdhc_hw_def)

text \<open>Nothing but the start of a command reaches the card, and nothing reaches the program's data.\<close>

lemma kept_usdhc [simp]: "kept (s\<lparr>usdhc1 := u\<rparr>) = kept s"
  by (simp add: kept_defs)

lemma kept_now [simp]: "kept (s\<lparr>now := n\<rparr>) = kept s"
  by (simp add: kept_defs)

interpretation card_frame: reg_frame "usdhc_hw c lat" kept for c lat
  by unfold_locales
    (auto simp: usdhc_read_def usdhc_write_def refetch_def udelay_def Let_def split: if_splits)

lemma start_calm: "calm (start_command c lat v s) = calm s"
  by (auto simp: start_command_def calm_def boot_data_def fat_data_def Let_def split: option.splits)

interpretation data_frame: quiet_esdhc "usdhc_hw c lat" for c lat
proof unfold_locales
  show "calm (esdhc_write32 (usdhc_hw c lat) base Xfertyp v s) = calm s" for base v s
    by (simp add: usdhc_write_def Let_def start_calm)
qed (auto intro!: kept_calm card_frame.read_frame card_frame.frames simp del: usdhc_hw_simps)

section \<open>The waits end\<close>

abbreviation set_usdhc :: "(usdhc \<Rightarrow> usdhc) \<Rightarrow> sys \<Rightarrow> sys" where
  "set_usdhc f s \<equiv> s\<lparr>usdhc1 := f (usdhc1 s)\<rparr>"

lemmas usdhc_access = usdhc_read_def usdhc_write_def Let_def

lemma busy_bits:
  "c_true ((PRSSTAT_CINS OR PRSSTAT_WPSPL OR (PRSSTAT_CICHB OR PRSSTAT_CIDHB OR PRSSTAT_DLA)) AND PRSSTAT_CICHB)"
  "c_true ((PRSSTAT_CINS OR PRSSTAT_WPSPL OR (PRSSTAT_CICHB OR PRSSTAT_CIDHB OR PRSSTAT_DLA)) AND PRSSTAT_DLA)"
  "\<not> c_true ((PRSSTAT_CINS OR PRSSTAT_WPSPL OR (PRSSTAT_CICHB OR PRSSTAT_CIDHB OR PRSSTAT_DLA)) AND PRSSTAT_DAT0)"
  "\<not> c_true ((PRSSTAT_CINS OR PRSSTAT_WPSPL OR PRSSTAT_DAT0) AND PRSSTAT_CICHB)"
  "\<not> c_true ((PRSSTAT_CINS OR PRSSTAT_WPSPL OR PRSSTAT_DAT0) AND PRSSTAT_CIDHB)"
  "\<not> c_true ((PRSSTAT_CINS OR PRSSTAT_WPSPL OR PRSSTAT_DAT0) AND PRSSTAT_DLA)"
  "c_true ((PRSSTAT_CINS OR PRSSTAT_WPSPL OR PRSSTAT_DAT0) AND PRSSTAT_DAT0)"
  by (simp_all add: prsstat_defs c_true_def)

lemma line_idle: "line_wait (usdhc1 s) = 0 \<Longrightarrow> usdhc_read base Prsstat s = (PRSSTAT_CINS OR PRSSTAT_WPSPL OR PRSSTAT_DAT0, s)"
  by (simp add: usdhc_access)

lemma line_busy:
  assumes "line_wait (usdhc1 s) = Suc n"
  shows "usdhc_read base Prsstat s = (PRSSTAT_CINS OR PRSSTAT_WPSPL OR (PRSSTAT_CICHB OR PRSSTAT_CIDHB OR PRSSTAT_DLA),
    set_usdhc (line_wait_update (\<lambda>_. n)) s)"
  using assms by (simp add: usdhc_access)

lemma wait_idle_ok: "wait_idle (usdhc_hw c lat) base s = Some (set_usdhc (line_wait_update (\<lambda>_. 0)) s)"
proof (induction "line_wait (usdhc1 s)" arbitrary: s)
  case 0
  then show ?case
    by (subst wait_idle.simps) (simp add: line_idle busy_bits)
next
  case (Suc n)
  from Suc(2) show ?case
    by (subst wait_idle.simps) (simp add: line_busy [OF Suc(2) [symmetric]] busy_bits Suc(1))
qed

lemma wait_line_ok: "wait_clear (usdhc_hw c lat) base Prsstat PRSSTAT_DLA s = Some (set_usdhc (line_wait_update (\<lambda>_. 0)) s)"
proof (induction "line_wait (usdhc1 s)" arbitrary: s)
  case 0
  then show ?case
    by (subst wait_clear.simps) (simp add: line_idle busy_bits)
next
  case (Suc n)
  from Suc(2) show ?case
    by (subst wait_clear.simps) (simp add: line_busy [OF Suc(2) [symmetric]] busy_bits Suc(1))
qed

lemma dat0_ok:
  assumes "line_wait (usdhc1 s) < n"
  shows "\<exists>k t. dat0_wait (usdhc_hw c lat) base n s = (k, t) \<and> k \<noteq> 0 \<and>
    usdhc1 t = (usdhc1 s)\<lparr>line_wait := 0\<rparr> \<and> kept t = kept s"
  using assms
proof (induction n arbitrary: s)
  case (Suc n)
  show ?case
  proof (cases "line_wait (usdhc1 s)")
    case 0
    then show ?thesis
      by (simp add: line_idle busy_bits)
  next
    case (Suc m)
    let ?t = "udelay 100 (set_usdhc (line_wait_update (\<lambda>_. m)) s)"
    have "line_wait (usdhc1 ?t) < n" "kept ?t = kept s"
      using Suc.prems Suc by (simp_all add: udelay_def)
    then show ?thesis
      using Suc.IH [of ?t] Suc by (auto simp: line_busy busy_bits udelay_def)
  qed
qed simp

lemma wait_command_ok:
  assumes "c_true (cmd_status (usdhc1 s) AND bits)"
  shows "\<exists>k. wait_set (usdhc_hw c lat) base Irqstat bits s = Some (set_usdhc (\<lambda>u. u\<lparr>cmd_wait := 0, data_wait := k\<rparr>) s)"
  using assms
proof (induction "cmd_wait (usdhc1 s)" arbitrary: s)
  case 0
  let ?t = "set_usdhc (\<lambda>u. u\<lparr>cmd_wait := 0, data_wait := data_wait (usdhc1 s) - 1\<rparr>) s"
  have "(usdhc1 s)\<lparr>cmd_wait := 0, data_wait := k\<rparr> = (usdhc1 s)\<lparr>data_wait := k\<rparr>" for k
    using 0(1) by (cases "usdhc1 s") simp
  then obtain x where read: "usdhc_read base Irqstat s = (cmd_status (usdhc1 s) OR x, ?t)"
    using 0(1) by (simp add: usdhc_access)
  have "c_true ((cmd_status (usdhc1 s) OR x) AND bits)"
    using 0(2) by (simp add: c_true_def bit.conj_disj_distrib2 or_eq_0_iff)
  then have "wait_set (usdhc_hw c lat) base Irqstat bits s = Some ?t"
    by (subst wait_set.simps) (simp add: read)
  then show ?case
    by blast
next
  case (Suc n)
  let ?t = "set_usdhc (cmd_wait_update (\<lambda>_. n)) s"
  have "usdhc_read base Irqstat s = (0, ?t)"
    using Suc(2) [symmetric] by (simp add: usdhc_access)
  then show ?case
    using Suc(1) [of ?t] Suc(3) by (subst wait_set.simps) (auto simp: c_true_def)
qed

lemma wait_data_ok:
  assumes "cmd_wait (usdhc1 s) = 0" "cmd_status (usdhc1 s) = IRQSTAT_CC" "data_status (usdhc1 s) = DATA_COMPLETE"
  shows "wait_data (usdhc_hw c lat) base s = Some (0, set_usdhc (data_wait_update (\<lambda>_. 0)) s)"
  using assms
proof (induction "data_wait (usdhc1 s)" arbitrary: s)
  case 0
  then show ?case
    by (subst wait_data.simps) (simp add: usdhc_access irqstat_defs c_true_def)
next
  case (Suc n)
  let ?t = "set_usdhc (data_wait_update (\<lambda>_. n)) s"
  have "usdhc_read base Irqstat s = (IRQSTAT_CC, ?t)"
    using Suc(2) [symmetric] Suc(3,4) by (simp add: usdhc_access)
  moreover have "wait_data (usdhc_hw c lat) base ?t = Some (0, set_usdhc (data_wait_update (\<lambda>_. 0)) ?t)"
    using Suc by simp
  ultimately show ?case
    by (subst wait_data.simps) (simp add: irqstat_defs c_true_def)
qed

lemma wait_reset_ok:
  assumes "bits AND NOT RESET_BITS = 0"
  shows "\<exists>t. wait_clear (usdhc_hw c lat) base Sysctl bits s = Some t"
proof (induction "reset_wait (usdhc1 s)" arbitrary: s)
  case 0
  have "(x AND NOT RESET_BITS) AND bits = 0" for x
    using assms by (metis and.assoc and.commute and_zero_eq)
  then show ?case
    using 0 by (subst wait_clear.simps) (auto simp: usdhc_access c_true_def)
next
  case (Suc n)
  let ?t = "set_usdhc (reset_wait_update (\<lambda>_. n)) s"
  have "\<exists>v. usdhc_read base Sysctl s = (v, ?t)"
    using Suc(2) [symmetric] by (simp add: usdhc_access)
  then show ?case
    using Suc(1) [of ?t] by (subst wait_clear.simps) auto
qed

lemma recover_ok: "\<exists>t. esdhc_recover (usdhc_hw c lat) base data err s = Some t \<and> kept t = kept s"
proof -
  have bits: "SYSCTL_RSTC AND NOT RESET_BITS = 0" "SYSCTL_RSTD AND NOT RESET_BITS = 0"
    by (simp_all add: RESET_BITS_def sysctl_defs)
  have "\<exists>t. esdhc_recover (usdhc_hw c lat) base data err s = Some t"
  proof -
    obtain u where "wait_clear (usdhc_hw c lat) base Sysctl SYSCTL_RSTC (esdhc_setbits32 (usdhc_hw c lat) base Sysctl SYSCTL_RSTC s) = Some u"
      using wait_reset_ok [OF bits(1)] by blast
    then show ?thesis
      using wait_reset_ok [OF bits(2)] by (simp add: esdhc_recover_def)
  qed
  then show ?thesis
    using card_frame.recover_frame by blast
qed

section \<open>The command on the lines\<close>

text \<open>What the card is told of a transfer, and the transfers the registers can hold.\<close>

definition data_key :: "mmc_data option \<Rightarrow> (u32 \<times> u32) option" where
  "data_key data = map_option (\<lambda>d. (data_blocks d, data_blocksize d)) data"

lemma data_key_simps [simp]: "data_key None = None" "data_key (Some d) = Some (data_blocks d, data_blocksize d)"
  by (simp_all add: data_key_def)

lemma rsp_136_bit: "c_true (rsp AND MMC_RSP_136) = bit rsp 1"
  using and_exp_eq_0_iff_not_bit [of rsp 1] by (simp add: c_true_def MMC_RSP_136_def)

lemma xfertyp_bits:
  "bit (esdhc_xfertyp cmd data) 21 \<longleftrightarrow> data \<noteq> None"
  "bit (esdhc_xfertyp cmd data) 0 \<longleftrightarrow> data \<noteq> None"
  "bit (esdhc_xfertyp cmd data) 5 \<longleftrightarrow> (\<exists>d. data = Some d \<and> data_blocks d > 1)"
  "bit (esdhc_xfertyp cmd data) 4 \<longleftrightarrow> (\<exists>d. data = Some d \<and> c_true (data_flags d AND MMC_DATA_READ))"
  "bit (esdhc_xfertyp cmd data) 16 \<and> \<not> bit (esdhc_xfertyp cmd data) 17 \<longleftrightarrow> bit (resp_type cmd) 1"
  by (auto simp: esdhc_xfertyp_def xfertyp_defs bit_simps Let_def rsp_136_bit split: option.splits)

lemma xfertyp_index:
  assumes "cmdidx cmd < 64"
  shows "unat (take_bit 6 (drop_bit 24 (esdhc_xfertyp cmd data))) = cmdidx cmd"
proof -
  obtain x where x: "esdhc_xfertyp cmd data = XFERTYP_CMD (cmdidx cmd) OR x" "drop_bit 24 x = 0"
    by (force simp: esdhc_xfertyp_def xfertyp_defs Let_def split: option.splits)
  have m: "(0x3f :: u32) = mask 6"
    by (simp add: mask_eq_exp_minus_1)
  have "take_bit 6 (drop_bit 24 (push_bit 24 (w AND 0x3f))) = take_bit 6 w" for w :: u32
    unfolding m by (rule bit_word_eqI) (auto simp: bit_simps)
  then have "take_bit 6 (drop_bit 24 (XFERTYP_CMD (cmdidx cmd))) = (of_nat (cmdidx cmd) :: u32)"
    using assms by (simp add: XFERTYP_CMD_def take_bit_of_nat take_bit_nat_eq_self)
  then show ?thesis
    using assms x by (simp add: unat_of_nat)
qed

lemma answer_index:
  assumes "sd_answer c st app cmd data = Some y"
  shows "cmdidx cmd < 64 \<and> cmdidx cmd \<noteq> SD_CMD_SWITCH_UHS18V"
proof -
  have "sd_answer c st app cmd data = None" if "cmdidx cmd \<notin> {0, 2, 3, 6, 7, 8, 9, 12, 13, 16, 17, 18, 41, 51, 55}"
    using that by (simp add: sd_answer_def sd_app_answer_def sd_plain_answer_def mmc_cmd_defs Let_def split: option.split)
  then have "cmdidx cmd \<in> {0, 2, 3, 6, 7, 8, 9, 12, 13, 16, 17, 18, 41, 51, 55}"
    using assms by fastforce
  then show ?thesis
    by (auto simp: SD_CMD_SWITCH_UHS18V_def)
qed

lemma answer_type:
  "sd_answer c st app \<lparr>cmdidx = cmdidx cmd, resp_type = n, cmdarg = cmdarg cmd\<rparr> data = sd_answer c st app cmd data"
  by (simp only: sd_answer_def sd_app_answer_def sd_plain_answer_def mmc_cmd.select_convs)

lemma answer_response:
  assumes "sd_answer c st app cmd data = Some (st', app', resp, bytes)"
  shows "length resp \<le> 1 \<or> (\<exists>reg. resp = csd_words reg)"
  using assms
  by (auto simp: sd_answer_def sd_app_answer_def sd_plain_answer_def Let_def split: if_splits option.splits sd_state.splits nat.splits)

lemma take_bit_small: "unat w < 2 ^ k \<Longrightarrow> take_bit k w = w" for w :: u32
  by (simp add: word_unat_eq_iff unsigned_take_bit_eq take_bit_nat_eq_self)

lemma block_attributes:
  assumes "n < 0x10000" "bl < 0x1000"
  shows "drop_bit 16 (push_bit 16 n OR bl) = n" "take_bit 13 (push_bit 16 n OR bl) = (bl :: u32)"
proof -
  have n: "take_bit 16 n = n" and bl: "take_bit 12 bl = bl"
    using assms take_bit_small [of n 16] take_bit_small [of bl 12] by (simp_all add: word_less_nat_alt)
  have "drop_bit 16 (push_bit 16 (take_bit 16 n) OR take_bit 12 bl) = take_bit 16 n"
    by (rule bit_word_eqI) (auto simp: bit_simps)
  moreover have "take_bit 13 (push_bit 16 (take_bit 16 n) OR take_bit 12 bl) = take_bit 12 bl"
    by (rule bit_word_eqI) (auto simp: bit_simps)
  ultimately show "drop_bit 16 (push_bit 16 n OR bl) = n" "take_bit 13 (push_bit 16 n OR bl) = bl"
    by (simp_all only: n bl)
qed

section \<open>The answer in the registers\<close>

text \<open>The state after a command the card has answered.\<close>

definition answered ::
  "mmc_cmd \<Rightarrow> mmc_data option \<Rightarrow> sd_state \<Rightarrow> bool \<Rightarrow> u32 list \<Rightarrow> u8 list \<Rightarrow> sys \<Rightarrow> bool" where
  "answered cmd data st app resp bytes t \<longleftrightarrow>
     sd_line t = st \<and> sd_app t = app \<and> cmd_status (usdhc1 t) = IRQSTAT_CC \<and>
     data_status (usdhc1 t) = (if data = None then 0 else DATA_COMPLETE) \<and> line_wait (usdhc1 t) < 6000 \<and>
     (\<exists>p. esdhc_port (usdhc1 t) = store_response (bit (resp_type cmd) 1) resp p) \<and>
     (\<forall>d. data = Some d \<longrightarrow> (\<exists>m. dma_mem (usdhc1 t) = put_bytes (data_dest d) bytes m))"

definition ready_for :: "mmc_data option \<Rightarrow> sys \<Rightarrow> bool" where
  "ready_for data s \<longleftrightarrow>
     (\<forall>d. data = Some d \<longrightarrow> c_true (data_flags d AND MMC_DATA_READ) \<and> esdhc_port (usdhc1 s) Dsaddr = data_dest d \<and>
        esdhc_port (usdhc1 s) Blkattr = push_bit 16 (data_blocks d) OR data_blocksize d)"

lemma high_half:
  "bit (x AND 0xFFFF0000 :: u32) 21 = bit x 21" "bit (x AND 0xFFFF0000 :: u32) 16 = bit x 16" "bit (x AND 0xFFFF0000 :: u32) 17 = bit x 17"
  "take_bit 6 (drop_bit 24 (x AND 0xFFFF0000 :: u32)) = take_bit 6 (drop_bit 24 x)"
proof -
  have m: "(0xFFFF0000 :: u32) = push_bit 16 (mask 16)"
    by (simp add: mask_eq_exp_minus_1)
  show "take_bit 6 (drop_bit 24 (x AND 0xFFFF0000 :: u32)) = take_bit 6 (drop_bit 24 x)"
    unfolding m by (rule bit_word_eqI) (auto simp: bit_simps)
qed (simp_all add: bit_simps)

lemma low_half_bits:
  "bit ((mix AND 0xFFFFFF80) OR (x AND 0x7F) OR (if ddr then XFERTYP_DDREN else 0) :: u32) 5 = bit x 5"
  "bit ((mix AND 0xFFFFFF80) OR (x AND 0x7F) OR (if ddr then XFERTYP_DDREN else 0) :: u32) 4 = bit x 4"
  "bit ((mix AND 0xFFFFFF80) OR (x AND 0x7F) OR (if ddr then XFERTYP_DDREN else 0) :: u32) 0 = bit x 0"
  by (simp_all add: bit_simps XFERTYP_DDREN_def)

lemma issue_start:
  "\<exists>m. esdhc_issue (usdhc_hw c lat) mmc cmd data s = start_command c lat (esdhc_xfertyp cmd data AND 0xFFFF0000)
     (set_usdhc (\<lambda>u. u\<lparr>esdhc_port := (esdhc_port u)(Irqsigen := 0, Cmdarg := cmdarg cmd, Mixctrl := m)\<rparr>) s) \<and>
   bit m 5 = bit (esdhc_xfertyp cmd data) 5 \<and> bit m 4 = bit (esdhc_xfertyp cmd data) 4 \<and> bit m 0 = bit (esdhc_xfertyp cmd data) 0"
  by (intro exI [of _ "(esdhc_port (usdhc1 s) Mixctrl AND 0xFFFFFF80) OR (esdhc_xfertyp cmd data AND 0x7F) OR
        (if mmc_ddr_mode mmc then XFERTYP_DDREN else 0)"])
    (simp only: low_half_bits, simp add: esdhc_issue_def usdhc_access)

lemma data_key_None: "(data_key data = None) = (data = None)"
  by (simp add: data_key_def)

lemma start_ok:
  assumes "unat (take_bit 6 (drop_bit 24 v)) = cmdidx cmd" "esdhc_port (usdhc1 s) Cmdarg = cmdarg cmd"
    "(if bit v 21 then Some (if bit (esdhc_port (usdhc1 s) Mixctrl) 5 then drop_bit 16 (esdhc_port (usdhc1 s) Blkattr) else 1,
        take_bit 13 (esdhc_port (usdhc1 s) Blkattr)) else None) = data_key data"
    "(bit v 16 \<and> \<not> bit v 17) = bit (resp_type cmd) 1"
    "\<And>d. data = Some d \<Longrightarrow> bit (esdhc_port (usdhc1 s) Mixctrl) 0 \<and> bit (esdhc_port (usdhc1 s) Mixctrl) 4 \<and>
      esdhc_port (usdhc1 s) Dsaddr = data_dest d"
  shows "case sd_answer c (sd_line s) (sd_app s) cmd (data_key data) of
      None \<Rightarrow> kept (start_command c lat v s) = kept s \<and> cmd_status (usdhc1 (start_command c lat v s)) = IRQSTAT_CTOE \<and>
        data_status (usdhc1 (start_command c lat v s)) = 0
    | Some (st, app, resp, bytes) \<Rightarrow> answered cmd data st app resp bytes (start_command c lat v s)"
proof -
  have start: "start_command c lat v s =
     (let u = usdhc1 s; p = esdhc_port u;
          u = u\<lparr>line_wait := lat_line lat s mod 6000, cmd_wait := lat_cmd lat s, data_wait := lat_data lat s\<rparr>
      in case sd_answer c (sd_line s) (sd_app s) cmd (data_key data) of
           None \<Rightarrow> s\<lparr>usdhc1 := u\<lparr>cmd_status := IRQSTAT_CTOE, data_status := 0\<rparr>\<rparr>
         | Some (st, app, resp, bytes) \<Rightarrow>
             s\<lparr>sd_line := st, sd_app := app,
               usdhc1 := u\<lparr>esdhc_port := store_response (bit (resp_type cmd) 1) resp p, cmd_status := IRQSTAT_CC,
                 data_status := (if data = None then 0 else DATA_COMPLETE),
                 dma_mem := (if data \<noteq> None \<and> bit (p Mixctrl) 0 \<and> bit (p Mixctrl) 4 then put_bytes (p Dsaddr) bytes (dma_mem u)
                   else dma_mem u)\<rparr>\<rparr>)"
    unfolding start_command_def Let_def assms(1-4) answer_type data_key_None by (rule refl)
  show ?thesis
    using assms(5) by (auto simp: start Let_def answered_def split: option.split)
qed

lemma issue_ok:
  assumes idx: "cmdidx cmd < 64" and data: "transferable (data_key data)" "ready_for data s"
    and t_def: "t = esdhc_issue (usdhc_hw c lat) mmc cmd data s"
  shows "case sd_answer c (sd_line s) (sd_app s) cmd (data_key data) of
      None \<Rightarrow> kept t = kept s \<and> cmd_status (usdhc1 t) = IRQSTAT_CTOE \<and> data_status (usdhc1 t) = 0
    | Some (st, app, resp, bytes) \<Rightarrow> answered cmd data st app resp bytes t"
proof -
  let ?v = "esdhc_xfertyp cmd data AND 0xFFFF0000"
  obtain m where m: "t = start_command c lat ?v
      (set_usdhc (\<lambda>u. u\<lparr>esdhc_port := (esdhc_port u)(Irqsigen := 0, Cmdarg := cmdarg cmd, Mixctrl := m)\<rparr>) s)"
    "bit m 5 = bit (esdhc_xfertyp cmd data) 5" "bit m 4 = bit (esdhc_xfertyp cmd data) 4" "bit m 0 = bit (esdhc_xfertyp cmd data) 0"
    using issue_start unfolding t_def by blast
  let ?s = "set_usdhc (\<lambda>u. u\<lparr>esdhc_port := (esdhc_port u)(Irqsigen := 0, Cmdarg := cmdarg cmd, Mixctrl := m)\<rparr>) s"
  have v: "unat (take_bit 6 (drop_bit 24 ?v)) = cmdidx cmd" "bit ?v 21 = (data \<noteq> None)" "(bit ?v 16 \<and> \<not> bit ?v 17) = bit (resp_type cmd) 1"
    unfolding high_half xfertyp_index [OF idx] xfertyp_bits by (rule refl)+
  have key: "(if bit ?v 21 then Some (if bit (esdhc_port (usdhc1 ?s) Mixctrl) 5 then drop_bit 16 (esdhc_port (usdhc1 ?s) Blkattr) else 1,
      take_bit 13 (esdhc_port (usdhc1 ?s) Blkattr)) else None) = data_key data"
  proof (cases data)
    case None
    then show ?thesis
      using v(2) by simp
  next
    case (Some d)
    have "data_blocks d = 1" if "\<not> data_blocks d > 1"
      using that data(1) Some by (auto simp: word_less_nat_alt word_unat_eq_iff)
    then show ?thesis
      unfolding v(2) using data Some block_attributes [of "data_blocks d" "data_blocksize d"]
      by (simp add: m(2) xfertyp_bits ready_for_def)
  qed
  have "bit (esdhc_port (usdhc1 ?s) Mixctrl) 0 \<and> bit (esdhc_port (usdhc1 ?s) Mixctrl) 4 \<and>
      esdhc_port (usdhc1 ?s) Dsaddr = data_dest d" if "data = Some d" for d
    using data(2) that by (simp add: m xfertyp_bits ready_for_def)
  from start_ok [OF v(1) _ key v(3) this, of c lat, folded m(1)] show ?thesis
    by (auto split: option.splits)
qed

section \<open>The driver's answer\<close>

lemma response_ok:
  assumes "esdhc_port (usdhc1 s) = store_response (bit (resp_type cmd) 1) resp p"
    and "length resp \<le> 1 \<or> (\<exists>reg. resp = csd_words reg)"
  shows "\<exists>r. esdhc_response (usdhc_hw c lat) base cmd r0 s = (r, s) \<and> (\<forall>i < length resp. i < resp_words (resp_type cmd) \<longrightarrow> r i = resp ! i)"
proof (cases "bit (resp_type cmd) 1")
  case True
  let ?w = "resp_word resp"
  have join: "push_bit 8 (drop_bit 8 x) OR drop_bit 24 (push_bit 24 x) = x" for x :: u32
    by (rule bit_word_eqI) (auto simp: bit_simps)
  have "push_bit 8 (push_bit 24 z OR drop_bit 8 (?w 3)) = ?w 3" for z
  proof -
    have "\<exists>x. ?w 3 = push_bit 8 x"
      using assms(2)
    proof
      assume "\<exists>reg. resp = csd_words reg"
      then obtain reg where "resp = csd_words reg" ..
      then have "?w 3 = push_bit 8 (ucast (drop_bit 8 reg))"
        by (simp add: resp_word_def csd_words_def, intro bit_word_eqI) (auto simp: bit_simps)
      then show ?thesis ..
    qed (auto simp: resp_word_def intro: exI [of _ 0])
    then obtain x where "?w 3 = push_bit 8 x" ..
    then show ?thesis
      by (simp, intro bit_word_eqI) (auto simp: bit_simps)
  qed
  then have "esdhc_response (usdhc_hw c lat) base cmd r0 s = (r0(0 := ?w 0, 1 := ?w 1, 2 := ?w 2, 3 := ?w 3), s)"
    using True by (simp add: esdhc_response_def rsp_136_bit usdhc_access assms(1) store_response_def join)
  moreover have "(r0(0 := ?w 0, 1 := ?w 1, 2 := ?w 2, 3 := ?w 3)) i = resp ! i" if "i < length resp" "i < 4" for i
  proof -
    have "i \<in> {0, 1, 2, 3}"
      using that(2) by auto
    then show ?thesis
      using that(1) by (elim insertE) (simp_all add: resp_word_def)
  qed
  ultimately show ?thesis
    using True by (auto simp: resp_words_def simp del: fun_upd_apply)
next
  case False
  then show ?thesis
    by (auto simp: esdhc_response_def rsp_136_bit usdhc_access assms(1) store_response_def resp_words_def resp_word_def)
qed

lemma roundup_covers:
  assumes "0 < unat x" "unat x < 2 ^ 28"
  shows "unat x \<le> unat (roundup ARCH_DMA_MINALIGN x)"
proof -
  have sum: "unat (31 + x) = 31 + unat x"
    using assms by (subst unat_add_small) simp_all
  then have q: "unat ((31 + x) div x) = (31 + unat x) div unat x"
    by (simp add: unat_div)
  have "(31 + unat x) div unat x * unat x < 2 ^ 32"
    using assms(2) by (intro le_less_trans [OF div_times_less_eq_dividend]) simp
  then have "unat ((31 + x) div x * x) = (31 + unat x) div unat x * unat x"
    using unat_mult_lem [of "(31 + x) div x" x] unfolding q by simp
  moreover have "1 \<le> (31 + unat x) div unat x"
    using assms(1) by (simp add: Suc_le_eq div_greater_zero_iff)
  ultimately show ?thesis
    using mult_le_mono1 [of 1 "(31 + unat x) div unat x" "unat x"] by (simp add: roundup_def ARCH_DMA_MINALIGN_def)
qed

lemma refetch_bytes:
  assumes "dma_mem (usdhc1 t) = put_bytes start bytes m" "length bytes \<le> unat len"
  shows "get_bytes (cpu_mem (usdhc1 (refetch start (start + len) t))) start (length bytes) = bytes"
proof -
  have "length bytes < 2 ^ 32"
    using assms(2) unsigned_less [of len, where 'a = nat] by simp
  moreover have "of_nat i < len" if "i < length bytes" for i
    using that assms(2) calculation by (simp add: word_less_nat_alt unat_of_nat)
  ultimately show ?thesis
    by (intro nth_equalityI) (simp_all add: refetch_def Let_def assms(1) put_bytes_same)
qed

lemma transfer_size:
  assumes "transferable (Some (n, bl))"
  shows "unat (n * bl) = unat n * unat bl" "unat (n * bl) < 2 ^ 28"
proof -
  have "unat n * unat bl \<le> 0xffff * 0xfff"
    using assms by (intro mult_le_mono) (simp_all add: word_less_nat_alt)
  then show "unat (n * bl) = unat n * unat bl" "unat (n * bl) < 2 ^ 28"
    by (simp_all add: unat_word_ariths)
qed

lemma collect_ok:
  assumes ans: "answered cmd data st app resp bytes t" and wait: "cmd_wait (usdhc1 t) = 0"
    and cmd: "cmdidx cmd \<noteq> SD_CMD_SWITCH_UHS18V" "length resp \<le> 1 \<or> (\<exists>reg. resp = csd_words reg)"
    and data: "\<And>d. data = Some d \<Longrightarrow> c_true (data_flags d AND MMC_DATA_READ)"
  shows "\<exists>r u. esdhc_collect (usdhc_hw c lat) base cmd data r0 t = Some (0, r, u) \<and>
    (\<forall>i < length resp. i < resp_words (resp_type cmd) \<longrightarrow> r i = resp ! i) \<and>
    (\<forall>d. data = Some d \<longrightarrow> (\<exists>v. (\<exists>m. dma_mem (usdhc1 v) = put_bytes (data_dest d) bytes m) \<and>
       u = check_and_invalidate_dcache_range (usdhc_hw c lat) d v))"
proof -
  note ans = ans [unfolded answered_def]
  obtain v t1 where v: "usdhc_read base Irqstat t = (v, t1)" "\<not> c_true (v AND CMD_ERR)" "\<not> c_true (v AND IRQSTAT_CTOE)"
    and t1: "usdhc1 t1 = (usdhc1 t)\<lparr>data_wait := data_wait (usdhc1 t) - 1\<rparr>"
    using ans wait by (auto simp: usdhc_access irqstat_defs c_true_def)
  let ?wait = "if data = None \<and> c_true (resp_type cmd AND MMC_RSP_BUSY) then dat0_wait (usdhc_hw c lat) base 6000 t1 else (1, t1)"
  have "\<exists>k t2 n. ?wait = (k, t2) \<and> k \<noteq> 0 \<and> usdhc1 t2 = (usdhc1 t1)\<lparr>line_wait := n\<rparr>"
  proof (cases "data = None \<and> c_true (resp_type cmd AND MMC_RSP_BUSY)")
    case True
    then show ?thesis
      using dat0_ok [of t1 6000 c lat base] ans t1 by auto
  next
    case False
    then have "?wait = (1, t1)"
      by (rule if_not_P)
    then show ?thesis
      by (intro exI [of _ 1] exI [of _ t1] exI [of _ "line_wait (usdhc1 t1)"]) simp
  qed
  then obtain k t2 n where t2: "?wait = (k, t2)" "k \<noteq> 0" "usdhc1 t2 = (usdhc1 t)\<lparr>data_wait := data_wait (usdhc1 t) - 1, line_wait := n\<rparr>"
    using t1 by auto
  obtain p where "esdhc_port (usdhc1 t2) = store_response (bit (resp_type cmd) 1) resp p"
    using ans t2(3) by auto
  from response_ok [OF this cmd(2)]
  obtain r where r: "esdhc_response (usdhc_hw c lat) base cmd r0 t2 = (r, t2)"
    "\<forall>i < length resp. i < resp_words (resp_type cmd) \<longrightarrow> r i = resp ! i"
    by blast
  have step: "esdhc_collect (usdhc_hw c lat) base cmd data r0 t =
      (case data of
         None \<Rightarrow> Some (0, r, t2)
       | Some d \<Rightarrow> do {
           (err, s) \<leftarrow> wait_data (usdhc_hw c lat) base t2;
           Some (err, r, if err = 0 \<and> c_true (data_flags d AND MMC_DATA_READ) then check_and_invalidate_dcache_range (usdhc_hw c lat) d s else s)
         })"
    unfolding esdhc_collect_def usdhc_hw_simps v(1) Let_def prod.case if_not_P [OF v(2)] if_not_P [OF v(3)] if_not_P [OF cmd(1)] t2(1)
      if_not_P [OF t2(2)] r(1) by (rule refl)
  show ?thesis
  proof (cases data)
    case None
    then show ?thesis
      using r(2) step by auto
  next
    case (Some d)
    have "wait_data (usdhc_hw c lat) base t2 = Some (0, set_usdhc (data_wait_update (\<lambda>_. 0)) t2)"
      using ans wait t2(3) Some by (intro wait_data_ok) simp_all
    then have "esdhc_collect (usdhc_hw c lat) base cmd data r0 t =
        Some (0, r, check_and_invalidate_dcache_range (usdhc_hw c lat) d (set_usdhc (data_wait_update (\<lambda>_. 0)) t2))"
      using Some data step by simp
    moreover have "\<exists>m. dma_mem (usdhc1 (set_usdhc (data_wait_update (\<lambda>_. 0)) t2)) = put_bytes (data_dest d) bytes m"
      using ans t2(3) Some by simp
    ultimately show ?thesis
      using r(2) Some by blast
  qed
qed

lemma setup_data_ok:
  assumes "c_true (data_flags d AND MMC_DATA_READ)"
  shows "\<exists>t. esdhc_setup_data (usdhc_hw c lat) mmc d s = (0, t) \<and> ready_for (Some d) t \<and> kept t = kept s"
proof -
  obtain t where t: "esdhc_setup_data (usdhc_hw c lat) mmc d s = (0, t)" "ready_for (Some d) t"
    using assms
    by (simp add: esdhc_setup_data_def esdhc_clrsetbits32_def usdhc_access ready_for_def)
  then show ?thesis
    using card_frame.setup_data_frame by blast
qed

text \<open>The prologue: the lines are free, and the registers hold the description of the transfer.\<close>

lemma prologue_ok:
  assumes "\<And>d. data = Some d \<Longrightarrow> c_true (data_flags d AND MMC_DATA_READ)"
  shows "\<exists>t. kept t = kept s \<and> ready_for data t \<and> esdhc_send_cmd (usdhc_hw c lat) mmc cmd data r0 s = do {
      u \<leftarrow> wait_set (usdhc_hw c lat) (mmc_esdhc_base mmc) Irqstat (IRQSTAT_CC OR IRQSTAT_CTOE) (esdhc_issue (usdhc_hw c lat) mmc cmd data t);
      (err, r, u) \<leftarrow> esdhc_collect (usdhc_hw c lat) (mmc_esdhc_base mmc) cmd data r0 u;
      u \<leftarrow> esdhc_recover (usdhc_hw c lat) (mmc_esdhc_base mmc) data err u;
      Some (err, r, esdhc_write32 (usdhc_hw c lat) (mmc_esdhc_base mmc) Irqstat (- 1) u)
    }"
proof -
  let ?base = "mmc_esdhc_base mmc"
  obtain u where u: "wait_idle (usdhc_hw c lat) ?base (usdhc_write c lat ?base Irqstat (- 1) s) = Some u"
    using wait_idle_ok by blast
  obtain v where v: "wait_clear (usdhc_hw c lat) ?base Prsstat PRSSTAT_DLA u = Some v"
    using wait_line_ok by blast
  have k: "kept (udelay 1000 v) = kept s"
    using card_frame.wait_idle_frame [OF u] card_frame.wait_clear_frame [OF v] card_frame.write_frame [of Irqstat c lat ?base "- 1" s]
    by (simp add: card_frame.delay_frame)
  show ?thesis
  proof (cases data)
    case None
    then show ?thesis
      using u v k by (intro exI [of _ "udelay 1000 v"]) (simp add: esdhc_send_cmd_def ready_for_def Let_def)
  next
    case (Some d)
    obtain t where "esdhc_setup_data (usdhc_hw c lat) mmc d (udelay 1000 v) = (0, t)" "ready_for (Some d) t" "kept t = kept s"
      using setup_data_ok [of d c lat mmc "udelay 1000 v"] assms [OF Some] k by auto
    then show ?thesis
      using u v Some by (intro exI [of _ t]) (simp add: esdhc_send_cmd_def Let_def)
  qed
qed

text \<open>A command the card does not answer times out, and leaves the card as it was.\<close>

lemma send_cmd_timeout:
  assumes "cmdidx cmd < 64" "transferable (data_key data)" "\<And>d. data = Some d \<Longrightarrow> c_true (data_flags d AND MMC_DATA_READ)"
    and none: "sd_answer c (sd_line s) (sd_app s) cmd (data_key data) = None"
  shows "\<exists>t. esdhc_send_cmd (usdhc_hw c lat) mmc cmd data r0 s = Some (TIMEOUT, r0, t) \<and> kept t = kept s"
proof -
  let ?hw = "usdhc_hw c lat" and ?base = "mmc_esdhc_base mmc"
  obtain t where t: "kept t = kept s" "ready_for data t" and run: "esdhc_send_cmd ?hw mmc cmd data r0 s = do {
      u \<leftarrow> wait_set ?hw ?base Irqstat (IRQSTAT_CC OR IRQSTAT_CTOE) (esdhc_issue ?hw mmc cmd data t);
      (err, r, u) \<leftarrow> esdhc_collect ?hw ?base cmd data r0 u;
      u \<leftarrow> esdhc_recover ?hw ?base data err u;
      Some (err, r, esdhc_write32 ?hw ?base Irqstat (- 1) u)
    }"
    using prologue_ok [OF assms(3)] by blast
  let ?i = "esdhc_issue ?hw mmc cmd data t"
  have i: "kept ?i = kept s" "cmd_status (usdhc1 ?i) = IRQSTAT_CTOE" "data_status (usdhc1 ?i) = 0"
    using issue_ok [OF assms(1,2) t(2) refl, of c lat mmc] none t(1) by (simp_all add: kept_def)
  obtain k where w: "wait_set ?hw ?base Irqstat (IRQSTAT_CC OR IRQSTAT_CTOE) ?i = Some (set_usdhc (\<lambda>u. u\<lparr>cmd_wait := 0, data_wait := k\<rparr>) ?i)"
    (is "_ = Some ?w")
    using wait_command_ok [of ?i "IRQSTAT_CC OR IRQSTAT_CTOE" c lat ?base] i(2) by (auto simp: irqstat_defs c_true_def)
  have "usdhc_read ?base Irqstat ?w = (IRQSTAT_CTOE, set_usdhc (data_wait_update (\<lambda>_. k - 1)) ?w)"
    using i(2,3) by (simp add: usdhc_access)
  moreover have "\<not> c_true (IRQSTAT_CTOE AND CMD_ERR)" "c_true (IRQSTAT_CTOE AND IRQSTAT_CTOE)"
    by (simp_all add: irqstat_defs c_true_def)
  ultimately have "esdhc_collect ?hw ?base cmd data r0 ?w = Some (TIMEOUT, r0, set_usdhc (data_wait_update (\<lambda>_. k - 1)) ?w)"
    unfolding esdhc_collect_def usdhc_hw_simps by simp
  then obtain v where "esdhc_collect ?hw ?base cmd data r0 ?w = Some (TIMEOUT, r0, v)" "kept v = kept s"
    using i(1) by simp
  moreover obtain x where "esdhc_recover ?hw ?base data TIMEOUT v = Some x" "kept x = kept v"
    using recover_ok by blast
  moreover have "kept (esdhc_write32 ?hw ?base Irqstat (- 1) x) = kept x"
    by (rule card_frame.write_frame) simp
  ultimately show ?thesis
    using run w by simp
qed

lemma send_cmd_ok:
  assumes "transferable (data_key data)" "\<And>d. data = Some d \<Longrightarrow> c_true (data_flags d AND MMC_DATA_READ)"
    and ans: "sd_answer c (sd_line s) (sd_app s) cmd (data_key data) = Some (st, app, resp, bytes)"
  shows "\<exists>r t. esdhc_send_cmd (usdhc_hw c lat) mmc cmd data r0 s = Some (0, r, t) \<and>
    calm t = calm s \<and> sd_line t = st \<and> sd_app t = app \<and> (\<forall>i < length resp. i < resp_words (resp_type cmd) \<longrightarrow> r i = resp ! i) \<and>
    (\<forall>d. data = Some d \<longrightarrow> length bytes = unat (data_blocks d) * unat (data_blocksize d) \<longrightarrow>
       get_bytes (cpu_mem (usdhc1 t)) (data_dest d) (length bytes) = bytes)"
proof -
  let ?hw = "usdhc_hw c lat" and ?base = "mmc_esdhc_base mmc"
  note idx = answer_index [OF ans]
  obtain t where t: "kept t = kept s" "ready_for data t" and run: "esdhc_send_cmd ?hw mmc cmd data r0 s = do {
      u \<leftarrow> wait_set ?hw ?base Irqstat (IRQSTAT_CC OR IRQSTAT_CTOE) (esdhc_issue ?hw mmc cmd data t);
      (err, r, u) \<leftarrow> esdhc_collect ?hw ?base cmd data r0 u;
      u \<leftarrow> esdhc_recover ?hw ?base data err u;
      Some (err, r, esdhc_write32 ?hw ?base Irqstat (- 1) u)
    }"
    using prologue_ok [OF assms(2)] by blast
  let ?i = "esdhc_issue ?hw mmc cmd data t"
  have i: "answered cmd data st app resp bytes ?i"
    using issue_ok [OF conjunct1 [OF idx] assms(1) t(2) refl, of c lat mmc] ans t(1) by (simp add: kept_def)
  obtain k where w: "wait_set ?hw ?base Irqstat (IRQSTAT_CC OR IRQSTAT_CTOE) ?i = Some (set_usdhc (\<lambda>u. u\<lparr>cmd_wait := 0, data_wait := k\<rparr>) ?i)"
    (is "_ = Some ?w")
    using wait_command_ok [of ?i "IRQSTAT_CC OR IRQSTAT_CTOE" c lat ?base] i by (auto simp: answered_def irqstat_defs c_true_def)
  have "answered cmd data st app resp bytes ?w" "cmd_wait (usdhc1 ?w) = 0"
    using i by (simp_all add: answered_def)
  from collect_ok [OF this conjunct2 [OF idx] answer_response [OF ans] assms(2)]
  obtain r u where u: "esdhc_collect ?hw ?base cmd data r0 ?w = Some (0, r, u)"
    "\<forall>i < length resp. i < resp_words (resp_type cmd) \<longrightarrow> r i = resp ! i"
    and data: "\<forall>d. data = Some d \<longrightarrow> (\<exists>v. (\<exists>m. dma_mem (usdhc1 v) = put_bytes (data_dest d) bytes m) \<and>
       u = check_and_invalidate_dcache_range ?hw d v)"
    by blast
  let ?t = "esdhc_write32 ?hw ?base Irqstat (- 1) u"
  have ret: "esdhc_send_cmd ?hw mmc cmd data r0 s = Some (0, r, ?t)"
    using run w u(1) by (simp add: esdhc_recover_def)
  have "kept ?t = kept ?w"
    using card_frame.collect_frame [OF u(1)] card_frame.write_frame [of Irqstat c lat ?base "- 1" u] by simp
  then have line: "sd_line ?t = st" "sd_app ?t = app"
    using i by (simp_all add: kept_def answered_def)
  have "get_bytes (cpu_mem (usdhc1 ?t)) (data_dest d) (length bytes) = bytes"
    if d: "data = Some d" and len: "length bytes = unat (data_blocks d) * unat (data_blocksize d)" for d
  proof (cases "bytes = []")
    case False
    let ?n = "data_blocks d * data_blocksize d"
    have n: "unat ?n = length bytes" "unat ?n < 2 ^ 28"
      using transfer_size [of "data_blocks d" "data_blocksize d"] assms(1) d len by simp_all
    then have "length bytes \<le> unat (roundup ARCH_DMA_MINALIGN ?n)"
      using roundup_covers [of ?n] False by simp
    moreover obtain x m where "dma_mem (usdhc1 x) = put_bytes (data_dest d) bytes m" "u = check_and_invalidate_dcache_range ?hw d x"
      using data d by blast
    ultimately have "get_bytes (cpu_mem (usdhc1 u)) (data_dest d) (length bytes) = bytes"
      using refetch_bytes by (simp add: check_and_invalidate_dcache_range_def Let_def)
    then show ?thesis
      by (simp add: usdhc_access)
  qed simp
  then show ?thesis
    using ret line u(2) data_frame.send_cmd_quiet [OF ret] by blast
qed

section \<open>The slot behind the driver\<close>

text \<open>A card whose registers are sound sends as many bytes as it is asked for.\<close>

lemma answer_length:
  assumes "sd_answer c st app cmd data = Some (st', app', resp, bytes)" "card_sound c"
  shows "length bytes = (case data of None \<Rightarrow> 0 | Some (n, bl) \<Rightarrow> unat n * unat bl)"
proof -
  have "length (sectors (card_disk c) b n) = n * 512" for b n
    using assms(2) by (intro length_sectors) (simp add: card_sound_def)
  then show ?thesis
    using assms
    by (auto simp: sd_answer_def sd_app_answer_def sd_plain_answer_def Let_def card_sound_def
        split: if_splits option.splits sd_state.splits nat.splits)
qed

text \<open>The medium: the driver on this controller, with a processor that reads through its cache.\<close>

definition usdhc_media :: "sd_device \<Rightarrow> latency \<Rightarrow> u32 \<Rightarrow> u32 \<Rightarrow> media \<Rightarrow> media" where
  "usdhc_media c lat clk buf md = esdhc_media (usdhc_hw c lat) clk buf (\<lambda>s. cpu_mem (usdhc1 s)) md"

lemma cmd_answers:
  assumes ans: "sd_answer c (sd_line s) (sd_app s) cmd data = Some (st, app, resp, bytes)" and "transferable data" "card_sound c"
  shows "\<exists>r t. esdhc_cmd (usdhc_hw c lat) buf (\<lambda>s. cpu_mem (usdhc1 s)) mmc cmd data s = (0, r, bytes, t) \<and>
    (\<forall>i < length resp. i < resp_words (resp_type cmd) \<longrightarrow> r i = resp ! i) \<and> calm t = calm s \<and> sd_line t = st \<and> sd_app t = app"
proof -
  let ?d = "map_option (\<lambda>(n, bl). \<lparr>data_dest = buf, data_flags = MMC_DATA_READ, data_blocks = n, data_blocksize = bl\<rparr>) data"
  have key: "data_key ?d = data"
    by (cases data) auto
  have read: "c_true (data_flags d AND MMC_DATA_READ)" if "?d = Some d" for d
    using that by (auto simp: MMC_DATA_READ_def c_true_def)
  obtain r t where t: "esdhc_send_cmd (usdhc_hw c lat) mmc cmd ?d (\<lambda>_. 0) s = Some (0, r, t)" "calm t = calm s" "sd_line t = st"
    "sd_app t = app" "\<forall>i < length resp. i < resp_words (resp_type cmd) \<longrightarrow> r i = resp ! i"
    and bytes: "\<forall>d. ?d = Some d \<longrightarrow> length bytes = unat (data_blocks d) * unat (data_blocksize d) \<longrightarrow>
       get_bytes (cpu_mem (usdhc1 t)) (data_dest d) (length bytes) = bytes"
    using send_cmd_ok [of ?d c s cmd st app resp bytes lat mmc "\<lambda>_. 0", unfolded key, OF assms(2) read ans] by blast
  have "(case data of None \<Rightarrow> [] | Some (n, bl) \<Rightarrow> get_bytes (cpu_mem (usdhc1 t)) buf (unat (n * bl))) = bytes"
    using bytes answer_length [OF ans assms(3)] assms(2) transfer_size(1)
    by (cases data) (auto simp del: transferable_simps)
  then show ?thesis
    using t by (simp add: esdhc_cmd_def)
qed

lemma usdhc_slot:
  assumes "card_sound c"
  shows "sd_slot (usdhc_media c lat clk buf md) c"
proof
  show "\<exists>r t. mmc_send_cmd (usdhc_media c lat clk buf md) mmc cmd data s = (0, r, bytes, t) \<and>
      (\<forall>i < length resp. i < resp_words (resp_type cmd) \<longrightarrow> r i = resp ! i) \<and> calm t = calm s \<and> sd_line t = st \<and> sd_app t = app"
    if "sd_answer c (sd_line s) (sd_app s) cmd data = Some (st, app, resp, bytes)" "transferable data"
    for s cmd data st app resp bytes mmc
    using cmd_answers [OF that assms] by (simp add: usdhc_media_def esdhc_media_def Let_def)
qed (simp_all add: usdhc_media_def card_frame.media_frame)

text \<open>With the USB side of the images it is a quiet medium and a quiet host.\<close>

interpretation usdhc: esdhc_slot "usdhc_hw c lat" "image_media bl sd sd_blocks usb usb_blocks"
  for c lat bl sd sd_blocks usb usb_blocks
  by (intro esdhc_slot.intro data_frame.quiet_esdhc_axioms image.quiet_media_axioms)

section \<open>Initialising the controller\<close>

interpretation caps_frame: reg_frame "usdhc_hw c lat" "\<lambda>s. esdhc_port (usdhc1 s) Hostcapblt" for c lat
  by unfold_locales
    (auto simp: usdhc_read_def usdhc_write_def refetch_def udelay_def Let_def split: if_splits)

lemma config_fields:
  assumes "esdhc_config caps cfg = Some host"
  shows "voltages host = 0x300000" "b_max host = 65535" "f_min host = 400000" "f_max host = min (sdhc_clk cfg) 52000000"
  using assms by (auto simp: esdhc_config_def Let_def MMC_VDD_32_33_def MMC_VDD_33_34_def CONFIG_SYS_MMC_MAX_BLK_COUNT_def split: if_splits)

text \<open>A controller with 3.3 volts and a clock gets a slot; nothing else changes.\<close>

lemma initialize_ok:
  assumes host: "esdhc_config (esdhc_port (usdhc1 s) Hostcapblt) cfg = Some host" and "sdhc_clk cfg \<noteq> 0"
  shows "\<exists>mmc n t u. fsl_esdhc_initialize (usdhc_hw c lat) True cfg s = (0, t) \<and>
    mmc_create True host (esdhc_base cfg) (length (mmc_devices s)) u = (Some mmc, n, t) \<and> kept u = kept s"
proof -
  let ?hw = "usdhc_hw c lat" and ?base = "esdhc_base cfg"
  define u where "u = esdhc_write32 ?hw ?base Irqstaten SDHCI_IRQ_EN_BITS (esdhc_setbits32 ?hw ?base Sysctl
      (SYSCTL_PEREN OR SYSCTL_HCKEN OR SYSCTL_IPGEN OR SYSCTL_CKEN) (esdhc_reset ?hw ?base s))"
  have k: "kept u = kept s"
    by (simp add: u_def esdhc_reset_def card_frame.reset_loop_frame card_frame.frames del: usdhc_hw_simps)
  have caps: "esdhc_port (usdhc1 u) Hostcapblt = esdhc_port (usdhc1 s) Hostcapblt"
    by (simp add: u_def esdhc_reset_def caps_frame.reset_loop_frame caps_frame.frames del: usdhc_hw_simps)
  have "fsl_esdhc_initialize ?hw True cfg s =
      (case mmc_create True host ?base (length (mmc_devices u)) u of (None, _, s) \<Rightarrow> (- 1, s) | (Some mmc, _, s) \<Rightarrow> (0, s))"
    using host caps unfolding fsl_esdhc_initialize_def u_def by (simp add: usdhc_read_def Let_def)
  moreover have "f_max host \<noteq> 0"
    using config_fields(4) [OF host] assms(2) by (simp add: min_def)
  then have "\<exists>mmc n t. mmc_create True host ?base (length (mmc_devices u)) u = (Some mmc, n, t)"
    using config_fields(2,3) [OF host] by (simp add: mmc_create_def Let_def)
  moreover have "mmc_devices u = mmc_devices s"
    using k by (simp add: kept_defs)
  ultimately show ?thesis
    using k by fastforce
qed

end
