(* ===== verification/Usdhc_Clock.thy ===== *)
theory Usdhc_Clock
  imports Usdhc_Card
begin

text \<open>
  What the driver writes to the clock, width and transfer registers.  The dividers of the controller are read as the reference
  manual defines them: the prescaler (bits 8 to 15 of SYSCTL) divides by twice its value, by one when it is zero, and by two more at
  double data rate; the divisor (bits 4 to 7) divides by its value plus one.  The data timeout (bits 16 to 19) is a power of two of
  card clocks.
\<close>

section \<open>The dividers\<close>

definition sd_prescaler :: "bool \<Rightarrow> u32 \<Rightarrow> nat" where
  "sd_prescaler ddr w = (let v = unat (take_bit 8 (drop_bit 8 w)) in (if v = 0 then 1 else 2 * v) * (if ddr then 2 else 1))"

definition sd_divisor :: "u32 \<Rightarrow> nat" where
  "sd_divisor w = unat (take_bit 4 (drop_bit 4 w)) + 1"

lemma unat_int_div:
  assumes "clk < 0x80000000" "0 < d"
  shows "unat (int_div clk d) = unat clk div nat d"
proof -
  have "uint clk < 2 ^ 31"
    using assms(1) by (simp add: word_less_def)
  then have "sint clk = int (unat clk)"
    using order_trans [of "- (2 ^ 31)" 0 "uint clk"] by (simp add: sint_uint signed_take_bit_int_eq_self)
  then have "sint clk sdiv d = int (unat clk div nat d)"
    using assms(2) by (cases "clk = 0") (simp_all add: signed_divide_int_def zdiv_int)
  moreover have "unat clk div nat d < 2 ^ 32"
    using unsigned_less [of clk, where 'a = nat] by (intro le_less_trans [OF div_le_dividend]) simp
  ultimately show ?thesis
    by (simp add: int_div_def unat_of_nat)
qed

text \<open>The request: the clock of the slot, at least the host's minimum.\<close>

definition asked_clock :: "mmc \<Rightarrow> u32" where
  "asked_clock mmc = max (mmc_clock mmc) (f_min (mmc_cfg mmc))"

definition clock_in_reach :: "u32 \<Rightarrow> u32 \<Rightarrow> bool" where
  "clock_in_reach clk clock \<longleftrightarrow> clk < 0x80000000 \<and> clock < 0x10000000 \<and> clk div 4096 \<le> clock"

lemma find_SomeD: "find P xs = Some x \<Longrightarrow> x \<in> set xs \<and> P x"
  by (induction xs) (auto split: if_splits)

lemma pre_divider_ok:
  assumes "clock_in_reach clk clock"
  shows "pre_divider clk clock \<in> {2, 4, 8, 16, 32, 64, 128, 256}" "unat clk div (16 * nat (pre_divider clk clock)) \<le> unat clock"
proof -
  have clk: "clk < 0x80000000" and mul: "unat (clock * 16) = unat clock * 16" and slow: "unat clk div 4096 \<le> unat clock"
    using assms by (simp_all add: clock_in_reach_def word_less_nat_alt word_le_nat_alt unat_div unat_word_ariths)
  note div = unat_int_div [OF clk]
  let ?find = "find (\<lambda>p. int_div clk p \<le> clock * 16) [2, 4, 8, 16, 32, 64, 128]"
  have found: "p \<in> {2, 4, 8, 16, 32, 64, 128} \<and> unat clk div (16 * nat p) \<le> unat clock" if "?find = Some p" for p
  proof -
    have p: "p \<in> {2, 4, 8, 16, 32, 64, 128}" "int_div clk p \<le> clock * 16"
      using find_SomeD [OF that] by simp_all
    then have "unat clk div nat p \<le> unat clock * 16"
      using div [of p] mul by (auto simp: word_le_nat_alt)
    then have "unat clk div nat p div 16 \<le> unat clock"
      by simp
    then show ?thesis
      using p(1) by (simp add: div_mult2_eq mult.commute)
  qed
  show "pre_divider clk clock \<in> {2, 4, 8, 16, 32, 64, 128, 256}"
    using found by (auto simp: pre_divider_def split: option.split)
  show "unat clk div (16 * nat (pre_divider clk clock)) \<le> unat clock"
  proof (cases "int_div clk 16 > clock")
    case True
    then show ?thesis
      using found slow by (auto simp: pre_divider_def split: option.split)
  next
    case False
    then have "unat clk div 16 \<le> unat clock"
      using div [of 16] by (simp add: word_le_nat_alt not_less)
    moreover have "unat clk div 32 \<le> unat clk div 16"
      by (rule div_le_mono2) simp_all
    ultimately show ?thesis
      using False by (simp add: pre_divider_def)
  qed
qed

lemma divider_ok:
  assumes "clk < 0x80000000" "0 < p" "unat clk div (16 * nat p) \<le> unat clock"
  shows "\<exists>k < 16. divider clk clock p = int k + 1 \<and> unat clk div (nat p * (k + 1)) \<le> unat clock \<and>
    (k = 0 \<or> unat clock < unat clk div (nat p * k))"
proof -
  let ?ds = "[1, 2, 3, 4, 5, 6, 7, 8, 9, 10, 11, 12, 13, 14, 15, 16] :: int list"
  have ds: "?ds = map (\<lambda>k. int k + 1) [0..<16]"
    by (simp add: upt_conv_Cons)
  have test: "int_div clk ((int k + 1) * p) \<le> clock \<longleftrightarrow> unat clk div (nat p * (k + 1)) \<le> unat clock" for k
  proof -
    have "nat ((int k + 1) * p) = nat p * (k + 1)"
      using assms(2) by (simp add: nat_mult_distrib nat_add_distrib algebra_simps)
    then show ?thesis
      using unat_int_div [OF assms(1), of "(int k + 1) * p"] assms(2) by (simp add: word_le_nat_alt)
  qed
  have "\<exists>k < 16. find (\<lambda>d. int_div clk (d * p) \<le> clock) ?ds = Some (int k + 1) \<and> unat clk div (nat p * (k + 1)) \<le> unat clock \<and>
      (\<forall>j < k. \<not> unat clk div (nat p * (j + 1)) \<le> unat clock)"
  proof -
    let ?P = "\<lambda>k. unat clk div (nat p * (k + 1)) \<le> unat clock"
    have last: "?P 15"
      using assms(3) by (simp add: mult.commute)
    then obtain k where k: "?P k" "\<forall>j < k. \<not> ?P j"
      using exists_least_iff [of ?P] by blast
    have "\<not> 15 < k"
      using k(2) last by blast
    then have "k < 16"
      by simp
    moreover have "find (\<lambda>d. int_div clk (d * p) \<le> clock) ?ds = Some (int k + 1)"
      unfolding ds find_Some_iff using k calculation by (intro exI [of _ k]) (simp add: test)
    ultimately show ?thesis
      using k by blast
  qed
  then obtain k where k: "k < 16" "find (\<lambda>d. int_div clk (d * p) \<le> clock) ?ds = Some (int k + 1)"
    "unat clk div (nat p * (k + 1)) \<le> unat clock" "\<forall>j < k. \<not> unat clk div (nat p * (j + 1)) \<le> unat clock"
    by blast
  have "k = 0 \<or> unat clock < unat clk div (nat p * k)"
    using k(4) [rule_format, of "k - 1"] by (cases k) auto
  then show ?thesis
    using k(1-3) by (auto simp: divider_def)
qed

text \<open>The field the two make, and that the controller reads it as they were meant.\<close>

lemma field_parts:
  assumes "take_bit 8 a = a" "take_bit 4 b = (b :: u32)"
  shows "take_bit 8 (drop_bit 8 (push_bit 8 a OR push_bit 4 b)) = a" "take_bit 4 (drop_bit 4 (push_bit 8 a OR push_bit 4 b)) = b"
proof -
  have "take_bit 8 (drop_bit 8 (push_bit 8 (take_bit 8 a) OR push_bit 4 (take_bit 4 b))) = take_bit 8 a"
    by (rule bit_word_eqI) (auto simp: bit_simps)
  moreover have "take_bit 4 (drop_bit 4 (push_bit 8 (take_bit 8 a) OR push_bit 4 (take_bit 4 b))) = take_bit 4 b"
    by (rule bit_word_eqI) (auto simp: bit_simps)
  ultimately show "take_bit 8 (drop_bit 8 (push_bit 8 a OR push_bit 4 b)) = a" "take_bit 4 (drop_bit 4 (push_bit 8 a OR push_bit 4 b)) = b"
    by (simp_all only: assms)
qed

lemma clock_field_ok:
  assumes "clock_in_reach clk clock"
  shows "sd_prescaler ddr (clock_field clk clock ddr) = nat (pre_divider clk clock)"
    and "int (sd_divisor (clock_field clk clock ddr)) = divider clk clock (pre_divider clk clock)"
proof -
  let ?p = "pre_divider clk clock" and ?a = "of_int (drop_bit (if ddr then 2 else 1) (pre_divider clk clock)) :: u32"
  have p: "?p \<in> {2, 4, 8, 16, 32, 64, 128, 256}" "unat clk div (16 * nat ?p) \<le> unat clock" "clk < 0x80000000"
    using pre_divider_ok [OF assms] assms by (simp_all add: clock_in_reach_def)
  then obtain k where k: "k < 16" "divider clk clock ?p = int k + 1"
    using divider_ok [of clk ?p clock] by auto
  have field: "clock_field clk clock ddr = push_bit 8 ?a OR push_bit 4 (of_nat k)"
    by (simp add: clock_field_def k(2) Let_def of_int_or_eq flip: push_bit_of_int)
  have k4: "take_bit 4 (of_nat k :: u32) = of_nat k" "unat (of_nat k :: u32) = k"
    using k(1) by (simp_all add: take_bit_of_nat take_bit_nat_eq_self unat_of_nat)
  have a8: "take_bit 8 ?a = ?a"
    using p(1) by (elim insertE) (simp_all add: drop_bit_eq_div)
  note parts = field_parts [OF a8 k4(1), folded field]
  show "int (sd_divisor (clock_field clk clock ddr)) = divider clk clock ?p"
    by (simp add: sd_divisor_def parts(2) k4(2) k(2))
  show "sd_prescaler ddr (clock_field clk clock ddr) = nat ?p"
    unfolding sd_prescaler_def parts(1) using p(1) by (elim insertE) (simp_all add: drop_bit_eq_div)
qed

section \<open>The registers\<close>

text \<open>A change of SYSCTL works on what it holds, but for the reset bits, which the controller clears.\<close>

lemma sysctl_changes:
  "\<exists>x. esdhc_port (usdhc1 (esdhc_clrsetbits32 (usdhc_hw c lat) base Sysctl m v s)) = (esdhc_port (usdhc1 s))(Sysctl := (x AND NOT m) OR v) \<and>
     x AND NOT RESET_BITS = esdhc_port (usdhc1 s) Sysctl AND NOT RESET_BITS"
  by (intro exI [of _ "if 0 < reset_wait (usdhc1 s) then esdhc_port (usdhc1 s) Sysctl else esdhc_port (usdhc1 s) Sysctl AND NOT RESET_BITS"])
    (auto simp: esdhc_clrsetbits32_def usdhc_access and.assoc)

lemma sysctl_sets:
  "\<exists>x. esdhc_port (usdhc1 (esdhc_setbits32 (usdhc_hw c lat) base Sysctl v s)) = (esdhc_port (usdhc1 s))(Sysctl := x OR v) \<and>
     x AND NOT RESET_BITS = esdhc_port (usdhc1 s) Sysctl AND NOT RESET_BITS"
  by (intro exI [of _ "if 0 < reset_wait (usdhc1 s) then esdhc_port (usdhc1 s) Sysctl else esdhc_port (usdhc1 s) Sysctl AND NOT RESET_BITS"])
    (auto simp: esdhc_setbits32_def usdhc_access and.assoc)

lemma proctl_changes:
  "esdhc_port (usdhc1 (esdhc_setbits32 (usdhc_hw c lat) base Proctl v s)) = (esdhc_port (usdhc1 s))(Proctl := esdhc_port (usdhc1 s) Proctl OR v)"
  "esdhc_port (usdhc1 (esdhc_clrbits32 (usdhc_hw c lat) base Proctl v s)) = (esdhc_port (usdhc1 s))(Proctl := esdhc_port (usdhc1 s) Proctl AND NOT v)"
  by (simp_all add: esdhc_setbits32_def esdhc_clrbits32_def usdhc_access)

lemma clock_bits:
  assumes "y AND NOT RESET_BITS = ((x AND NOT SYSCTL_CLOCK_MASK) OR f) AND NOT RESET_BITS"
  shows "take_bit 8 (drop_bit 8 (y OR (SYSCTL_PEREN OR SYSCTL_CKEN))) = take_bit 8 (drop_bit 8 f)"
    "take_bit 4 (drop_bit 4 (y OR (SYSCTL_PEREN OR SYSCTL_CKEN))) = take_bit 4 (drop_bit 4 f)"
    "bit (y OR (SYSCTL_PEREN OR SYSCTL_CKEN)) 3"
proof -
  have m: "RESET_BITS = push_bit 24 (mask 3)" "SYSCTL_CLOCK_MASK = push_bit 4 (mask 12)" "SYSCTL_PEREN OR SYSCTL_CKEN = push_bit 2 (mask 2)"
    by (simp_all add: RESET_BITS_def sysctl_defs mask_eq_exp_minus_1)
  have y: "bit y i = bit f i" if "4 \<le> i" "i < 16" for i
    using arg_cong [OF assms, of "\<lambda>w. bit w i"] that unfolding m by (auto simp: bit_simps)
  show "take_bit 8 (drop_bit 8 (y OR (SYSCTL_PEREN OR SYSCTL_CKEN))) = take_bit 8 (drop_bit 8 f)"
    "take_bit 4 (drop_bit 4 (y OR (SYSCTL_PEREN OR SYSCTL_CKEN))) = take_bit 4 (drop_bit 4 f)"
    unfolding m by (rule bit_word_eqI, auto simp: bit_simps y; fail)+
  show "bit (y OR (SYSCTL_PEREN OR SYSCTL_CKEN)) 3"
    unfolding m by (simp add: bit_simps)
qed

definition width_bits :: "u32 \<Rightarrow> u32" where
  "width_bits w = (if w = 4 then PROCTL_DTW_4 else if w = 8 then PROCTL_DTW_8 else 0)"

lemma set_ios_registers:
  assumes "clock_in_reach clk (asked_clock mmc)" and p_def: "p = esdhc_port (usdhc1 (esdhc_set_ios (usdhc_hw c lat) clk mmc s))"
  shows "sd_prescaler (mmc_ddr_mode mmc) (p Sysctl) = nat (pre_divider clk (asked_clock mmc))"
    "int (sd_divisor (p Sysctl)) = divider clk (asked_clock mmc) (pre_divider clk (asked_clock mmc))"
    "bit (p Sysctl) 3" "p Proctl = (esdhc_port (usdhc1 s) Proctl AND NOT (PROCTL_DTW_4 OR PROCTL_DTW_8)) OR width_bits (mmc_bus_width mmc)"
proof -
  let ?hw = "usdhc_hw c lat" and ?base = "mmc_esdhc_base mmc" and ?field = "clock_field clk (asked_clock mmc) (mmc_ddr_mode mmc)"
  let ?s1 = "esdhc_clrbits32 ?hw ?base Sysctl SYSCTL_CKEN s"
  let ?s2 = "udelay 10000 (esdhc_clrsetbits32 ?hw ?base Sysctl SYSCTL_CLOCK_MASK ?field ?s1)"
  let ?s3 = "esdhc_setbits32 ?hw ?base Sysctl (SYSCTL_PEREN OR SYSCTL_CKEN) ?s2"
  have asked: "(if mmc_clock mmc < f_min (mmc_cfg mmc) then f_min (mmc_cfg mmc) else mmc_clock mmc) = asked_clock mmc"
    by (auto simp: asked_clock_def max_def not_le)
  have set: "set_sysctl ?hw clk mmc (mmc_clock mmc) s = ?s3"
    by (simp only: set_sysctl_def asked Let_def)
  obtain y where y: "esdhc_port (usdhc1 ?s3) = (esdhc_port (usdhc1 ?s2))(Sysctl := y OR (SYSCTL_PEREN OR SYSCTL_CKEN))"
    "y AND NOT RESET_BITS = esdhc_port (usdhc1 ?s2) Sysctl AND NOT RESET_BITS"
    using sysctl_sets by blast
  obtain x where x: "esdhc_port (usdhc1 ?s2) = (esdhc_port (usdhc1 ?s1))(Sysctl := (x AND NOT SYSCTL_CLOCK_MASK) OR ?field)"
    using sysctl_changes [of c lat ?base SYSCTL_CLOCK_MASK ?field ?s1] by (auto simp: udelay_def)
  have "y AND NOT RESET_BITS = ((x AND NOT SYSCTL_CLOCK_MASK) OR ?field) AND NOT RESET_BITS"
    using y(2) by (simp add: x)
  note bits = clock_bits [OF this]
  have "esdhc_port (usdhc1 ?s1) Proctl = esdhc_port (usdhc1 s) Proctl"
    by (simp add: esdhc_clrbits32_def usdhc_access)
  then have q: "esdhc_port (usdhc1 ?s3) Proctl = esdhc_port (usdhc1 s) Proctl"
    by (simp add: y(1) x)
  have p: "p = (esdhc_port (usdhc1 ?s3))(Proctl := (esdhc_port (usdhc1 ?s3) Proctl AND NOT (PROCTL_DTW_4 OR PROCTL_DTW_8)) OR width_bits (mmc_bus_width mmc))"
    unfolding p_def esdhc_set_ios_def set Let_def by (simp add: proctl_changes width_bits_def)
  have "p Sysctl = y OR (SYSCTL_PEREN OR SYSCTL_CKEN)"
    by (simp add: p y(1))
  then have parts: "take_bit 8 (drop_bit 8 (p Sysctl)) = take_bit 8 (drop_bit 8 ?field)" "take_bit 4 (drop_bit 4 (p Sysctl)) = take_bit 4 (drop_bit 4 ?field)"
    and "bit (p Sysctl) 3"
    using bits by simp_all
  then show "bit (p Sysctl) 3"
    by simp
  show "sd_prescaler (mmc_ddr_mode mmc) (p Sysctl) = nat (pre_divider clk (asked_clock mmc))"
    "int (sd_divisor (p Sysctl)) = divider clk (asked_clock mmc) (pre_divider clk (asked_clock mmc))"
    using clock_field_ok [OF assms(1), of "mmc_ddr_mode mmc"] parts by (simp_all add: sd_prescaler_def sd_divisor_def)
  show "p Proctl = (esdhc_port (usdhc1 s) Proctl AND NOT (PROCTL_DTW_4 OR PROCTL_DTW_8)) OR width_bits (mmc_bus_width mmc)"
    by (simp add: p q)
qed

text \<open>So the card's clock is not above the request, and one step of the divisor less would be.\<close>

lemma set_ios_clock:
  assumes "clock_in_reach clk (asked_clock mmc)" "p = esdhc_port (usdhc1 (esdhc_set_ios (usdhc_hw c lat) clk mmc s))"
  shows "unat clk div (sd_prescaler (mmc_ddr_mode mmc) (p Sysctl) * sd_divisor (p Sysctl)) \<le> unat (asked_clock mmc)"
    "sd_divisor (p Sysctl) = 1 \<or>
     unat (asked_clock mmc) < unat clk div (sd_prescaler (mmc_ddr_mode mmc) (p Sysctl) * (sd_divisor (p Sysctl) - 1))"
proof -
  note p = pre_divider_ok [OF assms(1)] and regs = set_ios_registers [OF assms]
  have "clk < 0x80000000" "0 < pre_divider clk (asked_clock mmc)"
    using assms(1) p(1) by (auto simp: clock_in_reach_def)
  from divider_ok [OF this p(2)] obtain k where k: "divider clk (asked_clock mmc) (pre_divider clk (asked_clock mmc)) = int k + 1"
    "unat clk div (nat (pre_divider clk (asked_clock mmc)) * (k + 1)) \<le> unat (asked_clock mmc)"
    "k = 0 \<or> unat (asked_clock mmc) < unat clk div (nat (pre_divider clk (asked_clock mmc)) * k)"
    by blast
  have "sd_divisor (p Sysctl) = k + 1"
    using regs(2) k(1) by linarith
  then show "unat clk div (sd_prescaler (mmc_ddr_mode mmc) (p Sysctl) * sd_divisor (p Sysctl)) \<le> unat (asked_clock mmc)"
    "sd_divisor (p Sysctl) = 1 \<or>
     unat (asked_clock mmc) < unat clk div (sd_prescaler (mmc_ddr_mode mmc) (p Sysctl) * (sd_divisor (p Sysctl) - 1))"
    using k(2,3) regs(1) by simp_all
qed

section \<open>The data timeout\<close>

text \<open>The position of the highest bit: every step keeps the number up to a power of two and brings the bit into its upper part.\<close>

lemma high_bits_zero:
  assumes "k \<le> 32"
  shows "x AND push_bit (32 - k) (mask k) = (0 :: u32) \<longleftrightarrow> unat x * 2 ^ k < 2 ^ 32"
proof -
  have bits: "bit (x AND push_bit (32 - k) (mask k)) i \<longleftrightarrow> 32 - k \<le> i \<and> bit (drop_bit (32 - k) x) (i - (32 - k))" for i
    using assms by (auto simp: bit_simps dest: bit_imp_le_length)
  have "x AND push_bit (32 - k) (mask k) = 0 \<longleftrightarrow> drop_bit (32 - k) x = 0"
  proof
    assume zero: "x AND push_bit (32 - k) (mask k) = 0"
    show "drop_bit (32 - k) x = 0"
      using bits [of "32 - k + i" for i] by (intro bit_word_eqI) (simp add: zero)
  next
    assume "drop_bit (32 - k) x = 0"
    then show "x AND push_bit (32 - k) (mask k) = 0"
      by (intro bit_word_eqI) (simp add: bits del: bit_and_iff)
  qed
  also have "\<dots> \<longleftrightarrow> unat x div 2 ^ (32 - k) = 0"
    by (simp add: word_unat_eq_iff unat_drop_bit_eq drop_bit_eq_div flip: drop_bit_eq_div)
  also have "\<dots> \<longleftrightarrow> unat x < 2 ^ (32 - k)"
    by (simp add: div_eq_0_iff)
  also have "\<dots> \<longleftrightarrow> unat x * 2 ^ k < 2 ^ (32 - k) * 2 ^ k"
    by simp
  also have "(2 :: nat) ^ (32 - k) * 2 ^ k = 2 ^ 32"
    using assms by (simp flip: power_add)
  finally show ?thesis .
qed

lemma fls_step_ok:
  assumes "k \<le> 16" "unat x = n * 2 ^ j" "2 ^ 32 \<le> unat x * 2 ^ (2 * k)"
  shows "\<exists>x' j'. fls_step (push_bit (32 - k) (mask k)) k (x, 32 - int j) = (x', 32 - int j') \<and> unat x' = n * 2 ^ j' \<and>
    2 ^ 32 \<le> unat x' * 2 ^ k"
proof (cases "x AND push_bit (32 - k) (mask k) = 0")
  case True
  then have "unat x * 2 ^ k < 2 ^ 32"
    using high_bits_zero [of k x] assms(1) by simp
  then have x': "unat (push_bit k x) = unat x * 2 ^ k"
    by (subst unsigned_push_bit_eq) (simp add: push_bit_eq_mult take_bit_nat_eq_self)
  then show ?thesis
    using True assms(1,2) assms(3) [unfolded mult_2 power_add] by (intro exI [of _ "push_bit k x"] exI [of _ "j + k"])
      (simp add: fls_step_def x' power_add ac_simps)
next
  case False
  then have "2 ^ 32 \<le> unat x * 2 ^ k"
    using high_bits_zero [of k x] assms(1) by simp
  then show ?thesis
    using False assms(2) by (intro exI [of _ x] exI [of _ j]) (simp add: fls_step_def)
qed

lemma fls_bounds:
  assumes "x \<noteq> 0"
  shows "\<exists>p. fls x = int p + 1 \<and> 2 ^ p \<le> unat x \<and> unat x < 2 ^ (p + 1)"
proof -
  have masks: "(0xffff0000 :: u32) = push_bit (32 - 16) (mask 16)" "(0xff000000 :: u32) = push_bit (32 - 8) (mask 8)"
    "(0xf0000000 :: u32) = push_bit (32 - 4) (mask 4)" "(0xc0000000 :: u32) = push_bit (32 - 2) (mask 2)"
    "(0x80000000 :: u32) = push_bit (32 - 1) (mask 1)"
    by (simp_all add: mask_eq_exp_minus_1)
  have "2 ^ 32 \<le> unat x * 2 ^ (2 * 16)"
    using assms by (simp add: unat_gt_0 Suc_le_eq)
  from fls_step_ok [OF _ _ this, of "unat x" 0] obtain x1 j1 where s1:
    "fls_step (push_bit (32 - 16) (mask 16)) 16 (x, 32) = (x1, 32 - int j1)" "unat x1 = unat x * 2 ^ j1" "2 ^ 32 \<le> unat x1 * 2 ^ (2 * 8)"
    by auto
  from fls_step_ok [OF _ s1(2,3)] obtain x2 j2 where s2:
    "fls_step (push_bit (32 - 8) (mask 8)) 8 (x1, 32 - int j1) = (x2, 32 - int j2)" "unat x2 = unat x * 2 ^ j2" "2 ^ 32 \<le> unat x2 * 2 ^ (2 * 4)"
    by auto
  from fls_step_ok [OF _ s2(2,3)] obtain x3 j3 where s3:
    "fls_step (push_bit (32 - 4) (mask 4)) 4 (x2, 32 - int j2) = (x3, 32 - int j3)" "unat x3 = unat x * 2 ^ j3" "2 ^ 32 \<le> unat x3 * 2 ^ (2 * 2)"
    by auto
  from fls_step_ok [OF _ s3(2,3)] obtain x4 j4 where s4:
    "fls_step (push_bit (32 - 2) (mask 2)) 2 (x3, 32 - int j3) = (x4, 32 - int j4)" "unat x4 = unat x * 2 ^ j4" "2 ^ 32 \<le> unat x4 * 2 ^ (2 * 1)"
    by auto
  from fls_step_ok [OF _ s4(2,3)] obtain x5 j where s5:
    "fls_step (push_bit (32 - 1) (mask 1)) 1 (x4, 32 - int j4) = (x5, 32 - int j)" "unat x5 = unat x * 2 ^ j" "2 ^ 32 \<le> unat x5 * 2 ^ 1"
    by auto
  have fls: "fls x = 32 - int j"
    unfolding fls_def masks using assms by (simp only: s1(1) s2(1) s3(1) s4(1) s5(1) snd_conv if_False)
  have x: "unat x * 2 ^ j < 2 ^ 32" "2 ^ 31 \<le> unat x * 2 ^ j"
    using s5(2,3) unsigned_less [of x5, where 'a = nat] by simp_all
  have j: "j \<le> 31"
  proof (rule ccontr)
    assume "\<not> j \<le> 31"
    then have "(2 :: nat) ^ 32 \<le> 2 ^ j"
      by (intro power_increasing) simp_all
    also have "\<dots> \<le> unat x * 2 ^ j"
      using assms by (simp add: unat_gt_0 Suc_le_eq)
    finally show False
      using x(1) by simp
  qed
  then have "(2 :: nat) ^ 31 = 2 ^ (31 - j) * 2 ^ j" "(2 :: nat) ^ 32 = 2 ^ (32 - j) * 2 ^ j"
    by (simp_all only: flip: power_add) simp_all
  then have "2 ^ (31 - j) \<le> unat x" "unat x < 2 ^ (32 - j)"
    using x by (simp_all only: mult_le_cancel2 mult_less_cancel2)
  moreover have "31 - j + 1 = 32 - j"
    using j by simp
  ultimately show ?thesis
    using fls j by (intro exI [of _ "31 - j"]) (simp only: of_nat_diff, simp)
qed

text \<open>The timeout lasts a quarter of a second at least, and no longer than it has to.\<close>

lemma data_timeout_ok:
  assumes "unat clock \<le> 2 ^ 29"
  shows "\<exists>t \<le> 14. data_timeout clock = int t \<and> unat clock \<le> 4 * 2 ^ (t + 13) \<and> (t = 0 \<or> 4 * 2 ^ (t + 12) \<le> unat clock)"
proof (cases "clock div 4 = 0")
  case True
  then have "unat clock div 4 = 0"
    by (simp add: unat_div flip: unat_eq_0)
  then show ?thesis
    using True by (intro exI [of _ 0]) (simp add: data_timeout_def fls_def)
next
  case False
  then obtain p where p: "fls (clock div 4) = int p + 1" "2 ^ p \<le> unat clock div 4" "unat clock div 4 < 2 ^ (p + 1)"
    using fls_bounds [OF False] by (auto simp: unat_div)
  have "p \<le> 27"
  proof (rule ccontr)
    assume "\<not> p \<le> 27"
    then have "(2 :: nat) ^ 28 \<le> 2 ^ p"
      by (intro power_increasing) simp_all
    then show False
      using p(2) assms by simp
  qed
  consider "p \<le> 12" | "12 < p" "p \<le> 26" | "p = 27"
    using \<open>p \<le> 27\<close> by linarith
  then show ?thesis
  proof cases
    case 1
    then have "(2 :: nat) ^ (p + 1) \<le> 2 ^ 13"
      by (intro power_increasing) simp_all
    then have "unat clock div 4 < 2 ^ 13"
      using p(3) by linarith
    then have "unat clock \<le> 4 * 2 ^ (0 + 13)"
      by simp
    then show ?thesis
      using 1 p(1) by (intro exI [of _ 0]) (simp add: data_timeout_def)
  next
    case 2
    then have "p - 12 + 13 = p + 1" "p - 12 + 12 = p"
      by simp_all
    moreover have "unat clock < 2 ^ (p + 1) * 4" "2 ^ p * 4 \<le> unat clock"
      using p(2,3) by (simp_all only: div_less_iff_less_mult less_eq_div_iff_mult_less_eq zero_less_numeral)
    ultimately show ?thesis
      using 2 p(1) by (intro exI [of _ "p - 12"]) (simp add: data_timeout_def)
  next
    case 3
    then show ?thesis
      using p assms by (intro exI [of _ 14]) (simp add: data_timeout_def)
  qed
qed

lemma timeout_bits:
  assumes "k < 16"
  shows "unat (take_bit 4 (drop_bit 16 ((x AND NOT SYSCTL_TIMEOUT_MASK) OR push_bit 16 (of_nat k)))) = k"
proof -
  have m: "SYSCTL_TIMEOUT_MASK = push_bit 16 (mask 4)"
    by (simp add: sysctl_defs mask_eq_exp_minus_1)
  have k: "take_bit 4 (of_nat k :: u32) = of_nat k"
    using assms by (simp add: take_bit_of_nat take_bit_nat_eq_self)
  have "take_bit 4 (drop_bit 16 ((x AND NOT (push_bit 16 (mask 4))) OR push_bit 16 w)) = take_bit 4 w" for w :: u32
    by (rule bit_word_eqI) (auto simp: bit_simps)
  then show ?thesis
    unfolding m k using assms by (simp add: k unat_of_nat)
qed

lemma watermark_bits:
  assumes "unat w < 256"
  shows "unat (take_bit 8 ((x AND NOT WML_RD_WML_MASK) OR w)) = unat w"
proof -
  have m: "WML_RD_WML_MASK = mask 8"
    by (simp add: WML_RD_WML_MASK_def mask_eq_exp_minus_1)
  have "take_bit 8 ((x AND NOT (mask 8)) OR w) = take_bit 8 w"
    by (rule bit_word_eqI) (auto simp: bit_simps)
  then show ?thesis
    unfolding m using take_bit_small [of w 8] assms by simp
qed

text \<open>The registers that describe a transfer from the card.\<close>

lemma setup_data_registers:
  assumes "c_true (data_flags d AND MMC_DATA_READ)" "transferable (Some (data_blocks d, data_blocksize d))" "unat (mmc_clock mmc) \<le> 2 ^ 29"
  shows "\<exists>t k. esdhc_setup_data (usdhc_hw c lat) mmc d s = (0, t) \<and> kept t = kept s \<and>
    esdhc_port (usdhc1 t) Dsaddr = data_dest d \<and>
    drop_bit 16 (esdhc_port (usdhc1 t) Blkattr) = data_blocks d \<and> take_bit 13 (esdhc_port (usdhc1 t) Blkattr) = data_blocksize d \<and>
    unat (take_bit 8 (esdhc_port (usdhc1 t) Wml)) = min 16 (unat (data_blocksize d) div 4) \<and>
    k = unat (take_bit 4 (drop_bit 16 (esdhc_port (usdhc1 t) Sysctl))) \<and>
    unat (mmc_clock mmc) \<le> 4 * 2 ^ (k + 13) \<and> (k = 0 \<or> 4 * 2 ^ (k + 12) \<le> unat (mmc_clock mmc))"
proof -
  let ?hw = "usdhc_hw c lat" and ?base = "mmc_esdhc_base mmc" and ?bl = "data_blocksize d"
  let ?wml = "if ?bl div 4 > WML_RD_WML_MAX then WML_RD_WML_MAX_VAL else ?bl div 4"
  let ?u = "esdhc_write32 ?hw ?base Blkattr (push_bit 16 (data_blocks d) OR ?bl)
      (esdhc_write32 ?hw ?base Dsaddr (data_dest d) (esdhc_clrsetbits32 ?hw ?base Wml WML_RD_WML_MASK ?wml s))"
  let ?t = "esdhc_clrsetbits32 ?hw ?base Sysctl SYSCTL_TIMEOUT_MASK (push_bit 16 (of_int (data_timeout (mmc_clock mmc)))) ?u"
  obtain k where k: "k \<le> 14" "data_timeout (mmc_clock mmc) = int k" "unat (mmc_clock mmc) \<le> 4 * 2 ^ (k + 13)"
    "k = 0 \<or> 4 * 2 ^ (k + 12) \<le> unat (mmc_clock mmc)"
    using data_timeout_ok [OF assms(3)] by blast
  have run: "esdhc_setup_data ?hw mmc d s = (0, ?t)"
    unfolding esdhc_setup_data_def Let_def if_P [OF assms(1)] by simp
  obtain x where x: "esdhc_port (usdhc1 ?t) = (esdhc_port (usdhc1 ?u))(Sysctl := (x AND NOT SYSCTL_TIMEOUT_MASK) OR push_bit 16 (of_nat k))"
    using sysctl_changes [of c lat ?base SYSCTL_TIMEOUT_MASK "push_bit 16 (of_nat k)" ?u] k(2) by auto
  have wml: "unat ?wml = min 16 (unat ?bl div 4)"
    by (simp add: WML_RD_WML_MAX_def WML_RD_WML_MAX_VAL_def word_less_nat_alt unat_div)
  have u: "esdhc_port (usdhc1 ?u) Dsaddr = data_dest d" "esdhc_port (usdhc1 ?u) Blkattr = push_bit 16 (data_blocks d) OR ?bl"
    "esdhc_port (usdhc1 ?u) Wml = (esdhc_port (usdhc1 s) Wml AND NOT WML_RD_WML_MASK) OR ?wml"
    by (simp_all add: esdhc_clrsetbits32_def usdhc_access)
  have "unat (take_bit 8 (esdhc_port (usdhc1 ?t) Wml)) = min 16 (unat ?bl div 4)"
    using watermark_bits [of ?wml] wml x by (simp only: fun_upd_apply u(3)) simp
  moreover have "unat (take_bit 4 (drop_bit 16 (esdhc_port (usdhc1 ?t) Sysctl))) = k"
    using timeout_bits [of k x] k(1) x by simp
  ultimately show ?thesis
    using run k(3,4) block_attributes [of "data_blocks d" ?bl] assms(2) u(1,2) x card_frame.setup_data_frame [OF run]
    by (intro exI [of _ ?t] exI [of _ k]) simp
qed

end
