(* ===== verification/Card_Boot.thy ===== *)
theory Card_Boot
  imports Media_Boot Usdhc_Clock
begin

text \<open>
  The boot flow over the MMC driver: an SD card that keeps to the specification and holds a sound FAT volume, in a slot nobody
  has used, is identified by the first lookup and is a sound medium from then on, so the flow loads its image and jumps to
  EBOOT.  Then the same over the driver of the SD host controller, from \<open>board_mmc_init\<close> on.
\<close>

text \<open>Between two lookups the flow mounts the volume, reads and blinks; the slot stays as it is.\<close>

context sd_slot
begin

lemma dev_at_fresh:
  assumes "card_sound c" "find_mmc_device 0 s = Some mmc" "fresh_slot e c mmc"
  shows "dev_at cfg e md STORAGE_DEV_NAME_MMC (card_desc c (mmc_block_dev mmc)) (card_disk c) s"
proof -
  let ?d = "card_desc c (mmc_block_dev mmc)"
  obtain m u where u: "get_dev cfg e md ''mmc'' 0 s = Some (Some ?d, u)" "mmc_has_init m" "mmc_part_num m = 0"
    "mmc_block_dev m = ?d" "card_answers md m (card_disk c)" "find_mmc_device 0 u = Some m" "slot_kept u = slot_kept s"
    "mmc_devices u = mmc_devices (store_mmc m s)" "selected u"
    using get_dev_fresh [OF assms, of cfg] by blast
  have "dev_ready md ?d (card_disk c) u"
    using u(4-6,9) assms(3) find_dev [OF assms(2)] by (simp add: dev_ready_def card_there_def fresh_slot_def)
  moreover have "get_dev cfg e md ''mmc'' 0 t = Some (Some ?d, t)" if "same_but_mount t u" for t
    using that get_dev_again [OF _ u(2,3), of 0 t s cfg e] find_devices [of t u] u(4,6,8) by (simp add: same_but_mount_def)
  ultimately show ?thesis
    unfolding dev_at_def STORAGE_DEV_NAME_MMC_def using u(1,7) by blast
qed

end

lemma card_fat_medium:
  assumes "card_sound c" "bd_if_type desc = IF_TYPE_MMC" "boot_disk_ok (card_disk c) (card_lba c) start nsect bs fs cs" "allocates md"
  shows "fat_medium md (card_desc c desc) (card_disk c) start nsect bs fs cs"
proof -
  have "length (card_disk c b) = 512" for b
    using assms(1) by (simp add: card_sound_def)
  then show ?thesis
    using assms first_partition_mbr [of "card_disk c 0" start]
    by (simp add: fat_medium_def medium_answers_def boot_disk_ok_def)
qed

text \<open>From the reset of the card to the jump into EBOOT.\<close>

lemma slot_card_boot:
  assumes slot: "sd_slot md c" and quiet: "quiet_media md" and sound: "card_sound c"
    and find: "find_mmc_device 0 s = Some mmc" and fresh: "fresh_slot e c mmc"
    and usb: "\<And>s. \<exists>t. go_usb_start md s = Some t \<and> usb_dev_desc t = []"
    and disk: "boot_disk_ok (card_disk c) (card_lba c) start nsect bs fs cs" "allocates md" "dir_room (volume_of bs fs []) s"
    and f: "boot_files (\<lambda>b. card_disk c (start + b)) nsect bs fs cs inst st len rs launch" "records_above rs"
    and mode: "bootMode s \<in> {1, 2, 4, 5}" and cleanup: "\<And>s. mem (cleanup s) = mem s"
  shows "\<exists>t. os_boot_submain cfg e md cleanup fn stack s = Some (Jumped IMAGE_EBOOT_JUMP_ADDR, t) \<and>
    image_booted cfg (bootMode s) BOOT_STORAGE_SD len rs (mem t)"
proof (rule card_boot [OF _ usb quiet _ disk(3) f mode cleanup])
  show "fat_medium md (card_desc c (mmc_block_dev mmc)) (card_disk c) start nsect bs fs cs"
    using fresh by (intro card_fat_medium [OF sound _ disk(1,2)]) (simp add: fresh_slot_def)
  show "dev_at cfg e md STORAGE_DEV_NAME_MMC (card_desc c (mmc_block_dev mmc)) (card_disk c) t"
    if "mmc_devices t = mmc_devices s" for t
    using sd_slot.dev_at_fresh [OF slot sound _ fresh] find find_devices [OF that] by simp
qed

text \<open>The slot \<open>mmc_create\<close> makes.\<close>

lemma created_slot_fresh:
  assumes "mmc_create True host base n s = (Some mmc, n', t)" "voltages host AND card_ocr c AND 0xff8000 \<noteq> 0" "b_max host < 0x10000"
    "\<And>t. fst (board_mmc_getcd e base t) \<noteq> 0"
  shows "fresh_slot e c mmc"
  using assms by (auto simp: mmc_create_def fresh_slot_def mmc_zero_def mmc_getcd_def Let_def split: if_splits)

section \<open>Over the driver of the controller\<close>

text \<open>The pads and the card-detect pin are set first; they leave the controller and the program's data alone.\<close>

definition usdhc1_prepared :: "sys \<Rightarrow> sys" where
  "usdhc1_prepared s = gpio_run [Direction_input USDHC1_CD_GPIO] (imx_iomux_v3_setup_multiple_pads usdhc1_pads s)"

lemma prepared_kept: "kept (usdhc1_prepared s) = kept s" "usdhc1 (usdhc1_prepared s) = usdhc1 s"
proof -
  obtain m where m: "imx_iomux_v3_setup_multiple_pads usdhc1_pads s = s\<lparr>mmio := m\<rparr>"
    using apply_writes_frame [of "table_writes usdhc1_pads" s] by (auto simp: setup_multiple_pads_apply_writes)
  obtain b where "usdhc1_prepared s = s\<lparr>mmio := m, gpio_bank := b\<rparr>"
    using gpio_run_frame [of "[Direction_input USDHC1_CD_GPIO]" "s\<lparr>mmio := m\<rparr>"] by (auto simp: usdhc1_prepared_def m)
  then show "kept (usdhc1_prepared s) = kept s" "usdhc1 (usdhc1_prepared s) = usdhc1 s"
    by (simp_all add: kept_defs)
qed

text \<open>With one controller that has 3.3 volts, \<open>board_mmc_init\<close> makes one slot that nobody has used.\<close>

lemma board_slot:
  assumes "usdhc_cfg \<noteq> []" "clk \<noteq> 0" "c_true (esdhc_port (usdhc1 s) Hostcapblt AND ESDHC_HOSTCAPBLT_VS33)" "mmc_devices s = []"
    and "card_ocr c AND 0x300000 \<noteq> 0" "\<And>t. fst (board_mmc_getcd e (esdhc_base (usdhc_cfg ! 0)) t) \<noteq> 0"
  shows "\<exists>mmc cfgs t. board_mmc_init 1 clk (fsl_esdhc_initialize (usdhc_hw c lat) True) usdhc_cfg s = (0, cfgs, t) \<and>
    mmc_devices t = [mmc] \<and> bd_dev (mmc_block_dev mmc) = 0 \<and> fresh_slot e c mmc \<and> mmc_esdhc_base mmc = esdhc_base (usdhc_cfg ! 0) \<and>
    slot_kept t = slot_kept s \<and> sd_line t = sd_line s \<and> sd_app t = sd_app s"
proof -
  let ?cfg = "(usdhc_cfg ! 0)\<lparr>sdhc_clk := clk, max_bus_width := 4\<rparr>" and ?p = "usdhc1_prepared s"
  have "esdhc_config (esdhc_port (usdhc1 ?p) Hostcapblt) ?cfg \<noteq> None"
    using assms(3)
    by (simp add: prepared_kept esdhc_config_def Let_def MMC_VDD_32_33_def MMC_VDD_33_34_def bit.conj_disj_distrib or_eq_0_iff)
  then obtain host where host: "esdhc_config (esdhc_port (usdhc1 ?p) Hostcapblt) ?cfg = Some host"
    by blast
  from initialize_ok [OF host, of c lat] assms(2) obtain mmc n t u where t:
    "fsl_esdhc_initialize (usdhc_hw c lat) True ?cfg ?p = (0, t)"
    "mmc_create True host (esdhc_base ?cfg) (length (mmc_devices ?p)) u = (Some mmc, n, t)" "kept u = kept ?p"
    by auto
  have u: "mmc_devices ?p = []" "mmc_devices u = []" "kept u = kept s"
    using t(3) prepared_kept(1) [of s] assms(4) by (simp_all add: kept_defs)
  have "board_mmc_init 1 clk (fsl_esdhc_initialize (usdhc_hw c lat) True) usdhc_cfg s = (0, usdhc_cfg[0 := ?cfg], t)"
    using t(1) assms(1) by (simp add: board_mmc_init_def board_mmc_init_from.simps [of 0] board_mmc_init_from.simps [of "Suc 0"]
        usdhc1_prepared_def c_true_def Let_def)
  moreover have "fresh_slot e c mmc"
    using config_fields [OF host] assms(5,6) by (intro created_slot_fresh [OF t(2)]) (simp_all add: and.left_commute [of "0x300000"])
  moreover have "mmc_devices t = [mmc]" "bd_dev (mmc_block_dev mmc) = 0" "mmc_esdhc_base mmc = esdhc_base (usdhc_cfg ! 0)"
    "slot_kept t = slot_kept u" "sd_line t = sd_line u" "sd_app t = sd_app u"
    using t(2) u(1,2) by (auto simp: mmc_create_def slot_kept_def boot_data_def Let_def split: if_splits)
  ultimately show ?thesis
    using u(3) calm_slot_kept [OF kept_calm [OF u(3)]] by (auto simp: kept_def)
qed

text \<open>From the initialisation of the controller to the jump into EBOOT; the USB side is any quiet one without a stick.\<close>

lemma controller_media:
  assumes "quiet_media md"
  shows "quiet_media (usdhc_media c lat clk buf md)" "allocates md \<Longrightarrow> allocates (usdhc_media c lat clk buf md)"
    "go_usb_start (usdhc_media c lat clk buf md) = go_usb_start md"
proof -
  have "esdhc_slot (usdhc_hw c lat) md"
    using assms data_frame.quiet_esdhc_axioms by (intro esdhc_slot.intro)
  then show "quiet_media (usdhc_media c lat clk buf md)"
    unfolding usdhc_media_def by (rule esdhc_slot.media_quiet)
  show "allocates md \<Longrightarrow> allocates (usdhc_media c lat clk buf md)" "go_usb_start (usdhc_media c lat clk buf md) = go_usb_start md"
    by (simp_all add: usdhc_media_def esdhc_media_def allocates_def go_usb_start_def Let_def fun_eq_iff split: prod.split)
qed

lemma controller_card_boot:
  assumes slot: "usdhc_cfg \<noteq> []" "clk \<noteq> 0" "c_true (esdhc_port (usdhc1 s) Hostcapblt AND ESDHC_HOSTCAPBLT_VS33)" "mmc_devices s = []"
      "card_ocr c AND 0x300000 \<noteq> 0" "\<And>t. fst (board_mmc_getcd e (esdhc_base (usdhc_cfg ! 0)) t) \<noteq> 0"
    and sound: "card_sound c" and quiet: "quiet_media md" and usb: "\<And>s. \<exists>t. go_usb_start md s = Some t \<and> usb_dev_desc t = []"
    and disk: "boot_disk_ok (card_disk c) (card_lba c) start nsect bs fs cs" "allocates md" "dir_room (volume_of bs fs []) s"
    and f: "boot_files (\<lambda>b. card_disk c (start + b)) nsect bs fs cs inst st len rs launch" "records_above rs"
    and mode: "bootMode s \<in> {1, 2, 4, 5}" and cleanup: "\<And>s. mem (cleanup s) = mem s"
  shows "\<exists>cfgs t u. board_mmc_init 1 clk (fsl_esdhc_initialize (usdhc_hw c lat) True) usdhc_cfg s = (0, cfgs, t) \<and>
    os_boot_submain cfg e (usdhc_media c lat clk buf md) cleanup fn stack t = Some (Jumped IMAGE_EBOOT_JUMP_ADDR, u) \<and>
    image_booted cfg (bootMode s) BOOT_STORAGE_SD len rs (mem u)"
proof -
  obtain mmc cfgs t where t: "board_mmc_init 1 clk (fsl_esdhc_initialize (usdhc_hw c lat) True) usdhc_cfg s = (0, cfgs, t)"
    "mmc_devices t = [mmc]" "bd_dev (mmc_block_dev mmc) = 0" "fresh_slot e c mmc" "slot_kept t = slot_kept s"
    using board_slot [OF slot] by blast
  have found: "find_mmc_device 0 t = Some mmc" and bm: "bootMode t = bootMode s"
    using t(2,3,5) by (simp_all add: find_mmc_device_def slot_kept_def boot_data_def)
  have "\<exists>u. os_boot_submain cfg e (usdhc_media c lat clk buf md) cleanup fn stack t = Some (Jumped IMAGE_EBOOT_JUMP_ADDR, u) \<and>
      image_booted cfg (bootMode t) BOOT_STORAGE_SD len rs (mem u)"
    using usb dir_room_slot [OF t(5)] disk(3) mode bm
    by (intro slot_card_boot [OF usdhc_slot [OF sound] controller_media(1) [OF quiet] sound found t(4) _ disk(1)
          controller_media(2) [OF quiet disk(2)] _ f(1,2) _ cleanup]) (simp_all add: controller_media(3) [OF quiet])
  then show ?thesis
    using t(1) bm by auto
qed

end
