(* ===== verification/Samples.thy ===== *)
theory Samples
  imports Stick_Boot Card_Boot Mmc_Slots
begin

text \<open>
  Concrete inputs: states, worlds, media, disks and images on which the theorems of
  \<open>Spec2Isabelle\<close> are instantiated, with the facts about them that the instances need.
\<close>

definition blank_sys :: sys where
  "blank_sys =
     \<lparr>gpio_bank = (\<lambda>_. \<lparr>gpio_dr = 0, gpio_dir = 0\<rparr>), mmio = (\<lambda>_. 0), mem = (\<lambda>_. 0), now = 0,
      boot_dev = WEIM_NOR_BOOT, Board_Version = 0, g_AutoSel = 0, bootMode = 0,
      Allow_Boot_Version = replicate 8 0, timePast = 0, timeInterval = 0, ledCount = 0, ledEnable = 0,
      usb_dev_desc = [], cur_dev = None,
      cur_part_info = \<lparr>part_start = 0, part_size = 0, part_blksz = 0\<rparr>, do_fat_read_at_block = [],
      CBWTag = 0, us_flags = (\<lambda>_. 0), sense_buf = replicate 64 0, usb_status = (\<lambda>_. 0), usb_line = [],
      mmc_devices = [], sd_line = Sd_idle 0, sd_app = False,
      usdhc1 = \<lparr>esdhc_port = (\<lambda>_. 0), line_wait = 0, cmd_wait = 0, data_wait = 0, reset_wait = 0, cmd_status = 0,
        data_status = 0, dma_mem = (\<lambda>_. 0), cpu_mem = (\<lambda>_. 0)\<rparr>\<rparr>"

definition strap_env :: env where
  "strap_env = \<lparr>gpio_psr = (\<lambda>s port. if port = 1 then push_bit 10 1 else 0), timer_ms = (\<lambda>s. 0)\<rparr>"

definition no_media :: media where
  "no_media = (image_media 512 (\<lambda>_. []) 0 (\<lambda>_. []) 0)\<lparr>usb_stor_scan := \<lambda>s. Some (s\<lparr>usb_dev_desc := []\<rparr>)\<rparr>"

lemma no_media_quiet: "quiet_media no_media"
  using image.quiet_media_axioms unfolding quiet_media_def no_media_def by (simp add: scan_kept_def boot_data_def)

lemma no_media_usb: "\<exists>t. go_usb_start no_media s = Some t \<and> usb_dev_desc t = []"
  by (simp add: go_usb_start_def no_media_def image_media_def)

lemma blank_slots: "mmc_devices blank_sys = []" "slot_empty e blank_sys" "slot_empty e (blank_sys\<lparr>bootMode := m\<rparr>)"
  by (simp_all add: blank_sys_def slot_empty_def)

text \<open>A partitioned disk with a FAT12 volume: the reference text in cluster 2 and an image in cluster 3, each of less
  than 256 bytes.\<close>

definition bytes_at :: "nat \<Rightarrow> u8 list \<Rightarrow> u8 list \<Rightarrow> u8 list" where
  "bytes_at off bs blk = take off blk @ bs @ drop (off + length bs) blk"

definition file_dirent :: "string \<Rightarrow> u8 \<Rightarrow> nat \<Rightarrow> u8 list" where
  "file_dirent name clust len = map of_char name @ [0x20] @ replicate 14 0 @ [clust, 0, of_nat len, 0, 0, 0]"

definition fat_disk :: "u8 list \<Rightarrow> u8 list \<Rightarrow> u32 \<Rightarrow> u8 list" where
  "fat_disk inst nk b =
     (let blank = replicate 512 0; signed = bytes_at 0x1fe [0x55, 0xaa] blank in
      if b = 0 then bytes_at 0x1be [0, 0, 0, 0, 6, 0, 0, 0, 1, 0, 0, 0, 20, 0, 0, 0] signed
      else if b = 1 then bytes_at 11 [0, 2, 1, 1, 0, 1, 16, 0, 20, 0, 0xf8, 1, 0]
        (bytes_at 54 (map of_char ''FAT12   '') signed)
      else if b = 2 then bytes_at 0 [0xf8, 0xff, 0xff, 0xff, 0xff, 0xff] blank
      else if b = 3 then bytes_at 0 (file_dirent ''2016INSTTXT'' 2 (length inst) @
        file_dirent ''NK      BIN'' 3 (length nk)) blank
      else if b = 4 then bytes_at 0 inst blank
      else if b = 5 then bytes_at 0 nk blank
      else blank)"

definition staged :: "u8 list \<Rightarrow> sys" where
  "staged bs = blank_sys\<lparr>mem := put_bytes IMAGE_BOOT_NKIMAGE_RAM_PA_STORE_START bs (\<lambda>_. 0)\<rparr>"

lemma staged_bytes:
  "length bs < 2 ^ 32 \<Longrightarrow> get_bytes (mem (staged bs)) IMAGE_BOOT_NKIMAGE_RAM_PA_STORE_START (length bs) = bs"
  by (simp add: staged_def get_put_bytes)

definition sample_records :: "u32 \<Rightarrow> nk_record list" where
  "sample_records ck = [(0x80600000, [1, 2, 3], 6), (0x80600010, [4, 5], ck)]"

lemma sample_records_ok:
  "records_ok False (sample_records ck)"
  "length (encode_nk 0x80600000 0x12 (sample_records ck) 0x80600000) = 56"
  "disjoint_records (sample_records ck)"
proof -
  have "unat (a - 0x10600010) < 2 \<Longrightarrow> \<not> unat (a - 0x10600000) < 3" for a :: u32
    using region_bounds(1) [of a "0x10600010" 2] region_bounds(2) [of a "0x10600000" 3] by auto
  then show "disjoint_records (sample_records ck)"
    by (auto simp: sample_records_def record_region_def numeral_2_eq_2 numeral_3_eq_3)
qed (simp_all add: sample_records_def record_ok_def layout_defs encode_nk_def NK_SIGNATURE_def encode_end_def)

lemma sample_staged:
  fixes ck :: u32
  defines "img \<equiv> encode_nk 0x80600000 0x12 (sample_records ck) 0x80600000"
  shows "get_bytes (mem (staged img)) IMAGE_BOOT_NKIMAGE_RAM_PA_STORE_START (length img) = img"
  by (rule staged_bytes) (simp add: img_def sample_records_ok)

text \<open>A small volume: sectors of 4 bytes, a FAT16 table of two sectors at sector 1, clusters of one
  sector from sector 3 on; the file 2 \<rightarrow> 3 holds six bytes.\<close>

definition tiny_disk :: "u32 \<Rightarrow> u8 list" where
  "tiny_disk b = (if b = 1 then [0, 0, 0, 0] else if b = 2 then [3, 0, 0xff, 0xff]
     else if b = 3 then [10, 11, 12, 13] else if b = 4 then [14, 15, 16, 17] else [])"

definition tiny_volume :: fsdata where
  "tiny_volume =
     \<lparr>fatbuf = replicate 24 0, fatsize = 16, fatlength = 2, fat_sect = 1, rootdir_sect = 3, sect_size = 4,
      clust_size = 1, data_begin = 1, fatbufnum = - 1\<rparr>"

definition tiny_media :: media where
  "tiny_media = image_media 4 tiny_disk 5 (\<lambda>_. []) 0"

definition tiny_sys :: sys where
  "tiny_sys = (card_in 4 5 blank_sys)\<lparr>cur_dev := Some (sd_desc 4 5)\<rparr>"

lemma tiny_fields [simp]:
  "fatsize tiny_volume = 16" "fatlength tiny_volume = 2" "fat_sect tiny_volume = 1" "sect_size tiny_volume = 4"
  "clust_size tiny_volume = 1" "data_begin tiny_volume = 1" "fatbufnum tiny_volume = - 1"
  "length (fatbuf tiny_volume) = 24"
  by (simp_all add: tiny_volume_def)

lemma tiny_ok:
  "medium_answers tiny_media (sd_desc 4 5) (image_block 4 tiny_disk) 4"
  "unat (0 :: u32) + 5 \<le> unat (bd_lba (sd_desc 4 5))"
  "fat_wf 5 tiny_volume" "4 = unat (sect_size tiny_volume)"
  "fat_cache_ok (\<lambda>b. image_block 4 tiny_disk (0 + b)) tiny_volume"
  "dev_ready tiny_media (sd_desc 4 5) (image_block 4 tiny_disk) tiny_sys" "mounted (sd_desc 4 5) 0 tiny_sys"
  "0 < unat (clust_size tiny_volume)"
proof -
  have "card_there tiny_media (sd_desc 4 5) (image_block 4 tiny_disk) tiny_sys"
    using image_card_there [of 4 tiny_disk 5 "\<lambda>_. []" 0 "blank_sys"]
    by (simp add: tiny_media_def tiny_sys_def card_there_def selected_def find_mmc_device_def)
  then show "dev_ready tiny_media (sd_desc 4 5) (image_block 4 tiny_disk) tiny_sys"
    by (simp add: dev_ready_def sd_desc_def)
qed (simp_all add: tiny_media_def image_media_answers fat_wf_def fat_cache_ok_def FATBUFSIZE_def FATBUFBLOCKS_def
      mounted_def tiny_sys_def card_in_def blank_sys_def unsigned_minus_1_eq_mask mask_eq_exp_minus_1, simp_all add: sd_desc_def)

lemma tiny_entries:
  "fat_entry (image_block 4 tiny_disk) tiny_volume 2 = 3"
  "fat_entry (image_block 4 tiny_disk) tiny_volume 3 = 0xffff"
  by (simp_all add: fat_entry_def fat_word_def fat_byte_def image_block_def tiny_disk_def u16_of_bytes_def)

definition tiny_file :: "u8 list" where
  "tiny_file = replicate 26 0 @ [2, 0] @ [6, 0, 0, 0]"

lemma mode_8_no_media:
  "osBoot_Mode_8 mx6sabresd_config strap_env no_media 0 8 blank_sys \<noteq> None"
proof -
  have num: "simple_strtoul ''0'' 16 = (0, [])"
    by (simp add: simple_strtoul_def Let_def)
  have dev: "get_dev cfg e no_media ''mmc'' 0 s = Some (None, s)" if "mmc_devices s = []" for cfg e s
    using that by (simp add: get_dev_def mmc_get_dev_def find_mmc_device_def)
  show ?thesis
    by (simp add: osBoot_Mode_8_def osBoot_fat_fsload_def STORAGE_DEV_NAME_MMC_def STORAGE_DEV_NUM_MMC_def num dev
        store_local_def TimerInit_def blank_slots Let_def)
qed

text \<open>A volume to boot from: the reference text names the image \<open>NK.BIN\<close>.\<close>

definition boot_text :: "u8 list" where
  "boot_text = map of_char ''NK.BIN'' @ [13, 10]"

definition boot_image :: "u8 list" where
  "boot_image = encode_nk 0x80600000 0x12 (sample_records 9) 0x80600000"

definition boot_disk :: "u32 \<Rightarrow> u8 list" where
  "boot_disk = image_block 512 (fat_disk boot_text boot_image)"

definition boot_bs :: boot_sector where
  "boot_bs = boot_sector_of (boot_disk 1)"

definition boot_sys :: sys where
  "boot_sys = blank_sys\<lparr>bootMode := 1, do_fat_read_at_block := replicate 65536 0\<rparr>"

lemma boot_kind_12: "boot_kind (boot_disk 1) = Some (boot_bs, 12)"
proof -
  have "bs_fat_length boot_bs \<noteq> 0" "sub_bytes (boot_disk 1) 54 8 = map of_char ''FAT12   ''"
    by code_simp+
  then show ?thesis
    by (simp add: boot_kind_def Let_def flip: boot_bs_def)
qed

lemma boot_fields:
  "sect_size (volume_of boot_bs 12 []) = 512"
  "clust_size (volume_of boot_bs 12 []) = 1" "fat_sect (volume_of boot_bs 12 []) = 1" "fatlength (volume_of boot_bs 12 []) = 1"
  "rootdir_sect (volume_of boot_bs 12 []) = 2" "rootdir_size_of boot_bs (volume_of boot_bs 12 []) = 1"
  by code_simp+

lemma boot_slots:
  "list_all (\<lambda>W. slots_fit (length W) W) (root_windows (\<lambda>b. boot_disk (1 + b)) (volume_of boot_bs 12 []) 1 [])"
  by code_simp

lemma boot_volume: "volume_ok (\<lambda>b. boot_disk (1 + b)) 20 boot_bs 12 []"
  using boot_kind_12 boot_fields boot_slots by (simp add: volume_ok_def root_ok_def fat_wf_def FATBUFSIZE_def FATBUFBLOCKS_def)

lemma boot_files_on:
  "file_on (\<lambda>b. boot_disk (1 + b)) 20 boot_bs 12 [] INST_TEXT_FILENAME boot_text"
  by code_simp

lemma boot_image_on:
  "file_on (\<lambda>b. boot_disk (1 + b)) 20 boot_bs 12 [] (takeWhile (\<lambda>b. \<not> line_end b) boot_text) boot_image"
  by code_simp

lemma boot_partition: "first_partition (boot_disk 0) 1"
   "sub_bytes (boot_disk 1) 0x1fe 2 = [0x55, 0xAA]"
  by code_simp+

lemma boot_no_key:
  "root_find (\<lambda>b. boot_disk (1 + b)) boot_bs 12 [] (map of_char ''MNT.KEY'') = None" "root_name (map of_char ''MNT.KEY'')"
  by code_simp+

definition boot_media :: media where
  "boot_media = image_media 512 (fat_disk boot_text boot_image) 1024 (fat_disk boot_text boot_image) 21"

definition card_media :: media where
  "card_media = boot_media\<lparr>usb_stor_scan := \<lambda>s. Some (s\<lparr>usb_dev_desc := []\<rparr>)\<rparr>"

lemma boot_media_fat:
  "fat_medium boot_media (usb_desc 512 21) boot_disk 1 20 boot_bs 12 []"
  "fat_medium boot_media (sd_desc 512 1024) boot_disk 1 20 boot_bs 12 []"
  using boot_volume boot_partition boot_fields(1)
  by (simp_all add: fat_medium_def allocates_def boot_media_def boot_disk_def image_media_answers)
    (simp_all add: image_media_def usb_desc_def sd_desc_def)

lemma card_media_quiet: "quiet_media card_media"
  using image.quiet_media_axioms unfolding quiet_media_def card_media_def boot_media_def
  by (simp add: scan_kept_def boot_data_def)

lemma boot_files_ok:
  "boot_files (\<lambda>b. boot_disk (1 + b)) 20 boot_bs 12 [] boot_text 0x80600000 0x12 (sample_records 9) 0x80600000"
  "records_above (sample_records 9)"
proof -
  have "length boot_text < 128" "sums_ok (sample_records 9)"
    by (simp_all add: boot_text_def sums_ok_def sample_records_def byte_sum_def)
  then show "boot_files (\<lambda>b. boot_disk (1 + b)) 20 boot_bs 12 [] boot_text 0x80600000 0x12 (sample_records 9) 0x80600000"
    using boot_files_on boot_image_on sample_records_ok
    by (simp add: boot_files_def boot_image_def READ_FILE_MAX_SIZE_120_def layout_defs)
qed (simp add: records_above_def sample_records_def layout_defs)

lemma boot_room: "dir_room (volume_of boot_bs 12 []) boot_sys"
  using boot_fields by (simp add: dir_room_def boot_sys_def clust_bytes_def)

text \<open>The same volume with a reference text of 130 bytes.\<close>

definition long_text_media :: media where
  "long_text_media = image_media 512 (\<lambda>_. []) 0 (fat_disk (replicate 130 65) []) 21"

definition long_disk :: "u32 \<Rightarrow> u8 list" where
  "long_disk = image_block 512 (fat_disk (replicate 130 65) [])"

lemma long_disk_start: "long_disk 0 = boot_disk 0" "long_disk 1 = boot_disk 1"
  by (simp_all add: long_disk_def boot_disk_def image_block_def fat_disk_def)

lemma long_slots:
  "list_all (\<lambda>W. slots_fit (length W) W) (root_windows (\<lambda>b. long_disk (1 + b)) (volume_of boot_bs 12 []) 1 [])"
  by code_simp

lemma long_text_on: "file_on (\<lambda>b. long_disk (1 + b)) 20 boot_bs 12 [] INST_TEXT_FILENAME (replicate 130 65)"
  by code_simp

lemma long_text_fat: "fat_medium long_text_media (usb_desc 512 21) long_disk 1 20 boot_bs 12 []"
proof -
  have "volume_ok (\<lambda>b. long_disk (1 + b)) 20 boot_bs 12 []"
    using boot_kind_12 boot_fields long_slots
    by (simp add: volume_ok_def root_ok_def fat_wf_def FATBUFSIZE_def FATBUFBLOCKS_def long_disk_start)
  then show ?thesis
    using boot_partition boot_fields(1) image_media_answers(2) [of 512 "\<lambda>_. []" 0 "fat_disk (replicate 130 65) []" 21]
    by (simp add: fat_medium_def allocates_def long_text_media_def long_disk_start flip: long_disk_def)
      (simp add: image_media_def usb_desc_def sd_desc_def)
qed

lemma long_text_read:
  "\<exists>n t. osBoot_fat_fsload mx6sabresd_config strap_env long_text_media STORAGE_DEV_NAME_USB STORAGE_DEV_NUM_USB 0
      INST_TEXT_FILENAME (the (go_usb_start long_text_media (TimerInit strap_env 250 (search_leds mx6sabresd_config 1 0 boot_sys))))
    = Some (0, n, replicate 130 65, t)"
proof -
  define s where "s = the (go_usb_start long_text_media (TimerInit strap_env 250 (search_leds mx6sabresd_config 1 0 boot_sys)))"
  have s: "usb_dev_desc s = [usb_desc 512 21]" "do_fat_read_at_block s = do_fat_read_at_block boot_sys"
    by (simp_all add: s_def go_usb_start_def long_text_media_def image_media_def TimerInit_def search_leds_def)
  have "get_dev mx6sabresd_config strap_env long_text_media STORAGE_DEV_NAME_USB 0 s = Some (Some (usb_desc 512 21), s)"
    by (simp add: get_dev_def STORAGE_DEV_NAME_USB_def usb_stor_get_dev_def s)
  moreover have "dev_ready long_text_media (usb_desc 512 21) long_disk s" "dir_room (volume_of boot_bs 12 []) s"
    using boot_room by (simp_all add: dev_ready_def stick_there_def usb_desc_def sd_desc_def us_of_def s dir_room_def)
  ultimately show ?thesis
    using fsload_file [OF long_text_fat _ _ _ long_text_on, where cfg = mx6sabresd_config and e = strap_env and s = s and ?s1.0 = s
      and devname = STORAGE_DEV_NAME_USB and Offset = 0]
    by (auto simp: STORAGE_DEV_NUM_USB_def simp flip: s_def)
qed

lemma boot_mode_1: "bootMode boot_sys = 1"
  by (simp add: boot_sys_def)

text \<open>The same disk in an identified card.\<close>

definition card_sys :: sys where
  "card_sys = card_in 512 1024 boot_sys"

lemma card_ready:
  "card_there boot_media (sd_desc 512 1024) boot_disk card_sys" "dir_room (volume_of boot_bs 12 []) card_sys"
  using image_card_there boot_room by (simp_all add: boot_media_def boot_disk_def card_sys_def card_in_def dir_room_def)

text \<open>The same disk in a card that has not been identified, in the slot \<open>mmc_create\<close> makes.\<close>

definition host_config :: mmc_config where
  "host_config = \<lparr>host_caps = 0x07, voltages = 0x300000, f_min = 400000, f_max = 52000000, b_max = 65535\<rparr>"

definition boot_card :: sd_device where
  "boot_card = image_card 512 (fat_disk boot_text boot_image) 1024"

definition boot_slot :: mmc where
  "boot_slot = the (fst (mmc_create True host_config USDHC1_BASE_ADDR 0 boot_sys))"

definition slot_sys :: sys where
  "slot_sys = snd (snd (mmc_create True host_config USDHC1_BASE_ADDR 0 boot_sys))"

lemma slot_created: "mmc_create True host_config USDHC1_BASE_ADDR 0 boot_sys = (Some boot_slot, 1, slot_sys)"
  by (simp add: boot_slot_def slot_sys_def mmc_create_def host_config_def Let_def)

lemma card_detected: "fst (board_mmc_getcd strap_env USDHC1_BASE_ADDR s) \<noteq> 0"
  by (simp add: board_mmc_getcd_def strap_env_def USDHC1_CD_GPIO_def IMX_GPIO_NR_def gpio_get_value_def GPIO_TO_PORT_def n_gpio_ports_def
      c_true_def Let_def)

lemma boot_slot_fresh:
  assumes "card_ocr c = 0xff8000"
  shows "fresh_slot strap_env c boot_slot"
  by (rule created_slot_fresh [OF slot_created _ _ card_detected]) (simp_all add: host_config_def assms)

lemma slot_sys_found: "find_mmc_device 0 slot_sys = Some boot_slot" "bootMode slot_sys = 1" "dir_room (volume_of boot_bs 12 []) slot_sys"
  using boot_room
  by (simp_all add: slot_sys_def boot_slot_def mmc_create_def host_config_def find_mmc_device_def boot_sys_def blank_sys_def mmc_zero_def
      dir_room_def Let_def)

lemma boot_card_fields:
  "card_disk boot_card = boot_disk" "card_lba boot_card = 1024" "card_ocr boot_card = 0xff8000" "card_busy boot_card = 2"
  by (simp_all add: boot_card_def boot_disk_def image_card_def card_lba_def)

lemma boot_card_sound: "card_sound boot_card"
proof -
  have "csd_field (card_csd boot_card) 96 3 = 2" "csd_field (card_csd boot_card) 80 4 = 9" "csd_field (card_csd boot_card) 48 22 = 0"
    by (simp_all add: boot_card_def image_card_def csd_field_def)
  then show ?thesis
    by (simp add: card_sound_def boot_card_def image_card_def csd_bytes_def)
qed

lemma card_media_slot: "sd_slot card_media boot_card"
  using slot.sd_slot_axioms unfolding sd_slot_def card_media_def boot_media_def boot_card_def by simp

lemma boot_media_slot: "sd_slot boot_media boot_card"
  using slot.sd_slot_axioms unfolding boot_media_def boot_card_def .

lemma card_media_rest: "\<exists>t. go_usb_start card_media s = Some t \<and> usb_dev_desc t = []" "allocates card_media"
  by (simp_all add: go_usb_start_def card_media_def boot_media_def image_media_def allocates_def)

lemma boot_card_disk: "boot_disk_ok (card_disk boot_card) (card_lba boot_card) 1 20 boot_bs 12 []"
  using boot_volume boot_partition boot_fields(1) by (simp add: boot_disk_ok_def boot_card_fields)

text \<open>The same card behind a controller that takes its time: every command, transfer and reset keeps it busy for some reads.\<close>

definition sample_latency :: latency where
  "sample_latency = \<lparr>lat_line = (\<lambda>_. 5), lat_cmd = (\<lambda>_. 7), lat_data = (\<lambda>_. 30), lat_reset = (\<lambda>_. 2)\<rparr>"

definition host_sys :: sys where
  "host_sys = boot_sys\<lparr>usdhc1 := (usdhc1 boot_sys)\<lparr>esdhc_port := (\<lambda>_. 0)(Hostcapblt := 0x07f30000)\<rparr>\<rparr>"

lemma host_sys_fields: "bootMode host_sys = 1" "mmc_devices host_sys = []" "dir_room (volume_of boot_bs 12 []) host_sys"
  "c_true (esdhc_port (usdhc1 host_sys) Hostcapblt AND ESDHC_HOSTCAPBLT_VS33)"
  using boot_room
  by (simp_all add: host_sys_def boot_sys_def blank_sys_def dir_room_def ESDHC_HOSTCAPBLT_VS33_def c_true_def)

text \<open>A card that is busy for 2000 rounds, and one whose CSD register has the reserved unit 4.\<close>

definition slow_card :: sd_device where
  "slow_card = boot_card\<lparr>card_busy := 2000\<rparr>"

definition odd_card :: sd_device where
  "odd_card = boot_card\<lparr>card_csd := 0x400e00345b59000000007f800a400000\<rparr>"

definition media_with :: "sd_device \<Rightarrow> media" where
  "media_with c = boot_media\<lparr>mmc_send_cmd := sd_reply c\<rparr>"

lemma media_with_slot: "sd_slot (media_with c) c"
proof
  show "\<exists>r t. mmc_send_cmd (media_with c) mmc cmd data s = (0, r, bytes, t) \<and>
      (\<forall>i < length resp. i < resp_words (resp_type cmd) \<longrightarrow> r i = resp ! i) \<and> calm t = calm s \<and> sd_line t = st \<and> sd_app t = app"
    if "sd_answer c (sd_line s) (sd_app s) cmd data = Some (st, app, resp, bytes)"
    for s cmd data st app resp bytes mmc
    using that by (simp add: media_with_def sd_reply_def calm_def boot_data_def fat_data_def)
  show "\<exists>k t. ops_init (media_with c) mmc s = (0, mmc\<lparr>mmc_clock := k\<rparr>, t) \<and> kept t = kept s" for mmc s
    by (intro exI [of _ "mmc_clock mmc"] exI [of _ s]) (simp add: media_with_def boot_media_def image_media_def)
qed (simp add: media_with_def boot_media_def image_media_def)

lemma odd_card_fields: "4 \<le> csd_field (card_csd odd_card) 96 3" "card_busy odd_card \<le> 1000" "card_ocr odd_card = 0xff8000"
  by (simp_all add: odd_card_def csd_field_def boot_card_fields)

text \<open>The same disk as a stick on the bus, behind a hub.\<close>

definition stick_us :: us_data where
  "stick_us = \<lparr>us_slot = 0, pusb_dev = 1, us_ifnum = 0, ep_in = 1, ep_out = 2, ep_int = 0, us_subclass = US_SC_SCSI,
     us_protocol = US_PR_BULK, irqinterval = 0\<rparr>"

definition stick_device :: usb_device where
  "stick_device = \<lparr>usb_index = 1, devnum = 2, bDeviceClass = 0,
     if_desc = [\<lparr>bInterfaceNumber = 0, bInterfaceClass = USB_CLASS_MASS_STORAGE, bInterfaceSubClass = US_SC_SCSI,
       bInterfaceProtocol = US_PR_BULK, num_altsetting = 1,
       ep_desc = [\<lparr>bmAttributes = 2, bEndpointAddress = 0x81, bInterval = 0\<rparr>,
                  \<lparr>bmAttributes = 2, bEndpointAddress = 2, bInterval = 0\<rparr>]\<rparr>]\<rparr>"

definition hub_device :: usb_device where
  "hub_device = \<lparr>usb_index = 0, devnum = 1, bDeviceClass = 9, if_desc = []\<rparr>"

definition stick_bus :: usb_bus where
  "stick_bus = target_bus (scsi_disk (replicate 36 0) boot_disk 21 512) ([hub_device] @ stick_device # [])"

lemma stick_bus_stick: "stick stick_bus stick_us 0 (scsi_disk (replicate 36 0) boot_disk 21 512) (replicate 36 0) boot_disk 21 512"
  using disk_stick.stick_axioms [of "fat_disk boot_text boot_image" 21 "[hub_device] @ stick_device # []" stick_us]
  by (simp add: stick_bus_def boot_disk_def stick_us_def)

lemma stick_bus_devices:
  "bulk_device stick_device stick_us" "fst (usb_get_max_lun stick_bus stick_us s) = 0"
  "bus_devices stick_bus ([hub_device] @ stick_device # [])" "no_storage (Some hub_device)"
  by (simp_all add: bulk_device_def stick_device_def probe_endpoint_def stick_us_def USB_DIR_IN_def usb_get_max_lun_def
      usb_control_msg_def stick_bus_def target_bus_def bus_devices_def no_storage_def hub_device_def Let_def)

lemma boot_disk_fat: "boot_disk_ok boot_disk 21 1 20 boot_bs 12 []"
  using boot_volume boot_partition boot_fields(1) by (simp add: boot_disk_ok_def)

lemma boot_media_rest: "quiet_media boot_media" "allocates boot_media" "0 \<le> fst (usb_init boot_media s)"
  using image.quiet_media_axioms by (simp_all add: boot_media_def allocates_def) (simp_all add: image_media_def)

text \<open>A stick that answers \<open>INQUIRY\<close> and \<open>TEST UNIT READY\<close> only.\<close>

definition mute_target :: scsi_target where
  "mute_target cmd = (if cmd ! 0 = SCSI_RD_CAPAC \<or> cmd ! 0 = SCSI_READ10 then None else scsi_disk (replicate 36 0) boot_disk 21 512 cmd)"

definition mute_bus :: usb_bus where
  "mute_bus = target_bus mute_target ([hub_device] @ stick_device # [])"

lemma mute_unit: "bulk_unit mute_bus stick_us 0 mute_target"
proof
  show "bulk_only mute_bus stick_us 0 mute_target"
    unfolding mute_bus_def
    by (rule target_bus_protocol) (auto simp: mute_target_def boot_disk_def dest: scsi_disk_lengths [rotated -1] split: if_splits)
qed (simp add: stick_us_def)

lemma mute_answers:
  "mute_target (scsi_cmd SCSI_INQUIRY 0 [0, 0, 36]) = Some (replicate 36 0)"
  "mute_target (scsi_cmd SCSI_TST_U_RDY 0 []) = Some []"
proof -
  have codes: "SCSI_INQUIRY \<noteq> SCSI_RD_CAPAC" "SCSI_INQUIRY \<noteq> SCSI_READ10" "SCSI_TST_U_RDY \<noteq> SCSI_RD_CAPAC"
    "SCSI_TST_U_RDY \<noteq> SCSI_READ10" "SCSI_TST_U_RDY \<noteq> SCSI_INQUIRY"
    by (simp_all add: SCSI_TST_U_RDY_def SCSI_INQUIRY_def SCSI_RD_CAPAC_def SCSI_READ10_def)
  then show "mute_target (scsi_cmd SCSI_INQUIRY 0 [0, 0, 36]) = Some (replicate 36 0)" "mute_target (scsi_cmd SCSI_TST_U_RDY 0 []) = Some []"
    using scsi_cmd_simps(2) by (simp_all add: mute_target_def scsi_disk_def, metis)
qed

lemma mute_refuses:
  assumes "len \<noteq> 0" "opc = SCSI_RD_CAPAC \<or> opc = SCSI_READ10"
  shows "fst (transport mute_bus stick_us (scsi_ccb opc 0 rest len) s) = - 1"
  using target_bus_refuses [of mute_target "scsi_cmd opc 0 rest" stick_us len _ 0 s] assms
  by (auto simp: mute_bus_def mute_target_def scsi_ccb_def stick_us_def USB_STOR_TRANSPORT_FAILED_def)

lemma mute_capacity: "fst (usb_read_capacity mute_bus stick_us 0 n cap s) = - 1"
proof (induction n arbitrary: cap s)
  case (Suc n)
  show ?case
    using mute_refuses [of 8 SCSI_RD_CAPAC "[]" s] Suc
    by (auto simp: Let_def USB_STOR_TRANSPORT_GOOD_def split: prod.splits)
qed simp

lemma mute_info:
  "\<exists>s1 s2 r cap s3 n d' t.
    usb_inquiry mute_bus stick_us 0 5 (stale_bytes mute_bus 36 blank_sys) blank_sys = (0, replicate 36 0, s1) \<and>
    usb_test_unit_ready mute_bus stick_us 0 11 s1 = (0, s2) \<and>
    usb_read_capacity mute_bus stick_us 0 4 (replicate 8 0) s2 = (r, cap, s3) \<and> r \<noteq> 0 \<and>
    usb_stor_get_info mx6sabresd_config strap_env mute_bus boot_media stick_device stick_us (new_desc 5 stick_us 0) blank_sys
      = Some (n, d', t)"
proof -
  obtain s1 where s1: "usb_inquiry mute_bus stick_us 0 5 (stale_bytes mute_bus 36 blank_sys) blank_sys = (0, replicate 36 0, s1)"
    "kept s1 = kept blank_sys"
    using bulk_unit.inquiry_good [OF mute_unit mute_answers(1)] by auto
  obtain s2 where s2: "usb_test_unit_ready mute_bus stick_us 0 11 s1 = (0, s2)" "kept s2 = kept s1"
    using bulk_unit.unit_ready_good [OF mute_unit mute_answers(2)] by blast
  obtain r cap s3 where s3: "usb_read_capacity mute_bus stick_us 0 4 (replicate 8 0) s2 = (r, cap, s3)" "r \<noteq> 0"
    using mute_capacity [of 4 "replicate 8 0" s2] by (cases "usb_read_capacity mute_bus stick_us 0 4 (replicate 8 0) s2") auto
  have "kept s3 = kept s2"
    using quiet_bus.read_capacity_quiet [OF target_bus.quiet_bus_axioms] s3(1) unfolding mute_bus_def by blast
  then have none: "usb_dev_desc s3 = []"
    using s1(2) s2(2) by (simp add: kept_defs blank_sys_def)
  have "init_part cfg e boot_media d (set_last_desc d' (set_us_flags us v s3)) \<noteq> None" if "bd_dev d = 5" "bd_if_type d = IF_TYPE_USB" for cfg e d d' us v
    using that none by (simp add: init_part_def test_part_dos_def read_block_def block_read_def usb_stor_read_def us_of_def
        set_last_desc_def set_us_flags_def)
  then have "usb_stor_get_info mx6sabresd_config strap_env mute_bus boot_media stick_device stick_us (new_desc 5 stick_us 0) blank_sys \<noteq> None"
    using s1(1) s2(1) s3 by (simp add: usb_stor_get_info_def new_desc_def Let_def split: Option.bind_splits)
  then show ?thesis
    using s1(1) s2(1) s3 by fastforce
qed

end
