(* ===== verification/Spec2Isabelle.thy ===== *)
theory Spec2Isabelle
  imports Samples
begin

text \<open>
  \<^bold>\<open>The boot loader of the programming pendant.\<close>

  The program is U-Boot as the repository changes it for a pendant with an i.MX6Solo: it starts
  from NOR flash, reads the keys held at power-on to choose a boot mode, sets up the pins of the board, loads a Windows CE
  image from a USB stick or an SD card in four of the modes, leaves a structure \<open>BSP_BOOT_INFO\<close> in a fixed
  argument area, copies the next boot stage EBOOT from NOR flash to RAM and jumps to it.  The
  pendant's own logic is \<open>src/u-boot/board/freescale/mx6sabresd/mx6sabresd.c\<close> with the headers
  \<open>include/configs/pendant.h\<close> and \<open>mx6sabresd.h\<close>; it rests on drivers of U-Boot, of which the code on the
  boot path is modelled too.

  \<^bold>\<open>Theories.\<close>

  \<^item> \<open>Pendant_Prelude\<close>: C integers as words, byte-addressed memory (\<open>memset\<close>, \<open>memcpy\<close>, little-endian words),
    and the lemmas on runs of bytes all components share.
  \<^item> \<open>Pendant_Layout\<close>: \<open>pendant.h\<close>: error codes, modes, the partition of the NOR flash, the RAM areas, and
    \<open>BSP_BOOT_INFO\<close> as bytes in memory with its abstraction \<open>boot_info_of\<close>.
  \<^item> \<open>Mxc_Gpio\<close>: the machine state \<open>sys\<close> (GPIO banks, other registers, memory, clock, the static variables) and
    \<open>drivers/gpio/mxc_gpio.c\<close>; locale \<open>gpio_lines\<close> is the contract of the driver.
  \<^item> \<open>Iomux_V3\<close>, \<open>Mx6dl_Pins\<close>, \<open>Board_Pads\<close>: the pad multiplexer driver, the pad descriptors of the SoC and the board's
    tables, with the functions that load them.
  \<^item> \<open>Board_Gpio\<close>: detection of the board version, directions and first values of all pins, display registers,
    the hooks for SD, USB, Ethernet and SPI.
  \<^item> \<open>Leds_Buzzer\<close>: the PWM driver, buzzer, backlight, LEDs and the LED hook of the storage drivers.
  \<^item> \<open>Keypad\<close>: scanning and decoding the key matrix, \<open>SetupBootMode\<close>, and the table of key combinations as a
    specification.
  \<^item> \<open>Nk_Image\<close>: the records of a Windows CE image (second half of \<open>osBoot_fat_fsload_bin\<close>).
  \<^item> \<open>Sd_Protocol\<close>: the commands of \<open>include/mmc.h\<close>, and the card's side of the SD specification (\<open>sd_answer\<close>): which
    commands a card answers in which state, and how.
  \<^item> \<open>Block_Dev\<close>: \<open>mmc_bread\<close>, \<open>usb_stor_read\<close>, DOS partitions; locales \<open>quiet_media\<close> (what
    lies below changes none of the program's data) and \<open>readable_disk\<close> (reads return the disk).
  \<^item> \<open>Mmc_Card\<close>: the identification of SD and MMC cards in \<open>drivers/mmc/mmc.c\<close>, from \<open>mmc_create\<close> and \<open>mmc_init\<close> to
    \<open>mmc_select_hwpart\<close>, and \<open>get_dev\<close>.
  \<^item> \<open>Mmc_Slots\<close>: the invariant of the list of slots (locale \<open>quiet_host\<close>, which extends \<open>quiet_media\<close>) and the states
    reachable through the driver's operations.
  \<^item> \<open>Sd_Slot\<close>, \<open>Sd_Startup\<close>: the driver against a card that keeps to the specification (locale \<open>sd_slot\<close>): the fields of
    the CSD register, every step of the identification, and the disk it ends with.
  \<^item> \<open>Fsl_Esdhc\<close>: \<open>drivers/mmc/fsl_esdhc.c\<close>, the driver of the SD host controller; locale \<open>reg_frame\<close> says what register
    accesses leave alone, \<open>quiet_esdhc\<close> that this is the program's data, \<open>esdhc_slot\<close> makes the driver a \<open>quiet_host\<close>.
  \<^item> \<open>Usdhc_Card\<close>, \<open>Usdhc_Clock\<close>: a reference controller with a card on its lines, and the driver against it: commands and
    transfers (the driver meets the contract \<open>sd_slot\<close>), clock, bus width and timeout.
  \<^item> \<open>Usb_Storage\<close>, \<open>Usb_Stick\<close>: \<open>common/usb_storage.c\<close> below \<open>usb_stor_read\<close>: the Bulk-Only transport, the SCSI
    commands, the scan of the bus; locale \<open>quiet_bus\<close> is what the controller leaves alone, \<open>bulk_unit\<close> and \<open>stick\<close> what a
    device on the bus does.  \<open>usb_media\<close> builds the media of \<open>Block_Dev\<close> from this driver.
  \<^item> \<open>Fat_Fs\<close>, \<open>Fat_Frame\<close>, \<open>Fat_Read\<close>: \<open>fs/fat/fat.c\<close> as far as it reads files, what it leaves alone, and the
    correctness of table lookups, cluster transfers and file contents in the locale \<open>fat_volume\<close>.
  \<^item> \<open>Fat_Dir\<close>, \<open>Fat_File\<close>: the lookup of a name in the root directory against a reference lookup in lists of
    entries (locale \<open>fat_directory\<close>), and size and contents of a named file on a sound volume.
  \<^item> \<open>Os_Boot\<close>, \<open>Boot_Flow\<close>: \<open>board_init\<close>, the mode functions, \<open>os_boot_submain\<close>, and what they
    promise.
  \<^item> \<open>Media_Boot\<close>, \<open>Stick_Boot\<close>, \<open>Card_Boot\<close>: the composition: from the protocol on the USB bus or on the card's
    lines, or from the registers of the host controller, through partition table, file system, reference text and image loader to the jump into EBOOT.
  \<^item> \<open>Samples\<close>: concrete states, media and disks on which the theorems below are instantiated.

  \<^bold>\<open>How the model corresponds to the code.\<close>  A C function is a HOL function of the same name.  Registers, memory
  and static variables are fields of \<open>sys\<close> and are passed through; \<open>int\<close> results are integers, \<open>unsigned\<close>
  and \<open>u32\<close> values are 32-bit words that wrap, \<open>char\<close> is unsigned as on ARM.  Local arrays are lists.  The
  preprocessor switches are the fields of \<open>bsp_config\<close>, so theorems hold for every build; \<open>mx6sabresd_config\<close> is the one in the
  repository.  \<open>env\<close> holds what pads and timers read as.  Code that is not on the boot path or not in the repository is an
  argument: the allocator is a field of \<open>media\<close>, and so are the operations of the MMC host controller, for which \<open>usdhc_media\<close> puts
  the modelled driver; what the registers of that controller do is the argument \<open>esdhc_hw\<close>; the USB host controller and the enumeration fields of \<open>usb_bus\<close>; \<open>setup_i2c\<close>, \<open>cleanup_before_linux\<close>, the controller initialisation, the environment variable
  of the splash screen and the boot prompt are function arguments.

  Loops with an obvious bound are total functions.  The loops that only data on the medium or in the staged image ends
  are partial functions into \<open>option\<close>, as are the poll of an MMC card that only the clock ends and the waits for the host controller: \<open>None\<close> stands for not returning and for leaving the bounds of an
  object.  No fuel is used.  Where a theorem says that such a function is \<open>Some\<close>, it says that the code returns.

  \<^bold>\<open>What the theorems show.\<close>  C1 to C5 span all components: from the keys, or from the
  bus, the card's lines or the controller's registers and the blocks of a medium, to the jump into EBOOT.  C6 is the refinement of the key table,
  C7 to C9 are the image loader, C10 to C14 storage and file
  system, C15 to C18 the identification of cards, C19 to C21 the host controller, C22 and C23 the USB storage driver, C24 to
  C28 the pins and their drivers, C29 to C31 the parts of the
  boot flow, C32 and C33 the buzzer's timer and the LEDs.  C34 to
  C40, with C31 and the FAT32 part of C11, are places where the code does not do what it means to.

  \<^bold>\<open>Not modelled.\<close>  Output to the console; the parts of U-Boot outside the boot path (commands, networking,
  environment, other boards and architectures); file listing and writing, on media as well as on files; the USB transport of floppy drives (CB and CBI); the
  tables of the SoC's clocks, from which the controller's input clock is read; that an MMC card (rather than an SD card) is identified: the code is modelled, the theorems on
  it are that it leaves the other data alone and keeps the list of slots well formed; the walk through subdirectories
  is modelled in full, but proved correct is the lookup in the root directory, where the boot files are, without
  long names that cross a cluster of a FAT32 directory, and with a FAT32 root directory at cluster 2; the display controller beyond the registers the
  board file sets; \<open>ReadBinImageToFlat\<close>, which the build with \<open>FASTLOAD\<close> leaves out.
\<close>

section \<open>The boot flow\<close>



text \<open>
  C2.  Boot from removable media.  In modes 1, 2, 4 and 5, whenever the flow gets to its end it
  jumps to EBOOT; the argument area holds the mode, the version of the board and one of the
  documented pairs of error code and medium; and it holds "no error" only if an image was loaded
  from the medium it names, whose size it gives, and which is still in memory untouched outside the
  argument area and EBOOT's own area.
\<close>

theorem media_boot_report:
  assumes md: "quiet_media md" and ver: "versions_ok cfg s"
    and cleanup: "\<And>s. mem (cleanup_before_linux s) = mem s"
    and mode: "bootMode s \<in> {1, 2, 4, 5}"
    and run: "os_boot_submain cfg e md cleanup_before_linux fn stack s = Some (r, t)"
  shows "r = Jumped IMAGE_EBOOT_JUMP_ADDR \<and>
    bi_bootMode (boot_info_of cfg (mem t)) = bootMode s \<and>
    bi_boardVersion (boot_info_of cfg (mem t)) = Board_Version s \<and>
    verdict_ok cfg (bi_errorCode (boot_info_of cfg (mem t))) (bi_strage (boot_info_of cfg (mem t))) \<and>
    (bi_errorCode (boot_info_of cfg (mem t)) = ERROR_PP_BL_NO_ERROR \<longrightarrow>
      (\<exists>u. image_loaded cfg e md (bi_strage (boot_info_of cfg (mem t))) (bi_osImageSize (boot_info_of cfg (mem t))) u \<and>
        (\<forall>a. \<not> in_boot_info cfg a \<and> \<not> in_region IMAGE_EBOOT_RAM_BASE_ADDR IMAGE_BOOT_EBOOTIMAGE_NOR_SIZE a \<longrightarrow>
          mem t a = mem u a)))"
proof -
  obtain r' w where w: "osBoot_Mode_1245 cfg e md fn stack (bootMode s) s = Some (r', w)"
    using run mode by (auto simp: os_boot_submain_def osBoot_KEYIn_Mode_def Let_def split: Option.bind_splits)
  note report = quiet_media.osBoot_Mode_1245_report [OF md w mode ver]
  show ?thesis
    using os_boot_submain_1245 [OF mode w cleanup] report run by auto
qed

theorem media_boot_report_witness:
  "\<exists>r t. os_boot_submain mx6sabresd_config (matrix_env (\<lambda>_ _. False)) no_media id 0 7 (blank_sys\<lparr>bootMode := 1\<rparr>) = Some (r, t) \<and>
    r = Jumped IMAGE_EBOOT_JUMP_ADDR \<and> bi_bootMode (boot_info_of mx6sabresd_config (mem t)) = 1"
proof -
  let ?s = "blank_sys\<lparr>bootMode := 1\<rparr>" and ?e = "matrix_env (\<lambda>_ _. False)"
  obtain u where "osBoot_Mode_1245 mx6sabresd_config ?e no_media 0 7 1 ?s = Some (0, u)"
    using osBoot_Mode_1245_no_media [OF no_media_quiet no_media_usb blank_slots(3), of 1 mx6sabresd_config ?e 0 7 1] by auto
  then obtain r t where run: "os_boot_submain mx6sabresd_config ?e no_media id 0 7 ?s = Some (r, t)"
    using os_boot_submain_1245 [of ?s mx6sabresd_config ?e no_media 0 7 0 u id] by auto
  show ?thesis
    using media_boot_report [OF no_media_quiet _ _ _ run] run
    by (auto simp: versions_ok_def mx6sabresd_config_def)
qed

text \<open>
  C3.  Boot from a USB stick, from the bus to EBOOT.  A stick on the bus that keeps to the Bulk-Only protocol and is a SCSI
  disk whose first partition is a FAT volume, with a reference text that names a good image: modes 1, 2, 4 and 5 scan the bus, find the
  stick, mount the volume, load text and image and end in the jump to EBOOT; the argument area reports the mode, no error, USB
  and the size of the image, and every record of the image is in memory at its address.  On a FAT32 volume the root directory starts
  at cluster 2, where the code looks for it; runs of long-name slots stay inside a cluster, and the reserved bits of the table entries
  that lead on are clear.
\<close>

theorem stick_boots_image:
  assumes "stick bus us 0 target inq disk lba 512" and "quiet_bus bus" "quiet_media md"
    and "bulk_device dev us" "\<And>s. fst (usb_get_max_lun bus us s) = 0"
    and "bus_devices bus (pre @ dev # post)" "length pre < USB_MAX_DEVICE"
      "list_all (\<lambda>d. no_storage (Some d)) pre" "list_all (\<lambda>d. no_storage (Some d)) post"
    and "\<And>s. 0 \<le> fst (usb_init md s)" "allocates md"
    and "boot_disk_ok disk lba start nsect bs fs cs" "dir_room (volume_of bs fs []) s"
    and "boot_files (\<lambda>b. disk (start + b)) nsect bs fs cs inst st len rs launch" "records_above rs"
    and "bootMode s \<in> {1, 2, 4, 5}" and "\<And>s. mem (cleanup s) = mem s"
  shows "\<exists>t. os_boot_submain cfg e (usb_media cfg e bus md) cleanup fn stack s = Some (Jumped IMAGE_EBOOT_JUMP_ADDR, t) \<and>
    image_booted cfg (bootMode s) BOOT_STORAGE_USB len rs (mem t)"
  by (rule bus_stick_boot [OF assms])

theorem stick_boots_image_witness:
  "\<exists>t. os_boot_submain mx6sabresd_config strap_env (usb_media mx6sabresd_config strap_env stick_bus boot_media) id 0 0 boot_sys
      = Some (Jumped IMAGE_EBOOT_JUMP_ADDR, t) \<and>
    image_booted mx6sabresd_config 1 BOOT_STORAGE_USB 0x12 (sample_records 9) (mem t)"
  using stick_boots_image [OF stick_bus_stick _ boot_media_rest(1) stick_bus_devices(1-3) _ _ _ boot_media_rest(3,2)
      boot_disk_fat boot_room boot_files_ok, of id mx6sabresd_config strap_env 0 0] stick_bus_devices(4) boot_mode_1
      target_bus.quiet_bus_axioms
  by (simp add: stick_bus_def USB_MAX_DEVICE_def)

text \<open>
  C4.  Boot from an SD card, from its reset to EBOOT.  A card that keeps to the SD specification, in a slot that has not been
  used, whose first partition is a FAT volume with a reference text that names a good image, and no USB stick: modes 1, 2, 4
  and 5 identify the card, mount the volume, load text and image and end in the jump to EBOOT; the argument area reports the
  mode, no error, SD and the size of the image, and every record of the image is in memory at its address.  A FAT32 volume has its root
  directory at cluster 2, runs of long-name slots inside a cluster, and clear reserved bits in the table entries that lead on.
\<close>

theorem card_boots_image:
  assumes "sd_slot md c" and "quiet_media md" and "card_sound c"
    and "find_mmc_device 0 s = Some mmc" and "fresh_slot e c mmc"
    and "\<And>s. \<exists>t. go_usb_start md s = Some t \<and> usb_dev_desc t = []"
    and "boot_disk_ok (card_disk c) (card_lba c) start nsect bs fs cs" "allocates md" "dir_room (volume_of bs fs []) s"
    and "boot_files (\<lambda>b. card_disk c (start + b)) nsect bs fs cs inst st len rs launch" "records_above rs"
    and "bootMode s \<in> {1, 2, 4, 5}" and "\<And>s. mem (cleanup s) = mem s"
  shows "\<exists>t. os_boot_submain cfg e md cleanup fn stack s = Some (Jumped IMAGE_EBOOT_JUMP_ADDR, t) \<and>
    image_booted cfg (bootMode s) BOOT_STORAGE_SD len rs (mem t)"
  by (rule slot_card_boot [OF assms])

theorem card_boots_image_witness:
  "\<exists>t. os_boot_submain mx6sabresd_config strap_env card_media id 0 0 slot_sys = Some (Jumped IMAGE_EBOOT_JUMP_ADDR, t) \<and>
    image_booted mx6sabresd_config 1 BOOT_STORAGE_SD 0x12 (sample_records 9) (mem t)"
  using card_boots_image [OF card_media_slot card_media_quiet boot_card_sound slot_sys_found(1) boot_slot_fresh card_media_rest(1)
      boot_card_disk card_media_rest(2) slot_sys_found(3), of boot_text "0x80600000" "0x12" "sample_records 9" "0x80600000" id
      mx6sabresd_config 0 0] boot_files_ok slot_sys_found(2)
  by (simp add: boot_card_fields)

text \<open>
  C5.  Boot from an SD card over the registers of the host controller.  \<open>board_mmc_init\<close> resets and configures the controller
  and makes one slot; modes 1, 2, 4 and 5 then identify the card through \<open>fsl_esdhc.c\<close>, load the image and end in the jump to EBOOT,
  with the same report and the same records in memory as for any other way to the card.  The controller is the reference one of
  \<open>Usdhc_Card\<close>: it may take any number of reads for a command, a transfer or a reset, and its DMA writes past the cache.  Its
  capability register has 3.3 volts, the clock is not zero, the card-detect pin shows a card and there is no stick; the card and its
  volume are as in the boot from a slot.
\<close>

theorem controller_boots_card:
  assumes "usdhc_cfg \<noteq> []" "clk \<noteq> 0" "c_true (esdhc_port (usdhc1 s) Hostcapblt AND ESDHC_HOSTCAPBLT_VS33)" "mmc_devices s = []"
      "card_ocr c AND 0x300000 \<noteq> 0" "\<And>t. fst (board_mmc_getcd e (esdhc_base (usdhc_cfg ! 0)) t) \<noteq> 0"
    and "card_sound c" "quiet_media md" "\<And>s. \<exists>t. go_usb_start md s = Some t \<and> usb_dev_desc t = []"
    and "boot_disk_ok (card_disk c) (card_lba c) start nsect bs fs cs" "allocates md" "dir_room (volume_of bs fs []) s"
    and "boot_files (\<lambda>b. card_disk c (start + b)) nsect bs fs cs inst st len rs launch" "records_above rs"
    and "bootMode s \<in> {1, 2, 4, 5}" "\<And>s. mem (cleanup s) = mem s"
  shows "\<exists>cfgs t u. board_mmc_init 1 clk (fsl_esdhc_initialize (usdhc_hw c lat) True) usdhc_cfg s = (0, cfgs, t) \<and>
    os_boot_submain cfg e (usdhc_media c lat clk buf md) cleanup fn stack t = Some (Jumped IMAGE_EBOOT_JUMP_ADDR, u) \<and>
    image_booted cfg (bootMode s) BOOT_STORAGE_SD len rs (mem u)"
  by (rule controller_card_boot [OF assms])

theorem controller_boots_card_witness:
  "\<exists>cfgs t u. board_mmc_init 1 198000000 (fsl_esdhc_initialize (usdhc_hw boot_card sample_latency) True)
      [\<lparr>esdhc_base = USDHC1_BASE_ADDR, sdhc_clk = 0, max_bus_width = 0\<rparr>] host_sys = (0, cfgs, t) \<and>
    os_boot_submain mx6sabresd_config strap_env (usdhc_media boot_card sample_latency 198000000 0x20000000 card_media) id 0 0 t
      = Some (Jumped IMAGE_EBOOT_JUMP_ADDR, u) \<and>
    image_booted mx6sabresd_config 1 BOOT_STORAGE_SD 0x12 (sample_records 9) (mem u)"
  using controller_boots_card [OF _ _ host_sys_fields(4,2) _ _ boot_card_sound card_media_quiet card_media_rest(1) boot_card_disk
      card_media_rest(2) host_sys_fields(3), of "[\<lparr>esdhc_base = USDHC1_BASE_ADDR, sdhc_clk = 0, max_bus_width = 0\<rparr>]" 198000000
      strap_env boot_text "0x80600000" "0x12" "sample_records 9" "0x80600000" id sample_latency mx6sabresd_config "0x20000000" 0 0]
    card_detected boot_files_ok
  by (simp add: boot_card_fields host_sys_fields(1))

section \<open>The boot mode\<close>

text \<open>
  C6.  \<open>SetupBootMode\<close> implements the table of key combinations.  With \<open>pressed c r\<close> the keys held
  down in column \<open>c\<close> and row \<open>r\<close>, the mode it stores is the one the specification gives for the
  layout in use, and \<open>KeyInfo\<close> in the argument area holds the matrix.
\<close>

theorem SetupBootMode_refines_key_table:
  assumes "key_matrix e pressed"
  shows "bootMode (SetupBootMode cfg e s) = boot_mode_spec (is_toyota cfg (SetupBootMode cfg e s)) pressed \<and>
    (\<forall>c < 8. bi_KeyInfo (boot_info_of cfg (mem (SetupBootMode cfg e s))) ! c = row_byte (pressed c))"
  using SetupBootMode_matrix [OF assms] by blast

theorem SetupBootMode_refines_key_table_witness:
  "bootMode (SetupBootMode mx6sabresd_config (matrix_env (\<lambda>c r. (c, r) \<in> {(4, 6), (7, 3)})) blank_sys) = 8"
proof -
  have "boot_mode_spec False (\<lambda>c r. (c, r) \<in> {(4, 6), (7, 3)}) = 8"
    by (auto simp: boot_mode_spec_def foreign_key_def foreign_in_column_def held_def ignored_rows_def Let_def)
  moreover have "is_toyota mx6sabresd_config s = False" for s
    by (simp add: is_toyota_def mx6sabresd_config_def)
  ultimately show ?thesis
    using SetupBootMode_refines_key_table [OF key_matrix_matrix_env, where cfg = mx6sabresd_config
        and pressed = "\<lambda>c r. (c, r) \<in> {(4, 6), (7, 3)}" and s = blank_sys]
    by simp
qed

section \<open>The Windows CE image\<close>

text \<open>
  C7.  The loader computes what the records say.  For a staged file that is the encoding of any list
  of records which keep below the staging area, \<open>nk_load\<close> returns; its return value, the
  size it reports and the whole of memory are those of the specification.
\<close>

theorem nk_load_refines_load_spec:
  assumes "get_bytes (mem s) IMAGE_BOOT_NKIMAGE_RAM_PA_STORE_START (length (encode_nk start len rs launch))
      = encode_nk start len rs launch"
    and "length (encode_nk start len rs launch) \<le> unat READ_FILE_MAX_SIZE_120"
    and "len \<le> IMAGE_BOOT_NKIMAGE_NOR_SIZE" and "records_ok False rs"
  shows "\<exists>t. nk_load cfg s = Some (fst (load_spec cfg False rs (mem s)), len, t) \<and>
    mem t = snd (load_spec cfg False rs (mem s))"
  using assms by (rule nk_load_spec)

theorem nk_load_refines_load_spec_witness:
  "\<exists>t. nk_load mx6sabresd_config (staged (encode_nk 0x80600000 0x12 (sample_records 9) 0x80600000)) = Some (0, 0x12, t)"
proof -
  let ?s = "staged (encode_nk 0x80600000 0x12 (sample_records 9) 0x80600000)"
  have "fst (load_spec mx6sabresd_config False (sample_records 9) (mem ?s)) = 0"
    by (simp add: load_spec_ok sums_ok_def sample_records_def byte_sum_def)
  then show ?thesis
    using nk_load_refines_load_spec [OF sample_staged [of 9] _ _ sample_records_ok(1), where cfg = mx6sabresd_config]
    by (auto simp: sample_records_ok layout_defs)
qed

text \<open>
  C8.  A good image is in RAM after loading.  When all checksums hold and the records do not
  overlap, the loader returns 0, every record is found at its address minus 0x70000000, and the
  rest of the 120 MiB from the first record on is filled with 0xff while all other memory keeps its
  contents.
\<close>

theorem nk_load_good_image:
  assumes "get_bytes (mem s) IMAGE_BOOT_NKIMAGE_RAM_PA_STORE_START (length (encode_nk start len rs launch))
      = encode_nk start len rs launch"
    and "length (encode_nk start len rs launch) \<le> unat READ_FILE_MAX_SIZE_120"
    and "len \<le> IMAGE_BOOT_NKIMAGE_NOR_SIZE" and "records_ok False rs"
    and "sums_ok rs" and "disjoint_records rs" and "rs = (addr0, bs0, ck0) # rs'"
  shows "\<exists>t. nk_load cfg s = Some (0, len, t) \<and>
    (\<forall>(addr, bs, ck) \<in> set rs. get_bytes (mem t) (addr - 0x70000000) (length bs) = bs) \<and>
    (\<forall>a. (\<forall>r \<in> set rs. a \<notin> record_region r) \<longrightarrow>
      mem t a = (if in_region (addr0 - 0x70000000) IMAGE_BOOT_NKIMAGE_NOR_SIZE a then 0xff else mem s a))"
proof -
  have small: "length bs \<le> 2 ^ 32" if "(addr, bs, ck) \<in> set rs" for addr bs ck
    using records_ok_length [OF assms(4) that] by (simp add: layout_defs)
  have records: "\<forall>(addr, bs, ck) \<in> set rs.
      get_bytes (snd (load_spec cfg False rs (mem s))) (addr - 0x70000000) (length bs) = bs"
    using load_spec_records [OF assms(5,6) _ small] by fast
  have fill: "\<forall>a. (\<forall>r \<in> set rs. a \<notin> record_region r) \<longrightarrow> snd (load_spec cfg False rs (mem s)) a
      = (if in_region (addr0 - 0x70000000) IMAGE_BOOT_NKIMAGE_NOR_SIZE a then 0xff else mem s a)"
    using load_spec_fill [OF assms(5,7)] by blast
  have "fst (load_spec cfg False rs (mem s)) = 0"
    using assms(5) by (simp add: load_spec_ok)
  then show ?thesis
    using nk_load_spec [OF assms(1-4), where cfg = cfg] records fill by auto
qed

theorem nk_load_good_image_witness:
  "\<exists>t. nk_load mx6sabresd_config (staged (encode_nk 0x80600000 0x12 (sample_records 9) 0x80600000)) = Some (0, 0x12, t) \<and>
    get_bytes (mem t) 0x10600000 3 = [1, 2, 3] \<and> get_bytes (mem t) 0x10600010 2 = [4, 5]"
proof -
  have sums: "sums_ok (sample_records 9)"
    by (simp add: sums_ok_def sample_records_def byte_sum_def)
  have cons: "sample_records 9 = (0x80600000, [1, 2, 3], 6) # [(0x80600010, [4, 5], 9)]"
    by (simp add: sample_records_def)
  show ?thesis
    using nk_load_good_image [OF sample_staged [of 9] _ _ sample_records_ok(1) sums sample_records_ok(3) cons,
        where cfg = mx6sabresd_config]
    by (auto simp: sample_records_ok layout_defs) (auto simp: sample_records_def eval_nat_numeral)
qed

text \<open>
  C9.  A wrong checksum is reported.  If the checksum of some record is wrong, the loader returns,
  with the checksum error -3 when \<open>BSP_SUPPORT_SUMERR\<close> is set and with -1 otherwise.
\<close>

theorem nk_load_checksum_error:
  assumes "get_bytes (mem s) IMAGE_BOOT_NKIMAGE_RAM_PA_STORE_START (length (encode_nk start len rs launch))
      = encode_nk start len rs launch"
    and "length (encode_nk start len rs launch) \<le> unat READ_FILE_MAX_SIZE_120"
    and "len \<le> IMAGE_BOOT_NKIMAGE_NOR_SIZE" and "records_ok False rs" and "\<not> sums_ok rs"
  shows "\<exists>t. nk_load cfg s = Some (if BSP_SUPPORT_SUMERR cfg then - 3 else - 1, len, t)"
  using nk_load_spec [OF assms(1-4), where cfg = cfg] load_spec_sumerr [OF assms(5), where cfg = cfg and init = False and m = "mem s"] by auto

theorem nk_load_checksum_error_witness:
  "\<exists>t. nk_load mx6sabresd_config (staged (encode_nk 0x80600000 0x12 (sample_records 8) 0x80600000)) = Some (- 3, 0x12, t)"
proof -
  have "\<not> sums_ok (sample_records 8)" "BSP_SUPPORT_SUMERR mx6sabresd_config"
    by (simp_all add: sums_ok_def sample_records_def byte_sum_def mx6sabresd_config_def)
  then show ?thesis
    using nk_load_checksum_error [OF sample_staged [of 8] _ _ sample_records_ok(1), where cfg = mx6sabresd_config]
    by (auto simp: sample_records_ok layout_defs)
qed

section \<open>Storage and file system\<close>

text \<open>
  C10.  Reads return the disk.  For a card or a stick that answers its commands, a read of any number of
  blocks inside the medium returns that number and exactly those blocks, although the driver cuts it into
  transfers of limited size; the program's data is untouched.
\<close>

theorem block_read_returns_disk:
  assumes "medium_answers md desc disk bsz" and "dev_ready md desc disk s" and "unat b + unat n \<le> unat (bd_lba desc)"
  shows "\<exists>t. block_read cfg e md desc b n s = Some (n, sectors disk b (unat n), t) \<and> kept t = kept s"
  using readable_disk.read_ok [OF medium_readable [OF assms(1)] assms(2,3)] .

theorem block_read_returns_disk_witness:
  "\<exists>t. block_read mx6sabresd_config (matrix_env (\<lambda>_ _. False))
      (image_media 512 (\<lambda>b. replicate 512 (ucast b)) 70000 (\<lambda>_. []) 0) (sd_desc 512 70000) 3 66000 (card_in 512 70000 blank_sys)
    = Some (66000, sectors (image_block 512 (\<lambda>b. replicate 512 (ucast b))) 3 66000, t)"
proof -
  let ?md = "image_media 512 (\<lambda>b. replicate 512 (ucast b)) 70000 (\<lambda>_. []) 0"
  have "dev_ready ?md (sd_desc 512 70000) (image_block 512 (\<lambda>b. replicate 512 (ucast b))) (card_in 512 70000 blank_sys)"
    using image_card_there [of 512 "\<lambda>b. replicate 512 (ucast b)" 70000 "\<lambda>_. []" 0 blank_sys]
    by (simp add: dev_ready_def sd_desc_def)
  then show ?thesis
    using block_read_returns_disk [OF image_media_answers(1), of 512 "\<lambda>b. replicate 512 (ucast b)" 70000 "\<lambda>_. []" 0
        "card_in 512 70000 blank_sys" 3 66000 mx6sabresd_config "matrix_env (\<lambda>_ _. False)"]
    by (auto simp: sd_desc_def)
qed

text \<open>
  C11.  The cached lookup is the table on the disk.  On a mounted volume of kind FAT12, FAT16 or FAT32,
  \<open>get_fatent\<close> returns the word of the table on the disk, whether it comes from the buffer, needs
  the buffer to be reloaded or straddles bytes; the buffer keeps its invariant.  On FAT12 and FAT16 this is the entry of the FAT
  specification.  On FAT32 the entry is the lower 28 bits of the word: the code does not mask the four reserved bits, so what it
  returns is the entry exactly when they are clear, and otherwise a value the callers take for the end of the chain.
\<close>

theorem get_fatent_is_disk_entry:
  assumes "medium_answers md desc disk bsz" and "unat start + nsect \<le> unat (bd_lba desc)"
    and "fat_wf nsect my" and "bsz = unat (sect_size my)" and "fat_cache_ok (\<lambda>b. disk (start + b)) my"
    and "dev_ready md desc disk s" and "mounted desc start s"
    and "fat_entry_end my (unat c) \<le> unat (fatlength my) * unat (sect_size my)"
  shows "\<exists>w my' t. get_fatent cfg e md my c s = Some (w, my', t) \<and>
    (if fatsize my = 32 then take_bit 28 w else w) = fat_entry (\<lambda>b. disk (start + b)) my (unat c) \<and>
    (w = fat_entry (\<lambda>b. disk (start + b)) my (unat c) \<longleftrightarrow> fat_clean (\<lambda>b. disk (start + b)) my (unat c)) \<and>
    (\<not> fat_clean (\<lambda>b. disk (start + b)) my (unat c) \<longrightarrow> CHECK_CLUST w (fatsize my)) \<and>
    fat_cache_ok (\<lambda>b. disk (start + b)) my' \<and> (\<exists>buf num. my' = my\<lparr>fatbuf := buf, fatbufnum := num\<rparr>) \<and>
    kept t = kept s"
proof -
  let ?vol = "\<lambda>b. disk (start + b)"
  have "(if fatsize my = 32 then take_bit 28 (fat_word ?vol my n) else fat_word ?vol my n) = fat_entry ?vol my n" for n
    by (simp add: fat_entry_def)
  moreover note fat_clean_entry [of ?vol my "unat c"] reserved_bits_end_chain [of ?vol my "unat c"]
  moreover obtain my' t where "get_fatent cfg e md my c s = Some (fat_word ?vol my (unat c), my', t)" "fat_cache_ok ?vol my'"
    "\<exists>buf num. my' = my\<lparr>fatbuf := buf, fatbufnum := num\<rparr>" "kept t = kept s"
    using fat_volume.get_fatent_ok [OF medium_volume [OF assms(1,2)] assms(3-8), of cfg e] by blast
  ultimately show ?thesis
    by blast
qed

theorem get_fatent_is_disk_entry_witness:
  "\<exists>my' t. get_fatent mx6sabresd_config (matrix_env (\<lambda>_ _. False)) tiny_media tiny_volume 2 tiny_sys = Some (3, my', t)"
  using get_fatent_is_disk_entry [OF tiny_ok(1-7), of 2 mx6sabresd_config "matrix_env (\<lambda>_ _. False)"]
  by (auto simp: tiny_entries fat_entry_end_def fat_clean_def)

text \<open>
  C12.  Reading a file returns its bytes.  On a mounted volume, for a directory entry whose cluster
  chain is sound, \<open>get_contents\<close> returns 0, the length (cut at \<open>maxsize\<close>), and exactly the
  bytes of the chain, although it merges runs of consecutive clusters into single transfers and reads through
  bounce buffers when the destination is not aligned; in particular it ends.  The length is below 2 GiB: the code adds the length of
  a run as a signed \<open>int\<close>.  On FAT32 the reserved bits of the entries that lead on are clear.
\<close>

theorem get_contents_is_chain:
  assumes "medium_answers md desc disk bsz" and "unat start + nsect \<le> unat (bd_lba desc)"
    and "fat_wf nsect my" and "bsz = unat (sect_size my)" and "0 < unat (clust_size my)"
    and "fat_cache_ok (\<lambda>b. disk (start + b)) my" and "dev_ready md desc disk s" and "mounted desc start s"
    and "chain_ok (\<lambda>b. disk (start + b)) nsect my
      (file_chain (\<lambda>b. disk (start + b)) my (START my dent) (read_length dent maxsize))"
    and "read_length dent maxsize < 2 ^ 31"
  shows "\<exists>my' t. get_contents cfg e md my dent 0 buf maxsize s
      = Some (0, int (read_length dent maxsize),
          file_bytes (\<lambda>b. disk (start + b)) my (START my dent) (read_length dent maxsize), my', t)
    \<and> kept t = kept s"
  using fat_volume.get_contents_ok [OF medium_volume [OF assms(1,2)] assms(3-10)] by blast

theorem get_contents_is_chain_witness:
  "\<exists>my' t. get_contents mx6sabresd_config (matrix_env (\<lambda>_ _. False)) tiny_media tiny_volume (dir_entry_of tiny_file)
      0 1 0 tiny_sys = Some (0, 6, [10, 11, 12, 13, 14, 15], my', t)"
proof -
  have n: "read_length (dir_entry_of tiny_file) 0 = 6" and c: "START tiny_volume (dir_entry_of tiny_file) = 2"
    by (simp_all add: read_length_def START_def dir_entry_of_def tiny_file_def nth_append u32_of_bytes_def u16_of_bytes_def)
  have chain: "file_chain (image_block 4 tiny_disk) tiny_volume 2 6 = [2, 3]"
  proof -
    have "blocks_of (clust_bytes tiny_volume) 6 = Suc (Suc 0)"
      by (simp add: blocks_of_def clust_bytes_def)
    then show ?thesis
      by (simp add: file_chain_def tiny_entries)
  qed
  have ok: "chain_ok (image_block 4 tiny_disk) 5 tiny_volume [2, 3]"
    by (simp add: chain_ok_def fat_clean_def CHECK_CLUST_def cluster_sect_def fat_entry_end_def word_le_nat_alt)
  have bytes: "file_bytes (image_block 4 tiny_disk) tiny_volume 2 6 = [10, 11, 12, 13, 14, 15]"
    by (simp add: file_bytes_def chain cluster_bytes_def cluster_sect_def sectors_def image_block_def tiny_disk_def)
  show ?thesis
    using get_contents_is_chain [OF tiny_ok(1-4) tiny_ok(8) tiny_ok(5-7), of "dir_entry_of tiny_file" 0 mx6sabresd_config
        "matrix_env (\<lambda>_ _. False)" 1]
    by (auto simp: n c chain ok bytes)
qed

text \<open>
  C13.  A file is read by its name.  On a mounted volume \<open>fat_size\<close> and \<open>file_fat_read\<close> find the file in the root
  directory by its short or long name and return its length and its bytes (a list here; the caller stores it).  On a FAT32 volume the root
  directory starts at cluster 2, where the code looks for it; runs of long-name slots stay inside a cluster, and the reserved bits of
  the table entries that lead on are clear.
\<close>

theorem file_read_by_name:
  assumes "fat_medium md desc disk start nsect bs fs cs" "dev_ready md desc disk s" "mounted desc start s"
    "part_blksz (cur_part_info s) = 512" "dir_room (volume_of bs fs []) s"
    and "file_on (\<lambda>b. disk (start + b)) nsect bs fs cs name content"
    and "length content < 2 ^ 31" "int (length content) \<le> maxsize"
  shows "\<exists>t u. fat_size cfg e md name s = Some (0, int (length content), t) \<and> dir_kept t s \<and>
    file_fat_read cfg e md name buf maxsize s = Some (int (length content), content, u) \<and> dir_kept u s"
  using mounted_file(1) [OF assms(1-6), of cfg e] mounted_file(2) [OF assms, of cfg e buf] by blast

theorem file_read_by_name_witness:
  "\<exists>t u. fat_size mx6sabresd_config strap_env boot_media INST_TEXT_FILENAME
      (card_sys\<lparr>cur_dev := Some (sd_desc 512 1024), cur_part_info := \<lparr>part_start = 1, part_size = 20, part_blksz = 512\<rparr>\<rparr>)
      = Some (0, 8, t) \<and>
    file_fat_read mx6sabresd_config strap_env boot_media INST_TEXT_FILENAME 0 100
      (card_sys\<lparr>cur_dev := Some (sd_desc 512 1024), cur_part_info := \<lparr>part_start = 1, part_size = 20, part_blksz = 512\<rparr>\<rparr>)
      = Some (8, boot_text, u)"
proof -
  let ?s = "card_sys\<lparr>cur_dev := Some (sd_desc 512 1024), cur_part_info := \<lparr>part_start = 1, part_size = 20, part_blksz = 512\<rparr>\<rparr>"
  have "dev_ready boot_media (sd_desc 512 1024) boot_disk ?s"
    using card_ready(1) by (simp add: dev_ready_def card_there_def selected_def find_mmc_device_def sd_desc_def)
  moreover have "mounted (sd_desc 512 1024) 1 ?s" "dir_room (volume_of boot_bs 12 []) ?s"
    using card_ready(2) by (simp_all add: mounted_def dir_room_def)
  ultimately show ?thesis
    using file_read_by_name [OF boot_media_fat(2), where s = ?s, OF _ _ _ _ boot_files_on, of 100 mx6sabresd_config strap_env 0]
    by (simp add: boot_text_def) blast
qed

text \<open>
  C14.  A missing file is reported.  When the medium behind the name is there but its root directory has no entry of
  that name, \<open>osBoot_fat_fsload\<close> returns 3, reads nothing and leaves memory and the boot data as they were.  On a
  FAT32 volume the root directory starts at cluster 2, runs of long-name slots stay inside a cluster, and the reserved bits of the
  table entries that lead on are clear.
\<close>

theorem missing_file_reported:
  assumes "fat_medium md desc disk start nsect bs fs cs" "dev_at cfg e md devname desc disk s"
    and "dir_room (volume_of bs fs []) s"
    and "root_name name" "root_find (\<lambda>b. disk (start + b)) bs fs cs name = None"
  shows "\<exists>t. osBoot_fat_fsload cfg e md devname ''0'' Offset name s = Some (3, 0, [], t) \<and> boot_data t = boot_data s"
proof -
  obtain u where u: "get_dev cfg e md devname 0 s = Some (Some desc, u)" "slot_kept u = slot_kept s" "dev_ready md desc disk u"
    using assms(2) by (auto simp: dev_at_def)
  then show ?thesis
    using fsload_missing [OF assms(1) u(1,3) _ assms(4,5), of Offset] assms(3) dir_room_slot [OF u(2)] slot_kept_boot_data [OF u(2)]
    by (auto simp: same_but_mount_def)
qed

theorem missing_file_reported_witness:
  "\<exists>t. osBoot_fat_fsload mx6sabresd_config strap_env card_media ''mmc'' ''0'' 0 (map of_char ''MNT.KEY'') slot_sys
    = Some (3, 0, [], t)"
proof -
  let ?d = "card_desc boot_card (mmc_block_dev boot_slot)"
  have "dev_at mx6sabresd_config strap_env card_media ''mmc'' ?d boot_disk slot_sys"
    using sd_slot.dev_at_fresh [OF card_media_slot boot_card_sound slot_sys_found(1) boot_slot_fresh]
    by (simp add: boot_card_fields STORAGE_DEV_NAME_MMC_def)
  moreover have "fat_medium card_media ?d boot_disk 1 20 boot_bs 12 []"
    using card_fat_medium [OF boot_card_sound _ boot_card_disk card_media_rest(2)] boot_slot_fresh [of boot_card]
    by (simp add: boot_card_fields fresh_slot_def)
  ultimately show ?thesis
    using missing_file_reported [OF _ _ slot_sys_found(3) boot_no_key(2,1)] by blast
qed

section \<open>The SD card\<close>

text \<open>
  C15.  The driver identifies the card.  For a card that keeps to the SD specification and whose registers tell its size, in
  a slot that has not been used, the first lookup resets it, negotiates the voltage, reads its registers, selects it and sets speed
  and width: it ends and returns a description with the card's number of blocks and the kind of its partition table, through which
  every block of the card can be read; a second lookup finds the slot as it is.
\<close>

theorem card_is_identified:
  assumes "sd_slot md c" and "card_sound c" and "find_mmc_device d s = Some mmc" and "fresh_slot e c mmc"
  shows "\<exists>t. get_dev cfg e md ''mmc'' d s = Some (Some (card_desc c (mmc_block_dev mmc)), t) \<and>
    slot_kept t = slot_kept s \<and> dev_ready md (card_desc c (mmc_block_dev mmc)) (card_disk c) t \<and>
    get_dev cfg e md ''mmc'' d t = Some (Some (card_desc c (mmc_block_dev mmc)), t)"
proof -
  obtain m t where t: "get_dev cfg e md ''mmc'' d s = Some (Some (card_desc c (mmc_block_dev mmc)), t)" "mmc_has_init m"
    "mmc_part_num m = 0" "mmc_block_dev m = card_desc c (mmc_block_dev mmc)" "card_answers md m (card_disk c)"
    "find_mmc_device d t = Some m" "slot_kept t = slot_kept s" "mmc_devices t = mmc_devices (store_mmc m s)" "selected t"
    using sd_slot.get_dev_fresh [OF assms, of cfg] by blast
  moreover have "dev_ready md (card_desc c (mmc_block_dev mmc)) (card_disk c) t"
    using t(4-6,9) assms(4) find_dev [OF assms(3)] by (simp add: dev_ready_def card_there_def fresh_slot_def)
  ultimately show ?thesis
    using sd_slot.get_dev_again [OF assms(1) t(6,2,3,8), of cfg e] by auto
qed

theorem card_is_identified_witness:
  "\<exists>desc t u. get_dev mx6sabresd_config strap_env card_media ''mmc'' 0 slot_sys = Some (Some desc, t) \<and>
    bd_lba desc = 1024 \<and> block_read mx6sabresd_config strap_env card_media desc 3 1 t = Some (1, boot_disk 3, u)"
proof -
  let ?d = "card_desc boot_card (mmc_block_dev boot_slot)"
  obtain t where t: "get_dev mx6sabresd_config strap_env card_media ''mmc'' 0 slot_sys = Some (Some ?d, t)"
    "dev_ready card_media ?d boot_disk t"
    using card_is_identified [OF card_media_slot boot_card_sound slot_sys_found(1) boot_slot_fresh, of mx6sabresd_config]
    by (auto simp: boot_card_fields)
  have "medium_answers card_media ?d boot_disk 512"
    using boot_slot_fresh [of boot_card] by (simp add: medium_answers_def fresh_slot_def boot_card_fields boot_disk_def)
  from readable_disk.read_ok [OF medium_readable [OF this] t(2), of 3 1 mx6sabresd_config strap_env]
  show ?thesis
    using t(1) by (auto simp: boot_card_fields sectors_1)
qed

text \<open>
  C16.  The list of slots stays well formed, whatever the cards answer.  In every state the operations lead to from the empty list
  (creating slots, looking devices up, selecting partitions, reading blocks), the slots have different numbers, their arrays have
  their lengths, and a slot marked as initialised has a block length from 1 to 512, which its description repeats, and the number
  of blocks its capacity gives.
\<close>

theorem slots_stay_well_formed:
  assumes "quiet_host md" and "slot_reach cfg e md n s"
  shows "slots_wf n s"
  by (rule quiet_host.reach_wf [OF assms])

theorem slots_stay_well_formed_witness:
  "\<exists>t. get_dev mx6sabresd_config strap_env boot_media ''mmc'' 0 slot_sys = Some (Some (card_desc boot_card (mmc_block_dev boot_slot)), t)
    \<and> slots_wf 1 t"
proof -
  obtain t where t: "get_dev mx6sabresd_config strap_env boot_media ''mmc'' 0 slot_sys
      = Some (Some (card_desc boot_card (mmc_block_dev boot_slot)), t)"
    using sd_slot.get_dev_fresh [OF boot_media_slot boot_card_sound slot_sys_found(1) boot_slot_fresh, of mx6sabresd_config]
    by (auto simp: boot_card_fields)
  have "slot_reach mx6sabresd_config strap_env boot_media 0 boot_sys"
    by (rule slot_reach.start) (simp add: boot_sys_def blank_slots)
  then have "slot_reach mx6sabresd_config strap_env boot_media 1 t"
    using slot_reach.lookup [OF slot_reach.create [OF _ slot_created] t] by blast
  moreover have "quiet_host boot_media"
    unfolding boot_media_def by (rule host.quiet_host_axioms)
  ultimately show ?thesis
    using slots_stay_well_formed t by blast
qed

text \<open>
  C17.  The capacity is the one the CSD register tells.  When the answer holds a CSD register, the capacity \<open>mmc_startup\<close> computes from its words,
  with masks and shifts in 32 and 64 bits, is the number of bytes the specification gives for the register's fields, for both versions of the
  register; nothing wraps, and the block length is the register's, cut at 512.
\<close>

theorem csd_capacity_is_specified:
  assumes "startup_csd mmc resp = Some m" and "map resp [0, 1, 2, 3] = csd_words csd" "mmc_csd mmc = csd_words csd"
  shows "unat (mmc_capacity_user m) = csd_bytes (mmc_high_capacity mmc) csd \<and>
    unat (mmc_read_bl_len m) = min 512 (2 ^ csd_field csd 80 4)"
  by (rule startup_csd_capacity [OF assms])

theorem csd_capacity_is_specified_witness:
  "\<exists>m. startup_csd (mmc_zero\<lparr>mmc_high_capacity := True, mmc_csd := csd_words 0x400e00325b59000039b77f800a400000\<rparr>)
      (\<lambda>i. csd_words 0x400e00325b59000039b77f800a400000 ! i) = Some m \<and> unat (mmc_capacity_user m) = 14776 * 524288"
proof -
  let ?csd = "0x400e00325b59000039b77f800a400000 :: 128 word"
  let ?m = "mmc_zero\<lparr>mmc_high_capacity := True, mmc_csd := csd_words ?csd\<rparr>" and ?r = "\<lambda>i. csd_words ?csd ! i"
  have words: "map ?r [0, 1, 2, 3] = csd_words ?csd"
    by (simp add: csd_words_def)
  have "startup_csd ?m ?r \<noteq> None"
    by (simp add: startup_csd_def fbase_def csd_words_nth Let_def)
  then obtain m where m: "startup_csd ?m ?r = Some m"
    by blast
  moreover have "csd_bytes True ?csd = 14776 * 524288"
    by (simp add: csd_bytes_def csd_field_def)
  ultimately show ?thesis
    using csd_capacity_is_specified [OF m words] by auto
qed

text \<open>
  C18.  A card that never gets ready is given up.  When the card answers that it is busy more than 1000 times after its reset, the
  loop of \<open>sd_send_op_cond\<close> ends, the lookup returns no device, and the slot is not marked as initialised.
\<close>

theorem busy_card_is_given_up:
  assumes "sd_slot md c" and "find_mmc_device d s = Some mmc" and "fresh_slot e c mmc" and "1000 < card_busy c"
  shows "\<exists>m t. get_dev cfg e md ''mmc'' d s = Some (None, t) \<and> find_mmc_device d t = Some m \<and> \<not> mmc_has_init m \<and>
    slot_kept t = slot_kept s"
  by (rule sd_slot.get_dev_busy [OF assms])

theorem busy_card_is_given_up_witness:
  "\<exists>t. get_dev mx6sabresd_config strap_env (media_with slow_card) ''mmc'' 0 slot_sys = Some (None, t)"
  using busy_card_is_given_up [OF media_with_slot slot_sys_found(1) boot_slot_fresh, of slow_card mx6sabresd_config]
  by (auto simp: slow_card_def boot_card_fields)

section \<open>The SD host controller\<close>



text \<open>
  C20.  Clock and width of the card's bus.  After \<open>esdhc_set_ios\<close> the clock is enabled, and with the dividers the registers then hold,
  read as the controller reads them, the card's clock is at most the clock of the slot (or the host's minimum where that is
  higher); the divisor is the smallest that achieves this with the prescaler chosen.  The width field is the width of the slot and
  the rest of that register is as it was.  The input clock fits a signed \<open>int\<close> and the dividers reach the request.
\<close>

theorem set_ios_programs_bus:
  assumes "clock_in_reach clk (asked_clock mmc)"
  shows "let p = esdhc_port (usdhc1 (esdhc_set_ios (usdhc_hw c lat) clk mmc s)) in
    bit (p Sysctl) 3 \<and>
    unat clk div (sd_prescaler (mmc_ddr_mode mmc) (p Sysctl) * sd_divisor (p Sysctl)) \<le> unat (asked_clock mmc) \<and>
    (sd_divisor (p Sysctl) = 1 \<or>
     unat (asked_clock mmc) < unat clk div (sd_prescaler (mmc_ddr_mode mmc) (p Sysctl) * (sd_divisor (p Sysctl) - 1))) \<and>
    p Proctl = (esdhc_port (usdhc1 s) Proctl AND NOT (PROCTL_DTW_4 OR PROCTL_DTW_8)) OR width_bits (mmc_bus_width mmc)"
  using set_ios_clock [OF assms(1) refl] set_ios_registers(3,4) [OF assms(1) refl] unfolding Let_def by blast

theorem set_ios_programs_bus_witness:
  "\<exists>n. 198000000 div n \<le> (25000000 :: nat) \<and>
    n = (let p = esdhc_port (usdhc1 (esdhc_set_ios (usdhc_hw boot_card sample_latency) 198000000 (boot_slot\<lparr>mmc_clock := 25000000\<rparr>) host_sys))
         in sd_prescaler False (p Sysctl) * sd_divisor (p Sysctl))"
proof -
  let ?m = "boot_slot\<lparr>mmc_clock := 25000000\<rparr>"
  have "asked_clock ?m = 25000000" "\<not> mmc_ddr_mode ?m"
    by (simp_all add: asked_clock_def boot_slot_def mmc_create_def host_config_def mmc_zero_def Let_def)
  moreover have "clock_in_reach 198000000 25000000"
    by (simp add: clock_in_reach_def)
  ultimately show ?thesis
    using set_ios_programs_bus [of 198000000 ?m boot_card sample_latency host_sys] by (auto simp: Let_def)
qed

text \<open>
  C21.  The registers of a transfer.  Before a read \<open>esdhc_setup_data\<close> writes the destination, the number and the length of
  the blocks, a watermark of at most 16 words, and a data timeout that lasts at least a quarter of a second at the clock of the
  slot, as the SD specification asks, and unless it is the shortest there is, at most twice that.  The clock is at most \<open>2 ^ 29\<close> Hz.
\<close>

theorem setup_data_programs_transfer:
  assumes "c_true (data_flags d AND MMC_DATA_READ)" "transferable (Some (data_blocks d, data_blocksize d))" "unat (mmc_clock mmc) \<le> 2 ^ 29"
  shows "\<exists>t k. esdhc_setup_data (usdhc_hw c lat) mmc d s = (0, t) \<and> kept t = kept s \<and>
    esdhc_port (usdhc1 t) Dsaddr = data_dest d \<and>
    drop_bit 16 (esdhc_port (usdhc1 t) Blkattr) = data_blocks d \<and> take_bit 13 (esdhc_port (usdhc1 t) Blkattr) = data_blocksize d \<and>
    unat (take_bit 8 (esdhc_port (usdhc1 t) Wml)) = min 16 (unat (data_blocksize d) div 4) \<and>
    k = unat (take_bit 4 (drop_bit 16 (esdhc_port (usdhc1 t) Sysctl))) \<and>
    unat (mmc_clock mmc) \<le> 4 * 2 ^ (k + 13) \<and> (k = 0 \<or> 4 * 2 ^ (k + 12) \<le> unat (mmc_clock mmc))"
  by (rule setup_data_registers [OF assms])

theorem setup_data_programs_transfer_witness:
  "\<exists>t k. esdhc_setup_data (usdhc_hw boot_card sample_latency) (boot_slot\<lparr>mmc_clock := 25000000\<rparr>)
      \<lparr>data_dest = 0x20000000, data_flags = MMC_DATA_READ, data_blocks = 8, data_blocksize = 512\<rparr> host_sys = (0, t) \<and>
    esdhc_port (usdhc1 t) Dsaddr = 0x20000000 \<and> (25000000 :: nat) \<le> 4 * 2 ^ (k + 13)"
  using setup_data_programs_transfer [of "\<lparr>data_dest = 0x20000000, data_flags = MMC_DATA_READ, data_blocks = 8, data_blocksize = 512\<rparr>"
      "boot_slot\<lparr>mmc_clock := 25000000\<rparr>" boot_card sample_latency host_sys]
  by (auto simp: MMC_DATA_READ_def c_true_def)

section \<open>USB storage\<close>

text \<open>
  C22.  The scan finds the stick.  A Bulk-Only disk with one logical unit, wherever it is among the other devices of the bus,
  is found as the only storage device, with the number of blocks, the block size, the kind of the partition table and the
  endpoints it has; nothing but the list of devices changes.
\<close>

theorem scan_finds_the_stick:
  assumes "stick bus us 0 target inq disk lba bsz" and "quiet_bus bus" "quiet_media md"
    and "bulk_device dev us" "\<And>s. fst (usb_get_max_lun bus us s) = 0"
    and "bus_devices bus (pre @ dev # post)" "length pre < USB_MAX_DEVICE"
      "list_all (\<lambda>d. no_storage (Some d)) pre" "list_all (\<lambda>d. no_storage (Some d)) post"
    and "512 \<le> unat bsz" "0 < unat lba"
  shows "\<exists>t. usb_stor_scan_bus cfg e bus (usb_read_media bus md) s = Some t \<and>
    usb_dev_desc t = [stick_desc 0 dev us 0 inq disk lba bsz] \<and> scan_kept t = scan_kept s"
proof -
  obtain t where t: "usb_stor_scan_bus cfg e bus (usb_read_media bus md) s = Some t"
    "usb_dev_desc t = [stick_desc 0 dev us 0 inq disk lba bsz]"
    using stick.scan_finds_stick [OF assms(1,4,5) refl assms(2,6-11)] by blast
  have "scan_kept t = scan_kept s"
    using quiet_media.usb_stor_scan_quiet [OF quiet_bus.usb_media_quiet [OF assms(2,3), of cfg e], of s t] t(1) by simp
  with t show ?thesis
    by blast
qed

theorem scan_finds_the_stick_witness:
  "\<exists>t. usb_stor_scan_bus mx6sabresd_config strap_env stick_bus (usb_read_media stick_bus boot_media) blank_sys = Some t \<and>
    usb_dev_desc t = [stick_desc 0 stick_device stick_us 0 (replicate 36 0) boot_disk 21 512]"
  using scan_finds_the_stick [OF stick_bus_stick _ boot_media_rest(1) stick_bus_devices(1-3), of mx6sabresd_config strap_env blank_sys]
    stick_bus_devices(4) target_bus.quiet_bus_axioms
  by (auto simp: stick_bus_def USB_MAX_DEVICE_def)

text \<open>
  C23.  A command succeeds only when the device says so.  Whatever happens on the bus, when the Bulk-Only transport returns
  0 the status block it read last carries the signature, the tag of this very command and the status "good".
\<close>

theorem transport_success_is_confirmed:
  assumes "quiet_bus bus" and "usb_stor_BBB_transport bus us srb s = (0, bytes, t)"
  shows "\<exists>s1 csw. bbb_status bus us 1 (stale_bytes bus 13 s1) s1 = (0, csw, t) \<and>
    dCSWSignature csw = CSWSIGNATURE \<and> dCSWTag csw = CBWTag s \<and> bCSWStatus csw = 0"
  by (rule quiet_bus.BBB_good_status [OF assms])

theorem transport_success_is_confirmed_witness:
  "\<exists>t csw. dCSWSignature csw = CSWSIGNATURE \<and> dCSWTag csw = CBWTag blank_sys \<and> bCSWStatus csw = 0 \<and>
    usb_stor_BBB_transport stick_bus stick_us (scsi_ccb SCSI_TST_U_RDY 0 [] 0) blank_sys = (0, [], t)"
proof -
  obtain t where t: "usb_stor_BBB_transport stick_bus stick_us (scsi_ccb SCSI_TST_U_RDY 0 [] 0) blank_sys = (0, [], t)"
    using bulk_unit.transport_good [OF stick.axioms(1) [OF stick_bus_stick] stick.unit_facts(5) [OF stick_bus_stick], of 0 blank_sys]
    by (auto simp: transport_def stick_us_def)
  then show ?thesis
    using transport_success_is_confirmed [of stick_bus, OF _ t] target_bus.quiet_bus_axioms by (auto simp: stick_bus_def)
qed

section \<open>The board's pins\<close>

text \<open>
  C24.  What \<open>setup_gpio\<close> leaves.  For each version of the board it detects, every pin the board uses as an
  input is an input, and every output drives its documented level: SD power on, USB power off (the
  polarity depends on the version), PHY held in reset, LCD powered, all LEDs off.
\<close>

theorem setup_gpio_leaves_documented_pins:
  "list_all (\<lambda>g. \<not> is_output (setup_gpio e s) g) (board_inputs (Board_Version (setup_gpio e s))) \<and>
   list_all (\<lambda>(g, b). pin_state (setup_gpio e s) g = (True, b)) (board_outputs (Board_Version (setup_gpio e s)))"
  using setup_gpio_pins [of e s] by simp

text \<open>
  C25.  The safety switches are readable.  After \<open>setup_gpio\<close> the pad of every deadman, enable and
  emergency switch of the detected board version is multiplexed to GPIO with a pull-down, and its pin is one of
  the board's inputs.
\<close>

theorem setup_gpio_safety_switches:
  "list_all (\<lambda>(g, pad). pad_is_set (setup_gpio e s) GPIO_PD_PAD_CTRL pad \<and>
      g \<in> set (board_inputs (Board_Version (setup_gpio e s))))
    (safety_switches (Board_Version (setup_gpio e s)))"
  by (rule setup_gpio_safety)

text \<open>
  C26.  The version of the board.  The detection always ends with version 1, 2 or 3 and leaves the
  USB power pin driving the OFF level of that version, whatever the pins read; with stable pins the
  version is the one the two straps encode.
\<close>

theorem version_detection:
  "Board_Version (setup_gpio_io_fast e s) \<in> {1, 2, 3} \<and>
   pin_state (setup_gpio_io_fast e s) (IMX_GPIO_NR 2 10) = (True, Board_Version (setup_gpio_io_fast e s) \<noteq> 1) \<and>
   ((\<forall>s. bit (gpio_psr e s 1) 10 = b2) \<and> (\<forall>s. bit (gpio_psr e s 3) 5 = b3) \<longrightarrow>
     Board_Version (setup_gpio_io_fast e s) = (if \<not> b2 then 1 else if b3 then 2 else 3))"
  using setup_gpio_io_fast_pins [of e s] setup_gpio_io_fast_stable [of e b2 b3 s] by blast

theorem version_detection_witness: "Board_Version (setup_gpio_io_fast strap_env blank_sys) = 3"
  using version_detection [of strap_env blank_sys True False] by (simp add: strap_env_def bit_simps)

text \<open>
  C27.  The GPIO driver.  After any sequence of direction and value calls on existing pins, the direction
  and data bit of every pin are what replaying the calls on that pin alone gives: no call disturbs
  another pin, although the pins of a bank share their registers.
\<close>

theorem gpio_calls_independent:
  assumes "valid_gpio h" and "list_all (\<lambda>c. valid_gpio (call_pin c)) cs"
  shows "pin_state (gpio_run cs s) h = fold (pin_effect h) cs (pin_state s h)"
  using assms by (rule gpio_run_pin)

theorem gpio_calls_independent_witness:
  "pin_state (gpio_run [Direction_output 5 1, Direction_input 6, Direction_output 7 1, Set_value 5 0] blank_sys) 5
    = (True, False)"
  using gpio_calls_independent [of 5 "[Direction_output 5 1, Direction_input 6, Direction_output 7 1, Set_value 5 0]" blank_sys]
  by (cases "pin_state blank_sys 5") (simp add: valid_gpio_less c_true_def)

text \<open>
  C28.  A pad descriptor is unpacked to the writes it was packed from: the multiplexer mode, the
  input selection and, unless the control word carries \<open>NO_PAD_CTRL\<close>, the pad control.
\<close>

theorem setup_pad_unpacks_descriptor:
  assumes "pco < 2 ^ 12" "mco < 2 ^ 12" "mm < 2 ^ 5" "sio < 2 ^ 12" "si < 2 ^ 4" "ctl < 2 ^ 18"
  shows "imx_iomux_v3_setup_pad (IOMUX_PAD pco mco mm sio si 0 OR MUX_PAD_CTRL ctl) s
    = (let s = iomux_write mco mm s;
           s = iomux_write sio si s
       in if c_true (ctl AND NO_PAD_CTRL) then s else iomux_write pco ctl s)"
  using assms by (rule setup_pad_writes)

theorem setup_pad_unpacks_descriptor_witness:
  "readl (IOMUXC_BASE_ADDR + 0x24C)
     (imx_iomux_v3_setup_pad (IOMUX_PAD 0x61C 0x24C 5 0 0 0 OR MUX_PAD_CTRL 0x130B0) blank_sys) = 5"
  using setup_pad_unpacks_descriptor [of "0x61C" "0x24C" 5 0 0 "0x130B0" blank_sys]
  by (simp add: iomux_write_def c_true_def readl_def writel_def NO_PAD_CTRL_def Let_def)

section \<open>EBOOT and the argument area\<close>

text \<open>
  C29.  EBOOT in RAM is EBOOT in flash.  \<open>load_eboot\<close> returns 0, the 512 KiB at
  0x10041000 become those of the NOR flash, the boot information and everything else outside that
  area keep their contents, and the jump address lies inside it.
\<close>

theorem load_eboot_copies_flash:
  "fst (load_eboot s) = 0 \<and> eboot_ready (mem s) (mem (snd (load_eboot s))) \<and>
   boot_info_of cfg (mem (snd (load_eboot s))) = boot_info_of cfg (mem s) \<and>
   (\<forall>a. \<not> in_region IMAGE_EBOOT_RAM_BASE_ADDR IMAGE_BOOT_EBOOTIMAGE_NOR_SIZE a \<longrightarrow>
      mem (snd (load_eboot s)) a = mem s a) \<and>
   in_region IMAGE_EBOOT_RAM_BASE_ADDR IMAGE_BOOT_EBOOTIMAGE_NOR_SIZE IMAGE_EBOOT_JUMP_ADDR"
  using eboot_copy load_eboot_boot_info load_eboot_outside
  by (simp add: eboot_ready_def) (simp add: load_eboot_def in_region_def layout_defs)

theorem load_eboot_copies_flash_witness:
  "mem (snd (load_eboot (blank_sys\<lparr>mem := (\<lambda>_. 7)\<rparr>))) 0x10001000 = 7"
  using load_eboot_copies_flash [of "blank_sys\<lparr>mem := (\<lambda>_. 7)\<rparr>" mx6sabresd_config]
  by (simp add: in_region_def layout_defs)

text \<open>
  C30.  Mode 8 is granted by the key file only.  When \<open>osBoot_Mode_8\<close> ends, the argument area
  holds mode 8 if the read of \<open>MNT.KEY\<close> from the SD card succeeded and mode 0 otherwise, with no error and NOR as
  the boot device; nothing outside the area has changed.
\<close>

theorem mode_8_needs_key_file:
  assumes "quiet_media md" and "osBoot_Mode_8 cfg e md fn 8 s = Some (r, t)" and "versions_ok cfg s"
  shows "\<exists>ret n bytes u. osBoot_fat_fsload cfg e md STORAGE_DEV_NAME_MMC STORAGE_DEV_NUM_MMC fn TEST_TEXT_FILENAME
        (TimerInit e 250 s) = Some (ret, n, bytes, u) \<and>
    boot_info_of cfg (mem t) = (boot_info_of cfg (mem s))
        \<lparr>bi_bootMode := (if ret = 0 then 8 else 0), bi_errorCode := ERROR_PP_BL_NO_ERROR,
         bi_bootDevice := BOOT_DEVICE_NOR, bi_strage := 0, bi_osImageSize := 0,
         bi_boardVersion := Board_Version s,
         bi_AllowBootVersion := (if BSP_SUPPORT_VERCHK cfg then Allow_Boot_Version s else [])\<rparr> \<and>
    (\<forall>a. \<not> in_boot_info cfg a \<longrightarrow> mem t a = mem s a)"
  using quiet_media.osBoot_Mode_8_report [OF assms] by metis

theorem mode_8_needs_key_file_witness:
  "\<exists>r t. osBoot_Mode_8 mx6sabresd_config strap_env no_media 0 8 blank_sys = Some (r, t) \<and>
    bi_errorCode (boot_info_of mx6sabresd_config (mem t)) = ERROR_PP_BL_NO_ERROR"
proof -
  obtain r t where run: "osBoot_Mode_8 mx6sabresd_config strap_env no_media 0 8 blank_sys = Some (r, t)"
    using mode_8_no_media by auto
  have "versions_ok mx6sabresd_config blank_sys"
    by (simp add: versions_ok_def mx6sabresd_config_def)
  then show ?thesis
    using mode_8_needs_key_file [OF no_media_quiet run] run by auto
qed

text \<open>
  C31.  Without media the pendant still starts.  In modes 1, 2, 4 and 5 with no USB stick and no card in any slot
  the flow ends, reports error 1 with the SD card as the medium, and the reported image size is whatever
  the uninitialised local variable held.
\<close>

theorem no_media_reports_error:
  assumes "quiet_media md" and "\<And>s. \<exists>t. go_usb_start md s = Some t \<and> usb_dev_desc t = []"
    and "slot_empty e s" and "mode \<in> {1, 2, 4, 5}"
  shows "\<exists>t. osBoot_Mode_1245 cfg e md fn stack mode s = Some (0, t) \<and>
    bi_errorCode (boot_info_of cfg (mem t)) = ERROR_PP_BL_NO_USB_SD \<and>
    bi_strage (boot_info_of cfg (mem t)) = BOOT_STORAGE_SD \<and>
    bi_bootMode (boot_info_of cfg (mem t)) = mode \<and>
    bi_osImageSize (boot_info_of cfg (mem t)) = stack"
proof -
  obtain u where u: "osBoot_Mode_1245 cfg e md fn stack mode s
      = Some (0, (search_leds cfg 0 0 u)\<lparr>mem := report_1245 cfg (boot_dev s) mode
          ((first_locals stack)\<lparr>bootMedia := BOOT_STORAGE_SD, errCode := ERROR_PP_BL_NO_USB_SD\<rparr>) u\<rparr>)"
    using osBoot_Mode_1245_no_media [OF assms] by blast
  show ?thesis
    by (intro exI conjI, rule u) (simp_all add: first_locals_def report_1245_words)
qed

theorem no_media_reports_error_witness:
  "\<exists>t. osBoot_Mode_1245 mx6sabresd_config strap_env no_media 0 0xdeadbeef 2 blank_sys = Some (0, t) \<and>
    bi_errorCode (boot_info_of mx6sabresd_config (mem t)) = ERROR_PP_BL_NO_USB_SD \<and>
    bi_osImageSize (boot_info_of mx6sabresd_config (mem t)) = 0xdeadbeef"
  using no_media_reports_error [OF no_media_quiet no_media_usb blank_slots(2), where mode = 2 and cfg = mx6sabresd_config
      and e = strap_env and fn = 0 and stack = "0xdeadbeef"] by auto

section \<open>Buzzer, backlight, LEDs\<close>

text \<open>
  C32.  The PWM parameters are exact.  For every period that fits an \<open>int\<close> and any duty within it, the 64-bit and 32-bit
  computation of \<open>pwm_imx_get_parms\<close> never wraps.  The timer counts the value of its period register plus 2: this sum is the quotient
  of input clocks and prescaler, or 2 where the quotient is smaller.  The duty is the share of the quotient that the duty time is of
  the period time, and is at most the period of the timer (the register alone it may exceed, by 2).  The period fits the 16 bits
  of its register; the prescaler is the smallest that achieves this, and fits its 12 bits.
\<close>

theorem pwm_parameters_exact:
  assumes "0 < p" "p < 2 ^ 31" "d \<le> p"
  defines "cyc \<equiv> 66000000 * p div 1000000000"
  shows "\<exists>period_c duty_c prescale. pwm_imx_get_parms (int p) (int d) = (period_c, duty_c, prescale) \<and>
    unat prescale = cyc div 0x10000 + 1 \<and> unat prescale \<le> 0x1000 \<and>
    unat period_c + 2 = max 2 (cyc div unat prescale) \<and> unat period_c < 0x10000 \<and>
    unat duty_c = cyc div unat prescale * d div p \<and> unat duty_c \<le> unat period_c + 2"
proof -
  define pre where "pre = cyc div 0x10000 + 1"
  define q where "q = cyc div pre"
  have exact: "pwm_imx_get_parms (int p) (int d) = (of_nat (q - 2), of_nat (q * d div p), of_nat pre)"
    "q < 0x10000" "pre \<le> 0x1000" "q * d div p \<le> q"
    using pwm_parms_exact [OF assms(1-3), folded cyc_def, folded pre_def, folded q_def] by blast+
  have "unat (of_nat n :: u32) = n" if "n < 0x10000" for n
    using that by (simp add: unat_of_nat)
  then have u: "unat (of_nat pre :: u32) = pre" "unat (of_nat (q - 2) :: u32) = q - 2" "unat (of_nat (q * d div p) :: u32) = q * d div p"
    using exact(2-4) by simp_all
  have bounds: "q - 2 + 2 = max 2 q" "q - 2 < 0x10000" "q * d div p \<le> max 2 q"
    using exact(2,4) by (auto simp: max_def)
  show ?thesis
    by (intro exI conjI, rule exact(1)) (simp_all only: u pre_def [symmetric] q_def [symmetric] bounds exact(3))
qed

theorem pwm_parameters_exact_witness:
  "pwm_imx_get_parms 10000000 5000000 = (59998, 30000, 11)"
  using pwm_parameters_exact [of 10000000 5000000] by (auto simp: word_unat_eq_iff)

text \<open>
  C33.  The blink counter stays in range.  Starting with \<open>ledCount\<close> between 0 and 3, any number of
  calls of the LED hook from the storage drivers keeps it there, so the hook always addresses one of
  the four patterns.
\<close>

theorem led_counter_in_range:
  assumes "0 \<le> ledCount s" "ledCount s \<le> 3"
  shows "0 \<le> ledCount ((osBoot_LED_Blink cfg e ^^ n) s) \<and> ledCount ((osBoot_LED_Blink cfg e ^^ n) s) \<le> 3"
  using assms osBoot_LED_Blink_count by (induction n) simp_all

theorem led_counter_in_range_witness:
  "ledCount ((osBoot_LED_Blink mx6sabresd_config strap_env ^^ 100) blank_sys) \<le> 3"
  using led_counter_in_range [where s = blank_sys and cfg = mx6sabresd_config and e = strap_env and n = 100] by (simp add: blank_sys_def)

section \<open>Divergences\<close>

text \<open>
  C34.  A long reference text overruns the array.  When the text read from the USB stick has more than
  128 bytes, or exactly 128 without a line end, modes 1, 2, 4 and 5 leave the bounds of \<open>FileName\<close>.
\<close>

theorem long_reference_text_overruns:
  assumes "go_usb_start md (TimerInit e 250 (search_leds cfg 1 0 s)) = Some u"
    and "osBoot_fat_fsload cfg e md STORAGE_DEV_NAME_USB STORAGE_DEV_NUM_USB fn INST_TEXT_FILENAME u
      = Some (ret, n, bytes, t)"
    and "length bytes > 128 \<or> length bytes = 128 \<and> ret = 0 \<and> \<not> list_ex line_end bytes"
  shows "osBoot_Mode_1245 cfg e md fn stack mode s = None"
proof -
  have "length (FileName (first_locals stack)) = 128"
    by (simp add: first_locals_def)
  then have "search_usb cfg e md fn (first_locals stack) (TimerInit e 250 (search_leds cfg 1 0 s)) = None"
    using search_usb_overrun [OF assms(1,2), of "first_locals stack"] assms(3) by simp
  then show ?thesis
    by (simp add: osBoot_Mode_1245_def first_locals_def Let_def)
qed

theorem long_reference_text_overruns_witness:
  "osBoot_Mode_1245 mx6sabresd_config strap_env long_text_media 0 0 1 boot_sys = None"
proof -
  have "go_usb_start long_text_media s \<noteq> None" for s
    by (simp add: go_usb_start_def long_text_media_def image_media_def)
  then obtain u where u: "go_usb_start long_text_media (TimerInit strap_env 250 (search_leds mx6sabresd_config 1 0 boot_sys)) = Some u"
    by blast
  show ?thesis
    using long_text_read long_reference_text_overruns [OF u] by (force simp: u)
qed

text \<open>
  C35.  \<open>setup_usb\<close> takes a safety switch away.  On boards of version 1 and 2 the pad of the first deadman
  switch (\<open>ENET_RX_ER\<close>, GPIO1_24), which \<open>setup_gpio\<close> has just multiplexed to GPIO, is
  multiplexed to \<open>USB_OTG_ID\<close> by the \<open>setup_usb\<close> that follows it in \<open>board_init\<close>: its mode register is
  no longer the one of the GPIO function.
\<close>

theorem setup_usb_takes_deadman_pad:
  "(IMX_GPIO_NR 1 24, MX6_PAD_ENET_RX_ER__GPIO1_IO24) \<in> set (safety_switches 1) \<inter> set (safety_switches 2) \<and>
   pad_is_set (setup_usb s) NO_PAD_CTRL MX6_PAD_ENET_RX_ER__USB_OTG_ID \<and>
   \<not> pad_is_set (setup_usb s) GPIO_PD_PAD_CTRL MX6_PAD_ENET_RX_ER__GPIO1_IO24"
proof -
  have usb: "readl (IOMUXC_BASE_ADDR + ofs) (setup_usb s)
      = (case map_of (rev (table_writes usb_hc1_pads)) ofs of Some v \<Rightarrow> v
         | None \<Rightarrow> (case map_of (rev (table_writes usb_otg_pads)) ofs of Some v \<Rightarrow> v
                    | None \<Rightarrow> mmio s (IOMUXC_BASE_ADDR + ofs)))" if "ofs \<noteq> 4" for ofs
    using that
    by (simp add: setup_usb_def readl_def setup_multiple_pads_apply_writes mmio_apply_writes
        imx_iomux_set_gpr_register_def writel_def Let_def split: option.splits)
  have ctl: "USDHC_PAD_CTRL = 0x17059"
    by (simp add: board_pad_ctrl_defs pad_ctl_defs)
  show ?thesis
    by (simp add: safety_switches_def pad_is_set_def usb table_compute ctl usb_hc1_pads_def usb_otg_pads_def)
qed

text \<open>
  C36.  A failing read of the table goes unnoticed.  When the device answers a read with 0 blocks,
  \<open>get_fatent_load\<close> reports success and marks the buffer as holding the requested part of the table, with the old contents.
\<close>

theorem failed_fat_read_is_accepted:
  assumes "cur_dev s = Some dev" and "bufnum \<noteq> fatbufnum my"
    and "\<And>b n. block_read cfg e md dev b n s = Some (0, [], t)"
  shows "get_fatent_load cfg e md my bufnum s = Some (0, my\<lparr>fatbufnum := bufnum\<rparr>, t)"
  using assms by (simp add: get_fatent_load_def disk_read_def store_at_def Let_def)

theorem failed_fat_read_is_accepted_witness:
  "get_fatent_load mx6sabresd_config strap_env no_media tiny_volume 0 (blank_sys\<lparr>cur_dev := Some (usb_desc 512 0)\<rparr>)
    = Some (0, tiny_volume\<lparr>fatbufnum := 0\<rparr>, blank_sys\<lparr>cur_dev := Some (usb_desc 512 0)\<rparr>)"
proof -
  let ?s = "blank_sys\<lparr>cur_dev := Some (usb_desc 512 0)\<rparr>"
  have "block_read mx6sabresd_config strap_env no_media (usb_desc 512 0) b n ?s = Some (0, [], ?s)" for b n
    by (simp add: block_read_def usb_stor_read_def us_of_def usb_desc_def sd_desc_def blank_sys_def)
  then show ?thesis
    using failed_fat_read_is_accepted [of ?s "usb_desc 512 0" 0 tiny_volume mx6sabresd_config strap_env no_media ?s] by simp
qed

text \<open>
  C37.  The boot device is never decoded.  \<open>board_init\<close> leaves \<open>boot_dev\<close> as it was, whatever the boot
  mode register says; \<open>setup_boot_device\<close>, which decodes it, is not part of it.
\<close>

theorem board_init_ignores_boot_fuses:
  assumes "\<And>s. boot_data (setup_i2c s) = boot_data s"
  shows "boot_dev (snd (board_init cfg e setup_i2c (s\<lparr>mmio := r\<rparr>))) = boot_dev s"
proof -
  obtain v where "boot_data (snd (board_init cfg e setup_i2c (s\<lparr>mmio := r\<rparr>)))
      = with_version v (boot_data (SetupBootMode cfg e (s\<lparr>mmio := r\<rparr>)))"
    using setup_gpio_boot_data by (simp add: board_init_def Let_def assms)
  then have "boot_dev (snd (board_init cfg e setup_i2c (s\<lparr>mmio := r\<rparr>))) = boot_dev (SetupBootMode cfg e (s\<lparr>mmio := r\<rparr>))"
    by (simp add: boot_data_def with_version_def)
  then show ?thesis
    by (simp add: SetupBootMode_boot_dev)
qed

theorem board_init_ignores_boot_fuses_witness:
  "boot_dev (snd (board_init mx6sabresd_config strap_env id (blank_sys\<lparr>mmio := (\<lambda>_. 0x40)\<rparr>))) = WEIM_NOR_BOOT \<and>
   boot_dev (setup_boot_device (blank_sys\<lparr>mmio := (\<lambda>_. 0x40)\<rparr>)) = SD_BOOT"
  using board_init_ignores_boot_fuses [where setup_i2c = id and cfg = mx6sabresd_config and e = strap_env
      and s = blank_sys and r = "\<lambda>_. 0x40"]
  by (simp add: setup_boot_device_def readl_def blank_sys_def Let_def)

text \<open>
  C38.  A stick that does not tell its capacity gets a wrong one.  When \<open>READ CAPACITY\<close> fails four times, the
  driver means to assume 2880 blocks of 512 bytes, but the two values are byte-swapped afterwards: it records 1074462721 blocks of 131072
  bytes.
\<close>

theorem capacity_fallback_is_swapped:
  assumes "usb_inquiry bus us (bd_lun d) 5 (stale_bytes bus 36 s) s = (0, inq, s1)"
    and "inq ! 0 AND 0x1f \<noteq> 0x1f" "inq ! 0 AND 0x1f \<noteq> 0x0d"
    and "usb_test_unit_ready bus us (bd_lun d) 11 s1 = (0, s2)"
    and "usb_read_capacity bus us (bd_lun d) 4 (replicate 8 0) s2 = (r, cap, s3)" "r \<noteq> 0"
    and "usb_stor_get_info cfg e bus md dev us d s = Some (n, d', t)"
  shows "n = 1 \<and> bd_lba d' = 1074462721 \<and> bd_blksz d' = 131072"
  using capacity_fallback [OF assms] by simp

theorem capacity_fallback_is_swapped_witness:
  "\<exists>d' t. usb_stor_get_info mx6sabresd_config strap_env mute_bus boot_media stick_device stick_us (new_desc 5 stick_us 0) blank_sys
    = Some (1, d', t) \<and> bd_blksz d' = 131072"
proof -
  obtain s1 s2 r cap s3 n d' t where s: "usb_inquiry mute_bus stick_us 0 5 (stale_bytes mute_bus 36 blank_sys) blank_sys = (0, replicate 36 0, s1)"
    "usb_test_unit_ready mute_bus stick_us 0 11 s1 = (0, s2)" "usb_read_capacity mute_bus stick_us 0 4 (replicate 8 0) s2 = (r, cap, s3)" "r \<noteq> 0"
    and run: "usb_stor_get_info mx6sabresd_config strap_env mute_bus boot_media stick_device stick_us (new_desc 5 stick_us 0) blank_sys = Some (n, d', t)"
    using mute_info by blast
  have "bd_lun (new_desc 5 stick_us 0) = 0"
    by (simp add: new_desc_def)
  then show ?thesis
    using capacity_fallback_is_swapped [OF _ _ _ _ _ s(4) run, of "replicate 36 0" s1 s2 cap s3] s(1-3) run by simp
qed

text \<open>
  C39.  A reserved speed unit leaves the table.  The unit of TRAN_SPEED is three bits of the card's answer, but \<open>fbase\<close> has four entries:
  for a card whose CSD register has one of the reserved units 4 to 7, the lookup reads outside the table.
\<close>

theorem reserved_speed_unit_leaves_table:
  assumes "sd_slot md c" and "find_mmc_device d s = Some mmc" and "fresh_slot e c mmc" and "card_busy c \<le> 1000"
    and "4 \<le> csd_field (card_csd c) 96 3"
  shows "get_dev cfg e md ''mmc'' d s = None"
  by (rule sd_slot.get_dev_reserved [OF assms])

theorem reserved_speed_unit_leaves_table_witness:
  "get_dev mx6sabresd_config strap_env (media_with odd_card) ''mmc'' 0 slot_sys = None"
  using reserved_speed_unit_leaves_table [OF media_with_slot slot_sys_found(1) boot_slot_fresh, of odd_card mx6sabresd_config]
    odd_card_fields by blast



end
